(* ===== verification/Prelude.thy ===== *)
theory Prelude
  imports Complex_Main
begin

section \<open>Prelude: results, tables, decimals, strings\<close>

text \<open>
  What every component shares.
  \<^item> Errors are values: \<open>'a res\<close> is \<open>error + 'a\<close>. The codebase raises
    \<^verbatim>\<open>ValueError(CODE)\<close> and \<^verbatim>\<open>ServiceOSException(CODE, ...)\<close>; SQLAlchemy raises
    \<^verbatim>\<open>MultipleResultsFound\<close> out of \<^verbatim>\<open>scalar_one_or_none\<close> and \<^verbatim>\<open>DBAPIError\<close> on a violated
    constraint or lock; \<^verbatim>\<open>Decimal(text)\<close> raises \<^verbatim>\<open>InvalidOperation\<close>; reading an attribute of
    \<^verbatim>\<open>None\<close> raises \<^verbatim>\<open>AttributeError\<close>.
  \<^item> A database table is the list of its rows in insertion order (\<^verbatim>\<open>created_at\<close> order).
    \<open>one_or_none\<close> is \<^verbatim>\<open>Result.scalar_one_or_none\<close>, \<open>first_row\<close> is
    \<^verbatim>\<open>scalars().first()\<close>, \<open>update_where\<close> is an \<^verbatim>\<open>UPDATE ... WHERE\<close> (or the assignment
    to the attributes of a loaded row).
  \<^item> \<^verbatim>\<open>decimal.Decimal\<close> is an exact rational; \<^verbatim>\<open>quantize\<close> is written out with its
    rounding mode (the default context rounds half to even).
  \<^item> A UUID is a natural number, \<^verbatim>\<open>str(uuid)\<close> is \<open>str_uuid\<close>, an injective rendering;
    \<^verbatim>\<open>uuid.uuid4()\<close> draws the next unused number of the session.
  \<^item> A \<open>date\<close> is its proleptic ordinal (\<^verbatim>\<open>date.toordinal()\<close>); a \<open>time\<close> is an instant.
\<close>

subsection \<open>Types\<close>

type_synonym uuid = nat
type_synonym decimal = rat
type_synonym time = int
type_synonym date = int

datatype error =
    ValueError string
  | ServiceOSException string
  | MultipleResultsFound
  | DBAPIError
  | InvalidOperation
  | AttributeError

type_synonym 'a res = "error + 'a"

named_theorems res_simps "results and their composition"
named_theorems table_simps "queries and updates of tables"
named_theorems round_simps "rounding of decimals"

subsection \<open>Results\<close>

definition bind_res :: "'a res \<Rightarrow> ('a \<Rightarrow> 'b res) \<Rightarrow> 'b res" where
  "bind_res m k = (case m of Inl e \<Rightarrow> Inl e | Inr x \<Rightarrow> k x)"

lemma bind_res_simps [simp]:
  "bind_res (Inl e) k = Inl e"
  "bind_res (Inr x) k = k x"
  by (simp_all add: bind_res_def)

lemma bind_res_Inr [res_simps]:
  "bind_res m k = Inr y \<longleftrightarrow> (\<exists>x. m = Inr x \<and> k x = Inr y)"
  by (cases m) auto

lemma bind_res_Inl [res_simps]:
  "bind_res m k = Inl e \<longleftrightarrow> m = Inl e \<or> (\<exists>x. m = Inr x \<and> k x = Inl e)"
  by (cases m) auto

lemma bind_res_cong [fundef_cong]:
  "m = m' \<Longrightarrow> (\<And>x. m' = Inr x \<Longrightarrow> k x = k' x) \<Longrightarrow> bind_res m k = bind_res m' k'"
  by (cases m') auto

text \<open>The loaded row of a query that must exist: \<^verbatim>\<open>if not row: raise ...\<close>.\<close>

definition require :: "error \<Rightarrow> 'a option \<Rightarrow> 'a res" where
  "require e r = (case r of None \<Rightarrow> Inl e | Some x \<Rightarrow> Inr x)"

lemma require_simps [simp]:
  "require e None = Inl e"
  "require e (Some x) = Inr x"
  by (simp_all add: require_def)

lemma require_Inr [res_simps]: "require e r = Inr x \<longleftrightarrow> r = Some x"
  by (cases r) auto

text \<open>\<^verbatim>\<open>x is not None and p(x)\<close>.\<close>

definition given :: "'a option \<Rightarrow> ('a \<Rightarrow> bool) \<Rightarrow> bool" where
  "given x p = (case x of None \<Rightarrow> False | Some v \<Rightarrow> p v)"

lemma given_simps [simp]:
  "\<not> given None p"
  "given (Some v) p = p v"
  by (simp_all add: given_def)

text \<open>\<^verbatim>\<open>if key:\<close> on an optional string: neither \<^verbatim>\<open>None\<close> nor the empty string.\<close>

definition truthy :: "string option \<Rightarrow> bool" where
  "truthy k \<longleftrightarrow> (case k of None \<Rightarrow> False | Some s \<Rightarrow> s \<noteq> [])"

lemma truthy_simps [simp]:
  "\<not> truthy None"
  "truthy (Some s) \<longleftrightarrow> s \<noteq> []"
  by (simp_all add: truthy_def)

text \<open>\<^verbatim>\<open>not s or not s.strip()\<close>: the string is empty or white space only.\<close>

definition py_space :: "char \<Rightarrow> bool" where
  "py_space c \<longleftrightarrow> of_char c \<in> {9, 10, 11, 12, 13, 28, 29, 30, 31, 32, 133, 160 :: nat}"

definition blank :: "string \<Rightarrow> bool" where
  "blank s \<longleftrightarrow> list_all py_space s"

lemma blank_Nil [simp]: "blank []"
  by (simp add: blank_def)

subsection \<open>Tables\<close>

definition one_or_none :: "'a list \<Rightarrow> 'a option res" where
  "one_or_none xs = (case xs of [] \<Rightarrow> Inr None | [x] \<Rightarrow> Inr (Some x) | _ \<Rightarrow> Inl MultipleResultsFound)"

lemma one_or_none_simps [simp]:
  "one_or_none [] = Inr None"
  "one_or_none [x] = Inr (Some x)"
  "one_or_none (x # y # zs) = Inl MultipleResultsFound"
  by (simp_all add: one_or_none_def)

lemma one_or_none_Some [table_simps]: "one_or_none xs = Inr (Some x) \<longleftrightarrow> xs = [x]"
  by (auto simp: one_or_none_def split: list.splits)

lemma one_or_none_None [table_simps]: "one_or_none xs = Inr None \<longleftrightarrow> xs = []"
  by (auto simp: one_or_none_def split: list.splits)

definition first_row :: "'a list \<Rightarrow> 'a option" where
  "first_row xs = (case xs of [] \<Rightarrow> None | x # _ \<Rightarrow> Some x)"

lemma first_row_simps [simp]:
  "first_row [] = None"
  "first_row (x # xs) = Some x"
  by (simp_all add: first_row_def)

lemma first_row_Some_set: "first_row xs = Some x \<Longrightarrow> x \<in> set xs"
  by (cases xs) auto

lemma first_row_None [table_simps]: "first_row xs = None \<longleftrightarrow> xs = []"
  by (cases xs) auto

definition update_where :: "('a \<Rightarrow> bool) \<Rightarrow> ('a \<Rightarrow> 'a) \<Rightarrow> 'a list \<Rightarrow> 'a list" where
  "update_where p f xs = map (\<lambda>r. if p r then f r else r) xs"

lemma update_where_simps [simp]:
  "update_where p f [] = []"
  "update_where p f (x # xs) = (if p x then f x else x) # update_where p f xs"
  by (simp_all add: update_where_def)

lemma update_where_append [simp]:
  "update_where p f (xs @ ys) = update_where p f xs @ update_where p f ys"
  by (simp add: update_where_def)

lemma length_update_where [simp]: "length (update_where p f xs) = length xs"
  by (simp add: update_where_def)

lemma update_where_none: "\<forall>x \<in> set xs. \<not> p x \<Longrightarrow> update_where p f xs = xs"
  by (induction xs) auto

lemma map_update_where_key:
  "(\<And>x. p x \<Longrightarrow> g (f x) = g x) \<Longrightarrow> map g (update_where p f xs) = map g xs"
  by (induction xs) auto

lemma set_update_where:
  "set (update_where p f xs) = {x \<in> set xs. \<not> p x} \<union> f ` {x \<in> set xs. p x}"
  by (auto simp: update_where_def)

lemma filter_update_where_other:
  "(\<And>x. p x \<Longrightarrow> \<not> q x) \<Longrightarrow> (\<And>x. p x \<Longrightarrow> \<not> q (f x)) \<Longrightarrow> filter q (update_where p f xs) = filter q xs"
  by (induction xs) auto

lemma filter_update_where_same:
  "(\<And>x. p x \<Longrightarrow> q (f x) = q x) \<Longrightarrow>
   filter q (update_where p f xs) = update_where p f (filter q xs)"
  by (induction xs) auto

lemma first_row_update_where:
  "first_row (filter q (update_where p f xs)) = map_option (\<lambda>x. if p x then f x else x) (first_row (filter q xs))"
  if "\<And>x. p x \<Longrightarrow> q (f x) = q x"
  using that by (induction xs) auto

lemma first_row_append: "first_row (xs @ ys) = (case first_row xs of None \<Rightarrow> first_row ys | Some x \<Rightarrow> Some x)"
  by (cases xs) auto

lemma find_first_row: "find p xs = first_row (filter p xs)"
  by (induction xs) auto

lemma length_filter_mono: "(\<And>x. P x \<Longrightarrow> Q x) \<Longrightarrow> length (filter P xs) \<le> length (filter Q xs)"
  by (induction xs) (auto simp: le_SucI)

lemma filter_key_single:
  "distinct (map k xs) \<Longrightarrow> x \<in> set xs \<Longrightarrow> filter (\<lambda>r. k r = k x) xs = [x]"
proof (induction xs)
  case Nil
  then show ?case by simp
next
  case (Cons y ys)
  show ?case
  proof (cases "x = y")
    case True
    with Cons.prems have "\<forall>r \<in> set ys. k r \<noteq> k x" by (auto simp: image_iff)
    with True show ?thesis by (simp add: filter_empty_conv)
  next
    case False
    with Cons.prems have "x \<in> set ys" and "k y \<noteq> k x" by auto
    with Cons show ?thesis by simp
  qed
qed

lemma filter_eq_single_mem: "filter p xs = [x] \<Longrightarrow> x \<in> set xs \<and> p x"
proof -
  assume "filter p xs = [x]"
  then have "x \<in> set (filter p xs)" by simp
  then show ?thesis by simp
qed

text \<open>A unique optional key: at most one row has it, so the query for it never fails.\<close>

lemma filter_truthy_key_unique:
  assumes "distinct (filter truthy (map k xs))" and "truthy key" and "x \<in> set xs" and "k x = key"
  shows "filter (\<lambda>r. k r = key) xs = [x]"
  using assms
proof (induction xs)
  case Nil
  then show ?case by simp
next
  case (Cons y ys)
  show ?case
  proof (cases "k y = key")
    case True
    with Cons.prems have "key \<notin> k ` set ys" by (auto split: if_splits)
    with Cons.prems True show ?thesis by (auto simp: filter_empty_conv image_iff)
  next
    case False
    with Cons show ?thesis by (auto split: if_splits)
  qed
qed

lemma one_or_none_truthy_key:
  assumes "distinct (filter truthy (map k xs))" and "truthy key"
  shows "\<exists>r. one_or_none (filter (\<lambda>x. k x = key) xs) = Inr r"
proof (cases "filter (\<lambda>x. k x = key) xs")
  case Nil
  then show ?thesis by simp
next
  case (Cons x zs)
  then have "x \<in> set (filter (\<lambda>x. k x = key) xs)" by simp
  then have "filter (\<lambda>x. k x = key) xs = [x]"
    using filter_truthy_key_unique [OF assms] by simp
  then show ?thesis by simp
qed

subsection \<open>Decimals and rounding\<close>

text \<open>
  \<^verbatim>\<open>ROUND_HALF_EVEN\<close>, the rounding of \<^verbatim>\<open>Decimal.quantize\<close> when no mode is given, and
  \<^verbatim>\<open>ROUND_HALF_UP\<close> (ties away from zero).
\<close>

definition half_even :: "decimal \<Rightarrow> int" where
  "half_even x =
     (let f = \<lfloor>x\<rfloor>; d = x - of_int f
      in if d < 1/2 then f else if d > 1/2 then f + 1 else if even f then f else f + 1)"

definition half_up :: "decimal \<Rightarrow> int" where
  "half_up x = (if 0 \<le> x then \<lfloor>x + 1/2\<rfloor> else - \<lfloor>1/2 - x\<rfloor>)"

text \<open>\<^verbatim>\<open>x.quantize(Decimal("0.01"))\<close> and the same with \<^verbatim>\<open>rounding=ROUND_HALF_UP\<close>.\<close>

definition quantize2 :: "decimal \<Rightarrow> decimal" where
  "quantize2 x = of_int (half_even (x * 100)) / 100"

definition quantize2_up :: "decimal \<Rightarrow> decimal" where
  "quantize2_up x = of_int (half_up (x * 100)) / 100"

lemma half_even_error [round_simps]: "\<bar>of_int (half_even x) - x\<bar> \<le> 1/2"
proof -
  have "of_int \<lfloor>x\<rfloor> \<le> x" and "x < of_int \<lfloor>x\<rfloor> + 1" by linarith+
  then show ?thesis by (auto simp: half_even_def Let_def abs_le_iff)
qed

lemma half_up_error [round_simps]: "\<bar>of_int (half_up x) - x\<bar> \<le> 1/2"
proof -
  have "of_int \<lfloor>x + 1/2\<rfloor> \<le> x + 1/2" "x + 1/2 < of_int \<lfloor>x + 1/2\<rfloor> + 1"
    "of_int \<lfloor>1/2 - x\<rfloor> \<le> 1/2 - x" "1/2 - x < of_int \<lfloor>1/2 - x\<rfloor> + 1" by linarith+
  then show ?thesis unfolding half_up_def abs_le_iff by (cases "0 \<le> x"; simp; linarith)
qed

lemma half_even_of_int [simp]: "half_even (of_int n) = n"
  by (simp add: half_even_def Let_def)

lemma half_up_of_int [simp]: "half_up (of_int n) = n"
proof (cases "0 \<le> n")
  case True
  have "\<lfloor>(of_int n :: rat) + 1/2\<rfloor> = n" by linarith
  with True show ?thesis by (simp add: half_up_def)
next
  case False
  have "\<lfloor>1/2 - (of_int n :: rat)\<rfloor> = - n" by linarith
  with False show ?thesis by (simp add: half_up_def)
qed

text \<open>Evaluation on literals.\<close>

lemma floor_rat_numeral_div [simp]: "\<lfloor>numeral a / numeral b :: rat\<rfloor> = numeral a div numeral b"
  by (metis floor_divide_of_int_eq of_int_numeral)

lemma half_up_numeral [simp]: "half_up (numeral n) = numeral n"
  and half_even_numeral [simp]: "half_even (numeral n) = numeral n"
  using half_up_of_int [of "numeral n"] half_even_of_int [of "numeral n"] by simp_all

lemma half_up_0 [simp]: "half_up 0 = 0" and half_even_0 [simp]: "half_even 0 = 0"
  using half_up_of_int [of 0] half_even_of_int [of 0] by simp_all

lemma half_even_nonneg: "0 \<le> x \<Longrightarrow> 0 \<le> half_even x"
proof -
  assume "0 \<le> x"
  then have "0 \<le> \<lfloor>x\<rfloor>" by simp
  then show ?thesis by (simp add: half_even_def Let_def)
qed

lemma half_up_nonneg: "0 \<le> x \<Longrightarrow> 0 \<le> half_up x"
proof -
  assume "0 \<le> x"
  moreover from this have "0 \<le> \<lfloor>x + 1/2\<rfloor>" by simp
  ultimately show ?thesis by (simp add: half_up_def)
qed

lemma half_up_mono: "x \<le> y \<Longrightarrow> half_up x \<le> half_up y"
proof -
  assume le: "x \<le> y"
  consider "0 \<le> x" | "x < 0" "0 \<le> y" | "y < 0" by linarith
  then show ?thesis
  proof cases
    case 1
    with le have "\<lfloor>x + 1/2\<rfloor> \<le> \<lfloor>y + 1/2\<rfloor>" by (simp add: floor_mono)
    with 1 le show ?thesis by (simp add: half_up_def)
  next
    case 2
    then have "half_up x \<le> 0" by (simp add: half_up_def)
    moreover from 2 have "0 \<le> half_up y" by (simp add: half_up_nonneg)
    ultimately show ?thesis by linarith
  next
    case 3
    with le have "\<lfloor>1/2 - y\<rfloor> \<le> \<lfloor>1/2 - x\<rfloor>" by (simp add: floor_mono)
    with 3 le show ?thesis by (simp add: half_up_def)
  qed
qed

lemma quantize2_nonneg: "0 \<le> x \<Longrightarrow> 0 \<le> quantize2 x"
  by (simp add: quantize2_def half_even_nonneg)

lemma quantize2_up_nonneg: "0 \<le> x \<Longrightarrow> 0 \<le> quantize2_up x"
  by (simp add: quantize2_up_def half_up_nonneg)

lemma quantize2_0 [simp]: "quantize2 0 = 0" and quantize2_up_0 [simp]: "quantize2_up 0 = 0"
  by (simp_all add: quantize2_def quantize2_up_def)

lemma quantize2_numeral [simp]: "quantize2 (numeral n) = numeral n" and quantize2_1 [simp]: "quantize2 1 = 1"
proof -
  have "half_even (of_int (numeral n * 100)) = numeral n * 100" "half_even (of_int 100) = 100"
    by (simp_all only: half_even_of_int)
  then show "quantize2 (numeral n) = numeral n" "quantize2 1 = 1" by (simp_all add: quantize2_def mult.commute)
qed

lemma quantize2_error: "\<bar>quantize2 x - x\<bar> \<le> 1/200"
proof -
  have "quantize2 x - x = (of_int (half_even (x * 100)) - x * 100) / 100"
    by (simp add: quantize2_def field_simps)
  then have "\<bar>quantize2 x - x\<bar> = \<bar>of_int (half_even (x * 100)) - x * 100\<bar> / 100"
    by (simp only: abs_divide abs_numeral)
  also have "\<dots> \<le> (1/2) / 100" by (intro divide_right_mono half_even_error) simp
  finally show ?thesis by simp
qed

subsection \<open>Rendering of identifiers\<close>

fun str_nat :: "nat \<Rightarrow> string" where
  "str_nat n = (if n < 10 then [char_of (48 + n)] else str_nat (n div 10) @ [char_of (48 + n mod 10)])"

declare str_nat.simps [simp del]

abbreviation str_uuid :: "uuid \<Rightarrow> string" where
  "str_uuid \<equiv> str_nat"

definition str_int :: "int \<Rightarrow> string" where
  "str_int i = (if i < 0 then CHR ''-'' # str_nat (nat (- i)) else str_nat (nat i))"

definition nat_of_str :: "string \<Rightarrow> nat" where
  "nat_of_str = foldl (\<lambda>v c. 10 * v + (of_char c - 48)) 0"

lemma nat_of_str_snoc: "nat_of_str (s @ [c]) = 10 * nat_of_str s + (of_char c - 48)"
  by (simp add: nat_of_str_def)

lemma nat_of_str_str_nat [simp]: "nat_of_str (str_nat n) = n"
proof (induction n rule: str_nat.induct)
  case (1 n)
  show ?case
  proof (cases "n < 10")
    case True
    then show ?thesis by (simp add: str_nat.simps [of n] nat_of_str_def)
  next
    case False
    with 1 have "nat_of_str (str_nat (n div 10)) = n div 10" by simp
    with False show ?thesis by (simp add: str_nat.simps [of n] nat_of_str_snoc)
  qed
qed

lemma str_nat_inject [simp]: "str_nat m = str_nat n \<longleftrightarrow> m = n"
  by (metis nat_of_str_str_nat)

lemma str_nat_not_Nil [simp]: "str_nat n \<noteq> []"
  by (simp add: str_nat.simps [of n])

lemma last_str_nat: "\<exists>pre. str_nat n = pre @ [char_of (48 + n mod 10)]"
proof (cases "n < 10")
  case True
  then show ?thesis by (simp add: str_nat.simps [of n])
next
  case False
  then show ?thesis by (subst str_nat.simps) auto
qed

text \<open>\<^verbatim>\<open>s.endswith(suffix)\<close>.\<close>

definition endswith :: "string \<Rightarrow> string \<Rightarrow> bool" where
  "endswith s suf \<longleftrightarrow> length suf \<le> length s \<and> drop (length s - length suf) s = suf"

lemma endswith_append [simp]: "endswith (xs @ suf) suf"
  by (simp add: endswith_def)

lemma endswith_last: "endswith s suf \<Longrightarrow> suf \<noteq> [] \<Longrightarrow> last s = last suf"
  by (metis append_take_drop_id endswith_def last_appendR)

lemma str_nat_not_endswith:
  assumes "suf \<noteq> []" and "of_char (last suf) \<notin> {48..57 :: nat}"
  shows "\<not> endswith (pre @ str_nat n) suf"
proof
  assume "endswith (pre @ str_nat n) suf"
  then have "last (str_nat n) = last suf" using assms(1) endswith_last by fastforce
  moreover obtain q where "str_nat n = q @ [char_of (48 + n mod 10)]" using last_str_nat by blast
  ultimately have "last suf = char_of (48 + n mod 10)" by simp
  then have "of_char (last suf) = (48 + n mod 10) mod (256 :: nat)" by simp
  then show False using assms(2) by simp
qed

subsection \<open>Decimal literals\<close>

text \<open>
  \<^verbatim>\<open>Decimal(text)\<close>: white space around and underscores inside are dropped; a sign, digits with an
  optional point, an optional exponent. The non-finite literals (\<^verbatim>\<open>NaN\<close>, \<^verbatim>\<open>Infinity\<close>) have no
  rational value and count as not numeric.
\<close>

definition is_digit :: "char \<Rightarrow> bool" where
  "is_digit c \<longleftrightarrow> 48 \<le> (of_char c :: nat) \<and> (of_char c :: nat) \<le> 57"

definition strip :: "string \<Rightarrow> string" where
  "strip s = rev (dropWhile py_space (rev (dropWhile py_space s)))"

definition split_sign :: "string \<Rightarrow> bool \<times> string" where
  "split_sign s = (case s of [] \<Rightarrow> (False, [])
     | c # r \<Rightarrow> if c = CHR ''-'' then (True, r) else if c = CHR ''+'' then (False, r) else (False, s))"

definition parse_exponent :: "string \<Rightarrow> int option" where
  "parse_exponent s = (case s of [] \<Rightarrow> Some 0
     | c # r \<Rightarrow> if c = CHR ''e'' \<or> c = CHR ''E'' then
         (let (neg, ds) = split_sign r in
          if ds \<noteq> [] \<and> list_all is_digit ds
          then Some (if neg then - int (nat_of_str ds) else int (nat_of_str ds)) else None)
       else None)"

definition scale10 :: "decimal \<Rightarrow> int \<Rightarrow> decimal" where
  "scale10 x e = (if 0 \<le> e then x * 10 ^ nat e else x / 10 ^ nat (- e))"

definition parse_decimal :: "string \<Rightarrow> decimal option" where
  "parse_decimal text =
     (let (neg, s) = split_sign (filter (\<lambda>c. c \<noteq> CHR ''_'') (strip text));
          ip = takeWhile is_digit s;
          r1 = dropWhile is_digit s;
          (fp, r2) = (case r1 of [] \<Rightarrow> ([], [])
             | c # r \<Rightarrow> if c = CHR ''.'' then (takeWhile is_digit r, dropWhile is_digit r) else ([], r1));
          mant = of_nat (nat_of_str (ip @ fp)) / 10 ^ length fp
      in if ip = [] \<and> fp = [] then None
         else map_option (scale10 (if neg then - mant else mant)) (parse_exponent r2))"

end
