(* ===== verification/Interfaces.thy ===== *)
theory Interfaces
  imports Prelude
begin

section \<open>Interfaces between components\<close>

text \<open>
  The contracts the components rely on, each a locale whose assumptions the providing theory
  discharges for its own definitions:
  \<^item> \<open>posting_ledger\<close>: a balance that only moves together with the ledger that explains it
    (the tenant wallet, the usage credits); \<open>solvent_ledger\<close> adds that it never goes negative;
  \<^item> \<open>keyed_posting\<close>: a write guarded by an idempotency key happens once;
  \<^item> \<open>guarded_records\<close>: records whose status only moves along a fixed graph (quotes, invoices).
\<close>

subsection \<open>Ledgers\<close>

locale posting_ledger =
  fixes inv :: "'s \<Rightarrow> bool"
    and bal :: "'s \<Rightarrow> 'k \<Rightarrow> decimal"
    and total :: "'s \<Rightarrow> 'k \<Rightarrow> decimal"
    and post :: "'s \<Rightarrow> 's \<Rightarrow> bool"
  assumes post_inv: "inv s \<Longrightarrow> post s t \<Longrightarrow> inv t"
    and post_moves: "inv s \<Longrightarrow> post s t \<Longrightarrow> bal t k - bal s k = total t k - total s k"
begin

lemma run_inv: "post\<^sup>*\<^sup>* s t \<Longrightarrow> inv s \<Longrightarrow> inv t"
  by (induction rule: rtranclp_induct) (auto intro: post_inv)

lemma run_moves: "post\<^sup>*\<^sup>* s t \<Longrightarrow> inv s \<Longrightarrow> bal t k - bal s k = total t k - total s k"
proof (induction rule: rtranclp_induct)
  case base
  show ?case by simp
next
  case (step t u)
  with run_inv have "bal u k - bal t k = total u k - total t k" by (blast intro: post_moves)
  with step show ?case by linarith
qed

lemma run_reconciled: "post\<^sup>*\<^sup>* s t \<Longrightarrow> inv s \<Longrightarrow> bal s k = total s k \<Longrightarrow> bal t k = total t k"
  using run_moves [of s t k] by linarith

end

locale solvent_ledger = posting_ledger +
  assumes inv_nonneg: "inv s \<Longrightarrow> 0 \<le> bal s k"
begin

lemma run_nonneg: "post\<^sup>*\<^sup>* s t \<Longrightarrow> inv s \<Longrightarrow> 0 \<le> bal t k"
  using run_inv inv_nonneg by blast

lemma run_total_nonneg: "post\<^sup>*\<^sup>* s t \<Longrightarrow> inv s \<Longrightarrow> bal s k = total s k \<Longrightarrow> 0 \<le> total t k"
  using run_reconciled [of s t k] run_nonneg [of s t k] by simp

end

subsection \<open>Idempotency keys\<close>

locale keyed_posting =
  fixes inv :: "'s \<Rightarrow> bool"
    and post :: "'s \<Rightarrow> 's \<Rightarrow> bool"
    and recorded :: "'s \<Rightarrow> 'key \<Rightarrow> 'e \<Rightarrow> bool"
    and call :: "'s \<Rightarrow> 'key \<Rightarrow> 's \<Rightarrow> 'e \<Rightarrow> bool"
  assumes keyed_inv: "inv s \<Longrightarrow> post s t \<Longrightarrow> inv t"
    and call_post: "inv s \<Longrightarrow> call s k t e \<Longrightarrow> post s t"
    and recorded_kept: "inv s \<Longrightarrow> post s t \<Longrightarrow> recorded s k e \<Longrightarrow> recorded t k e"
    and call_records: "inv s \<Longrightarrow> call s k t e \<Longrightarrow> recorded t k e"
    and call_replays: "inv s \<Longrightarrow> recorded s k e \<Longrightarrow> call s k t e' \<Longrightarrow> t = s \<and> e' = e"
begin

lemma run_keyed_inv: "post\<^sup>*\<^sup>* s t \<Longrightarrow> inv s \<Longrightarrow> inv t"
  by (induction rule: rtranclp_induct) (auto intro: keyed_inv)

lemma run_recorded: "post\<^sup>*\<^sup>* s t \<Longrightarrow> inv s \<Longrightarrow> recorded s k e \<Longrightarrow> recorded t k e"
proof (induction rule: rtranclp_induct)
  case base
  then show ?case by simp
next
  case (step t u)
  with run_keyed_inv show ?case by (blast intro: recorded_kept)
qed

text \<open>Whatever runs in between, a second call with the same key changes nothing.\<close>

lemma second_call_no_effect:
  assumes "inv s" and "call s k t e" and "post\<^sup>*\<^sup>* t u" and "call u k v e'"
  shows "v = u \<and> e' = e"
proof -
  from assms(1,2) have "inv t" by (blast intro: keyed_inv call_post)
  moreover from assms(1,2) have "recorded t k e" by (rule call_records)
  ultimately have "inv u" "recorded u k e" using assms(3) run_keyed_inv run_recorded by blast+
  then show ?thesis using assms(4) by (rule call_replays)
qed

end

subsection \<open>Status graphs\<close>

locale guarded_records =
  fixes edges :: "'st \<Rightarrow> 'st list"
    and final :: "'st \<Rightarrow> bool"
    and inv :: "'s \<Rightarrow> bool"
    and status :: "'s \<Rightarrow> 'id \<Rightarrow> 'st option"
    and step :: "'s \<Rightarrow> 's \<Rightarrow> bool"
  assumes final_no_edges: "final a \<Longrightarrow> edges a = []"
    and step_guard_inv: "inv s \<Longrightarrow> step s t \<Longrightarrow> inv t"
    and step_along: "inv s \<Longrightarrow> step s t \<Longrightarrow> status s i = Some a \<Longrightarrow>
      \<exists>b. status t i = Some b \<and> (b = a \<or> b \<in> set (edges a))"
begin

lemma run_guard_inv: "step\<^sup>*\<^sup>* s t \<Longrightarrow> inv s \<Longrightarrow> inv t"
  by (induction rule: rtranclp_induct) (auto intro: step_guard_inv)

lemma run_along:
  "step\<^sup>*\<^sup>* s t \<Longrightarrow> inv s \<Longrightarrow> status s i = Some a \<Longrightarrow>
   \<exists>b. status t i = Some b \<and> (\<lambda>x y. y \<in> set (edges x))\<^sup>*\<^sup>* a b"
proof (induction rule: rtranclp_induct)
  case base
  then show ?case by blast
next
  case (step t u)
  then obtain b where b: "status t i = Some b" "(\<lambda>x y. y \<in> set (edges x))\<^sup>*\<^sup>* a b" by blast
  from step have "inv t" by (blast intro: run_guard_inv)
  with step.hyps(2) b(1) obtain c where "status u i = Some c" "c = b \<or> c \<in> set (edges b)"
    by (blast dest: step_along)
  with b(2) show ?case by (blast intro: rtranclp.rtrancl_into_rtrancl)
qed

lemma final_forever:
  assumes "step\<^sup>*\<^sup>* s t" "inv s" "status s i = Some a" "final a"
  shows "status t i = Some a"
proof -
  from run_along [OF assms(1-3)] obtain b
    where b: "status t i = Some b" "(\<lambda>x y. y \<in> set (edges x))\<^sup>*\<^sup>* a b" by blast
  from b(2) final_no_edges [OF assms(4)] have "b = a"
    by (auto elim: converse_rtranclpE)
  with b(1) show ?thesis by simp
qed

end

end
