(* ===== verification/Ledger.thy ===== *)
theory Ledger
  imports Interfaces
begin

section \<open>The wallet ledger (platform_commerce/ledger.py, invoice_payment/wallet_service.py)\<close>

text \<open>
  The tenant wallet and its append-only ledger. \<open>ledger_db\<close> holds the tables the module reads
  and writes; later components extend the record. \<open>wallet_locks\<close> and \<open>customer_locks\<close> name the
  rows another transaction holds, so that \<^verbatim>\<open>SELECT ... FOR UPDATE NOWAIT\<close> can fail. The functions
  do not commit: they return the new state, and an \<open>Inl\<close> leaves the caller with the old one.
  The state machine \<open>wallet_step\<close> collects what can happen to the tables, and the locales
  \<open>posting_ledger\<close> and \<open>solvent_ledger\<close> are the contract the ledger gives to its clients.
\<close>

subsection \<open>Data (platform_commerce/models.py)\<close>

record wallet =
  w_tenant_id :: uuid
  credit_balance :: decimal
  lifetime_purchased :: decimal
  lifetime_consumed :: decimal
  last_transaction_at :: "time option"
  reserved_balance :: decimal
  low_balance_threshold :: "decimal option"
  w_is_active :: bool

record wallet_txn =
  t_id :: uuid
  t_tenant_id :: uuid
  txn_type :: string
  t_amount :: decimal
  balance_before :: decimal
  balance_after :: decimal
  reference_id :: "string option"
  reference_type :: "string option"
  t_idempotency_key :: "string option"
  t_description :: "string option"
  t_actor_id :: "uuid option"

record customer_credit_balance =
  cb_customer_id :: uuid
  cb_tenant_id :: uuid
  cb_credit_balance :: decimal
  cb_reserved_amount :: decimal
  cb_lifetime_consumed :: decimal

record customer_txn =
  ct_customer_id :: uuid
  ct_tenant_id :: uuid
  ct_txn_type :: string
  ct_amount :: decimal
  ct_balance_before :: decimal
  ct_balance_after :: decimal
  ct_reference_id :: "string option"
  ct_description :: "string option"
  ct_idempotency_key :: "string option"

record ledger_db =
  next_uuid :: nat
  tenant_wallets :: "wallet list"
  wallet_transactions :: "wallet_txn list"
  wallet_locks :: "uuid list"
  customer_balances :: "customer_credit_balance list"
  customer_transactions :: "customer_txn list"
  customer_locks :: "(uuid \<times> uuid) list"

definition available_balance :: "customer_credit_balance \<Rightarrow> decimal" where
  "available_balance b = cb_credit_balance b - cb_reserved_amount b"

definition new_wallet :: "uuid \<Rightarrow> wallet" where
  "new_wallet tid = \<lparr>w_tenant_id = tid, credit_balance = 0, lifetime_purchased = 0,
     lifetime_consumed = 0, last_transaction_at = None, reserved_balance = 0,
     low_balance_threshold = None, w_is_active = True\<rparr>"

subsection \<open>Operations\<close>

abbreviation wallets_of :: "'a ledger_db_scheme \<Rightarrow> uuid \<Rightarrow> wallet list" where
  "wallets_of s tid \<equiv> filter (\<lambda>w. w_tenant_id w = tid) (tenant_wallets s)"

definition get_wallet_locked ::
  "'a ledger_db_scheme \<Rightarrow> uuid \<Rightarrow> ('a ledger_db_scheme \<times> wallet) res" where
  "get_wallet_locked s tid =
     (if wallets_of s tid \<noteq> [] \<and> tid \<in> set (wallet_locks s)
      then Inl (ServiceOSException ''CONFLICT'')
      else bind_res (one_or_none (wallets_of s tid)) (\<lambda>row.
        case row of
          None \<Rightarrow> Inr (s\<lparr>tenant_wallets := tenant_wallets s @ [new_wallet tid]\<rparr>, new_wallet tid)
        | Some w \<Rightarrow> Inr (s, w)))"

definition txn_by_key :: "'a ledger_db_scheme \<Rightarrow> string option \<Rightarrow> wallet_txn option res" where
  "txn_by_key s key =
     (if truthy key
      then one_or_none (filter (\<lambda>t. t_idempotency_key t = key) (wallet_transactions s))
      else Inr None)"

definition debit_wallet ::
  "'a ledger_db_scheme \<Rightarrow> uuid \<Rightarrow> decimal option \<Rightarrow> string \<Rightarrow> string option \<Rightarrow> string option \<Rightarrow>
   string option \<Rightarrow> uuid option \<Rightarrow> string option \<Rightarrow> time \<Rightarrow> ('a ledger_db_scheme \<times> wallet_txn) res"
where
  "debit_wallet s tid amount ttype ref_id ref_type descr actor key now =
     (case amount of
        None \<Rightarrow> Inl (ServiceOSException ''INVALID_LEDGER_AMOUNT'')
      | Some a \<Rightarrow>
        if a \<le> 0 then Inl (ServiceOSException ''INVALID_LEDGER_AMOUNT'')
        else bind_res (txn_by_key s key) (\<lambda>existing.
          case existing of
            Some t \<Rightarrow> Inr (s, t)
          | None \<Rightarrow> bind_res (get_wallet_locked s tid) (\<lambda>(s1, w).
              if credit_balance w < a then Inl (ServiceOSException ''COMMISSION_WALLET_EMPTY'')
              else
                let bal = credit_balance w - a;
                    txn = \<lparr>t_id = next_uuid s1, t_tenant_id = tid, txn_type = ttype, t_amount = - a,
                           balance_before = credit_balance w, balance_after = bal,
                           reference_id = ref_id, reference_type = ref_type,
                           t_idempotency_key = key, t_description = descr, t_actor_id = actor\<rparr>
                in Inr (s1\<lparr>tenant_wallets := update_where (\<lambda>r. w_tenant_id r = tid)
                               (\<lambda>r. r\<lparr>credit_balance := bal,
                                      lifetime_consumed := lifetime_consumed r + a,
                                      last_transaction_at := Some now\<rparr>) (tenant_wallets s1),
                             wallet_transactions := wallet_transactions s1 @ [txn],
                             next_uuid := Suc (next_uuid s1)\<rparr>, txn))))"

definition credit_wallet ::
  "'a ledger_db_scheme \<Rightarrow> uuid \<Rightarrow> decimal option \<Rightarrow> string \<Rightarrow> string option \<Rightarrow> string option \<Rightarrow>
   string option \<Rightarrow> uuid option \<Rightarrow> string option \<Rightarrow> time \<Rightarrow> ('a ledger_db_scheme \<times> wallet_txn) res"
where
  "credit_wallet s tid amount ttype ref_id ref_type descr actor key now =
     (case amount of
        None \<Rightarrow> Inl (ServiceOSException ''INVALID_LEDGER_AMOUNT'')
      | Some a \<Rightarrow>
        if a \<le> 0 then Inl (ServiceOSException ''INVALID_LEDGER_AMOUNT'')
        else bind_res (txn_by_key s key) (\<lambda>existing.
          case existing of
            Some t \<Rightarrow> Inr (s, t)
          | None \<Rightarrow> bind_res (get_wallet_locked s tid) (\<lambda>(s1, w).
                let bal = credit_balance w + a;
                    txn = \<lparr>t_id = next_uuid s1, t_tenant_id = tid, txn_type = ttype, t_amount = a,
                           balance_before = credit_balance w, balance_after = bal,
                           reference_id = ref_id, reference_type = ref_type,
                           t_idempotency_key = key, t_description = descr, t_actor_id = actor\<rparr>
                in Inr (s1\<lparr>tenant_wallets := update_where (\<lambda>r. w_tenant_id r = tid)
                               (\<lambda>r. r\<lparr>credit_balance := bal,
                                      lifetime_purchased := lifetime_purchased r + a,
                                      last_transaction_at := Some now\<rparr>) (tenant_wallets s1),
                             wallet_transactions := wallet_transactions s1 @ [txn],
                             next_uuid := Suc (next_uuid s1)\<rparr>, txn))))"

record reconciliation =
  rec_matches :: bool
  rec_ledger_sum :: decimal
  rec_wallet_balance :: decimal
  rec_diff :: decimal

definition ledger_sum :: "'a ledger_db_scheme \<Rightarrow> uuid \<Rightarrow> decimal" where
  "ledger_sum s tid =
     sum_list (map t_amount (filter (\<lambda>t. t_tenant_id t = tid) (wallet_transactions s)))"

definition reconcile_wallet :: "'a ledger_db_scheme \<Rightarrow> uuid \<Rightarrow> reconciliation res" where
  "reconcile_wallet s tid =
     bind_res (one_or_none (wallets_of s tid)) (\<lambda>row.
       let lsum = ledger_sum s tid;
           bal = (case row of None \<Rightarrow> 0 | Some w \<Rightarrow> credit_balance w);
           mismatch = (\<bar>lsum - bal\<bar> > 1 / 10000)
       in Inr \<lparr>rec_matches = (\<not> mismatch), rec_ledger_sum = lsum, rec_wallet_balance = bal,
               rec_diff = \<bar>lsum - bal\<bar>\<rparr>)"

text \<open>
  \<open>debit_customer_balance\<close> reads the same query result twice on an idempotency hit. What the
  driver answers to the second read of an exhausted result is not the program's: it is the
  argument \<open>reread\<close>.
\<close>

definition debit_customer_balance ::
  "customer_txn option res \<Rightarrow> 'a ledger_db_scheme \<Rightarrow> uuid \<Rightarrow> uuid \<Rightarrow> decimal \<Rightarrow> string \<Rightarrow>
   string option \<Rightarrow> string option \<Rightarrow> string option \<Rightarrow>
   ('a ledger_db_scheme \<times> customer_txn option) res"
where
  "debit_customer_balance reread s cid tid a ttype ref_id descr key =
     bind_res (if truthy key
               then one_or_none (filter (\<lambda>t. ct_idempotency_key t = key) (customer_transactions s))
               else Inr None) (\<lambda>existing.
       if existing \<noteq> None then bind_res reread (\<lambda>t. Inr (s, t))
       else
         let rows = filter (\<lambda>b. cb_customer_id b = cid \<and> cb_tenant_id b = tid) (customer_balances s)
         in if rows \<noteq> [] \<and> (cid, tid) \<in> set (customer_locks s) then Inl DBAPIError
            else bind_res (one_or_none rows) (\<lambda>row.
              case row of
                None \<Rightarrow> Inl (ServiceOSException ''NOT_FOUND'')
              | Some b \<Rightarrow>
                if available_balance b < a then Inl (ServiceOSException ''PLAN_LIMIT_EXCEEDED'')
                else
                  let bal = cb_credit_balance b - a;
                      txn = \<lparr>ct_customer_id = cid, ct_tenant_id = tid, ct_txn_type = ttype,
                             ct_amount = - a, ct_balance_before = cb_credit_balance b,
                             ct_balance_after = bal, ct_reference_id = ref_id,
                             ct_description = descr, ct_idempotency_key = key\<rparr>
                  in Inr (s\<lparr>customer_balances :=
                               update_where (\<lambda>r. cb_customer_id r = cid \<and> cb_tenant_id r = tid)
                                 (\<lambda>r. r\<lparr>cb_credit_balance := bal,
                                        cb_lifetime_consumed := cb_lifetime_consumed r + a\<rparr>)
                                 (customer_balances s),
                             customer_transactions := customer_transactions s @ [txn]\<rparr>, Some txn)))"

text \<open>The wallet service is a thin client: it commits what the ledger functions return.\<close>

definition get_wallet :: "'a ledger_db_scheme \<Rightarrow> uuid \<Rightarrow> wallet res" where
  "get_wallet s tid =
     bind_res (one_or_none (wallets_of s tid)) (require (ValueError ''WALLET_NOT_FOUND''))"

definition ensure_wallet_exists ::
  "'a ledger_db_scheme \<Rightarrow> uuid \<Rightarrow> ('a ledger_db_scheme \<times> wallet) res" where
  "ensure_wallet_exists s tid = get_wallet_locked s tid"

definition get_ledger :: "'a ledger_db_scheme \<Rightarrow> uuid \<Rightarrow> nat \<Rightarrow> wallet_txn list" where
  "get_ledger s tid limit =
     take limit (rev (filter (\<lambda>t. t_tenant_id t = tid) (wallet_transactions s)))"

definition list_all_wallets :: "'a ledger_db_scheme \<Rightarrow> nat \<Rightarrow> nat \<Rightarrow> wallet list" where
  "list_all_wallets s limit offset = take (min limit 500) (drop offset (rev (tenant_wallets s)))"

text \<open>\<open>repr\<close> is \<^verbatim>\<open>str\<close> of the float amount, which the idempotency key is built from.\<close>

definition admin_credit ::
  "(decimal \<Rightarrow> string) \<Rightarrow> 'a ledger_db_scheme \<Rightarrow> uuid \<Rightarrow> decimal \<Rightarrow> string \<Rightarrow> uuid \<Rightarrow> time \<Rightarrow>
   ('a ledger_db_scheme \<times> wallet_txn) res" where
  "admin_credit repr s tid a reason admin now =
     credit_wallet s tid (Some a) ''admin_adjustment'' None (Some ''admin_adjustment'')
       (Some reason) (Some admin)
       (Some (''admin-credit-'' @ str_uuid tid @ ''-'' @ repr a)) now"

subsection \<open>Abstract view and invariant\<close>

text \<open>
  A client sees a balance per tenant and the list of entries. \<open>posted s tid d s' t\<close> is the
  specification of one posting: the balance of \<open>tid\<close> moves by \<open>d\<close>, one entry that records the
  move is appended, and nothing else of the abstract state changes.
\<close>

definition wallet_bal :: "'a ledger_db_scheme \<Rightarrow> uuid \<Rightarrow> decimal" where
  "wallet_bal s tid = (case wallets_of s tid of [] \<Rightarrow> 0 | w # _ \<Rightarrow> credit_balance w)"

definition posted ::
  "'a ledger_db_scheme \<Rightarrow> uuid \<Rightarrow> decimal \<Rightarrow> 'a ledger_db_scheme \<Rightarrow> wallet_txn \<Rightarrow> bool" where
  "posted s tid d s' t \<longleftrightarrow>
     wallet_bal s' = (wallet_bal s)(tid := wallet_bal s tid + d) \<and>
     wallet_transactions s' = wallet_transactions s @ [t] \<and>
     t_tenant_id t = tid \<and> t_amount t = d \<and>
     balance_before t = wallet_bal s tid \<and> balance_after t = wallet_bal s tid + d \<and>
     t_id t = next_uuid s \<and> next_uuid s' = Suc (next_uuid s) \<and>
     wallet_locks s' = wallet_locks s \<and> ledger_db.more s' = ledger_db.more s"

definition truthy_keys :: "'a ledger_db_scheme \<Rightarrow> string option list" where
  "truthy_keys s = filter truthy (map t_idempotency_key (wallet_transactions s))"

definition wallet_wf :: "'a ledger_db_scheme \<Rightarrow> bool" where
  "wallet_wf s \<longleftrightarrow>
     distinct (map w_tenant_id (tenant_wallets s)) \<and>
     (\<forall>w \<in> set (tenant_wallets s). 0 \<le> credit_balance w \<and>
        lifetime_purchased w = credit_balance w + lifetime_consumed w) \<and>
     distinct (truthy_keys s) \<and>
     distinct (map t_id (wallet_transactions s)) \<and>
     (\<forall>t \<in> set (wallet_transactions s). t_id t < next_uuid s)"

lemma wallet_wfD:
  assumes "wallet_wf s"
  shows "distinct (map w_tenant_id (tenant_wallets s))"
    and "w \<in> set (tenant_wallets s) \<Longrightarrow> 0 \<le> credit_balance w"
    and "w \<in> set (tenant_wallets s) \<Longrightarrow> lifetime_purchased w = credit_balance w + lifetime_consumed w"
    and "distinct (truthy_keys s)"
  using assms by (auto simp: wallet_wf_def)

lemma wallets_of_cases:
  assumes "wallet_wf s"
  obtains "wallets_of s tid = []" | w where "wallets_of s tid = [w]" "w \<in> set (tenant_wallets s)"
proof (cases "wallets_of s tid")
  case Nil
  then show thesis by (rule that(1))
next
  case (Cons w ws)
  then have "w \<in> set (wallets_of s tid)" by simp
  then have w: "w \<in> set (tenant_wallets s)" "w_tenant_id w = tid" by auto
  with filter_key_single [OF wallet_wfD(1) [OF assms]] have "wallets_of s tid = [w]" by auto
  with w that(2) show thesis by blast
qed

lemma wallet_bal_nonneg: "wallet_wf s \<Longrightarrow> 0 \<le> wallet_bal s tid"
  by (rule wallets_of_cases [of s tid]) (auto simp: wallet_bal_def wallet_wfD(2))

lemma txn_by_key_total:
  assumes "wallet_wf s"
  shows "\<exists>r. txn_by_key s key = Inr r"
  using one_or_none_truthy_key [OF wallet_wfD(4) [OF assms, unfolded truthy_keys_def], of key]
  by (auto simp: txn_by_key_def)

lemma txn_by_key_hit:
  assumes "wallet_wf s" and "t \<in> set (wallet_transactions s)" and "truthy (t_idempotency_key t)"
  shows "txn_by_key s (t_idempotency_key t) = Inr (Some t)"
  using filter_truthy_key_unique [OF wallet_wfD(4) [OF assms(1), unfolded truthy_keys_def]] assms
  by (simp add: txn_by_key_def)

lemma txn_by_key_miss:
  "txn_by_key s key = Inr None \<Longrightarrow> truthy key \<Longrightarrow> key \<notin> t_idempotency_key ` set (wallet_transactions s)"
  by (auto simp: txn_by_key_def table_simps filter_empty_conv)

lemma get_wallet_locked_Inr:
  assumes wf: "wallet_wf s" and ok: "get_wallet_locked s tid = Inr (s1, w)"
  shows "wallet_wf s1" and "wallets_of s1 tid = [w]" and "w \<in> set (tenant_wallets s1)"
    and "credit_balance w = wallet_bal s tid"
    and "wallet_bal s1 = wallet_bal s" and "wallet_transactions s1 = wallet_transactions s"
    and "next_uuid s1 = next_uuid s" and "wallet_locks s1 = wallet_locks s"
    and "ledger_db.more s1 = ledger_db.more s"
proof -
  have "wallet_wf s1 \<and> wallets_of s1 tid = [w] \<and> w \<in> set (tenant_wallets s1) \<and>
    credit_balance w = wallet_bal s tid \<and> wallet_bal s1 = wallet_bal s \<and>
    wallet_transactions s1 = wallet_transactions s \<and> next_uuid s1 = next_uuid s \<and>
    wallet_locks s1 = wallet_locks s \<and> ledger_db.more s1 = ledger_db.more s"
  proof (rule wallets_of_cases [OF wf, of tid])
    assume none: "wallets_of s tid = []"
    then have "tid \<notin> w_tenant_id ` set (tenant_wallets s)" by (auto simp: filter_empty_conv)
    moreover from none ok have "s1 = s\<lparr>tenant_wallets := tenant_wallets s @ [new_wallet tid]\<rparr>"
      and "w = new_wallet tid" by (auto simp: get_wallet_locked_def)
    ultimately show ?thesis using wf none
      by (auto simp: wallet_wf_def truthy_keys_def new_wallet_def wallet_bal_def fun_eq_iff)
  next
    fix w' assume "wallets_of s tid = [w']" "w' \<in> set (tenant_wallets s)"
    with ok wf show ?thesis by (auto simp: get_wallet_locked_def wallet_bal_def split: if_splits)
  qed
  then show "wallet_wf s1" "wallets_of s1 tid = [w]" "w \<in> set (tenant_wallets s1)"
    "credit_balance w = wallet_bal s tid" "wallet_bal s1 = wallet_bal s"
    "wallet_transactions s1 = wallet_transactions s" "next_uuid s1 = next_uuid s"
    "wallet_locks s1 = wallet_locks s" "ledger_db.more s1 = ledger_db.more s" by blast+
qed

lemma get_wallet_locked_Inl:
  "wallet_wf s \<Longrightarrow> get_wallet_locked s tid = Inl e \<longleftrightarrow>
     e = ServiceOSException ''CONFLICT'' \<and> wallets_of s tid \<noteq> [] \<and> tid \<in> set (wallet_locks s)"
  by (rule wallets_of_cases [of s tid]) (auto simp: get_wallet_locked_def)

text \<open>The write both operations end with, once.\<close>

lemma posted_write:
  assumes wf: "wallet_wf s" and lk: "get_wallet_locked s tid = Inr (s1, w)"
    and g: "\<And>r. w_tenant_id (g r) = w_tenant_id r" "credit_balance (g w) = wallet_bal s tid + d"
      "lifetime_purchased (g w) - lifetime_consumed (g w) =
       lifetime_purchased w - lifetime_consumed w + d"
    and nn: "0 \<le> wallet_bal s tid + d"
    and t: "t_id t = next_uuid s" "t_tenant_id t = tid" "t_amount t = d"
      "balance_before t = wallet_bal s tid" "balance_after t = wallet_bal s tid + d"
      "t_idempotency_key t = key" and miss: "txn_by_key s key = Inr None"
    and s': "s' = s1\<lparr>tenant_wallets := update_where (\<lambda>r. w_tenant_id r = tid) g (tenant_wallets s1),
                    wallet_transactions := wallet_transactions s1 @ [t],
                    next_uuid := Suc (next_uuid s1)\<rparr>"
  shows "posted s tid d s' t" and "wallet_wf s'"
proof -
  note lk1 = get_wallet_locked_Inr [OF wf lk]
  have w: "w_tenant_id w = tid" using lk1(2) by (auto dest: filter_eq_single_mem)
  have same: "wallets_of s' k = (if k = tid then [g w] else wallets_of s1 k)" for k
  proof (cases "k = tid")
    case True
    then show ?thesis using lk1(2) w g(1)
      by (simp add: s' filter_update_where_same)
  next
    case False
    then show ?thesis using g(1) by (auto simp: s' intro!: filter_update_where_other)
  qed
  have "wallet_bal s' = (wallet_bal s)(tid := wallet_bal s tid + d)"
  proof
    fix k show "wallet_bal s' k = ((wallet_bal s)(tid := wallet_bal s tid + d)) k"
      using g(2) same [of k] lk1(5) [THEN fun_cong, of k] by (simp add: wallet_bal_def)
  qed
  then show "posted s tid d s' t" using lk1 t by (simp add: posted_def s')
  have only: "r = w" if "r \<in> set (tenant_wallets s1)" "w_tenant_id r = tid" for r
    using that lk1(2) by (metis (mono_tags, lifting) filter_set list.set(1) list.simps(15) mem_Collect_eq set_filter singletonD)
  have rows: "\<forall>r \<in> set (tenant_wallets s'). 0 \<le> credit_balance r \<and>
        lifetime_purchased r = credit_balance r + lifetime_consumed r"
    using lk1(1,3,4) only g(2,3) nn by (auto simp: s' set_update_where wallet_wf_def)
  have "distinct (truthy_keys s')"
    using lk1(1,6) t(6) txn_by_key_miss [OF miss] by (auto simp: s' truthy_keys_def wallet_wf_def)
  moreover have "map w_tenant_id (tenant_wallets s') = map w_tenant_id (tenant_wallets s1)"
    by (simp add: s' map_update_where_key g(1))
  ultimately show "wallet_wf s'" using lk1(1,6,7) rows t(1)
    by (auto simp: wallet_wf_def s' less_Suc_eq)
qed

lemma debit_wallet_cases:
  assumes wf: "wallet_wf s"
    and ok: "debit_wallet s tid amt ttype rid rtype descr actor key now = Inr (s', t)"
  obtains (replay) "s' = s" "txn_by_key s key = Inr (Some t)"
  | (post) a where "amt = Some a" "0 < a" "a \<le> wallet_bal s tid" "txn_by_key s key = Inr None"
      "posted s tid (- a) s' t" "wallet_wf s'" "t_idempotency_key t = key"
proof -
  from ok obtain a r where a: "amt = Some a" "0 < a" and r: "txn_by_key s key = Inr r"
    by (auto simp: debit_wallet_def res_simps split: option.splits if_splits)
  show thesis
  proof (cases r)
    case (Some t')
    with ok a r have "s' = s" "txn_by_key s key = Inr (Some t)" by (auto simp: debit_wallet_def)
    then show thesis by (rule replay)
  next
    case None
    with ok a r obtain s1 w where lk: "get_wallet_locked s tid = Inr (s1, w)"
      by (auto simp: debit_wallet_def res_simps)
    note w = get_wallet_locked_Inr(4,7) [OF wf lk]
    from ok a r None lk w have le: "a \<le> wallet_bal s tid"
      by (simp add: debit_wallet_def split: if_splits)
    let ?g = "\<lambda>r. r\<lparr>credit_balance := wallet_bal s tid - a, lifetime_consumed := lifetime_consumed r + a,
                    last_transaction_at := Some now\<rparr>"
    have "posted s tid (- a) s' t" "wallet_wf s'"
      by (rule posted_write [OF wf lk, where g = ?g and key = key];
          use ok a r None lk w le in \<open>auto simp: debit_wallet_def Let_def split: if_splits\<close>)+
    moreover have "t_idempotency_key t = key"
      using ok a r None lk by (auto simp: debit_wallet_def Let_def split: if_splits)
    ultimately show thesis using post a le r None by blast
  qed
qed

lemma get_wallet_unlocked:
  assumes "wallet_wf s" and "tid \<notin> set (wallet_locks s)"
  obtains s1 w where "get_wallet_locked s tid = Inr (s1, w)" "credit_balance w = wallet_bal s tid"
proof -
  obtain s1 w where "get_wallet_locked s tid = Inr (s1, w)"
    using get_wallet_locked_Inl [OF assms(1), of tid] assms(2) by (cases "get_wallet_locked s tid") auto
  with get_wallet_locked_Inr(4) [OF assms(1)] that show thesis by blast
qed

lemma debit_wallet_short:
  assumes "wallet_wf s" and "0 < a" and "txn_by_key s key = Inr None" and "tid \<notin> set (wallet_locks s)"
    and "wallet_bal s tid < a"
  shows "debit_wallet s tid (Some a) ttype rid rtype descr actor key now = Inl (ServiceOSException ''COMMISSION_WALLET_EMPTY'')"
proof -
  from get_wallet_unlocked [OF assms(1,4)] obtain s1 w where "get_wallet_locked s tid = Inr (s1, w)" "credit_balance w = wallet_bal s tid" .
  with assms(2,3,5) show ?thesis by (simp add: debit_wallet_def)
qed

lemma debit_wallet_covers:
  assumes "wallet_wf s" and "0 < a" and "txn_by_key s key = Inr None" and "tid \<notin> set (wallet_locks s)"
    and "a \<le> wallet_bal s tid"
  shows "\<exists>s' t. debit_wallet s tid (Some a) ttype rid rtype descr actor key now = Inr (s', t) \<and>
    posted s tid (- a) s' t \<and> wallet_wf s'"
proof -
  from get_wallet_unlocked [OF assms(1,4)] obtain s1 w where "get_wallet_locked s tid = Inr (s1, w)" "credit_balance w = wallet_bal s tid" .
  with assms(2,3,5) obtain s' t where ok: "debit_wallet s tid (Some a) ttype rid rtype descr actor key now = Inr (s', t)"
    by (simp add: debit_wallet_def Let_def)
  from assms(1) ok have "posted s tid (- a) s' t \<and> wallet_wf s'"
    by (cases rule: debit_wallet_cases) (use assms(3) in auto)
  with ok show ?thesis by blast
qed

lemma credit_wallet_cases:
  assumes wf: "wallet_wf s"
    and ok: "credit_wallet s tid amt ttype rid rtype descr actor key now = Inr (s', t)"
  obtains (replay) "s' = s" "txn_by_key s key = Inr (Some t)"
  | (post) a where "amt = Some a" "0 < a" "txn_by_key s key = Inr None"
      "posted s tid a s' t" "wallet_wf s'" "t_idempotency_key t = key"
proof -
  from ok obtain a r where a: "amt = Some a" "0 < a" and r: "txn_by_key s key = Inr r"
    by (auto simp: credit_wallet_def res_simps split: option.splits if_splits)
  show thesis
  proof (cases r)
    case (Some t')
    with ok a r have "s' = s" "txn_by_key s key = Inr (Some t)" by (auto simp: credit_wallet_def)
    then show thesis by (rule replay)
  next
    case None
    with ok a r obtain s1 w where lk: "get_wallet_locked s tid = Inr (s1, w)"
      by (auto simp: credit_wallet_def res_simps)
    note w = get_wallet_locked_Inr(4,7) [OF wf lk] and nn = wallet_bal_nonneg [OF wf, of tid]
    let ?g = "\<lambda>r. r\<lparr>credit_balance := wallet_bal s tid + a, lifetime_purchased := lifetime_purchased r + a,
                    last_transaction_at := Some now\<rparr>"
    have "posted s tid a s' t" "wallet_wf s'"
      by (rule posted_write [OF wf lk, where g = ?g and key = key];
          use ok a r None lk w nn in \<open>auto simp: credit_wallet_def Let_def\<close>)+
    moreover have "t_idempotency_key t = key"
      using ok a r None lk by (auto simp: credit_wallet_def Let_def)
    ultimately show thesis using post a r None by blast
  qed
qed

subsection \<open>The ledger as a state machine\<close>

text \<open>
  What can happen to the wallet tables: the three operations, and another transaction taking or
  releasing row locks.
\<close>

inductive wallet_step :: "'a ledger_db_scheme \<Rightarrow> 'a ledger_db_scheme \<Rightarrow> bool" where
  debit: "debit_wallet s tid amt ttype rid rtype descr actor key now = Inr (s', t) \<Longrightarrow> wallet_step s s'"
| credit: "credit_wallet s tid amt ttype rid rtype descr actor key now = Inr (s', t) \<Longrightarrow> wallet_step s s'"
| ensure: "get_wallet_locked s tid = Inr (s', w) \<Longrightarrow> wallet_step s s'"
| locks: "wallet_step s (s\<lparr>wallet_locks := L\<rparr>)"

lemma wallet_step_cases:
  assumes "wallet_wf s" and "wallet_step s s'"
  obtains (post) tid d t where "posted s tid d s' t" "wallet_wf s'"
      "\<And>k. truthy (t_idempotency_key t) \<Longrightarrow> k = t_idempotency_key t \<Longrightarrow> txn_by_key s k = Inr None"
  | (quiet) "wallet_wf s'" "wallet_bal s' = wallet_bal s"
      "wallet_transactions s' = wallet_transactions s"
  using assms(2,1)
proof (cases rule: wallet_step.cases)
  case debit
  from assms(1) debit(1) show thesis
    by (cases rule: debit_wallet_cases) (use assms(1) in \<open>auto intro: post quiet\<close>)
next
  case credit
  from assms(1) credit(1) show thesis
    by (cases rule: credit_wallet_cases) (use assms(1) in \<open>auto intro: post quiet\<close>)
next
  case (ensure tid w)
  with get_wallet_locked_Inr [OF assms(1) ensure] show thesis by (auto intro: quiet)
next
  case locks
  with assms(1) show thesis
    by (intro quiet) (simp_all add: wallet_wf_def truthy_keys_def wallet_bal_def fun_eq_iff)
qed

lemma wallet_step_wf: "wallet_wf s \<Longrightarrow> wallet_step s s' \<Longrightarrow> wallet_wf s'"
  by (rule wallet_step_cases)

lemma wallet_step_moves:
  assumes "wallet_wf s" and "wallet_step s s'"
  shows "wallet_bal s' k - wallet_bal s k = ledger_sum s' k - ledger_sum s k"
  using assms by (cases rule: wallet_step_cases) (auto simp: posted_def ledger_sum_def)

lemma wallet_step_appends:
  assumes "wallet_wf s" and "wallet_step s s'"
  shows "\<exists>ts. wallet_transactions s' = wallet_transactions s @ ts"
  using assms by (cases rule: wallet_step_cases) (auto simp: posted_def)

definition wallet_recorded :: "'a ledger_db_scheme \<Rightarrow> string option \<Rightarrow> wallet_txn \<Rightarrow> bool" where
  "wallet_recorded s key t \<longleftrightarrow>
     t \<in> set (wallet_transactions s) \<and> t_idempotency_key t = key \<and> truthy key"

definition wallet_call ::
  "'a ledger_db_scheme \<Rightarrow> string option \<Rightarrow> 'a ledger_db_scheme \<Rightarrow> wallet_txn \<Rightarrow> bool" where
  "wallet_call s key s' t \<longleftrightarrow> truthy key \<and>
     (\<exists>tid amt ttype rid rtype descr actor now.
        debit_wallet s tid amt ttype rid rtype descr actor key now = Inr (s', t) \<or>
        credit_wallet s tid amt ttype rid rtype descr actor key now = Inr (s', t))"

lemma wallet_call_cases:
  assumes "wallet_wf s" and "wallet_call s key s' t"
  shows "(s' = s \<and> txn_by_key s key = Inr (Some t) \<or>
          txn_by_key s key = Inr None \<and> wallet_transactions s' = wallet_transactions s @ [t] \<and>
          t_idempotency_key t = key) \<and> truthy key"
proof -
  from assms(2) obtain tid amt ttype rid rtype descr actor now where "truthy key"
    and "debit_wallet s tid amt ttype rid rtype descr actor key now = Inr (s', t) \<or>
         credit_wallet s tid amt ttype rid rtype descr actor key now = Inr (s', t)"
    unfolding wallet_call_def by blast
  then show ?thesis
    by (auto elim!: debit_wallet_cases [OF assms(1)] credit_wallet_cases [OF assms(1)]
        simp: posted_def)
qed

interpretation wallet: solvent_ledger wallet_wf wallet_bal ledger_sum wallet_step
  by unfold_locales (fact wallet_step_wf wallet_step_moves wallet_bal_nonneg)+

interpretation wallet_keys: keyed_posting wallet_wf wallet_step wallet_recorded wallet_call
proof unfold_locales
  fix s t :: "'a ledger_db_scheme" and k e
  assume wf: "wallet_wf s"
  show "wallet_step s t \<Longrightarrow> wallet_wf t" using wf by (rule wallet_step_wf)
  show "wallet_call s k t e \<Longrightarrow> wallet_step s t"
    by (auto simp: wallet_call_def intro: wallet_step.intros)
  show "wallet_step s t \<Longrightarrow> wallet_recorded s k e \<Longrightarrow> wallet_recorded t k e"
    using wallet_step_appends [OF wf, of t] by (auto simp: wallet_recorded_def)
  show "wallet_call s k t e \<Longrightarrow> wallet_recorded t k e"
    using wallet_call_cases [OF wf, of k t e]
    by (auto simp: wallet_recorded_def txn_by_key_def table_simps dest!: filter_eq_single_mem)
  show "wallet_recorded s k e \<Longrightarrow> wallet_call s k t e' \<Longrightarrow> t = s \<and> e' = e" for e'
    using wallet_call_cases [OF wf, of k t e'] txn_by_key_hit [OF wf, of e]
    by (auto simp: wallet_recorded_def)
qed

subsection \<open>Properties\<close>

text \<open>A fresh database, the start of the runs below.\<close>

definition empty_ledger :: ledger_db where
  "empty_ledger = \<lparr>next_uuid = 0, tenant_wallets = [], wallet_transactions = [], wallet_locks = [],
     customer_balances = [], customer_transactions = [], customer_locks = []\<rparr>"

lemma empty_ledger_wf [simp]: "wallet_wf empty_ledger"
  by (simp add: empty_ledger_def wallet_wf_def truthy_keys_def)

lemma empty_ledger_reconciled [simp]: "wallet_bal empty_ledger k = ledger_sum empty_ledger k"
  by (simp add: empty_ledger_def wallet_bal_def ledger_sum_def)

definition demo_ledger :: ledger_db where
  "demo_ledger = empty_ledger\<lparr>tenant_wallets := [(new_wallet 7)\<lparr>credit_balance := 50, lifetime_purchased := 50\<rparr>]\<rparr>"

lemma demo_ledger_wf [simp]: "wallet_wf demo_ledger"
  by (simp add: demo_ledger_def empty_ledger_def new_wallet_def wallet_wf_def truthy_keys_def)

lemma reconcile_wallet_eq:
  assumes "wallet_wf s"
  shows "reconcile_wallet s tid =
     Inr \<lparr>rec_matches = (\<bar>ledger_sum s tid - wallet_bal s tid\<bar> \<le> 1 / 10000),
          rec_ledger_sum = ledger_sum s tid, rec_wallet_balance = wallet_bal s tid,
          rec_diff = \<bar>ledger_sum s tid - wallet_bal s tid\<bar>\<rparr>"
  by (rule wallets_of_cases [OF assms, of tid])
     (auto simp: reconcile_wallet_def wallet_bal_def Let_def)

text \<open>
  C13: the ledger always reconciles. From a database whose balances equal their ledger sums
  (a fresh one, say), whatever sequence of debits, credits, wallet creations and lock changes
  runs, with whatever arguments, \<^verbatim>\<open>reconcile_wallet\<close> answers that balance and ledger match, with
  difference zero, and the balance is not negative.
\<close>

theorem wallet_always_reconciles:
  assumes "wallet_wf s" and "\<forall>k. wallet_bal s k = ledger_sum s k" and "wallet_step\<^sup>*\<^sup>* s t"
  shows "\<exists>r. reconcile_wallet t tid = Inr r \<and> rec_matches r \<and> rec_diff r = 0 \<and>
             0 \<le> rec_wallet_balance r"
proof -
  from assms have wf: "wallet_wf t" and "wallet_bal t tid = ledger_sum t tid" "0 \<le> wallet_bal t tid"
    by (blast intro: wallet.run_inv wallet.run_reconciled wallet.run_nonneg)+
  then show ?thesis by (simp add: reconcile_wallet_eq)
qed

theorem wallet_always_reconciles_witness:
  "\<exists>t. wallet_step\<^sup>*\<^sup>* empty_ledger t \<and> wallet_transactions t \<noteq> [] \<and>
     (\<exists>r. reconcile_wallet t 7 = Inr r \<and> rec_matches r \<and> rec_diff r = 0 \<and> 0 \<le> rec_wallet_balance r)"
proof -
  obtain t x where t: "credit_wallet empty_ledger 7 (Some 100) ''topup'' None None None None None 5 = Inr (t, x)"
    and ne: "wallet_transactions t \<noteq> []"
    by (simp add: credit_wallet_def txn_by_key_def get_wallet_locked_def empty_ledger_def Let_def)
  from t have run: "wallet_step\<^sup>*\<^sup>* empty_ledger t" by (blast intro: wallet_step.credit)
  have "\<exists>r. reconcile_wallet t 7 = Inr r \<and> rec_matches r \<and> rec_diff r = 0 \<and> 0 \<le> rec_wallet_balance r"
    by (rule wallet_always_reconciles [OF empty_ledger_wf _ run]) simp
  with run ne show ?thesis by blast
qed

text \<open>
  C22: \<^verbatim>\<open>debit_wallet\<close> on a fresh idempotency key and an unlocked wallet: it succeeds exactly when
  the balance covers the amount. On success the balance drops by the amount, one entry with the
  balances before and after is appended, and no other tenant's balance changes; otherwise it
  raises and changes nothing.
\<close>

theorem debit_wallet_exact:
  assumes "wallet_wf s" and "0 < a" and "txn_by_key s key = Inr None" and "tid \<notin> set (wallet_locks s)"
  shows "if a \<le> wallet_bal s tid
         then \<exists>s' t. debit_wallet s tid (Some a) ttype rid rtype descr actor key now = Inr (s', t) \<and>
                     posted s tid (- a) s' t \<and> wallet_wf s'
         else debit_wallet s tid (Some a) ttype rid rtype descr actor key now =
              Inl (ServiceOSException ''COMMISSION_WALLET_EMPTY'')"
  using debit_wallet_covers [OF assms] debit_wallet_short [OF assms] by auto

theorem debit_wallet_exact_witness:
  "wallet_bal demo_ledger 7 = 50 \<and>
   (\<exists>s' t. debit_wallet demo_ledger 7 (Some 20) ''x'' None None None None (Some ''k'') 1 = Inr (s', t) \<and>
      posted demo_ledger 7 (- 20) s' t \<and> wallet_wf s') \<and>
   debit_wallet demo_ledger 7 (Some 80) ''x'' None None None None (Some ''k'') 1 =
     Inl (ServiceOSException ''COMMISSION_WALLET_EMPTY'')"
proof -
  have b: "wallet_bal demo_ledger 7 = 50"
    by (simp add: wallet_bal_def demo_ledger_def empty_ledger_def new_wallet_def)
  have k: "txn_by_key demo_ledger (Some ''k'') = Inr None" "7 \<notin> set (wallet_locks demo_ledger)"
    by (simp_all add: txn_by_key_def demo_ledger_def empty_ledger_def)
  from debit_wallet_exact [OF demo_ledger_wf _ k, of 20 "''x''" None None None None 1]
    debit_wallet_exact [OF demo_ledger_wf _ k, of 80 "''x''" None None None None 1] b
  show ?thesis by simp
qed

text \<open>
  An idempotency key moves money once. After a debit with key \<open>key\<close> succeeded, and whatever
  the ledger did since, another debit with the same key, for any tenant and amount, returns the
  first transaction and leaves the database as it is.
\<close>

theorem debit_wallet_once_per_key:
  assumes "wallet_wf s" and "truthy key"
    and "debit_wallet s tid amt ttype rid rtype descr actor key now = Inr (s1, t1)"
    and "wallet_step\<^sup>*\<^sup>* s1 s2"
    and "debit_wallet s2 tid' amt' ttype' rid' rtype' descr' actor' key now' = Inr (s3, t3)"
  shows "s3 = s2 \<and> t3 = t1"
proof (rule wallet_keys.second_call_no_effect [OF assms(1) _ assms(4)])
  show "wallet_call s key s1 t1" and "wallet_call s2 key s3 t3"
    unfolding wallet_call_def using assms(2,3,5) by blast+
qed

theorem debit_wallet_once_per_key_witness:
  "\<exists>s1 t1. debit_wallet demo_ledger 7 (Some 20) ''c'' None None None None (Some ''k'') 1 = Inr (s1, t1) \<and>
     wallet_bal s1 7 = 30 \<and>
     debit_wallet s1 7 (Some 20) ''c'' None None None None (Some ''k'') 2 = Inr (s1, t1)"
proof -
  obtain s1 t1 where d1: "debit_wallet demo_ledger 7 (Some 20) ''c'' None None None None (Some ''k'') 1 = Inr (s1, t1)"
    and b: "wallet_bal s1 7 = 30"
    by (simp add: debit_wallet_def txn_by_key_def get_wallet_locked_def demo_ledger_def empty_ledger_def
        new_wallet_def Let_def wallet_bal_def)
  obtain s3 t3 where d2: "debit_wallet s1 7 (Some 20) ''c'' None None None None (Some ''k'') 2 = Inr (s3, t3)"
    using d1 by (auto simp: debit_wallet_def txn_by_key_def get_wallet_locked_def demo_ledger_def
        empty_ledger_def new_wallet_def Let_def)
  from debit_wallet_once_per_key [OF demo_ledger_wf _ d1 _ d2] have "s3 = s1 \<and> t3 = t1" by simp
  with d1 d2 b show ?thesis by blast
qed

text \<open>
  \<^verbatim>\<open>admin_credit\<close> keys its entry by tenant and amount only. A second, separate admin credit of
  the same amount to the same tenant, at any later time and for any reason, is answered with the
  first entry and credits nothing.
\<close>

theorem admin_credit_repeat_dropped:
  assumes "wallet_wf s"
    and "admin_credit repr s tid a reason admin now = Inr (s1, t1)"
    and "wallet_step\<^sup>*\<^sup>* s1 s2"
    and "admin_credit repr s2 tid a reason' admin' now' = Inr (s3, t3)"
  shows "s3 = s2 \<and> t3 = t1"
proof (rule wallet_keys.second_call_no_effect [OF assms(1) _ assms(3)])
  let ?key = "Some (''admin-credit-'' @ str_uuid tid @ ''-'' @ repr a)"
  show "wallet_call s ?key s1 t1" and "wallet_call s2 ?key s3 t3"
    unfolding wallet_call_def using assms(2,4) by (fastforce simp: admin_credit_def)+
qed

theorem admin_credit_repeat_dropped_witness:
  "\<exists>s1 t1 s3 t3. admin_credit (\<lambda>_. ''50.0'') demo_ledger 7 50 ''goodwill'' 1 1 = Inr (s1, t1) \<and>
     wallet_bal s1 7 = 100 \<and>
     admin_credit (\<lambda>_. ''50.0'') s1 7 50 ''second goodwill'' 1 9 = Inr (s3, t3) \<and> wallet_bal s3 7 = 100"
proof -
  let ?r = "\<lambda>_::decimal. ''50.0''"
  obtain s1 t1 where d1: "admin_credit ?r demo_ledger 7 50 ''goodwill'' 1 1 = Inr (s1, t1)"
    and b: "wallet_bal s1 7 = 100"
    by (simp add: admin_credit_def credit_wallet_def txn_by_key_def get_wallet_locked_def
        demo_ledger_def empty_ledger_def new_wallet_def Let_def wallet_bal_def)
  obtain s3 t3 where d2: "admin_credit ?r s1 7 50 ''second goodwill'' 1 9 = Inr (s3, t3)"
    using d1 by (auto simp: admin_credit_def credit_wallet_def txn_by_key_def get_wallet_locked_def
        demo_ledger_def empty_ledger_def new_wallet_def Let_def)
  from admin_credit_repeat_dropped [OF demo_ledger_wf d1 _ d2] have "s3 = s1" by simp
  with d1 d2 b show ?thesis by blast
qed

text \<open>
  \<^verbatim>\<open>debit_customer_balance\<close> has no positivity guard: with a negative amount it always passes
  the balance check on a non-negative available balance, and the "debit" raises the customer's
  balance by the absolute amount.
\<close>

theorem customer_debit_negative_inflates:
  assumes "filter (\<lambda>b. cb_customer_id b = cid \<and> cb_tenant_id b = tid) (customer_balances s) = [b]"
    and "(cid, tid) \<notin> set (customer_locks s)" and "a < 0" and "0 \<le> available_balance b"
  shows "\<exists>s' t. debit_customer_balance reread s cid tid a ttype rid descr None = Inr (s', Some t) \<and>
      ct_balance_after t = cb_credit_balance b + \<bar>a\<bar> \<and>
      b\<lparr>cb_credit_balance := cb_credit_balance b + \<bar>a\<bar>,
         cb_lifetime_consumed := cb_lifetime_consumed b + a\<rparr> \<in> set (customer_balances s')"
proof -
  from filter_eq_single_mem [OF assms(1)]
  have b: "b \<in> set (customer_balances s)" "cb_customer_id b = cid" "cb_tenant_id b = tid" by auto
  show ?thesis using assms b
    by (auto simp: debit_customer_balance_def Let_def set_update_where)
qed

theorem customer_debit_negative_inflates_witness:
  "let b = \<lparr>cb_customer_id = 1, cb_tenant_id = 2, cb_credit_balance = 10, cb_reserved_amount = 0,
            cb_lifetime_consumed = 0\<rparr>
   in \<exists>s' t. debit_customer_balance (Inr None) (empty_ledger\<lparr>customer_balances := [b]\<rparr>) 1 2 (- 5) ''x''
        None None None = Inr (s', Some t) \<and> ct_balance_after t = 15"
proof -
  let ?b = "\<lparr>cb_customer_id = 1, cb_tenant_id = 2, cb_credit_balance = 10, cb_reserved_amount = 0,
            cb_lifetime_consumed = 0\<rparr>"
  show ?thesis
    using customer_debit_negative_inflates [of 1 2 "empty_ledger\<lparr>customer_balances := [?b]\<rparr>" ?b
        "- 5" "Inr None" "''x''" None None]
    by (auto simp: empty_ledger_def available_balance_def Let_def)
qed

end
