(* ===== verification/Jobs.thy ===== *)
theory Jobs
  imports Ledger
begin

section \<open>Jobs, bookings and the transition guard\<close>

text \<open>
  The field job and the booking it mirrors (final_records/models.py), the platform's job status
  graph (execution/constants.py), the two-layer transition guard (execution/transition_guard.py)
  and the booking mirror (final_records/booking_job_sync.py). \<open>job_db\<close> extends the ledger tables
  with jobs, bookings, workflows and execution events. \<open>JS_INVOICE_ISSUED\<close> is the status the
  invoice service writes (invoice_payment/constants.py); \<open>JS_UNKNOWN\<close> stands for any other
  string a row may hold.
\<close>

subsection \<open>Statuses and the platform graph (execution/constants.py)\<close>

datatype job_status =
    JS_PENDING_ASSIGNMENT | JS_ASSIGNED | JS_ACCEPTED | JS_SCHEDULED | JS_ON_THE_WAY
  | JS_REACHED_SITE | JS_INSPECTION_STARTED | JS_INSPECTION_DONE | JS_QUOTE_REQUIRED
  | JS_SERVICE_STARTED | JS_WORK_DONE | JS_CUSTOMER_NOT_AVAIL | JS_CANCELLED | JS_FAILED
  | JS_CLOSED_ESTIMATE_DECLINED | JS_FORCE_CLOSED | JS_VOIDED | JS_COMPLETED
  | JS_INVOICE_ISSUED | JS_UNKNOWN string

definition TERMINAL_JOB_STATUSES :: "job_status list" where
  "TERMINAL_JOB_STATUSES =
     [JS_COMPLETED, JS_CANCELLED, JS_FAILED, JS_CLOSED_ESTIMATE_DECLINED, JS_FORCE_CLOSED, JS_VOIDED]"

fun JOB_TRANSITIONS :: "job_status \<Rightarrow> job_status list" where
  "JOB_TRANSITIONS JS_PENDING_ASSIGNMENT = [JS_ASSIGNED, JS_CANCELLED]"
| "JOB_TRANSITIONS JS_ASSIGNED = [JS_ACCEPTED, JS_CANCELLED]"
| "JOB_TRANSITIONS JS_ACCEPTED = [JS_SCHEDULED, JS_ON_THE_WAY, JS_CANCELLED]"
| "JOB_TRANSITIONS JS_SCHEDULED = [JS_ON_THE_WAY, JS_CANCELLED, JS_CUSTOMER_NOT_AVAIL]"
| "JOB_TRANSITIONS JS_ON_THE_WAY = [JS_REACHED_SITE, JS_CUSTOMER_NOT_AVAIL, JS_CANCELLED]"
| "JOB_TRANSITIONS JS_REACHED_SITE =
     [JS_INSPECTION_STARTED, JS_SERVICE_STARTED, JS_QUOTE_REQUIRED, JS_CUSTOMER_NOT_AVAIL, JS_CANCELLED]"
| "JOB_TRANSITIONS JS_INSPECTION_STARTED =
     [JS_INSPECTION_DONE, JS_QUOTE_REQUIRED, JS_CUSTOMER_NOT_AVAIL, JS_CANCELLED]"
| "JOB_TRANSITIONS JS_INSPECTION_DONE = [JS_QUOTE_REQUIRED, JS_SERVICE_STARTED, JS_CANCELLED]"
| "JOB_TRANSITIONS JS_SERVICE_STARTED = [JS_WORK_DONE, JS_QUOTE_REQUIRED, JS_CANCELLED]"
| "JOB_TRANSITIONS JS_WORK_DONE = [JS_COMPLETED]"
| "JOB_TRANSITIONS JS_QUOTE_REQUIRED = [JS_SERVICE_STARTED, JS_CLOSED_ESTIMATE_DECLINED, JS_CANCELLED]"
| "JOB_TRANSITIONS JS_COMPLETED = []"
| "JOB_TRANSITIONS JS_CUSTOMER_NOT_AVAIL = [JS_ACCEPTED, JS_SCHEDULED, JS_CANCELLED]"
| "JOB_TRANSITIONS JS_CANCELLED = []"
| "JOB_TRANSITIONS JS_FAILED = []"
| "JOB_TRANSITIONS JS_CLOSED_ESTIMATE_DECLINED = []"
| "JOB_TRANSITIONS _ = []"

subsection \<open>Tables (final_records/models.py, admin_catalog workflows)\<close>

text \<open>A JSON scalar of a price snapshot.\<close>

datatype json_value = JNull | JNum decimal | JText string

record price_snapshot =
  selected_price_amount :: json_value
  standard_price :: json_value
  base_price :: json_value
  min_price :: json_value
  visit_fee :: json_value
  snapshot_platform_fee :: json_value
  snapshot_service_name :: "string option"
  requires_inspection_estimate :: bool
  pricing_mode :: "string option"
  pricing_model :: "string option"

datatype assign_state = ASSIGN_UNASSIGNED | ASSIGN_ASSIGNED | ASSIGN_ACCEPTED | ASSIGN_REJECTED | ASSIGN_CANCELLED | ASSIGN_REASSIGNED

record service_booking =
  b_id :: uuid
  b_price_snapshot :: "price_snapshot option"
  b_draft_id :: "uuid option"
  b_status :: job_status
  b_customer_id :: "uuid option"
  b_tenant_id :: "uuid option"
  b_offering_id :: uuid
  b_selected_problem_id :: "uuid option"
  b_preferred_date :: "date option"
  b_preferred_time_window :: "string option"
  b_assignment_status :: assign_state

text \<open>The columns of the missed-visit clock of a job.\<close>

record sla_clock =
  sla_due_at :: "time option"
  sla_next_penalty_at :: "time option"
  sla_stopped_at :: "time option"
  sla_enforcement_started_at :: "time option"
  sla_breached_at :: "time option"
  sla_penalty_day_count :: nat
  sla_penalty_charged :: "decimal option"
  sla_penalty_waived_at :: "time option"

definition no_sla :: sla_clock where
  "no_sla = \<lparr>sla_due_at = None, sla_next_penalty_at = None, sla_stopped_at = None, sla_enforcement_started_at = None,
     sla_breached_at = None, sla_penalty_day_count = 0, sla_penalty_charged = None, sla_penalty_waived_at = None\<rparr>"

record service_job =
  j_id :: uuid
  j_booking_id :: uuid
  j_customer_id :: "uuid option"
  j_tenant_id :: "uuid option"
  j_category_id :: uuid
  j_offering_id :: uuid
  j_job_type_id :: "uuid option"
  j_workflow_id :: "uuid option"
  j_status :: job_status
  j_assigned_staff_id :: "uuid option"
  j_scheduled_date :: "date option"
  j_scheduled_time_window :: "string option"
  j_assignment_status :: assign_state
  j_reschedule_count :: nat
  j_arrival_verified_at :: "time option"
  j_sla :: sla_clock

record workflow_step =
  step_key :: "string option"
  step_name :: "string option"
  maps_to_status :: "job_status option"

record workflow_transition =
  from_step_key :: "string option"
  to_step_key :: "string option"
  allowed_role :: "string option"

record job_workflow =
  wf_id :: uuid
  wf_master_service_id :: uuid
  wf_job_type_id :: uuid
  wf_is_current :: bool
  quote_approval_required :: bool
  pricing_behavior :: string
  steps_json :: "workflow_step list"
  transitions_json :: "workflow_transition list"
  allows_reschedule :: bool
  allows_cancellation :: bool
  checklist_required :: bool
  inspection_required :: bool

record service_job_type_link =
  lk_id :: uuid
  lk_master_service_id :: uuid
  lk_job_type_id :: uuid
  lk_is_active :: bool

record execution_event =
  ev_job_id :: uuid
  ev_event_type :: string
  ev_old_status :: "job_status option"
  ev_new_status :: "job_status option"

record job_db = ledger_db +
  service_jobs :: "service_job list"
  service_bookings :: "service_booking list"
  job_workflows :: "job_workflow list"
  execution_events :: "execution_event list"
  master_service_job_types :: "service_job_type_link list"

definition job_by_id :: "'a job_db_scheme \<Rightarrow> uuid \<Rightarrow> service_job option res" where
  "job_by_id s jid = one_or_none (filter (\<lambda>j. j_id j = jid) (service_jobs s))"

subsection \<open>The transition guard (execution/transition_guard.py)\<close>

definition is_status_move_allowed :: "job_status option \<Rightarrow> job_status \<Rightarrow> bool" where
  "is_status_move_allowed current target =
     (if current = None \<or> current = Some target then True
      else target \<in> set (JOB_TRANSITIONS (the current)))"

fun ACTOR_SYNONYMS :: "string \<Rightarrow> string list option" where
  "ACTOR_SYNONYMS role =
     (if role \<in> {''staff'', ''technician'', ''field_staff''}
      then Some [''staff'', ''technician'', ''field_staff''] else None)"

definition actor_satisfies :: "string \<Rightarrow> string option list \<Rightarrow> bool" where
  "actor_satisfies actor_role permitted =
     (let accepted = (case ACTOR_SYNONYMS actor_role of None \<Rightarrow> [actor_role] | Some xs \<Rightarrow> xs)
      in list_ex (\<lambda>p. truthy p \<and> the p \<in> set accepted) permitted)"

text \<open>
  Layer 2. The answer is \<open>None\<close> for \<^verbatim>\<open>(True, None)\<close> and \<open>Some reason\<close> for \<^verbatim>\<open>(False, reason)\<close>;
  the reason keeps which of the two rules refused.
\<close>

datatype refusal = NoSuchTransition | WrongRole

definition step_for_status :: "workflow_step list \<Rightarrow> job_status \<Rightarrow> workflow_step option" where
  "step_for_status steps st = find (\<lambda>x. maps_to_status x = Some st) steps"

definition workflow_verdict ::
  "'a job_db_scheme \<Rightarrow> service_job \<Rightarrow> job_status \<Rightarrow> string option \<Rightarrow> refusal option" where
  "workflow_verdict s job target actor_role =
     (if j_status job = target then None
      else case j_workflow_id job of None \<Rightarrow> None
      | Some wid \<Rightarrow>
        (case find (\<lambda>w. wf_id w = wid) (job_workflows s) of None \<Rightarrow> None
         | Some workflow \<Rightarrow>
           if steps_json workflow = [] \<or> transitions_json workflow = [] then None
           else case (step_for_status (steps_json workflow) (j_status job),
                      step_for_status (steps_json workflow) target) of
             (Some from_step, Some to_step) \<Rightarrow>
               let matching = filter (\<lambda>t. from_step_key t = step_key from_step \<and>
                                          to_step_key t = step_key to_step)
                                (transitions_json workflow)
               in if matching = [] then Some NoSuchTransition
                  else (case actor_role of None \<Rightarrow> None
                    | Some role \<Rightarrow>
                      let permitted = map allowed_role matching
                      in if role \<noteq> ''system'' \<and> permitted \<noteq> [] \<and> \<not> actor_satisfies role permitted
                         then Some WrongRole else None)
           | _ \<Rightarrow> None))"

definition assert_transition_allowed ::
  "'a job_db_scheme \<Rightarrow> service_job \<Rightarrow> job_status \<Rightarrow> string option \<Rightarrow> unit res" where
  "assert_transition_allowed s job target actor_role =
     (if \<not> is_status_move_allowed (Some (j_status job)) target
      then Inl (ServiceOSException ''EXECUTION_INVALID_STATUS_TRANSITION'')
      else case workflow_verdict s job target actor_role of
        Some _ \<Rightarrow> Inl (ServiceOSException ''EXECUTION_WORKFLOW_FORBIDS_TRANSITION'')
      | None \<Rightarrow> Inr ())"

subsection \<open>Does the quote gate the work (execution/home_service_service.py)\<close>

definition resolve_job_type_workflow :: "'a job_db_scheme \<Rightarrow> service_job \<Rightarrow> job_workflow option" where
  "resolve_job_type_workflow s job =
     (case j_workflow_id job of
        Some wid \<Rightarrow> find (\<lambda>w. wf_id w = wid) (job_workflows s)
      | None \<Rightarrow>
        (case j_job_type_id job of None \<Rightarrow> None
         | Some jt \<Rightarrow>
           (case first_row (filter (\<lambda>l. lk_master_service_id l = j_offering_id job \<and> lk_job_type_id l = jt \<and>
                    lk_is_active l) (master_service_job_types s)) of
              None \<Rightarrow> None
            | Some _ \<Rightarrow> first_row (filter (\<lambda>w. wf_master_service_id w = j_offering_id job \<and>
                wf_job_type_id w = jt \<and> wf_is_current w) (job_workflows s)))))"

definition workflow_requires_quote :: "job_workflow \<Rightarrow> bool" where
  "workflow_requires_quote w \<longleftrightarrow>
     quote_approval_required w \<or> pricing_behavior w \<in> {''inspection_required'', ''custom_quote''}"

definition snapshot_requires_quote :: "'a job_db_scheme \<Rightarrow> service_job \<Rightarrow> bool" where
  "snapshot_requires_quote s job =
     (case find (\<lambda>b. b_id b = j_booking_id job) (service_bookings s) of
        None \<Rightarrow> False
      | Some b \<Rightarrow>
        (case b_price_snapshot b of None \<Rightarrow> False
         | Some sn \<Rightarrow> requires_inspection_estimate sn \<or>
             pricing_mode sn \<in> {Some ''inspection'', Some ''inspection_required'', Some ''custom_quote''} \<or>
             pricing_model sn \<in> {Some ''inspection'', Some ''inspection_required'', Some ''custom_quote''}))"

definition quote_gates_work :: "'a job_db_scheme \<Rightarrow> service_job \<Rightarrow> bool" where
  "quote_gates_work s job =
     (case resolve_job_type_workflow s job of
        None \<Rightarrow> True
      | Some w \<Rightarrow> if workflow_requires_quote w then True else snapshot_requires_quote s job)"

subsection \<open>The booking mirror (final_records/booking_job_sync.py)\<close>

definition sync_booking_to_job_status ::
  "'a job_db_scheme \<Rightarrow> uuid option \<Rightarrow> job_status \<Rightarrow> 'a job_db_scheme" where
  "sync_booking_to_job_status s booking_id new_status =
     (case booking_id of None \<Rightarrow> s
      | Some bid \<Rightarrow> s\<lparr>service_bookings :=
          update_where (\<lambda>b. b_id b = bid) (\<lambda>b. b\<lparr>b_status := new_status\<rparr>) (service_bookings s)\<rparr>)"

definition sync_booking_of_job ::
  "'a job_db_scheme \<Rightarrow> uuid \<Rightarrow> job_status \<Rightarrow> 'a job_db_scheme" where
  "sync_booking_of_job s jid new_status =
     s\<lparr>service_bookings :=
         update_where (\<lambda>b. \<exists>j \<in> set (service_jobs s). j_id j = jid \<and> j_booking_id j = b_id b)
           (\<lambda>b. b\<lparr>b_status := new_status\<rparr>) (service_bookings s)\<rparr>"

subsection \<open>Lemmas\<close>

lemma terminal_no_moves: "st \<in> set TERMINAL_JOB_STATUSES \<Longrightarrow> JOB_TRANSITIONS st = []"
  by (auto simp: TERMINAL_JOB_STATUSES_def)

lemma into_completed: "JS_COMPLETED \<in> set (JOB_TRANSITIONS st) \<longleftrightarrow> st = JS_WORK_DONE"
  by (cases st) auto

lemma into_work_done: "JS_WORK_DONE \<in> set (JOB_TRANSITIONS st) \<longleftrightarrow> st = JS_SERVICE_STARTED"
  by (cases st) auto

text \<open>A history of a job: consecutive statuses are moves of the platform graph.\<close>

fun job_history :: "job_status list \<Rightarrow> bool" where
  "job_history (a # b # rest) = (b \<in> set (JOB_TRANSITIONS a) \<and> job_history (b # rest))"
| "job_history _ = True"

lemma job_history_snoc:
  "job_history (xs @ [b]) \<longleftrightarrow> job_history xs \<and> (xs \<noteq> [] \<longrightarrow> b \<in> set (JOB_TRANSITIONS (last xs)))"
  by (induction xs rule: job_history.induct) auto

lemma workflow_verdict_synonym:
  assumes "role \<in> {''staff'', ''technician'', ''field_staff''}"
    and "role' \<in> {''staff'', ''technician'', ''field_staff''}"
  shows "workflow_verdict s job target (Some role) = workflow_verdict s job target (Some role')"
proof -
  have "actor_satisfies role = actor_satisfies role'" using assms by (auto simp: actor_satisfies_def fun_eq_iff)
  moreover have "role \<noteq> ''system''" "role' \<noteq> ''system''" using assms by auto
  ultimately show ?thesis by (simp add: workflow_verdict_def Let_def split: option.split)
qed

lemma workflow_verdict_unauthored:
  assumes "j_workflow_id job = None \<or> (\<forall>w \<in> set (job_workflows s). Some (wf_id w) = j_workflow_id job \<longrightarrow>
             steps_json w = [] \<or> transitions_json w = [])"
  shows "workflow_verdict s job target role = None"
  using assms
  by (auto simp: workflow_verdict_def find_Some_iff split: option.split dest: nth_mem)

text \<open>Some path of the graph leads to a terminal status: an explicit one per status.\<close>

definition can_close :: "job_status \<Rightarrow> bool" where
  "can_close st \<longleftrightarrow> (\<exists>t \<in> set TERMINAL_JOB_STATUSES. (\<lambda>a b. b \<in> set (JOB_TRANSITIONS a))\<^sup>*\<^sup>* st t)"

lemma can_close_terminal: "st \<in> set TERMINAL_JOB_STATUSES \<Longrightarrow> can_close st"
  unfolding can_close_def by blast

lemma can_close_move: "b \<in> set (JOB_TRANSITIONS a) \<Longrightarrow> can_close b \<Longrightarrow> can_close a"
  unfolding can_close_def by (blast intro: converse_rtranclp_into_rtranclp)

subsection \<open>Properties\<close>

text \<open>
  The workflow layer only narrows. A move the guard accepts is always a move of the platform
  graph (or no move); and for a job whose workflow is absent, has no steps or has no transitions,
  the guard accepts exactly the moves of the platform graph, whoever acts.
\<close>

theorem guard_narrows_platform_graph:
  "(assert_transition_allowed s job target role = Inr () \<longrightarrow>
      target = j_status job \<or> target \<in> set (JOB_TRANSITIONS (j_status job))) \<and>
   (j_workflow_id job = None \<or>
      (\<forall>w \<in> set (job_workflows s). Some (wf_id w) = j_workflow_id job \<longrightarrow>
         steps_json w = [] \<or> transitions_json w = []) \<longrightarrow>
    (assert_transition_allowed s job target role = Inr () \<longleftrightarrow>
      target = j_status job \<or> target \<in> set (JOB_TRANSITIONS (j_status job))))"
proof (intro conjI impI)
  show "target = j_status job \<or> target \<in> set (JOB_TRANSITIONS (j_status job))"
    if "assert_transition_allowed s job target role = Inr ()"
    using that by (auto simp: assert_transition_allowed_def is_status_move_allowed_def split: if_splits)
  assume "j_workflow_id job = None \<or> (\<forall>w \<in> set (job_workflows s). Some (wf_id w) = j_workflow_id job \<longrightarrow>
         steps_json w = [] \<or> transitions_json w = [])"
  from workflow_verdict_unauthored [OF this]
  show "assert_transition_allowed s job target role = Inr () \<longleftrightarrow>
      target = j_status job \<or> target \<in> set (JOB_TRANSITIONS (j_status job))"
    by (auto simp: assert_transition_allowed_def is_status_move_allowed_def)
qed

definition demo_job :: service_job where
  "demo_job = \<lparr>j_id = 1, j_booking_id = 2, j_customer_id = Some 3, j_tenant_id = Some 4,
     j_category_id = 5, j_offering_id = 6, j_job_type_id = None, j_workflow_id = None,
     j_status = JS_ACCEPTED, j_assigned_staff_id = None, j_scheduled_date = None, j_scheduled_time_window = None,
     j_assignment_status = ASSIGN_UNASSIGNED, j_reschedule_count = 0, j_arrival_verified_at = None,
     j_sla = no_sla\<rparr>"

definition demo_booking :: service_booking where
  "demo_booking = \<lparr>b_id = 2, b_price_snapshot = None, b_draft_id = None, b_status = JS_ACCEPTED, b_customer_id = Some 3,
     b_tenant_id = Some 4, b_offering_id = 6, b_selected_problem_id = None, b_preferred_date = None,
     b_preferred_time_window = None, b_assignment_status = ASSIGN_UNASSIGNED\<rparr>"

definition demo_jobs :: job_db where
  "demo_jobs = ledger_db.extend empty_ledger (job_db.fields [demo_job] [demo_booking] [] [] [])"

definition demo_snapshot :: price_snapshot where
  "demo_snapshot = \<lparr>selected_price_amount = JNum 500, standard_price = JNull, base_price = JNum 500,
     min_price = JNull, visit_fee = JNull, snapshot_platform_fee = JNull, snapshot_service_name = None,
     requires_inspection_estimate = False, pricing_mode = None, pricing_model = None\<rparr>"

theorem guard_narrows_platform_graph_witness:
  "assert_transition_allowed demo_jobs demo_job JS_ON_THE_WAY (Some ''staff'') = Inr () \<and>
   assert_transition_allowed demo_jobs demo_job JS_COMPLETED (Some ''staff'') \<noteq> Inr ()"
  using guard_narrows_platform_graph [of demo_jobs demo_job JS_ON_THE_WAY "Some ''staff''"]
    guard_narrows_platform_graph [of demo_jobs demo_job JS_COMPLETED "Some ''staff''"]
  by (simp add: demo_job_def)

text \<open>
  C25: a completed job was worked on. In every history of graph moves that ends in
  \<^verbatim>\<open>completed\<close> and starts anywhere before \<^verbatim>\<open>work_done\<close>, the last moves are
  service_started, work_done, completed: no path skips the start of the service or the explicit
  "work done" milestone.
\<close>

theorem completed_only_after_work:
  assumes "job_history (st # path @ [JS_COMPLETED])" and "st \<notin> {JS_WORK_DONE, JS_SERVICE_STARTED}"
  shows "\<exists>before. path = before @ [JS_SERVICE_STARTED, JS_WORK_DONE]"
proof -
  from assms(1) job_history_snoc [of "st # path" JS_COMPLETED]
  have h: "job_history (st # path)" and "last (st # path) = JS_WORK_DONE"
    by (simp_all add: into_completed)
  with assms(2) obtain ys where path: "path = ys @ [JS_WORK_DONE]"
    by (cases path rule: rev_cases) auto
  with h job_history_snoc [of "st # ys" JS_WORK_DONE] have "last (st # ys) = JS_SERVICE_STARTED"
    by (simp add: into_work_done)
  with assms(2) obtain us where "ys = us @ [JS_SERVICE_STARTED]"
    by (cases ys rule: rev_cases) auto
  with path show ?thesis by simp
qed

theorem completed_only_after_work_witness:
  "job_history (JS_REACHED_SITE # [JS_SERVICE_STARTED, JS_WORK_DONE] @ [JS_COMPLETED]) \<and>
   (\<exists>before. [JS_SERVICE_STARTED, JS_WORK_DONE] = before @ [JS_SERVICE_STARTED, JS_WORK_DONE])"
proof -
  have h: "job_history (JS_REACHED_SITE # [JS_SERVICE_STARTED, JS_WORK_DONE] @ [JS_COMPLETED])" by simp
  with completed_only_after_work [OF h] show ?thesis by simp
qed

text \<open>
  no dead ends inside the graph. The terminal statuses have no moves, and from every other
  status of the graph some sequence of moves reaches a terminal one; \<^verbatim>\<open>invoice_issued\<close>, which the
  invoice service writes, is the exception: it is not terminal and has no move.
\<close>

theorem job_graph_no_dead_ends:
  "(\<forall>st \<in> set TERMINAL_JOB_STATUSES. JOB_TRANSITIONS st = []) \<and>
   (\<forall>st. JOB_TRANSITIONS st \<noteq> [] \<longrightarrow> can_close st) \<and>
   JS_INVOICE_ISSUED \<notin> set TERMINAL_JOB_STATUSES \<and> \<not> can_close JS_INVOICE_ISSUED"
proof (intro conjI allI impI ballI)
  show "JOB_TRANSITIONS st = []" if "st \<in> set TERMINAL_JOB_STATUSES" for st
    using that by (rule terminal_no_moves)
  have t: "can_close JS_CANCELLED" "can_close JS_COMPLETED"
    by (auto intro!: can_close_terminal simp: TERMINAL_JOB_STATUSES_def)
  show "can_close st" if "JOB_TRANSITIONS st \<noteq> []" for st
    using that t by (cases st) (auto intro: can_close_move)
  show "JS_INVOICE_ISSUED \<notin> set TERMINAL_JOB_STATUSES" by (simp add: TERMINAL_JOB_STATUSES_def)
  show "\<not> can_close JS_INVOICE_ISSUED"
    by (auto simp: can_close_def TERMINAL_JOB_STATUSES_def elim: converse_rtranclpE)
qed

theorem job_graph_no_dead_ends_witness:
  "can_close JS_PENDING_ASSIGNMENT \<and> JOB_TRANSITIONS JS_VOIDED = []"
  using job_graph_no_dead_ends by (auto simp: TERMINAL_JOB_STATUSES_def)

text \<open>
  A workflow transition authored without a role blocks every human actor. When the journey
  has the move but none of its matching transitions names a role, the verdict refuses every actor
  role except \<^verbatim>\<open>system\<close>, and only a caller that passes no role is let through.
\<close>

theorem roleless_transition_blocks_humans:
  assumes "j_status job \<noteq> target" and "j_workflow_id job = Some wid"
    and "find (\<lambda>w. wf_id w = wid) (job_workflows s) = Some w"
    and "step_for_status (steps_json w) (j_status job) = Some a"
    and "step_for_status (steps_json w) target = Some b"
    and "filter (\<lambda>t. from_step_key t = step_key a \<and> to_step_key t = step_key b) (transitions_json w) = ts"
    and "ts \<noteq> []" and "\<forall>t \<in> set ts. allowed_role t = None"
  shows "workflow_verdict s job target (Some role) = (if role = ''system'' then None else Some WrongRole) \<and>
    workflow_verdict s job target None = None"
proof -
  from assms(4,6,7) have ne: "steps_json w \<noteq> []" "transitions_json w \<noteq> []"
    by (auto simp: step_for_status_def)
  from assms(8) have "\<not> actor_satisfies role (map allowed_role ts)"
    by (auto simp: actor_satisfies_def Let_def list_ex_iff)
  with assms ne show ?thesis by (simp add: workflow_verdict_def Let_def)
qed

definition demo_workflow :: job_workflow where
  "demo_workflow = \<lparr>wf_id = 9, wf_master_service_id = 6, wf_job_type_id = 8, wf_is_current = True,
     quote_approval_required = True, pricing_behavior = ''fixed'',
     steps_json = [\<lparr>step_key = Some ''a'', step_name = None, maps_to_status = Some JS_ACCEPTED\<rparr>,
                   \<lparr>step_key = Some ''b'', step_name = None, maps_to_status = Some JS_ON_THE_WAY\<rparr>],
     transitions_json = [\<lparr>from_step_key = Some ''a'', to_step_key = Some ''b'', allowed_role = None\<rparr>], allows_reschedule = True, allows_cancellation = True,
     checklist_required = False, inspection_required = False\<rparr>"

theorem roleless_transition_blocks_humans_witness:
  "workflow_verdict (demo_jobs\<lparr>job_workflows := [demo_workflow]\<rparr>) (demo_job\<lparr>j_workflow_id := Some 9\<rparr>)
     JS_ON_THE_WAY (Some ''technician'') = Some WrongRole"
proof -
  have "workflow_verdict (demo_jobs\<lparr>job_workflows := [demo_workflow]\<rparr>) (demo_job\<lparr>j_workflow_id := Some 9\<rparr>)
     JS_ON_THE_WAY (Some ''technician'') = (if ''technician'' = ''system'' then None else Some WrongRole)"
    by (rule roleless_transition_blocks_humans [where w = demo_workflow and wid = 9
          and ts = "transitions_json demo_workflow" and a = "steps_json demo_workflow ! 0"
          and b = "steps_json demo_workflow ! 1", THEN conjunct1])
       (simp_all add: demo_workflow_def demo_job_def step_for_status_def)
  then show ?thesis by simp
qed

end
