(* ===== verification/Monetization.thy ===== *)
theory Monetization
  imports Jobs
begin

section \<open>Monetization: fee calculation, provider charge, platform-fee charges\<close>

text \<open>
  The calculation service (vertical_monetization/calculation_service.py), the customer platform-fee
  charges (charge_service.py) and the provider health snapshot the provider charge reads
  (trust_quality/provider_health.py). Minor units are integers, major units decimals; the source
  passes some decimals through \<^verbatim>\<open>str\<close> and \<^verbatim>\<open>Decimal\<close>, which keeps their value, so the model keeps
  the value. \<^verbatim>\<open>NUMERIC\<close> columns and \<^verbatim>\<open>Decimal\<close> products of the sizes the columns allow are exact.
  Texts made for display only (\<^verbatim>\<open>provider_charge_note\<close>) and the calculation timestamp are left out.
\<close>

subsection \<open>Data (vertical_monetization/models.py, trust_quality/models.py)\<close>

record cancellation_rule =
  cn_code :: string
  cn_label :: string
  cn_active :: bool
  cn_requires_detail :: bool

text \<open>The missed-visit terms of a policy: its \<^verbatim>\<open>sla_\<close> and \<^verbatim>\<open>health_\<close> columns.\<close>

record sla_terms =
  t_breach_hours :: "int option"
  t_penalty_amount :: "decimal option"
  t_penalty_to_customer :: bool
  t_penalty_debt_cap :: "decimal option"
  t_auto_cancel :: bool
  t_penalty_type :: string
  t_penalty_percentage :: "decimal option"
  t_penalty_min :: "decimal option"
  t_penalty_max :: "decimal option"
  t_breachable_statuses :: "job_status list option"
  t_close_after_hours :: int
  t_total_penalty_amount :: decimal
  t_health_suspension_threshold :: "decimal option"
  t_health_suspension_days :: "int option"
  t_health_reinstatement_score :: "decimal option"

record policy =
  p_id :: uuid
  p_vertical_id :: uuid
  version_number :: int
  p_status :: string
  p_is_current :: bool
  provider_model :: string
  provider_percentage :: "decimal option"
  provider_fixed_amount_minor :: "int option"
  provider_credit_units :: "decimal option"
  p_provider_chargeable_event :: "string option"
  provider_min_charge_minor :: "int option"
  provider_max_charge_minor :: "int option"
  provider_health_adjustment_enabled :: bool
  provider_health_adjustments_json :: "(string \<times> json_value) list"
  provider_health_score_max_age_days :: int
  provider_health_max_effective_percentage :: decimal
  provider_non_bookable_health_charge_mode :: string
  customer_fee_model :: string
  customer_fee_percentage :: "decimal option"
  customer_fee_fixed_amount_minor :: "int option"
  customer_fee_min_minor :: "int option"
  customer_fee_max_minor :: "int option"
  p_collection_stage :: string
  customer_fee_refund_policy :: string
  p_customer_reschedule_limit :: "int option"
  p_provider_reschedule_limit :: "int option"
  p_customer_cancellation_enabled :: "bool option"
  p_customer_cancellation_cutoff_minutes :: "int option"
  p_customer_cancellation_reasons :: "cancellation_rule list"
  p_provider_reschedule_approval_hours :: "int option"
  p_sla :: sla_terms

record job_type_rule =
  r_id :: uuid
  r_policy_id :: uuid
  r_job_type_id :: uuid
  customer_charge_enabled :: bool
  provider_charge_enabled :: bool
  provider_charge_model :: string
  provider_charge_credit_units :: "decimal option"
  provider_chargeable_event :: string
  r_status :: string
  r_sla_penalty_enabled :: bool
  r_sla_penalty_amount :: "decimal option"

record vertical =
  v_id :: uuid
  v_key :: string

datatype fee_breakdown =
    FB_NONE
  | FB_FIXED int
  | FB_PERCENTAGE decimal int
  | FB_MIN_MAX decimal int "int option" "int option" "string option"
  | FB_UNRECOGNIZED string

record platform_fee_charge =
  c_id :: uuid
  c_idempotency_key :: string
  c_vertical_id :: uuid
  c_tenant_id :: "uuid option"
  c_customer_id :: "uuid option"
  c_booking_id :: "uuid option"
  c_job_id :: "uuid option"
  c_quote_id :: "uuid option"
  c_quote_version :: "int option"
  c_policy_id :: "uuid option"
  c_policy_version :: "int option"
  c_calculation_basis :: string
  c_service_subtotal_minor :: int
  c_chargeable_subtotal_minor :: int
  c_fee_amount_minor :: int
  c_total_payable_minor :: int
  c_currency :: string
  c_collection_stage :: string
  c_status :: string
  c_breakdown :: fee_breakdown
  c_source_event :: string

record health_formula =
  f_id :: uuid
  f_key :: string
  f_version :: int
  f_status :: string

record health_band_rule =
  hb_id :: uuid
  hb_formula_id :: uuid
  hb_band_key :: string
  hb_bookable_allowed :: bool

record health_score =
  h_id :: uuid
  h_target_type :: string
  h_target_id :: uuid
  h_formula_id :: uuid
  h_score :: decimal
  h_band_key :: "string option"
  h_calculated_at :: "time option"

record monet_db = job_db +
  verticals :: "vertical list"
  policies :: "policy list"
  job_type_rules :: "job_type_rule list"
  fee_charges :: "platform_fee_charge list"
  health_formulas :: "health_formula list"
  health_band_rules :: "health_band_rule list"
  health_scores :: "health_score list"

subsection \<open>Policies and units (calculation_service.py)\<close>

definition to_minor :: "decimal \<Rightarrow> int" where
  "to_minor amount = half_up (amount * 100)"

definition to_major :: "int \<Rightarrow> decimal" where
  "to_major minor = quantize2 (of_int minor / 100)"

definition get_current_policy :: "'a monet_db_scheme \<Rightarrow> uuid \<Rightarrow> policy option res" where
  "get_current_policy s vid =
     one_or_none (filter (\<lambda>p. p_vertical_id p = vid \<and> p_is_current p \<and> p_status p = ''published'') (policies s))"

definition get_current_policy_by_vertical_key :: "'a monet_db_scheme \<Rightarrow> string \<Rightarrow> policy option res" where
  "get_current_policy_by_vertical_key s key =
     one_or_none (map fst (filter (\<lambda>(p, v). v_id v = p_vertical_id p \<and> v_key v = key \<and>
         p_is_current p \<and> p_status p = ''published'') (List.product (policies s) (verticals s))))"

definition get_active_job_type_rule ::
  "'a monet_db_scheme \<Rightarrow> uuid \<Rightarrow> uuid option \<Rightarrow> job_type_rule option res" where
  "get_active_job_type_rule s policy_id job_type_id =
     (case job_type_id of None \<Rightarrow> Inr None
      | Some jt \<Rightarrow> one_or_none (filter (\<lambda>r. r_policy_id r = policy_id \<and> r_job_type_id r = jt \<and>
          r_status r = ''active'') (job_type_rules s)))"

definition pct_of :: "int \<Rightarrow> decimal \<Rightarrow> int" where
  "pct_of amount_minor pct = half_up (of_int amount_minor * pct / 100)"

subsection \<open>Provider completion charge (calculation_service.py)\<close>

text \<open>\<^verbatim>\<open>x or d\<close> on an optional number, when both a missing value and zero give the default.\<close>

definition or_num :: "decimal option \<Rightarrow> decimal \<Rightarrow> decimal" where
  "or_num x d = (case x of None \<Rightarrow> d | Some v \<Rightarrow> if v = 0 then d else v)"

record percentage_breakdown =
  bd_percentage :: decimal
  bd_base_percentage :: decimal
  bd_health_adjustment :: decimal
  bd_health_requested :: decimal
  bd_health_cap :: decimal
  bd_raw_credit_units :: decimal
  bd_minimum :: "decimal option"
  bd_maximum :: "decimal option"
  bd_clamped :: "string option"

datatype provider_breakdown =
    PB_disabled
  | PB_percentage percentage_breakdown
  | PB_credits "decimal option"
  | PB_fixed
  | PB_other

record provider_charge =
  pc_provider_model :: string
  pc_credit_units :: decimal
  pc_breakdown :: provider_breakdown

definition clamp_min_max ::
  "decimal \<Rightarrow> decimal option \<Rightarrow> decimal option \<Rightarrow> decimal \<times> string option" where
  "clamp_min_max units minimum maximum =
     (let (u1, c1) = (case minimum of Some m \<Rightarrow> if units < m then (m, Some ''min'') else (units, None)
                      | None \<Rightarrow> (units, None))
      in case maximum of Some m \<Rightarrow> if u1 > m then (m, Some ''max'') else (u1, c1) | None \<Rightarrow> (u1, c1))"

definition percentage_commission :: "policy \<Rightarrow> decimal \<Rightarrow> decimal \<Rightarrow> decimal \<times> percentage_breakdown" where
  "percentage_commission p amount health_adjustment =
     (let base_pct = or_num (provider_percentage p) 0;
          requested = max 0 health_adjustment;
          configured_cap = or_num (Some (provider_health_max_effective_percentage p)) 100;
          cap = (if requested > 0 then configured_cap else 100);
          pct = min (min 100 cap) (base_pct + requested);
          applied = max 0 (pct - base_pct);
          raw = amount * pct / 100;
          minimum = map_option (\<lambda>m. of_int m / 100) (provider_min_charge_minor p);
          maximum = map_option (\<lambda>m. of_int m / 100) (provider_max_charge_minor p);
          (units, clamped) = clamp_min_max raw minimum maximum
      in (units, \<lparr>bd_percentage = pct, bd_base_percentage = base_pct, bd_health_adjustment = applied,
            bd_health_requested = requested, bd_health_cap = configured_cap, bd_raw_credit_units = raw,
            bd_minimum = minimum, bd_maximum = maximum, bd_clamped = clamped\<rparr>))"

definition calculate_provider_completion_credits ::
  "policy option \<Rightarrow> decimal \<Rightarrow> bool \<Rightarrow> decimal option \<Rightarrow> string option \<Rightarrow> decimal \<Rightarrow> provider_charge" where
  "calculate_provider_completion_credits policy service_amount charge_enabled
      credit_units_override charge_model_override health_adjustment =
     (let amount = quantize2_up service_amount in
      case policy of
        None \<Rightarrow> \<lparr>pc_provider_model = ''NONE'', pc_credit_units = 0, pc_breakdown = PB_disabled\<rparr>
      | Some p \<Rightarrow>
        if \<not> charge_enabled \<or> provider_model p = ''NONE''
        then \<lparr>pc_provider_model = provider_model p, pc_credit_units = 0, pc_breakdown = PB_disabled\<rparr>
        else
          let model = (if charge_model_override = Some ''FIXED_CREDITS'' then ''COMPLETION_CREDITS''
                       else provider_model p);
              (units, breakdown) =
                (if model = ''PERCENTAGE_COMMISSION'' then
                   (let (u, b) = percentage_commission p amount health_adjustment in (u, PB_percentage b))
                 else if model = ''COMPLETION_CREDITS'' then
                   (or_num (if credit_units_override \<noteq> None then credit_units_override
                            else provider_credit_units p) 0, PB_credits credit_units_override)
                 else if model = ''FIXED_COMPLETION_CHARGE'' then
                   (of_int (case provider_fixed_amount_minor p of None \<Rightarrow> 0 | Some m \<Rightarrow> m) / 100, PB_fixed)
                 else (0, PB_other))
          in \<lparr>pc_provider_model = model, pc_credit_units = quantize2_up (max 0 units),
               pc_breakdown = breakdown\<rparr>)"

subsection \<open>Customer platform fee (calculation_service.py)\<close>

record fee_result =
  fr_service_subtotal :: decimal
  fr_chargeable_subtotal :: decimal
  fr_customer_platform_fee :: decimal
  fr_tax_on_platform_fee :: decimal
  fr_discount_on_platform_fee :: decimal
  fr_credits_applied :: decimal
  fr_total_payable :: decimal
  fr_currency :: string
  fr_policy_id :: "uuid option"
  fr_policy_version :: "int option"
  fr_breakdown :: fee_breakdown
  fr_collection_stage :: "string option"
  fr_refundability_status :: string
  fee_amount_minor :: int
  total_payable_minor :: int

definition clamp_minor :: "int \<Rightarrow> int option \<Rightarrow> int option \<Rightarrow> int \<times> string option" where
  "clamp_minor raw mn mx =
     (let (f1, c1) = (case mn of Some m \<Rightarrow> if raw < m then (m, Some ''min'') else (raw, None)
                      | None \<Rightarrow> (raw, None))
      in case mx of Some m \<Rightarrow> if f1 > m then (m, Some ''max'') else (f1, c1) | None \<Rightarrow> (f1, c1))"

definition customer_fee_minor :: "policy \<Rightarrow> int \<Rightarrow> int \<times> fee_breakdown" where
  "customer_fee_minor p chargeable =
     (let model = customer_fee_model p; pct = or_num (customer_fee_percentage p) 0 in
      if model = ''FIXED'' then
        (let fee = (case customer_fee_fixed_amount_minor p of None \<Rightarrow> 0 | Some m \<Rightarrow> m) in (fee, FB_FIXED fee))
      else if model = ''PERCENTAGE'' then (pct_of chargeable pct, FB_PERCENTAGE pct chargeable)
      else if model = ''PERCENTAGE_WITH_MIN_MAX'' then
        (let raw_fee = pct_of chargeable pct;
             (fee, clamped) = clamp_minor raw_fee (customer_fee_min_minor p) (customer_fee_max_minor p)
         in (fee, FB_MIN_MAX pct raw_fee (customer_fee_min_minor p) (customer_fee_max_minor p) clamped))
      else (0, FB_UNRECOGNIZED model))"

definition no_fee_result :: "policy option \<Rightarrow> int \<Rightarrow> int \<Rightarrow> int \<Rightarrow> string \<Rightarrow> fee_result" where
  "no_fee_result policy subtotal discount credit currency =
     \<lparr>fr_service_subtotal = to_major subtotal, fr_chargeable_subtotal = to_major subtotal,
      fr_customer_platform_fee = 0, fr_tax_on_platform_fee = 0,
      fr_discount_on_platform_fee = to_major discount, fr_credits_applied = to_major credit,
      fr_total_payable = to_major (max 0 (subtotal - discount - credit)), fr_currency = currency,
      fr_policy_id = map_option p_id policy, fr_policy_version = map_option version_number policy,
      fr_breakdown = FB_NONE, fr_collection_stage = map_option p_collection_stage policy,
      fr_refundability_status = ''not_applicable'', fee_amount_minor = 0,
      total_payable_minor = max 0 (subtotal - discount - credit)\<rparr>"

definition calculate_customer_platform_fee ::
  "policy option \<Rightarrow> int \<Rightarrow> int \<Rightarrow> int \<Rightarrow> string \<Rightarrow> fee_result" where
  "calculate_customer_platform_fee policy subtotal discount credit currency =
     (case policy of None \<Rightarrow> no_fee_result policy subtotal discount credit currency
      | Some p \<Rightarrow>
        if customer_fee_model p = ''NONE'' then no_fee_result policy subtotal discount credit currency
        else
          let chargeable = max 0 subtotal;
              (fee, breakdown) = customer_fee_minor p chargeable;
              fee_after_discount = max 0 (fee - discount);
              tax_on_fee_minor = 0;
              total = max 0 (subtotal + fee_after_discount + tax_on_fee_minor - credit)
          in \<lparr>fr_service_subtotal = to_major subtotal, fr_chargeable_subtotal = to_major chargeable,
               fr_customer_platform_fee = to_major fee_after_discount,
               fr_tax_on_platform_fee = to_major tax_on_fee_minor,
               fr_discount_on_platform_fee = to_major discount, fr_credits_applied = to_major credit,
               fr_total_payable = to_major total, fr_currency = currency,
               fr_policy_id = Some (p_id p), fr_policy_version = Some (version_number p),
               fr_breakdown = breakdown, fr_collection_stage = Some (p_collection_stage p),
               fr_refundability_status = customer_fee_refund_policy p,
               fee_amount_minor = fee_after_discount, total_payable_minor = total\<rparr>)"

subsection \<open>Platform-fee charges (charge_service.py)\<close>

definition get_vertical_id :: "'a monet_db_scheme \<Rightarrow> string \<Rightarrow> uuid option res" where
  "get_vertical_id s key =
     bind_res (one_or_none (filter (\<lambda>v. v_key v = key) (verticals s))) (\<lambda>v. Inr (map_option v_id v))"

definition existing_charge :: "'a monet_db_scheme \<Rightarrow> string \<Rightarrow> platform_fee_charge option res" where
  "existing_charge s idem = one_or_none (filter (\<lambda>c. c_idempotency_key c = idem) (fee_charges s))"

text \<open>The row both creators build from a calculation result, and its insertion.\<close>

definition charge_row ::
  "uuid \<Rightarrow> string \<Rightarrow> uuid \<Rightarrow> uuid option \<Rightarrow> uuid option \<Rightarrow> decimal \<Rightarrow> fee_result \<Rightarrow> string \<Rightarrow> string \<Rightarrow>
   string \<Rightarrow> platform_fee_charge" where
  "charge_row cid idem vid tid cust amount r basis default_stage source_event =
     \<lparr>c_id = cid, c_idempotency_key = idem, c_vertical_id = vid, c_tenant_id = tid, c_customer_id = cust,
      c_booking_id = None, c_job_id = None, c_quote_id = None, c_quote_version = None,
      c_policy_id = fr_policy_id r, c_policy_version = fr_policy_version r, c_calculation_basis = basis,
      c_service_subtotal_minor = to_minor amount,
      c_chargeable_subtotal_minor = to_minor (fr_chargeable_subtotal r),
      c_fee_amount_minor = fee_amount_minor r, c_total_payable_minor = total_payable_minor r,
      c_currency = fr_currency r,
      c_collection_stage = (case fr_collection_stage r of None \<Rightarrow> default_stage
                            | Some st \<Rightarrow> if st = [] then default_stage else st),
      c_status = (if fee_amount_minor r = 0 then ''NOT_REQUIRED'' else ''PENDING''),
      c_breakdown = fr_breakdown r, c_source_event = source_event\<rparr>"

definition add_charge ::
  "'a monet_db_scheme \<Rightarrow> platform_fee_charge \<Rightarrow> 'a monet_db_scheme \<times> platform_fee_charge option" where
  "add_charge s c = (s\<lparr>fee_charges := fee_charges s @ [c], next_uuid := Suc (next_uuid s)\<rparr>, Some c)"

definition create_charge_for_booking ::
  "'a monet_db_scheme \<Rightarrow> string \<Rightarrow> uuid \<Rightarrow> uuid option \<Rightarrow> uuid option \<Rightarrow> decimal \<Rightarrow> string \<Rightarrow>
   ('a monet_db_scheme \<times> platform_fee_charge option) res" where
  "create_charge_for_booking s vertical_key booking_id tenant_id customer_id amount source_event =
     bind_res (get_vertical_id s vertical_key) (\<lambda>vertical.
       case vertical of None \<Rightarrow> Inr (s, None)
       | Some vid \<Rightarrow>
         let idem = ''booking:'' @ str_uuid booking_id in
         bind_res (existing_charge s idem) (\<lambda>existing.
           case existing of Some c \<Rightarrow> Inr (s, Some c)
           | None \<Rightarrow> bind_res (get_current_policy s vid) (\<lambda>policy.
               let r = calculate_customer_platform_fee policy (to_minor amount) 0 0 ''INR'';
                   c = charge_row (next_uuid s) idem vid tenant_id customer_id amount r
                         ''booking_price_snapshot'' ''before_booking_confirmation'' source_event
               in Inr (add_charge s (c\<lparr>c_booking_id := Some booking_id\<rparr>)))))"

definition create_charge_for_quote ::
  "'a monet_db_scheme \<Rightarrow> string \<Rightarrow> uuid \<Rightarrow> int \<Rightarrow> bool \<Rightarrow> uuid \<Rightarrow> uuid option \<Rightarrow> uuid option \<Rightarrow> decimal \<Rightarrow>
   string \<Rightarrow> ('a monet_db_scheme \<times> platform_fee_charge option) res" where
  "create_charge_for_quote s vertical_key quote_id quote_version is_current job_id tenant_id customer_id
      amount source_event =
     (if \<not> is_current then Inl (ServiceOSException ''PAYMENT_CONTEXT_UNRESOLVED'')
      else bind_res (get_vertical_id s vertical_key) (\<lambda>vertical.
        case vertical of None \<Rightarrow> Inr (s, None)
        | Some vid \<Rightarrow>
          let idem = ''quote:'' @ str_uuid quote_id @ '':v'' @ str_int quote_version in
          bind_res (existing_charge s idem) (\<lambda>existing.
            case existing of Some c \<Rightarrow> Inr (s, Some c)
            | None \<Rightarrow> bind_res (get_current_policy s vid) (\<lambda>policy.
                let r = calculate_customer_platform_fee policy (to_minor amount) 0 0 ''INR'';
                    c = charge_row (next_uuid s) idem vid tenant_id customer_id amount r
                          ''approved_quote'' ''after_estimate_approval'' source_event
                in Inr (add_charge s (c\<lparr>c_job_id := Some job_id, c_quote_id := Some quote_id,
                                         c_quote_version := Some quote_version\<rparr>))))))"

definition assert_customer_platform_fee_paid_if_required ::
  "'a monet_db_scheme \<Rightarrow> uuid \<Rightarrow> unit res" where
  "assert_customer_platform_fee_paid_if_required s job_id =
     (case first_row (rev (filter (\<lambda>c. c_job_id c = Some job_id) (fee_charges s))) of
        None \<Rightarrow> Inr ()
      | Some c \<Rightarrow>
        if c_collection_stage c \<noteq> ''before_work_start'' then Inr ()
        else if c_status c \<in> {''PAID'', ''NOT_REQUIRED'', ''WAIVED''} then Inr ()
        else if c_status c = ''FAILED''
        then Inl (ServiceOSException ''CUSTOMER_PLATFORM_FEE_PAYMENT_FAILED'')
        else Inl (ServiceOSException ''CUSTOMER_PLATFORM_FEE_REQUIRED''))"

subsection \<open>Provider health (trust_quality/provider_health.py)\<close>

definition UNASSESSED_PROVIDER_HEALTH_SCORE :: decimal where
  "UNASSESSED_PROVIDER_HEALTH_SCORE = 65"

record health_snapshot =
  hs_score :: decimal
  hs_band_key :: "string option"
  hs_source :: string
  hs_reason :: "string option"
  hs_health_score_id :: "uuid option"
  hs_formula_id :: "uuid option"
  hs_formula_key :: "string option"
  hs_formula_version :: "int option"
  hs_calculated_at :: "time option"
  hs_bookable_allowed :: bool

text \<open>
  The rows of the query: scores of the tenant joined to an active formula, and to the band rules of
  the same formula and band (a score with no matching rule is kept once, with no rule: the outer
  join). Newest first, a missing timestamp before all others (\<^verbatim>\<open>DESC\<close> puts NULL first); rows with
  equal timestamps keep their order.
\<close>

definition outer_rules :: "'a monet_db_scheme \<Rightarrow> health_score \<Rightarrow> health_band_rule option list" where
  "outer_rules s h =
     (let ms = filter (\<lambda>b. hb_formula_id b = h_formula_id h \<and> Some (hb_band_key b) = h_band_key h)
                 (health_band_rules s)
      in if ms = [] then [None] else map Some ms)"

definition health_rows ::
  "'a monet_db_scheme \<Rightarrow> uuid \<Rightarrow> (health_score \<times> health_formula \<times> health_band_rule option) list" where
  "health_rows s tid =
     concat (map (\<lambda>h. concat (map (\<lambda>f. map (\<lambda>b. (h, f, b)) (outer_rules s h))
         (filter (\<lambda>f. f_id f = h_formula_id h \<and> f_status f = ''active'') (health_formulas s))))
       (filter (\<lambda>h. h_target_type h = ''tenant'' \<and> h_target_id h = tid) (health_scores s)))"

definition newer :: "time option \<Rightarrow> time option \<Rightarrow> bool" where
  "newer a b = (case (a, b) of (_, None) \<Rightarrow> False | (None, Some _) \<Rightarrow> True | (Some x, Some y) \<Rightarrow> y < x)"

fun newest :: "('r \<Rightarrow> time option) \<Rightarrow> 'r list \<Rightarrow> 'r option" where
  "newest t [] = None"
| "newest t (x # xs) =
     (case newest t xs of None \<Rightarrow> Some x | Some y \<Rightarrow> if newer (t y) (t x) then Some y else Some x)"

definition neutral_snapshot :: "string \<Rightarrow> health_snapshot" where
  "neutral_snapshot reason =
     \<lparr>hs_score = UNASSESSED_PROVIDER_HEALTH_SCORE, hs_band_key = None, hs_source = ''unassessed_default'',
      hs_reason = Some reason, hs_health_score_id = None, hs_formula_id = None, hs_formula_key = None,
      hs_formula_version = None, hs_calculated_at = None, hs_bookable_allowed = True\<rparr>"

definition seconds_per_day :: int where
  "seconds_per_day = 86400"

definition get_provider_health_snapshot ::
  "'a monet_db_scheme \<Rightarrow> time \<Rightarrow> uuid \<Rightarrow> int \<Rightarrow> health_snapshot" where
  "get_provider_health_snapshot s now tid max_age_days =
     (case newest (\<lambda>(h, _, _). h_calculated_at h) (health_rows s tid) of
        None \<Rightarrow> neutral_snapshot ''missing_health_score''
      | Some (h, f, rule) \<Rightarrow>
        (case h_calculated_at h of
           None \<Rightarrow> neutral_snapshot ''health_score_missing_timestamp''
         | Some calculated \<Rightarrow>
           let traced = (\<lambda>reason. (neutral_snapshot reason)\<lparr>
                  hs_health_score_id := Some (h_id h), hs_formula_id := Some (h_formula_id h),
                  hs_formula_key := Some (f_key f), hs_formula_version := Some (f_version f),
                  hs_calculated_at := Some calculated\<rparr>)
           in if now - calculated > max_age_days * seconds_per_day then traced ''stale_health_score''
              else if h_band_key h = None then traced ''unbanded_health_score''
              else (case rule of None \<Rightarrow> traced ''missing_health_band_rule''
                | Some b \<Rightarrow>
                  \<lparr>hs_score = h_score h, hs_band_key = h_band_key h, hs_source = ''canonical'',
                   hs_reason = None, hs_health_score_id = Some (h_id h),
                   hs_formula_id = Some (h_formula_id h), hs_formula_key = Some (f_key f),
                   hs_formula_version = Some (f_version f), hs_calculated_at = Some calculated,
                   hs_bookable_allowed = hb_bookable_allowed b\<rparr>)))"

subsection \<open>Lemmas\<close>

lemma to_major_eq: "to_major m = of_int m / 100"
  by (simp add: to_major_def quantize2_def)

lemma to_minor_of_int_div [simp]: "to_minor (of_int m / 100) = m"
  by (simp add: to_minor_def)

lemma to_minor_error: "\<bar>to_major (to_minor d) - d\<bar> \<le> 1/200"
proof -
  have "\<bar>of_int (half_up (d * 100)) - d * 100\<bar> \<le> 1/2" by (rule half_up_error)
  then show ?thesis by (simp add: to_major_eq to_minor_def abs_le_iff field_simps)
qed

lemma clamp_minor_fst:
  "mn \<le> mx \<Longrightarrow> fst (clamp_minor raw (Some mn) (Some mx)) = max mn (min mx raw)"
  by (auto simp: clamp_minor_def)

lemma clamp_min_max_fst:
  "fst (clamp_min_max u mn mx) =
     (let u1 = (case mn of None \<Rightarrow> u | Some m \<Rightarrow> max m u) in case mx of None \<Rightarrow> u1 | Some m \<Rightarrow> min m u1)"
  by (auto simp: clamp_min_max_def Let_def split: option.split)

lemma clamp_min_max_mono:
  "u \<le> u' \<Longrightarrow> fst (clamp_min_max u mn mx) \<le> fst (clamp_min_max u' mn mx)"
  by (auto simp: clamp_min_max_fst Let_def split: option.split)

lemma quantize2_up_mono: "x \<le> y \<Longrightarrow> quantize2_up x \<le> quantize2_up y"
  by (simp add: quantize2_up_def half_up_mono divide_right_mono)

text \<open>The effective percentage, read off the breakdown.\<close>

definition effective_percentage :: "policy \<Rightarrow> decimal \<Rightarrow> decimal" where
  "effective_percentage p h = bd_percentage (snd (percentage_commission p 0 h))"

lemma fst_percentage_commission:
  "fst (percentage_commission p amount h) =
     fst (clamp_min_max (amount * effective_percentage p h / 100)
        (map_option (\<lambda>m. of_int m / 100) (provider_min_charge_minor p))
        (map_option (\<lambda>m. of_int m / 100) (provider_max_charge_minor p)))"
  by (simp add: percentage_commission_def effective_percentage_def Let_def case_prod_beta)

lemma effective_percentage_eq:
  "effective_percentage p h =
     (let base = or_num (provider_percentage p) 0
      in if h > 0 then min (min 100 (or_num (Some (provider_health_max_effective_percentage p)) 100)) (base + h)
         else min 100 base)"
  by (auto simp: effective_percentage_def percentage_commission_def Let_def split: prod.split)

text \<open>The policy fields as publishing accepts them: base at most the cap, cap at most 100.\<close>

definition published_health_rule :: "policy \<Rightarrow> bool" where
  "published_health_rule p \<longleftrightarrow>
     0 \<le> or_num (provider_percentage p) 0 \<and>
     or_num (provider_percentage p) 0 \<le> provider_health_max_effective_percentage p \<and>
     provider_health_max_effective_percentage p \<le> 100"

lemma effective_percentage_bounds:
  assumes "published_health_rule p"
  shows "or_num (provider_percentage p) 0 \<le> effective_percentage p h"
    and "0 < provider_health_max_effective_percentage p \<Longrightarrow>
         effective_percentage p h \<le> provider_health_max_effective_percentage p"
  using assms by (auto simp: effective_percentage_eq published_health_rule_def or_num_def Let_def)

lemma effective_percentage_mono:
  assumes "published_health_rule p" and "h \<le> h'"
  shows "effective_percentage p h \<le> effective_percentage p h'"
  using assms by (auto simp: effective_percentage_eq published_health_rule_def or_num_def Let_def)

lemma provider_credits_percentage:
  assumes "provider_model p = ''PERCENTAGE_COMMISSION''" and "ovr \<noteq> Some ''FIXED_CREDITS''"
  shows "pc_credit_units (calculate_provider_completion_credits (Some p) a True cuo ovr h) =
     quantize2_up (max 0 (fst (percentage_commission p (quantize2_up a) h)))"
  using assms by (simp add: calculate_provider_completion_credits_def Let_def split: prod.split)

lemma provider_credits_nonneg:
  "0 \<le> pc_credit_units (calculate_provider_completion_credits po a en cuo ovr h)"
  by (auto simp: calculate_provider_completion_credits_def Let_def quantize2_up_nonneg
      split: option.split prod.split)

subsection \<open>Charges: one per idempotency key\<close>

definition charge_wf :: "'a monet_db_scheme \<Rightarrow> bool" where
  "charge_wf s \<longleftrightarrow> distinct (map c_idempotency_key (fee_charges s))"

definition charge_recorded :: "'a monet_db_scheme \<Rightarrow> string \<Rightarrow> uuid \<Rightarrow> bool" where
  "charge_recorded s idem cid \<longleftrightarrow> (\<exists>c \<in> set (fee_charges s). c_idempotency_key c = idem \<and> c_id c = cid)"

definition charge_call :: "'a monet_db_scheme \<Rightarrow> string \<Rightarrow> 'a monet_db_scheme \<Rightarrow> uuid \<Rightarrow> bool" where
  "charge_call s idem t cid \<longleftrightarrow>
     (\<exists>key bid tid cust amt ev c. idem = ''booking:'' @ str_uuid bid \<and> c_id c = cid \<and>
        create_charge_for_booking s key bid tid cust amt ev = Inr (t, Some c)) \<or>
     (\<exists>key qid ver job tid cust amt ev c. idem = ''quote:'' @ str_uuid qid @ '':v'' @ str_int ver \<and> c_id c = cid \<and>
        create_charge_for_quote s key qid ver True job tid cust amt ev = Inr (t, Some c))"

text \<open>
  What happens to the charges: a creation, a payment outcome written on a charge, or anything that
  leaves the charges alone (policies published, verticals edited, other tables).
\<close>

inductive charge_step :: "'a monet_db_scheme \<Rightarrow> 'a monet_db_scheme \<Rightarrow> bool" where
  create: "charge_call s idem t cid \<Longrightarrow> charge_step s t"
| set_status: "charge_step s (s\<lparr>fee_charges := update_where p (\<lambda>c. c\<lparr>c_status := st\<rparr>) (fee_charges s)\<rparr>)"
| elsewhere: "fee_charges t = fee_charges s \<Longrightarrow> charge_step s t"

lemma charge_row_simps [simp]:
  "c_idempotency_key (charge_row cid idem vid tid cust amt r basis st ev) = idem"
  "c_id (charge_row cid idem vid tid cust amt r basis st ev) = cid"
  "c_job_id (charge_row cid idem vid tid cust amt r basis st ev) = None"
  by (simp_all add: charge_row_def)

lemma create_charge_for_booking_cases:
  assumes "create_charge_for_booking s key bid tid cust amt ev = Inr (t, Some c)"
  shows "existing_charge s (''booking:'' @ str_uuid bid) = Inr (Some c) \<and> t = s \<or>
    existing_charge s (''booking:'' @ str_uuid bid) = Inr None \<and>
    c_idempotency_key c = ''booking:'' @ str_uuid bid \<and> c_job_id c = None \<and> t = fst (add_charge s c)"
  using assms unfolding create_charge_for_booking_def Let_def bind_res_Inr
  by (auto simp: bind_res_Inr add_charge_def split: option.splits)

lemma create_charge_for_quote_cases:
  assumes "create_charge_for_quote s key qid ver cur job tid cust amt ev = Inr (t, Some c)"
  shows "cur \<and> (existing_charge s (''quote:'' @ str_uuid qid @ '':v'' @ str_int ver) = Inr (Some c) \<and> t = s \<or>
    existing_charge s (''quote:'' @ str_uuid qid @ '':v'' @ str_int ver) = Inr None \<and>
    c_idempotency_key c = ''quote:'' @ str_uuid qid @ '':v'' @ str_int ver \<and> t = fst (add_charge s c))"
  using assms unfolding create_charge_for_quote_def Let_def
  by (cases cur) (auto simp: bind_res_Inr add_charge_def split: option.splits)

lemma charge_call_cases:
  assumes "charge_call s idem t cid"
  obtains (hit) c where "existing_charge s idem = Inr (Some c)" "c_id c = cid" "t = s"
  | (fresh) c where "existing_charge s idem = Inr None" "c_idempotency_key c = idem" "c_id c = cid"
      "t = fst (add_charge s c)"
  using assms unfolding charge_call_def
  by (elim disjE exE conjE) (blast dest: create_charge_for_booking_cases create_charge_for_quote_cases)+

lemma existing_charge_None: "existing_charge s idem = Inr None \<longleftrightarrow> idem \<notin> c_idempotency_key ` set (fee_charges s)"
  by (auto simp: existing_charge_def one_or_none_None filter_empty_conv)

lemma existing_charge_Some:
  "charge_wf s \<Longrightarrow> existing_charge s idem = Inr (Some c) \<longleftrightarrow> c \<in> set (fee_charges s) \<and> c_idempotency_key c = idem"
  unfolding existing_charge_def charge_wf_def one_or_none_Some
  using filter_key_single [of c_idempotency_key "fee_charges s" c] by (auto dest: filter_eq_single_mem)

interpretation fee_keys: keyed_posting charge_wf charge_step charge_recorded charge_call
proof
  fix s t :: "'a monet_db_scheme" and idem cid
  show "charge_wf t" if "charge_wf s" "charge_step s t"
    using that(2,1)
  proof cases
    case (create idem cid)
    from this(1) that(1) show ?thesis
      by (cases rule: charge_call_cases) (auto simp: charge_wf_def add_charge_def existing_charge_None)
  qed (auto simp: charge_wf_def map_update_where_key)
  show "charge_step s t" if "charge_call s idem t cid" using that by (rule charge_step.create)
  show "charge_recorded t idem cid" if "charge_step s t" "charge_recorded s idem cid"
    using that
  proof cases
    case (create idem' cid')
    from this(1) that(2) show ?thesis
      by (cases rule: charge_call_cases) (auto simp: charge_recorded_def add_charge_def)
  next
    case (set_status p st)
    from that(2) obtain c where c: "c \<in> set (fee_charges s)" "c_idempotency_key c = idem" "c_id c = cid"
      by (auto simp: charge_recorded_def)
    from c(1) have "(if p c then c\<lparr>c_status := st\<rparr> else c) \<in> set (fee_charges t)"
      using set_status by (auto simp: update_where_def)
    moreover have "c_idempotency_key (if p c then c\<lparr>c_status := st\<rparr> else c) = idem"
      "c_id (if p c then c\<lparr>c_status := st\<rparr> else c) = cid" using c by auto
    ultimately show ?thesis unfolding charge_recorded_def by blast
  qed (auto simp: charge_recorded_def)
  show "charge_recorded t idem cid" if "charge_wf s" "charge_call s idem t cid"
    using that(2,1)
    by (cases rule: charge_call_cases) (auto simp: charge_recorded_def add_charge_def existing_charge_Some)
  show "t = s \<and> cid' = cid" if "charge_wf s" "charge_recorded s idem cid" "charge_call s idem t cid'" for cid'
  proof -
    from that(2) obtain c where c: "c \<in> set (fee_charges s)" "c_idempotency_key c = idem" "c_id c = cid"
      by (auto simp: charge_recorded_def)
    with that(1) have "existing_charge s idem = Inr (Some c)" by (simp add: existing_charge_Some)
    with that(3) c show ?thesis by (auto elim: charge_call_cases)
  qed
qed

subsection \<open>Properties\<close>


definition demo_terms :: sla_terms where
  "demo_terms = \<lparr>t_breach_hours = Some 0, t_penalty_amount = Some 50, t_penalty_to_customer = False,
     t_penalty_debt_cap = Some 500, t_auto_cancel = True, t_penalty_type = ''fixed'', t_penalty_percentage = None,
     t_penalty_min = None, t_penalty_max = None, t_breachable_statuses = None, t_close_after_hours = 24,
     t_total_penalty_amount = 200, t_health_suspension_threshold = Some 40, t_health_suspension_days = Some 7,
     t_health_reinstatement_score = Some 60\<rparr>"

definition demo_policy :: policy where
  "demo_policy = \<lparr>p_id = 1, p_vertical_id = 2, version_number = 3, p_status = ''published'',
     p_is_current = True, provider_model = ''PERCENTAGE_COMMISSION'', provider_percentage = Some 10,
     provider_fixed_amount_minor = None, provider_credit_units = None, p_provider_chargeable_event = None,
     provider_min_charge_minor = None, provider_max_charge_minor = None,
     provider_health_adjustment_enabled = True,
     provider_health_adjustments_json = [(''gold'', JNum 0), (''watchlist'', JNum 5)],
     provider_health_score_max_age_days = 30, provider_health_max_effective_percentage = 25,
     provider_non_bookable_health_charge_mode = ''BASE_RATE_ONLY'',
     customer_fee_model = ''PERCENTAGE_WITH_MIN_MAX'', customer_fee_percentage = Some 5,
     customer_fee_fixed_amount_minor = None, customer_fee_min_minor = Some 1000,
     customer_fee_max_minor = Some 5000, p_collection_stage = ''before_work_start'',
     customer_fee_refund_policy = ''refundable'', p_customer_reschedule_limit = None, p_provider_reschedule_limit = None,
     p_customer_cancellation_enabled = None, p_customer_cancellation_cutoff_minutes = None,
     p_customer_cancellation_reasons = [], p_provider_reschedule_approval_hours = None,
     p_sla = demo_terms\<rparr>"


text \<open>
  The customer platform fee under \<^verbatim>\<open>PERCENTAGE_WITH_MIN_MAX\<close>, with the publishing rule
  minimum at most maximum: the fee is the half-up percentage of the chargeable subtotal clamped
  into the interval, never more than the maximum nor less than the minimum, and the total is the
  subtotal plus the fee less the credit, floored at zero.
\<close>

theorem customer_fee_clamped:
  assumes "customer_fee_model p = ''PERCENTAGE_WITH_MIN_MAX''" and "customer_fee_min_minor p = Some mn"
    and "customer_fee_max_minor p = Some mx" and "0 \<le> mn" and "mn \<le> mx"
  shows "let r = calculate_customer_platform_fee (Some p) subtotal 0 credit cur in
      fee_amount_minor r = max mn (min mx (pct_of (max 0 subtotal) (or_num (customer_fee_percentage p) 0))) \<and>
      mn \<le> fee_amount_minor r \<and> fee_amount_minor r \<le> mx \<and>
      total_payable_minor r = max 0 (subtotal + fee_amount_minor r - credit)"
proof -
  let ?raw = "pct_of (max 0 subtotal) (or_num (customer_fee_percentage p) 0)"
  have "fst (customer_fee_minor p (max 0 subtotal)) = max mn (min mx ?raw)"
    using assms clamp_minor_fst [OF assms(5), of ?raw] by (simp add: customer_fee_minor_def Let_def case_prod_beta)
  then have "fee_amount_minor (calculate_customer_platform_fee (Some p) subtotal 0 credit cur) = max mn (min mx ?raw)"
    using assms by (auto simp: calculate_customer_platform_fee_def Let_def case_prod_beta)
  moreover have "total_payable_minor (calculate_customer_platform_fee (Some p) subtotal 0 credit cur) =
      max 0 (subtotal + fee_amount_minor (calculate_customer_platform_fee (Some p) subtotal 0 credit cur) - credit)"
    using assms(1) by (simp add: calculate_customer_platform_fee_def Let_def case_prod_beta)
  ultimately show ?thesis using assms(4,5) by (simp add: Let_def)
qed

theorem customer_fee_clamped_witness:
  "fee_amount_minor (calculate_customer_platform_fee (Some demo_policy) 50050 0 0 ''INR'') = 2503 \<and>
   fee_amount_minor (calculate_customer_platform_fee (Some demo_policy) 100 0 0 ''INR'') = 1000 \<and>
   total_payable_minor (calculate_customer_platform_fee (Some demo_policy) 900000 0 400 ''INR'') = 904600"
proof -
  have p: "customer_fee_model demo_policy = ''PERCENTAGE_WITH_MIN_MAX''"
    "customer_fee_min_minor demo_policy = Some 1000" "customer_fee_max_minor demo_policy = Some 5000"
    by (simp_all add: demo_policy_def)
  note fee = customer_fee_clamped [OF p]
  show ?thesis
    using fee [of 50050 0 "''INR''"] fee [of 100 0 "''INR''"] fee [of 900000 400 "''INR''"]
    by (simp add: Let_def pct_of_def half_up_def or_num_def demo_policy_def)
qed

text \<open>
  Minor and major units. Rendering an integer number of minor units and reading it back is the
  identity, and reading a major amount loses at most half a minor unit.
\<close>

theorem minor_major_roundtrip: "to_minor (to_major m) = m \<and> \<bar>to_major (to_minor d) - d\<bar> \<le> 1/200"
  using to_minor_error by (simp add: to_major_eq)

text \<open>
  One platform-fee charge per source record. Once a charge was created for a quote version, and
  whatever happened to charges, policies and payments since, re-running the trigger for the same
  quote version (with any amount, any job) creates nothing and answers with the same charge.
\<close>

theorem platform_fee_charged_once:
  assumes "charge_wf s"
    and "create_charge_for_quote s key qid ver True job tid cust amt ev = Inr (s1, Some c1)"
    and "charge_step\<^sup>*\<^sup>* s1 s2"
    and "create_charge_for_quote s2 key' qid ver True job' tid' cust' amt' ev' = Inr (s3, Some c3)"
  shows "s3 = s2 \<and> c_id c3 = c_id c1"
proof (rule fee_keys.second_call_no_effect [OF assms(1) _ assms(3)])
  let ?k = "''quote:'' @ str_uuid qid @ '':v'' @ str_int ver"
  show "charge_call s ?k s1 (c_id c1)" and "charge_call s2 ?k s3 (c_id c3)"
    unfolding charge_call_def using assms(2,4) by blast+
qed

definition demo_monet :: monet_db where
  "demo_monet = job_db.extend demo_jobs
     (monet_db.fields [\<lparr>v_id = 2, v_key = ''home_services''\<rparr>] [demo_policy] [] [] [] [] [])"

lemma demo_monet_simps [simp]:
  "verticals demo_monet = [\<lparr>v_id = 2, v_key = ''home_services''\<rparr>]" "policies demo_monet = [demo_policy]"
  "fee_charges demo_monet = []" "health_formulas demo_monet = []" "health_band_rules demo_monet = []"
  "health_scores demo_monet = []" "job_type_rules demo_monet = []"
  "service_jobs demo_monet = service_jobs demo_jobs" "service_bookings demo_monet = service_bookings demo_jobs"
  by (simp_all add: demo_monet_def monet_db.defs job_db.defs demo_jobs_def ledger_db.defs empty_ledger_def)

theorem platform_fee_charged_once_witness:
  "\<exists>s1 c1 s3 c3. create_charge_for_quote demo_monet ''home_services'' 8 1 True 1 None None 500 ''approved'' = Inr (s1, Some c1) \<and>
     create_charge_for_quote s1 ''home_services'' 8 1 True 1 None None 900 ''retry'' = Inr (s3, Some c3) \<and>
     s3 = s1 \<and> c_id c3 = c_id c1"
proof -
  let ?call = "create_charge_for_quote demo_monet ''home_services'' 8 1 True 1 None None 500 ''approved''"
  obtain s1 c1 where 1: "?call = Inr (s1, Some c1)"
    by (simp add: create_charge_for_quote_def get_vertical_id_def existing_charge_def get_current_policy_def
        demo_policy_def add_charge_def Let_def)
  have wf: "charge_wf demo_monet" by (simp add: charge_wf_def)
  from 1 obtain s3 c3 where 2: "create_charge_for_quote s1 ''home_services'' 8 1 True 1 None None 900 ''retry'' = Inr (s3, Some c3)"
    by (auto simp: create_charge_for_quote_def get_vertical_id_def existing_charge_def get_current_policy_def
        demo_policy_def add_charge_def Let_def)
  from platform_fee_charged_once [OF wf 1 rtranclp.rtrancl_refl 2] 1 2 show ?thesis by blast
qed

text \<open>
  A charge made at booking never gates the start of work. Booking charges carry the booking and
  no job, and the gate looks charges up by job: creating one, whatever collection stage its policy
  asks for, leaves the answer of the gate unchanged for every job.
\<close>

theorem booking_charge_never_gates:
  assumes "create_charge_for_booking s key bid tid cust amt ev = Inr (t, Some c)"
    and "existing_charge s (''booking:'' @ str_uuid bid) = Inr None"
  shows "assert_customer_platform_fee_paid_if_required t job = assert_customer_platform_fee_paid_if_required s job"
  using create_charge_for_booking_cases [OF assms(1)] assms(2)
  by (auto simp: assert_customer_platform_fee_paid_if_required_def add_charge_def)

theorem booking_charge_never_gates_witness:
  "\<exists>t c. create_charge_for_booking demo_monet ''home_services'' 2 None None 500 ''confirm'' = Inr (t, Some c) \<and>
     c_collection_stage c = ''before_work_start'' \<and> c_status c = ''PENDING'' \<and>
     assert_customer_platform_fee_paid_if_required t 1 = Inr ()"
proof -
  obtain t c where c: "create_charge_for_booking demo_monet ''home_services'' 2 None None 500 ''confirm'' = Inr (t, Some c)"
    "c_collection_stage c = ''before_work_start''" "c_status c = ''PENDING''"
    by (simp add: create_charge_for_booking_def get_vertical_id_def existing_charge_def get_current_policy_def
        demo_policy_def add_charge_def charge_row_def calculate_customer_platform_fee_def customer_fee_minor_def
        clamp_minor_def pct_of_def to_minor_def or_num_def Let_def)
  have e: "existing_charge demo_monet (''booking:'' @ str_uuid 2) = Inr None" by (simp add: existing_charge_def)
  have "assert_customer_platform_fee_paid_if_required demo_monet 1 = Inr ()"
    by (simp add: assert_customer_platform_fee_paid_if_required_def)
  with booking_charge_never_gates [OF c(1) e, of 1] c show ?thesis by metis
qed

lemma newest_Some:
  "newest t xs = Some x \<Longrightarrow> x \<in> set xs \<and> (\<forall>y \<in> set xs. \<not> newer (t y) (t x))"
proof (induction xs arbitrary: x)
  case Nil
  then show ?case by simp
next
  case (Cons a xs)
  show ?case
  proof (cases "newest t xs")
    case None
    then have "xs = []" by (cases xs) (auto split: option.splits if_splits)
    with Cons.prems show ?thesis by (auto simp: newer_def split: option.splits)
  next
    case (Some y)
    from Cons.IH [OF Some] Cons.prems Some show ?thesis
      by (auto simp: newer_def split: option.splits if_splits; fastforce)
  qed
qed

lemma health_rows_tenant:
  "(h, f, rule) \<in> set (health_rows s tid) \<Longrightarrow>
     h \<in> set (health_scores s) \<and> h_target_type h = ''tenant'' \<and> h_target_id h = tid \<and>
     f \<in> set (health_formulas s) \<and> f_id f = h_formula_id h \<and> f_status f = ''active'' \<and>
     (\<forall>b. rule = Some b \<longrightarrow> b \<in> set (health_band_rules s) \<and> hb_formula_id b = h_formula_id h \<and>
        h_band_key h = Some (hb_band_key b))"
  by (auto simp: health_rows_def outer_rules_def Let_def split: if_splits)

text \<open>
  a provider health answer is either canonical or neutral. It is canonical only for a score of
  this tenant under an active formula, no older than the window, with a band and a rule for the band,
  and no other such score is newer; in every other case the answer is the neutral one: score 65, no
  band, bookable, so a missing or stale score never costs the provider anything.
\<close>

theorem health_snapshot_canonical_or_neutral:
  "let r = get_provider_health_snapshot s now tid days in
     (hs_source r = ''canonical'' \<longrightarrow>
       (\<exists>h f b c. (h, f, Some b) \<in> set (health_rows s tid) \<and> f_status f = ''active'' \<and>
          h_target_id h = tid \<and> h_calculated_at h = Some c \<and> now - c \<le> days * seconds_per_day \<and>
          hs_score r = h_score h \<and> hs_band_key r = Some (hb_band_key b) \<and>
          hs_bookable_allowed r = hb_bookable_allowed b \<and>
          (\<forall>h' f' b'. (h', f', b') \<in> set (health_rows s tid) \<longrightarrow>
             (\<exists>c'. h_calculated_at h' = Some c' \<and> c' \<le> c)))) \<and>
     (hs_source r \<noteq> ''canonical'' \<longrightarrow>
       hs_score r = 65 \<and> hs_band_key r = None \<and> hs_bookable_allowed r \<and> hs_reason r \<noteq> None)"
proof (cases "newest (\<lambda>(h, _, _). h_calculated_at h) (health_rows s tid)")
  case None
  then show ?thesis
    by (simp add: get_provider_health_snapshot_def neutral_snapshot_def UNASSESSED_PROVIDER_HEALTH_SCORE_def)
next
  case (Some row)
  obtain h f rule where row: "row = (h, f, rule)" by (cases row)
  note new = Some [unfolded row]
  from newest_Some [OF new] have mem: "(h, f, rule) \<in> set (health_rows s tid)"
    and top: "\<And>h' f' b'. (h', f', b') \<in> set (health_rows s tid) \<Longrightarrow>
      \<not> newer (h_calculated_at h') (h_calculated_at h)" by fastforce+
  have latest: "\<exists>c'. h_calculated_at h' = Some c' \<and> c' \<le> c"
    if "h_calculated_at h = Some c" "(h', f', b') \<in> set (health_rows s tid)" for c h' f' b'
    using top [OF that(2)] that(1) by (auto simp: newer_def split: option.splits)
  show ?thesis
  proof (cases "\<exists>c b. h_calculated_at h = Some c \<and> now - c \<le> days * seconds_per_day \<and> rule = Some b")
    case True
    then obtain c b where c: "h_calculated_at h = Some c" "now - c \<le> days * seconds_per_day" "rule = Some b"
      by blast
    from health_rows_tenant [OF mem] c(3) have f: "f_status f = ''active''" "h_target_id h = tid"
      "h_band_key h = Some (hb_band_key b)" by auto
    from new c f have snap: "get_provider_health_snapshot s now tid days =
      \<lparr>hs_score = h_score h, hs_band_key = Some (hb_band_key b), hs_source = ''canonical'', hs_reason = None,
       hs_health_score_id = Some (h_id h), hs_formula_id = Some (h_formula_id h),
       hs_formula_key = Some (f_key f), hs_formula_version = Some (f_version f),
       hs_calculated_at = Some c, hs_bookable_allowed = hb_bookable_allowed b\<rparr>"
      by (simp add: get_provider_health_snapshot_def)
    have "\<exists>h f b c. (h, f, Some b) \<in> set (health_rows s tid) \<and> f_status f = ''active'' \<and>
          h_target_id h = tid \<and> h_calculated_at h = Some c \<and> now - c \<le> days * seconds_per_day \<and>
          hs_score (get_provider_health_snapshot s now tid days) = h_score h \<and>
          hs_band_key (get_provider_health_snapshot s now tid days) = Some (hb_band_key b) \<and>
          hs_bookable_allowed (get_provider_health_snapshot s now tid days) = hb_bookable_allowed b \<and>
          (\<forall>h' f' b'. (h', f', b') \<in> set (health_rows s tid) \<longrightarrow>
             (\<exists>c'. h_calculated_at h' = Some c' \<and> c' \<le> c))"
      using mem f c latest unfolding snap by (intro exI [of _ h] exI [of _ f] exI [of _ b] exI [of _ c]) auto
    with snap show ?thesis by (simp add: Let_def)
  next
    case False
    with new show ?thesis
      by (auto simp: get_provider_health_snapshot_def neutral_snapshot_def Let_def
          UNASSESSED_PROVIDER_HEALTH_SCORE_def not_less split: option.splits)
  qed
qed

theorem health_snapshot_canonical_or_neutral_witness:
  "\<exists>s. hs_source (get_provider_health_snapshot s 100 7 30) = ''canonical'' \<and>
     hs_score (get_provider_health_snapshot s 100 7 30) = 40 \<and>
     hs_score (get_provider_health_snapshot (s :: monet_db) 9000000 7 30) = 65"
proof -
  let ?s = "demo_monet\<lparr>
      health_scores := [\<lparr>h_id = 1, h_target_type = ''tenant'', h_target_id = 7, h_formula_id = 3, h_score = 40,
                         h_band_key = Some ''watchlist'', h_calculated_at = Some 90\<rparr>],
      health_formulas := [\<lparr>f_id = 3, f_key = ''k'', f_version = 1, f_status = ''active''\<rparr>],
      health_band_rules := [\<lparr>hb_id = 4, hb_formula_id = 3, hb_band_key = ''watchlist'', hb_bookable_allowed = True\<rparr>]\<rparr>"
  have a: "hs_source (get_provider_health_snapshot ?s 100 7 30) = ''canonical''"
    "hs_score (get_provider_health_snapshot ?s 100 7 30) = 40"
    by (simp_all add: get_provider_health_snapshot_def health_rows_def outer_rules_def seconds_per_day_def Let_def)
  have "hs_source (get_provider_health_snapshot ?s 9000000 7 30) \<noteq> ''canonical''"
    by (simp add: get_provider_health_snapshot_def health_rows_def outer_rules_def seconds_per_day_def
        neutral_snapshot_def Let_def)
  with health_snapshot_canonical_or_neutral [of ?s 9000000 7 30]
  have "hs_score (get_provider_health_snapshot ?s 9000000 7 30) = 65" by (simp add: Let_def)
  with a show ?thesis by blast
qed

end
