(* ===== verification/UsageCredits.thy ===== *)
theory UsageCredits
  imports Monetization
begin

section \<open>Usage credits: the provider's prepaid balance\<close>

text \<open>
  The canonical usage-credit service (usage_credits/service.py), the completed-job deduction and the
  lifecycle hook that offers it (execution/usage_credit_deduction.py), the recovery of the customer
  platform fee (vertical_monetization/customer_charge_recovery.py) and the team suspension the
  balance drives (vertical_catalog/seat_enforcement.py). Credits may go negative: completing a job
  is never blocked by the balance. \<open>credit_db\<close> adds the billing rows, the credit ledger, the audit
  log, the team members and the booking drafts. Arguments the resolver receives and never reads
  (category, service, brand) are left out of it.
\<close>

subsection \<open>Data (tenant_engine/models.py)\<close>

record tenant_billing =
  tb_tenant_id :: uuid
  tb_credit_balance :: decimal

record health_decision =
  hd_source :: string
  hd_reason :: "string option"
  hd_score :: "decimal option"
  hd_band_key :: "string option"
  hd_adjustment :: decimal

record charged_snapshot =
  cs_policy_id :: uuid
  cs_policy_version :: int
  cs_provider_model :: string
  cs_chargeable_event :: string
  cs_job_type_rule_id :: "uuid option"
  cs_calculation :: provider_breakdown
  cs_provider_health :: health_decision
  cs_final_credit_units :: decimal

datatype calculation_snapshot =
    CS_unsupported_model uuid int
  | CS_event_not_reached uuid int string string
  | CS_charged charged_snapshot
  | CS_no_published_policy

record credit_entry =
  u_id :: uuid
  u_tenant_id :: uuid
  u_job_id :: "uuid option"
  u_booking_id :: "uuid option"
  u_event_type :: string
  credit_delta :: decimal
  u_balance_before :: decimal
  u_balance_after :: decimal
  deduction_source :: "string option"
  u_service_id :: "uuid option"
  u_service_type_id :: "uuid option"
  u_brand_id :: "uuid option"
  u_source_type :: "string option"
  u_source_id :: "string option"
  u_reason_code :: "string option"
  u_reason :: string
  u_created_by :: "uuid option"
  u_actor_role :: "string option"
  u_idempotency_key :: "string option"
  u_request_id :: "string option"
  u_snapshot :: "calculation_snapshot option"

record audit_row =
  au_operation :: string
  au_tenant_id :: uuid
  au_entity_id :: string
  au_amount :: decimal
  au_before :: decimal
  au_after :: decimal

record team_member =
  m_id :: uuid
  m_tenant_id :: uuid
  m_status :: string
  m_deleted :: bool
  credit_suspended_at :: "time option"
  m_user_id :: "uuid option"
  m_member_type :: "string option"
  m_designation :: "string option"
  m_can_receive_assignment :: "bool option"
  m_supported_offering_ids :: "uuid list"

record booking_draft =
  d_id :: uuid
  d_customer_id :: "uuid option"
  d_status :: string
  d_selected_tenant_id :: "uuid option"
  d_category_id :: uuid
  d_offering_id :: uuid
  d_job_type_id :: "uuid option"
  d_workflow_id :: "uuid option"
  d_selected_problem_id :: "uuid option"
  d_preferred_date :: "date option"
  d_preferred_time_window :: "string option"
  d_promised_slot :: "(date option \<times> string option) option"
  d_price_snapshot :: "price_snapshot option"
  d_agreed_price :: json_value
  d_duplicate_booking_override :: bool
  d_duplicate_problem_id :: "uuid option"
  d_offering_type_id :: "uuid option"
  d_brand_id :: "uuid option"

record credit_db = monet_db +
  tenant_billings :: "tenant_billing list"
  usage_credit_ledger :: "credit_entry list"
  platform_audit :: "audit_row list"
  team_members :: "team_member list"
  booking_drafts :: "booking_draft list"

abbreviation billings_of :: "'a credit_db_scheme \<Rightarrow> uuid \<Rightarrow> tenant_billing list" where
  "billings_of s tid \<equiv> filter (\<lambda>b. tb_tenant_id b = tid) (tenant_billings s)"

text \<open>An entry with every optional column empty, as the ORM constructor leaves it.\<close>

definition blank_entry :: "uuid \<Rightarrow> uuid \<Rightarrow> string \<Rightarrow> decimal \<Rightarrow> decimal \<Rightarrow> string \<Rightarrow> credit_entry" where
  "blank_entry eid tid event delta before reason =
     \<lparr>u_id = eid, u_tenant_id = tid, u_job_id = None, u_booking_id = None, u_event_type = event,
      credit_delta = delta, u_balance_before = before, u_balance_after = before + delta,
      deduction_source = None, u_service_id = None, u_service_type_id = None, u_brand_id = None,
      u_source_type = None, u_source_id = None, u_reason_code = None, u_reason = reason,
      u_created_by = None, u_actor_role = None, u_idempotency_key = None, u_request_id = None,
      u_snapshot = None\<rparr>"

subsection \<open>Team suspension (vertical_catalog/seat_enforcement.py)\<close>

record team_sync =
  ts_action :: string
  ts_suspended :: nat
  ts_restored :: nat

definition suspendable :: "uuid \<Rightarrow> team_member \<Rightarrow> bool" where
  "suspendable tid m \<longleftrightarrow> m_tenant_id m = tid \<and> \<not> m_deleted m \<and> m_status m = ''active'' \<and>
     credit_suspended_at m = None"

definition restorable :: "uuid \<Rightarrow> team_member \<Rightarrow> bool" where
  "restorable tid m \<longleftrightarrow> m_tenant_id m = tid \<and> \<not> m_deleted m \<and> credit_suspended_at m \<noteq> None"

definition sync_team_credit_suspension ::
  "'a credit_db_scheme \<Rightarrow> time \<Rightarrow> uuid \<Rightarrow> 'a credit_db_scheme \<times> team_sync" where
  "sync_team_credit_suspension s now tid =
     (case first_row (billings_of s tid) of
        None \<Rightarrow> (s, \<lparr>ts_action = ''no_billing_row'', ts_suspended = 0, ts_restored = 0\<rparr>)
      | Some b \<Rightarrow>
        if tb_credit_balance b \<le> 0 then
          (s\<lparr>team_members := update_where (suspendable tid)
                (\<lambda>m. m\<lparr>m_status := ''inactive'', credit_suspended_at := Some now\<rparr>) (team_members s)\<rparr>,
           \<lparr>ts_action = ''suspended'', ts_suspended = length (filter (suspendable tid) (team_members s)),
            ts_restored = 0\<rparr>)
        else
          (s\<lparr>team_members := update_where (restorable tid)
                (\<lambda>m. m\<lparr>m_status := ''active'', credit_suspended_at := None\<rparr>) (team_members s)\<rparr>,
           \<lparr>ts_action = ''restored'', ts_suspended = 0,
            ts_restored = length (filter (restorable tid) (team_members s))\<rparr>))"

subsection \<open>Resolution of the provider charge (execution/usage_credit_deduction.py)\<close>

definition HS_KEY :: string where
  "HS_KEY = ''home_services''"

definition DEDUCTION_EVENT_TYPE :: string where
  "DEDUCTION_EVENT_TYPE = ''completed_job_deduction''"

definition EVENT_NOT_REACHED :: string where
  "EVENT_NOT_REACHED = ''event_not_reached''"

text \<open>
  The health part: the adjustment in percentage points and the decision kept in the snapshot.
  \<^verbatim>\<open>Decimal(str(value))\<close> of a JSON null or of a text that is no number raises, and the handler falls
  back to the base rate.
\<close>

definition json_decimal :: "json_value \<Rightarrow> decimal option" where
  "json_decimal v = (case v of JNull \<Rightarrow> None | JNum d \<Rightarrow> Some d | JText t \<Rightarrow> parse_decimal t)"

definition band_adjustment :: "policy \<Rightarrow> string option \<Rightarrow> decimal option" where
  "band_adjustment p band =
     map_option (max 0) (json_decimal
       (case Option.bind band (map_of (provider_health_adjustments_json p)) of None \<Rightarrow> JNum 0 | Some v \<Rightarrow> v))"

definition health_decision_for ::
  "'a monet_db_scheme \<Rightarrow> time \<Rightarrow> policy \<Rightarrow> uuid option \<Rightarrow> health_decision" where
  "health_decision_for s now p tenant_id =
     (case tenant_id of
        Some tid \<Rightarrow>
          if provider_health_adjustment_enabled p \<and> provider_model p = ''PERCENTAGE_COMMISSION'' then
            let days = (if provider_health_score_max_age_days p = 0 then 30
                        else provider_health_score_max_age_days p);
                h = get_provider_health_snapshot s now tid days;
                (adj, reason) =
                  (if hs_source h = ''canonical'' then
                     (let (a, r) = (case band_adjustment p (hs_band_key h) of
                                      None \<Rightarrow> (0, Some ''invalid_band_adjustment'')
                                    | Some x \<Rightarrow> (x, hs_reason h))
                      in if \<not> hs_bookable_allowed h \<and>
                            provider_non_bookable_health_charge_mode p = ''BASE_RATE_ONLY''
                         then (0, Some ''non_bookable_band_base_rate_only'') else (a, r))
                   else (0, hs_reason h))
            in \<lparr>hd_source = hs_source h, hd_reason = reason, hd_score = Some (hs_score h),
                hd_band_key = hs_band_key h, hd_adjustment = adj\<rparr>
          else \<lparr>hd_source = ''not_applicable'', hd_reason = Some ''health_adjustment_disabled'',
                hd_score = None, hd_band_key = None, hd_adjustment = 0\<rparr>
      | None \<Rightarrow> \<lparr>hd_source = ''not_applicable'', hd_reason = Some ''health_adjustment_disabled'',
                hd_score = None, hd_band_key = None, hd_adjustment = 0\<rparr>)"

definition charge_source :: "policy \<Rightarrow> job_type_rule option \<Rightarrow> string" where
  "charge_source p override =
     (case override of Some r \<Rightarrow> ''monetization_job_type_rule:'' @ str_uuid (r_id r)
      | None \<Rightarrow> ''monetization_policy:'' @ str_uuid (p_id p))"

definition configured_event :: "policy \<Rightarrow> job_type_rule option \<Rightarrow> string" where
  "configured_event p override =
     (case override of Some r \<Rightarrow> provider_chargeable_event r
      | None \<Rightarrow> (if truthy (p_provider_chargeable_event p) then the (p_provider_chargeable_event p)
                 else ''job_completed''))"

definition home_services_policy :: "'a monet_db_scheme \<Rightarrow> policy option res" where
  "home_services_policy s =
     bind_res (one_or_none (filter (\<lambda>v. v_key v = HS_KEY) (verticals s))) (\<lambda>vertical.
       case vertical of None \<Rightarrow> Inr None | Some v \<Rightarrow> get_current_policy s (v_id v))"

definition resolve_commission_charge ::
  "'a monet_db_scheme \<Rightarrow> time \<Rightarrow> decimal option \<Rightarrow> uuid option \<Rightarrow> string \<Rightarrow> uuid option \<Rightarrow>
   (decimal \<times> string option \<times> calculation_snapshot) res" where
  "resolve_commission_charge s now job_price job_type_id chargeable_event tenant_id =
     bind_res (home_services_policy s) (\<lambda>policy.
       case policy of None \<Rightarrow> Inr (0, None, CS_no_published_policy)
       | Some p \<Rightarrow>
         if provider_model p \<notin> {''COMPLETION_CREDITS'', ''PERCENTAGE_COMMISSION'', ''FIXED_COMPLETION_CHARGE''}
         then Inr (0, Some (''monetization_policy:'' @ str_uuid (p_id p) @ '':unsupported_model''),
                   CS_unsupported_model (p_id p) (version_number p))
         else bind_res (get_active_job_type_rule s (p_id p) job_type_id) (\<lambda>override.
           if configured_event p override \<noteq> chargeable_event
           then Inr (0, Some (charge_source p override @ '':'' @ EVENT_NOT_REACHED),
                     CS_event_not_reached (p_id p) (version_number p) (configured_event p override)
                       chargeable_event)
           else
             let health = health_decision_for s now p tenant_id;
                 calculated = calculate_provider_completion_credits (Some p)
                   (case job_price of None \<Rightarrow> 0 | Some x \<Rightarrow> x)
                   (case override of None \<Rightarrow> True | Some r \<Rightarrow> provider_charge_enabled r)
                   (case override of None \<Rightarrow> None
                    | Some r \<Rightarrow> if provider_model p = ''COMPLETION_CREDITS'' \<or>
                                   provider_charge_model r = ''FIXED_CREDITS''
                                then provider_charge_credit_units r else None)
                   (map_option provider_charge_model override)
                   (hd_adjustment health)
             in Inr (pc_credit_units calculated, Some (charge_source p override),
                  CS_charged \<lparr>cs_policy_id = p_id p, cs_policy_version = version_number p,
                    cs_provider_model = pc_provider_model calculated, cs_chargeable_event = chargeable_event,
                    cs_job_type_rule_id = map_option r_id override,
                    cs_calculation = pc_breakdown calculated, cs_provider_health = health,
                    cs_final_credit_units = pc_credit_units calculated\<rparr>)))"

definition resolve_commission_credits ::
  "'a monet_db_scheme \<Rightarrow> time \<Rightarrow> decimal option \<Rightarrow> uuid option \<Rightarrow> string \<Rightarrow> (decimal \<times> string option) res" where
  "resolve_commission_credits s now job_price job_type_id chargeable_event =
     bind_res (resolve_commission_charge s now job_price job_type_id chargeable_event None)
       (\<lambda>(credits, source, _). if source = None \<and> credits = 0 then Inr (0, None) else Inr (credits, source))"

subsection \<open>Completed-job deduction (execution/usage_credit_deduction.py)\<close>

text \<open>
  The first billing row of the tenant, created with balance zero when missing. A missing tenant id
  finds no row, and the insert violates the NOT NULL constraint.
\<close>

definition ensure_billing ::
  "'a credit_db_scheme \<Rightarrow> uuid option \<Rightarrow> ('a credit_db_scheme \<times> tenant_billing) res" where
  "ensure_billing s tenant_id =
     (case tenant_id of None \<Rightarrow> Inl DBAPIError
      | Some tid \<Rightarrow>
        (case first_row (billings_of s tid) of Some b \<Rightarrow> Inr (s, b)
         | None \<Rightarrow> let b = \<lparr>tb_tenant_id = tid, tb_credit_balance = 0\<rparr>
                   in Inr (s\<lparr>tenant_billings := tenant_billings s @ [b]\<rparr>, b)))"

text \<open>The balance written on the billing row and the ledger row appended.\<close>

definition write_entry :: "'a credit_db_scheme \<Rightarrow> credit_entry \<Rightarrow> 'a credit_db_scheme" where
  "write_entry s e =
     s\<lparr>tenant_billings := update_where (\<lambda>b. tb_tenant_id b = u_tenant_id e)
           (\<lambda>b. b\<lparr>tb_credit_balance := u_balance_after e\<rparr>) (tenant_billings s),
       usage_credit_ledger := usage_credit_ledger s @ [e], next_uuid := Suc (next_uuid s)\<rparr>"

definition job_entry :: "'a credit_db_scheme \<Rightarrow> uuid \<Rightarrow> string \<Rightarrow> credit_entry option" where
  "job_entry s jid event =
     first_row (filter (\<lambda>e. u_job_id e = Some jid \<and> u_event_type e = event) (usage_credit_ledger s))"

datatype deduction_outcome =
    Already_deducted credit_entry
  | Not_yet_chargeable string
  | Deducted credit_entry
  | Deduction_failed

definition deduct_for_completed_job ::
  "'a credit_db_scheme \<Rightarrow> time \<Rightarrow> uuid option \<Rightarrow> uuid \<Rightarrow> uuid \<Rightarrow> uuid \<Rightarrow> uuid option \<Rightarrow> uuid option \<Rightarrow>
   uuid option \<Rightarrow> decimal option \<Rightarrow> string option \<Rightarrow> string \<Rightarrow>
   ('a credit_db_scheme \<times> deduction_outcome) res" where
  "deduct_for_completed_job s now tenant_id job_id booking_id master_service_id offering_type_id brand_id
      job_type_id job_price request_id chargeable_event =
     (case job_entry s job_id DEDUCTION_EVENT_TYPE of
        Some e \<Rightarrow> Inr (s, Already_deducted e)
      | None \<Rightarrow>
        bind_res (resolve_commission_charge s now job_price job_type_id chargeable_event tenant_id)
          (\<lambda>(credits, source, snapshot).
            if truthy source \<and> endswith (the source) EVENT_NOT_REACHED
            then Inr (s, Not_yet_chargeable (the source))
            else bind_res (ensure_billing s tenant_id) (\<lambda>(s1, billing).
              let e = (blank_entry (next_uuid s1) (tb_tenant_id billing) DEDUCTION_EVENT_TYPE (- credits)
                         (tb_credit_balance billing)
                         (''Completed Job Deduction for job '' @ str_uuid job_id))
                        \<lparr>u_job_id := Some job_id, u_booking_id := Some booking_id,
                         deduction_source := source, u_service_id := Some master_service_id,
                         u_service_type_id := offering_type_id, u_brand_id := brand_id,
                         u_request_id := request_id, u_snapshot := Some snapshot\<rparr>;
                  s2 = write_entry s1 e
              in Inr (fst (sync_team_credit_suspension s2 now (tb_tenant_id billing)), Deducted e))))"

definition attempt_charge_at_event ::
  "'a credit_db_scheme \<Rightarrow> time \<Rightarrow> service_job \<Rightarrow> string \<Rightarrow> string option \<Rightarrow>
   ('a credit_db_scheme \<times> deduction_outcome) res" where
  "attempt_charge_at_event s now job chargeable_event request_id =
     (let booking = find (\<lambda>b. b_id b = j_booking_id job) (service_bookings s);
          draft = Option.bind (Option.bind booking b_draft_id)
                    (\<lambda>did. find (\<lambda>d. d_id d = did) (booking_drafts s));
          price = (case Option.bind booking b_price_snapshot of
                     None \<Rightarrow> Inr None
                   | Some sn \<Rightarrow> (case base_price sn of JNull \<Rightarrow> Inr None
                       | v \<Rightarrow> (case json_decimal v of None \<Rightarrow> Inl InvalidOperation | Some d \<Rightarrow> Inr (Some d))))
      in bind_res price (\<lambda>job_price.
        case deduct_for_completed_job s now (j_tenant_id job) (j_id job) (j_booking_id job) (j_offering_id job)
               (Option.bind draft d_offering_type_id) (Option.bind draft d_brand_id)
               (j_job_type_id job) job_price request_id chargeable_event of
          Inl _ \<Rightarrow> Inr (s, Deduction_failed)
        | Inr r \<Rightarrow> Inr r))"

subsection \<open>Recovery of the platform fee (vertical_monetization/customer_charge_recovery.py)\<close>

definition RECOVERY_EVENT_TYPE :: string where
  "RECOVERY_EVENT_TYPE = ''customer_platform_charge_recovery''"

datatype recovery_outcome =
    Already_recovered credit_entry
  | Recovery_skipped
  | Recovery_not_required
  | Recovered credit_entry

text \<open>The amount and the reference: the snapshot of the invoice, or the current policy as a fallback.\<close>

definition recovery_amount ::
  "'a monet_db_scheme \<Rightarrow> uuid \<Rightarrow> decimal \<Rightarrow> decimal option \<Rightarrow> string option \<Rightarrow> (decimal \<times> string) res" where
  "recovery_amount s vid chargeable_amount snapshotted_fee policy_reference =
     (case snapshotted_fee of
        Some fee \<Rightarrow> Inr (quantize2 fee, if truthy policy_reference then the policy_reference
                                     else ''invoice_platform_fee_snapshot'')
      | None \<Rightarrow> bind_res (get_current_policy s vid) (\<lambda>policy.
          let r = calculate_customer_platform_fee policy (to_minor chargeable_amount) 0 0 ''INR''
          in Inr (to_major (fee_amount_minor r),
               if truthy policy_reference then the policy_reference
               else ''monetization_policy:'' @
                    (case fr_policy_id r of None \<Rightarrow> ''None'' | Some i \<Rightarrow> str_uuid i) @ '':v'' @
                    (case fr_policy_version r of None \<Rightarrow> ''None'' | Some v \<Rightarrow> str_int v))))"

definition deduct_customer_platform_charge_recovery ::
  "'a credit_db_scheme \<Rightarrow> uuid \<Rightarrow> uuid \<Rightarrow> uuid \<Rightarrow> string \<Rightarrow> decimal \<Rightarrow> decimal option \<Rightarrow> string option \<Rightarrow>
   string option \<Rightarrow> ('a credit_db_scheme \<times> recovery_outcome) res" where
  "deduct_customer_platform_charge_recovery s tenant_id job_id booking_id vertical_key chargeable_amount
      snapshotted_fee policy_reference request_id =
     (case job_entry s job_id RECOVERY_EVENT_TYPE of
        Some e \<Rightarrow> Inr (s, Already_recovered e)
      | None \<Rightarrow>
        bind_res (get_vertical_id s vertical_key) (\<lambda>vertical.
          case vertical of None \<Rightarrow> Inr (s, Recovery_skipped)
          | Some vid \<Rightarrow>
            bind_res (recovery_amount s vid chargeable_amount snapshotted_fee policy_reference)
              (\<lambda>(amount, reference).
                if amount \<le> 0 then Inr (s, Recovery_not_required)
                else bind_res (ensure_billing s (Some tenant_id)) (\<lambda>(s1, billing).
                  let e = (blank_entry (next_uuid s1) tenant_id RECOVERY_EVENT_TYPE (- amount)
                             (tb_credit_balance billing)
                             (''Platform charge recovery for job '' @ str_uuid job_id @ '' ('' @ reference @ '')''))
                            \<lparr>u_job_id := Some job_id, u_booking_id := Some booking_id,
                             u_request_id := request_id\<rparr>
                  in Inr (write_entry s1 e, Recovered e)))))"

subsection \<open>The usage-credit service (usage_credits/service.py)\<close>

definition VALID_EVENT_TYPES :: "string list" where
  "VALID_EVENT_TYPES =
     [''manual_credit_added'', ''manual_credit_removed'', ''package_credit_granted'',
      ''completed_job_deduction'', ''credit_reversal'', ''migration_adjustment'', ''topup_credit_granted'',
      ''topup_credit_refunded'', ''complaint_sla_breach_penalty'']"

definition VALID_REASON_CODES :: "string list" where
  "VALID_REASON_CODES =
     [''manual_operational_adjustment'', ''goodwill_credit'', ''correction'', ''package_purchase'',
      ''package_reactivation'', ''billing_dispute_resolution'', ''migration_backfill'',
      ''credit_topup_purchase'', ''credit_topup_refund'']"

definition VALID_DIRECTIONS :: "string list" where
  "VALID_DIRECTIONS = [''credit'', ''debit'']"

definition SOURCE_TYPE_FINANCE_HUB_CREDIT_TOPUP :: string where
  "SOURCE_TYPE_FINANCE_HUB_CREDIT_TOPUP = ''FINANCE_HUB_CREDIT_TOPUP''"

definition DEFAULT_LOW_USAGE_CREDIT_THRESHOLD :: decimal where
  "DEFAULT_LOW_USAGE_CREDIT_THRESHOLD = 500"

record credit_actor =
  actor_id :: "uuid option"
  actor_role :: "string option"
  request_id :: "string option"

record credit_balance_view =
  usage_credit_balance :: decimal
  has_billing_record :: bool

definition get_balance :: "'a credit_db_scheme \<Rightarrow> uuid \<Rightarrow> credit_balance_view" where
  "get_balance s tid =
     (case first_row (billings_of s tid) of
        None \<Rightarrow> \<lparr>usage_credit_balance = 0, has_billing_record = False\<rparr>
      | Some b \<Rightarrow> \<lparr>usage_credit_balance = tb_credit_balance b, has_billing_record = True\<rparr>)"

definition get_credit_ledger :: "'a credit_db_scheme \<Rightarrow> uuid \<Rightarrow> nat \<Rightarrow> nat \<Rightarrow> credit_entry list" where
  "get_credit_ledger s tid limit offset =
     take (min limit 200) (drop offset (rev (filter (\<lambda>e. u_tenant_id e = tid) (usage_credit_ledger s))))"

record threshold_view =
  th_balance :: decimal
  th_threshold :: decimal
  th_is_low :: bool
  th_has_billing_record :: bool

definition check_threshold :: "'a credit_db_scheme \<Rightarrow> uuid \<Rightarrow> decimal option \<Rightarrow> threshold_view" where
  "check_threshold s tid threshold =
     (let bal = get_balance s tid;
          th = (case threshold of None \<Rightarrow> DEFAULT_LOW_USAGE_CREDIT_THRESHOLD | Some x \<Rightarrow> x)
      in \<lparr>th_balance = usage_credit_balance bal, th_threshold = th,
          th_is_low = (usage_credit_balance bal < th), th_has_billing_record = has_billing_record bal\<rparr>)"

definition audit_operation :: "string \<Rightarrow> string" where
  "audit_operation event_type =
     (if event_type \<in> {''manual_credit_added'', ''manual_credit_removed''} then ''usage_credit.adjusted''
      else if event_type = ''package_credit_granted'' then ''package_credit.granted''
      else if event_type = ''credit_reversal'' then ''usage_credit.reversal_created''
      else if event_type = ''migration_adjustment'' then ''usage_credit.migration_adjustment''
      else if event_type = ''topup_credit_granted'' then ''topup_credit.granted''
      else if event_type = ''topup_credit_refunded'' then ''topup_credit.refunded''
      else ''usage_credit.mutated'')"

text \<open>
  The mutation primitive. The answer carries the ledger row and the \<^verbatim>\<open>idempotent\<close> flag. The row lock
  blocks rather than fails, so it is not visible here; the insert is \<^verbatim>\<open>ON CONFLICT DO NOTHING\<close>.
\<close>

definition post_credit ::
  "credit_actor \<Rightarrow> 'a credit_db_scheme \<Rightarrow> uuid \<Rightarrow> decimal \<Rightarrow> string \<Rightarrow> string option \<Rightarrow> string option \<Rightarrow>
   string option \<Rightarrow> string \<Rightarrow> string option \<Rightarrow> uuid option \<Rightarrow> uuid option \<Rightarrow> bool \<Rightarrow>
   ('a credit_db_scheme \<times> credit_entry \<times> bool) res" where
  "post_credit actor s tid amount event_type source_type source_id reason_code reason key job_id booking_id
      allow_negative =
     (if event_type \<notin> set VALID_EVENT_TYPES then Inl (ServiceOSException ''INVALID_USAGE_CREDIT_EVENT_TYPE'')
      else if amount = 0 then Inl (ServiceOSException ''INVALID_CREDIT_AMOUNT'')
      else case (if truthy key then first_row (filter (\<lambda>e. u_idempotency_key e = key) (usage_credit_ledger s))
                 else None) of
        Some e \<Rightarrow> Inr (s, e, True)
      | None \<Rightarrow> bind_res (ensure_billing s (Some tid)) (\<lambda>(s1, billing).
          let before = tb_credit_balance billing; after = before + amount in
          if \<not> allow_negative \<and> after < 0 then Inl (ServiceOSException ''INSUFFICIENT_USAGE_CREDIT'')
          else
            let e = (blank_entry (next_uuid s1) tid event_type amount before reason)
                      \<lparr>u_job_id := job_id, u_booking_id := booking_id, u_source_type := source_type,
                       u_source_id := source_id, u_reason_code := reason_code,
                       u_created_by := actor_id actor, u_actor_role := actor_role actor,
                       u_idempotency_key := key, u_request_id := request_id actor\<rparr>;
                s2 = write_entry s1 e
            in Inr (s2\<lparr>platform_audit := platform_audit s2 @
                        [\<lparr>au_operation = audit_operation event_type, au_tenant_id = tid,
                          au_entity_id = str_uuid (u_id e), au_amount = amount, au_before = before,
                          au_after = after\<rparr>]\<rparr>, e, False)))"

definition adjust_credit ::
  "credit_actor \<Rightarrow> 'a credit_db_scheme \<Rightarrow> uuid \<Rightarrow> string \<Rightarrow> decimal \<Rightarrow> string \<Rightarrow> string \<Rightarrow> string \<Rightarrow>
   ('a credit_db_scheme \<times> credit_entry \<times> bool) res" where
  "adjust_credit actor s tid direction amount reason_code reason key =
     (if direction \<notin> set VALID_DIRECTIONS then Inl (ServiceOSException ''INVALID_ADJUSTMENT_DIRECTION'')
      else if amount \<le> 0 then Inl (ServiceOSException ''INVALID_CREDIT_AMOUNT'')
      else if reason_code \<notin> set VALID_REASON_CODES then Inl (ServiceOSException ''INVALID_ADJUSTMENT_REASON'')
      else if blank reason then Inl (ServiceOSException ''INVALID_ADJUSTMENT_REASON'')
      else if blank key then Inl (ServiceOSException ''USAGE_CREDIT_CONFLICT'')
      else post_credit actor s tid (if direction = ''credit'' then amount else - amount)
             (if direction = ''credit'' then ''manual_credit_added'' else ''manual_credit_removed'')
             (Some ''admin_manual'') None (Some reason_code) reason (Some key) None None
             (direction = ''credit''))"

definition charge_provider_response_sla_penalty ::
  "credit_actor \<Rightarrow> 'a credit_db_scheme \<Rightarrow> uuid \<Rightarrow> string \<Rightarrow> string \<Rightarrow> decimal \<Rightarrow>
   ('a credit_db_scheme \<times> credit_entry \<times> bool) res" where
  "charge_provider_response_sla_penalty actor s tid source_type source_id amount =
     (if amount \<le> 0 then Inl (ServiceOSException ''INVALID_CREDIT_AMOUNT'')
      else post_credit actor s tid (- amount) ''complaint_sla_breach_penalty'' (Some source_type)
             (Some source_id) (Some ''billing_dispute_resolution'')
             (''Provider response SLA breached for '' @ source_type @ '' '' @ source_id)
             (Some (''provider_response_sla_penalty:'' @ source_type @ '':'' @ source_id)) None None True)"

definition charge_complaint_sla_penalty ::
  "credit_actor \<Rightarrow> 'a credit_db_scheme \<Rightarrow> uuid \<Rightarrow> uuid \<Rightarrow> decimal \<Rightarrow>
   ('a credit_db_scheme \<times> credit_entry \<times> bool) res" where
  "charge_complaint_sla_penalty actor s tid complaint_id amount =
     charge_provider_response_sla_penalty actor s tid ''customer_complaint'' (str_uuid complaint_id) amount"

definition grant_package_credit ::
  "credit_actor \<Rightarrow> 'a credit_db_scheme \<Rightarrow> uuid \<Rightarrow> string \<Rightarrow> string \<Rightarrow> decimal \<Rightarrow> string \<Rightarrow>
   ('a credit_db_scheme \<times> credit_entry \<times> bool) res" where
  "grant_package_credit actor s tid assignment_id activation_version amount reason =
     (if amount \<le> 0 then Inl (ServiceOSException ''INVALID_CREDIT_AMOUNT'')
      else post_credit actor s tid amount ''package_credit_granted'' (Some ''package_assignment'')
             (Some assignment_id) (Some ''package_purchase'') reason
             (Some (''package_credit_grant:'' @ assignment_id @ '':'' @ activation_version)) None None True)"

definition grant_topup_credit ::
  "credit_actor \<Rightarrow> 'a credit_db_scheme \<Rightarrow> uuid \<Rightarrow> string \<Rightarrow> decimal \<Rightarrow> string \<Rightarrow> string \<Rightarrow>
   ('a credit_db_scheme \<times> credit_entry \<times> bool) res" where
  "grant_topup_credit actor s tid order_id amount reason grant_version =
     (if amount \<le> 0 then Inl (ServiceOSException ''TOPUP_INVALID_AMOUNT'')
      else post_credit actor s tid amount ''topup_credit_granted''
             (Some SOURCE_TYPE_FINANCE_HUB_CREDIT_TOPUP) (Some order_id) (Some ''credit_topup_purchase'') reason
             (Some (''topup_credit_grant:'' @ order_id @ '':'' @ grant_version)) None None True)"

definition revoke_topup_credit ::
  "credit_actor \<Rightarrow> 'a credit_db_scheme \<Rightarrow> uuid \<Rightarrow> string \<Rightarrow> decimal \<Rightarrow> string \<Rightarrow> string \<Rightarrow>
   ('a credit_db_scheme \<times> credit_entry \<times> bool) res" where
  "revoke_topup_credit actor s tid order_id amount refund_version reason =
     (if amount \<le> 0 then Inl (ServiceOSException ''TOPUP_INVALID_AMOUNT'')
      else if blank reason then Inl (ServiceOSException ''INVALID_ADJUSTMENT_REASON'')
      else post_credit actor s tid (- amount) ''topup_credit_refunded''
             (Some SOURCE_TYPE_FINANCE_HUB_CREDIT_TOPUP) (Some order_id) (Some ''credit_topup_refund'') reason
             (Some (''topup_credit_refund:'' @ order_id @ '':'' @ refund_version)) None None False)"

definition reverse_credit_event ::
  "credit_actor \<Rightarrow> 'a credit_db_scheme \<Rightarrow> uuid \<Rightarrow> string \<Rightarrow> ('a credit_db_scheme \<times> credit_entry \<times> bool) res" where
  "reverse_credit_event actor s ledger_event_id reason =
     (if blank reason then Inl (ServiceOSException ''INVALID_ADJUSTMENT_REASON'')
      else bind_res (require (ServiceOSException ''NOT_FOUND'')
             (first_row (filter (\<lambda>e. u_id e = ledger_event_id) (usage_credit_ledger s)))) (\<lambda>original.
        post_credit actor s (u_tenant_id original) (- credit_delta original) ''credit_reversal''
          (Some ''ledger_reversal'') (Some (str_uuid ledger_event_id)) (Some ''correction'') reason
          (Some (''reversal:'' @ str_uuid ledger_event_id)) None None True))"

subsection \<open>The contract: balance and ledger move together\<close>

definition credit_bal :: "'a credit_db_scheme \<Rightarrow> uuid \<Rightarrow> decimal" where
  "credit_bal s tid = (case first_row (billings_of s tid) of None \<Rightarrow> 0 | Some b \<Rightarrow> tb_credit_balance b)"

definition credit_total :: "'a credit_db_scheme \<Rightarrow> uuid \<Rightarrow> decimal" where
  "credit_total s tid = sum_list (map credit_delta (filter (\<lambda>e. u_tenant_id e = tid) (usage_credit_ledger s)))"

definition credit_wf :: "'a credit_db_scheme \<Rightarrow> bool" where
  "credit_wf s \<longleftrightarrow>
     distinct (filter truthy (map u_idempotency_key (usage_credit_ledger s))) \<and>
     distinct (map u_id (usage_credit_ledger s)) \<and>
     (\<forall>e \<in> set (usage_credit_ledger s). u_id e < next_uuid s \<and> u_balance_after e = u_balance_before e + credit_delta e)"

text \<open>One posting seen from outside: the balance of the tenant and the ledger move by the same delta.\<close>

definition credit_posted :: "'a credit_db_scheme \<Rightarrow> 'a credit_db_scheme \<Rightarrow> credit_entry \<Rightarrow> bool" where
  "credit_posted s t e \<longleftrightarrow>
     credit_bal t = (credit_bal s)(u_tenant_id e := credit_bal s (u_tenant_id e) + credit_delta e) \<and>
     usage_credit_ledger t = usage_credit_ledger s @ [e] \<and>
     u_balance_before e = credit_bal s (u_tenant_id e) \<and>
     u_balance_after e = credit_bal s (u_tenant_id e) + credit_delta e \<and>
     u_id e = next_uuid s \<and> next_uuid t = Suc (next_uuid s)"

lemma ensure_billing_Inr:
  assumes "ensure_billing s (Some tid) = Inr (s1, b)"
  shows "tb_tenant_id b = tid \<and> first_row (billings_of s1 tid) = Some b \<and> tb_credit_balance b = credit_bal s tid \<and>
    credit_bal s1 = credit_bal s \<and> usage_credit_ledger s1 = usage_credit_ledger s \<and> next_uuid s1 = next_uuid s \<and>
    team_members s1 = team_members s \<and>
    s1 = s\<lparr>tenant_billings := tenant_billings s1\<rparr>"
proof (cases "first_row (billings_of s tid)")
  case None
  with assms show ?thesis
    by (auto simp: ensure_billing_def Let_def credit_bal_def fun_eq_iff first_row_None first_row_def
        split: list.splits if_splits)
next
  case (Some b')
  from first_row_Some_set [OF Some] assms Some show ?thesis by (auto simp: ensure_billing_def credit_bal_def)
qed

lemma ensure_billing_total: "\<exists>s1 b. ensure_billing s (Some tid) = Inr (s1, b)"
  by (auto simp: ensure_billing_def Let_def split: option.split)

lemma first_row_billing: "first_row (billings_of s x) = Some b \<Longrightarrow> tb_tenant_id b = x"
  using first_row_Some_set by fastforce

lemma credit_bal_write_entry:
  assumes "first_row (billings_of s (u_tenant_id e)) \<noteq> None"
  shows "credit_bal (write_entry s e) = (credit_bal s)(u_tenant_id e := u_balance_after e)"
proof
  fix x
  have "first_row (billings_of (write_entry s e) x) =
    map_option (\<lambda>b. if tb_tenant_id b = u_tenant_id e then b\<lparr>tb_credit_balance := u_balance_after e\<rparr> else b)
      (first_row (billings_of s x))"
    by (simp add: write_entry_def first_row_update_where)
  then show "credit_bal (write_entry s e) x = ((credit_bal s)(u_tenant_id e := u_balance_after e)) x"
    using assms by (cases "first_row (billings_of s x)") (auto simp: credit_bal_def dest: first_row_billing)
qed

lemma write_entry_posted:
  assumes "ensure_billing s (Some (u_tenant_id e)) = Inr (s1, b)" and "u_id e = next_uuid s1"
    and "u_balance_before e = tb_credit_balance b" and "u_balance_after e = tb_credit_balance b + credit_delta e"
  shows "credit_posted s (write_entry s1 e) e"
proof -
  note b = ensure_billing_Inr [OF assms(1)]
  from b have "credit_bal (write_entry s1 e) = (credit_bal s1)(u_tenant_id e := u_balance_after e)"
    by (intro credit_bal_write_entry) auto
  with b assms(2-4) show ?thesis by (auto simp: credit_posted_def write_entry_def)
qed

text \<open>Updates that leave balances, ledger and the id counter alone.\<close>

lemma credit_bal_cong: "tenant_billings t = tenant_billings s \<Longrightarrow> credit_bal t = credit_bal s"
  by (simp add: credit_bal_def fun_eq_iff)

lemma credit_posted_cong:
  "credit_posted s t e \<Longrightarrow> tenant_billings u = tenant_billings t \<Longrightarrow>
   usage_credit_ledger u = usage_credit_ledger t \<Longrightarrow> next_uuid u = next_uuid t \<Longrightarrow> credit_posted s u e"
  using credit_bal_cong [of u t] by (simp add: credit_posted_def)

lemma sync_team_keeps:
  "tenant_billings (fst (sync_team_credit_suspension s now tid)) = tenant_billings s"
  "usage_credit_ledger (fst (sync_team_credit_suspension s now tid)) = usage_credit_ledger s"
  "next_uuid (fst (sync_team_credit_suspension s now tid)) = next_uuid s"
  by (simp_all add: sync_team_credit_suspension_def split: option.split)

definition fresh_key :: "'a credit_db_scheme \<Rightarrow> string option \<Rightarrow> bool" where
  "fresh_key s key \<longleftrightarrow> (truthy key \<longrightarrow> key \<notin> u_idempotency_key ` set (usage_credit_ledger s))"

lemma post_credit_cases:
  assumes "post_credit actor s tid amount ev st sid rc reason key job bk neg = Inr (t, e, idem)"
  obtains (replay) "idem" "truthy key" "t = s"
      "first_row (filter (\<lambda>e. u_idempotency_key e = key) (usage_credit_ledger s)) = Some e"
  | (posted) "\<not> idem" "credit_posted s t e" "fresh_key s key" "u_idempotency_key e = key"
      "u_tenant_id e = tid" "credit_delta e = amount" "neg \<or> 0 \<le> credit_bal s tid + amount"
      "team_members t = team_members s" "u_event_type e = ev" "amount \<noteq> 0" "u_job_id e = job"
proof -
  let ?hit = "if truthy key then first_row (filter (\<lambda>e. u_idempotency_key e = key) (usage_credit_ledger s)) else None"
  have ev: "ev \<in> set VALID_EVENT_TYPES" "amount \<noteq> 0"
    using assms by (auto simp: post_credit_def split: if_splits)
  show thesis
  proof (cases ?hit)
    case (Some e')
    with assms ev have "t = s" "e = e'" "idem" by (auto simp: post_credit_def)
    with Some show thesis by (intro replay) (auto split: if_splits)
  next
    case None
    then have fk: "fresh_key s key"
      by (auto simp: fresh_key_def first_row_None filter_empty_conv split: if_splits)
    obtain s1 b where b: "ensure_billing s (Some tid) = Inr (s1, b)" using ensure_billing_total by blast
    note bs = ensure_billing_Inr [OF b]
    have e: "\<not> idem" "u_idempotency_key e = key" "u_tenant_id e = tid" "credit_delta e = amount"
        "u_id e = next_uuid s1" "u_balance_before e = tb_credit_balance b"
        "u_balance_after e = tb_credit_balance b + amount" "u_event_type e = ev" "u_job_id e = job"
        "neg \<or> 0 \<le> tb_credit_balance b + amount"
      and t: "tenant_billings t = tenant_billings (write_entry s1 e)"
        "usage_credit_ledger t = usage_credit_ledger (write_entry s1 e)"
        "next_uuid t = next_uuid (write_entry s1 e)" "team_members t = team_members s1"
      using assms ev None b
      by (auto simp: post_credit_def Let_def blank_entry_def write_entry_def split: if_splits)
    from b e have "credit_posted s (write_entry s1 e) e" by (intro write_entry_posted) auto
    with t have "credit_posted s t e" by (blast intro: credit_posted_cong)
    moreover from t bs have "team_members t = team_members s" by simp
    ultimately show thesis using e fk bs ev by (intro posted) auto
  qed
qed

lemma deduct_cases:
  assumes "deduct_for_completed_job s now tn job bk ms ot br jt price req ev = Inr (t, out)"
  obtains (already) e where "out = Already_deducted e" "job_entry s job DEDUCTION_EVENT_TYPE = Some e" "t = s"
  | (early) src where "out = Not_yet_chargeable src" "t = s" "job_entry s job DEDUCTION_EVENT_TYPE = None"
  | (deducted) e credits src snap tid u where "out = Deducted e" "job_entry s job DEDUCTION_EVENT_TYPE = None"
      "resolve_commission_charge s now price jt ev tn = Inr (credits, src, snap)" "tn = Some tid"
      "credit_posted s u e" "t = fst (sync_team_credit_suspension u now tid)" "team_members u = team_members s"
      "u_tenant_id e = tid" "credit_delta e = - credits" "u_job_id e = Some job"
      "u_event_type e = DEDUCTION_EVENT_TYPE" "u_idempotency_key e = None" "deduction_source e = src"
proof (cases "job_entry s job DEDUCTION_EVENT_TYPE")
  case (Some e)
  with assms show thesis by (intro already [of e]) (auto simp: deduct_for_completed_job_def)
next
  case None
  with assms obtain credits src snap where r: "resolve_commission_charge s now price jt ev tn = Inr (credits, src, snap)"
    by (auto simp: deduct_for_completed_job_def bind_res_Inr)
  show thesis
  proof (cases "truthy src \<and> endswith (the src) EVENT_NOT_REACHED")
    case True
    with assms None r show thesis by (intro early [of "the src"]) (auto simp: deduct_for_completed_job_def)
  next
    case False
    with assms None r obtain s1 b where b: "ensure_billing s tn = Inr (s1, b)"
      by (auto simp: deduct_for_completed_job_def bind_res_Inr)
    then obtain tid where tn: "tn = Some tid" by (cases tn) (auto simp: ensure_billing_def)
    note bs = ensure_billing_Inr [OF b [unfolded tn]]
    let ?e = "(blank_entry (next_uuid s1) tid DEDUCTION_EVENT_TYPE (- credits) (tb_credit_balance b)
                (''Completed Job Deduction for job '' @ str_uuid job))
               \<lparr>u_job_id := Some job, u_booking_id := Some bk, deduction_source := src,
                u_service_id := Some ms, u_service_type_id := ot, u_brand_id := br, u_request_id := req,
                u_snapshot := Some snap\<rparr>"
    have "out = Deducted ?e" and t: "t = fst (sync_team_credit_suspension (write_entry s1 ?e) now tid)"
      using assms None r False b bs tn by (auto simp: deduct_for_completed_job_def Let_def)
    moreover have "credit_posted s (write_entry s1 ?e) ?e"
      using b tn by (intro write_entry_posted [of _ _ s1 b]) (simp_all add: blank_entry_def)
    moreover have "team_members (write_entry s1 ?e) = team_members s"
      using bs by (simp add: write_entry_def)
    ultimately show thesis using None r tn
      by (intro deducted [of ?e credits src snap tid "write_entry s1 ?e"]) (auto simp: blank_entry_def)
  qed
qed

lemma recovery_cases:
  assumes "deduct_customer_platform_charge_recovery s tid job bk key amt fee pref req = Inr (t, out)"
  obtains (already) e where "out = Already_recovered e" "job_entry s job RECOVERY_EVENT_TYPE = Some e" "t = s"
  | (nothing) "t = s" "job_entry s job RECOVERY_EVENT_TYPE = None" "out \<in> {Recovery_skipped, Recovery_not_required}"
  | (recovered) e where "out = Recovered e" "job_entry s job RECOVERY_EVENT_TYPE = None" "credit_posted s t e"
      "u_tenant_id e = tid" "credit_delta e < 0" "u_job_id e = Some job"
      "u_event_type e = RECOVERY_EVENT_TYPE" "u_idempotency_key e = None" "team_members t = team_members s"
proof (cases "job_entry s job RECOVERY_EVENT_TYPE")
  case (Some e)
  with assms show thesis by (intro already [of e]) (auto simp: deduct_customer_platform_charge_recovery_def)
next
  case None
  obtain s1 b where b: "ensure_billing s (Some tid) = Inr (s1, b)" using ensure_billing_total by blast
  note bs = ensure_billing_Inr [OF b]
  let ?e = "\<lambda>a ref. (blank_entry (next_uuid s1) tid RECOVERY_EVENT_TYPE (- a) (tb_credit_balance b)
      (''Platform charge recovery for job '' @ str_uuid job @ '' ('' @ ref @ '')''))
      \<lparr>u_job_id := Some job, u_booking_id := Some bk, u_request_id := req\<rparr>"
  have "t = s \<and> out \<in> {Recovery_skipped, Recovery_not_required} \<or>
    (\<exists>a ref. 0 < a \<and> out = Recovered (?e a ref) \<and> t = write_entry s1 (?e a ref))"
  proof -
    from assms None obtain v where v: "get_vertical_id s key = Inr v"
      by (auto simp: deduct_customer_platform_charge_recovery_def bind_res_Inr)
    show ?thesis
    proof (cases v)
      case None
      with assms v \<open>job_entry s job RECOVERY_EVENT_TYPE = None\<close> show ?thesis
        by (simp add: deduct_customer_platform_charge_recovery_def)
    next
      case (Some vid)
      with assms v None obtain a ref where ra: "recovery_amount s vid amt fee pref = Inr (a, ref)"
        by (auto simp: deduct_customer_platform_charge_recovery_def bind_res_Inr)
      show ?thesis
      proof (cases "a \<le> 0")
        case True
        with assms v None Some ra show ?thesis by (simp add: deduct_customer_platform_charge_recovery_def)
      next
        case False
        with assms v None Some ra b have "out = Recovered (?e a ref) \<and> t = write_entry s1 (?e a ref)"
          by (simp add: deduct_customer_platform_charge_recovery_def Let_def)
        with False show ?thesis by (auto simp: not_le)
      qed
    qed
  qed
  then show thesis
  proof (elim disjE exE conjE)
    fix a ref
    assume a: "0 < a" and out: "out = Recovered (?e a ref)" and t: "t = write_entry s1 (?e a ref)"
    have "credit_posted s t (?e a ref)"
      unfolding t using b by (intro write_entry_posted [of _ _ s1 b]) (simp_all add: blank_entry_def)
    moreover have "team_members t = team_members s" using bs by (simp add: t write_entry_def)
    ultimately show thesis using None a out by (intro recovered [of "?e a ref"]) (auto simp: blank_entry_def)
  next
    assume t: "t = s" and out: "out \<in> {Recovery_skipped, Recovery_not_required}"
    from t None out show thesis by (rule nothing)
  qed
qed

subsection \<open>The state machine of the credit tables\<close>

inductive credit_step :: "'a credit_db_scheme \<Rightarrow> 'a credit_db_scheme \<Rightarrow> bool" where
  post: "post_credit actor s tid amount ev st sid rc reason key job bk neg = Inr (t, e, idem) \<Longrightarrow> credit_step s t"
| deduct: "deduct_for_completed_job s now tn job bk ms ot br jt price req ev = Inr (t, out) \<Longrightarrow> credit_step s t"
| recover: "deduct_customer_platform_charge_recovery s tid job bk key amt fee pref req = Inr (t, rout) \<Longrightarrow> credit_step s t"
| sync: "credit_step s (fst (sync_team_credit_suspension s now tid))"
| elsewhere: "tenant_billings t = tenant_billings s \<Longrightarrow> usage_credit_ledger t = usage_credit_ledger s \<Longrightarrow>
    next_uuid s \<le> next_uuid t \<Longrightarrow> credit_step s t"

text \<open>Every step either leaves the credit tables alone or makes one posting with a fresh key.\<close>

lemma credit_step_cases:
  assumes "credit_step s t"
  obtains (quiet) "tenant_billings t = tenant_billings s" "usage_credit_ledger t = usage_credit_ledger s"
      "next_uuid s \<le> next_uuid t"
  | (posting) e where "credit_posted s t e" "fresh_key s (u_idempotency_key e)"
  using assms
proof cases
  case (post actor tid amount ev st sid rc reason key job bk neg e idem)
  from this show thesis by (cases rule: post_credit_cases) (auto intro: quiet posting)
next
  case (deduct now tn job bk ms ot br jt price req ev out)
  from this show thesis
  proof (cases rule: deduct_cases)
    case (deducted e credits src snap tid u)
    then have "credit_posted s t e" using credit_posted_cong [of s u e t] sync_team_keeps [of u now tid] by simp
    with deducted show thesis by (intro posting [of e]) (auto simp: fresh_key_def)
  qed (auto intro: quiet)
next
  case (recover tid job bk key amt fee pref req rout)
  from this show thesis by (cases rule: recovery_cases) (auto intro: quiet posting simp: fresh_key_def)
next
  case (sync now tid)
  then show thesis by (intro quiet) (simp_all add: sync_team_keeps)
qed (auto intro: quiet)

lemma credit_posted_wf:
  assumes "credit_wf s" and "credit_posted s t e" and "fresh_key s (u_idempotency_key e)"
  shows "credit_wf t"
proof -
  have "u_id e \<notin> u_id ` set (usage_credit_ledger s)" using assms(1,2) by (auto simp: credit_wf_def credit_posted_def)
  then show ?thesis using assms by (auto simp: credit_wf_def credit_posted_def fresh_key_def less_SucI)
qed

lemma credit_step_wf: "credit_wf s \<Longrightarrow> credit_step s t \<Longrightarrow> credit_wf t"
proof (erule credit_step_cases)
  assume "credit_wf s" and q: "usage_credit_ledger t = usage_credit_ledger s" "next_uuid s \<le> next_uuid t"
  then show "credit_wf t" unfolding credit_wf_def q by (auto intro: less_le_trans)
qed (rule credit_posted_wf)

interpretation credits: posting_ledger credit_wf credit_bal credit_total credit_step
proof
  fix s t :: "'a credit_db_scheme" and k
  show "credit_wf t" if "credit_wf s" "credit_step s t" using that by (rule credit_step_wf)
  show "credit_bal t k - credit_bal s k = credit_total t k - credit_total s k" if "credit_step s t"
    using that
  proof (cases rule: credit_step_cases)
    case quiet
    then show ?thesis using credit_bal_cong [of t s] by (simp add: credit_total_def)
  next
    case (posting e)
    then show ?thesis by (auto simp: credit_total_def credit_posted_def)
  qed
qed

text \<open>Keys of postings, and jobs as keys of the completed-job deduction.\<close>

definition credit_recorded :: "'a credit_db_scheme \<Rightarrow> string option \<Rightarrow> credit_entry \<Rightarrow> bool" where
  "credit_recorded s key e \<longleftrightarrow> truthy key \<and>
     first_row (filter (\<lambda>x. u_idempotency_key x = key) (usage_credit_ledger s)) = Some e"

definition credit_call :: "'a credit_db_scheme \<Rightarrow> string option \<Rightarrow> 'a credit_db_scheme \<Rightarrow> credit_entry \<Rightarrow> bool" where
  "credit_call s key t e \<longleftrightarrow> truthy key \<and> (\<exists>actor tid amount ev st sid rc reason job bk neg idem.
     post_credit actor s tid amount ev st sid rc reason key job bk neg = Inr (t, e, idem))"

definition charge_recorded_for_job :: "'a credit_db_scheme \<Rightarrow> uuid \<Rightarrow> credit_entry \<Rightarrow> bool" where
  "charge_recorded_for_job s job e \<longleftrightarrow> job_entry s job DEDUCTION_EVENT_TYPE = Some e"

definition job_charge_call :: "'a credit_db_scheme \<Rightarrow> uuid \<Rightarrow> 'a credit_db_scheme \<Rightarrow> credit_entry \<Rightarrow> bool" where
  "job_charge_call s job t e \<longleftrightarrow> (\<exists>now tn bk ms ot br jt price req ev out. out \<in> {Already_deducted e, Deducted e} \<and>
     deduct_for_completed_job s now tn job bk ms ot br jt price req ev = Inr (t, out))"

lemma credit_step_appends:
  "credit_step s t \<Longrightarrow> \<exists>new. usage_credit_ledger t = usage_credit_ledger s @ new"
  by (erule credit_step_cases) (auto simp: credit_posted_def)

interpretation credit_keys: keyed_posting credit_wf credit_step credit_recorded credit_call
proof
  fix s t :: "'a credit_db_scheme" and k e
  show "credit_wf t" if "credit_wf s" "credit_step s t" using that by (rule credit_step_wf)
  show "credit_step s t" if "credit_call s k t e" using that by (auto simp: credit_call_def intro: credit_step.post)
  show "credit_recorded t k e" if "credit_step s t" "credit_recorded s k e"
    using credit_step_appends [OF that(1)] that(2) by (auto simp: credit_recorded_def first_row_append)
  show "credit_recorded t k e" if "credit_call s k t e"
  proof -
    from that obtain actor tid amount ev st sid rc reason job bk neg idem where tr: "truthy k" and
      c: "post_credit actor s tid amount ev st sid rc reason k job bk neg = Inr (t, e, idem)"
      by (auto simp: credit_call_def)
    from c show ?thesis
    proof (cases rule: post_credit_cases)
      case posted
      with tr have "filter (\<lambda>x. u_idempotency_key x = k) (usage_credit_ledger s) = []"
        by (auto simp: fresh_key_def filter_empty_conv image_iff)
      with posted tr show ?thesis by (simp add: credit_recorded_def credit_posted_def)
    qed (auto simp: credit_recorded_def)
  qed
  show "t = s \<and> e' = e" if "credit_recorded s k e" "credit_call s k t e'" for e'
    using that by (auto simp: credit_recorded_def credit_call_def post_credit_def split: if_splits)
qed

interpretation job_charges: keyed_posting credit_wf credit_step charge_recorded_for_job job_charge_call
proof
  fix s t :: "'a credit_db_scheme" and job e
  show "credit_wf t" if "credit_wf s" "credit_step s t" using that by (rule credit_step_wf)
  show "credit_step s t" if "job_charge_call s job t e"
    using that by (auto simp: job_charge_call_def intro: credit_step.deduct)
  show "charge_recorded_for_job t job e" if "credit_step s t" "charge_recorded_for_job s job e"
    using credit_step_appends [OF that(1)] that(2)
    by (auto simp: charge_recorded_for_job_def job_entry_def first_row_append)
  show "charge_recorded_for_job t job e" if "job_charge_call s job t e"
  proof -
    from that obtain now tn bk ms ot br jt price req ev out where out: "out \<in> {Already_deducted e, Deducted e}"
      and d: "deduct_for_completed_job s now tn job bk ms ot br jt price req ev = Inr (t, out)"
      unfolding job_charge_call_def by blast
    from d show ?thesis
    proof (cases rule: deduct_cases)
      case (deducted e' credits src snap tid u)
      with out have "e' = e" by simp
      with deducted show ?thesis
        by (simp add: charge_recorded_for_job_def job_entry_def sync_team_keeps credit_posted_def first_row_append)
    qed (use out in \<open>auto simp: charge_recorded_for_job_def\<close>)
  qed
  show "t = s \<and> e' = e" if "charge_recorded_for_job s job e" "job_charge_call s job t e'" for e'
    using that by (auto simp: charge_recorded_for_job_def job_charge_call_def deduct_for_completed_job_def)
qed

subsection \<open>Lemmas for the properties\<close>

lemma charge_source_reached: "\<not> endswith (charge_source p ov) EVENT_NOT_REACHED"
proof -
  have "\<not> endswith (pre @ str_nat n) EVENT_NOT_REACHED" for pre n
    by (rule str_nat_not_endswith) (simp_all add: EVENT_NOT_REACHED_def)
  then show ?thesis unfolding charge_source_def by (cases ov) (simp_all only: option.case not_False_eq_True)
qed

lemma charge_source_early: "endswith (charge_source p ov @ '':'' @ EVENT_NOT_REACHED) EVENT_NOT_REACHED"
  by (metis append_assoc endswith_append)

lemma resolve_charged:
  assumes "home_services_policy s = Inr (Some p)"
    and "provider_model p \<in> {''COMPLETION_CREDITS'', ''PERCENTAGE_COMMISSION'', ''FIXED_COMPLETION_CHARGE''}"
    and "get_active_job_type_rule s (p_id p) jt = Inr ov" and "configured_event p ov = ev"
  shows "\<exists>credits snap. 0 \<le> credits \<and>
    resolve_commission_charge s now price jt ev tn = Inr (credits, Some (charge_source p ov), CS_charged snap) \<and>
    cs_final_credit_units snap = credits"
  using assms provider_credits_nonneg by (simp add: resolve_commission_charge_def Let_def)

lemma resolve_early:
  assumes "home_services_policy s = Inr (Some p)"
    and "provider_model p \<in> {''COMPLETION_CREDITS'', ''PERCENTAGE_COMMISSION'', ''FIXED_COMPLETION_CHARGE''}"
    and "get_active_job_type_rule s (p_id p) jt = Inr ov" and "configured_event p ov \<noteq> ev"
  shows "\<exists>snap. resolve_commission_charge s now price jt ev tn =
    Inr (0, Some (charge_source p ov @ '':'' @ EVENT_NOT_REACHED), snap)"
  using assms by (simp add: resolve_commission_charge_def)

lemma credit_bal_posted: "credit_posted s t e \<Longrightarrow> credit_bal t x = (if x = u_tenant_id e then credit_bal s x + credit_delta e else credit_bal s x)"
  by (simp add: credit_posted_def)

lemma credit_posted_own: "credit_posted s t e \<Longrightarrow> u_tenant_id e = x \<Longrightarrow> credit_delta e = d \<Longrightarrow> credit_bal t x = credit_bal s x + d"
  by (auto simp: credit_posted_def)

definition demo_member :: team_member where
  "demo_member = \<lparr>m_id = 1, m_tenant_id = 4, m_status = ''active'', m_deleted = False, credit_suspended_at = None,
     m_user_id = None, m_member_type = Some ''technician'', m_designation = None, m_can_receive_assignment = Some True,
     m_supported_offering_ids = []\<rparr>"

declare demo_member_def [simp]

definition empty_credits :: credit_db where
  "empty_credits = monet_db.extend demo_monet (credit_db.fields [] [] []
     [demo_member] [])"

lemma empty_credits_simps [simp]:
  "tenant_billings empty_credits = []" "usage_credit_ledger empty_credits = []" "platform_audit empty_credits = []"
  "booking_drafts empty_credits = []"
  "team_members empty_credits =
     [demo_member]"
  "verticals empty_credits = verticals demo_monet" "policies empty_credits = policies demo_monet"
  "job_type_rules empty_credits = []" "health_scores empty_credits = []" "service_bookings empty_credits = service_bookings demo_jobs"
  "health_formulas empty_credits = []" "health_band_rules empty_credits = []"
  by (simp_all add: empty_credits_def monet_db.defs credit_db.defs demo_monet_def job_db.defs)

lemma empty_credits_wf [simp]: "credit_wf empty_credits"
  by (simp add: credit_wf_def)

lemma credit_bal_empty [simp]: "credit_bal empty_credits tid = 0"
  by (simp add: credit_bal_def)

lemma credit_total_empty [simp]: "credit_total empty_credits tid = 0"
  by (simp add: credit_total_def)

definition demo_actor :: credit_actor where
  "demo_actor = \<lparr>actor_id = None, actor_role = None, request_id = None\<rparr>"

lemma home_services_policy_empty [simp]: "home_services_policy empty_credits = Inr (Some demo_policy)"
  by (simp add: home_services_policy_def HS_KEY_def get_current_policy_def demo_policy_def)

subsection \<open>Properties\<close>



text \<open>
  C28: a job is charged once. After a call that charged the job (or found it charged), and whatever
  happens to the credits since, every later call for the same job, at any lifecycle event, price or
  policy, changes nothing and answers with the same ledger row.
\<close>

theorem job_charged_once:
  assumes "credit_wf s" and "out \<in> {Already_deducted e, Deducted e}"
    and "deduct_for_completed_job s now tn job bk ms ot br jt price req ev = Inr (s1, out)"
    and "credit_step\<^sup>*\<^sup>* s1 s2"
    and "deduct_for_completed_job s2 now' tn' job bk' ms' ot' br' jt' price' req' ev' = Inr (s3, out')"
  shows "s3 = s2 \<and> out' = Already_deducted e"
proof -
  from assms(2,3) have c1: "job_charge_call s job s1 e" unfolding job_charge_call_def by blast
  from job_charges.run_recorded [OF assms(4)] assms(1) c1
  have "charge_recorded_for_job s2 job e"
    by (blast intro: job_charges.call_records job_charges.keyed_inv job_charges.call_post)
  then show ?thesis using assms(5) by (simp add: charge_recorded_for_job_def deduct_for_completed_job_def)
qed

theorem job_charged_once_witness:
  "\<exists>s1 e. deduct_for_completed_job empty_credits 5 (Some 4) 1 2 6 None None None (Some 1000) None ''job_completed'' = Inr (s1, Deducted e) \<and>
     credit_bal s1 4 = - 100 \<and>
     deduct_for_completed_job s1 9 (Some 4) 1 2 6 None None None (Some 7000) None ''work_done'' = Inr (s1, Already_deducted e)"
proof -
  let ?call = "deduct_for_completed_job empty_credits 5 (Some 4) 1 2 6 None None None (Some 1000) None ''job_completed''"
  have sup: "provider_model demo_policy \<in> {''COMPLETION_CREDITS'', ''PERCENTAGE_COMMISSION'', ''FIXED_COMPLETION_CHARGE''}"
    and rule: "get_active_job_type_rule empty_credits (p_id demo_policy) None = Inr None"
    and ev: "configured_event demo_policy None = ''job_completed''"
    by (simp_all add: demo_policy_def get_active_job_type_rule_def configured_event_def)
  have cr: "fst (projr (resolve_commission_charge empty_credits 5 (Some 1000) None ''job_completed'' (Some 4))) = 100"
    using ev by (simp add: resolve_commission_charge_def rule health_decision_for_def get_provider_health_snapshot_def
        health_rows_def neutral_snapshot_def provider_credits_percentage fst_percentage_commission effective_percentage_eq
        clamp_min_max_def or_num_def quantize2_up_def Let_def demo_policy_def get_active_job_type_rule_def)
  obtain snap where r: "resolve_commission_charge empty_credits 5 (Some 1000) None ''job_completed'' (Some 4) =
      Inr (100, Some (charge_source demo_policy None), CS_charged snap)"
    using resolve_charged [OF _ sup rule ev, of 5 "Some 1000" "Some 4"] cr by auto
  then obtain s1 e where d: "?call = Inr (s1, Deducted e)"
    using charge_source_reached [of demo_policy None]
    by (auto simp: deduct_for_completed_job_def job_entry_def ensure_billing_def Let_def)
  from d have "credit_bal s1 4 = - 100"
  proof (cases rule: deduct_cases)
    case (deducted e' credits src snap' tid u)
    then show ?thesis using r credit_bal_cong [of s1 u] sync_team_keeps [of u 5 tid]
      credit_posted_own [of empty_credits u e' 4 "- 100"] by simp
  qed simp_all
  moreover obtain s3 out where d3:
    "deduct_for_completed_job s1 9 (Some 4) 1 2 6 None None None (Some 7000) None ''work_done'' = Inr (s3, out)"
    using job_charges.call_records [OF empty_credits_wf, of 1 s1 e] d
    unfolding job_charge_call_def charge_recorded_for_job_def
    by (metis (no_types, lifting) deduct_for_completed_job_def insertCI option.simps(5))
  from job_charged_once [OF empty_credits_wf _ d _ d3, of e] have "s3 = s1 \<and> out = Already_deducted e" by simp
  ultimately show ?thesis using d d3 by blast
qed

text \<open>
  the policy decides when the charge falls. For a published policy of a supported model and a job
  not charged yet: at any other lifecycle event nothing is written and the job stays chargeable; at
  the configured event (the job type's, else the policy's, else completion) exactly one row is
  posted, the tenant's balance drops by the calculated non-negative credits, whatever the balance,
  and no other balance moves.
\<close>

theorem charged_only_at_configured_event:
  assumes "home_services_policy s = Inr (Some p)"
    and "provider_model p \<in> {''COMPLETION_CREDITS'', ''PERCENTAGE_COMMISSION'', ''FIXED_COMPLETION_CHARGE''}"
    and "get_active_job_type_rule s (p_id p) jt = Inr ov"
    and "job_entry s job DEDUCTION_EVENT_TYPE = None"
  shows "if ev \<noteq> configured_event p ov
    then \<exists>src. deduct_for_completed_job s now (Some tid) job bk ms ot br jt price req ev = Inr (s, Not_yet_chargeable src)
    else \<exists>t e credits snap. deduct_for_completed_job s now (Some tid) job bk ms ot br jt price req ev = Inr (t, Deducted e) \<and>
      resolve_commission_charge s now price jt ev (Some tid) = Inr (credits, Some (charge_source p ov), snap) \<and>
      0 \<le> credits \<and> credit_bal t = (credit_bal s)(tid := credit_bal s tid - credits) \<and>
      usage_credit_ledger t = usage_credit_ledger s @ [e] \<and> job_entry t job DEDUCTION_EVENT_TYPE = Some e"
proof (cases "ev = configured_event p ov")
  case False
  with resolve_early [OF assms(1-3), of ev now price "Some tid"] charge_source_early [of p ov] assms(4)
  show ?thesis by (auto simp: deduct_for_completed_job_def)
next
  case True
  from resolve_charged [OF assms(1-3) True [symmetric], of now price "Some tid"] obtain credits snap
    where r: "0 \<le> credits" "resolve_commission_charge s now price jt ev (Some tid) =
      Inr (credits, Some (charge_source p ov), CS_charged snap)" by blast
  obtain s1 b where b: "ensure_billing s (Some tid) = Inr (s1, b)" using ensure_billing_total by blast
  from r b assms(4) charge_source_reached [of p ov] obtain t out
    where d: "deduct_for_completed_job s now (Some tid) job bk ms ot br jt price req ev = Inr (t, out)"
      and out: "\<nexists>src. out = Not_yet_chargeable src"
    by (simp add: deduct_for_completed_job_def Let_def)
  from d show ?thesis
  proof (cases rule: deduct_cases)
    case (deducted e credits' src snap' tid' u)
    have t: "credit_bal t = credit_bal u" "usage_credit_ledger t = usage_credit_ledger u"
      using deducted credit_bal_cong [of t u] sync_team_keeps [of u now tid'] by simp_all
    have "job_entry t job DEDUCTION_EVENT_TYPE = Some e"
      using t deducted assms(4) by (simp add: job_entry_def credit_posted_def first_row_append)
    with True t deducted r d show ?thesis by (auto simp: credit_posted_def)
  qed (use out assms(4) in auto)
qed

theorem charged_only_at_configured_event_witness:
  "(\<exists>src. deduct_for_completed_job empty_credits 5 (Some 4) 1 2 6 None None None (Some 1000) None ''work_done'' =
      Inr (empty_credits, Not_yet_chargeable src)) \<and>
   (\<exists>t e. deduct_for_completed_job empty_credits 5 (Some 4) 1 2 6 None None None (Some 1000) None ''job_completed'' =
      Inr (t, Deducted e) \<and> usage_credit_ledger t = [e])"
proof -
  have sup: "provider_model demo_policy \<in> {''COMPLETION_CREDITS'', ''PERCENTAGE_COMMISSION'', ''FIXED_COMPLETION_CHARGE''}"
    and rule: "get_active_job_type_rule empty_credits (p_id demo_policy) None = Inr None"
    and ev: "configured_event demo_policy None = ''job_completed''"
    and none: "job_entry empty_credits 1 DEDUCTION_EVENT_TYPE = None"
    by (simp_all add: demo_policy_def get_active_job_type_rule_def configured_event_def job_entry_def)
  note c = charged_only_at_configured_event [OF home_services_policy_empty sup rule none]
  from c [of "''work_done''" 5 4 2 6 None None "Some 1000" None]
    c [of "''job_completed''" 5 4 2 6 None None "Some 1000" None] ev
  show ?thesis by auto
qed

text \<open>
  the guarded debits never overdraw. A manual debit or a top-up refund that posts leaves a balance
  of at least zero; when the balance does not cover it, the call raises and nothing is written.
\<close>

theorem guarded_debits_never_overdraw:
  assumes "0 < amount" and "\<not> blank reason" and "\<not> blank key" and "code \<in> set VALID_REASON_CODES"
    and "\<not> (\<exists>x \<in> set (usage_credit_ledger s). u_idempotency_key x \<in>
        {Some key, Some (''topup_credit_refund:'' @ order @ '':'' @ version)})"
  shows "if amount \<le> credit_bal s tid
    then (\<exists>t e. adjust_credit actor s tid ''debit'' amount code reason key = Inr (t, e, False) \<and>
            credit_bal t tid = credit_bal s tid - amount \<and> 0 \<le> credit_bal t tid) \<and>
         (\<exists>t e. revoke_topup_credit actor s tid order amount version reason = Inr (t, e, False) \<and>
            credit_bal t tid = credit_bal s tid - amount \<and> 0 \<le> credit_bal t tid)
    else adjust_credit actor s tid ''debit'' amount code reason key = Inl (ServiceOSException ''INSUFFICIENT_USAGE_CREDIT'') \<and>
         revoke_topup_credit actor s tid order amount version reason = Inl (ServiceOSException ''INSUFFICIENT_USAGE_CREDIT'')"
proof -
  have guard: "if amount \<le> credit_bal s tid
      then \<exists>t e. post_credit actor s tid (- amount) ev st sid rc reason k None None False = Inr (t, e, False) \<and>
            credit_bal t tid = credit_bal s tid - amount
      else post_credit actor s tid (- amount) ev st sid rc reason k None None False =
            Inl (ServiceOSException ''INSUFFICIENT_USAGE_CREDIT'')"
    if ev: "ev \<in> set VALID_EVENT_TYPES" and k: "k \<in> {Some key, Some (''topup_credit_refund:'' @ order @ '':'' @ version)}"
    for ev st sid rc k
  proof -
    obtain s1 b where b: "ensure_billing s (Some tid) = Inr (s1, b)" using ensure_billing_total by blast
    from k assms(5) have "filter (\<lambda>e. u_idempotency_key e = k) (usage_credit_ledger s) = []"
      by (auto simp: filter_empty_conv)
    with ev b ensure_billing_Inr [OF b] assms(1) have unfold:
      "post_credit actor s tid (- amount) ev st sid rc reason k None None False =
         (if credit_bal s tid - amount < 0 then Inl (ServiceOSException ''INSUFFICIENT_USAGE_CREDIT'')
          else post_credit actor s tid (- amount) ev st sid rc reason k None None True)"
      "\<exists>t e. post_credit actor s tid (- amount) ev st sid rc reason k None None True = Inr (t, e, False)"
      by (simp_all add: post_credit_def Let_def)
    then obtain t e where t: "post_credit actor s tid (- amount) ev st sid rc reason k None None True = Inr (t, e, False)"
      by blast
    then have "credit_bal t tid = credit_bal s tid - amount"
      by (cases rule: post_credit_cases) (auto simp: credit_posted_own)
    with t unfold(1) show ?thesis by auto
  qed
  show ?thesis
    using guard [of "''manual_credit_removed''" "Some key" "Some ''admin_manual''" None "Some code"]
      guard [of "''topup_credit_refunded''" "Some (''topup_credit_refund:'' @ order @ '':'' @ version)"
        "Some SOURCE_TYPE_FINANCE_HUB_CREDIT_TOPUP" "Some order" "Some ''credit_topup_refund''"] assms(1-4)
    by (auto simp: adjust_credit_def revoke_topup_credit_def VALID_DIRECTIONS_def VALID_EVENT_TYPES_def split: if_splits)
qed

theorem guarded_debits_never_overdraw_witness:
  "adjust_credit demo_actor empty_credits 4 ''debit'' 10 ''correction'' ''r'' ''k'' =
     Inl (ServiceOSException ''INSUFFICIENT_USAGE_CREDIT'') \<and>
   (\<exists>t e. adjust_credit demo_actor (empty_credits\<lparr>tenant_billings := [\<lparr>tb_tenant_id = 4, tb_credit_balance = 30\<rparr>]\<rparr>)
        4 ''debit'' 10 ''correction'' ''r'' ''k'' = Inr (t, e, False) \<and> credit_bal t 4 = 20)"
proof -
  let ?s = "empty_credits\<lparr>tenant_billings := [\<lparr>tb_tenant_id = 4, tb_credit_balance = 30\<rparr>]\<rparr>"
  have ok: "\<not> blank ''r''" "\<not> blank ''k''" "''correction'' \<in> set VALID_REASON_CODES"
    by (simp_all add: blank_def py_space_def VALID_REASON_CODES_def)
  have b: "credit_bal ?s 4 = 30" by (simp add: credit_bal_def)
  from guarded_debits_never_overdraw [OF _ ok, of 10 empty_credits "''o''" "''v''" 4 demo_actor]
    guarded_debits_never_overdraw [OF _ ok, of 10 ?s "''o''" "''v''" 4 demo_actor] b
  show ?thesis by auto
qed

lemma suspended_not_suspendable:
  "m \<in> set (update_where (suspendable tid) (\<lambda>m. m\<lparr>m_status := ''inactive'', credit_suspended_at := Some now\<rparr>) xs) \<Longrightarrow>
   \<not> suspendable tid m"
proof -
  let ?f = "\<lambda>a. if suspendable tid a then a\<lparr>m_status := ''inactive'', credit_suspended_at := Some now\<rparr> else a"
  assume "m \<in> set (update_where (suspendable tid) (\<lambda>m. m\<lparr>m_status := ''inactive'', credit_suspended_at := Some now\<rparr>) xs)"
  then have "m \<in> ?f ` set xs" by (simp add: update_where_def)
  then obtain a where "m = ?f a" by blast
  moreover have "\<not> suspendable tid (?f a)" by (simp add: suspendable_def)
  ultimately show ?thesis by simp
qed

text \<open>
  Suspending the team for credit is reversible and idempotent. If no member is suspended for
  credit, then a sync on an exhausted balance followed by a sync after the balance has recovered gives
  back exactly the original team, members the provider had deactivated included; and a second sync on
  the same balance changes nothing.
\<close>

theorem team_suspension_roundtrip:
  assumes "\<forall>m \<in> set (team_members s). \<not> restorable tid m"
    and "first_row (billings_of s tid) = Some b" and "tb_credit_balance b \<le> 0"
    and "t = fst (sync_team_credit_suspension s now tid)"
    and "first_row (filter (\<lambda>b. tb_tenant_id b = tid) bills) = Some b'" and "0 < tb_credit_balance b'"
  shows "team_members (fst (sync_team_credit_suspension (t\<lparr>tenant_billings := bills\<rparr>) now' tid)) = team_members s \<and>
    fst (sync_team_credit_suspension t now' tid) = t \<and>
    (\<forall>m \<in> set (team_members t). m_tenant_id m = tid \<and> \<not> m_deleted m \<longrightarrow> m_status m \<noteq> ''active'')"
proof (intro conjI ballI)
  let ?off = "\<lambda>m. m\<lparr>m_status := ''inactive'', credit_suspended_at := Some now\<rparr>"
  let ?on = "\<lambda>m. m\<lparr>m_status := ''active'', credit_suspended_at := None\<rparr>"
  from assms(2-4) have team: "team_members t = update_where (suspendable tid) ?off (team_members s)"
    and bill: "tenant_billings t = tenant_billings s" by (simp_all add: sync_team_credit_suspension_def)
  have "update_where (restorable tid) ?on (update_where (suspendable tid) ?off xs) = xs"
    if "\<forall>m \<in> set xs. \<not> restorable tid m" for xs
    using that by (induction xs) (auto simp: suspendable_def restorable_def)
  with assms(1) have "update_where (restorable tid) ?on (team_members t) = team_members s" by (simp add: team)
  with assms(5,6) show "team_members (fst (sync_team_credit_suspension (t\<lparr>tenant_billings := bills\<rparr>) now' tid)) = team_members s"
    by (simp add: sync_team_credit_suspension_def)
  have off: "\<not> suspendable tid m" if "m \<in> set (team_members t)" for m
    using that unfolding team by (rule suspended_not_suspendable)
  have "update_where (suspendable tid) f (team_members t) = team_members t" for f
    using off by (intro update_where_none) blast
  moreover have "first_row (billings_of t tid) = Some b" using assms(2) by (simp add: bill)
  ultimately show "fst (sync_team_credit_suspension t now' tid) = t"
    using assms(3) by (simp add: sync_team_credit_suspension_def)
  show "m_tenant_id m = tid \<and> \<not> m_deleted m \<longrightarrow> m_status m \<noteq> ''active''" if "m \<in> set (team_members t)" for m
  proof -
    from that have "m \<in> set (team_members s) \<or> m_status m = ''inactive''"
      by (auto simp: team set_update_where)
    with off [OF that] assms(1) show ?thesis by (auto simp: suspendable_def restorable_def)
  qed
qed

theorem team_suspension_roundtrip_witness:
  "let s = empty_credits\<lparr>tenant_billings := [\<lparr>tb_tenant_id = 4, tb_credit_balance = 0\<rparr>]\<rparr>;
       t = fst (sync_team_credit_suspension s 9 4)
   in team_members t \<noteq> team_members s \<and>
      team_members (fst (sync_team_credit_suspension (t\<lparr>tenant_billings := [\<lparr>tb_tenant_id = 4, tb_credit_balance = 80\<rparr>]\<rparr>) 12 4)) =
        team_members s"
proof -
  let ?s = "empty_credits\<lparr>tenant_billings := [\<lparr>tb_tenant_id = 4, tb_credit_balance = 0\<rparr>]\<rparr>"
  let ?t = "fst (sync_team_credit_suspension ?s 9 4)"
  have "team_members ?t \<noteq> team_members ?s" by (simp add: sync_team_credit_suspension_def suspendable_def)
  moreover have "team_members (fst (sync_team_credit_suspension
      (?t\<lparr>tenant_billings := [\<lparr>tb_tenant_id = 4, tb_credit_balance = 80\<rparr>]\<rparr>) 12 4)) = team_members ?s"
    using team_suspension_roundtrip [of ?s 4 "\<lparr>tb_tenant_id = 4, tb_credit_balance = 0\<rparr>" ?t 9
        "[\<lparr>tb_tenant_id = 4, tb_credit_balance = 80\<rparr>]" "\<lparr>tb_tenant_id = 4, tb_credit_balance = 80\<rparr>" 12]
    by (simp add: restorable_def)
  ultimately show ?thesis by (simp add: Let_def)
qed

text \<open>
  a reversal undoes an entry, once. Reversing an entry with a non-zero delta moves the owner's
  balance back by exactly that delta; and whatever runs afterwards, reversing the same entry again
  changes nothing and answers with the first reversal.
\<close>

theorem reversal_undoes_once:
  assumes "credit_wf s" and "e \<in> set (usage_credit_ledger s)" and "credit_delta e \<noteq> 0" and "\<not> blank reason"
    and "Some (''reversal:'' @ str_uuid (u_id e)) \<notin> u_idempotency_key ` set (usage_credit_ledger s)"
  shows "\<exists>t r. reverse_credit_event actor s (u_id e) reason = Inr (t, r, False) \<and>
      credit_bal t = (credit_bal s)(u_tenant_id e := credit_bal s (u_tenant_id e) - credit_delta e) \<and>
      (\<forall>u. credit_step\<^sup>*\<^sup>* t u \<longrightarrow> reverse_credit_event actor' u (u_id e) reason = Inr (u, r, True))"
proof -
  let ?key = "Some (''reversal:'' @ str_uuid (u_id e))"
  have ids: "filter (\<lambda>x. u_id x = u_id e) (usage_credit_ledger u) = [e]"
    if "credit_wf u" "e \<in> set (usage_credit_ledger u)" for u :: "'a credit_db_scheme"
    using that filter_key_single [of u_id] by (auto simp: credit_wf_def)
  let ?post = "\<lambda>ac u. post_credit ac u (u_tenant_id e) (- credit_delta e) ''credit_reversal''
      (Some ''ledger_reversal'') (Some (str_uuid (u_id e))) (Some ''correction'') reason ?key None None True"
  have rev: "reverse_credit_event ac u (u_id e) reason = ?post ac u"
    if "credit_wf u" "e \<in> set (usage_credit_ledger u)" for u :: "'a credit_db_scheme" and ac
    using ids [OF that] assms(4) by (simp add: reverse_credit_event_def)
  obtain s1 b where b: "ensure_billing s (Some (u_tenant_id e)) = Inr (s1, b)" using ensure_billing_total by blast
  have "filter (\<lambda>x. u_idempotency_key x = ?key) (usage_credit_ledger s) = []"
    using assms(5) by (auto simp: filter_empty_conv image_iff)
  with b assms(3) obtain t r where post: "?post actor s = Inr (t, r, False)"
    by (simp add: post_credit_def VALID_EVENT_TYPES_def Let_def)
  from post have bal: "credit_bal t = (credit_bal s)(u_tenant_id e := credit_bal s (u_tenant_id e) - credit_delta e)"
    by (cases rule: post_credit_cases) (auto simp: credit_posted_def)
  from post have step: "credit_step s t" by (rule credit_step.post)
  have call: "credit_call s ?key t r" unfolding credit_call_def
    by (rule conjI, simp, intro exI, rule post)
  have "reverse_credit_event actor' u (u_id e) reason = Inr (u, r, True)" if run: "credit_step\<^sup>*\<^sup>* t u" for u
  proof -
    from run assms(1) step have wfu: "credit_wf u"
      by (meson credits.run_inv converse_rtranclp_into_rtranclp)
    have "\<exists>new. usage_credit_ledger u = usage_credit_ledger t @ new"
      using run by (induction rule: rtranclp_induct) (auto dest: credit_step_appends)
    with credit_step_appends [OF step] assms(2) have "e \<in> set (usage_credit_ledger u)" by auto
    moreover have "credit_recorded u ?key r"
      using credit_keys.run_recorded [OF run] credit_step_wf [OF assms(1) step]
        credit_keys.call_records [OF assms(1) call] by blast
    ultimately show ?thesis using rev [OF wfu] assms(3)
      by (simp add: credit_recorded_def post_credit_def VALID_EVENT_TYPES_def)
  qed
  with post bal rev [OF assms(1,2)] show ?thesis by auto
qed

theorem reversal_undoes_once_witness:
  "\<exists>s e t r. credit_delta (e :: credit_entry) = 250 \<and> reverse_credit_event demo_actor s (u_id e) ''undo'' = Inr (t, r, False) \<and>
     credit_bal s 4 = 250 \<and> credit_bal (t :: credit_db) 4 = 0"
proof -
  obtain s e where s: "post_credit demo_actor empty_credits 4 250 ''topup_credit_granted'' None None None ''r''
      (Some ''k'') None None True = Inr (s, e, False)"
    by (simp add: post_credit_def VALID_EVENT_TYPES_def ensure_billing_def Let_def)
  from s have p: "credit_posted empty_credits s e" "credit_delta e = 250" "u_tenant_id e = 4" "u_idempotency_key e = Some ''k''"
    by (cases rule: post_credit_cases; simp)+
  have wf: "credit_wf s" using credit_step_wf [OF empty_credits_wf credit_step.post [OF s]] .
  have e: "e \<in> set (usage_credit_ledger s)" "credit_delta e \<noteq> 0" "\<not> blank ''undo''"
    "Some (''reversal:'' @ str_uuid (u_id e)) \<notin> u_idempotency_key ` set (usage_credit_ledger s)"
    using p by (auto simp: credit_posted_def blank_def py_space_def)
  from p have bs: "credit_bal s 4 = 250" by (simp add: credit_posted_def)
  from reversal_undoes_once [OF wf e, of demo_actor demo_actor] obtain t r
    where t: "reverse_credit_event demo_actor s (u_id e) ''undo'' = Inr (t, r, False)"
      "credit_bal t = (credit_bal s)(u_tenant_id e := credit_bal s (u_tenant_id e) - credit_delta e)" by blast
  from t(2) p bs have "credit_bal t 4 = 0" by simp
  with t(1) p(2) bs show ?thesis by (intro exI [of _ s] exI [of _ e] exI [of _ t] exI [of _ r] conjI)
qed

text \<open>
  Recovering the platform fee can exhaust the credit without suspending the team. The recovery
  posts its debit and leaves the team table as it is: an active member stays active on a balance at or
  below zero, until some other event syncs the team.
\<close>

theorem recovery_leaves_team_active:
  assumes "deduct_customer_platform_charge_recovery s tid job bk key amt fee pref req = Inr (t, Recovered e)"
  shows "credit_bal t tid < credit_bal s tid \<and> team_members t = team_members s"
  using assms
proof (cases rule: recovery_cases)
  case (recovered e')
  then show ?thesis using credit_posted_own [of s t e' tid "credit_delta e'"] by simp
qed simp_all

theorem recovery_leaves_team_active_witness:
  "\<exists>t e m. deduct_customer_platform_charge_recovery empty_credits 4 1 2 ''home_services'' 0 (Some 20) None None = Inr (t, Recovered e) \<and>
     credit_bal t 4 < 0 \<and> m \<in> set (team_members t) \<and> m_tenant_id m = 4 \<and> m_status m = ''active''"
proof -
  obtain t e where d: "deduct_customer_platform_charge_recovery empty_credits 4 1 2 ''home_services'' 0 (Some 20) None None =
      Inr (t, Recovered e)"
    by (simp add: deduct_customer_platform_charge_recovery_def job_entry_def get_vertical_id_def recovery_amount_def
        ensure_billing_def quantize2_def Let_def)
  from recovery_leaves_team_active [OF d] d show ?thesis by force
qed

text \<open>
  The lifecycle hook does not swallow every failure. A booking whose price snapshot holds a text
  that is not a number raises out of \<^verbatim>\<open>attempt_charge_at_event\<close>, before its own exception handler,
  whatever the policy and even when the job was already charged.
\<close>

theorem attempt_charge_raises_on_bad_price:
  assumes "find (\<lambda>b. b_id b = j_booking_id job) (service_bookings s) = Some bk"
    and "b_price_snapshot bk = Some sn" and "base_price sn = JText lit" and "parse_decimal lit = None"
  shows "attempt_charge_at_event s now job ev req = Inl InvalidOperation"
  using assms by (simp add: attempt_charge_at_event_def json_decimal_def Let_def)

theorem attempt_charge_raises_on_bad_price_witness:
  "attempt_charge_at_event (empty_credits\<lparr>service_bookings := [demo_booking\<lparr>b_price_snapshot :=
       Some (demo_snapshot\<lparr>base_price := JText ''on request''\<rparr>)\<rparr>]\<rparr>) 5 demo_job ''work_done'' None = Inl InvalidOperation"
  by (rule attempt_charge_raises_on_bad_price [where lit = "''on request''"])
     (auto simp: demo_job_def demo_booking_def parse_decimal_def strip_def py_space_def split_sign_def is_digit_def)

end
