(* ===== verification/Quotes.thy ===== *)
theory Quotes
  imports UsageCredits
begin

section \<open>Quotes (quote_checklist/quote_service.py, constants.py)\<close>

text \<open>
  The estimate of a job: versions, line items, the customer's decision and its effect on the job.
  \<open>quote_db\<close> adds quotes, items and quote events. Not kept in the rows: the random quote number, the
  currency, the creator ids and the row timestamps no code reads. The pre-estimate checklist gate
  (checklist_catalog) is the argument \<open>gate\<close> of \<open>create_quote\<close>; notifications change none of these
  tables. The functions raise before they commit, so an error leaves the database as it was.
\<close>

subsection \<open>Constants\<close>

datatype quote_status =
    QS_DRAFT | QS_SUBMITTED_TO_PROVIDER | QS_PROVIDER_APPROVED | QS_PROVIDER_REJECTED
  | QS_SENT_TO_CUSTOMER | QS_CUSTOMER_APPROVED | QS_CUSTOMER_REJECTED | QS_REVISION_REQUESTED
  | QS_REVISED | QS_EXPIRED | QS_CANCELLED

definition QUOTE_FINAL_STATUSES :: "quote_status list" where
  "QUOTE_FINAL_STATUSES = [QS_CUSTOMER_APPROVED, QS_CUSTOMER_REJECTED, QS_EXPIRED, QS_CANCELLED]"

fun QUOTE_TRANSITIONS :: "quote_status \<Rightarrow> quote_status list" where
  "QUOTE_TRANSITIONS QS_DRAFT = [QS_SUBMITTED_TO_PROVIDER, QS_SENT_TO_CUSTOMER, QS_CANCELLED]"
| "QUOTE_TRANSITIONS QS_SUBMITTED_TO_PROVIDER = [QS_PROVIDER_APPROVED, QS_PROVIDER_REJECTED, QS_CANCELLED]"
| "QUOTE_TRANSITIONS QS_PROVIDER_APPROVED = [QS_SENT_TO_CUSTOMER, QS_CANCELLED]"
| "QUOTE_TRANSITIONS QS_PROVIDER_REJECTED = [QS_REVISED, QS_CANCELLED]"
| "QUOTE_TRANSITIONS QS_SENT_TO_CUSTOMER =
     [QS_CUSTOMER_APPROVED, QS_CUSTOMER_REJECTED, QS_REVISION_REQUESTED, QS_EXPIRED, QS_CANCELLED]"
| "QUOTE_TRANSITIONS QS_CUSTOMER_APPROVED = []"
| "QUOTE_TRANSITIONS QS_CUSTOMER_REJECTED = []"
| "QUOTE_TRANSITIONS QS_REVISION_REQUESTED = [QS_REVISED, QS_CANCELLED]"
| "QUOTE_TRANSITIONS QS_REVISED = [QS_SUBMITTED_TO_PROVIDER, QS_SENT_TO_CUSTOMER, QS_CANCELLED]"
| "QUOTE_TRANSITIONS QS_EXPIRED = []"
| "QUOTE_TRANSITIONS QS_CANCELLED = []"

definition VALID_QUOTE_TYPES :: "string list" where
  "VALID_QUOTE_TYPES = [''repair_quote'', ''parts_quote'', ''additional_work_quote'', ''inspection_quote'']"

definition VALID_ITEM_TYPES :: "string list" where
  "VALID_ITEM_TYPES = [''labour'', ''part'', ''material'', ''service'', ''visit_charge'', ''discount'',
     ''tax'', ''other'']"

definition ITEM_EDITABLE_QUOTE_STATUSES :: "quote_status list" where
  "ITEM_EDITABLE_QUOTE_STATUSES =
     [QS_DRAFT, QS_SUBMITTED_TO_PROVIDER, QS_PROVIDER_REJECTED, QS_REVISION_REQUESTED, QS_REVISED]"

datatype quote_event_type =
    QEV_CREATED | QEV_ITEM_ADDED | QEV_ITEM_UPDATED | QEV_ITEM_REMOVED | QEV_SUBMITTED_TO_PROVIDER
  | QEV_PROVIDER_APPROVED | QEV_PROVIDER_REJECTED | QEV_SENT_TO_CUSTOMER | QEV_CUSTOMER_APPROVED
  | QEV_CUSTOMER_REJECTED | QEV_REVISION_REQUESTED | QEV_REVISED | QEV_EXPIRED | QEV_CANCELLED

definition CUSTOMER_VISIBLE_QUOTE_EVENT_TYPES :: "quote_event_type list" where
  "CUSTOMER_VISIBLE_QUOTE_EVENT_TYPES =
     [QEV_SENT_TO_CUSTOMER, QEV_CUSTOMER_APPROVED, QEV_CUSTOMER_REJECTED, QEV_REVISION_REQUESTED,
      QEV_REVISED, QEV_EXPIRED, QEV_CANCELLED]"

subsection \<open>Data (quote_checklist/models.py)\<close>

record totals =
  labour_amount :: decimal
  parts_amount :: decimal
  service_amount :: decimal
  discount_amount :: decimal
  tax_amount :: decimal
  total_amount :: decimal
  customer_payable_amount :: decimal

definition zero_totals :: totals where
  "zero_totals = \<lparr>labour_amount = 0, parts_amount = 0, service_amount = 0, discount_amount = 0,
     tax_amount = 0, total_amount = 0, customer_payable_amount = 0\<rparr>"

record quote =
  q_id :: uuid
  q_booking_id :: uuid
  q_job_id :: uuid
  q_tenant_id :: uuid
  q_customer_id :: uuid
  q_status :: quote_status
  q_quote_type :: string
  q_totals :: totals
  provider_internal_notes :: "string option"
  customer_visible_notes :: "string option"
  rejection_reason :: "string option"
  revision_reason :: "string option"
  q_idempotency_key :: "string option"
  approved_at :: "time option"
  rejected_at :: "time option"
  sent_to_customer_at :: "time option"
  locked_at :: "time option"
  q_version_number :: int
  q_is_current :: bool
  supersedes_quote_id :: "uuid option"
  superseded_at :: "time option"
  approved_by :: "uuid option"

record quote_item =
  qi_id :: uuid
  qi_quote_id :: uuid
  qi_item_type :: string
  qi_item_name :: string
  qi_item_description :: "string option"
  qi_quantity :: decimal
  qi_unit_price :: decimal
  qi_line_total :: decimal
  qi_is_required :: bool
  qi_is_customer_visible :: bool

record quote_event =
  qe_quote_id :: uuid
  qe_event_type :: quote_event_type
  qe_actor_type :: string
  qe_old_status :: "quote_status option"
  qe_new_status :: "quote_status option"
  qe_reason :: "string option"

record quote_db = credit_db +
  quotes :: "quote list"
  quote_items :: "quote_item list"
  quote_events :: "quote_event list"

subsection \<open>Helpers\<close>

definition quote_payable_amount :: "quote \<Rightarrow> decimal" where
  "quote_payable_amount q =
     (if customer_payable_amount (q_totals q) > 0 then customer_payable_amount (q_totals q)
      else if total_amount (q_totals q) > 0 then total_amount (q_totals q) else 0)"

definition quote_service_amount :: "quote \<Rightarrow> decimal" where
  "quote_service_amount q = (if total_amount (q_totals q) > 0 then total_amount (q_totals q) else 0)"

definition stored_platform_fee :: "quote \<Rightarrow> decimal" where
  "stored_platform_fee q = max (quote_payable_amount q - quote_service_amount q) 0"

definition get_quote_row :: "'a quote_db_scheme \<Rightarrow> uuid \<Rightarrow> quote res" where
  "get_quote_row s qid =
     bind_res (one_or_none (filter (\<lambda>q. q_id q = qid) (quotes s))) (require (ValueError ''QUOTE_NOT_FOUND''))"

definition get_job_row :: "'a job_db_scheme \<Rightarrow> uuid \<Rightarrow> service_job res" where
  "get_job_row s jid = bind_res (job_by_id s jid) (require (ValueError ''QUOTE_JOB_NOT_FOUND''))"

definition assert_quote_transition :: "quote \<Rightarrow> quote_status \<Rightarrow> unit res" where
  "assert_quote_transition q to_status =
     (if to_status \<notin> set (QUOTE_TRANSITIONS (q_status q))
      then Inl (ValueError ''QUOTE_INVALID_STATUS_TRANSITION'') else Inr ())"

definition assert_quote_tenant :: "quote \<Rightarrow> uuid \<Rightarrow> unit res" where
  "assert_quote_tenant q tid = (if q_tenant_id q \<noteq> tid then Inl (ValueError ''QUOTE_ACCESS_DENIED'') else Inr ())"

definition assert_not_locked :: "quote \<Rightarrow> unit res" where
  "assert_not_locked q = (if locked_at q \<noteq> None then Inl (ValueError ''QUOTE_ALREADY_LOCKED'') else Inr ())"

definition log_quote_event ::
  "'a quote_db_scheme \<Rightarrow> quote \<Rightarrow> quote_event_type \<Rightarrow> string \<Rightarrow> quote_status option \<Rightarrow> quote_status option \<Rightarrow>
   string option \<Rightarrow> 'a quote_db_scheme" where
  "log_quote_event s q ev actor_type old_status new_status reason =
     s\<lparr>quote_events := quote_events s @ [\<lparr>qe_quote_id = q_id q, qe_event_type = ev, qe_actor_type = actor_type,
        qe_old_status = old_status, qe_new_status = new_status, qe_reason = reason\<rparr>]\<rparr>"

definition sync_job_status :: "'a job_db_scheme \<Rightarrow> uuid \<Rightarrow> job_status \<Rightarrow> 'a job_db_scheme res" where
  "sync_job_status s jid new_status =
     bind_res (job_by_id s jid) (\<lambda>row.
       case row of None \<Rightarrow> Inr s
       | Some j \<Rightarrow>
         if j_status j = new_status then Inr s
         else if new_status \<notin> set (JOB_TRANSITIONS (j_status j))
         then Inl (ValueError ''QUOTE_JOB_STATUS_SYNC_INVALID_TRANSITION'')
         else Inr (sync_booking_of_job
                (s\<lparr>service_jobs := update_where (\<lambda>r. j_id r = jid) (\<lambda>r. r\<lparr>j_status := new_status\<rparr>) (service_jobs s)\<rparr>)
                jid new_status))"

definition items_of :: "'a quote_db_scheme \<Rightarrow> uuid \<Rightarrow> quote_item list" where
  "items_of s qid = filter (\<lambda>i. qi_quote_id i = qid) (quote_items s)"

text \<open>The accumulation loop of \<^verbatim>\<open>_recalculate\<close>: one bucket per item type, the others are skipped.\<close>

definition add_line :: "totals \<Rightarrow> quote_item \<Rightarrow> totals" where
  "add_line a i =
     (let t = qi_line_total i; ty = qi_item_type i in
      if ty = ''labour'' then a\<lparr>labour_amount := labour_amount a + t\<rparr>
      else if ty = ''part'' \<or> ty = ''material'' then a\<lparr>parts_amount := parts_amount a + t\<rparr>
      else if ty = ''service'' then a\<lparr>service_amount := service_amount a + t\<rparr>
      else if ty = ''discount'' then a\<lparr>discount_amount := discount_amount a + t\<rparr>
      else if ty = ''tax'' then a\<lparr>tax_amount := tax_amount a + t\<rparr>
      else a)"

definition recalculate :: "quote_item list \<Rightarrow> totals" where
  "recalculate items =
     (let a = foldl add_line zero_totals items;
          total = labour_amount a + parts_amount a + service_amount a - discount_amount a + tax_amount a
      in a\<lparr>total_amount := total, customer_payable_amount := total\<rparr>)"

definition recalculate_with_platform_charge ::
  "'a quote_db_scheme \<Rightarrow> quote \<Rightarrow> quote_item list \<Rightarrow> totals res" where
  "recalculate_with_platform_charge s q items =
     (let totals = recalculate items in
      bind_res (get_current_policy_by_vertical_key s ''home_services'') (\<lambda>policy.
        bind_res (case policy of None \<Rightarrow> Inr None
                  | Some p \<Rightarrow>
                    bind_res (job_by_id s (q_job_id q)) (\<lambda>job.
                      bind_res (get_active_job_type_rule s (p_id p) (Option.bind job j_job_type_id)) (\<lambda>rule.
                        case rule of Some r \<Rightarrow> Inr (if \<not> customer_charge_enabled r then None else Some p)
                        | None \<Rightarrow> Inr (Some p)))) (\<lambda>effective.
          let priced = calculate_customer_platform_fee effective (to_minor (total_amount totals)) 0 0 ''INR''
          in Inr (totals\<lparr>customer_payable_amount := fr_total_payable priced\<rparr>))))"

text \<open>The customer's view of a quote: no internal notes, totals of the visible items, the stored fee.\<close>

record quote_view =
  qv_quote :: quote
  qv_platform_fee :: "decimal option"

definition customer_dict :: "'a quote_db_scheme \<Rightarrow> quote \<Rightarrow> quote_view" where
  "customer_dict s q =
     (let totals = recalculate (filter qi_is_customer_visible (items_of s (q_id q)));
          payable = total_amount totals + stored_platform_fee q
      in \<lparr>qv_quote = q\<lparr>provider_internal_notes := None,
                        q_totals := totals\<lparr>customer_payable_amount := payable\<rparr>\<rparr>,
          qv_platform_fee = Some (payable - total_amount totals)\<rparr>)"

abbreviation set_quote :: "'a quote_db_scheme \<Rightarrow> uuid \<Rightarrow> (quote \<Rightarrow> quote) \<Rightarrow> 'a quote_db_scheme" where
  "set_quote s qid f \<equiv> s\<lparr>quotes := update_where (\<lambda>r. q_id r = qid) f (quotes s)\<rparr>"

text \<open>The row after the commit (\<^verbatim>\<open>db.refresh(q)\<close>).\<close>

definition refreshed :: "'a quote_db_scheme \<Rightarrow> uuid \<Rightarrow> ('a quote_db_scheme \<times> quote) res" where
  "refreshed s qid = bind_res (get_quote_row s qid) (\<lambda>q. Inr (s, q))"

subsection \<open>Operations\<close>

definition create_quote ::
  "(service_job \<Rightarrow> unit res) \<Rightarrow> 'a quote_db_scheme \<Rightarrow> time \<Rightarrow> uuid \<Rightarrow> uuid \<Rightarrow> string \<Rightarrow> string option \<Rightarrow>
   ('a quote_db_scheme \<times> quote) res" where
  "create_quote gate s now jid tid quote_type notes =
     (if quote_type \<notin> set VALID_QUOTE_TYPES then Inl (ValueError ''QUOTE_ITEM_INVALID'')
      else bind_res (get_job_row s jid) (\<lambda>job.
        if j_tenant_id job \<noteq> Some tid then Inl (ValueError ''QUOTE_ACCESS_DENIED'')
        else if j_status job = JS_CLOSED_ESTIMATE_DECLINED then Inl (ValueError ''JOB_CLOSED_ESTIMATE_DECLINED'')
        else bind_res (gate job) (\<lambda>_.
          bind_res (one_or_none (filter (\<lambda>q. q_job_id q = j_id job \<and> q_is_current q) (quotes s))) (\<lambda>prior.
            if given prior (\<lambda>q. q_status q = QS_CUSTOMER_APPROVED)
            then Inl (ValueError ''APPROVED_ESTIMATE_IMMUTABLE'')
            else if given prior (\<lambda>q. q_status q = QS_SENT_TO_CUSTOMER)
            then Inl (ValueError ''INVALID_ESTIMATE_REVISION_STATE'')
            else bind_res (require DBAPIError (j_customer_id job)) (\<lambda>customer.
              let s1 = (case prior of None \<Rightarrow> s
                        | Some p \<Rightarrow> set_quote s (q_id p) (\<lambda>r. r\<lparr>q_is_current := False, superseded_at := Some now\<rparr>));
                  q = \<lparr>q_id = next_uuid s1, q_booking_id = j_booking_id job, q_job_id = j_id job,
                       q_tenant_id = tid, q_customer_id = customer, q_status = QS_DRAFT,
                       q_quote_type = quote_type, q_totals = zero_totals, provider_internal_notes = notes,
                       customer_visible_notes = None, rejection_reason = None, revision_reason = None,
                       q_idempotency_key = None, approved_at = None, rejected_at = None,
                       sent_to_customer_at = None, locked_at = None,
                       q_version_number = (case prior of None \<Rightarrow> 1 | Some p \<Rightarrow> q_version_number p + 1),
                       q_is_current = True, supersedes_quote_id = map_option q_id prior,
                       superseded_at = None, approved_by = None\<rparr>;
                  s2 = s1\<lparr>quotes := quotes s1 @ [q], next_uuid := Suc (next_uuid s1)\<rparr>
              in Inr (log_quote_event s2 q QEV_CREATED ''staff'' None (Some QS_DRAFT) None, q))))))"

text \<open>The guards the three item operations share, and the recalculation they end with.\<close>

definition editable_quote :: "'a quote_db_scheme \<Rightarrow> uuid \<Rightarrow> uuid \<Rightarrow> quote res" where
  "editable_quote s qid tid =
     bind_res (get_quote_row s qid) (\<lambda>q.
       bind_res (assert_quote_tenant q tid) (\<lambda>_.
         bind_res (assert_not_locked q) (\<lambda>_.
           if q_status q \<notin> set ITEM_EDITABLE_QUOTE_STATUSES then Inl (ValueError ''QUOTE_ALREADY_LOCKED'')
           else Inr q)))"

definition store_totals ::
  "'a quote_db_scheme \<Rightarrow> quote \<Rightarrow> quote_event_type \<Rightarrow> 'a quote_db_scheme res" where
  "store_totals s q ev =
     bind_res (recalculate_with_platform_charge s q (items_of s (q_id q))) (\<lambda>totals.
       Inr (log_quote_event (set_quote s (q_id q) (\<lambda>r. r\<lparr>q_totals := totals\<rparr>)) q ev ''staff'' None None None))"

definition add_item ::
  "'a quote_db_scheme \<Rightarrow> uuid \<Rightarrow> uuid \<Rightarrow> string \<Rightarrow> string \<Rightarrow> string option \<Rightarrow> decimal \<Rightarrow> decimal \<Rightarrow> bool \<Rightarrow> bool \<Rightarrow>
   ('a quote_db_scheme \<times> quote_item) res" where
  "add_item s qid tid item_type name description qty up required visible =
     bind_res (editable_quote s qid tid) (\<lambda>q.
       if item_type \<notin> set VALID_ITEM_TYPES then Inl (ValueError ''QUOTE_ITEM_INVALID'')
       else if qty < 0 \<or> up < 0 then Inl (ValueError ''QUOTE_ITEM_INVALID'')
       else
         let item = \<lparr>qi_id = next_uuid s, qi_quote_id = q_id q, qi_item_type = item_type,
                     qi_item_name = name, qi_item_description = description, qi_quantity = qty,
                     qi_unit_price = up, qi_line_total = qty * up, qi_is_required = required,
                     qi_is_customer_visible = visible\<rparr>;
             s1 = s\<lparr>quote_items := quote_items s @ [item], next_uuid := Suc (next_uuid s)\<rparr>
         in bind_res (store_totals s1 q QEV_ITEM_ADDED) (\<lambda>s2. Inr (s2, item)))"

definition update_item ::
  "'a quote_db_scheme \<Rightarrow> uuid \<Rightarrow> uuid \<Rightarrow> uuid \<Rightarrow> string option \<Rightarrow> string option \<Rightarrow> decimal option \<Rightarrow>
   decimal option \<Rightarrow> bool option \<Rightarrow> ('a quote_db_scheme \<times> quote_item) res" where
  "update_item s qid item_id tid name description qty up visible =
     bind_res (editable_quote s qid tid) (\<lambda>q.
       bind_res (bind_res (one_or_none (filter (\<lambda>i. qi_id i = item_id \<and> qi_quote_id i = q_id q) (quote_items s)))
                  (require (ValueError ''QUOTE_ITEM_INVALID''))) (\<lambda>item.
         if given qty (\<lambda>x. x < 0) then Inl (ValueError ''QUOTE_ITEM_INVALID'')
         else if given up (\<lambda>x. x < 0) then Inl (ValueError ''QUOTE_ITEM_INVALID'')
         else
           let new_qty = (case qty of None \<Rightarrow> qi_quantity item | Some x \<Rightarrow> x);
               new_up = (case up of None \<Rightarrow> qi_unit_price item | Some x \<Rightarrow> x);
               item' = item\<lparr>qi_item_name := (case name of None \<Rightarrow> qi_item_name item | Some x \<Rightarrow> x),
                            qi_item_description := (case description of None \<Rightarrow> qi_item_description item | Some x \<Rightarrow> Some x),
                            qi_quantity := new_qty, qi_unit_price := new_up,
                            qi_is_customer_visible := (case visible of None \<Rightarrow> qi_is_customer_visible item | Some x \<Rightarrow> x),
                            qi_line_total := new_qty * new_up\<rparr>;
               s1 = s\<lparr>quote_items := update_where (\<lambda>i. qi_id i = item_id \<and> qi_quote_id i = q_id q) (\<lambda>_. item') (quote_items s)\<rparr>
           in bind_res (store_totals s1 q QEV_ITEM_UPDATED) (\<lambda>s2. Inr (s2, item'))))"

definition remove_item ::
  "'a quote_db_scheme \<Rightarrow> uuid \<Rightarrow> uuid \<Rightarrow> uuid \<Rightarrow> 'a quote_db_scheme res" where
  "remove_item s qid item_id tid =
     bind_res (editable_quote s qid tid) (\<lambda>q.
       bind_res (bind_res (one_or_none (filter (\<lambda>i. qi_id i = item_id \<and> qi_quote_id i = q_id q) (quote_items s)))
                  (require (ValueError ''QUOTE_ITEM_INVALID''))) (\<lambda>item.
         store_totals (s\<lparr>quote_items := filter (\<lambda>i. \<not> (qi_id i = item_id \<and> qi_quote_id i = q_id q)) (quote_items s)\<rparr>)
           q QEV_ITEM_REMOVED))"

definition send_to_customer ::
  "'a quote_db_scheme \<Rightarrow> time \<Rightarrow> uuid \<Rightarrow> uuid \<Rightarrow> string option \<Rightarrow> ('a quote_db_scheme \<times> quote) res" where
  "send_to_customer s now qid tid customer_notes =
     bind_res (get_quote_row s qid) (\<lambda>q.
       bind_res (assert_quote_tenant q tid) (\<lambda>_.
         if items_of s (q_id q) = [] then Inl (ValueError ''QUOTE_ITEM_REQUIRED'')
         else bind_res (assert_quote_transition q QS_SENT_TO_CUSTOMER) (\<lambda>_.
           let s1 = set_quote s (q_id q) (\<lambda>r. r\<lparr>q_status := QS_SENT_TO_CUSTOMER, sent_to_customer_at := Some now,
                      customer_visible_notes :=
                        (if truthy customer_notes then customer_notes else customer_visible_notes r)\<rparr>)
           in bind_res (sync_job_status s1 (q_job_id q) JS_QUOTE_REQUIRED) (\<lambda>s2.
                refreshed (log_quote_event s2 q QEV_SENT_TO_CUSTOMER ''staff'' (Some (q_status q))
                  (Some QS_SENT_TO_CUSTOMER) None) (q_id q)))))"

definition customer_approve ::
  "'a quote_db_scheme \<Rightarrow> time \<Rightarrow> uuid \<Rightarrow> uuid \<Rightarrow> string \<Rightarrow> ('a quote_db_scheme \<times> quote_view) res" where
  "customer_approve s now qid customer_id idempotency_key =
     bind_res (get_quote_row s qid) (\<lambda>q.
       if q_customer_id q \<noteq> customer_id then Inl (ValueError ''QUOTE_CUSTOMER_APPROVAL_NOT_ALLOWED'')
       else if \<not> q_is_current q then Inl (ValueError ''QUOTE_NOT_CURRENT'')
       else if q_status q = QS_CUSTOMER_APPROVED \<and> q_idempotency_key q = Some idempotency_key
       then Inr (s, \<lparr>qv_quote = q\<lparr>provider_internal_notes := None\<rparr>, qv_platform_fee = None\<rparr>)
       else if q_status q = QS_CUSTOMER_APPROVED then Inl (ValueError ''QUOTE_IDEMPOTENCY_CONFLICT'')
       else bind_res (assert_quote_transition q QS_CUSTOMER_APPROVED) (\<lambda>_.
         let s1 = set_quote s (q_id q) (\<lambda>r. r\<lparr>q_status := QS_CUSTOMER_APPROVED, approved_at := Some now,
                    locked_at := Some now, q_idempotency_key := Some idempotency_key,
                    approved_by := Some customer_id\<rparr>)
         in bind_res (sync_job_status s1 (q_job_id q) JS_QUOTE_REQUIRED) (\<lambda>s2.
              let s3 = log_quote_event s2 q QEV_CUSTOMER_APPROVED ''customer'' (Some (q_status q))
                         (Some QS_CUSTOMER_APPROVED) None;
                  s4 = (case create_charge_for_quote s3 ''home_services'' (q_id q) (q_version_number q)
                               (q_is_current q) (q_job_id q) (Some (q_tenant_id q)) (Some customer_id)
                               (quote_service_amount q) ''quote_customer_approved'' of
                          Inl _ \<Rightarrow> s3 | Inr (s', _) \<Rightarrow> s')
              in bind_res (get_quote_row s4 (q_id q)) (\<lambda>q'. Inr (s4, customer_dict s4 q')))))"

definition customer_reject ::
  "'a quote_db_scheme \<Rightarrow> time \<Rightarrow> uuid \<Rightarrow> uuid \<Rightarrow> string \<Rightarrow> ('a quote_db_scheme \<times> quote_view) res" where
  "customer_reject s now qid customer_id reason =
     (if blank reason then Inl (ValueError ''QUOTE_REJECTION_REASON_REQUIRED'')
      else bind_res (get_quote_row s qid) (\<lambda>q.
        if q_customer_id q \<noteq> customer_id then Inl (ValueError ''QUOTE_CUSTOMER_APPROVAL_NOT_ALLOWED'')
        else if \<not> q_is_current q then Inl (ValueError ''QUOTE_NOT_CURRENT'')
        else bind_res (assert_quote_transition q QS_CUSTOMER_REJECTED) (\<lambda>_.
          let s1 = set_quote s (q_id q) (\<lambda>r. r\<lparr>q_status := QS_CUSTOMER_REJECTED, rejection_reason := Some reason,
                     rejected_at := Some now\<rparr>)
          in bind_res (get_job_row s1 (q_job_id q)) (\<lambda>job.
            bind_res (if quote_gates_work s1 job then sync_job_status s1 (q_job_id q) JS_CLOSED_ESTIMATE_DECLINED
                      else if j_status job = JS_QUOTE_REQUIRED \<and>
                              (\<exists>e \<in> set (execution_events s1). ev_job_id e = q_job_id q \<and>
                                 ev_new_status e = Some JS_SERVICE_STARTED)
                      then sync_job_status s1 (q_job_id q) JS_SERVICE_STARTED
                      else Inr s1) (\<lambda>s2.
              let s3 = log_quote_event s2 q QEV_CUSTOMER_REJECTED ''customer'' (Some (q_status q))
                         (Some QS_CUSTOMER_REJECTED) (Some reason)
              in bind_res (get_quote_row s3 (q_id q)) (\<lambda>q'. Inr (s3, customer_dict s3 q')))))))"

definition customer_request_revision ::
  "'a quote_db_scheme \<Rightarrow> uuid \<Rightarrow> uuid \<Rightarrow> string \<Rightarrow> ('a quote_db_scheme \<times> quote_view) res" where
  "customer_request_revision s qid customer_id reason =
     (if blank reason then Inl (ValueError ''QUOTE_REVISION_REASON_REQUIRED'')
      else bind_res (get_quote_row s qid) (\<lambda>q.
        if q_customer_id q \<noteq> customer_id then Inl (ValueError ''QUOTE_CUSTOMER_APPROVAL_NOT_ALLOWED'')
        else if \<not> q_is_current q then Inl (ValueError ''QUOTE_NOT_CURRENT'')
        else bind_res (assert_quote_transition q QS_REVISION_REQUESTED) (\<lambda>_.
          let s1 = set_quote s (q_id q) (\<lambda>r. r\<lparr>q_status := QS_REVISION_REQUESTED, revision_reason := Some reason\<rparr>)
          in bind_res (sync_job_status s1 (q_job_id q) JS_QUOTE_REQUIRED) (\<lambda>s2.
               let s3 = log_quote_event s2 q QEV_REVISION_REQUESTED ''customer'' (Some (q_status q))
                          (Some QS_REVISION_REQUESTED) (Some reason)
               in bind_res (get_quote_row s3 (q_id q)) (\<lambda>q'. Inr (s3, customer_dict s3 q'))))))"

definition cancel_quote ::
  "'a quote_db_scheme \<Rightarrow> uuid \<Rightarrow> uuid \<Rightarrow> string option \<Rightarrow> ('a quote_db_scheme \<times> quote) res" where
  "cancel_quote s qid tid reason =
     bind_res (get_quote_row s qid) (\<lambda>q.
       bind_res (assert_quote_tenant q tid) (\<lambda>_.
         bind_res (assert_quote_transition q QS_CANCELLED) (\<lambda>_.
           refreshed (log_quote_event (set_quote s (q_id q) (\<lambda>r. r\<lparr>q_status := QS_CANCELLED\<rparr>)) q QEV_CANCELLED
             ''staff'' (Some (q_status q)) (Some QS_CANCELLED) reason) (q_id q))))"

definition mark_revised ::
  "'a quote_db_scheme \<Rightarrow> uuid \<Rightarrow> uuid \<Rightarrow> ('a quote_db_scheme \<times> quote) res" where
  "mark_revised s qid tid =
     bind_res (get_quote_row s qid) (\<lambda>q.
       bind_res (assert_quote_tenant q tid) (\<lambda>_.
         bind_res (assert_quote_transition q QS_REVISED) (\<lambda>_.
           refreshed (log_quote_event (set_quote s (q_id q) (\<lambda>r. r\<lparr>q_status := QS_REVISED\<rparr>)) q QEV_REVISED
             ''staff'' (Some (q_status q)) (Some QS_REVISED) None) (q_id q))))"

subsection \<open>Reads\<close>

definition get_quote ::
  "'a quote_db_scheme \<Rightarrow> uuid \<Rightarrow> uuid option \<Rightarrow> uuid option \<Rightarrow> (quote_view \<times> quote_item list) res" where
  "get_quote s qid tenant_id customer_id =
     bind_res (get_quote_row s qid) (\<lambda>q.
       if given tenant_id (\<lambda>t. q_tenant_id q \<noteq> t) then Inl (ValueError ''QUOTE_NOT_FOUND'')
       else if given customer_id (\<lambda>c. q_customer_id q \<noteq> c) then Inl (ValueError ''QUOTE_NOT_FOUND'')
       else if customer_id \<noteq> None
       then Inr (customer_dict s q, filter qi_is_customer_visible (items_of s (q_id q)))
       else Inr (\<lparr>qv_quote = q, qv_platform_fee = None\<rparr>, items_of s (q_id q)))"

definition list_quotes_for_job :: "'a quote_db_scheme \<Rightarrow> uuid \<Rightarrow> uuid \<Rightarrow> quote list" where
  "list_quotes_for_job s jid tid = rev (filter (\<lambda>q. q_job_id q = jid \<and> q_tenant_id q = tid) (quotes s))"

definition list_customer_quotes :: "'a quote_db_scheme \<Rightarrow> uuid \<Rightarrow> uuid \<Rightarrow> quote list" where
  "list_customer_quotes s customer_id jid =
     map (\<lambda>q. q\<lparr>provider_internal_notes := None\<rparr>)
       (rev (filter (\<lambda>q. q_job_id q = jid \<and> q_customer_id q = customer_id \<and> q_is_current q) (quotes s)))"

definition list_quote_events ::
  "'a quote_db_scheme \<Rightarrow> uuid \<Rightarrow> uuid option \<Rightarrow> uuid option \<Rightarrow> quote_event list res" where
  "list_quote_events s qid tenant_id customer_id =
     bind_res (get_quote_row s qid) (\<lambda>q.
       if given tenant_id (\<lambda>t. q_tenant_id q \<noteq> t) then Inl (ValueError ''QUOTE_NOT_FOUND'')
       else if given customer_id (\<lambda>c. q_customer_id q \<noteq> c) then Inl (ValueError ''QUOTE_NOT_FOUND'')
       else
         let events = filter (\<lambda>e. qe_quote_id e = q_id q) (quote_events s)
         in Inr (if customer_id \<noteq> None
                 then filter (\<lambda>e. qe_event_type e \<in> set CUSTOMER_VISIBLE_QUOTE_EVENT_TYPES) events
                 else events))"

subsection \<open>What the operations do to quotes and items\<close>

definition quote_wf :: "'a quote_db_scheme \<Rightarrow> bool" where
  "quote_wf s \<longleftrightarrow>
     distinct (map q_id (quotes s)) \<and> (\<forall>q \<in> set (quotes s). q_id q < next_uuid s) \<and>
     (\<forall>i \<in> set (quote_items s). qi_quote_id i < next_uuid s) \<and>
     (\<forall>jid. length (filter (\<lambda>q. q_job_id q = jid \<and> q_is_current q) (quotes s)) \<le> 1)"

definition quote_by_id :: "'a quote_db_scheme \<Rightarrow> uuid \<Rightarrow> quote option" where
  "quote_by_id s qid = find (\<lambda>q. q_id q = qid) (quotes s)"

text \<open>
  The effects: a new draft that supersedes the current quote of its job; a move of one quote along
  the graph that touches neither totals nor items; an edit of the items of one unlocked, editable
  quote that stores their totals; anything that leaves quotes and items alone.
\<close>

definition keeps_identity :: "(quote \<Rightarrow> quote) \<Rightarrow> bool" where
  "keeps_identity f \<longleftrightarrow> (\<forall>r. q_id (f r) = q_id r \<and> q_job_id (f r) = q_job_id r \<and> q_is_current (f r) = q_is_current r \<and>
     q_version_number (f r) = q_version_number r)"

inductive quote_effect :: "'a quote_db_scheme \<Rightarrow> 'a quote_db_scheme \<Rightarrow> bool" where
  created: "filter (\<lambda>r. q_job_id r = q_job_id q \<and> q_is_current r) (quotes s) = ps \<Longrightarrow> length ps \<le> 1 \<Longrightarrow>
    \<forall>p \<in> set ps. q_status p \<notin> {QS_CUSTOMER_APPROVED, QS_SENT_TO_CUSTOMER} \<Longrightarrow>
    quotes t = update_where (\<lambda>r. q_id r \<in> q_id ` set ps) (\<lambda>r. r\<lparr>q_is_current := False, superseded_at := Some now\<rparr>) (quotes s) @ [q] \<Longrightarrow>
    q_status q = QS_DRAFT \<Longrightarrow> q_totals q = zero_totals \<Longrightarrow> q_is_current q \<Longrightarrow> q_id q = next_uuid s \<Longrightarrow>
    quote_items t = quote_items s \<Longrightarrow> next_uuid t = Suc (next_uuid s) \<Longrightarrow> quote_effect s t"
| moved: "quote_by_id s qid = Some q \<Longrightarrow> to \<in> set (QUOTE_TRANSITIONS (q_status q)) \<Longrightarrow> keeps_identity f \<Longrightarrow>
    \<forall>r. q_status (f r) = to \<and> q_totals (f r) = q_totals r \<Longrightarrow>
    quotes t = update_where (\<lambda>r. q_id r = qid) f (quotes s) \<Longrightarrow> quote_items t = quote_items s \<Longrightarrow>
    next_uuid s \<le> next_uuid t \<Longrightarrow> quote_effect s t"
| edited: "quote_by_id s qid = Some q \<Longrightarrow> q_status q \<in> set ITEM_EDITABLE_QUOTE_STATUSES \<Longrightarrow> locked_at q = None \<Longrightarrow>
    \<forall>q'. q' \<noteq> qid \<longrightarrow> filter (\<lambda>i. qi_quote_id i = q') items = filter (\<lambda>i. qi_quote_id i = q') (quote_items s) \<Longrightarrow>
    set (map qi_quote_id items) \<subseteq> insert qid (qi_quote_id ` set (quote_items s)) \<Longrightarrow>
    quote_items t = items \<Longrightarrow>
    quotes t = update_where (\<lambda>r. q_id r = qid)
      (\<lambda>r. r\<lparr>q_totals := (recalculate (filter (\<lambda>i. qi_quote_id i = qid) items))\<lparr>customer_payable_amount := pay\<rparr>\<rparr>) (quotes s) \<Longrightarrow>
    next_uuid s \<le> next_uuid t \<Longrightarrow> quote_effect s t"
| quiet: "quotes t = quotes s \<Longrightarrow> quote_items t = quote_items s \<Longrightarrow> next_uuid s \<le> next_uuid t \<Longrightarrow> quote_effect s t"

lemma get_quote_row_Inr:
  "get_quote_row s qid = Inr q \<Longrightarrow> quote_by_id s qid = Some q \<and> q_id q = qid \<and> q \<in> set (quotes s)"
proof -
  assume "get_quote_row s qid = Inr q"
  then have f: "filter (\<lambda>q. q_id q = qid) (quotes s) = [q]"
    by (auto simp: get_quote_row_def bind_res_Inr require_Inr one_or_none_Some)
  then have "find (\<lambda>q. q_id q = qid) (quotes s) = Some q" by (simp add: find_first_row)
  with filter_eq_single_mem [OF f] show ?thesis by (simp add: quote_by_id_def)
qed

lemma sync_job_status_keeps:
  fixes s :: "'a quote_db_scheme"
  assumes "sync_job_status s jid st = Inr t"
  shows "quotes t = quotes s \<and> quote_items t = quote_items s \<and> next_uuid t = next_uuid s"
proof (cases "job_by_id s jid")
  case (Inl e)
  with assms show ?thesis by (simp add: sync_job_status_def)
next
  case (Inr row)
  show ?thesis
  proof (cases row)
    case None
    with assms Inr show ?thesis by (simp add: sync_job_status_def)
  next
    case (Some j)
    with assms Inr have "t = s \<or> t = sync_booking_of_job
        (s\<lparr>service_jobs := update_where (\<lambda>r. j_id r = jid) (\<lambda>r. r\<lparr>j_status := st\<rparr>) (service_jobs s)\<rparr>) jid st"
      by (simp add: sync_job_status_def split: if_splits)
    then show ?thesis by (elim disjE) (simp_all add: sync_booking_of_job_def)
  qed
qed

lemma log_quote_event_keeps [simp]:
  "quotes (log_quote_event s q ev a b c d) = quotes s"
  "quote_items (log_quote_event s q ev a b c d) = quote_items s"
  "next_uuid (log_quote_event s q ev a b c d) = next_uuid s"
  by (simp_all add: log_quote_event_def)

lemma create_charge_for_quote_keeps:
  fixes s :: "'a quote_db_scheme"
  assumes "create_charge_for_quote s key qid ver cur job tid cust amt ev = Inr (t, c)"
  shows "quotes t = quotes s \<and> quote_items t = quote_items s \<and> next_uuid s \<le> next_uuid t"
proof (cases c)
  case None
  with assms have "t = s"
    by (cases cur) (auto simp: create_charge_for_quote_def bind_res_Inr add_charge_def Let_def split: option.splits)
  then show ?thesis by simp
next
  case (Some x)
  with create_charge_for_quote_cases [of s key qid ver cur job tid cust amt ev t x] assms
  show ?thesis by (auto simp: add_charge_def)
qed

lemma assert_quote_transition_Inr:
  "assert_quote_transition q to = Inr u \<longleftrightarrow> to \<in> set (QUOTE_TRANSITIONS (q_status q))"
  by (cases u) (simp add: assert_quote_transition_def)

lemma moved_effect:
  assumes "get_quote_row s qid = Inr q" and "to \<in> set (QUOTE_TRANSITIONS (q_status q))" and "keeps_identity f"
    and "\<And>r. q_status (f r) = to" and "\<And>r. q_totals (f r) = q_totals r"
    and "quotes t = quotes (set_quote s (q_id q) f)" and "quote_items t = quote_items s" and "next_uuid s \<le> next_uuid t"
  shows "quote_effect s t"
proof -
  note q = get_quote_row_Inr [OF assms(1)]
  from q assms(6) have qt: "quotes t = update_where (\<lambda>r. q_id r = qid) f (quotes s)" by simp
  have st: "\<forall>r. q_status (f r) = to \<and> q_totals (f r) = q_totals r" using assms(4,5) by simp
  show ?thesis by (rule quote_effect.moved [OF conjunct1 [OF q] assms(2,3) st qt assms(7,8)])
qed

lemma refreshed_Inr: "refreshed s qid = Inr (t, q) \<Longrightarrow> t = s"
  by (auto simp: refreshed_def bind_res_Inr)

lemma cancel_quote_effect:
  assumes "cancel_quote s qid tid reason = Inr (t, q')"
  shows "quote_effect s t"
proof -
  from assms obtain q where q: "get_quote_row s qid = Inr q" "QS_CANCELLED \<in> set (QUOTE_TRANSITIONS (q_status q))"
    and t: "t = log_quote_event (set_quote s (q_id q) (\<lambda>r. r\<lparr>q_status := QS_CANCELLED\<rparr>)) q QEV_CANCELLED
             ''staff'' (Some (q_status q)) (Some QS_CANCELLED) reason"
    by (auto simp: cancel_quote_def bind_res_Inr assert_quote_transition_Inr dest: refreshed_Inr)
  show ?thesis
    by (rule moved_effect [OF q, where f = "\<lambda>r. r\<lparr>q_status := QS_CANCELLED\<rparr>"]) (simp_all add: t keeps_identity_def)
qed

lemma mark_revised_effect:
  assumes "mark_revised s qid tid = Inr (t, q')"
  shows "quote_effect s t"
proof -
  from assms obtain q where q: "get_quote_row s qid = Inr q" "QS_REVISED \<in> set (QUOTE_TRANSITIONS (q_status q))"
    and t: "t = log_quote_event (set_quote s (q_id q) (\<lambda>r. r\<lparr>q_status := QS_REVISED\<rparr>)) q QEV_REVISED
             ''staff'' (Some (q_status q)) (Some QS_REVISED) None"
    by (auto simp: mark_revised_def bind_res_Inr assert_quote_transition_Inr dest: refreshed_Inr)
  show ?thesis
    by (rule moved_effect [OF q, where f = "\<lambda>r. r\<lparr>q_status := QS_REVISED\<rparr>"]) (simp_all add: t keeps_identity_def)
qed

lemma send_to_customer_effect:
  assumes "send_to_customer s now qid tid notes = Inr (t, q')"
  shows "quote_effect s t"
proof -
  let ?f = "\<lambda>r. r\<lparr>q_status := QS_SENT_TO_CUSTOMER, sent_to_customer_at := Some now,
      customer_visible_notes := (if truthy notes then notes else customer_visible_notes r)\<rparr>"
  from assms obtain q s2 where q: "get_quote_row s qid = Inr q" "QS_SENT_TO_CUSTOMER \<in> set (QUOTE_TRANSITIONS (q_status q))"
    and y: "sync_job_status (set_quote s (q_id q) ?f) (q_job_id q) JS_QUOTE_REQUIRED = Inr s2"
    and t: "t = log_quote_event s2 q QEV_SENT_TO_CUSTOMER ''staff'' (Some (q_status q)) (Some QS_SENT_TO_CUSTOMER) None"
    by (auto simp: send_to_customer_def bind_res_Inr assert_quote_transition_Inr Let_def dest: refreshed_Inr split: if_splits)
  from sync_job_status_keeps [OF y] show ?thesis
    by (intro moved_effect [OF q, where f = ?f]) (simp_all add: t keeps_identity_def)
qed

lemma customer_request_revision_effect:
  assumes "customer_request_revision s qid cid reason = Inr (t, v)"
  shows "quote_effect s t"
proof -
  let ?f = "\<lambda>r. r\<lparr>q_status := QS_REVISION_REQUESTED, revision_reason := Some reason\<rparr>"
  from assms obtain q s2 where q: "get_quote_row s qid = Inr q" "QS_REVISION_REQUESTED \<in> set (QUOTE_TRANSITIONS (q_status q))"
    and y: "sync_job_status (set_quote s (q_id q) ?f) (q_job_id q) JS_QUOTE_REQUIRED = Inr s2"
    and t: "t = log_quote_event s2 q QEV_REVISION_REQUESTED ''customer'' (Some (q_status q)) (Some QS_REVISION_REQUESTED) (Some reason)"
    by (auto simp: customer_request_revision_def bind_res_Inr assert_quote_transition_Inr Let_def split: if_splits)
  from sync_job_status_keeps [OF y] show ?thesis
    by (intro moved_effect [OF q, where f = ?f]) (simp_all add: t keeps_identity_def)
qed

lemma customer_reject_effect:
  assumes "customer_reject s now qid cid reason = Inr (t, v)"
  shows "quote_effect s t"
proof -
  let ?f = "\<lambda>r. r\<lparr>q_status := QS_CUSTOMER_REJECTED, rejection_reason := Some reason, rejected_at := Some now\<rparr>"
  from assms obtain q s2 where q: "get_quote_row s qid = Inr q" "QS_CUSTOMER_REJECTED \<in> set (QUOTE_TRANSITIONS (q_status q))"
    and y: "s2 = set_quote s (q_id q) ?f \<or> (\<exists>st. sync_job_status (set_quote s (q_id q) ?f) (q_job_id q) st = Inr s2)"
    and t: "t = log_quote_event s2 q QEV_CUSTOMER_REJECTED ''customer'' (Some (q_status q)) (Some QS_CUSTOMER_REJECTED) (Some reason)"
    by (auto simp: customer_reject_def bind_res_Inr assert_quote_transition_Inr Let_def split: if_splits)
  from y have "quotes s2 = quotes (set_quote s (q_id q) ?f) \<and> quote_items s2 = quote_items s \<and> next_uuid s2 = next_uuid s"
    by (elim disjE exE) (auto dest: sync_job_status_keeps)
  then show ?thesis
    by (intro moved_effect [OF q, where f = ?f]) (simp_all add: t keeps_identity_def)
qed

lemma customer_approve_cases:
  assumes "customer_approve s now qid cid key = Inr (t, v)"
  obtains (replay) q where "get_quote_row s qid = Inr q" "q_status q = QS_CUSTOMER_APPROVED" "t = s"
      "v = \<lparr>qv_quote = q\<lparr>provider_internal_notes := None\<rparr>, qv_platform_fee = None\<rparr>" "q_idempotency_key q = Some key"
  | (approved) q f q' where "get_quote_row s qid = Inr q" "QS_CUSTOMER_APPROVED \<in> set (QUOTE_TRANSITIONS (q_status q))"
      "f = (\<lambda>r. r\<lparr>q_status := QS_CUSTOMER_APPROVED, approved_at := Some now, locked_at := Some now,
        q_idempotency_key := Some key, approved_by := Some cid\<rparr>)"
      "quotes t = quotes (set_quote s (q_id q) f)" "quote_items t = quote_items s" "next_uuid s \<le> next_uuid t"
      "get_quote_row t qid = Inr q'" "v = customer_dict t q'" "q_customer_id q = cid" "q_is_current q"
proof -
  let ?f = "\<lambda>r. r\<lparr>q_status := QS_CUSTOMER_APPROVED, approved_at := Some now, locked_at := Some now,
        q_idempotency_key := Some key, approved_by := Some cid\<rparr>"
  from assms obtain q where q: "get_quote_row s qid = Inr q" "q_customer_id q = cid" "q_is_current q"
    by (auto simp: customer_approve_def bind_res_Inr split: if_splits)
  note qid = get_quote_row_Inr [OF q(1)]
  show thesis
  proof (cases "q_status q = QS_CUSTOMER_APPROVED")
    case True
    with assms q show thesis by (intro replay [of q]) (auto simp: customer_approve_def split: if_splits)
  next
    case False
    with assms q obtain s2 q' where tr: "QS_CUSTOMER_APPROVED \<in> set (QUOTE_TRANSITIONS (q_status q))"
      and y: "sync_job_status (set_quote s (q_id q) ?f) (q_job_id q) JS_QUOTE_REQUIRED = Inr s2"
      and t: "t = (case create_charge_for_quote (log_quote_event s2 q QEV_CUSTOMER_APPROVED ''customer'' (Some (q_status q))
                         (Some QS_CUSTOMER_APPROVED) None) ''home_services'' (q_id q) (q_version_number q)
                         True (q_job_id q) (Some (q_tenant_id q)) (Some cid)
                         (quote_service_amount q) ''quote_customer_approved'' of
                    Inl _ \<Rightarrow> log_quote_event s2 q QEV_CUSTOMER_APPROVED ''customer'' (Some (q_status q))
                         (Some QS_CUSTOMER_APPROVED) None | Inr (s', _) \<Rightarrow> s')"
      and v: "get_quote_row t (q_id q) = Inr q'" "v = customer_dict t q'"
      by (auto simp: customer_approve_def bind_res_Inr assert_quote_transition_Inr Let_def)
    have "quotes t = quotes s2 \<and> quote_items t = quote_items s2 \<and> next_uuid s2 \<le> next_uuid t"
      unfolding t by (auto split: sum.split dest!: create_charge_for_quote_keeps)
    with sync_job_status_keeps [OF y] tr q qid v show thesis by (intro approved [of q ?f q']) auto
  qed
qed

lemma customer_approve_effect:
  assumes "customer_approve s now qid cid key = Inr (t, v)"
  shows "quote_effect s t"
  using assms
proof (cases rule: customer_approve_cases)
  case (approved q f q')
  show ?thesis
    by (rule moved_effect [OF approved(1,2), where f = f]) (use approved in \<open>simp_all add: keeps_identity_def\<close>)
qed (simp add: quote_effect.quiet)

lemma create_quote_effect:
  assumes "create_quote gate s now jid tid ty notes = Inr (t, q)"
  shows "quote_effect s t \<and> q \<in> set (quotes t) \<and> q_is_current q \<and> q_status q = QS_DRAFT"
proof -
  from assms obtain job where job: "get_job_row s jid = Inr job" and gate: "gate job = Inr ()"
    by (auto simp: create_quote_def bind_res_Inr split: if_splits)
  let ?ps = "filter (\<lambda>r. q_job_id r = j_id job \<and> q_is_current r) (quotes s)"
  from assms job gate obtain prior where prior: "one_or_none ?ps = Inr prior"
    by (auto simp: create_quote_def bind_res_Inr split: if_splits)
  have ok: "\<not> given prior (\<lambda>q. q_status q = QS_CUSTOMER_APPROVED)" "\<not> given prior (\<lambda>q. q_status q = QS_SENT_TO_CUSTOMER)"
    using assms job gate prior by (auto simp: create_quote_def split: if_splits)
  let ?s1 = "case prior of None \<Rightarrow> s
     | Some p \<Rightarrow> set_quote s (q_id p) (\<lambda>r. r\<lparr>q_is_current := False, superseded_at := Some now\<rparr>)"
  have s1: "quote_items ?s1 = quote_items s" "next_uuid ?s1 = next_uuid s" by (simp_all split: option.split)
  have q: "q_job_id q = j_id job" "q_status q = QS_DRAFT" "q_totals q = zero_totals" "q_is_current q"
      "q_id q = next_uuid ?s1"
    and t: "quotes t = quotes ?s1 @ [q]" "quote_items t = quote_items ?s1" "next_uuid t = Suc (next_uuid ?s1)"
    using assms job gate prior ok by (auto simp: create_quote_def bind_res_Inr Let_def split: if_splits)
  have ps: "?ps = (case prior of None \<Rightarrow> [] | Some p \<Rightarrow> [p])"
    using prior by (cases prior) (auto simp: one_or_none_Some one_or_none_None)
  have "quotes ?s1 = update_where (\<lambda>r. q_id r \<in> q_id ` set ?ps) (\<lambda>r. r\<lparr>q_is_current := False, superseded_at := Some now\<rparr>) (quotes s)"
    unfolding ps by (cases prior) (simp_all add: update_where_def)
  moreover have "length ?ps \<le> 1" unfolding ps by (cases prior) simp_all
  moreover have "\<forall>p \<in> set ?ps. q_status p \<notin> {QS_CUSTOMER_APPROVED, QS_SENT_TO_CUSTOMER}"
    unfolding ps using ok by (cases prior) simp_all
  ultimately have "quote_effect s t"
    using q t s1 by (intro quote_effect.created [where q = q and ps = ?ps and now = now]) auto
  with q t show ?thesis by simp
qed

lemma editable_quote_Inr:
  assumes "editable_quote s qid tid = Inr q"
  shows "quote_by_id s qid = Some q \<and> q_id q = qid \<and> q_status q \<in> set ITEM_EDITABLE_QUOTE_STATUSES \<and> locked_at q = None"
proof -
  from assms have "get_quote_row s qid = Inr q" "q_status q \<in> set ITEM_EDITABLE_QUOTE_STATUSES" "locked_at q = None"
    by (auto simp: editable_quote_def bind_res_Inr assert_not_locked_def split: if_splits)
  with get_quote_row_Inr show ?thesis by blast
qed

lemma recalculate_with_platform_charge_Inr:
  "recalculate_with_platform_charge s q items = Inr ts \<Longrightarrow> \<exists>pay. ts = (recalculate items)\<lparr>customer_payable_amount := pay\<rparr>"
  by (auto simp: recalculate_with_platform_charge_def bind_res_Inr Let_def)

lemma store_totals_effect:
  fixes s s1 t :: "'a quote_db_scheme"
  assumes "editable_quote s qid tid = Inr q" and "store_totals s1 q ev = Inr t"
    and "quotes s1 = quotes s" and "next_uuid s \<le> next_uuid s1"
    and "\<And>q'. q' \<noteq> qid \<Longrightarrow> filter (\<lambda>i. qi_quote_id i = q') (quote_items s1) = filter (\<lambda>i. qi_quote_id i = q') (quote_items s)"
    and "set (map qi_quote_id (quote_items s1)) \<subseteq> insert qid (qi_quote_id ` set (quote_items s))"
  shows "quote_effect s t"
proof -
  note q = editable_quote_Inr [OF assms(1)]
  from assms(2) q recalculate_with_platform_charge_Inr obtain pay where
    t: "t = log_quote_event (set_quote s1 qid (\<lambda>r. r\<lparr>q_totals := (recalculate (items_of s1 qid))\<lparr>customer_payable_amount := pay\<rparr>\<rparr>))
        q ev ''staff'' None None None"
    unfolding store_totals_def bind_res_Inr by fastforce
  show ?thesis
    by (rule quote_effect.edited [of s qid q "quote_items s1" t pay])
       (use q assms(3-6) in \<open>simp_all add: t items_of_def\<close>)
qed

lemma add_item_effect:
  assumes "add_item s qid tid ty name descr qty up req vis = Inr (t, i)"
  shows "quote_effect s t \<and> i \<in> set (quote_items t) \<and> qi_quote_id i = qid \<and> qi_line_total i = qty * up"
proof -
  from assms obtain q where q: "editable_quote s qid tid = Inr q" by (auto simp: add_item_def bind_res_Inr)
  note qi = editable_quote_Inr [OF q]
  let ?item = "\<lparr>qi_id = next_uuid s, qi_quote_id = q_id q, qi_item_type = ty, qi_item_name = name,
     qi_item_description = descr, qi_quantity = qty, qi_unit_price = up, qi_line_total = qty * up,
     qi_is_required = req, qi_is_customer_visible = vis\<rparr>"
  let ?s1 = "s\<lparr>quote_items := quote_items s @ [?item], next_uuid := Suc (next_uuid s)\<rparr>"
  from assms q have st: "store_totals ?s1 q QEV_ITEM_ADDED = Inr t" and i: "i = ?item"
    by (auto simp: add_item_def bind_res_Inr Let_def split: if_splits)
  have eff: "quote_effect s t" by (rule store_totals_effect [OF q st]) (use qi in auto)
  have "quote_items t = quote_items ?s1"
    using st by (auto simp: store_totals_def bind_res_Inr)
  with eff i qi show ?thesis by simp
qed

lemma update_item_effect:
  assumes "update_item s qid iid tid name descr qty up vis = Inr (t, i)"
  shows "quote_effect s t"
proof -
  from assms obtain q where q: "editable_quote s qid tid = Inr q" by (auto simp: update_item_def bind_res_Inr)
  note qi = editable_quote_Inr [OF q]
  from assms q obtain item where m: "filter (\<lambda>i. qi_id i = iid \<and> qi_quote_id i = q_id q) (quote_items s) = [item]"
    and i': "qi_quote_id i = qi_quote_id item"
    and st: "store_totals (s\<lparr>quote_items := update_where (\<lambda>i. qi_id i = iid \<and> qi_quote_id i = q_id q) (\<lambda>_. i) (quote_items s)\<rparr>)
        q QEV_ITEM_UPDATED = Inr t"
    by (auto simp: update_item_def bind_res_Inr require_Inr one_or_none_Some Let_def split: if_splits)
  from filter_eq_single_mem [OF m] i' qi have i'q: "qi_quote_id i = qid" by simp
  show ?thesis
    by (rule store_totals_effect [OF q st])
       (use qi i'q in \<open>auto simp: set_update_where intro!: filter_update_where_other\<close>)
qed

lemma remove_item_effect:
  assumes "remove_item s qid iid tid = Inr t"
  shows "quote_effect s t"
proof -
  from assms obtain q where q: "editable_quote s qid tid = Inr q" by (auto simp: remove_item_def bind_res_Inr)
  note qi = editable_quote_Inr [OF q]
  from assms q have st: "store_totals (s\<lparr>quote_items := filter (\<lambda>i. \<not> (qi_id i = iid \<and> qi_quote_id i = q_id q)) (quote_items s)\<rparr>)
      q QEV_ITEM_REMOVED = Inr t"
    by (auto simp: remove_item_def bind_res_Inr)
  show ?thesis
    by (rule store_totals_effect [OF q st]) (use qi in \<open>auto intro!: filter_cong\<close>)
qed

subsection \<open>The state machine\<close>

inductive quote_step :: "'a quote_db_scheme \<Rightarrow> 'a quote_db_scheme \<Rightarrow> bool" where
  create: "create_quote gate s now jid tid ty notes = Inr (t, q) \<Longrightarrow> quote_step s t"
| add: "add_item s qid tid ty name descr qty up req vis = Inr (t, i) \<Longrightarrow> quote_step s t"
| upd: "update_item s qid iid tid name descr' qty' up' vis' = Inr (t, i) \<Longrightarrow> quote_step s t"
| rem: "remove_item s qid iid tid = Inr t \<Longrightarrow> quote_step s t"
| send: "send_to_customer s now qid tid notes = Inr (t, q) \<Longrightarrow> quote_step s t"
| approve: "customer_approve s now qid cid key = Inr (t, v) \<Longrightarrow> quote_step s t"
| reject: "customer_reject s now qid cid reason = Inr (t, v) \<Longrightarrow> quote_step s t"
| revise: "customer_request_revision s qid cid reason = Inr (t, v) \<Longrightarrow> quote_step s t"
| cancel: "cancel_quote s qid tid notes = Inr (t, q) \<Longrightarrow> quote_step s t"
| revised: "mark_revised s qid tid = Inr (t, q) \<Longrightarrow> quote_step s t"
| elsewhere: "quotes t = quotes s \<Longrightarrow> quote_items t = quote_items s \<Longrightarrow> next_uuid s \<le> next_uuid t \<Longrightarrow> quote_step s t"

lemma quote_step_effect: "quote_step s t \<Longrightarrow> quote_effect s t"
  by (induction rule: quote_step.induct)
     (blast dest: create_quote_effect add_item_effect update_item_effect remove_item_effect send_to_customer_effect
        customer_approve_effect customer_reject_effect customer_request_revision_effect cancel_quote_effect
        mark_revised_effect intro: quote_effect.quiet)+

lemma quote_by_id_Some: "quote_by_id s x = Some q \<Longrightarrow> q \<in> set (quotes s) \<and> q_id q = x"
  by (auto simp: quote_by_id_def find_first_row dest!: first_row_Some_set)

lemma quote_by_id_update:
  assumes "keeps_identity f" and "quotes t = update_where (\<lambda>r. q_id r = qid) f (quotes s)"
  shows "quote_by_id t x = (if x = qid then map_option f (quote_by_id s x) else quote_by_id s x)"
proof -
  have "quote_by_id t x = map_option (\<lambda>r. if q_id r = qid then f r else r) (quote_by_id s x)"
    using assms(1) by (simp add: quote_by_id_def find_first_row assms(2) first_row_update_where keeps_identity_def)
  then show ?thesis by (cases "quote_by_id s x") (auto dest: quote_by_id_Some)
qed

lemma keeps_identity_totals: "keeps_identity (\<lambda>r. r\<lparr>q_totals := x\<rparr>)"
  by (simp add: keeps_identity_def)

text \<open>What a step does to one quote that exists before it.\<close>

lemma quote_effect_row:
  assumes "quote_wf s" and "quote_effect s t" and "quote_by_id s x = Some a"
  obtains b where "quote_by_id t x = Some b" "q_status b = q_status a \<or> q_status b \<in> set (QUOTE_TRANSITIONS (q_status a))"
    "q_version_number b = q_version_number a" "q_job_id b = q_job_id a"
    "q_status a \<notin> set ITEM_EDITABLE_QUOTE_STATUSES \<Longrightarrow> q_totals b = q_totals a"
    "q_status a \<notin> set ITEM_EDITABLE_QUOTE_STATUSES \<Longrightarrow> items_of t x = items_of s x"
    "q_status a = QS_CUSTOMER_APPROVED \<Longrightarrow> q_is_current a \<Longrightarrow> q_is_current b"
  using assms(2)
proof cases
  case (created q ps now)
  let ?f = "\<lambda>r. r\<lparr>q_is_current := False, superseded_at := Some now\<rparr>"
  have ax: "a \<in> set (quotes s)" "q_id a = x"
    using quote_by_id_Some [OF assms(3)] by simp_all
  have "quote_by_id t x = map_option (\<lambda>r. if q_id r \<in> q_id ` set ps then ?f r else r) (quote_by_id s x)"
    using created(3) assms(3) unfolding quote_by_id_def find_first_row created(4)
    by (simp add: first_row_append first_row_update_where)
  then have b: "quote_by_id t x = Some (if x \<in> q_id ` set ps then ?f a else a)" using assms(3) ax by simp
  have "x \<notin> q_id ` set ps" if "q_status a = QS_CUSTOMER_APPROVED"
  proof
    assume "x \<in> q_id ` set ps"
    then obtain p where p: "p \<in> set ps" "q_id p = x" by auto
    with created(1) have "p \<in> set (quotes s)" by auto
    with p(2) ax assms(1) have "p = a" by (auto simp: quote_wf_def dest: inj_onD simp: distinct_map)
    with created(3) p that show False by auto
  qed
  with b created show thesis by (intro that [OF b]) (auto simp: items_of_def)
next
  case (moved qid q to f)
  note u = quote_by_id_update [OF moved(3,5), of x]
  show thesis
  proof (cases "x = qid")
    case True
    with moved assms(3) u show thesis by (intro that [of "f a"]) (auto simp: keeps_identity_def items_of_def)
  next
    case False
    with assms(3) u moved(6) show thesis by (intro that [of a]) (auto simp: items_of_def)
  qed
next
  case (edited qid q items pay)
  note u = quote_by_id_update [OF keeps_identity_totals edited(7), of x]
  show thesis
  proof (cases "x = qid")
    case True
    with edited(1,2) assms(3) have "q_status a \<in> set ITEM_EDITABLE_QUOTE_STATUSES" by simp
    with True assms(3) u show thesis
      by (intro that [of "a\<lparr>q_totals := (recalculate (filter (\<lambda>i. qi_quote_id i = qid) items))\<lparr>customer_payable_amount := pay\<rparr>\<rparr>"]) simp_all
  next
    case False
    with assms(3) u edited(4,6) show thesis by (intro that [of a]) (auto simp: items_of_def)
  qed
next
  case quiet
  with assms(3) show thesis by (intro that [of a]) (auto simp: quote_by_id_def items_of_def)
qed

lemma quote_wf_update:
  assumes "quote_wf s" and "keeps_identity f" and "quotes t = update_where (\<lambda>r. q_id r = qid) f (quotes s)"
  shows "distinct (map q_id (quotes t)) \<and> (\<forall>q \<in> set (quotes t). q_id q < next_uuid s) \<and>
    (\<forall>jid. length (filter (\<lambda>q. q_job_id q = jid \<and> q_is_current q) (quotes t)) \<le> 1)"
proof -
  have "map q_id (quotes t) = map q_id (quotes s)"
    unfolding assms(3) using assms(2) by (intro map_update_where_key) (simp add: keeps_identity_def)
  moreover have "filter (\<lambda>q. q_job_id q = jid \<and> q_is_current q) (quotes t) =
      update_where (\<lambda>r. q_id r = qid) f (filter (\<lambda>q. q_job_id q = jid \<and> q_is_current q) (quotes s))" for jid
    unfolding assms(3) using assms(2) by (intro filter_update_where_same) (simp add: keeps_identity_def)
  moreover have "\<forall>q \<in> set (quotes t). q_id q < next_uuid s"
    using assms by (auto simp: set_update_where keeps_identity_def quote_wf_def)
  ultimately show ?thesis using assms(1) by (simp add: quote_wf_def)
qed

lemma quote_effect_wf:
  assumes "quote_wf s" and "quote_effect s t"
  shows "quote_wf t"
  using assms(2)
proof cases
  case (created q ps now)
  let ?p = "\<lambda>r. q_id r \<in> q_id ` set ps"
  let ?f = "\<lambda>r. r\<lparr>q_is_current := False, superseded_at := Some now\<rparr>"
  have ids: "map q_id (update_where ?p ?f (quotes s)) = map q_id (quotes s)" by (rule map_update_where_key) simp
  have fresh: "next_uuid s \<notin> q_id ` set (quotes s)" using assms(1) by (auto simp: quote_wf_def)
  have old: "filter (\<lambda>r. q_job_id r = jid \<and> q_is_current r) (update_where ?p ?f xs) =
     filter (\<lambda>r. q_job_id r = jid \<and> q_is_current r \<and> \<not> ?p r) xs" for jid xs
    by (induction xs) auto
  have "length (filter (\<lambda>r. q_job_id r = jid \<and> q_is_current r) (quotes t)) \<le> 1" for jid
  proof (cases "jid = q_job_id q")
    case True
    have "filter (\<lambda>r. q_job_id r = q_job_id q \<and> q_is_current r \<and> \<not> ?p r) (quotes s) = []"
      using created(1) by (auto simp: filter_empty_conv)
    then show ?thesis unfolding created(4) filter_append old True by simp
  next
    case False
    have "length (filter (\<lambda>r. q_job_id r = jid \<and> q_is_current r \<and> \<not> ?p r) (quotes s))
      \<le> length (filter (\<lambda>r. q_job_id r = jid \<and> q_is_current r) (quotes s))"
      by (rule length_filter_mono) simp
    with False assms(1) show ?thesis unfolding created(4) filter_append old quote_wf_def by (auto intro: le_trans)
  qed
  moreover have "distinct (map q_id (quotes t))"
    using assms(1) fresh created(8) by (simp add: created(4) ids quote_wf_def)
  moreover have "\<forall>r \<in> set (quotes t). q_id r < next_uuid t"
    using assms(1) created(8,10) by (auto simp: created(4) set_update_where quote_wf_def less_SucI)
  ultimately show ?thesis using assms(1) created(9,10) by (auto simp: quote_wf_def less_SucI)
next
  case (moved qid q to f)
  with assms(1) quote_wf_update [OF assms(1) moved(3,5)] show ?thesis by (auto simp: quote_wf_def intro: less_le_trans)
next
  case (edited qid q items pay)
  have "qid < next_uuid s" using quote_by_id_Some [OF edited(1)] assms(1) by (auto simp: quote_wf_def)
  then have "\<forall>i \<in> set items. qi_quote_id i < next_uuid s"
    using edited(5) assms(1) by (fastforce simp: quote_wf_def)
  with quote_wf_update [OF assms(1) keeps_identity_totals edited(7)] edited(6,8) show ?thesis
    by (auto simp: quote_wf_def intro: less_le_trans)
next
  case quiet
  with assms(1) show ?thesis by (auto simp: quote_wf_def intro: less_le_trans)
qed

text \<open>The contract of a guarded record, for quotes.\<close>

definition status_of_quote :: "'a quote_db_scheme \<Rightarrow> uuid \<Rightarrow> quote_status option" where
  "status_of_quote s qid = map_option q_status (quote_by_id s qid)"

interpretation quote_graph: guarded_records QUOTE_TRANSITIONS "\<lambda>st. st \<in> set QUOTE_FINAL_STATUSES" quote_wf
  status_of_quote quote_step
proof
  fix s t :: "'a quote_db_scheme" and i st
  show "QUOTE_TRANSITIONS st = []" if "st \<in> set QUOTE_FINAL_STATUSES"
    using that by (auto simp: QUOTE_FINAL_STATUSES_def)
  show "quote_wf t" if "quote_wf s" "quote_step s t"
    using that quote_step_effect quote_effect_wf by blast
  show "\<exists>b. status_of_quote t i = Some b \<and> (b = st \<or> b \<in> set (QUOTE_TRANSITIONS st))"
    if wf: "quote_wf s" and step: "quote_step s t" and st: "status_of_quote s i = Some st"
  proof -
    from st obtain a where a: "quote_by_id s i = Some a" "q_status a = st" by (auto simp: status_of_quote_def)
    from quote_effect_row [OF wf quote_step_effect [OF step] a(1)] a(2) show ?thesis
      by (metis option.simps(9) status_of_quote_def)
  qed
qed

subsection \<open>Totals\<close>

definition line_sign :: "string \<Rightarrow> decimal" where
  "line_sign ty = (if ty \<in> {''labour'', ''part'', ''material'', ''service'', ''tax''} then 1
                   else if ty = ''discount'' then -1 else 0)"

definition net_total :: "quote_item list \<Rightarrow> decimal" where
  "net_total items = sum_list (map (\<lambda>i. line_sign (qi_item_type i) * qi_line_total i) items)"

definition net_of :: "totals \<Rightarrow> decimal" where
  "net_of a = labour_amount a + parts_amount a + service_amount a - discount_amount a + tax_amount a"

lemma net_of_add_line: "net_of (add_line a i) = net_of a + line_sign (qi_item_type i) * qi_line_total i"
  by (auto simp: net_of_def add_line_def line_sign_def Let_def)

lemma net_of_foldl: "net_of (foldl add_line a items) = net_of a + net_total items"
  by (induction items arbitrary: a) (simp_all add: net_of_add_line net_total_def)

lemma total_recalculate: "total_amount (recalculate items) = net_total items"
proof -
  have "total_amount (recalculate items) = net_of (foldl add_line zero_totals items)"
    by (simp add: recalculate_def net_of_def Let_def)
  then show ?thesis by (simp add: net_of_foldl) (simp add: net_of_def zero_totals_def)
qed

lemma recalculate_Nil: "recalculate [] = zero_totals"
  by (simp add: recalculate_def zero_totals_def Let_def)

lemma net_total_split: "net_total items = net_total (filter p items) + net_total (filter (\<lambda>i. \<not> p i) items)"
  by (induction items) (auto simp: net_total_def)

text \<open>The stored amounts of every quote are the recalculation of its items (the payable apart).\<close>

definition totals_match :: "totals \<Rightarrow> totals \<Rightarrow> bool" where
  "totals_match a b \<longleftrightarrow> a\<lparr>customer_payable_amount := 0\<rparr> = b\<lparr>customer_payable_amount := 0\<rparr>"

definition totals_ok :: "'a quote_db_scheme \<Rightarrow> bool" where
  "totals_ok s \<longleftrightarrow> (\<forall>q \<in> set (quotes s). totals_match (q_totals q) (recalculate (items_of s (q_id q))))"

lemma totals_match_refl [simp]: "totals_match a a" "totals_match (a\<lparr>customer_payable_amount := p\<rparr>) a"
  by (simp_all add: totals_match_def)

lemma totals_match_total: "totals_match a b \<Longrightarrow> total_amount a = total_amount b"
  unfolding totals_match_def by (metis totals.select_convs(6) totals.surjective totals.update_convs(7))

lemma quote_effect_totals:
  assumes "quote_wf s" and "totals_ok s" and "quote_effect s t"
  shows "totals_ok t"
  using assms(3)
proof cases
  case (created q ps now)
  have "filter (\<lambda>i. qi_quote_id i = next_uuid s) (quote_items s) = []"
    using assms(1) by (auto simp: quote_wf_def filter_empty_conv)
  then show ?thesis using assms(2) created
    by (auto simp: totals_ok_def items_of_def set_update_where recalculate_Nil)
next
  case (moved qid q to f)
  then show ?thesis using assms(2) by (auto simp: totals_ok_def items_of_def set_update_where keeps_identity_def)
next
  case (edited qid q items pay)
  have "totals_match (q_totals r) (recalculate (filter (\<lambda>i. qi_quote_id i = q_id r) items))"
    if "r \<in> set (quotes s)" "q_id r \<noteq> qid" for r
    using assms(2) that edited(4) by (simp add: totals_ok_def items_of_def)
  then show ?thesis using edited(6,7) by (auto simp: totals_ok_def items_of_def set_update_where)
qed (use assms(2) in \<open>simp add: totals_ok_def items_of_def\<close>)

lemma quote_run_totals: "quote_step\<^sup>*\<^sup>* s t \<Longrightarrow> quote_wf s \<Longrightarrow> totals_ok s \<Longrightarrow> quote_wf t \<and> totals_ok t"
  by (induction rule: rtranclp_induct)
     (auto dest!: quote_step_effect intro: quote_effect_totals quote_effect_wf)

lemma approved_run:
  assumes "quote_step\<^sup>*\<^sup>* s t" and "quote_wf s" and "quote_by_id s x = Some a"
    and "q_status a = QS_CUSTOMER_APPROVED" and "q_is_current a"
  shows "\<exists>b. quote_by_id t x = Some b \<and> q_status b = QS_CUSTOMER_APPROVED \<and> q_is_current b \<and>
    q_totals b = q_totals a \<and> items_of t x = items_of s x"
  using assms(1)
proof (induction rule: rtranclp_induct)
  case base
  with assms show ?case by blast
next
  case (step t u)
  then obtain b where b: "quote_by_id t x = Some b" "q_status b = QS_CUSTOMER_APPROVED" "q_is_current b"
    "q_totals b = q_totals a" "items_of t x = items_of s x" by blast
  from quote_graph.run_guard_inv [OF step.hyps(1) assms(2)] have "quote_wf t" .
  from quote_effect_row [OF this quote_step_effect [OF step.hyps(2)] b(1)] b show ?case
    by (auto simp: ITEM_EDITABLE_QUOTE_STATUSES_def)
qed

subsection \<open>The work-start gate on quotes (execution/home_service_service.py)\<close>

definition assert_quote_approval_satisfied :: "'a quote_db_scheme \<Rightarrow> service_job \<Rightarrow> unit res" where
  "assert_quote_approval_satisfied s job =
     (case resolve_job_type_workflow s job of
        None \<Rightarrow> Inl (ServiceOSException ''JOB_TYPE_CONTEXT_UNRESOLVED'')
      | Some w \<Rightarrow>
        if \<not> (workflow_requires_quote w \<or> snapshot_requires_quote s job) then Inr ()
        else case first_row (filter (\<lambda>q. q_job_id q = j_id job \<and> q_is_current q) (quotes s)) of
          None \<Rightarrow> Inl (ServiceOSException ''ESTIMATE_REQUIRED'')
        | Some q \<Rightarrow>
          if q_status q = QS_CUSTOMER_APPROVED then Inr ()
          else if q_status q = QS_CUSTOMER_REJECTED then Inl (ServiceOSException ''ESTIMATE_REJECTED'')
          else if q_status q = QS_REVISION_REQUESTED then Inl (ServiceOSException ''ESTIMATE_REVISION_REQUIRED'')
          else if q_status q = QS_SENT_TO_CUSTOMER then Inl (ServiceOSException ''ESTIMATE_APPROVAL_REQUIRED'')
          else Inl (ServiceOSException ''ESTIMATE_REQUIRED''))"

subsection \<open>A concrete database\<close>

definition demo_quote :: quote where
  "demo_quote = \<lparr>q_id = 50, q_booking_id = 2, q_job_id = 1, q_tenant_id = 4, q_customer_id = 3,
     q_status = QS_SENT_TO_CUSTOMER, q_quote_type = ''repair_quote'',
     q_totals = zero_totals\<lparr>labour_amount := 400, total_amount := 400, customer_payable_amount := 420\<rparr>,
     provider_internal_notes = Some ''margin 40'', customer_visible_notes = None, rejection_reason = None,
     revision_reason = None, q_idempotency_key = None, approved_at = None, rejected_at = None,
     sent_to_customer_at = Some 1, locked_at = None, q_version_number = 1, q_is_current = True,
     supersedes_quote_id = None, superseded_at = None, approved_by = None\<rparr>"

definition demo_line :: "uuid \<Rightarrow> decimal \<Rightarrow> bool \<Rightarrow> quote_item" where
  "demo_line iid price visible = \<lparr>qi_id = iid, qi_quote_id = 50, qi_item_type = ''labour'', qi_item_name = ''work'',
     qi_item_description = None, qi_quantity = 1, qi_unit_price = price, qi_line_total = price,
     qi_is_required = True, qi_is_customer_visible = visible\<rparr>"

definition demo_quotes :: quote_db where
  "demo_quotes = (credit_db.extend empty_credits
     (quote_db.fields [demo_quote] [demo_line 51 300 True, demo_line 52 100 False] []))
     \<lparr>next_uuid := 100, service_jobs := [demo_job\<lparr>j_status := JS_QUOTE_REQUIRED\<rparr>]\<rparr>"

lemma demo_quotes_simps [simp]:
  "quotes demo_quotes = [demo_quote]" "quote_items demo_quotes = [demo_line 51 300 True, demo_line 52 100 False]"
  "next_uuid demo_quotes = 100" "service_jobs demo_quotes = [demo_job\<lparr>j_status := JS_QUOTE_REQUIRED\<rparr>]"
  "verticals demo_quotes = verticals demo_monet" "policies demo_quotes = policies demo_monet"
  "job_type_rules demo_quotes = []" "fee_charges demo_quotes = []" "quote_events demo_quotes = []"
  by (simp_all add: demo_quotes_def credit_db.defs quote_db.defs empty_credits_def monet_db.defs)

lemma demo_quotes_wf [simp]: "quote_wf demo_quotes" and demo_quotes_totals [simp]: "totals_ok demo_quotes"
  by (simp_all add: quote_wf_def demo_quote_def demo_line_def totals_ok_def items_of_def recalculate_def add_line_def
      totals_match_def zero_totals_def Let_def)

lemma demo_quote_row [simp]: "get_quote_row demo_quotes 50 = Inr demo_quote"
  by (simp add: get_quote_row_def demo_quote_def)

lemma demo_approve:
  "\<exists>t v. customer_approve demo_quotes 9 50 3 ''k'' = Inr (t, v) \<and> quotes t =
     [demo_quote\<lparr>q_status := QS_CUSTOMER_APPROVED, approved_at := Some 9, locked_at := Some 9,
        q_idempotency_key := Some ''k'', approved_by := Some 3\<rparr>]"
  by (simp add: customer_approve_def get_quote_row_def demo_quote_def assert_quote_transition_def sync_job_status_def
      job_by_id_def demo_job_def create_charge_for_quote_def get_vertical_id_def existing_charge_def log_quote_event_def
      get_current_policy_def demo_policy_def add_charge_def Let_def)

subsection \<open>Properties\<close>

text \<open>
  C29: an approved quote is frozen. Once the customer approved the current quote of a job, then
  whatever sequence of quote operations follows (new drafts, edits, sends, decisions, cancellations,
  for this or other quotes), the quote stays approved and current, and neither its amounts nor its
  items change.
\<close>

theorem approved_quote_frozen:
  assumes "quote_wf s" and "customer_approve s now qid cid key = Inr (t, v)" and "quote_step\<^sup>*\<^sup>* t u"
  shows "\<exists>a b. quote_by_id t qid = Some a \<and> quote_by_id u qid = Some b \<and>
    q_status b = QS_CUSTOMER_APPROVED \<and> q_is_current b \<and> q_totals b = q_totals a \<and> items_of u qid = items_of t qid"
proof -
  have wf: "quote_wf t" using quote_effect_wf [OF assms(1) customer_approve_effect [OF assms(2)]] .
  have "\<exists>a. quote_by_id t qid = Some a \<and> q_status a = QS_CUSTOMER_APPROVED \<and> q_is_current a"
    using assms(2)
  proof (cases rule: customer_approve_cases)
    case (replay q)
    with assms(2) get_quote_row_Inr [OF replay(1)] show ?thesis
      by (auto simp: customer_approve_def split: if_splits)
  next
    case (approved q f q')
    note q = get_quote_row_Inr [OF approved(1)]
    have "quote_by_id t qid = Some (f q)"
      using quote_by_id_update [of f t qid s qid] approved(3,4) q by (simp add: keeps_identity_def)
    with approved show ?thesis by simp
  qed
  then show ?thesis using approved_run [OF assms(3) wf] by blast
qed

theorem approved_quote_frozen_witness:
  "\<exists>t v b. customer_approve demo_quotes 9 50 3 ''k'' = Inr (t, v) \<and> quote_by_id t 50 = Some b \<and>
     q_status b = QS_CUSTOMER_APPROVED \<and> total_amount (q_totals b) = 400"
proof -
  from demo_approve obtain t v where a: "customer_approve demo_quotes 9 50 3 ''k'' = Inr (t, v)"
    and q: "quotes t = [demo_quote\<lparr>q_status := QS_CUSTOMER_APPROVED, approved_at := Some 9, locked_at := Some 9,
        q_idempotency_key := Some ''k'', approved_by := Some 3\<rparr>]" by blast
  from approved_quote_frozen [OF demo_quotes_wf a rtranclp.rtrancl_refl] obtain b
    where "quote_by_id t 50 = Some b" "q_status b = QS_CUSTOMER_APPROVED" by blast
  moreover have "quote_by_id t 50 = Some b \<Longrightarrow> total_amount (q_totals b) = 400"
    by (auto simp: quote_by_id_def q demo_quote_def zero_totals_def)
  ultimately show ?thesis using a by blast
qed

text \<open>
  At most one current quote per job, and every quote moves along the graph. Through any sequence
  of operations from a well-formed database, no job ever has two current quotes, the status of each
  quote only moves along \<^verbatim>\<open>QUOTE_TRANSITIONS\<close>, and a final status never changes.
\<close>

theorem quote_lifecycle:
  assumes "quote_wf s" and "quote_step\<^sup>*\<^sup>* s t" and "status_of_quote s qid = Some a"
  shows "length (filter (\<lambda>q. q_job_id q = jid \<and> q_is_current q) (quotes t)) \<le> 1 \<and>
    (\<exists>b. status_of_quote t qid = Some b \<and> (\<lambda>x y. y \<in> set (QUOTE_TRANSITIONS x))\<^sup>*\<^sup>* a b \<and>
       (a \<in> set QUOTE_FINAL_STATUSES \<longrightarrow> b = a))"
  using quote_graph.run_along [OF assms(2,1,3)] quote_graph.final_forever [OF assms(2,1,3)]
    quote_graph.run_guard_inv [OF assms(2,1)]
  by (auto simp: quote_wf_def)

theorem quote_lifecycle_witness:
  "\<exists>t. quote_step\<^sup>*\<^sup>* demo_quotes t \<and> status_of_quote demo_quotes 50 = Some QS_SENT_TO_CUSTOMER \<and>
     status_of_quote t 50 = Some QS_CUSTOMER_APPROVED \<and>
     length (filter (\<lambda>q. q_job_id q = 1 \<and> q_is_current q) (quotes t)) \<le> 1"
proof -
  from demo_approve obtain t v where a: "customer_approve demo_quotes 9 50 3 ''k'' = Inr (t, v)"
    and q: "quotes t = [demo_quote\<lparr>q_status := QS_CUSTOMER_APPROVED, approved_at := Some 9, locked_at := Some 9,
        q_idempotency_key := Some ''k'', approved_by := Some 3\<rparr>]" by blast
  have run: "quote_step\<^sup>*\<^sup>* demo_quotes t" using quote_step.approve [OF a] by blast
  have st: "status_of_quote demo_quotes 50 = Some QS_SENT_TO_CUSTOMER"
    by (simp add: status_of_quote_def quote_by_id_def demo_quote_def)
  from quote_lifecycle [OF demo_quotes_wf run st, of 1] run st q show ?thesis
    by (auto simp: status_of_quote_def quote_by_id_def demo_quote_def)
qed



text \<open>
  What the customer approves is not what is stored. The response to an approval shows a total
  computed from the visible lines only, while the stored total, the one a retry of the same approval
  returns, also holds the hidden lines: the two responses differ by exactly the hidden lines.
\<close>

theorem approval_replay_shows_hidden_lines:
  assumes "quote_wf s" and "totals_ok s" and "status_of_quote s qid \<noteq> Some QS_CUSTOMER_APPROVED"
    and "customer_approve s now qid cid key = Inr (t, v)"
    and "customer_approve t now' qid cid key = Inr (u, w)"
  shows "u = t \<and> total_amount (q_totals (qv_quote w)) - total_amount (q_totals (qv_quote v)) =
     net_total (filter (\<lambda>i. \<not> qi_is_customer_visible i) (items_of t qid))"
proof -
  have ok: "totals_ok t" using quote_effect_totals [OF assms(1,2) customer_approve_effect [OF assms(4)]] .
  from assms(4) show ?thesis
  proof (cases rule: customer_approve_cases)
    case (replay q)
    with get_quote_row_Inr [OF replay(1)] assms(3) show ?thesis by (simp add: status_of_quote_def)
  next
    case (approved q f q')
    note q = get_quote_row_Inr [OF approved(1)] and q' = get_quote_row_Inr [OF approved(7)]
    have "quote_by_id t qid = Some (f q)"
      using quote_by_id_update [of f t qid s qid] approved(3,4) q by (simp add: keeps_identity_def)
    with q' have "f q = q'" by simp
    with approved(3) have st: "q_status q' = QS_CUSTOMER_APPROVED" by auto
    from assms(5) show ?thesis
    proof (cases rule: customer_approve_cases)
      case (replay r)
      with approved(7) have r: "r = q'" by simp
      have "total_amount (q_totals q') = net_total (items_of t qid)"
        using ok q' totals_match_total by (fastforce simp: totals_ok_def total_recalculate)
      with replay(3,4) approved(8) q' r show ?thesis
        using net_total_split [of "items_of t qid" qi_is_customer_visible]
        by (simp add: customer_dict_def Let_def total_recalculate)
    next
      case (approved r)
      with \<open>get_quote_row t qid = Inr q'\<close> st show ?thesis by simp
    qed
  qed
qed

theorem approval_replay_shows_hidden_lines_witness:
  "\<exists>t v u w. customer_approve demo_quotes 9 50 3 ''k'' = Inr (t, v) \<and> customer_approve t 10 50 3 ''k'' = Inr (u, w) \<and>
     total_amount (q_totals (qv_quote w)) - total_amount (q_totals (qv_quote v)) = 100"
proof -
  from demo_approve obtain t v where a: "customer_approve demo_quotes 9 50 3 ''k'' = Inr (t, v)"
    and q: "quotes t = [demo_quote\<lparr>q_status := QS_CUSTOMER_APPROVED, approved_at := Some 9, locked_at := Some 9,
        q_idempotency_key := Some ''k'', approved_by := Some 3\<rparr>]" by blast
  from a have i: "quote_items t = quote_items demo_quotes" by (cases rule: customer_approve_cases) auto
  obtain u w where b: "customer_approve t 10 50 3 ''k'' = Inr (u, w)"
    by (simp add: customer_approve_def get_quote_row_def q demo_quote_def)
  have st: "status_of_quote demo_quotes 50 \<noteq> Some QS_CUSTOMER_APPROVED"
    by (simp add: status_of_quote_def quote_by_id_def demo_quote_def)
  from approval_replay_shows_hidden_lines [OF demo_quotes_wf demo_quotes_totals st a b] i a b show ?thesis
    by (auto simp: items_of_def net_total_def line_sign_def demo_line_def)
qed

text \<open>
  Visit charges and other lines are priced and never billed. Adding an item of a valid type
  \<^verbatim>\<open>visit_charge\<close> or \<^verbatim>\<open>other\<close>, at whatever quantity and price, stores its line total on the item and
  leaves the total of the quote what it was.
\<close>

theorem visit_charge_never_billed:
  assumes "quote_wf s" and "totals_ok s" and "ty \<in> {''visit_charge'', ''other''}"
    and "add_item s qid tid ty name descr qty up req vis = Inr (t, i)"
    and "quote_by_id s qid = Some a" and "quote_by_id t qid = Some b"
  shows "ty \<in> set VALID_ITEM_TYPES \<and> qi_line_total i = qty * up \<and> total_amount (q_totals b) = total_amount (q_totals a)"
proof -
  note eff = add_item_effect [OF assms(4)]
  have ok: "totals_ok t" using quote_effect_totals [OF assms(1,2)] eff by blast
  from assms(4) have "quote_items t = quote_items s @ [i]" "qi_item_type i = ty"
    by (auto simp: add_item_def store_totals_def bind_res_Inr Let_def split: if_splits)
  then have "net_total (items_of t qid) = net_total (items_of s qid)"
    using eff assms(3) by (auto simp: items_of_def net_total_def line_sign_def)
  moreover have "total_amount (q_totals a) = net_total (items_of s qid)" "total_amount (q_totals b) = net_total (items_of t qid)"
    using assms(2) ok quote_by_id_Some [OF assms(5)] quote_by_id_Some [OF assms(6)] totals_match_total
    by (fastforce simp: totals_ok_def total_recalculate)+
  ultimately show ?thesis using assms(3) eff by (auto simp: VALID_ITEM_TYPES_def)
qed

theorem visit_charge_never_billed_witness:
  "\<exists>s t i b. add_item s 50 4 ''visit_charge'' ''visit'' None 1 199 True True = Inr (t, i) \<and>
     quote_by_id t 50 = Some b \<and> qi_line_total i = 199 \<and> total_amount (q_totals b) = 400 \<and> s = demo_quotes\<lparr>quotes := [demo_quote\<lparr>q_status := QS_DRAFT\<rparr>]\<rparr>"
proof -
  let ?s = "demo_quotes\<lparr>quotes := [demo_quote\<lparr>q_status := QS_DRAFT\<rparr>]\<rparr>"
  obtain t i where a: "add_item ?s 50 4 ''visit_charge'' ''visit'' None 1 199 True True = Inr (t, i)"
    by (simp add: add_item_def editable_quote_def get_quote_row_def demo_quote_def assert_quote_tenant_def
        assert_not_locked_def ITEM_EDITABLE_QUOTE_STATUSES_def VALID_ITEM_TYPES_def store_totals_def
        recalculate_with_platform_charge_def get_current_policy_by_vertical_key_def demo_policy_def job_by_id_def
        demo_job_def get_active_job_type_rule_def Let_def)
  have wf: "quote_wf ?s" "totals_ok ?s"
    by (simp_all add: quote_wf_def demo_quote_def demo_line_def totals_ok_def items_of_def recalculate_def add_line_def
        totals_match_def zero_totals_def Let_def)
  have qa: "quote_by_id ?s 50 = Some (demo_quote\<lparr>q_status := QS_DRAFT\<rparr>)" by (simp add: quote_by_id_def demo_quote_def)
  from quote_effect_row [OF wf(1) _ qa] add_item_effect [OF a] obtain b where b: "quote_by_id t 50 = Some b" by blast
  from visit_charge_never_billed [OF wf _ a qa b] a b show ?thesis by (auto simp: demo_quote_def zero_totals_def)
qed

text \<open>
  No gated work without an approved estimate. When the job's price is the estimate (its workflow
  or the price contract of its booking asks for approval), the work-start gate passes exactly when
  the job's workflow resolves and the current quote of the job is approved by the customer.
\<close>

theorem gated_work_needs_approved_quote:
  assumes "quote_wf s" and "quote_gates_work s job"
  shows "assert_quote_approval_satisfied s job = Inr () \<longleftrightarrow>
    resolve_job_type_workflow s job \<noteq> None \<and>
    (\<exists>q \<in> set (quotes s). q_job_id q = j_id job \<and> q_is_current q \<and> q_status q = QS_CUSTOMER_APPROVED)"
proof -
  let ?qs = "filter (\<lambda>q. q_job_id q = j_id job \<and> q_is_current q) (quotes s)"
  from assms(1) have "length ?qs \<le> 1" by (simp add: quote_wf_def)
  then consider "?qs = []" | q where "?qs = [q]" by (cases ?qs) (auto simp: Suc_le_eq)
  then show ?thesis
  proof cases
    case 1
    then show ?thesis using assms(2)
      by (auto simp: assert_quote_approval_satisfied_def quote_gates_work_def filter_empty_conv split: option.splits if_splits)
  next
    case (2 q)
    have "(\<exists>x \<in> set (quotes s). q_job_id x = j_id job \<and> q_is_current x \<and> q_status x = QS_CUSTOMER_APPROVED) \<longleftrightarrow>
      (\<exists>x \<in> set ?qs. q_status x = QS_CUSTOMER_APPROVED)" by auto
    then have "(\<exists>x \<in> set (quotes s). q_job_id x = j_id job \<and> q_is_current x \<and> q_status x = QS_CUSTOMER_APPROVED) \<longleftrightarrow>
      q_status q = QS_CUSTOMER_APPROVED" using 2 by simp
    then show ?thesis using 2 assms(2)
      by (auto simp: assert_quote_approval_satisfied_def quote_gates_work_def split: option.splits if_splits)
  qed
qed

theorem gated_work_needs_approved_quote_witness:
  "assert_quote_approval_satisfied (demo_quotes\<lparr>job_workflows := [demo_workflow]\<rparr>) (demo_job\<lparr>j_workflow_id := Some 9\<rparr>) \<noteq> Inr () \<and>
   assert_quote_approval_satisfied (demo_quotes\<lparr>job_workflows := [demo_workflow], quotes := [demo_quote\<lparr>q_status := QS_CUSTOMER_APPROVED\<rparr>]\<rparr>)
     (demo_job\<lparr>j_workflow_id := Some 9\<rparr>) = Inr ()"
proof -
  let ?job = "demo_job\<lparr>j_workflow_id := Some 9\<rparr>"
  let ?s = "demo_quotes\<lparr>job_workflows := [demo_workflow]\<rparr>"
  let ?t = "demo_quotes\<lparr>job_workflows := [demo_workflow], quotes := [demo_quote\<lparr>q_status := QS_CUSTOMER_APPROVED\<rparr>]\<rparr>"
  have wf: "quote_wf ?s" "quote_wf ?t" by (simp_all add: quote_wf_def demo_quote_def demo_line_def)
  have g: "quote_gates_work ?s ?job" "quote_gates_work ?t ?job"
    by (simp_all add: quote_gates_work_def resolve_job_type_workflow_def demo_workflow_def workflow_requires_quote_def)
  from gated_work_needs_approved_quote [OF wf(1) g(1)] gated_work_needs_approved_quote [OF wf(2) g(2)]
  show ?thesis by (simp add: demo_quote_def demo_job_def resolve_job_type_workflow_def demo_workflow_def)
qed

end
