(* ===== verification/Invoices.thy ===== *)
theory Invoices
  imports Quotes
begin

section \<open>Invoices (invoice_payment/invoice_service.py, constants.py, models.py)\<close>

text \<open>
  The invoice of a job: creation from an approved quote or the booked price, approved parts, totals
  with the customer platform fee, issue and cancellation. \<open>billing_db\<close> adds the tables of the whole
  invoice_payment engine (payments and commissions are the subject of the theory Payments). Not kept:
  the random invoice number, the currency, creator ids, the old/new values of financial events; the
  in-app notification of an issued invoice changes none of these tables.
\<close>

subsection \<open>Constants\<close>

datatype invoice_status =
    INV_DRAFT | INV_ISSUED | INV_PAYMENT_PENDING | INV_PAYMENT_COLLECTED | INV_PAID | INV_CANCELLED | INV_FAILED

definition INVOICE_FINAL_STATUSES :: "invoice_status list" where
  "INVOICE_FINAL_STATUSES = [INV_PAYMENT_COLLECTED, INV_PAID, INV_CANCELLED, INV_FAILED]"

fun INVOICE_TRANSITIONS :: "invoice_status \<Rightarrow> invoice_status list" where
  "INVOICE_TRANSITIONS INV_DRAFT = [INV_ISSUED, INV_CANCELLED]"
| "INVOICE_TRANSITIONS INV_ISSUED = [INV_PAYMENT_PENDING, INV_PAYMENT_COLLECTED, INV_PAID, INV_CANCELLED]"
| "INVOICE_TRANSITIONS INV_PAYMENT_PENDING = [INV_PAYMENT_COLLECTED, INV_PAID, INV_FAILED, INV_CANCELLED]"
| "INVOICE_TRANSITIONS INV_PAYMENT_COLLECTED = []"
| "INVOICE_TRANSITIONS INV_PAID = []"
| "INVOICE_TRANSITIONS INV_CANCELLED = []"
| "INVOICE_TRANSITIONS INV_FAILED = [INV_ISSUED]"

definition INV_SRC_APPROVED_QUOTE :: string where "INV_SRC_APPROVED_QUOTE = ''approved_quote''"
definition INV_SRC_MANUAL_FINAL :: string where "INV_SRC_MANUAL_FINAL = ''manual_final''"
definition INV_SRC_BOOKING_BASE :: string where "INV_SRC_BOOKING_BASE = ''booking_base_price''"

definition VALID_INVOICE_SOURCES :: "string list" where
  "VALID_INVOICE_SOURCES = [INV_SRC_APPROVED_QUOTE, INV_SRC_MANUAL_FINAL, INV_SRC_BOOKING_BASE]"

datatype pay_status =
    PAY_STATUS_PENDING | PAY_STATUS_COLLECTED | PAY_STATUS_VERIFIED | PAY_STATUS_FAILED | PAY_STATUS_DISPUTED
  | PAY_STATUS_NOT_REQUIRED | PAYMENT_DISPUTE_RESOLVED | PAYMENT_DISPUTE_WITHDRAWN

datatype com_status =
    COM_PENDING | COM_CALCULATED | COM_DEDUCTED | COM_FAILED | COM_INSUFFICIENT_CREDIT | COM_REVERSED
  | COM_NOT_REQUIRED

datatype fin_event_type =
    FEV_INVOICE_CREATED | FEV_INVOICE_ISSUED | FEV_INVOICE_CANCELLED | FEV_PAYMENT_RECORDED
  | FEV_PAYMENT_VERIFIED | FEV_COMMISSION_CALCULATED | FEV_COMMISSION_DEDUCTED | FEV_COMMISSION_FAILED
  | FEV_WALLET_LOW_BALANCE | FEV_COMMISSION_REVERSED | FEV_PLATFORM_CUSTOMER_FEE

text \<open>Parts a job got approval for (execution/constants.py).\<close>

definition PARTS_BILLABLE_STATUSES :: "string list" where
  "PARTS_BILLABLE_STATUSES = [''business_approved'', ''customer_approved'', ''installed'']"

subsection \<open>Data (invoice_payment/models.py)\<close>

record invoice_totals =
  it_subtotal :: decimal
  it_labour :: decimal
  it_parts :: decimal
  it_service :: decimal
  it_discount :: decimal
  it_tax :: decimal
  it_total :: decimal
  it_platform_fee :: decimal
  it_payable :: decimal

definition zero_invoice_totals :: invoice_totals where
  "zero_invoice_totals = \<lparr>it_subtotal = 0, it_labour = 0, it_parts = 0, it_service = 0, it_discount = 0,
     it_tax = 0, it_total = 0, it_platform_fee = 0, it_payable = 0\<rparr>"

record invoice =
  in_id :: uuid
  in_booking_id :: uuid
  in_job_id :: uuid
  in_quote_id :: "uuid option"
  in_tenant_id :: uuid
  in_customer_id :: uuid
  in_category_id :: uuid
  in_status :: invoice_status
  in_totals :: invoice_totals
  in_payment_status :: pay_status
  in_commission_status :: com_status
  invoice_source :: string
  issued_at :: "time option"
  paid_at :: "time option"
  cancelled_at :: "time option"

record invoice_item =
  ii_id :: uuid
  ii_invoice_id :: uuid
  ii_item_type :: string
  ii_item_name :: string
  ii_item_description :: "string option"
  ii_quantity :: decimal
  ii_unit_price :: decimal
  ii_line_total :: decimal
  source_quote_item_id :: "uuid option"
  source_parts_request_id :: "uuid option"
  ii_is_customer_visible :: bool

record parts_request =
  pr_id :: uuid
  pr_job_id :: uuid
  pr_tenant_id :: uuid
  pr_part_name :: string
  pr_quantity :: int
  pr_estimated_cost :: decimal
  pr_reason :: string
  pr_status :: string
  customer_approval_required :: bool
  procurement_source :: string
  inventory_item_id :: "uuid option"
  stock_location_id :: "uuid option"
  stock_reservation_id :: "uuid option"
  unit_price_snapshot :: "decimal option"

record service_category =
  sc_id :: uuid
  sc_vertical_type :: "string option"
  commission_pct :: "decimal option"

record tenant =
  tn_id :: uuid
  tn_vertical :: string

record financial_event =
  fe_record_type :: string
  fe_record_id :: uuid
  fe_tenant_id :: uuid
  fe_event_type :: fin_event_type
  fe_actor_type :: string
  fe_reason :: "string option"

record payment_record =
  py_id :: uuid
  py_invoice_id :: uuid
  py_job_id :: uuid
  py_tenant_id :: uuid
  py_customer_id :: uuid
  py_payment_mode :: string
  py_payment_status :: pay_status
  py_collected_amount :: decimal
  py_proof_media_url :: "string option"
  py_customer_confirmed :: bool
  py_customer_confirmed_at :: "time option"
  py_provider_confirmed_at :: "time option"
  py_admin_verified_at :: "time option"
  py_expected_amount :: "decimal option"
  py_customer_reported_amount :: "decimal option"
  py_customer_confirmation_action :: "string option"
  py_dispute_complaint_id :: "uuid option"

record commission_record =
  cr_id :: uuid
  cr_invoice_id :: uuid
  cr_tenant_id :: uuid
  cr_status :: com_status
  cr_base_amount :: decimal
  cr_rate :: decimal
  cr_amount :: decimal
  cr_wallet_ledger_entry_id :: "uuid option"
  cr_failure_code :: "string option"
  cr_idempotency_key :: "string option"
  cr_calculated_at :: "time option"
  cr_deducted_at :: "time option"

record billing_db = quote_db +
  invoices :: "invoice list"
  invoice_items :: "invoice_item list"
  parts_requests :: "parts_request list"
  service_categories :: "service_category list"
  tenants :: "tenant list"
  financial_events :: "financial_event list"
  payment_records :: "payment_record list"
  commission_records :: "commission_record list"

subsection \<open>Helpers\<close>

definition invoice_items_of :: "'a billing_db_scheme \<Rightarrow> uuid \<Rightarrow> invoice_item list" where
  "invoice_items_of s iid = filter (\<lambda>i. ii_invoice_id i = iid) (invoice_items s)"

definition approved_parts_amount :: "'a billing_db_scheme \<Rightarrow> uuid \<Rightarrow> decimal" where
  "approved_parts_amount s iid =
     sum_list (map ii_line_total (filter (\<lambda>i. source_parts_request_id i \<noteq> None) (invoice_items_of s iid)))"

definition get_invoice_row :: "'a billing_db_scheme \<Rightarrow> uuid \<Rightarrow> invoice res" where
  "get_invoice_row s iid =
     bind_res (one_or_none (filter (\<lambda>i. in_id i = iid) (invoices s))) (require (ValueError ''INVOICE_NOT_FOUND''))"

definition get_invoice_job :: "'a job_db_scheme \<Rightarrow> uuid \<Rightarrow> service_job res" where
  "get_invoice_job s jid = bind_res (job_by_id s jid) (require (ValueError ''INVOICE_NOT_FOUND''))"

definition assert_invoice_tenant :: "invoice \<Rightarrow> uuid \<Rightarrow> unit res" where
  "assert_invoice_tenant iv tid =
     (if in_tenant_id iv \<noteq> tid then Inl (ValueError ''INVOICE_ACCESS_DENIED'') else Inr ())"

definition assert_invoice_transition :: "invoice \<Rightarrow> invoice_status \<Rightarrow> unit res" where
  "assert_invoice_transition iv to_status =
     (if to_status \<notin> set (INVOICE_TRANSITIONS (in_status iv))
      then Inl (ValueError ''INVOICE_INVALID_STATUS'') else Inr ())"

definition log_fin_event ::
  "'a billing_db_scheme \<Rightarrow> string \<Rightarrow> uuid \<Rightarrow> uuid \<Rightarrow> fin_event_type \<Rightarrow> string \<Rightarrow> string option \<Rightarrow> 'a billing_db_scheme" where
  "log_fin_event s record_type record_id tid ev actor_type reason =
     s\<lparr>financial_events := financial_events s @ [\<lparr>fe_record_type = record_type, fe_record_id = record_id,
        fe_tenant_id = tid, fe_event_type = ev, fe_actor_type = actor_type, fe_reason = reason\<rparr>]\<rparr>"

definition add_invoice_line :: "invoice_totals \<Rightarrow> invoice_item \<Rightarrow> invoice_totals" where
  "add_invoice_line a i =
     (let t = ii_line_total i; ty = ii_item_type i in
      if ty = ''labour'' then a\<lparr>it_labour := it_labour a + t\<rparr>
      else if ty = ''part'' \<or> ty = ''material'' then a\<lparr>it_parts := it_parts a + t\<rparr>
      else if ty = ''service'' then a\<lparr>it_service := it_service a + t\<rparr>
      else if ty = ''discount'' then a\<lparr>it_discount := it_discount a + t\<rparr>
      else if ty = ''tax'' then a\<lparr>it_tax := it_tax a + t\<rparr>
      else a)"

definition recalculate_invoice :: "invoice_item list \<Rightarrow> invoice_totals" where
  "recalculate_invoice items =
     (let a = foldl add_invoice_line zero_invoice_totals items;
          subtotal = it_labour a + it_parts a + it_service a;
          total = subtotal - it_discount a + it_tax a
      in a\<lparr>it_subtotal := subtotal, it_total := total, it_payable := total\<rparr>)"

text \<open>A line with a fresh id.\<close>

definition insert_line :: "'a billing_db_scheme \<Rightarrow> invoice_item \<Rightarrow> 'a billing_db_scheme" where
  "insert_line s i = s\<lparr>invoice_items := invoice_items s @ [i\<lparr>ii_id := next_uuid s\<rparr>], next_uuid := Suc (next_uuid s)\<rparr>"

definition plain_line :: "uuid \<Rightarrow> string \<Rightarrow> string \<Rightarrow> decimal \<Rightarrow> invoice_item" where
  "plain_line iid ty name amount =
     \<lparr>ii_id = 0, ii_invoice_id = iid, ii_item_type = ty, ii_item_name = name, ii_item_description = None,
      ii_quantity = 1, ii_unit_price = amount, ii_line_total = amount, source_quote_item_id = None,
      source_parts_request_id = None, ii_is_customer_visible = True\<rparr>"

subsection \<open>Seeding the lines\<close>

definition line_of_quote_item :: "uuid \<Rightarrow> quote_item \<Rightarrow> invoice_item" where
  "line_of_quote_item iid qi =
     \<lparr>ii_id = 0, ii_invoice_id = iid, ii_item_type = qi_item_type qi, ii_item_name = qi_item_name qi,
      ii_item_description = qi_item_description qi, ii_quantity = qi_quantity qi,
      ii_unit_price = qi_unit_price qi, ii_line_total = qi_line_total qi,
      source_quote_item_id = Some (qi_id qi), source_parts_request_id = None, ii_is_customer_visible = True\<rparr>"

definition copy_from_quote :: "'a billing_db_scheme \<Rightarrow> uuid \<Rightarrow> quote \<Rightarrow> 'a billing_db_scheme" where
  "copy_from_quote s iid quote =
     (let rows = filter (\<lambda>i. qi_quote_id i = q_id quote \<and> qi_is_customer_visible i) (quote_items s) in
      if rows \<noteq> [] then foldl insert_line s (map (line_of_quote_item iid) rows)
      else
        let amount = total_amount (q_totals quote) in
        if amount > 0 then insert_line s (plain_line iid ''service'' ''Approved service estimate'' amount)
        else s)"

text \<open>\<^verbatim>\<open>price.get(key) not in (None, "")\<close>, the first such key, and \<^verbatim>\<open>Decimal(str(value or 0))\<close>.\<close>

definition json_given :: "json_value \<Rightarrow> bool" where
  "json_given v = (case v of JNull \<Rightarrow> False | JText t \<Rightarrow> t \<noteq> [] | JNum _ \<Rightarrow> True)"

definition decimal_or_0 :: "json_value \<Rightarrow> decimal res" where
  "decimal_or_0 v = (case v of JNull \<Rightarrow> Inr 0 | JNum d \<Rightarrow> Inr d
     | JText t \<Rightarrow> if t = [] then Inr 0
         else (case parse_decimal t of None \<Rightarrow> Inl InvalidOperation | Some d \<Rightarrow> Inr d))"

definition snapshot_base_price :: "price_snapshot \<Rightarrow> decimal res" where
  "snapshot_base_price price =
     decimal_or_0 (case find json_given [selected_price_amount price, standard_price price, base_price price,
        min_price price] of None \<Rightarrow> JNum 0 | Some v \<Rightarrow> v)"

definition copy_from_booking :: "'a billing_db_scheme \<Rightarrow> uuid \<Rightarrow> uuid \<Rightarrow> 'a billing_db_scheme res" where
  "copy_from_booking s iid booking_id =
     bind_res (one_or_none (filter (\<lambda>b. b_id b = booking_id) (service_bookings s))) (\<lambda>booking.
       case Option.bind booking b_price_snapshot of None \<Rightarrow> Inr s
       | Some price \<Rightarrow>
         bind_res (snapshot_base_price price) (\<lambda>base.
           if base > 0
           then Inr (insert_line s (plain_line iid ''service''
                  (case snapshot_service_name price of None \<Rightarrow> ''Service charge'' | Some n \<Rightarrow> n) base))
           else Inr s))"

definition billed_parts :: "'a billing_db_scheme \<Rightarrow> uuid \<Rightarrow> uuid option list" where
  "billed_parts s iid = map source_parts_request_id (filter (\<lambda>i. source_parts_request_id i \<noteq> None) (invoice_items_of s iid))"

definition line_of_part :: "uuid \<Rightarrow> parts_request \<Rightarrow> invoice_item" where
  "line_of_part iid pr =
     \<lparr>ii_id = 0, ii_invoice_id = iid, ii_item_type = ''part'', ii_item_name = pr_part_name pr,
      ii_item_description = Some (pr_reason pr), ii_quantity = of_int (pr_quantity pr),
      ii_unit_price = pr_estimated_cost pr,
      ii_line_total = quantize2 (of_int (pr_quantity pr) * pr_estimated_cost pr),
      source_quote_item_id = None, source_parts_request_id = Some (pr_id pr), ii_is_customer_visible = True\<rparr>"

definition unbilled_parts :: "'a billing_db_scheme \<Rightarrow> invoice \<Rightarrow> parts_request list" where
  "unbilled_parts s iv =
     filter (\<lambda>pr. Some (pr_id pr) \<notin> set (billed_parts s (in_id iv)))
       (filter (\<lambda>pr. pr_job_id pr = in_job_id iv \<and> pr_tenant_id pr = in_tenant_id iv \<and>
          pr_status pr \<in> set PARTS_BILLABLE_STATUSES) (parts_requests s))"

definition add_approved_parts :: "'a billing_db_scheme \<Rightarrow> invoice \<Rightarrow> 'a billing_db_scheme \<times> nat" where
  "add_approved_parts s iv =
     (let todo = unbilled_parts s iv
      in (foldl insert_line s (map (line_of_part (in_id iv)) todo), length todo))"

subsection \<open>Totals\<close>

definition resolve_customer_platform_fee ::
  "'a billing_db_scheme \<Rightarrow> uuid \<Rightarrow> uuid \<Rightarrow> decimal \<Rightarrow> decimal res" where
  "resolve_customer_platform_fee s category_id jid service_value =
     bind_res (one_or_none (filter (\<lambda>c. sc_id c = category_id) (service_categories s))) (\<lambda>category.
       let key = Option.bind category sc_vertical_type in
       if \<not> truthy key then Inr 0
       else bind_res (get_current_policy_by_vertical_key s (the key)) (\<lambda>policy.
         bind_res (case policy of None \<Rightarrow> Inr None
                   | Some p \<Rightarrow>
                     bind_res (job_by_id s jid) (\<lambda>job.
                       bind_res (get_active_job_type_rule s (p_id p) (Option.bind job j_job_type_id)) (\<lambda>rule.
                         case rule of Some r \<Rightarrow> Inr (if \<not> customer_charge_enabled r then None else Some p)
                         | None \<Rightarrow> Inr (Some p)))) (\<lambda>effective.
           Inr (fr_customer_platform_fee
             (calculate_customer_platform_fee effective (to_minor service_value) 0 0 ''INR'')))))"

definition service_value_of :: "invoice_item list \<Rightarrow> decimal" where
  "service_value_of items =
     max 0 (it_total (recalculate_invoice items) -
       sum_list (map ii_line_total (filter (\<lambda>i. source_parts_request_id i \<noteq> None) items)))"

definition invoice_platform_fee :: "'a billing_db_scheme \<Rightarrow> invoice \<Rightarrow> decimal res" where
  "invoice_platform_fee s iv =
     (let snap = (if invoice_source iv = INV_SRC_BOOKING_BASE
                  then Option.bind (find (\<lambda>b. b_id b = in_booking_id iv) (service_bookings s)) b_price_snapshot
                  else None)
      in case snap of
           Some sn \<Rightarrow> if snapshot_platform_fee sn \<noteq> JNull then decimal_or_0 (snapshot_platform_fee sn)
             else resolve_customer_platform_fee s (in_category_id iv) (in_job_id iv)
                    (service_value_of (invoice_items_of s (in_id iv)))
         | None \<Rightarrow> resolve_customer_platform_fee s (in_category_id iv) (in_job_id iv)
                    (service_value_of (invoice_items_of s (in_id iv))))"

abbreviation set_invoice :: "'a billing_db_scheme \<Rightarrow> uuid \<Rightarrow> (invoice \<Rightarrow> invoice) \<Rightarrow> 'a billing_db_scheme" where
  "set_invoice s iid f \<equiv> s\<lparr>invoices := update_where (\<lambda>r. in_id r = iid) f (invoices s)\<rparr>"

definition refresh_totals :: "'a billing_db_scheme \<Rightarrow> invoice \<Rightarrow> 'a billing_db_scheme res" where
  "refresh_totals s iv =
     (let totals = recalculate_invoice (invoice_items_of s (in_id iv)) in
      bind_res (invoice_platform_fee s iv) (\<lambda>fee.
        Inr (set_invoice s (in_id iv) (\<lambda>r. r\<lparr>in_totals :=
          totals\<lparr>it_platform_fee := fee, it_payable := it_total totals + fee\<rparr>\<rparr>))))"

subsection \<open>Operations\<close>

definition new_invoice ::
  "uuid \<Rightarrow> service_job \<Rightarrow> uuid option \<Rightarrow> uuid \<Rightarrow> uuid \<Rightarrow> string \<Rightarrow> invoice" where
  "new_invoice iid job quote_id tid customer source =
     \<lparr>in_id = iid, in_booking_id = j_booking_id job, in_job_id = j_id job, in_quote_id = quote_id,
      in_tenant_id = tid, in_customer_id = customer, in_category_id = j_category_id job,
      in_status = INV_DRAFT, in_totals = zero_invoice_totals, in_payment_status = PAY_STATUS_PENDING,
      in_commission_status = COM_PENDING, invoice_source = source, issued_at = None, paid_at = None,
      cancelled_at = None\<rparr>"

definition insert_invoice :: "'a billing_db_scheme \<Rightarrow> invoice \<Rightarrow> 'a billing_db_scheme" where
  "insert_invoice s iv = s\<lparr>invoices := invoices s @ [iv], next_uuid := Suc (next_uuid s)\<rparr>"

text \<open>The validation of the referenced quote, before anything is written.\<close>

definition invoice_quote ::
  "'a quote_db_scheme \<Rightarrow> string \<Rightarrow> uuid option \<Rightarrow> uuid \<Rightarrow> service_job \<Rightarrow> quote option res" where
  "invoice_quote s source quote_id tid job =
     (if source = INV_SRC_APPROVED_QUOTE \<and> quote_id \<noteq> None then
        bind_res (one_or_none (filter (\<lambda>q. q_id q = the quote_id) (quotes s))) (\<lambda>row.
          case row of None \<Rightarrow> Inl (ValueError ''INVOICE_ACCESS_DENIED'')
          | Some q \<Rightarrow>
            if q_tenant_id q \<noteq> tid then Inl (ValueError ''INVOICE_ACCESS_DENIED'')
            else if q_job_id q \<noteq> j_id job then Inl (ValueError ''INVOICE_ACCESS_DENIED'')
            else if Some (q_customer_id q) \<noteq> j_customer_id job then Inl (ValueError ''INVOICE_ACCESS_DENIED'')
            else if q_status q \<noteq> QS_CUSTOMER_APPROVED then Inl (ValueError ''INVOICE_INVALID_STATUS'')
            else Inr (Some q))
      else Inr None)"

abbreviation active_invoices :: "'a billing_db_scheme \<Rightarrow> uuid \<Rightarrow> invoice list" where
  "active_invoices s jid \<equiv> filter (\<lambda>i. in_job_id i = jid \<and> in_status i \<noteq> INV_CANCELLED) (invoices s)"

text \<open>The first lines of a created invoice, and of one materialized at job closure.\<close>

definition seed_lines :: "'a billing_db_scheme \<Rightarrow> invoice \<Rightarrow> quote option \<Rightarrow> 'a billing_db_scheme res" where
  "seed_lines s iv quote =
     (case quote of Some q \<Rightarrow> Inr (copy_from_quote s (in_id iv) q)
      | None \<Rightarrow> if invoice_source iv = INV_SRC_BOOKING_BASE then copy_from_booking s (in_id iv) (in_booking_id iv)
                else Inr s)"

definition seed_closing_lines :: "'a billing_db_scheme \<Rightarrow> invoice \<Rightarrow> quote option \<Rightarrow> bool \<Rightarrow> 'a billing_db_scheme res" where
  "seed_closing_lines s iv quote quote_is_price =
     (if quote \<noteq> None \<and> quote_is_price then Inr (copy_from_quote s (in_id iv) (the quote))
      else bind_res (copy_from_booking s (in_id iv) (in_booking_id iv)) (\<lambda>s2.
        Inr (case quote of None \<Rightarrow> s2 | Some q \<Rightarrow> copy_from_quote s2 (in_id iv) q)))"

definition create_invoice ::
  "'a billing_db_scheme \<Rightarrow> uuid \<Rightarrow> uuid \<Rightarrow> string \<Rightarrow> uuid option \<Rightarrow> ('a billing_db_scheme \<times> invoice) res" where
  "create_invoice s jid tid source quote_id =
     (if source \<notin> set VALID_INVOICE_SOURCES then Inl (ValueError ''INVOICE_INVALID_STATUS'')
      else bind_res (get_invoice_job s jid) (\<lambda>job.
        if j_tenant_id job \<noteq> Some tid then Inl (ValueError ''INVOICE_ACCESS_DENIED'')
        else bind_res (one_or_none (active_invoices s (j_id job))) (\<lambda>active.
          if active \<noteq> None then Inl (ValueError ''INVOICE_ALREADY_EXISTS'')
          else bind_res (invoice_quote s source quote_id tid job) (\<lambda>quote.
            bind_res (require DBAPIError (j_customer_id job)) (\<lambda>customer.
              let iv = new_invoice (next_uuid s) job quote_id tid customer source;
                  s1 = insert_invoice s iv
              in bind_res (seed_lines s1 iv quote) (\<lambda>s2.
                let s3 = fst (add_approved_parts s2 iv) in
                bind_res (refresh_totals s3 iv) (\<lambda>s4.
                  let s5 = log_fin_event s4 ''invoice'' (in_id iv) tid FEV_INVOICE_CREATED ''staff'' None
                  in bind_res (get_invoice_row s5 (in_id iv)) (\<lambda>row. Inr (s5, row)))))))))"

text \<open>\<^verbatim>\<open>order_by(version_number.desc()).limit(1)\<close>: the first of the rows with the highest version.\<close>

fun newest_version :: "quote list \<Rightarrow> quote option" where
  "newest_version [] = None"
| "newest_version (q # qs) =
     (case newest_version qs of None \<Rightarrow> Some q
      | Some r \<Rightarrow> if q_version_number r > q_version_number q then Some r else Some q)"

definition mark_issued :: "'a billing_db_scheme \<Rightarrow> time \<Rightarrow> invoice \<Rightarrow> string \<Rightarrow> 'a billing_db_scheme" where
  "mark_issued s now iv actor =
     log_fin_event (set_invoice s (in_id iv) (\<lambda>r. r\<lparr>in_status := INV_ISSUED, issued_at := Some now\<rparr>))
       ''invoice'' (in_id iv) (in_tenant_id iv) FEV_INVOICE_ISSUED actor None"

definition ensure_issued_for_job ::
  "'a billing_db_scheme \<Rightarrow> time \<Rightarrow> uuid \<Rightarrow> uuid \<Rightarrow> ('a billing_db_scheme \<times> invoice) res" where
  "ensure_issued_for_job s now jid tid =
     (case first_row (filter (\<lambda>j. j_id j = jid) (service_jobs s)) of
        None \<Rightarrow> Inl (ValueError ''INVOICE_NOT_FOUND'')
      | Some job \<Rightarrow>
        if j_tenant_id job \<noteq> Some tid then Inl (ValueError ''INVOICE_ACCESS_DENIED'')
        else case first_row (rev (filter (\<lambda>i. in_tenant_id i = tid) (active_invoices s (j_id job)))) of
          Some iv \<Rightarrow>
            if in_status iv = INV_DRAFT then
              bind_res (let (s1, added) = add_approved_parts s iv
                        in if added > 0 then refresh_totals s1 iv else Inr s1) (\<lambda>s2.
                let s3 = mark_issued s2 now iv ''system''
                in bind_res (get_invoice_row s3 (in_id iv)) (\<lambda>row. Inr (s3, row)))
            else Inr (s, iv)
        | None \<Rightarrow>
            let quote = newest_version (filter (\<lambda>q. q_job_id q = j_id job \<and> q_tenant_id q = tid \<and>
                    Some (q_customer_id q) = j_customer_id job \<and> q_is_current q \<and>
                    q_status q = QS_CUSTOMER_APPROVED) (quotes s));
                quote_is_price = (quote = None \<or> quote_gates_work s job);
                source = (if quote \<noteq> None \<and> quote_is_price then INV_SRC_APPROVED_QUOTE else INV_SRC_BOOKING_BASE)
            in bind_res (require DBAPIError (j_customer_id job)) (\<lambda>customer.
                 let iv = new_invoice (next_uuid s) job (map_option q_id quote) tid customer source;
                     s1 = insert_invoice s iv
                 in bind_res (seed_closing_lines s1 iv quote quote_is_price) (\<lambda>s2.
                   let s3 = fst (add_approved_parts s2 iv) in
                   bind_res (refresh_totals s3 iv) (\<lambda>s4.
                     bind_res (get_invoice_row s4 (in_id iv)) (\<lambda>row.
                       if it_payable (in_totals row) \<le> 0 then Inl (ValueError ''INVOICE_TOTAL_INVALID'')
                       else
                         let s5 = log_fin_event s4 ''invoice'' (in_id iv) tid FEV_INVOICE_CREATED ''system'' None;
                             s6 = mark_issued s5 now iv ''system''
                         in bind_res (get_invoice_row s6 (in_id iv)) (\<lambda>row'. Inr (s6, row')))))))"

definition invoice_add_item ::
  "'a billing_db_scheme \<Rightarrow> uuid \<Rightarrow> uuid \<Rightarrow> string \<Rightarrow> string \<Rightarrow> string option \<Rightarrow> decimal \<Rightarrow> decimal \<Rightarrow> bool \<Rightarrow>
   'a billing_db_scheme res" where
  "invoice_add_item s iid tid ty name description qty up visible =
     bind_res (get_invoice_row s iid) (\<lambda>iv.
       bind_res (assert_invoice_tenant iv tid) (\<lambda>_.
         if in_status iv \<noteq> INV_DRAFT then Inl (ValueError ''INVOICE_ALREADY_ISSUED'')
         else if qty \<le> 0 then Inl (ValueError ''INVOICE_ITEM_INVALID'')
         else if up < 0 then Inl (ValueError ''INVOICE_ITEM_INVALID'')
         else refresh_totals (insert_line s
                \<lparr>ii_id = 0, ii_invoice_id = in_id iv, ii_item_type = ty, ii_item_name = name,
                 ii_item_description = description, ii_quantity = qty, ii_unit_price = up,
                 ii_line_total = qty * up, source_quote_item_id = None, source_parts_request_id = None,
                 ii_is_customer_visible = visible\<rparr>) iv))"

definition issue_invoice ::
  "'a billing_db_scheme \<Rightarrow> time \<Rightarrow> uuid \<Rightarrow> uuid \<Rightarrow> ('a billing_db_scheme \<times> invoice) res" where
  "issue_invoice s now iid tid =
     bind_res (get_invoice_row s iid) (\<lambda>iv.
       bind_res (assert_invoice_tenant iv tid) (\<lambda>_.
         if in_status iv = INV_ISSUED then Inl (ValueError ''INVOICE_ALREADY_ISSUED'')
         else bind_res (assert_invoice_transition iv INV_ISSUED) (\<lambda>_.
           bind_res (let (s1, added) = add_approved_parts s iv
                     in if added > 0 then refresh_totals s1 iv else Inr s1) (\<lambda>s2.
             let s3 = set_invoice s2 (in_id iv) (\<lambda>r. r\<lparr>in_status := INV_ISSUED, issued_at := Some now\<rparr>);
                 s4 = s3\<lparr>service_jobs := update_where (\<lambda>j. j_id j = in_job_id iv)
                        (\<lambda>j. j\<lparr>j_status := JS_INVOICE_ISSUED\<rparr>) (service_jobs s3)\<rparr>;
                 s5 = log_fin_event s4 ''invoice'' (in_id iv) (in_tenant_id iv) FEV_INVOICE_ISSUED ''staff'' None
             in bind_res (get_invoice_row s5 (in_id iv)) (\<lambda>row. Inr (s5, row))))))"

definition cancel_invoice ::
  "'a billing_db_scheme \<Rightarrow> time \<Rightarrow> uuid \<Rightarrow> uuid \<Rightarrow> string option \<Rightarrow> ('a billing_db_scheme \<times> invoice) res" where
  "cancel_invoice s now iid tid reason =
     bind_res (get_invoice_row s iid) (\<lambda>iv.
       bind_res (assert_invoice_tenant iv tid) (\<lambda>_.
         bind_res (assert_invoice_transition iv INV_CANCELLED) (\<lambda>_.
           let s1 = log_fin_event (set_invoice s (in_id iv) (\<lambda>r. r\<lparr>in_status := INV_CANCELLED, cancelled_at := Some now\<rparr>))
                      ''invoice'' (in_id iv) (in_tenant_id iv) FEV_INVOICE_CANCELLED ''staff'' reason
           in bind_res (get_invoice_row s1 (in_id iv)) (\<lambda>row. Inr (s1, row)))))"

definition update_payment_status ::
  "'a billing_db_scheme \<Rightarrow> uuid \<Rightarrow> pay_status \<Rightarrow> time option \<Rightarrow> 'a billing_db_scheme" where
  "update_payment_status s iid st paid =
     set_invoice s iid (\<lambda>r. r\<lparr>in_payment_status := st,
       paid_at := (case paid of None \<Rightarrow> paid_at r | Some t \<Rightarrow> Some t),
       in_status := (if st = PAY_STATUS_COLLECTED then INV_PAYMENT_COLLECTED
                     else if st = PAY_STATUS_VERIFIED then INV_PAID else in_status r)\<rparr>)"

definition update_commission_status :: "'a billing_db_scheme \<Rightarrow> uuid \<Rightarrow> com_status \<Rightarrow> 'a billing_db_scheme" where
  "update_commission_status s iid st = set_invoice s iid (\<lambda>r. r\<lparr>in_commission_status := st\<rparr>)"

subsection \<open>Reads\<close>

definition get_invoice :: "'a billing_db_scheme \<Rightarrow> uuid \<Rightarrow> (invoice \<times> invoice_item list) res" where
  "get_invoice s iid = bind_res (get_invoice_row s iid) (\<lambda>iv. Inr (iv, invoice_items_of s (in_id iv)))"

definition get_invoice_for_tenant ::
  "'a billing_db_scheme \<Rightarrow> uuid \<Rightarrow> uuid \<Rightarrow> (invoice \<times> invoice_item list) res" where
  "get_invoice_for_tenant s iid tid =
     bind_res (get_invoice_row s iid) (\<lambda>iv.
       bind_res (assert_invoice_tenant iv tid) (\<lambda>_. Inr (iv, invoice_items_of s (in_id iv))))"

definition get_invoice_for_customer ::
  "'a billing_db_scheme \<Rightarrow> uuid \<Rightarrow> uuid \<Rightarrow> (invoice \<times> invoice_item list) res" where
  "get_invoice_for_customer s iid customer_id =
     bind_res (get_invoice_row s iid) (\<lambda>iv.
       if in_customer_id iv \<noteq> customer_id then Inl (ValueError ''INVOICE_ACCESS_DENIED'')
       else Inr (iv, filter ii_is_customer_visible (invoice_items_of s (in_id iv))))"

definition get_job_invoice :: "'a billing_db_scheme \<Rightarrow> uuid \<Rightarrow> uuid option \<Rightarrow> invoice option res" where
  "get_job_invoice s jid tenant_id =
     bind_res (one_or_none (active_invoices s jid)) (\<lambda>row.
       case row of None \<Rightarrow> Inr None
       | Some iv \<Rightarrow> if given tenant_id (\<lambda>t. in_tenant_id iv \<noteq> t) then Inl (ValueError ''INVOICE_ACCESS_DENIED'')
                     else Inr (Some iv))"

definition page :: "nat \<Rightarrow> nat \<Rightarrow> nat \<Rightarrow> 'b list \<Rightarrow> 'b list" where
  "page cap limit offset rows = take (min limit cap) (drop offset (rev rows))"

definition list_tenant_invoices ::
  "'a billing_db_scheme \<Rightarrow> uuid \<Rightarrow> invoice_status option \<Rightarrow> nat \<Rightarrow> nat \<Rightarrow> invoice list" where
  "list_tenant_invoices s tid st limit offset =
     page 500 limit offset (filter (\<lambda>i. in_tenant_id i = tid \<and> (st = None \<or> st = Some (in_status i))) (invoices s))"

definition list_customer_invoices ::
  "'a billing_db_scheme \<Rightarrow> uuid \<Rightarrow> invoice_status option \<Rightarrow> nat \<Rightarrow> nat \<Rightarrow> invoice list" where
  "list_customer_invoices s cid st limit offset =
     page 200 limit offset (filter (\<lambda>i. in_customer_id i = cid \<and> (st = None \<or> st = Some (in_status i))) (invoices s))"

definition list_all_invoices ::
  "'a billing_db_scheme \<Rightarrow> uuid option \<Rightarrow> invoice_status option \<Rightarrow> nat \<Rightarrow> nat \<Rightarrow> invoice list" where
  "list_all_invoices s tid st limit offset =
     page 500 limit offset (filter (\<lambda>i. (tid = None \<or> tid = Some (in_tenant_id i)) \<and>
       (st = None \<or> st = Some (in_status i))) (invoices s))"

subsection \<open>Invariant and effects\<close>

text \<open>
  \<open>invoice_wf\<close>: ids are unique and below the fresh one, a job has at most one invoice that is not
  cancelled, and that invoice belongs to the tenant of its job. \<open>invoice_effect\<close> is the specification of
  what one operation may do to the invoice tables; no operation writes \<^verbatim>\<open>payment_pending\<close> or \<^verbatim>\<open>failed\<close>.
\<close>

definition invoice_by_id :: "'a billing_db_scheme \<Rightarrow> uuid \<Rightarrow> invoice option" where
  "invoice_by_id s x = first_row (filter (\<lambda>i. in_id i = x) (invoices s))"

definition status_of_invoice :: "'a billing_db_scheme \<Rightarrow> uuid \<Rightarrow> invoice_status option" where
  "status_of_invoice s x = map_option in_status (invoice_by_id s x)"

definition job_tenant :: "'a job_db_scheme \<Rightarrow> uuid \<Rightarrow> uuid option option" where
  "job_tenant s jid = map_option j_tenant_id (first_row (filter (\<lambda>j. j_id j = jid) (service_jobs s)))"

definition invoice_wf :: "'a billing_db_scheme \<Rightarrow> bool" where
  "invoice_wf s \<longleftrightarrow>
     distinct (map in_id (invoices s)) \<and> (\<forall>i \<in> set (invoices s). in_id i < next_uuid s) \<and>
     (\<forall>x \<in> set (invoice_items s). ii_invoice_id x < next_uuid s) \<and>
     (\<forall>jid. length (active_invoices s jid) \<le> 1) \<and>
     (\<forall>i \<in> set (invoices s). in_status i \<noteq> INV_CANCELLED \<longrightarrow> job_tenant s (in_job_id i) = Some (Some (in_tenant_id i)))"

definition keeps_invoice :: "(invoice \<Rightarrow> invoice) \<Rightarrow> bool" where
  "keeps_invoice f \<longleftrightarrow> (\<forall>r. in_id (f r) = in_id r \<and> in_job_id (f r) = in_job_id r \<and> in_tenant_id (f r) = in_tenant_id r)"

inductive invoice_effect :: "'a billing_db_scheme \<Rightarrow> 'a billing_db_scheme \<Rightarrow> bool" where
  opened: "in_id iv = next_uuid s \<Longrightarrow> active_invoices s (in_job_id iv) = [] \<Longrightarrow>
    job_tenant s (in_job_id iv) = Some (Some (in_tenant_id iv)) \<Longrightarrow>
    invoices t = invoices s @ [iv] \<Longrightarrow> invoice_items t = invoice_items s @ new \<Longrightarrow>
    \<forall>x \<in> set new. ii_invoice_id x = in_id iv \<Longrightarrow> Suc (next_uuid s) \<le> next_uuid t \<Longrightarrow>
    job_tenant t = job_tenant s \<Longrightarrow> invoice_effect s t"
| changed: "invoice_by_id s iid = Some iv \<Longrightarrow> keeps_invoice f \<Longrightarrow>
    in_status (f iv) = in_status iv \<or>
      in_status (f iv) \<in> set (INVOICE_TRANSITIONS (in_status iv)) \<and> in_status (f iv) \<notin> {INV_PAYMENT_PENDING, INV_FAILED} \<Longrightarrow>
    in_status iv \<notin> {INV_DRAFT, INV_FAILED} \<longrightarrow> in_totals (f iv) = in_totals iv \<and> new = [] \<Longrightarrow>
    invoices t = update_where (\<lambda>r. in_id r = iid) f (invoices s) \<Longrightarrow> invoice_items t = invoice_items s @ new \<Longrightarrow>
    \<forall>x \<in> set new. ii_invoice_id x = iid \<Longrightarrow> next_uuid s \<le> next_uuid t \<Longrightarrow>
    job_tenant t = job_tenant s \<Longrightarrow> invoice_effect s t"
| quiet: "invoices t = invoices s \<Longrightarrow> invoice_items t = invoice_items s \<Longrightarrow> next_uuid s \<le> next_uuid t \<Longrightarrow>
    \<forall>jid. active_invoices s jid = [] \<or> job_tenant t jid = job_tenant s jid \<Longrightarrow> invoice_effect s t"

lemma invoice_by_id_Some: "invoice_by_id s x = Some iv \<Longrightarrow> iv \<in> set (invoices s) \<and> in_id iv = x"
  by (auto simp: invoice_by_id_def dest!: first_row_Some_set)

lemma invoice_by_id_update:
  assumes "keeps_invoice f" and "invoices t = update_where (\<lambda>r. in_id r = iid) f (invoices s)"
  shows "invoice_by_id t x = (if x = iid then map_option f (invoice_by_id s x) else invoice_by_id s x)"
proof -
  have "invoice_by_id t x = map_option (\<lambda>r. if in_id r = iid then f r else r) (invoice_by_id s x)"
    using assms(1) by (simp add: invoice_by_id_def assms(2) first_row_update_where keeps_invoice_def)
  then show ?thesis by (cases "invoice_by_id s x") (auto dest: invoice_by_id_Some)
qed

lemma invoice_by_id_set:
  "keeps_invoice f \<Longrightarrow> invoice_by_id (set_invoice s iid f) x = (if x = iid then map_option f (invoice_by_id s x) else invoice_by_id s x)"
  by (rule invoice_by_id_update) simp_all

lemma get_invoice_row_Inr:
  assumes "get_invoice_row s iid = Inr iv"
  shows "invoice_by_id s iid = Some iv" and "in_id iv = iid" and "iv \<in> set (invoices s)"
proof -
  from assms have f: "filter (\<lambda>i. in_id i = iid) (invoices s) = [iv]"
    by (auto simp: get_invoice_row_def bind_res_Inr require_Inr one_or_none_Some)
  with filter_eq_single_mem [OF f] show "invoice_by_id s iid = Some iv" "in_id iv = iid" "iv \<in> set (invoices s)"
    by (simp_all add: invoice_by_id_def)
qed

lemma invoice_wf_unique:
  assumes "invoice_wf s" and "i \<in> set (invoices s)" and "j \<in> set (invoices s)" and "in_id i = in_id j"
  shows "i = j"
  using assms by (auto simp: invoice_wf_def distinct_map dest: inj_onD)

text \<open>What an effect does to one invoice that exists before it.\<close>

lemma invoice_effect_row:
  assumes "invoice_wf s" and "invoice_effect s t" and "invoice_by_id s x = Some a"
  obtains b where "invoice_by_id t x = Some b"
    "in_status b = in_status a \<or> in_status b \<in> set (INVOICE_TRANSITIONS (in_status a)) \<and>
       in_status b \<notin> {INV_PAYMENT_PENDING, INV_FAILED}"
    "in_status a \<notin> {INV_DRAFT, INV_FAILED} \<Longrightarrow> in_totals b = in_totals a"
    "in_status a \<notin> {INV_DRAFT, INV_FAILED} \<Longrightarrow> invoice_items_of t x = invoice_items_of s x"
  using assms(2)
proof cases
  case (opened iv new)
  note a = invoice_by_id_Some [OF assms(3)]
  with assms(1) have "x \<noteq> in_id iv" by (auto simp: opened(1) invoice_wf_def)
  with opened have "invoice_items_of t x = invoice_items_of s x" by (auto simp: invoice_items_of_def filter_empty_conv)
  moreover from assms(3) have "invoice_by_id t x = Some a"
    by (simp add: invoice_by_id_def opened(4) first_row_append)
  ultimately show thesis by (intro that [of a]) simp_all
next
  case (changed iid iv f new)
  note u = invoice_by_id_update [OF changed(2,5), of x]
  show thesis
  proof (cases "x = iid")
    case True
    with assms(3) changed(1) have "a = iv" by simp
    with True changed assms(3) u show thesis by (intro that [of "f a"]) (auto simp: invoice_items_of_def)
  next
    case False
    with changed(6,7) have "invoice_items_of t x = invoice_items_of s x"
      by (auto simp: invoice_items_of_def filter_empty_conv)
    with False assms(3) u show thesis by (intro that [of a]) simp_all
  qed
next
  case quiet
  with assms(3) show thesis by (intro that [of a]) (simp_all add: invoice_by_id_def invoice_items_of_def)
qed

lemma length_filter_update_where:
  assumes "\<forall>x \<in> set xs. P (if q x then f x else x) \<longrightarrow> P x"
  shows "length (filter P (update_where q f xs)) \<le> length (filter P xs)"
proof -
  let ?g = "\<lambda>x. if q x then f x else x"
  have "filter (\<lambda>x. P (?g x)) xs = filter (\<lambda>x. P x \<and> P (?g x)) xs"
    by (rule filter_cong) (use assms in \<open>blast+\<close>)
  then have "length (filter P (update_where q f xs)) = length (filter (\<lambda>x. P x \<and> P (?g x)) xs)"
    by (simp only: update_where_def filter_map length_map o_def)
  also have "\<dots> \<le> length (filter P xs)" by (rule length_filter_mono) (rule conjunct1)
  finally show ?thesis .
qed

lemma invoice_effect_wf:
  assumes wf: "invoice_wf s" and eff: "invoice_effect s t"
  shows "invoice_wf t"
  using eff
proof cases
  case (opened iv new)
  have "length (active_invoices t jid) \<le> 1" for jid
    using wf opened(2) by (cases "jid = in_job_id iv") (auto simp: invoice_wf_def opened(4))
  moreover have "\<forall>x \<in> set (invoice_items t). ii_invoice_id x < next_uuid t"
    using wf opened by (fastforce simp: invoice_wf_def)
  moreover have "distinct (map in_id (invoices t)) \<and> (\<forall>i \<in> set (invoices t). in_id i < next_uuid t)"
    using wf opened by (fastforce simp: invoice_wf_def)
  ultimately show ?thesis using wf opened by (auto simp: invoice_wf_def)
next
  case (changed iid iv f new)
  note row = invoice_by_id_Some [OF changed(1)]
  have upd: "(if in_id r = iid then f r else r) = f iv \<and> r = iv \<or> (if in_id r = iid then f r else r) = r"
    if "r \<in> set (invoices s)" for r
    using invoice_wf_unique [OF wf that conjunct1 [OF row]] row by auto
  have cancelled: "in_status iv = INV_CANCELLED \<Longrightarrow> in_status (f iv) = INV_CANCELLED" using changed(3) by auto
  have "length (active_invoices t jid) \<le> length (active_invoices s jid)" for jid
    unfolding changed(5)
  proof (intro length_filter_update_where ballI impI)
    fix r assume r: "r \<in> set (invoices s)"
      and p: "in_job_id (if in_id r = iid then f r else r) = jid \<and> in_status (if in_id r = iid then f r else r) \<noteq> INV_CANCELLED"
    from changed(2) have "in_job_id (if in_id r = iid then f r else r) = in_job_id r" by (simp add: keeps_invoice_def)
    moreover have "in_status r \<noteq> INV_CANCELLED" using upd [OF r] p cancelled by metis
    ultimately show "in_job_id r = jid \<and> in_status r \<noteq> INV_CANCELLED" using p by metis
  qed
  moreover have "length (active_invoices s jid) \<le> 1" for jid using wf by (simp add: invoice_wf_def)
  ultimately have "\<forall>jid. length (active_invoices t jid) \<le> 1" using le_trans by blast
  moreover have "map in_id (invoices t) = map in_id (invoices s)"
    unfolding changed(5) using changed(2) by (intro map_update_where_key) (simp add: keeps_invoice_def)
  moreover have "\<forall>i \<in> set (invoices t). in_id i < next_uuid t"
    using wf changed(2,8) by (auto simp: changed(5) set_update_where keeps_invoice_def invoice_wf_def dest: less_le_trans)
  moreover have "\<forall>x \<in> set (invoice_items t). ii_invoice_id x < next_uuid t"
    using wf changed(6,7,8) row by (auto simp: invoice_wf_def dest: less_le_trans)
  moreover have "in_status i \<noteq> INV_CANCELLED \<longrightarrow> job_tenant t (in_job_id i) = Some (Some (in_tenant_id i))"
    if i: "i \<in> set (invoices t)" for i
  proof -
    from i obtain r where r: "r \<in> set (invoices s)" "i = (if in_id r = iid then f r else r)"
      by (auto simp: changed(5) update_where_def)
    with upd [OF r(1)] row cancelled wf changed(2,9) show ?thesis
      by (auto simp: invoice_wf_def keeps_invoice_def)
  qed
  ultimately show ?thesis using wf by (simp add: invoice_wf_def)
next
  case quiet
  have "job_tenant t (in_job_id i) = Some (Some (in_tenant_id i))" if "i \<in> set (invoices s)" "in_status i \<noteq> INV_CANCELLED" for i
  proof -
    from that have "active_invoices s (in_job_id i) \<noteq> []" by (auto simp: filter_empty_conv)
    with quiet(4) have "job_tenant t (in_job_id i) = job_tenant s (in_job_id i)" by blast
    with wf that show ?thesis by (simp add: invoice_wf_def)
  qed
  with wf quiet show ?thesis by (auto simp: invoice_wf_def dest: less_le_trans)
qed

interpretation invoice_graph: guarded_records INVOICE_TRANSITIONS "\<lambda>a. INVOICE_TRANSITIONS a = []" invoice_wf
  status_of_invoice invoice_effect
proof unfold_locales
  show "invoice_wf t" if "invoice_wf s" "invoice_effect s t" for s t :: "'a billing_db_scheme"
    using that by (rule invoice_effect_wf)
next
  fix s t :: "'a billing_db_scheme" and x a
  assume s: "invoice_wf s" "invoice_effect s t" "status_of_invoice s x = Some a"
  then obtain i where i: "invoice_by_id s x = Some i" "in_status i = a" by (auto simp: status_of_invoice_def)
  from invoice_effect_row [OF s(1,2) i(1)] i(2)
  show "\<exists>b. status_of_invoice t x = Some b \<and> (b = a \<or> b \<in> set (INVOICE_TRANSITIONS a))"
    by (metis status_of_invoice_def option.simps(9))
qed simp

subsection \<open>Every operation is an effect\<close>

text \<open>\<open>adds_lines\<close>: lines of one invoice were appended and nothing else but the fresh id moved.\<close>

definition adds_lines :: "uuid \<Rightarrow> 'a billing_db_scheme \<Rightarrow> 'a billing_db_scheme \<Rightarrow> bool" where
  "adds_lines iid s t \<longleftrightarrow> (\<exists>new n. next_uuid s \<le> n \<and> (\<forall>x \<in> set new. ii_invoice_id x = iid) \<and>
     t = s\<lparr>invoice_items := invoice_items s @ new, next_uuid := n\<rparr>)"

lemma adds_lines_refl [simp]: "adds_lines iid s s"
  unfolding adds_lines_def by (intro exI [of _ "[]"] exI [of _ "next_uuid s"]) simp

lemma adds_lines_trans:
  assumes "adds_lines iid s t" and "adds_lines iid t u"
  shows "adds_lines iid s u"
proof -
  from assms(1) obtain n1 m1 where 1: "next_uuid s \<le> m1" "\<forall>x \<in> set n1. ii_invoice_id x = iid"
    "t = s\<lparr>invoice_items := invoice_items s @ n1, next_uuid := m1\<rparr>" unfolding adds_lines_def by blast
  from assms(2) obtain n2 m2 where 2: "next_uuid t \<le> m2" "\<forall>x \<in> set n2. ii_invoice_id x = iid"
    "u = t\<lparr>invoice_items := invoice_items t @ n2, next_uuid := m2\<rparr>" unfolding adds_lines_def by blast
  from 1 2 show ?thesis unfolding adds_lines_def by (intro exI [of _ "n1 @ n2"] exI [of _ m2]) auto
qed

lemma adds_lines_insert: "ii_invoice_id i = iid \<Longrightarrow> adds_lines iid s (insert_line s i)"
  unfolding adds_lines_def insert_line_def
  by (intro exI [of _ "[i\<lparr>ii_id := next_uuid s\<rparr>]"] exI [of _ "Suc (next_uuid s)"]) simp

lemma adds_lines_foldl: "\<forall>i \<in> set is. ii_invoice_id i = iid \<Longrightarrow> adds_lines iid s (foldl insert_line s is)"
proof (induction "is" arbitrary: s)
  case (Cons i "is")
  then have "adds_lines iid s (insert_line s i)" "adds_lines iid (insert_line s i) (foldl insert_line (insert_line s i) is)"
    by (simp_all add: adds_lines_insert)
  then show ?case by (auto intro: adds_lines_trans)
qed simp

lemma adds_lines_keeps:
  assumes "adds_lines iid s t"
  shows "invoices t = invoices s" and "service_jobs t = service_jobs s" and "next_uuid s \<le> next_uuid t"
    and "payment_records t = payment_records s" and "commission_records t = commission_records s"
    and "service_bookings t = service_bookings s" and "parts_requests t = parts_requests s"
  using assms unfolding adds_lines_def by auto

lemma adds_lines_items:
  assumes "adds_lines iid s t"
  obtains new where "invoice_items t = invoice_items s @ new" "\<forall>x \<in> set new. ii_invoice_id x = iid"
  using assms unfolding adds_lines_def by auto

lemma copy_from_quote_adds: "adds_lines iid s (copy_from_quote s iid q)"
  by (auto simp: copy_from_quote_def Let_def line_of_quote_item_def plain_line_def
      intro!: adds_lines_foldl adds_lines_insert)

lemma copy_from_booking_adds:
  assumes "copy_from_booking s iid b = Inr t"
  shows "adds_lines iid s t"
proof -
  from assms obtain row where row: "one_or_none (filter (\<lambda>x. b_id x = b) (service_bookings s)) = Inr row"
    by (auto simp: copy_from_booking_def bind_res_Inr)
  show ?thesis
  proof (cases "Option.bind row b_price_snapshot")
    case None
    with assms row show ?thesis by (simp add: copy_from_booking_def)
  next
    case (Some p)
    with assms row obtain base where "t = s \<or> (\<exists>n. t = insert_line s (plain_line iid ''service'' n base))"
      by (auto simp: copy_from_booking_def bind_res_Inr split: if_splits)
    then show ?thesis by (auto simp: plain_line_def intro: adds_lines_insert)
  qed
qed

lemma add_approved_parts_adds: "adds_lines (in_id iv) s (fst (add_approved_parts s iv))"
  by (auto simp: add_approved_parts_def Let_def line_of_part_def intro!: adds_lines_foldl)

lemma refresh_totals_Inr:
  "refresh_totals s iv = Inr t \<Longrightarrow> \<exists>ts. t = set_invoice s (in_id iv) (\<lambda>r. r\<lparr>in_totals := ts\<rparr>)"
  by (auto simp: refresh_totals_def bind_res_Inr Let_def)

lemma update_where_twice:
  "\<forall>r. p (f r) = p r \<Longrightarrow> update_where p g (update_where p f xs) = update_where p (\<lambda>r. g (f r)) xs"
  by (induction xs) auto

lemma keeps_invoiceI [simp]:
  "keeps_invoice (\<lambda>r. r\<lparr>in_totals := ts\<rparr>)"
  "keeps_invoice (\<lambda>r. r\<lparr>in_status := st, issued_at := tm\<rparr>)"
  "keeps_invoice (\<lambda>r. r\<lparr>in_totals := ts, in_status := st, issued_at := tm\<rparr>)"
  "keeps_invoice (\<lambda>r. r\<lparr>in_status := st, cancelled_at := tm\<rparr>)"
  "keeps_invoice (\<lambda>r. r\<lparr>in_commission_status := cs\<rparr>)"
  by (simp_all add: keeps_invoice_def)

lemma log_fin_event_keeps [simp]:
  "invoices (log_fin_event s a b c d e f) = invoices s"
  "invoice_items (log_fin_event s a b c d e f) = invoice_items s"
  "next_uuid (log_fin_event s a b c d e f) = next_uuid s"
  "service_jobs (log_fin_event s a b c d e f) = service_jobs s"
  "payment_records (log_fin_event s a b c d e f) = payment_records s"
  "commission_records (log_fin_event s a b c d e f) = commission_records s"
  by (simp_all add: log_fin_event_def)

lemma job_tenant_cong: "service_jobs t = service_jobs s \<Longrightarrow> job_tenant t = job_tenant s"
  by (simp add: job_tenant_def fun_eq_iff)

lemma opened_effect:
  fixes s t u :: "'a billing_db_scheme"
  assumes wf: "invoice_wf s" and iv: "in_id iv = next_uuid s" "active_invoices s (in_job_id iv) = []"
      "job_tenant s (in_job_id iv) = Some (Some (in_tenant_id iv))"
    and u: "adds_lines (in_id iv) (insert_invoice s iv) u" and f: "keeps_invoice f"
    and t: "invoices t = update_where (\<lambda>r. in_id r = in_id iv) f (invoices u)" "invoice_items t = invoice_items u"
      "next_uuid u \<le> next_uuid t" "service_jobs t = service_jobs u"
  shows "invoice_effect s t"
proof -
  obtain new where new: "invoice_items u = invoice_items (insert_invoice s iv) @ new" "\<forall>x \<in> set new. ii_invoice_id x = in_id iv"
    using adds_lines_items [OF u] by blast
  note k = adds_lines_keeps [OF u]
  have "update_where (\<lambda>r. in_id r = in_id iv) f (invoices s) = invoices s"
    using wf iv(1) by (intro update_where_none) (auto simp: invoice_wf_def)
  with t(1) k(1) have "invoices t = invoices s @ [f iv]" by (simp add: insert_invoice_def)
  moreover from t(4) k(2) have "job_tenant t = job_tenant s" by (simp add: insert_invoice_def job_tenant_def fun_eq_iff)
  moreover from t(3) k(3) have "Suc (next_uuid s) \<le> next_uuid t" by (simp add: insert_invoice_def)
  ultimately show ?thesis
    using iv f new t(2)
    by (intro invoice_effect.opened [of "f iv" s t new]) (simp_all add: keeps_invoice_def insert_invoice_def)
qed

lemma changed_effect:
  fixes s t u :: "'a billing_db_scheme"
  assumes iv: "get_invoice_row s iid = Inr iv" and u: "adds_lines (in_id iv) s u" and f: "keeps_invoice f"
    and st: "in_status (f iv) = in_status iv \<or>
      in_status (f iv) \<in> set (INVOICE_TRANSITIONS (in_status iv)) \<and> in_status (f iv) \<notin> {INV_PAYMENT_PENDING, INV_FAILED}"
    and fr: "in_status iv \<notin> {INV_DRAFT, INV_FAILED} \<longrightarrow> in_totals (f iv) = in_totals iv \<and> invoice_items u = invoice_items s"
    and t: "invoices t = update_where (\<lambda>r. in_id r = in_id iv) f (invoices u)" "invoice_items t = invoice_items u"
      "next_uuid u \<le> next_uuid t" "job_tenant t = job_tenant u"
  shows "invoice_effect s t"
proof -
  obtain new where new: "invoice_items u = invoice_items s @ new" "\<forall>x \<in> set new. ii_invoice_id x = in_id iv"
    using adds_lines_items [OF u] by blast
  note k = adds_lines_keeps [OF u] and row = get_invoice_row_Inr [OF iv]
  show ?thesis
    by (rule invoice_effect.changed [of s iid iv f new t])
       (use row f st fr new t k in \<open>auto simp: job_tenant_def\<close>)
qed

lemma assert_invoice_transition_Inr:
  "assert_invoice_transition iv st = Inr u \<longleftrightarrow> st \<in> set (INVOICE_TRANSITIONS (in_status iv))"
  by (simp add: assert_invoice_transition_def)

lemma first_job_tenant: "filter (\<lambda>j. j_id j = jid) (service_jobs s) = job # js \<Longrightarrow> j_id job = jid \<and> job_tenant s jid = Some (j_tenant_id job)"
  by (auto simp: job_tenant_def filter_eq_Cons_iff)

lemma new_invoice_simps [simp]:
  "in_id (new_invoice iid job qid tid c src) = iid" "in_job_id (new_invoice iid job qid tid c src) = j_id job"
  "in_tenant_id (new_invoice iid job qid tid c src) = tid" "in_status (new_invoice iid job qid tid c src) = INV_DRAFT"
  "invoice_source (new_invoice iid job qid tid c src) = src"
  by (simp_all add: new_invoice_def)

lemma seed_lines_adds: "seed_lines s iv quote = Inr t \<Longrightarrow> adds_lines (in_id iv) s t"
  by (auto simp: seed_lines_def split: option.splits if_splits intro: copy_from_quote_adds copy_from_booking_adds)

lemma seed_closing_lines_adds: "seed_closing_lines s iv quote p = Inr t \<Longrightarrow> adds_lines (in_id iv) s t"
  by (auto simp: seed_closing_lines_def bind_res_Inr split: option.splits if_splits
      intro: copy_from_quote_adds copy_from_booking_adds adds_lines_trans [OF copy_from_booking_adds copy_from_quote_adds])

lemma create_invoice_effect:
  assumes wf: "invoice_wf s" and c: "create_invoice s jid tid source quote_id = Inr (t, row)"
  shows "invoice_effect s t"
proof -
  from c obtain job quote customer iv s2 s4 where
    job: "get_invoice_job s jid = Inr job" "j_tenant_id job = Some tid" "active_invoices s (j_id job) = []"
    and iv: "iv = new_invoice (next_uuid s) job quote_id tid customer source"
    and s2: "seed_lines (insert_invoice s iv) iv quote = Inr s2"
    and s4: "refresh_totals (fst (add_approved_parts s2 iv)) iv = Inr s4"
    and t: "t = log_fin_event s4 ''invoice'' (in_id iv) tid FEV_INVOICE_CREATED ''staff'' None"
    by (auto simp: create_invoice_def bind_res_Inr Let_def one_or_none_None split: if_splits)
  from refresh_totals_Inr [OF s4] obtain ts where
    ts: "s4 = set_invoice (fst (add_approved_parts s2 iv)) (in_id iv) (\<lambda>r. r\<lparr>in_totals := ts\<rparr>)" by blast
  have u: "adds_lines (in_id iv) (insert_invoice s iv) (fst (add_approved_parts s2 iv))"
    using seed_lines_adds [OF s2] add_approved_parts_adds [of iv s2] by (rule adds_lines_trans)
  from job(1) have "filter (\<lambda>j. j_id j = jid) (service_jobs s) = [job]"
    by (auto simp: get_invoice_job_def job_by_id_def bind_res_Inr require_Inr one_or_none_Some)
  with job(2) have "job_tenant s (j_id job) = Some (Some tid)" by (auto dest: first_job_tenant)
  with job(3) show ?thesis
    by (intro opened_effect [OF wf _ _ _ u, where f = "\<lambda>r. r\<lparr>in_totals := ts\<rparr>"]) (simp_all add: t ts iv)
qed

text \<open>Approved parts joined at issue: the totals are stored again when a line was added.\<close>

lemma parts_at_issue:
  assumes "(let (s1, added) = add_approved_parts s iv in if added > 0 then refresh_totals s1 iv else Inr s1) = Inr u"
  obtains f where "keeps_invoice f" "\<forall>r. in_status (f r) = in_status r"
    "adds_lines (in_id iv) s (fst (add_approved_parts s iv))"
    "u = set_invoice (fst (add_approved_parts s iv)) (in_id iv) f"
proof (cases "snd (add_approved_parts s iv) > 0")
  case True
  with assms have "refresh_totals (fst (add_approved_parts s iv)) iv = Inr u" by (simp add: split_beta)
  with refresh_totals_Inr obtain ts where "u = set_invoice (fst (add_approved_parts s iv)) (in_id iv) (\<lambda>r. r\<lparr>in_totals := ts\<rparr>)"
    by blast
  then show thesis by (intro that [of "\<lambda>r. r\<lparr>in_totals := ts\<rparr>"]) (simp_all add: add_approved_parts_adds)
next
  case False
  with assms have "u = fst (add_approved_parts s iv)" by (simp add: split_beta)
  moreover have "update_where p (\<lambda>r. r) xs = xs" for p :: "invoice \<Rightarrow> bool" and xs by (induction xs) auto
  ultimately show thesis
    by (intro that [of "\<lambda>r. r"]) (simp_all add: keeps_invoice_def add_approved_parts_adds)
qed

lemma issue_effect:
  assumes "get_invoice_row s iid = Inr iv" and "INV_ISSUED \<in> set (INVOICE_TRANSITIONS (in_status iv))"
    and "(let (s1, added) = add_approved_parts s iv in if added > 0 then refresh_totals s1 iv else Inr s1) = Inr u"
    and "invoices t = update_where (\<lambda>r. in_id r = in_id iv) (\<lambda>r. r\<lparr>in_status := INV_ISSUED, issued_at := Some now\<rparr>) (invoices u)"
    and "invoice_items t = invoice_items u" "next_uuid t = next_uuid u" "job_tenant t = job_tenant u"
  shows "invoice_effect s t"
proof -
  from assms(3) obtain f where f: "keeps_invoice f" "adds_lines (in_id iv) s (fst (add_approved_parts s iv))"
    "u = set_invoice (fst (add_approved_parts s iv)) (in_id iv) f" by (rule parts_at_issue)
  from assms(2) have dr: "in_status iv \<in> {INV_DRAFT, INV_FAILED}" by (cases "in_status iv") simp_all
  show ?thesis
    by (rule changed_effect [OF assms(1) f(2), where f = "\<lambda>r. (f r)\<lparr>in_status := INV_ISSUED, issued_at := Some now\<rparr>"])
       (use f assms dr in \<open>auto simp: keeps_invoice_def update_where_twice job_tenant_def\<close>)
qed

lemma job_tenant_status [simp]:
  "job_tenant (s\<lparr>service_jobs := update_where p (\<lambda>j. j\<lparr>j_status := st\<rparr>) (service_jobs s)\<rparr>) = job_tenant s"
proof
  fix jid
  have "first_row (filter (\<lambda>j. j_id j = jid) (update_where p (\<lambda>j. j\<lparr>j_status := st\<rparr>) (service_jobs s))) =
      map_option (\<lambda>j. if p j then j\<lparr>j_status := st\<rparr> else j) (first_row (filter (\<lambda>j. j_id j = jid) (service_jobs s)))"
    by (rule first_row_update_where) simp
  then show "job_tenant (s\<lparr>service_jobs := update_where p (\<lambda>j. j\<lparr>j_status := st\<rparr>) (service_jobs s)\<rparr>) jid = job_tenant s jid"
    by (cases "first_row (filter (\<lambda>j. j_id j = jid) (service_jobs s))") (auto simp: job_tenant_def)
qed

lemma issue_invoice_effect:
  assumes "issue_invoice s now iid tid = Inr (t, row)"
  shows "invoice_effect s t"
proof -
  from assms obtain iv u where iv: "get_invoice_row s iid = Inr iv" "INV_ISSUED \<in> set (INVOICE_TRANSITIONS (in_status iv))"
    and u: "(let (s1, added) = add_approved_parts s iv in if added > 0 then refresh_totals s1 iv else Inr s1) = Inr u"
    and t: "t = log_fin_event ((set_invoice u (in_id iv) (\<lambda>r. r\<lparr>in_status := INV_ISSUED, issued_at := Some now\<rparr>))
        \<lparr>service_jobs := update_where (\<lambda>j. j_id j = in_job_id iv) (\<lambda>j. j\<lparr>j_status := JS_INVOICE_ISSUED\<rparr>) (service_jobs u)\<rparr>)
        ''invoice'' (in_id iv) (in_tenant_id iv) FEV_INVOICE_ISSUED ''staff'' None"
    by (auto simp: issue_invoice_def bind_res_Inr assert_invoice_transition_Inr Let_def split: if_splits)
  have "job_tenant t = job_tenant u"
    unfolding t by (rule trans [OF job_tenant_cong job_tenant_status]) simp
  then show ?thesis by (intro issue_effect [OF iv u]) (simp_all add: t)
qed

lemma cancel_invoice_effect:
  assumes "cancel_invoice s now iid tid reason = Inr (t, row)"
  shows "invoice_effect s t"
proof -
  from assms obtain iv where iv: "get_invoice_row s iid = Inr iv" "INV_CANCELLED \<in> set (INVOICE_TRANSITIONS (in_status iv))"
    and t: "t = log_fin_event (set_invoice s (in_id iv) (\<lambda>r. r\<lparr>in_status := INV_CANCELLED, cancelled_at := Some now\<rparr>))
        ''invoice'' (in_id iv) (in_tenant_id iv) FEV_INVOICE_CANCELLED ''staff'' reason"
    by (auto simp: cancel_invoice_def bind_res_Inr assert_invoice_transition_Inr Let_def)
  show ?thesis
    by (rule changed_effect [OF iv(1) adds_lines_refl, where f = "\<lambda>r. r\<lparr>in_status := INV_CANCELLED, cancelled_at := Some now\<rparr>"])
       (use iv in \<open>simp_all add: t job_tenant_def fun_eq_iff insert_line_def\<close>)
qed

lemma invoice_add_item_effect:
  assumes "invoice_add_item s iid tid ty name descr qty up vis = Inr t"
  shows "invoice_effect s t"
proof -
  from assms obtain iv where iv: "get_invoice_row s iid = Inr iv" "in_status iv = INV_DRAFT"
    and "\<exists>i. ii_invoice_id i = in_id iv \<and> refresh_totals (insert_line s i) iv = Inr t"
    unfolding invoice_add_item_def bind_res_Inr by (fastforce split: if_splits)
  then obtain i where i: "ii_invoice_id i = in_id iv" and r: "refresh_totals (insert_line s i) iv = Inr t" by blast
  from refresh_totals_Inr [OF r] obtain ts where
    t: "t = set_invoice (insert_line s i) (in_id iv) (\<lambda>r. r\<lparr>in_totals := ts\<rparr>)" by blast
  show ?thesis
    by (rule changed_effect [OF iv(1) adds_lines_insert [OF i], where f = "\<lambda>r. r\<lparr>in_totals := ts\<rparr>"])
       (use iv in \<open>simp_all add: t job_tenant_def fun_eq_iff insert_line_def\<close>)
qed

lemma mark_issued_keeps:
  "invoices (mark_issued s now iv actor) =
     update_where (\<lambda>r. in_id r = in_id iv) (\<lambda>r. r\<lparr>in_status := INV_ISSUED, issued_at := Some now\<rparr>) (invoices s)"
  "invoice_items (mark_issued s now iv actor) = invoice_items s"
  "next_uuid (mark_issued s now iv actor) = next_uuid s"
  "service_jobs (mark_issued s now iv actor) = service_jobs s"
  "payment_records (mark_issued s now iv actor) = payment_records s"
  "commission_records (mark_issued s now iv actor) = commission_records s"
  by (simp_all add: mark_issued_def)

lemma ensure_issued_cases:
  assumes "ensure_issued_for_job s now jid tid = Inr (t, row)"
  obtains (kept) iv where "t = s" "row = iv" "iv \<in> set (active_invoices s jid)" "in_status iv \<noteq> INV_DRAFT"
  | (issued) iv u where "iv \<in> set (active_invoices s jid)" "in_status iv = INV_DRAFT"
      "(let (s1, added) = add_approved_parts s iv in if added > 0 then refresh_totals s1 iv else Inr s1) = Inr u"
      "t = mark_issued u now iv ''system''" "get_invoice_row t (in_id iv) = Inr row"
  | (opened) job iv quote p s2 s4 where "filter (\<lambda>j. j_id j = jid) (service_jobs s) \<noteq> []"
      "job = hd (filter (\<lambda>j. j_id j = jid) (service_jobs s))" "j_tenant_id job = Some tid"
      "filter (\<lambda>i. in_tenant_id i = tid) (active_invoices s jid) = []"
      "in_id iv = next_uuid s" "in_job_id iv = jid" "in_tenant_id iv = tid"
      "seed_closing_lines (insert_invoice s iv) iv quote p = Inr s2"
      "refresh_totals (fst (add_approved_parts s2 iv)) iv = Inr s4"
      "t = mark_issued (log_fin_event s4 ''invoice'' (in_id iv) tid FEV_INVOICE_CREATED ''system'' None) now iv ''system''"
      "get_invoice_row t (in_id iv) = Inr row"
proof -
  let ?js = "filter (\<lambda>j. j_id j = jid) (service_jobs s)"
  from assms have js: "?js \<noteq> []" by (cases ?js) (auto simp: ensure_issued_for_job_def)
  then obtain job js' where job: "?js = job # js'" by (cases ?js) simp_all
  then have jid: "j_id job = jid" by (auto simp: filter_eq_Cons_iff)
  from assms job have ten: "j_tenant_id job = Some tid"
    by (auto simp: ensure_issued_for_job_def split: if_splits)
  let ?vs = "filter (\<lambda>i. in_tenant_id i = tid) (active_invoices s jid)"
  show thesis
  proof (cases "first_row (rev ?vs)")
    case (Some iv)
    then have iv: "iv \<in> set (active_invoices s jid)" by (auto dest!: first_row_Some_set)
    show thesis
    proof (cases "in_status iv = INV_DRAFT")
      case True
      with assms job jid ten Some iv show thesis
        by (auto simp: ensure_issued_for_job_def bind_res_Inr Let_def intro!: issued [of iv])
    next
      case False
      with assms job jid ten Some iv show thesis by (intro kept [of iv]) (auto simp: ensure_issued_for_job_def)
    qed
  next
    case None
    then have "?vs = []" by (simp add: first_row_None)
    with assms job jid ten None js show thesis
      by (auto simp: ensure_issued_for_job_def bind_res_Inr Let_def split: if_splits intro!: opened)
  qed
qed

lemma active_invoice_row:
  assumes "invoice_wf s" and "iv \<in> set (active_invoices s jid)"
  shows "get_invoice_row s (in_id iv) = Inr iv"
proof -
  have "distinct (map in_id (invoices s))" "iv \<in> set (invoices s)" using assms by (simp_all add: invoice_wf_def)
  then have "filter (\<lambda>i. in_id i = in_id iv) (invoices s) = [iv]" by (auto simp: filter_key_single)
  then show ?thesis by (simp add: get_invoice_row_def)
qed

lemma ensure_issued_effect:
  assumes wf: "invoice_wf s" and e: "ensure_issued_for_job s now jid tid = Inr (t, row)"
  shows "invoice_effect s t"
  using e
proof (cases rule: ensure_issued_cases)
  case (kept iv)
  then show ?thesis by (simp add: invoice_effect.quiet)
next
  case (issued iv u)
  show ?thesis
    by (rule issue_effect [OF active_invoice_row [OF wf issued(1)] _ issued(3)])
       (simp_all add: issued(2,4) mark_issued_keeps job_tenant_def fun_eq_iff)
next
  case (opened job iv quote p s2 s4)
  from refresh_totals_Inr [OF opened(9)] obtain ts where
    ts: "s4 = set_invoice (fst (add_approved_parts s2 iv)) (in_id iv) (\<lambda>r. r\<lparr>in_totals := ts\<rparr>)" by blast
  have u: "adds_lines (in_id iv) (insert_invoice s iv) (fst (add_approved_parts s2 iv))"
    using seed_closing_lines_adds [OF opened(8)] add_approved_parts_adds [of iv s2] by (rule adds_lines_trans)
  from opened(1,2,3) have jt: "job_tenant s jid = Some (Some tid)"
    by (cases "filter (\<lambda>j. j_id j = jid) (service_jobs s)") (simp_all add: job_tenant_def)
  have "in_tenant_id i = tid" if "i \<in> set (active_invoices s jid)" for i
    using that wf jt by (auto simp: invoice_wf_def)
  with opened(4) have "active_invoices s jid = []" by (auto simp: filter_empty_conv)
  with opened(5,6,7) jt show ?thesis
    by (intro opened_effect [OF wf _ _ _ u, where f = "\<lambda>r. r\<lparr>in_totals := ts, in_status := INV_ISSUED, issued_at := Some now\<rparr>"])
       (simp_all add: opened(10) ts mark_issued_keeps update_where_twice)
qed

text \<open>The invoice service as a state machine, next to what the rest of the system may do.\<close>

inductive invoice_step :: "'a billing_db_scheme \<Rightarrow> 'a billing_db_scheme \<Rightarrow> bool" where
  create: "create_invoice s jid tid source quote_id = Inr (t, row) \<Longrightarrow> invoice_step s t"
| ensure: "ensure_issued_for_job s now jid tid = Inr (t, row) \<Longrightarrow> invoice_step s t"
| add: "invoice_add_item s iid tid ty name descr qty up vis = Inr t \<Longrightarrow> invoice_step s t"
| issue: "issue_invoice s now iid tid = Inr (t, row) \<Longrightarrow> invoice_step s t"
| cancel: "cancel_invoice s now iid tid reason = Inr (t, row) \<Longrightarrow> invoice_step s t"

lemma invoice_step_effect: "invoice_step s t \<Longrightarrow> invoice_wf s \<Longrightarrow> invoice_effect s t"
  by (induction rule: invoice_step.induct)
     (blast dest: create_invoice_effect ensure_issued_effect invoice_add_item_effect issue_invoice_effect
        cancel_invoice_effect)+

subsection \<open>Totals\<close>

definition invoice_net :: "invoice_item list \<Rightarrow> decimal" where
  "invoice_net items = sum_list (map (\<lambda>i. line_sign (ii_item_type i) * ii_line_total i) items)"

lemma invoice_net_append [simp]: "invoice_net (xs @ ys) = invoice_net xs + invoice_net ys"
  by (simp add: invoice_net_def)

lemma total_recalculate_invoice: "it_total (recalculate_invoice items) = invoice_net items"
proof -
  define v where "v a = it_labour a + it_parts a + it_service a - it_discount a + it_tax a" for a :: invoice_totals
  have step: "v (add_invoice_line a i) = v a + line_sign (ii_item_type i) * ii_line_total i" for a i
    by (simp add: v_def add_invoice_line_def line_sign_def Let_def)
  have "v (foldl add_invoice_line a items) = v a + invoice_net items" for a
    by (induction items arbitrary: a) (simp_all add: step invoice_net_def)
  from this [of zero_invoice_totals] show ?thesis
    by (simp add: recalculate_invoice_def Let_def v_def zero_invoice_totals_def)
qed

definition part_value :: "parts_request list \<Rightarrow> decimal" where
  "part_value prs = sum_list (map (\<lambda>pr. quantize2 (of_int (pr_quantity pr) * pr_estimated_cost pr)) prs)"

lemma lines_of_parts:
  "invoice_net (map (line_of_part iid) prs) = part_value prs"
  "sum_list (map ii_line_total (map (line_of_part iid) prs)) = part_value prs"
  by (induction prs) (simp_all add: invoice_net_def line_of_part_def line_sign_def part_value_def)

lemma foldl_insert_line_items:
  "\<exists>new. foldl insert_line s is = s\<lparr>invoice_items := invoice_items s @ new, next_uuid := next_uuid s + length is\<rparr> \<and>
     list_all2 (\<lambda>a b. \<exists>n. a = b\<lparr>ii_id := n\<rparr>) new is"
proof (induction "is" arbitrary: s)
  case Nil
  show ?case by (intro exI [of _ "[]"]) simp
next
  case (Cons i "is")
  from Cons [of "insert_line s i"] obtain new where
    "foldl insert_line (insert_line s i) is = (insert_line s i)\<lparr>invoice_items := invoice_items (insert_line s i) @ new,
       next_uuid := next_uuid (insert_line s i) + length is\<rparr>"
    "list_all2 (\<lambda>a b. \<exists>n. a = b\<lparr>ii_id := n\<rparr>) new is" by blast
  moreover have "(insert_line s i)\<lparr>invoice_items := invoice_items (insert_line s i) @ new,
       next_uuid := next_uuid (insert_line s i) + length is\<rparr> =
     s\<lparr>invoice_items := invoice_items s @ i\<lparr>ii_id := next_uuid s\<rparr> # new, next_uuid := next_uuid s + length (i # is)\<rparr>"
    by (simp add: insert_line_def)
  ultimately show ?case
    by (intro exI [of _ "i\<lparr>ii_id := next_uuid s\<rparr> # new"]) auto
qed

text \<open>The lines an invoice has once its approved parts joined.\<close>

lemma add_approved_parts_items:
  fixes s :: "'a billing_db_scheme"
  assumes "s' = fst (add_approved_parts s iv)"
  obtains new where "invoice_items_of s' (in_id iv) = invoice_items_of s (in_id iv) @ new"
    "invoice_net new = part_value (unbilled_parts s iv)"
    "sum_list (map ii_line_total new) = part_value (unbilled_parts s iv)"
    "\<forall>x \<in> set new. source_parts_request_id x \<noteq> None"
    "map source_parts_request_id new = map (\<lambda>pr. Some (pr_id pr)) (unbilled_parts s iv)"
    "s' = s\<lparr>invoice_items := invoice_items s @ new, next_uuid := next_uuid s'\<rparr>"
proof -
  let ?ls = "map (line_of_part (in_id iv)) (unbilled_parts s iv)"
  obtain new where new: "s' = s\<lparr>invoice_items := invoice_items s @ new, next_uuid := next_uuid s + length ?ls\<rparr>"
    and all: "list_all2 (\<lambda>a b. \<exists>n. a = b\<lparr>ii_id := n\<rparr>) new ?ls"
    using foldl_insert_line_items [of s ?ls] assms by (auto simp: add_approved_parts_def Let_def)
  have eq: "map ii_line_total new = map ii_line_total ls" "map ii_item_type new = map ii_item_type ls"
     "map ii_invoice_id new = map ii_invoice_id ls" "map source_parts_request_id new = map source_parts_request_id ls"
    if "list_all2 (\<lambda>a b. \<exists>n. a = b\<lparr>ii_id := n\<rparr>) new ls" for ls
    using that by (induction rule: list_all2_induct) auto
  have inet: "invoice_net xs = sum_list (map2 (\<lambda>ty v. line_sign ty * v) (map ii_item_type xs) (map ii_line_total xs))" for xs
    by (induction xs) (simp_all add: invoice_net_def)
  have src: "map source_parts_request_id new = map (\<lambda>pr. Some (pr_id pr)) (unbilled_parts s iv)"
    using eq(4) [OF all] by (simp add: line_of_part_def)
  have "set (map ii_invoice_id new) \<subseteq> {in_id iv}"
    unfolding eq(3) [OF all] by (auto simp: line_of_part_def)
  then have "filter (\<lambda>i. ii_invoice_id i = in_id iv) new = new" by (auto intro: filter_True)
  then have "invoice_items_of s' (in_id iv) = invoice_items_of s (in_id iv) @ new" by (simp add: invoice_items_of_def new)
  moreover have "invoice_net new = part_value (unbilled_parts s iv)"
    using eq(1,2) [OF all] lines_of_parts(1) by (metis inet)
  moreover have "sum_list (map ii_line_total new) = part_value (unbilled_parts s iv)"
    using eq(1) [OF all] lines_of_parts(2) by metis
  moreover have "Some (pr_id pr) \<noteq> None" for pr by simp
  moreover have "\<forall>x \<in> set new. source_parts_request_id x \<noteq> None"
    using arg_cong [OF src, of set] by (auto simp: image_iff set_eq_iff)
  ultimately show thesis using src new by (intro that [of new]) simp_all
qed

lemma service_value_of_parts:
  assumes "\<forall>x \<in> set new. source_parts_request_id x \<noteq> None" and "invoice_net new = sum_list (map ii_line_total new)"
  shows "service_value_of (items @ new) = service_value_of items"
proof -
  have "filter (\<lambda>i. source_parts_request_id i \<noteq> None) new = new" using assms(1) by (rule filter_True)
  with assms(2) show ?thesis by (simp add: service_value_of_def total_recalculate_invoice)
qed

lemma invoice_platform_fee_parts:
  "invoice_platform_fee (fst (add_approved_parts s iv)) iv = invoice_platform_fee s iv"
proof -
  obtain new where n: "invoice_items_of (fst (add_approved_parts s iv)) (in_id iv) = invoice_items_of s (in_id iv) @ new"
    "invoice_net new = sum_list (map ii_line_total new)" "\<forall>x \<in> set new. source_parts_request_id x \<noteq> None"
    and s': "fst (add_approved_parts s iv) = s\<lparr>invoice_items := invoice_items s @ new, next_uuid := next_uuid (fst (add_approved_parts s iv))\<rparr>"
    using add_approved_parts_items [OF refl, of s iv] by metis
  have sv: "service_value_of (invoice_items_of (fst (add_approved_parts s iv)) (in_id iv)) = service_value_of (invoice_items_of s (in_id iv))"
    unfolding n(1) by (rule service_value_of_parts [OF n(3,2)])
  have k: "get_current_policy_by_vertical_key (s\<lparr>invoice_items := x, next_uuid := y\<rparr>) = get_current_policy_by_vertical_key s"
      "job_by_id (s\<lparr>invoice_items := x, next_uuid := y\<rparr>) = job_by_id s"
      "get_active_job_type_rule (s\<lparr>invoice_items := x, next_uuid := y\<rparr>) = get_active_job_type_rule s"
      "service_categories (s\<lparr>invoice_items := x, next_uuid := y\<rparr>) = service_categories s" for x y
    by (simp_all add: fun_eq_iff get_current_policy_by_vertical_key_def job_by_id_def get_active_job_type_rule_def
        split: option.split)
  have res: "resolve_customer_platform_fee (s\<lparr>invoice_items := x, next_uuid := y\<rparr>) c j v = resolve_customer_platform_fee s c j v" for x y c j v
    unfolding resolve_customer_platform_fee_def k by (rule refl)
  have "resolve_customer_platform_fee (fst (add_approved_parts s iv)) c j v = resolve_customer_platform_fee s c j v" for c j v
    by (subst s') (rule res)
  moreover have "service_bookings (fst (add_approved_parts s iv)) = service_bookings s"
    by (rule adds_lines_keeps [OF add_approved_parts_adds])
  ultimately show ?thesis unfolding invoice_platform_fee_def sv by (simp split: option.split)
qed

subsection \<open>A concrete database\<close>

definition demo_part :: parts_request where
  "demo_part = \<lparr>pr_id = 70, pr_job_id = 1, pr_tenant_id = 4, pr_part_name = ''pump'', pr_quantity = 2,
     pr_estimated_cost = 75, pr_reason = ''worn'', pr_status = ''customer_approved'',
     customer_approval_required = True, procurement_source = ''external'', inventory_item_id = None,
     stock_location_id = None, stock_reservation_id = None, unit_price_snapshot = None\<rparr>"

definition demo_category :: service_category where
  "demo_category = \<lparr>sc_id = 5, sc_vertical_type = Some ''cleaning'', commission_pct = Some 20\<rparr>"

definition demo_invoice :: invoice where
  "demo_invoice = \<lparr>in_id = 60, in_booking_id = 2, in_job_id = 1, in_quote_id = None, in_tenant_id = 4, in_customer_id = 3,
     in_category_id = 5, in_status = INV_DRAFT,
     in_totals = zero_invoice_totals\<lparr>it_subtotal := 500, it_service := 500, it_total := 500,
       it_platform_fee := 25, it_payable := 525\<rparr>,
     in_payment_status = PAY_STATUS_PENDING, in_commission_status = COM_PENDING, invoice_source = INV_SRC_MANUAL_FINAL,
     issued_at = None, paid_at = None, cancelled_at = None\<rparr>"

definition demo_billing :: billing_db where
  "demo_billing = (quote_db.extend demo_quotes (billing_db.fields [demo_invoice]
     [(plain_line 60 ''service'' ''repair'' 500)\<lparr>ii_id := 61\<rparr>] [demo_part] [demo_category]
     [\<lparr>tn_id = 4, tn_vertical = ''cleaning''\<rparr>] [] [] []))
     \<lparr>verticals := [\<lparr>v_id = 2, v_key = ''cleaning''\<rparr>]\<rparr>"

lemma demo_billing_simps [simp]:
  "invoices demo_billing = [demo_invoice]" "invoice_items demo_billing = [(plain_line 60 ''service'' ''repair'' 500)\<lparr>ii_id := 61\<rparr>]"
  "parts_requests demo_billing = [demo_part]" "service_categories demo_billing = [demo_category]"
  "tenants demo_billing = [\<lparr>tn_id = 4, tn_vertical = ''cleaning''\<rparr>]" "payment_records demo_billing = []"
  "commission_records demo_billing = []" "next_uuid demo_billing = 100" "financial_events demo_billing = []"
  "service_jobs demo_billing = [demo_job\<lparr>j_status := JS_QUOTE_REQUIRED\<rparr>]"
  "verticals demo_billing = [\<lparr>v_id = 2, v_key = ''cleaning''\<rparr>]" "policies demo_billing = [demo_policy]"
  "job_type_rules demo_billing = []" "quotes demo_billing = [demo_quote]"
  "quote_items demo_billing = [demo_line 51 300 True, demo_line 52 100 False]"
  "tenant_wallets demo_billing = []" "wallet_transactions demo_billing = []" "wallet_locks demo_billing = []"
  by (simp_all add: demo_billing_def billing_db.defs quote_db.defs demo_quotes_def credit_db.defs empty_credits_def
      monet_db.defs demo_monet_def job_db.defs demo_jobs_def ledger_db.defs empty_ledger_def)

lemma demo_billing_wf [simp]: "invoice_wf demo_billing"
  by (simp add: invoice_wf_def demo_invoice_def plain_line_def job_tenant_def demo_job_def)

lemma demo_invoice_row [simp]: "get_invoice_row demo_billing 60 = Inr demo_invoice"
  by (simp add: get_invoice_row_def demo_invoice_def)

lemma demo_fee:
  assumes "verticals s = [\<lparr>v_id = 2, v_key = ''cleaning''\<rparr>]" "policies s = [demo_policy]" "job_type_rules s = []"
    "service_categories s = [demo_category]" "service_jobs s = [demo_job\<lparr>j_status := st\<rparr>]"
  shows "resolve_customer_platform_fee s 5 1 500 = Inr 25"
  using assms
  by (simp add: resolve_customer_platform_fee_def demo_category_def get_current_policy_by_vertical_key_def demo_policy_def
      calculate_customer_platform_fee_def get_active_job_type_rule_def job_by_id_def demo_job_def customer_fee_minor_def
      clamp_minor_def or_num_def pct_of_def to_minor_def to_major_def Let_def)

subsection \<open>Properties\<close>

text \<open>
  approved parts are billed at exactly their approved price, once, and carry no platform fee. When the
  totals of an invoice can be computed, they can be computed again after its approved parts joined; the fee is the
  same, the total and the payable amount grow by exactly the price of the parts not yet billed, the payable amount
  is total plus fee, and a second pass adds no line.
\<close>

theorem approved_parts_carry_no_fee:
  assumes "refresh_totals s iv = Inr t" and "invoice_by_id s (in_id iv) = Some r" and "s' = fst (add_approved_parts s iv)"
  shows "\<exists>t' a b. refresh_totals s' iv = Inr t' \<and> invoice_by_id t (in_id iv) = Some a \<and> invoice_by_id t' (in_id iv) = Some b \<and>
    it_platform_fee (in_totals b) = it_platform_fee (in_totals a) \<and>
    it_total (in_totals b) = it_total (in_totals a) + part_value (unbilled_parts s iv) \<and>
    it_payable (in_totals b) = it_payable (in_totals a) + part_value (unbilled_parts s iv) \<and>
    it_payable (in_totals a) = it_total (in_totals a) + it_platform_fee (in_totals a) \<and>
    snd (add_approved_parts s' iv) = 0"
proof -
  from assms(1) obtain fee where fee: "invoice_platform_fee s iv = Inr fee"
    and t: "t = set_invoice s (in_id iv) (\<lambda>r. r\<lparr>in_totals := (recalculate_invoice (invoice_items_of s (in_id iv)))
        \<lparr>it_platform_fee := fee, it_payable := it_total (recalculate_invoice (invoice_items_of s (in_id iv))) + fee\<rparr>\<rparr>)"
    by (auto simp: refresh_totals_def bind_res_Inr Let_def)
  obtain new where n: "invoice_items_of s' (in_id iv) = invoice_items_of s (in_id iv) @ new"
    "invoice_net new = part_value (unbilled_parts s iv)" "\<forall>x \<in> set new. source_parts_request_id x \<noteq> None"
    "map source_parts_request_id new = map (\<lambda>pr. Some (pr_id pr)) (unbilled_parts s iv)"
    using add_approved_parts_items [OF assms(3)] by metis
  note k = adds_lines_keeps [OF add_approved_parts_adds [of iv s], folded assms(3)]
  let ?ts = "recalculate_invoice (invoice_items_of s' (in_id iv))"
  let ?t' = "set_invoice s' (in_id iv) (\<lambda>r. r\<lparr>in_totals := ?ts\<lparr>it_platform_fee := fee, it_payable := it_total ?ts + fee\<rparr>\<rparr>)"
  have "refresh_totals s' iv = Inr ?t'"
    using fee invoice_platform_fee_parts [of s iv] by (simp add: refresh_totals_def assms(3) Let_def)
  then have t': "refresh_totals s' iv = Inr ?t'" .
  have r': "invoice_by_id s' (in_id iv) = Some r" using assms(2) k(1) by (simp add: invoice_by_id_def)
  let ?us = "recalculate_invoice (invoice_items_of s (in_id iv))"
  let ?a = "r\<lparr>in_totals := ?us\<lparr>it_platform_fee := fee, it_payable := it_total ?us + fee\<rparr>\<rparr>"
  let ?b = "r\<lparr>in_totals := ?ts\<lparr>it_platform_fee := fee, it_payable := it_total ?ts + fee\<rparr>\<rparr>"
  have a: "invoice_by_id t (in_id iv) = Some ?a" unfolding t invoice_by_id_set [OF keeps_invoiceI(1)] using assms(2) by simp
  have b: "invoice_by_id ?t' (in_id iv) = Some ?b" unfolding invoice_by_id_set [OF keeps_invoiceI(1)] using r' by simp
  have tot: "it_total ?ts = it_total ?us + part_value (unbilled_parts s iv)"
    by (simp add: total_recalculate_invoice n(1,2))
  have none: "unbilled_parts s' iv = []"
  proof -
    have "set (billed_parts s' (in_id iv)) \<supseteq> set (map source_parts_request_id new)"
      using n(1,3) by (auto simp: billed_parts_def)
    moreover have "set (billed_parts s (in_id iv)) \<subseteq> set (billed_parts s' (in_id iv))"
      using n(1) by (auto simp: billed_parts_def)
    ultimately have "Some (pr_id pr) \<in> set (billed_parts s' (in_id iv))"
      if "pr \<in> set (unbilled_parts s iv) \<or> Some (pr_id pr) \<in> set (billed_parts s (in_id iv))" for pr
      using that unfolding n(4) by auto
    then show ?thesis by (auto simp: unbilled_parts_def k(7) filter_empty_conv)
  qed
  then have z: "snd (add_approved_parts s' iv) = 0" by (simp add: add_approved_parts_def Let_def)
  show ?thesis
    by (rule exI [of _ ?t'], rule exI [of _ ?a], rule exI [of _ ?b], intro conjI, rule t', rule a, rule b)
       (simp_all add: tot z)
qed

lemma demo_invoice_simps:
  "in_id demo_invoice = 60" "in_job_id demo_invoice = 1" "in_tenant_id demo_invoice = 4" "in_status demo_invoice = INV_DRAFT"
  "in_category_id demo_invoice = 5" "invoice_source demo_invoice = INV_SRC_MANUAL_FINAL" "in_customer_id demo_invoice = 3"
  "it_platform_fee (in_totals demo_invoice) = 25" "it_payable (in_totals demo_invoice) = 525" "it_total (in_totals demo_invoice) = 500"
  by (simp_all add: demo_invoice_def)

lemma demo_items: "invoice_items_of demo_billing 60 = [(plain_line 60 ''service'' ''repair'' 500)\<lparr>ii_id := 61\<rparr>]"
  by (simp add: invoice_items_of_def plain_line_def)

lemma demo_platform_fee: "invoice_platform_fee demo_billing demo_invoice = Inr 25"
proof -
  have "service_value_of (invoice_items_of demo_billing 60) = 500"
    by (simp add: service_value_of_def total_recalculate_invoice demo_items invoice_net_def line_sign_def plain_line_def)
  moreover have "resolve_customer_platform_fee demo_billing 5 1 500 = Inr 25" by (rule demo_fee) simp_all
  ultimately show ?thesis
    by (simp add: invoice_platform_fee_def demo_invoice_simps INV_SRC_MANUAL_FINAL_def INV_SRC_BOOKING_BASE_def)
qed

lemma demo_refresh:
  "refresh_totals demo_billing demo_invoice = Inr (set_invoice demo_billing 60 (\<lambda>r. r\<lparr>in_totals := in_totals demo_invoice\<rparr>))"
proof -
  have "recalculate_invoice (invoice_items_of demo_billing 60) =
      zero_invoice_totals\<lparr>it_subtotal := 500, it_service := 500, it_total := 500, it_payable := 500\<rparr>"
    by (simp add: demo_items recalculate_invoice_def add_invoice_line_def plain_line_def zero_invoice_totals_def Let_def)
  with demo_platform_fee show ?thesis
    by (simp add: refresh_totals_def demo_invoice_simps Let_def) (simp add: demo_invoice_def zero_invoice_totals_def)
qed

lemma demo_parts:
  "unbilled_parts demo_billing demo_invoice = [demo_part]" "snd (add_approved_parts demo_billing demo_invoice) = 1"
  by (simp_all add: add_approved_parts_def unbilled_parts_def billed_parts_def demo_invoice_simps demo_items
      plain_line_def demo_part_def PARTS_BILLABLE_STATUSES_def Let_def)

theorem approved_parts_carry_no_fee_witness:
  "\<exists>t' b. refresh_totals (fst (add_approved_parts demo_billing demo_invoice)) demo_invoice = Inr t' \<and>
     invoice_by_id t' 60 = Some b \<and> it_platform_fee (in_totals b) = 25 \<and> it_payable (in_totals b) = 675"
proof -
  have r: "invoice_by_id demo_billing (in_id demo_invoice) = Some demo_invoice" by (simp add: invoice_by_id_def)
  have pv: "part_value [demo_part] = 150" by (simp add: demo_part_def part_value_def)
  have a: "invoice_by_id (set_invoice demo_billing 60 (\<lambda>r. r\<lparr>in_totals := in_totals demo_invoice\<rparr>)) 60 = Some demo_invoice"
    by (simp add: invoice_by_id_def demo_invoice_simps)
  from approved_parts_carry_no_fee [OF demo_refresh r refl] show ?thesis
    unfolding demo_parts pv demo_invoice_simps(1) a by (auto simp: demo_invoice_simps)
qed

text \<open>
  Issuing an invoice by hand strands its job. Whatever the status of the job, a successful
  \<^verbatim>\<open>issue_invoice\<close> writes \<^verbatim>\<open>invoice_issued\<close> into it without asking the transition guard, and from there the
  guard refuses every other status for every actor.
\<close>

theorem issue_invoice_strands_job:
  assumes "issue_invoice s now iid tid = Inr (t, row)" and "j \<in> set (service_jobs t)" and "j_id j = in_job_id row"
  shows "j_status j = JS_INVOICE_ISSUED \<and>
    (\<forall>target actor. target \<noteq> JS_INVOICE_ISSUED \<longrightarrow>
       assert_transition_allowed t j target actor = Inl (ServiceOSException ''EXECUTION_INVALID_STATUS_TRANSITION''))"
proof -
  from assms(1) obtain iv u where iv: "get_invoice_row s iid = Inr iv"
    and t: "t = log_fin_event ((set_invoice u (in_id iv) (\<lambda>r. r\<lparr>in_status := INV_ISSUED, issued_at := Some now\<rparr>))
        \<lparr>service_jobs := update_where (\<lambda>j. j_id j = in_job_id iv) (\<lambda>j. j\<lparr>j_status := JS_INVOICE_ISSUED\<rparr>) (service_jobs u)\<rparr>)
        ''invoice'' (in_id iv) (in_tenant_id iv) FEV_INVOICE_ISSUED ''staff'' None"
    and u: "(let (s1, added) = add_approved_parts s iv in if added > 0 then refresh_totals s1 iv else Inr s1) = Inr u"
    and row: "get_invoice_row t (in_id iv) = Inr row"
    by (auto simp: issue_invoice_def bind_res_Inr Let_def split: if_splits)
  from u obtain f where f: "keeps_invoice f" "adds_lines (in_id iv) s (fst (add_approved_parts s iv))"
    "u = set_invoice (fst (add_approved_parts s iv)) (in_id iv) f" by (rule parts_at_issue)
  have "invoice_by_id t (in_id iv) = map_option (\<lambda>r. (f r)\<lparr>in_status := INV_ISSUED, issued_at := Some now\<rparr>) (invoice_by_id s (in_id iv))"
    using invoice_by_id_update [of "\<lambda>r. (f r)\<lparr>in_status := INV_ISSUED, issued_at := Some now\<rparr>" t "in_id iv" s "in_id iv"]
      f adds_lines_keeps(1) [OF f(2)] by (simp add: t keeps_invoice_def update_where_twice)
  with get_invoice_row_Inr(1) [OF row] get_invoice_row_Inr [OF iv] f(1) have "in_job_id row = in_job_id iv"
    by (auto simp: keeps_invoice_def)
  with assms(2,3) have "j_status j = JS_INVOICE_ISSUED" by (auto simp: t set_update_where)
  then show ?thesis by (simp add: assert_transition_allowed_def is_status_move_allowed_def)
qed

theorem issue_invoice_strands_job_witness:
  "\<exists>t row j. issue_invoice demo_billing 9 60 4 = Inr (t, row) \<and> service_jobs t = [j] \<and>
     assert_transition_allowed t j JS_COMPLETED (Some ''system'') = Inl (ServiceOSException ''EXECUTION_INVALID_STATUS_TRANSITION'')"
proof -
  let ?s' = "fst (add_approved_parts demo_billing demo_invoice)"
  obtain t' where t': "refresh_totals ?s' demo_invoice = Inr t'"
    using demo_platform_fee by (simp add: refresh_totals_def invoice_platform_fee_parts Let_def)
  obtain ts where ts: "t' = set_invoice ?s' 60 (\<lambda>r. r\<lparr>in_totals := ts\<rparr>)"
    using refresh_totals_Inr [OF t'] by (auto simp: demo_invoice_def)
  note k = adds_lines_keeps [OF add_approved_parts_adds [of demo_invoice demo_billing]]
  have "\<exists>t row. issue_invoice demo_billing 9 60 4 = Inr (t, row) \<and> row = demo_invoice\<lparr>in_totals := ts, in_status := INV_ISSUED, issued_at := Some 9\<rparr>
      \<and> service_jobs t = [demo_job\<lparr>j_status := JS_INVOICE_ISSUED\<rparr>]"
    using demo_parts(2) t' k
    by (simp add: issue_invoice_def split_beta ts get_invoice_row_def demo_invoice_simps assert_invoice_tenant_def
        assert_invoice_transition_def Let_def demo_job_def)
  then obtain t row where t: "issue_invoice demo_billing 9 60 4 = Inr (t, row)" "service_jobs t = [demo_job\<lparr>j_status := JS_INVOICE_ISSUED\<rparr>]"
    "in_job_id row = 1" by (auto simp: demo_invoice_def)
  from issue_invoice_strands_job [OF t(1), of "demo_job\<lparr>j_status := JS_INVOICE_ISSUED\<rparr>"] t(2,3)
  have "assert_transition_allowed t (demo_job\<lparr>j_status := JS_INVOICE_ISSUED\<rparr>) JS_COMPLETED (Some ''system'') =
      Inl (ServiceOSException ''EXECUTION_INVALID_STATUS_TRANSITION'')" by (simp add: demo_job_def)
  with t show ?thesis by blast
qed

end
