(* ===== verification/Payments.thy ===== *)
theory Payments
  imports Invoices
begin

section \<open>Payments and commissions (invoice_payment/payment_service.py, commission_service.py)\<close>

text \<open>
  On-site payments close an invoice and trigger the provider commission, which is debited from the
  tenant wallet of the theory Ledger. \<open>deduct_commission\<close> commits before it raises on its failure
  path, so it returns the committed state next to the result; every other operation commits once, at
  its end, and an \<open>Inl\<close> leaves the old state. The session runs with autoflush off (database.py): the
  ledger entry that \<open>debit_wallet\<close> adds has no primary key before the commit. Not kept: collector ids,
  currency, failure messages and the JSON values of financial events; the description of a wallet entry
  lacks the random invoice number.
\<close>

subsection \<open>Constants\<close>

definition VALID_PAYMENT_MODES :: "string list" where
  "VALID_PAYMENT_MODES = [''onsite_cash'', ''onsite_upi'', ''onsite_card'', ''online'', ''not_required'']"

definition DEFAULT_COMMISSION_RATE :: decimal where "DEFAULT_COMMISSION_RATE = 10"

subsection \<open>Commission rate and calculation\<close>

definition resolve_provider_commission_rate :: "'a billing_db_scheme \<Rightarrow> uuid option \<Rightarrow> decimal res" where
  "resolve_provider_commission_rate s category_id =
     (case category_id of None \<Rightarrow> Inr DEFAULT_COMMISSION_RATE
      | Some cid \<Rightarrow>
        bind_res (one_or_none (filter (\<lambda>c. sc_id c = cid) (service_categories s))) (\<lambda>row.
          case row of None \<Rightarrow> Inr DEFAULT_COMMISSION_RATE
          | Some category \<Rightarrow>
            let category_rate = commission_pct category;
                fallback = (case category_rate of Some r \<Rightarrow> r | None \<Rightarrow> DEFAULT_COMMISSION_RATE)
            in
            if \<not> truthy (sc_vertical_type category) then Inr fallback
            else bind_res (one_or_none (filter (\<lambda>v. Some (v_key v) = sc_vertical_type category) (verticals s))) (\<lambda>vertical.
              case vertical of None \<Rightarrow> Inr fallback
              | Some v \<Rightarrow>
                bind_res (get_current_policy s (v_id v)) (\<lambda>policy.
                  let hs = (sc_vertical_type category = Some ''home_services'') in
                  case policy of
                    None \<Rightarrow> Inr (if hs then 0 else fallback)
                  | Some p \<Rightarrow>
                      Inr (if provider_model p \<noteq> ''PERCENTAGE_COMMISSION'' then 0
                           else if hs then (case provider_percentage p of None \<Rightarrow> 0 | Some r \<Rightarrow> r)
                           else case category_rate of Some r \<Rightarrow> r
                             | None \<Rightarrow> (case provider_percentage p of Some r \<Rightarrow> r | None \<Rightarrow> DEFAULT_COMMISSION_RATE))))))"

definition uses_home_services_completion_ledger :: "'a billing_db_scheme \<Rightarrow> invoice \<Rightarrow> bool res" where
  "uses_home_services_completion_ledger s iv =
     bind_res (one_or_none (filter (\<lambda>t. tn_id t = in_tenant_id iv) (tenants s))) (\<lambda>row.
       Inr (given row (\<lambda>t. tn_vertical t = ''home_services'')))"

abbreviation commissions_of :: "'a billing_db_scheme \<Rightarrow> uuid \<Rightarrow> commission_record list" where
  "commissions_of s iid \<equiv> filter (\<lambda>c. cr_invoice_id c = iid) (commission_records s)"

abbreviation set_commission :: "'a billing_db_scheme \<Rightarrow> uuid \<Rightarrow> (commission_record \<Rightarrow> commission_record) \<Rightarrow> 'a billing_db_scheme" where
  "set_commission s cid f \<equiv> s\<lparr>commission_records := update_where (\<lambda>c. cr_id c = cid) f (commission_records s)\<rparr>"

definition get_commission :: "'a billing_db_scheme \<Rightarrow> uuid \<Rightarrow> commission_record res" where
  "get_commission s cid =
     bind_res (one_or_none (filter (\<lambda>c. cr_id c = cid) (commission_records s))) (require (ValueError ''INVOICE_NOT_FOUND''))"

definition commission_base :: "'a billing_db_scheme \<Rightarrow> invoice \<Rightarrow> decimal" where
  "commission_base s iv = max 0 (it_total (in_totals iv) - approved_parts_amount s (in_id iv))"

definition calculate_commission ::
  "'a billing_db_scheme \<Rightarrow> time \<Rightarrow> uuid \<Rightarrow> ('a billing_db_scheme \<times> commission_record) res" where
  "calculate_commission s now iid =
     bind_res (get_invoice_row s iid) (\<lambda>iv.
       bind_res (one_or_none (commissions_of s (in_id iv))) (\<lambda>cr.
         if given cr (\<lambda>c. cr_status c = COM_DEDUCTED) then Inl (ValueError ''COMMISSION_ALREADY_DEDUCTED'')
         else bind_res (uses_home_services_completion_ledger s iv) (\<lambda>uses.
           bind_res (if uses then Inr 0 else resolve_provider_commission_rate s (Some (in_category_id iv))) (\<lambda>rate.
             let base = commission_base s iv;
                 amount = quantize2 (base * rate / 100);
                 st = (if uses then COM_NOT_REQUIRED else COM_CALCULATED);
                 (s1, cid) = (case cr of
                     Some c \<Rightarrow> (set_commission s (cr_id c) (\<lambda>r. r\<lparr>cr_status := st, cr_base_amount := base,
                        cr_rate := rate, cr_amount := amount, cr_calculated_at := Some now\<rparr>), cr_id c)
                   | None \<Rightarrow> (s\<lparr>commission_records := commission_records s @ [\<lparr>cr_id = next_uuid s,
                        cr_invoice_id = in_id iv, cr_tenant_id = in_tenant_id iv, cr_status = st,
                        cr_base_amount = base, cr_rate = rate, cr_amount = amount,
                        cr_wallet_ledger_entry_id = None, cr_failure_code = None, cr_idempotency_key = None,
                        cr_calculated_at = Some now, cr_deducted_at = None\<rparr>], next_uuid := Suc (next_uuid s)\<rparr>,
                        next_uuid s));
                 s2 = log_fin_event s1 ''commission'' cid (in_tenant_id iv) FEV_COMMISSION_CALCULATED ''system'' None
             in bind_res (get_commission s2 cid) (\<lambda>c. Inr (s2, c))))))"

subsection \<open>Deduction\<close>

text \<open>
  What a failed \<open>debit_wallet\<close> leaves in the session: a wallet that \<open>get_wallet_locked\<close> had to create
  is flushed before the balance is found short.
\<close>

definition failed_debit_state :: "'a ledger_db_scheme \<Rightarrow> uuid \<Rightarrow> decimal \<Rightarrow> string option \<Rightarrow> 'a ledger_db_scheme" where
  "failed_debit_state s tid a key =
     (if a \<le> 0 then s
      else case txn_by_key s key of
        Inr None \<Rightarrow> (case get_wallet_locked s tid of Inr (s1, _) \<Rightarrow> s1 | Inl _ \<Rightarrow> s)
      | _ \<Rightarrow> s)"

text \<open>An entry found by its key has its primary key; one just added has none before the flush.\<close>

definition pending_id :: "'a ledger_db_scheme \<Rightarrow> string option \<Rightarrow> wallet_txn \<Rightarrow> uuid option" where
  "pending_id s key txn = (if txn_by_key s key = Inr (Some txn) then Some (t_id txn) else None)"

definition commission_deducted ::
  "'a billing_db_scheme \<Rightarrow> time \<Rightarrow> invoice \<Rightarrow> commission_record \<Rightarrow> string \<Rightarrow> uuid option \<Rightarrow> 'a billing_db_scheme" where
  "commission_deducted s now iv cr key entry =
     log_fin_event
       (update_commission_status
         (set_commission s (cr_id cr) (\<lambda>r. r\<lparr>cr_status := COM_DEDUCTED, cr_wallet_ledger_entry_id := entry,
            cr_idempotency_key := Some key, cr_deducted_at := Some now, cr_failure_code := None\<rparr>))
         (in_id iv) COM_DEDUCTED)
       ''commission'' (cr_id cr) (in_tenant_id iv) FEV_COMMISSION_DEDUCTED ''system'' None"

definition commission_failed ::
  "'a billing_db_scheme \<Rightarrow> invoice \<Rightarrow> commission_record \<Rightarrow> com_status \<Rightarrow> string \<Rightarrow> 'a billing_db_scheme" where
  "commission_failed s iv cr st fcode =
     (let s1 = log_fin_event
            (update_commission_status
              (set_commission s (cr_id cr) (\<lambda>r. r\<lparr>cr_status := st, cr_failure_code := Some fcode\<rparr>)) (in_id iv) st)
            ''commission'' (cr_id cr) (in_tenant_id iv) FEV_COMMISSION_FAILED ''system'' None
      in if st = COM_INSUFFICIENT_CREDIT
         then log_fin_event s1 ''wallet'' (in_tenant_id iv) (in_tenant_id iv) FEV_WALLET_LOW_BALANCE ''system'' None
         else s1)"

text \<open>
  After a refused \<^verbatim>\<open>NOWAIT\<close> lock PostgreSQL has aborted the transaction: the handler's own UPDATE
  raises, and nothing but an earlier commit survives.
\<close>

definition try_debit ::
  "'a billing_db_scheme \<Rightarrow> time \<Rightarrow> invoice \<Rightarrow> commission_record \<Rightarrow> string \<Rightarrow> uuid option \<Rightarrow>
   'a billing_db_scheme \<times> commission_record res" where
  "try_debit s now iv cr key actor =
     (case debit_wallet s (in_tenant_id iv) (Some (cr_amount cr)) ''commission_deduction'' (Some (str_uuid (in_id iv)))
        (Some ''invoice'') (Some ''Commission for invoice '') actor (Some key) now of
        Inr (s1, txn) \<Rightarrow>
          let s2 = commission_deducted s1 now iv cr key (pending_id s (Some key) txn)
          in (s2, get_commission s2 (cr_id cr))
      | Inl (ServiceOSException code) \<Rightarrow>
          if code = ''CONFLICT'' then (s, Inl DBAPIError)
          else
            let s1 = failed_debit_state s (in_tenant_id iv) (cr_amount cr) (Some key)
            in (if code = ''COMMISSION_WALLET_EMPTY''
                then commission_failed s1 iv cr COM_INSUFFICIENT_CREDIT ''INSUFFICIENT_CREDIT''
                else commission_failed s1 iv cr COM_FAILED ''DEDUCTION_FAILED'',
                Inl (ValueError ''COMMISSION_DEDUCTION_FAILED''))
      | Inl e \<Rightarrow> (s, Inl e))"

definition deduct_commission ::
  "'a billing_db_scheme \<Rightarrow> time \<Rightarrow> uuid \<Rightarrow> string \<Rightarrow> uuid option \<Rightarrow> 'a billing_db_scheme \<times> commission_record res" where
  "deduct_commission s now iid key actor =
     (case bind_res (get_invoice_row s iid) (\<lambda>iv.
             bind_res (one_or_none (commissions_of s (in_id iv))) (\<lambda>cr.
               case cr of Some c \<Rightarrow> Inr (s, iv, c)
               | None \<Rightarrow> bind_res (calculate_commission s now iid) (\<lambda>(s1, c). Inr (s1, iv, c)))) of
        Inl e \<Rightarrow> (s, Inl e)
      | Inr (s1, iv, cr) \<Rightarrow>
          if cr_status cr = COM_DEDUCTED then (s1, Inl (ValueError ''COMMISSION_ALREADY_DEDUCTED''))
          else if cr_status cr = COM_NOT_REQUIRED then (s1, Inr cr)
          else try_debit s1 now iv cr key actor)"

text \<open>\<open>repr\<close> is \<^verbatim>\<open>str\<close> of the timestamp of a moment, which makes the retry key.\<close>

definition retry_commission_deduction ::
  "(time \<Rightarrow> string) \<Rightarrow> 'a billing_db_scheme \<Rightarrow> time \<Rightarrow> uuid \<Rightarrow> uuid option \<Rightarrow> 'a billing_db_scheme \<times> commission_record res" where
  "retry_commission_deduction repr s now cid admin =
     (case get_commission s cid of
        Inl e \<Rightarrow> (s, Inl e)
      | Inr cr \<Rightarrow>
          if cr_status cr \<notin> {COM_FAILED, COM_INSUFFICIENT_CREDIT}
          then (s, Inl (ValueError ''COMMISSION_RETRY_NOT_ALLOWED''))
          else deduct_commission
                 (set_commission s (cr_id cr) (\<lambda>r. r\<lparr>cr_status := COM_CALCULATED, cr_failure_code := None\<rparr>))
                 now (cr_invoice_id cr) (''retry-'' @ str_uuid cid @ ''-'' @ repr now) admin)"

definition commission_reversed ::
  "'a billing_db_scheme \<Rightarrow> commission_record \<Rightarrow> invoice option \<Rightarrow> string \<Rightarrow> 'a billing_db_scheme" where
  "commission_reversed s cr row reason =
     (let s1 = set_commission s (cr_id cr) (\<lambda>r. r\<lparr>cr_status := COM_REVERSED\<rparr>)
      in case row of None \<Rightarrow> s1
         | Some iv \<Rightarrow> log_fin_event (update_commission_status s1 (in_id iv) COM_REVERSED)
             ''commission'' (cr_id cr) (in_tenant_id iv) FEV_COMMISSION_REVERSED ''admin'' (Some reason))"

definition credit_reversal ::
  "'a billing_db_scheme \<Rightarrow> time \<Rightarrow> uuid \<Rightarrow> commission_record \<Rightarrow> uuid option \<Rightarrow> string \<Rightarrow> ('a billing_db_scheme \<times> wallet_txn) res" where
  "credit_reversal s now cid cr admin reason =
     credit_wallet s (cr_tenant_id cr) (Some (cr_amount cr)) ''reversal'' (Some (str_uuid (cr_invoice_id cr)))
       (Some ''commission'') (Some (''Commission reversal: '' @ reason)) admin (Some (''reversal-'' @ str_uuid cid)) now"

definition reverse_commission ::
  "'a billing_db_scheme \<Rightarrow> time \<Rightarrow> uuid \<Rightarrow> uuid option \<Rightarrow> string \<Rightarrow> ('a billing_db_scheme \<times> commission_record) res" where
  "reverse_commission s now cid admin reason =
     (if blank reason then Inl (ValueError ''COMMISSION_REVERSAL_REASON_REQUIRED'')
      else bind_res (get_commission s cid) (\<lambda>cr.
        if cr_status cr \<noteq> COM_DEDUCTED then Inl (ValueError ''COMMISSION_NOT_REVERSIBLE'')
        else bind_res (credit_reversal s now cid cr admin reason) (\<lambda>(s1, txn).
          bind_res (one_or_none (filter (\<lambda>i. in_id i = cr_invoice_id cr) (invoices s1))) (\<lambda>row.
            let s2 = commission_reversed s1 cr row reason
            in bind_res (get_commission s2 (cr_id cr)) (\<lambda>c. Inr (s2, c))))))"

definition get_commission_status :: "'a billing_db_scheme \<Rightarrow> uuid \<Rightarrow> commission_record option res" where
  "get_commission_status s iid = one_or_none (commissions_of s iid)"

definition list_all_commissions ::
  "'a billing_db_scheme \<Rightarrow> uuid option \<Rightarrow> com_status option \<Rightarrow> nat \<Rightarrow> nat \<Rightarrow> commission_record list" where
  "list_all_commissions s tid st limit offset =
     page 500 limit offset (filter (\<lambda>c. (tid = None \<or> tid = Some (cr_tenant_id c)) \<and>
       (st = None \<or> st = Some (cr_status c))) (commission_records s))"

subsection \<open>Payments\<close>

definition best_effort_commission :: "'a billing_db_scheme \<Rightarrow> time \<Rightarrow> uuid \<Rightarrow> uuid option \<Rightarrow> 'a billing_db_scheme" where
  "best_effort_commission s now iid actor =
     fst (deduct_commission s now iid (''auto-'' @ str_uuid iid) actor)"

definition get_payment :: "'a billing_db_scheme \<Rightarrow> uuid \<Rightarrow> payment_record res" where
  "get_payment s pid =
     bind_res (one_or_none (filter (\<lambda>p. py_id p = pid) (payment_records s)))
       (require (ValueError ''PAYMENT_RECORD_NOT_FOUND''))"

abbreviation settled_payments :: "'a billing_db_scheme \<Rightarrow> uuid \<Rightarrow> payment_record list" where
  "settled_payments s iid \<equiv> filter (\<lambda>p. py_invoice_id p = iid \<and>
     py_payment_status p \<in> {PAY_STATUS_COLLECTED, PAY_STATUS_VERIFIED}) (payment_records s)"

definition onsite_payment :: "uuid \<Rightarrow> time \<Rightarrow> invoice \<Rightarrow> string \<Rightarrow> decimal \<Rightarrow> string option \<Rightarrow> payment_record" where
  "onsite_payment pid now iv mode amount proof_url =
     \<lparr>py_id = pid, py_invoice_id = in_id iv, py_job_id = in_job_id iv, py_tenant_id = in_tenant_id iv, py_customer_id = in_customer_id iv,
      py_payment_mode = mode, py_payment_status = PAY_STATUS_COLLECTED, py_collected_amount = amount,
      py_proof_media_url = proof_url, py_customer_confirmed = False, py_customer_confirmed_at = None,
      py_provider_confirmed_at = Some now, py_admin_verified_at = None, py_expected_amount = None,
      py_customer_reported_amount = None, py_customer_confirmation_action = None, py_dispute_complaint_id = None\<rparr>"

definition commit_payment :: "'a billing_db_scheme \<Rightarrow> time \<Rightarrow> invoice \<Rightarrow> payment_record \<Rightarrow> 'a billing_db_scheme" where
  "commit_payment s now iv pay =
     (let s1 = update_payment_status (s\<lparr>payment_records := payment_records s @ [pay], next_uuid := Suc (next_uuid s)\<rparr>)
                 (in_id iv) PAY_STATUS_COLLECTED (Some now);
          s2 = log_fin_event s1 ''payment'' (py_id pay) (in_tenant_id iv) FEV_PAYMENT_RECORDED ''staff'' None
      in if it_platform_fee (in_totals iv) > 0
         then log_fin_event s2 ''payment'' (py_id pay) (in_tenant_id iv) FEV_PLATFORM_CUSTOMER_FEE ''system'' None
         else s2)"

definition record_onsite_payment ::
  "'a billing_db_scheme \<Rightarrow> time \<Rightarrow> uuid \<Rightarrow> uuid \<Rightarrow> string \<Rightarrow> decimal \<Rightarrow> string option \<Rightarrow> uuid \<Rightarrow>
   ('a billing_db_scheme \<times> payment_record) res" where
  "record_onsite_payment s now iid tid mode amount proof_url user =
     (if mode \<notin> set VALID_PAYMENT_MODES then Inl (ValueError ''INVALID_PAYMENT_MODE'')
      else bind_res (get_invoice_row s iid) (\<lambda>iv.
        if in_tenant_id iv \<noteq> tid then Inl (ValueError ''INVOICE_ACCESS_DENIED'')
        else if in_status iv \<notin> {INV_ISSUED, INV_PAYMENT_PENDING} then Inl (ValueError ''INVOICE_INVALID_STATUS'')
        else if amount \<le> 0 then Inl (ValueError ''PAYMENT_AMOUNT_MISMATCH'')
        else if amount > it_payable (in_totals iv) then Inl (ValueError ''PAYMENT_AMOUNT_MISMATCH'')
        else bind_res (one_or_none (settled_payments s (in_id iv))) (\<lambda>prior.
          if prior \<noteq> None then Inl (ValueError ''PAYMENT_ALREADY_RECORDED'')
          else
            let pay = onsite_payment (next_uuid s) now iv mode amount proof_url
            in Inr (best_effort_commission (commit_payment s now iv pay) now iid (Some user), pay))))"

definition customer_confirm_payment ::
  "'a billing_db_scheme \<Rightarrow> time \<Rightarrow> uuid \<Rightarrow> uuid \<Rightarrow> ('a billing_db_scheme \<times> payment_record) res" where
  "customer_confirm_payment s now iid cid =
     bind_res (get_invoice_row s iid) (\<lambda>iv.
       if in_customer_id iv \<noteq> cid then Inl (ValueError ''PAYMENT_ACCESS_DENIED'')
       else bind_res (one_or_none (rev (filter (\<lambda>p. py_invoice_id p = in_id iv) (payment_records s)))) (\<lambda>row.
         bind_res (require (ValueError ''PAYMENT_RECORD_NOT_FOUND'') row) (\<lambda>pay.
           let s1 = log_fin_event
                 (s\<lparr>payment_records := update_where (\<lambda>p. py_id p = py_id pay)
                    (\<lambda>p. p\<lparr>py_customer_confirmed := True, py_customer_confirmed_at := Some now\<rparr>) (payment_records s)\<rparr>)
                 ''payment'' (py_id pay) (in_tenant_id iv) FEV_PAYMENT_VERIFIED ''customer'' None
           in bind_res (get_payment s1 (py_id pay)) (\<lambda>p. Inr (s1, p)))))"

definition admin_verify_payment ::
  "'a billing_db_scheme \<Rightarrow> time \<Rightarrow> uuid \<Rightarrow> ('a billing_db_scheme \<times> payment_record) res" where
  "admin_verify_payment s now pid =
     bind_res (get_payment s pid) (\<lambda>pay.
       let s1 = s\<lparr>payment_records := update_where (\<lambda>p. py_id p = py_id pay)
              (\<lambda>p. p\<lparr>py_payment_status := PAY_STATUS_VERIFIED, py_admin_verified_at := Some now\<rparr>) (payment_records s)\<rparr>
       in bind_res (one_or_none (filter (\<lambda>i. in_id i = py_invoice_id pay) (invoices s1))) (\<lambda>row.
         let s2 = (case row of None \<Rightarrow> s1
             | Some iv \<Rightarrow> log_fin_event s1 ''payment'' (py_id pay) (in_tenant_id iv) FEV_PAYMENT_VERIFIED ''admin'' None)
         in bind_res (get_payment s2 (py_id pay)) (\<lambda>p. Inr (s2, p))))"

definition get_payment_timeline :: "'a billing_db_scheme \<Rightarrow> uuid \<Rightarrow> uuid option \<Rightarrow> payment_record list" where
  "get_payment_timeline s iid tenant_id =
     rev (filter (\<lambda>p. py_invoice_id p = iid \<and> (tenant_id = None \<or> tenant_id = Some (py_tenant_id p))) (payment_records s))"

definition list_tenant_payments :: "'a billing_db_scheme \<Rightarrow> uuid \<Rightarrow> payment_record list" where
  "list_tenant_payments s tid = rev (filter (\<lambda>p. py_tenant_id p = tid) (payment_records s))"

definition list_all_payments :: "'a billing_db_scheme \<Rightarrow> uuid option \<Rightarrow> nat \<Rightarrow> nat \<Rightarrow> payment_record list" where
  "list_all_payments s tid limit offset =
     page 500 limit offset (filter (\<lambda>p. tid = None \<or> tid = Some (py_tenant_id p)) (payment_records s))"

subsection \<open>Effects on the invoice tables\<close>

lemma ledger_more_billing:
  fixes s t :: "'a billing_db_scheme"
  assumes "ledger_db.more t = ledger_db.more s"
  shows "invoices t = invoices s" and "invoice_items t = invoice_items s" and "service_jobs t = service_jobs s"
    and "payment_records t = payment_records s" and "commission_records t = commission_records s"
    and "tenants t = tenants s"
  using assms by (cases s; cases t; simp)+

lemma get_wallet_locked_more:
  "get_wallet_locked s tid = Inr (t, w) \<Longrightarrow> ledger_db.more t = ledger_db.more s \<and> next_uuid t = next_uuid s"
  by (auto simp: get_wallet_locked_def bind_res_Inr split: if_splits option.splits)

lemma debit_wallet_more:
  assumes "debit_wallet s tid amt ttype rid rtype descr actor key now = Inr (t, x)"
  shows "ledger_db.more t = ledger_db.more s \<and> next_uuid s \<le> next_uuid t"
proof -
  from assms obtain a r where a: "amt = Some a" "\<not> a \<le> 0" "txn_by_key s key = Inr r"
    by (auto simp: debit_wallet_def bind_res_Inr split: option.splits if_splits)
  show ?thesis
  proof (cases r)
    case None
    with assms a obtain s1 w where lk: "get_wallet_locked s tid = Inr (s1, w)"
      by (auto simp: debit_wallet_def bind_res_Inr)
    with assms a None get_wallet_locked_more [OF lk] show ?thesis by (auto simp: debit_wallet_def Let_def split: if_splits)
  qed (use assms a in \<open>simp add: debit_wallet_def\<close>)
qed

lemma credit_wallet_more:
  assumes "credit_wallet s tid amt ttype rid rtype descr actor key now = Inr (t, x)"
  shows "ledger_db.more t = ledger_db.more s \<and> next_uuid s \<le> next_uuid t"
proof -
  from assms obtain a r where a: "amt = Some a" "\<not> a \<le> 0" "txn_by_key s key = Inr r"
    by (auto simp: credit_wallet_def bind_res_Inr split: option.splits if_splits)
  show ?thesis
  proof (cases r)
    case None
    with assms a obtain s1 w where lk: "get_wallet_locked s tid = Inr (s1, w)"
      by (auto simp: credit_wallet_def bind_res_Inr)
    with assms a None get_wallet_locked_more [OF lk] show ?thesis by (auto simp: credit_wallet_def Let_def)
  qed (use assms a in \<open>simp add: credit_wallet_def\<close>)
qed

lemma failed_debit_state_more:
  "ledger_db.more (failed_debit_state s tid a key) = ledger_db.more s \<and> next_uuid (failed_debit_state s tid a key) = next_uuid s"
  by (auto simp: failed_debit_state_def split: sum.split option.split dest: get_wallet_locked_more)

text \<open>
  \<open>commission_only iid s t\<close>: the invoice tables are untouched except that the commission status of one
  invoice may have been written.
\<close>

definition commission_only :: "uuid \<Rightarrow> 'a billing_db_scheme \<Rightarrow> 'a billing_db_scheme \<Rightarrow> bool" where
  "commission_only iid s t \<longleftrightarrow>
     (invoices t = invoices s \<or>
      (\<exists>st. invoices t = update_where (\<lambda>r. in_id r = iid) (\<lambda>r. r\<lparr>in_commission_status := st\<rparr>) (invoices s))) \<and>
     invoice_items t = invoice_items s \<and> service_jobs t = service_jobs s \<and> payment_records t = payment_records s \<and>
     next_uuid s \<le> next_uuid t"

lemma commission_only_refl [simp]: "commission_only iid s s"
  by (simp add: commission_only_def)

lemma commission_only_effect:
  assumes "commission_only iid s t"
  shows "invoice_effect s t"
proof -
  from assms have k: "invoice_items t = invoice_items s" "next_uuid s \<le> next_uuid t" "job_tenant t = job_tenant s"
    by (simp_all add: commission_only_def job_tenant_def fun_eq_iff)
  from assms consider (same) "invoices t = invoices s"
    | (upd) st where "invoices t = update_where (\<lambda>r. in_id r = iid) (\<lambda>r. r\<lparr>in_commission_status := st\<rparr>) (invoices s)"
    by (auto simp: commission_only_def)
  then show ?thesis
  proof cases
    case same
    with k show ?thesis by (simp add: invoice_effect.quiet)
  next
    case (upd st)
    show ?thesis
    proof (cases "invoice_by_id s iid")
      case None
      then have "invoices t = invoices s"
        unfolding upd by (intro update_where_none) (auto simp: invoice_by_id_def first_row_None filter_empty_conv)
      with k show ?thesis by (simp add: invoice_effect.quiet)
    next
      case (Some iv)
      with k upd show ?thesis
        by (intro invoice_effect.changed [of s iid iv "\<lambda>r. r\<lparr>in_commission_status := st\<rparr>" "[]" t]) simp_all
    qed
  qed
qed

lemma calculate_commission_keeps:
  assumes "calculate_commission s now iid = Inr (t, c)"
  shows "invoices t = invoices s" "invoice_items t = invoice_items s" "service_jobs t = service_jobs s"
    "payment_records t = payment_records s" "next_uuid s \<le> next_uuid t" "tenant_wallets t = tenant_wallets s"
    "wallet_transactions t = wallet_transactions s" "wallet_locks t = wallet_locks s"
  using assms by (auto simp: calculate_commission_def bind_res_Inr Let_def log_fin_event_def split: option.splits if_splits)

lemma try_debit_keeps: "commission_only (in_id iv) s (fst (try_debit s now iv cr key actor))"
proof (cases "debit_wallet s (in_tenant_id iv) (Some (cr_amount cr)) ''commission_deduction'' (Some (str_uuid (in_id iv)))
        (Some ''invoice'') (Some ''Commission for invoice '') actor (Some key) now")
  case (Inr p)
  then obtain s1 txn where d: "debit_wallet s (in_tenant_id iv) (Some (cr_amount cr)) ''commission_deduction''
      (Some (str_uuid (in_id iv))) (Some ''invoice'') (Some ''Commission for invoice '') actor (Some key) now = Inr (s1, txn)"
    by (cases p) simp
  with debit_wallet_more [OF d] ledger_more_billing [of s1 s] show ?thesis
    by (simp add: try_debit_def commission_only_def commission_deducted_def update_commission_status_def Let_def) blast
next
  case (Inl e)
  let ?s1 = "failed_debit_state s (in_tenant_id iv) (cr_amount cr) (Some key)"
  have f: "commission_only (in_id iv) s (commission_failed ?s1 iv cr st fc)" for st fc
    using failed_debit_state_more [of s] ledger_more_billing [of ?s1 s]
    by (auto simp: commission_failed_def commission_only_def update_commission_status_def Let_def)
  with Inl show ?thesis by (cases e) (auto simp: try_debit_def Let_def)
qed

lemma commission_only_trans_left:
  assumes "invoices u = invoices s" "invoice_items u = invoice_items s" "service_jobs u = service_jobs s"
    "payment_records u = payment_records s" "next_uuid s \<le> next_uuid u" and "commission_only iid u t"
  shows "commission_only iid s t"
  using assms by (auto simp: commission_only_def)

lemma deduct_commission_keeps: "commission_only iid s (fst (deduct_commission s now iid key actor))"
proof (cases "bind_res (get_invoice_row s iid) (\<lambda>iv.
             bind_res (one_or_none (commissions_of s (in_id iv))) (\<lambda>cr.
               case cr of Some c \<Rightarrow> Inr (s, iv, c)
               | None \<Rightarrow> bind_res (calculate_commission s now iid) (\<lambda>(s1, c). Inr (s1, iv, c))))")
  case (Inl e)
  then show ?thesis by (simp add: deduct_commission_def)
next
  case (Inr x)
  then obtain s1 iv c where x: "x = (s1, iv, c)" "get_invoice_row s iid = Inr iv"
    and s1: "s1 = s \<or> calculate_commission s now iid = Inr (s1, c)"
    by (auto simp: bind_res_Inr split: option.splits)
  have k: "invoices s1 = invoices s" "invoice_items s1 = invoice_items s" "service_jobs s1 = service_jobs s"
    "payment_records s1 = payment_records s" "next_uuid s \<le> next_uuid s1"
    using s1 calculate_commission_keeps [of s now iid s1 c] by auto
  have "fst (deduct_commission s now iid key actor) \<in> {s1, fst (try_debit s1 now iv c key actor)}"
    using Inr by (simp add: deduct_commission_def x(1))
  moreover from get_invoice_row_Inr(2) [OF x(2)] try_debit_keeps [of iv s1 now c key actor]
  have "commission_only iid s1 (fst (try_debit s1 now iv c key actor))" by simp
  ultimately show ?thesis using commission_only_trans_left [OF k] by auto
qed

lemma retry_commission_keeps:
  "\<exists>iid. commission_only iid s (fst (retry_commission_deduction repr s now cid admin))"
proof (cases "get_commission s cid")
  case (Inl e)
  then show ?thesis by (simp add: retry_commission_deduction_def)
next
  case (Inr cr)
  let ?s1 = "set_commission s (cr_id cr) (\<lambda>r. r\<lparr>cr_status := COM_CALCULATED, cr_failure_code := None\<rparr>)"
  from Inr have "fst (retry_commission_deduction repr s now cid admin) = s \<or>
      fst (retry_commission_deduction repr s now cid admin) =
      fst (deduct_commission ?s1 now (cr_invoice_id cr) (''retry-'' @ str_uuid cid @ ''-'' @ repr now) admin)"
    by (simp add: retry_commission_deduction_def)
  moreover have "commission_only (cr_invoice_id cr) s
      (fst (deduct_commission ?s1 now (cr_invoice_id cr) (''retry-'' @ str_uuid cid @ ''-'' @ repr now) admin))"
    by (rule commission_only_trans_left [OF _ _ _ _ _ deduct_commission_keeps]) simp_all
  ultimately show ?thesis by (metis commission_only_refl)
qed

lemma reverse_commission_keeps:
  assumes "reverse_commission s now cid admin reason = Inr (t, c)"
  shows "\<exists>iid. commission_only iid s t"
proof -
  from assms obtain cr s1 txn row where d: "credit_reversal s now cid cr admin reason = Inr (s1, txn)"
    and t: "t = commission_reversed s1 cr row reason"
    by (auto simp: reverse_commission_def bind_res_Inr Let_def split: if_splits)
  note d = d [unfolded credit_reversal_def] and t = t [unfolded commission_reversed_def]
  note k = ledger_more_billing [OF conjunct1 [OF credit_wallet_more [OF d]]] conjunct2 [OF credit_wallet_more [OF d]]
  show ?thesis
  proof (cases row)
    case None
    with k show ?thesis by (simp add: t commission_only_def Let_def)
  next
    case (Some iv)
    with k show ?thesis
      by (intro exI [of _ "in_id iv"]) (auto simp: t commission_only_def update_commission_status_def Let_def)
  qed
qed

lemma commit_payment_keeps:
  "invoices (commit_payment s now iv pay) = update_where (\<lambda>r. in_id r = in_id iv)
     (\<lambda>r. r\<lparr>in_payment_status := PAY_STATUS_COLLECTED, paid_at := Some now, in_status := INV_PAYMENT_COLLECTED\<rparr>) (invoices s)"
  "invoice_items (commit_payment s now iv pay) = invoice_items s"
  "service_jobs (commit_payment s now iv pay) = service_jobs s"
  "payment_records (commit_payment s now iv pay) = payment_records s @ [pay]"
  "next_uuid (commit_payment s now iv pay) = Suc (next_uuid s)"
  "commission_records (commit_payment s now iv pay) = commission_records s"
  by (simp_all add: commit_payment_def update_payment_status_def Let_def)

lemma record_onsite_payment_cases:
  assumes "record_onsite_payment s now iid tid mode amount url user = Inr (t, pay)"
  obtains iv where "get_invoice_row s iid = Inr iv" "in_tenant_id iv = tid" "in_status iv \<in> {INV_ISSUED, INV_PAYMENT_PENDING}"
    "0 < amount" "amount \<le> it_payable (in_totals iv)" "settled_payments s iid = []"
    "pay = onsite_payment (next_uuid s) now iv mode amount url"
    "t = best_effort_commission (commit_payment s now iv pay) now iid (Some user)"
  using assms
  by (auto simp: record_onsite_payment_def bind_res_Inr one_or_none_None Let_def get_invoice_row_Inr(2) split: if_splits)

lemma commit_payment_effect:
  assumes "get_invoice_row s iid = Inr iv" and "in_status iv \<in> {INV_ISSUED, INV_PAYMENT_PENDING}"
  shows "invoice_effect s (commit_payment s now iv pay)"
  by (rule changed_effect [OF assms(1) adds_lines_refl, where f = "\<lambda>r. r\<lparr>in_payment_status := PAY_STATUS_COLLECTED,
        paid_at := Some now, in_status := INV_PAYMENT_COLLECTED\<rparr>"])
     (use assms in \<open>auto simp: keeps_invoice_def commit_payment_keeps job_tenant_def\<close>)

lemma payment_flag_keeps:
  assumes "customer_confirm_payment s now iid cid = Inr (t, p) \<or> admin_verify_payment s now pid = Inr (t, p)"
  obtains x f where "payment_records t = update_where (\<lambda>p. py_id p = x) f (payment_records s)" "invoices t = invoices s"
    "invoice_items t = invoice_items s" "service_jobs t = service_jobs s" "next_uuid t = next_uuid s"
    "\<forall>p. py_invoice_id (f p) = py_invoice_id p \<and> py_collected_amount (f p) = py_collected_amount p \<and>
       (py_payment_status (f p) = py_payment_status p \<or> py_payment_status (f p) = PAY_STATUS_VERIFIED)"
proof -
  from assms consider "customer_confirm_payment s now iid cid = Inr (t, p)" | "admin_verify_payment s now pid = Inr (t, p)"
    by blast
  then show thesis
  proof cases
    case 1
    then obtain iv row pay where "get_invoice_row s iid = Inr iv" "require (ValueError ''PAYMENT_RECORD_NOT_FOUND'') row = Inr pay"
      "one_or_none (rev (filter (\<lambda>p. py_invoice_id p = in_id iv) (payment_records s))) = Inr row"
      by (auto simp: customer_confirm_payment_def bind_res_Inr split: if_splits)
    with 1 have "t = log_fin_event
                 (s\<lparr>payment_records := update_where (\<lambda>p. py_id p = py_id pay)
                    (\<lambda>p. p\<lparr>py_customer_confirmed := True, py_customer_confirmed_at := Some now\<rparr>) (payment_records s)\<rparr>)
                 ''payment'' (py_id pay) (in_tenant_id iv) FEV_PAYMENT_VERIFIED ''customer'' None"
      by (auto simp: customer_confirm_payment_def bind_res_Inr Let_def split: if_splits)
    then show thesis
      by (intro that [of "py_id pay" "\<lambda>p. p\<lparr>py_customer_confirmed := True, py_customer_confirmed_at := Some now\<rparr>"]) simp_all
  next
    case 2
    let ?f = "\<lambda>p. p\<lparr>py_payment_status := PAY_STATUS_VERIFIED, py_admin_verified_at := Some now\<rparr>"
    from 2 obtain pay row where "get_payment s pid = Inr pay"
      "one_or_none (filter (\<lambda>i. in_id i = py_invoice_id pay) (invoices s)) = Inr row"
      by (auto simp: admin_verify_payment_def bind_res_Inr Let_def)
    with 2 have "t = (case row of None \<Rightarrow> s\<lparr>payment_records := update_where (\<lambda>p. py_id p = py_id pay) ?f (payment_records s)\<rparr>
      | Some iv \<Rightarrow> log_fin_event (s\<lparr>payment_records := update_where (\<lambda>p. py_id p = py_id pay) ?f (payment_records s)\<rparr>)
         ''payment'' (py_id pay) (in_tenant_id iv) FEV_PAYMENT_VERIFIED ''admin'' None)"
      by (auto simp: admin_verify_payment_def bind_res_Inr Let_def)
    then show thesis by (intro that [of "py_id pay" ?f]) (simp_all split: option.split)
  qed
qed

subsection \<open>Billing as a state machine\<close>

text \<open>
  Every operation of the invoice, payment and commission services, and \<open>elsewhere\<close>: what the rest of the
  system may do to the same database. It leaves the billing tables alone, moves wallets by ledger steps only,
  and keeps the tenant of a job that has an active invoice.
\<close>

definition same_wallets :: "'a ledger_db_scheme \<Rightarrow> 'a ledger_db_scheme \<Rightarrow> bool" where
  "same_wallets s t \<longleftrightarrow> tenant_wallets t = tenant_wallets s \<and> wallet_transactions t = wallet_transactions s \<and>
     next_uuid s \<le> next_uuid t"

inductive billing_step :: "'a billing_db_scheme \<Rightarrow> 'a billing_db_scheme \<Rightarrow> bool" where
  invoicing: "invoice_step s t \<Longrightarrow> billing_step s t"
| calculate: "calculate_commission s now iid = Inr (t, c) \<Longrightarrow> billing_step s t"
| deduct: "deduct_commission s now iid key actor = (t, r) \<Longrightarrow> billing_step s t"
| retry: "retry_commission_deduction repr s now cid actor = (t, r) \<Longrightarrow> billing_step s t"
| reverse: "reverse_commission s now cid actor reason = Inr (t, c) \<Longrightarrow> billing_step s t"
| pay: "record_onsite_payment s now iid tid mode amount url user = Inr (t, p) \<Longrightarrow> billing_step s t"
| confirm: "customer_confirm_payment s now iid cust = Inr (t, p) \<Longrightarrow> billing_step s t"
| verify: "admin_verify_payment s now pid = Inr (t, p) \<Longrightarrow> billing_step s t"
| elsewhere: "invoices t = invoices s \<Longrightarrow> invoice_items t = invoice_items s \<Longrightarrow> payment_records t = payment_records s \<Longrightarrow>
    next_uuid s \<le> next_uuid t \<Longrightarrow> \<forall>jid. active_invoices s jid = [] \<or> job_tenant t jid = job_tenant s jid \<Longrightarrow>
    wallet_step\<^sup>*\<^sup>* s u \<Longrightarrow> same_wallets u t \<Longrightarrow> billing_step s t"

inductive_cases billing_stepE: "billing_step s t"

lemma pay_effect:
  assumes "record_onsite_payment s now iid tid mode amount url user = Inr (t, p)"
  obtains u where "invoice_effect s u" "invoice_effect u t" "payment_records t = payment_records s @ [p]"
proof -
  from assms obtain iv where iv: "get_invoice_row s iid = Inr iv" "in_status iv \<in> {INV_ISSUED, INV_PAYMENT_PENDING}"
    and t: "t = best_effort_commission (commit_payment s now iv p) now iid (Some user)"
    by (rule record_onsite_payment_cases) blast
  have c: "commission_only iid (commit_payment s now iv p) t"
    unfolding t best_effort_commission_def by (rule deduct_commission_keeps)
  show thesis
    by (rule that [OF commit_payment_effect [OF iv] commission_only_effect [OF c]])
       (use c in \<open>simp add: commission_only_def commit_payment_keeps\<close>)
qed

lemma billing_step_effects:
  assumes "billing_step s t" and "invoice_wf s"
  shows "invoice_effect\<^sup>*\<^sup>* s t"
  using assms(1)
proof cases
  case invoicing
  with assms(2) show ?thesis by (blast intro: invoice_step_effect)
next
  case (calculate now iid c)
  from calculate_commission_keeps [OF calculate] have "commission_only iid s t" by (simp add: commission_only_def)
  then show ?thesis by (blast intro: commission_only_effect)
next
  case (deduct now iid key actor r)
  have "commission_only iid s t" using deduct_commission_keeps [of iid s now key actor] by (simp add: deduct)
  then show ?thesis by (blast intro: commission_only_effect)
next
  case (retry repr now cid actor r)
  obtain iid where "commission_only iid s t" using retry_commission_keeps [of s repr now cid actor] by (auto simp: retry)
  then show ?thesis by (blast intro: commission_only_effect)
next
  case (reverse now cid actor reason c)
  then show ?thesis by (blast dest: reverse_commission_keeps intro: commission_only_effect)
next
  case pay
  then show ?thesis by (elim pay_effect) (meson converse_rtranclp_into_rtranclp r_into_rtranclp)
next
  case (confirm now iid cust p)
  then show ?thesis by (elim payment_flag_keeps [OF disjI1]) (simp add: invoice_effect.quiet job_tenant_def r_into_rtranclp)
next
  case (verify now pid p)
  then show ?thesis by (elim payment_flag_keeps [OF disjI2]) (simp add: invoice_effect.quiet job_tenant_def r_into_rtranclp)
next
  case elsewhere
  then show ?thesis by (blast intro: invoice_effect.quiet)
qed

lemma billing_run_effects:
  "billing_step\<^sup>*\<^sup>* s t \<Longrightarrow> invoice_wf s \<Longrightarrow> invoice_effect\<^sup>*\<^sup>* s t \<and> invoice_wf t"
proof (induction rule: rtranclp_induct)
  case (step t u)
  then have t: "invoice_effect\<^sup>*\<^sup>* s t" "invoice_wf t" by simp_all
  with step.hyps(2) have "invoice_effect\<^sup>*\<^sup>* t u" by (blast intro: billing_step_effects)
  with t show ?case by (blast intro: invoice_graph.run_guard_inv rtranclp_trans)
qed simp

text \<open>An issued invoice is a snapshot: totals and lines stay, whatever becomes of its status.\<close>

lemma issued_run:
  assumes "invoice_effect\<^sup>*\<^sup>* s t" and wf: "invoice_wf s" and a: "invoice_by_id s x = Some a"
    and st: "in_status a \<notin> {INV_DRAFT, INV_FAILED}"
  shows "\<exists>b. invoice_by_id t x = Some b \<and> in_status b \<notin> {INV_DRAFT, INV_FAILED} \<and> in_totals b = in_totals a \<and>
    invoice_items_of t x = invoice_items_of s x"
  using assms(1)
proof (induction rule: rtranclp_induct)
  case base
  from a st show ?case by simp
next
  case (step t u)
  then obtain b where b: "invoice_by_id t x = Some b" "in_status b \<notin> {INV_DRAFT, INV_FAILED}" "in_totals b = in_totals a"
    "invoice_items_of t x = invoice_items_of s x" by blast
  have wt: "invoice_wf t" using step.hyps(1) wf by (rule invoice_graph.run_guard_inv)
  from invoice_effect_row [OF wt step.hyps(2) b(1)] obtain c where c: "invoice_by_id u x = Some c"
    "in_status c = in_status b \<or> in_status c \<in> set (INVOICE_TRANSITIONS (in_status b)) \<and>
       in_status c \<notin> {INV_PAYMENT_PENDING, INV_FAILED}"
    "in_totals c = in_totals b" "invoice_items_of u x = invoice_items_of t x" using b(2) by metis
  moreover have "in_status c \<noteq> INV_DRAFT" using c(2) b(2) by (cases "in_status b") auto
  ultimately show ?case using b by auto
qed

subsection \<open>Billing and the wallet ledger\<close>

definition wallet_moves :: "'a ledger_db_scheme \<Rightarrow> 'a ledger_db_scheme \<Rightarrow> bool" where
  "wallet_moves s t \<longleftrightarrow> (wallet_wf s \<longrightarrow> wallet_wf t \<and> set (wallet_transactions s) \<subseteq> set (wallet_transactions t) \<and>
     (\<forall>k. wallet_bal t k - wallet_bal s k = ledger_sum t k - ledger_sum s k))"

lemma wallet_moves_trans:
  assumes "wallet_moves s t" and "wallet_moves t u"
  shows "wallet_moves s u"
  unfolding wallet_moves_def
proof (intro impI conjI allI)
  assume "wallet_wf s"
  with assms have t: "wallet_wf t" "set (wallet_transactions s) \<subseteq> set (wallet_transactions t)" "\<And>k. wallet_bal t k - wallet_bal s k = ledger_sum t k - ledger_sum s k"
    and u: "wallet_wf u" "set (wallet_transactions t) \<subseteq> set (wallet_transactions u)" "\<And>k. wallet_bal u k - wallet_bal t k = ledger_sum u k - ledger_sum t k"
    by (auto simp: wallet_moves_def)
  show "wallet_wf u" by (rule u(1))
  show "set (wallet_transactions s) \<subseteq> set (wallet_transactions u)" using t(2) u(2) by (rule subset_trans)
  show "wallet_bal u k - wallet_bal s k = ledger_sum u k - ledger_sum s k" for k
    using t(3) [of k] u(3) [of k] by linarith
qed

lemma wallet_moves_step:
  assumes "wallet_step s t"
  shows "wallet_moves s t"
  unfolding wallet_moves_def
proof
  assume "wallet_wf s"
  with assms wallet_step_appends [OF this assms] show "wallet_wf t \<and> set (wallet_transactions s) \<subseteq> set (wallet_transactions t) \<and>
      (\<forall>k. wallet_bal t k - wallet_bal s k = ledger_sum t k - ledger_sum s k)"
    by (auto intro: wallet_step_wf wallet_step_moves)
qed

lemma wallet_moves_run: "wallet_step\<^sup>*\<^sup>* s t \<Longrightarrow> wallet_moves s t"
proof (induction rule: rtranclp_induct)
  case (step t u)
  then show ?case by (blast intro: wallet_moves_trans wallet_moves_step)
qed (simp add: wallet_moves_def)

lemma wallet_moves_same:
  assumes "same_wallets s t"
  shows "wallet_moves s t"
proof -
  have "wallet_wf s \<Longrightarrow> wallet_wf t"
    using assms by (auto simp: same_wallets_def wallet_wf_def truthy_keys_def dest: less_le_trans)
  moreover have "wallet_bal t = wallet_bal s" "ledger_sum t = ledger_sum s"
    using assms by (simp_all add: same_wallets_def wallet_bal_def ledger_sum_def fun_eq_iff)
  ultimately show ?thesis using assms by (simp add: wallet_moves_def same_wallets_def)
qed

lemma same_wallets_refl [simp]: "same_wallets s s"
  by (simp add: same_wallets_def)

lemma same_wallets_log [simp]: "same_wallets s (log_fin_event t a b c d e f) = same_wallets s t"
  by (simp add: same_wallets_def log_fin_event_def)

lemma adds_lines_same: "adds_lines iid s t \<Longrightarrow> same_wallets s t"
  by (auto simp: adds_lines_def same_wallets_def)

lemma same_wallets_trans: "same_wallets s t \<Longrightarrow> same_wallets t u \<Longrightarrow> same_wallets s u"
  by (auto simp: same_wallets_def)

lemma parts_at_issue_same:
  assumes "(let (s1, added) = add_approved_parts s iv in if added > 0 then refresh_totals s1 iv else Inr s1) = Inr u"
  shows "same_wallets s u \<and> payment_records u = payment_records s"
proof -
  from assms obtain f where f: "adds_lines (in_id iv) s (fst (add_approved_parts s iv))"
    "u = set_invoice (fst (add_approved_parts s iv)) (in_id iv) f" by (rule parts_at_issue)
  from adds_lines_same [OF f(1)] adds_lines_keeps(4) [OF f(1)] show ?thesis by (simp add: f(2) same_wallets_def)
qed

lemma mark_issued_same [simp]: "same_wallets s (mark_issued t now iv actor) = same_wallets s t"
  by (simp add: mark_issued_def) (simp add: same_wallets_def)

lemma insert_invoice_same: "same_wallets s (insert_invoice s iv)" "payment_records (insert_invoice s iv) = payment_records s"
  by (simp_all add: insert_invoice_def same_wallets_def)

lemma seeded_same:
  assumes "adds_lines (in_id iv) (insert_invoice s iv) s2" and "refresh_totals (fst (add_approved_parts s2 iv)) iv = Inr s4"
  shows "same_wallets s s4 \<and> payment_records s4 = payment_records s"
proof -
  have a: "adds_lines (in_id iv) (insert_invoice s iv) (fst (add_approved_parts s2 iv))"
    using assms(1) add_approved_parts_adds by (rule adds_lines_trans)
  from refresh_totals_Inr [OF assms(2)] obtain ts where
    "s4 = set_invoice (fst (add_approved_parts s2 iv)) (in_id iv) (\<lambda>r. r\<lparr>in_totals := ts\<rparr>)" by blast
  with same_wallets_trans [OF insert_invoice_same(1) adds_lines_same [OF a]] adds_lines_keeps(4) [OF a] insert_invoice_same(2) [of s iv]
  show ?thesis by (simp add: same_wallets_def)
qed

text \<open>Invoicing touches neither wallets nor payments.\<close>

lemma invoice_step_same: "invoice_step s t \<Longrightarrow> same_wallets s t \<and> payment_records t = payment_records s"
proof (induction rule: invoice_step.induct)
  case (create s jid tid source quote_id t row)
  then obtain iv quote s2 s4 where "seed_lines (insert_invoice s iv) iv quote = Inr s2"
    and "refresh_totals (fst (add_approved_parts s2 iv)) iv = Inr s4"
    and "t = log_fin_event s4 ''invoice'' (in_id iv) tid FEV_INVOICE_CREATED ''staff'' None"
    by (auto simp: create_invoice_def bind_res_Inr Let_def split: if_splits)
  with seeded_same [OF seed_lines_adds] show ?case by simp
next
  case (ensure s now jid tid t row)
  then show ?case
  proof (cases rule: ensure_issued_cases)
    case (opened job iv quote p s2 s4)
    with seeded_same [OF seed_closing_lines_adds [OF opened(8)] opened(9)] show ?thesis
      by (simp add: mark_issued_keeps)
  qed (simp_all add: mark_issued_keeps parts_at_issue_same)
next
  case (add s iid tid ty name descr qty up vis t)
  then obtain iv i where "refresh_totals (insert_line s i) iv = Inr t"
    unfolding invoice_add_item_def bind_res_Inr by (fastforce split: if_splits)
  with refresh_totals_Inr obtain ts where "t = set_invoice (insert_line s i) (in_id iv) (\<lambda>r. r\<lparr>in_totals := ts\<rparr>)" by blast
  then show ?case by (simp add: insert_line_def same_wallets_def)
next
  case (issue s now iid tid t row)
  then obtain iv u where
    u: "(let (s1, added) = add_approved_parts s iv in if added > 0 then refresh_totals s1 iv else Inr s1) = Inr u"
    and t: "t = log_fin_event ((set_invoice u (in_id iv) (\<lambda>r. r\<lparr>in_status := INV_ISSUED, issued_at := Some now\<rparr>))
        \<lparr>service_jobs := update_where (\<lambda>j. j_id j = in_job_id iv) (\<lambda>j. j\<lparr>j_status := JS_INVOICE_ISSUED\<rparr>) (service_jobs u)\<rparr>)
        ''invoice'' (in_id iv) (in_tenant_id iv) FEV_INVOICE_ISSUED ''staff'' None"
    by (auto simp: issue_invoice_def bind_res_Inr Let_def split: if_splits)
  from parts_at_issue_same [OF u] show ?case by (simp add: t) (simp add: same_wallets_def)
next
  case (cancel s now iid tid reason t row)
  then show ?case by (auto simp: cancel_invoice_def bind_res_Inr Let_def log_fin_event_def same_wallets_def)
qed

lemma try_debit_wallet: "wallet_moves s (fst (try_debit s now iv cr key actor))"
proof (cases "debit_wallet s (in_tenant_id iv) (Some (cr_amount cr)) ''commission_deduction'' (Some (str_uuid (in_id iv)))
        (Some ''invoice'') (Some ''Commission for invoice '') actor (Some key) now")
  case (Inr p)
  then obtain s1 txn where d: "debit_wallet s (in_tenant_id iv) (Some (cr_amount cr)) ''commission_deduction''
      (Some (str_uuid (in_id iv))) (Some ''invoice'') (Some ''Commission for invoice '') actor (Some key) now = Inr (s1, txn)"
    by (cases p) simp
  from d have "wallet_moves s s1" by (blast intro: wallet_moves_step wallet_step.debit)
  moreover have "same_wallets s1 (fst (try_debit s now iv cr key actor))"
    using d by (simp add: try_debit_def commission_deducted_def Let_def)
      (simp add: update_commission_status_def same_wallets_def)
  ultimately show ?thesis by (blast intro: wallet_moves_trans wallet_moves_same)
next
  case (Inl e)
  let ?s1 = "failed_debit_state s (in_tenant_id iv) (cr_amount cr) (Some key)"
  have "wallet_moves s ?s1"
    by (auto simp: failed_debit_state_def intro: wallet_moves_step wallet_step.ensure wallet_moves_same
        split: sum.split option.split)
  moreover have "same_wallets ?s1 (commission_failed ?s1 iv cr st fc)" for st fc
    by (simp add: commission_failed_def Let_def) (simp add: update_commission_status_def same_wallets_def)
  ultimately have "wallet_moves s (commission_failed ?s1 iv cr st fc)" for st fc
    by (blast intro: wallet_moves_trans wallet_moves_same)
  with Inl show ?thesis by (cases e) (auto simp: try_debit_def Let_def intro: wallet_moves_same)
qed

lemma deduct_commission_wallet: "wallet_moves s (fst (deduct_commission s now iid key actor))"
proof (cases "bind_res (get_invoice_row s iid) (\<lambda>iv.
             bind_res (one_or_none (commissions_of s (in_id iv))) (\<lambda>cr.
               case cr of Some c \<Rightarrow> Inr (s, iv, c)
               | None \<Rightarrow> bind_res (calculate_commission s now iid) (\<lambda>(s1, c). Inr (s1, iv, c))))")
  case (Inl e)
  then show ?thesis by (simp add: deduct_commission_def wallet_moves_same)
next
  case (Inr x)
  then obtain s1 iv c where x: "x = (s1, iv, c)" and s1: "s1 = s \<or> calculate_commission s now iid = Inr (s1, c)"
    by (auto simp: bind_res_Inr split: option.splits)
  have "same_wallets s s1"
    using s1 calculate_commission_keeps [of s now iid s1 c] by (auto simp: same_wallets_def)
  then have "wallet_moves s s1" by (rule wallet_moves_same)
  moreover have "fst (deduct_commission s now iid key actor) \<in> {s1, fst (try_debit s1 now iv c key actor)}"
    using Inr by (simp add: deduct_commission_def x)
  ultimately show ?thesis using wallet_moves_trans [OF _ try_debit_wallet [of s1 now iv c key actor]] by auto
qed

lemma retry_commission_wallet: "wallet_moves s (fst (retry_commission_deduction repr s now cid admin))"
proof (cases "get_commission s cid")
  case (Inl e)
  then show ?thesis by (simp add: retry_commission_deduction_def wallet_moves_same)
next
  case (Inr cr)
  have "same_wallets s (set_commission s (cr_id cr) (\<lambda>r. r\<lparr>cr_status := COM_CALCULATED, cr_failure_code := None\<rparr>))"
    by (simp add: same_wallets_def)
  from wallet_moves_trans [OF wallet_moves_same [OF this] deduct_commission_wallet] Inr show ?thesis
    by (simp add: retry_commission_deduction_def wallet_moves_same)
qed

lemma reverse_commission_wallet:
  assumes "reverse_commission s now cid admin reason = Inr (t, c)"
  shows "wallet_moves s t"
proof -
  from assms obtain cr s1 txn row where d: "credit_reversal s now cid cr admin reason = Inr (s1, txn)"
    and t: "t = commission_reversed s1 cr row reason"
    by (auto simp: reverse_commission_def bind_res_Inr Let_def split: if_splits)
  from d have "wallet_moves s s1" unfolding credit_reversal_def by (blast intro: wallet_moves_step wallet_step.credit)
  moreover have "same_wallets s1 t"
    by (simp add: t commission_reversed_def Let_def split: option.split) (simp add: update_commission_status_def same_wallets_def)
  ultimately show ?thesis by (blast intro: wallet_moves_trans wallet_moves_same)
qed

lemma commit_payment_same: "same_wallets s (commit_payment s now iv pay)"
  by (simp add: commit_payment_def Let_def) (simp add: update_payment_status_def same_wallets_def)

lemma payment_flag_same:
  assumes "customer_confirm_payment s now iid cid = Inr (t, p) \<or> admin_verify_payment s now pid = Inr (t, p)"
  shows "same_wallets s t"
  using assms
  by (auto simp: customer_confirm_payment_def admin_verify_payment_def bind_res_Inr Let_def log_fin_event_def same_wallets_def
      split: if_splits option.splits)

lemma billing_step_wallet:
  assumes "billing_step s t"
  shows "wallet_moves s t"
  using assms
proof cases
  case invoicing
  then show ?thesis by (blast dest: invoice_step_same intro: wallet_moves_same)
next
  case (calculate now iid c)
  with calculate_commission_keeps [OF calculate] show ?thesis by (intro wallet_moves_same) (simp add: same_wallets_def)
next
  case (deduct now iid key actor r)
  with deduct_commission_wallet [of s now iid key actor] show ?thesis by simp
next
  case (retry repr now cid actor r)
  with retry_commission_wallet [of s repr now cid actor] show ?thesis by simp
next
  case reverse
  then show ?thesis by (rule reverse_commission_wallet)
next
  case (pay now iid tid mode amount url user p)
  then show ?thesis
    by (elim record_onsite_payment_cases)
       (auto simp: best_effort_commission_def intro: wallet_moves_trans [OF wallet_moves_same deduct_commission_wallet] commit_payment_same)
next
  case confirm
  then show ?thesis by (rule wallet_moves_same [OF payment_flag_same [OF disjI1]])
next
  case verify
  then show ?thesis by (rule wallet_moves_same [OF payment_flag_same [OF disjI2]])
next
  case elsewhere
  then show ?thesis by (blast intro: wallet_moves_trans wallet_moves_run wallet_moves_same)
qed

interpretation billing: solvent_ledger wallet_wf wallet_bal ledger_sum billing_step
  by unfold_locales (use billing_step_wallet wallet_bal_nonneg in \<open>auto simp: wallet_moves_def\<close>)

subsection \<open>One payment per invoice\<close>

definition paid_ok :: "'a billing_db_scheme \<Rightarrow> payment_record \<Rightarrow> bool" where
  "paid_ok s p \<longleftrightarrow> py_payment_status p \<in> {PAY_STATUS_COLLECTED, PAY_STATUS_VERIFIED} \<and>
     given (invoice_by_id s (py_invoice_id p)) (\<lambda>iv. in_status iv \<in> {INV_PAYMENT_COLLECTED, INV_PAID} \<and>
       0 < py_collected_amount p \<and> py_collected_amount p \<le> it_payable (in_totals iv))"

abbreviation payments_of :: "'a billing_db_scheme \<Rightarrow> uuid \<Rightarrow> payment_record list" where
  "payments_of s iid \<equiv> filter (\<lambda>p. py_invoice_id p = iid) (payment_records s)"

definition payment_wf :: "'a billing_db_scheme \<Rightarrow> bool" where
  "payment_wf s \<longleftrightarrow> (\<forall>p \<in> set (payment_records s). paid_ok s p) \<and> (\<forall>iid. length (payments_of s iid) \<le> 1)"

lemma given_Some: "given x P \<longleftrightarrow> (\<exists>y. x = Some y \<and> P y)"
  by (cases x) simp_all

lemma paid_invoice_stays:
  assumes "invoice_effect\<^sup>*\<^sup>* s t" "invoice_wf s" "invoice_by_id s x = Some iv" "in_status iv \<in> {INV_PAYMENT_COLLECTED, INV_PAID}"
  shows "\<exists>iv'. invoice_by_id t x = Some iv' \<and> in_status iv' = in_status iv \<and> in_totals iv' = in_totals iv"
proof -
  from assms(4) have "in_status iv \<notin> {INV_DRAFT, INV_FAILED}" "INVOICE_TRANSITIONS (in_status iv) = []" by auto
  with issued_run [OF assms(1-3)] invoice_graph.final_forever [OF assms(1,2), of x "in_status iv"] assms(3)
  show ?thesis by (auto simp: status_of_invoice_def)
qed

lemma paid_ok_stays:
  assumes "invoice_effect\<^sup>*\<^sup>* s t" "invoice_wf s" "paid_ok s p" "py_invoice_id q = py_invoice_id p"
    "py_collected_amount q = py_collected_amount p" "py_payment_status q \<in> {py_payment_status p, PAY_STATUS_VERIFIED}"
  shows "paid_ok t q"
proof -
  from assms(3) obtain iv where iv: "invoice_by_id s (py_invoice_id p) = Some iv" "in_status iv \<in> {INV_PAYMENT_COLLECTED, INV_PAID}"
    "0 < py_collected_amount p" "py_collected_amount p \<le> it_payable (in_totals iv)"
    by (auto simp: paid_ok_def given_Some)
  from paid_invoice_stays [OF assms(1,2) iv(1,2)] iv assms(3-6) show ?thesis
    by (auto simp: paid_ok_def given_Some)
qed

lemma payment_wf_kept:
  assumes eff: "invoice_effect\<^sup>*\<^sup>* s t" and wf: "invoice_wf s" "payment_wf s"
    and pr: "payment_records t = map g (payment_records s)"
    and g: "\<forall>p. py_invoice_id (g p) = py_invoice_id p \<and> py_collected_amount (g p) = py_collected_amount p \<and>
       py_payment_status (g p) \<in> {py_payment_status p, PAY_STATUS_VERIFIED}"
  shows "payment_wf t"
proof -
  have "paid_ok t (g p)" if "p \<in> set (payment_records s)" for p
    by (rule paid_ok_stays [OF eff wf(1)]) (use that wf(2) g in \<open>auto simp: payment_wf_def\<close>)
  moreover have "length (payments_of t iid) = length (payments_of s iid)" for iid
    using g by (simp add: pr filter_map o_def)
  ultimately show ?thesis using wf(2) by (auto simp: payment_wf_def pr)
qed

lemma commission_only_payments: "commission_only iid s t \<Longrightarrow> payment_records t = payment_records s"
  by (simp add: commission_only_def)

lemma pay_wf:
  assumes p: "record_onsite_payment s now iid tid mode amount url user = Inr (t, p)"
    and wf: "invoice_wf s" "payment_wf s"
  shows "payment_wf t"
proof -
  from p obtain iv where iv: "get_invoice_row s iid = Inr iv" "in_status iv \<in> {INV_ISSUED, INV_PAYMENT_PENDING}"
    and amt: "0 < amount" "amount \<le> it_payable (in_totals iv)" and none: "settled_payments s iid = []"
    and pay: "p = onsite_payment (next_uuid s) now iv mode amount url"
    and t: "t = best_effort_commission (commit_payment s now iv p) now iid (Some user)"
    by (rule record_onsite_payment_cases) blast
  let ?u = "commit_payment s now iv p"
  have c: "commission_only iid ?u t" unfolding t best_effort_commission_def by (rule deduct_commission_keeps)
  have su: "invoice_effect\<^sup>*\<^sup>* s ?u" using commit_payment_effect [OF iv] by blast
  have ut: "invoice_effect\<^sup>*\<^sup>* ?u t" using commission_only_effect [OF c] by blast
  have u: "invoice_wf ?u" using su wf(1) by (rule invoice_graph.run_guard_inv)
  have old: "paid_ok ?u q" if "q \<in> set (payment_records s)" for q
    by (rule paid_ok_stays [OF su wf(1)]) (use that wf(2) in \<open>auto simp: payment_wf_def\<close>)
  note row = get_invoice_row_Inr [OF iv(1)]
  have "invoice_by_id ?u iid = Some (iv\<lparr>in_payment_status := PAY_STATUS_COLLECTED, paid_at := Some now, in_status := INV_PAYMENT_COLLECTED\<rparr>)"
    using invoice_by_id_update [OF _ commit_payment_keeps(1) [of s now iv p], of iid] row
    by (simp add: keeps_invoice_def)
  then have new: "paid_ok ?u p" using amt row by (simp add: paid_ok_def pay onsite_payment_def)
  have "payments_of s iid = []"
    using none wf(2) by (auto simp: payment_wf_def paid_ok_def filter_empty_conv)
  then have len: "length (payments_of ?u x) \<le> 1" for x
    using wf(2) row by (cases "x = iid") (auto simp: commit_payment_keeps payment_wf_def pay onsite_payment_def)
  have "payment_wf ?u" using old new len by (auto simp: payment_wf_def commit_payment_keeps)
  then show ?thesis
    by (rule payment_wf_kept [OF ut u, where g = "\<lambda>p. p"]) (simp_all add: commission_only_payments [OF c])
qed

lemma payment_flag_wf:
  assumes "customer_confirm_payment s now iid cid = Inr (t, p) \<or> admin_verify_payment s now pid = Inr (t, p)"
    and "billing_step s t" and wf: "invoice_wf s" "payment_wf s"
  shows "payment_wf t"
proof -
  from assms(1) obtain x f where pr: "payment_records t = update_where (\<lambda>p. py_id p = x) f (payment_records s)"
    and f: "\<forall>p. py_invoice_id (f p) = py_invoice_id p \<and> py_collected_amount (f p) = py_collected_amount p \<and>
       (py_payment_status (f p) = py_payment_status p \<or> py_payment_status (f p) = PAY_STATUS_VERIFIED)"
    by (rule payment_flag_keeps) blast
  show ?thesis
    by (rule payment_wf_kept [OF billing_step_effects [OF assms(2) wf(1)] wf, where g = "\<lambda>p. if py_id p = x then f p else p"])
       (use pr f in \<open>auto simp: update_where_def\<close>)
qed

lemma billing_step_payments:
  assumes step: "billing_step s t" and wf: "invoice_wf s" "payment_wf s"
  shows "payment_wf t"
proof -
  note eff = billing_step_effects [OF step wf(1)]
  have same: "payment_records t = payment_records s \<Longrightarrow> payment_wf t"
    by (rule payment_wf_kept [OF eff wf, where g = "\<lambda>p. p"]) simp_all
  from step show ?thesis
  proof cases
    case invoicing
    then show ?thesis by (blast dest: invoice_step_same intro: same)
  next
    case calculate
    then show ?thesis by (blast dest: calculate_commission_keeps(4) intro: same)
  next
    case (deduct now iid key actor r)
    with deduct_commission_keeps [of iid s now key actor] show ?thesis by (intro same) (simp add: commission_only_def)
  next
    case (retry repr now cid actor r)
    with retry_commission_keeps [of s repr now cid actor] show ?thesis by (intro same) (auto simp: commission_only_def)
  next
    case reverse
    then show ?thesis by (blast dest: reverse_commission_keeps commission_only_payments intro: same)
  next
    case pay
    then show ?thesis using wf by (rule pay_wf)
  next
    case confirm
    then show ?thesis by (rule payment_flag_wf [OF disjI1 step wf])
  next
    case verify
    then show ?thesis by (rule payment_flag_wf [OF disjI2 step wf])
  next
    case elsewhere
    then show ?thesis by (intro same)
  qed
qed

lemma billing_run_payments:
  "billing_step\<^sup>*\<^sup>* s t \<Longrightarrow> invoice_wf s \<Longrightarrow> payment_wf s \<Longrightarrow> payment_wf t"
proof (induction rule: rtranclp_induct)
  case (step t u)
  with billing_run_effects [OF step.hyps(1)] show ?case by (blast intro: billing_step_payments)
qed

subsection \<open>Concrete databases\<close>

definition demo_issued :: billing_db where
  "demo_issued = demo_billing\<lparr>invoices := [demo_invoice\<lparr>in_status := INV_ISSUED\<rparr>]\<rparr>"

lemma demo_issued_wf [simp]: "invoice_wf demo_issued" "payment_wf demo_issued" "wallet_wf demo_issued"
  by (simp_all add: demo_issued_def invoice_wf_def demo_invoice_def plain_line_def job_tenant_def demo_job_def
      payment_wf_def wallet_wf_def truthy_keys_def)

lemma demo_issued_row: "get_invoice_row demo_issued 60 = Inr (demo_invoice\<lparr>in_status := INV_ISSUED\<rparr>)"
  "invoice_by_id demo_issued 60 = Some (demo_invoice\<lparr>in_status := INV_ISSUED\<rparr>)"
  by (simp_all add: demo_issued_def get_invoice_row_def invoice_by_id_def demo_invoice_simps)

lemma demo_issued_pay:
  "\<exists>t p. record_onsite_payment demo_issued 9 60 4 ''onsite_cash'' 100 None 7 = Inr (t, p)"
  by (simp add: record_onsite_payment_def VALID_PAYMENT_MODES_def demo_issued_row demo_invoice_simps Let_def)
     (simp add: demo_issued_def Let_def)

lemma get_invoice_row_update:
  assumes "get_invoice_row s iid = Inr iv" and "invoices t = update_where (\<lambda>r. in_id r = iid) f (invoices s)" and "keeps_invoice f"
  shows "get_invoice_row t iid = Inr (f iv)"
proof -
  from assms(1) have f: "filter (\<lambda>i. in_id i = iid) (invoices s) = [iv]"
    by (auto simp: get_invoice_row_def bind_res_Inr require_Inr one_or_none_Some)
  have "filter (\<lambda>i. in_id i = iid) (invoices t) = update_where (\<lambda>r. in_id r = iid) f (filter (\<lambda>i. in_id i = iid) (invoices s))"
    unfolding assms(2) using assms(3) by (intro filter_update_where_same) (simp add: keeps_invoice_def)
  with f filter_eq_single_mem [OF f] show ?thesis by (simp add: get_invoice_row_def)
qed

lemma get_commission_update:
  assumes "get_commission s cid = Inr c" and "commission_records t = update_where (\<lambda>r. cr_id r = cid) f (commission_records s)"
    and "\<forall>r. cr_id (f r) = cr_id r"
  shows "get_commission t cid = Inr (f c)"
proof -
  from assms(1) have c: "filter (\<lambda>r. cr_id r = cid) (commission_records s) = [c]"
    by (auto simp: get_commission_def bind_res_Inr require_Inr one_or_none_Some)
  have "filter (\<lambda>r. cr_id r = cid) (commission_records t) = update_where (\<lambda>r. cr_id r = cid) f (filter (\<lambda>r. cr_id r = cid) (commission_records s))"
    unfolding assms(2) using assms(3) by (intro filter_update_where_same) simp
  with c filter_eq_single_mem [OF c] show ?thesis by (simp add: get_commission_def)
qed

lemma commission_only_row:
  assumes "commission_only iid s t" and "get_invoice_row s iid = Inr iv"
  obtains iv' where "get_invoice_row t iid = Inr iv'" "in_status iv' = in_status iv" "in_totals iv' = in_totals iv"
    "in_tenant_id iv' = in_tenant_id iv"
proof -
  from assms(1) consider "invoices t = invoices s"
    | st where "invoices t = update_where (\<lambda>r. in_id r = iid) (\<lambda>r. r\<lparr>in_commission_status := st\<rparr>) (invoices s)"
    by (auto simp: commission_only_def)
  then show thesis
  proof cases
    case 1
    with assms(2) that [of iv] show thesis by (simp add: get_invoice_row_def)
  next
    case (2 st)
    from that [OF get_invoice_row_update [OF assms(2) 2]] show thesis by simp
  qed
qed

subsection \<open>Properties\<close>

text \<open>
  The life of an invoice. Whatever sequence of billing operations runs, the status of every invoice
  moves along \<^verbatim>\<open>INVOICE_TRANSITIONS\<close> only; a collected, paid or cancelled invoice keeps its status for ever; and a job
  never has two invoices that are not cancelled.
\<close>

theorem invoice_lifecycle:
  assumes "invoice_wf s" and "billing_step\<^sup>*\<^sup>* s t"
  shows "(\<forall>x a. status_of_invoice s x = Some a \<longrightarrow>
      (\<exists>b. status_of_invoice t x = Some b \<and> (\<lambda>p q. q \<in> set (INVOICE_TRANSITIONS p))\<^sup>*\<^sup>* a b \<and>
        (a \<in> {INV_PAYMENT_COLLECTED, INV_PAID, INV_CANCELLED} \<longrightarrow> b = a))) \<and>
    (\<forall>jid. length (active_invoices t jid) \<le> 1)"
proof -
  from billing_run_effects [OF assms(2,1)] have run: "invoice_effect\<^sup>*\<^sup>* s t" and wf: "invoice_wf t" by simp_all
  have "\<exists>b. status_of_invoice t x = Some b \<and> (\<lambda>p q. q \<in> set (INVOICE_TRANSITIONS p))\<^sup>*\<^sup>* a b \<and>
        (a \<in> {INV_PAYMENT_COLLECTED, INV_PAID, INV_CANCELLED} \<longrightarrow> b = a)" if a: "status_of_invoice s x = Some a" for x a
  proof -
    obtain b where b: "status_of_invoice t x = Some b" "(\<lambda>p q. q \<in> set (INVOICE_TRANSITIONS p))\<^sup>*\<^sup>* a b"
      using invoice_graph.run_along [OF run assms(1) a] by blast
    moreover have "a \<in> {INV_PAYMENT_COLLECTED, INV_PAID, INV_CANCELLED} \<Longrightarrow> b = a"
      using invoice_graph.final_forever [OF run assms(1) a] b(1) by auto
    ultimately show ?thesis by blast
  qed
  with wf show ?thesis by (auto simp: invoice_wf_def)
qed

theorem invoice_lifecycle_witness:
  "\<exists>t b. billing_step\<^sup>*\<^sup>* demo_issued t \<and> payment_records t \<noteq> [] \<and> status_of_invoice t 60 = Some b \<and>
     (\<lambda>p q. q \<in> set (INVOICE_TRANSITIONS p))\<^sup>*\<^sup>* INV_ISSUED b \<and> length (active_invoices t 1) \<le> 1"
proof -
  obtain t p where pay: "record_onsite_payment demo_issued 9 60 4 ''onsite_cash'' 100 None 7 = Inr (t, p)"
    using demo_issued_pay by blast
  then have run: "billing_step\<^sup>*\<^sup>* demo_issued t" and "payment_records t \<noteq> []"
    by (blast intro: billing_step.pay) (use pay in \<open>auto elim!: pay_effect\<close>)
  moreover have "status_of_invoice demo_issued 60 = Some INV_ISSUED" by (simp add: status_of_invoice_def demo_issued_row)
  ultimately show ?thesis using invoice_lifecycle [OF demo_issued_wf(1) run] by blast
qed

text \<open>
  An issued invoice is a snapshot. Once an invoice has left \<^verbatim>\<open>draft\<close> (and is not \<^verbatim>\<open>failed\<close>), no sequence of
  billing operations changes its totals or its lines, and it never becomes a draft again.
\<close>

theorem issued_invoice_frozen:
  assumes "invoice_wf s" and "invoice_by_id s x = Some a" and "in_status a \<notin> {INV_DRAFT, INV_FAILED}" and "billing_step\<^sup>*\<^sup>* s t"
  shows "\<exists>b. invoice_by_id t x = Some b \<and> in_status b \<notin> {INV_DRAFT, INV_FAILED} \<and> in_totals b = in_totals a \<and>
    invoice_items_of t x = invoice_items_of s x"
  using issued_run [OF conjunct1 [OF billing_run_effects [OF assms(4,1)]] assms(1-3)] .

theorem issued_invoice_frozen_witness:
  "\<exists>t b. billing_step\<^sup>*\<^sup>* demo_issued t \<and> payment_records t \<noteq> [] \<and> invoice_by_id t 60 = Some b \<and> it_payable (in_totals b) = 525"
proof -
  obtain t p where pay: "record_onsite_payment demo_issued 9 60 4 ''onsite_cash'' 100 None 7 = Inr (t, p)"
    using demo_issued_pay by blast
  then have run: "billing_step\<^sup>*\<^sup>* demo_issued t" and "payment_records t \<noteq> []"
    by (blast intro: billing_step.pay) (use pay in \<open>auto elim!: pay_effect\<close>)
  with issued_invoice_frozen [OF demo_issued_wf(1) demo_issued_row(2) _ run] show ?thesis
    by (auto simp: demo_invoice_simps)
qed

text \<open>
  Billing never breaks the ledger. From a database whose wallet balances equal their ledger sums, after any
  sequence of billing operations, whether they succeed or fail half-way through a commission,
  \<^verbatim>\<open>reconcile_wallet\<close> still answers that balance and ledger match, with difference zero and a non-negative balance.
\<close>

theorem billing_wallet_reconciles:
  assumes "wallet_wf s" and "\<forall>k. wallet_bal s k = ledger_sum s k" and "billing_step\<^sup>*\<^sup>* s t"
  shows "\<exists>r. reconcile_wallet t tid = Inr r \<and> rec_matches r \<and> rec_diff r = 0 \<and> 0 \<le> rec_wallet_balance r"
proof -
  from assms have "wallet_wf t" "wallet_bal t tid = ledger_sum t tid" "0 \<le> wallet_bal t tid"
    by (blast intro: billing.run_inv billing.run_reconciled billing.run_nonneg)+
  then show ?thesis by (simp add: reconcile_wallet_eq)
qed

theorem billing_wallet_reconciles_witness:
  "\<exists>t. billing_step\<^sup>*\<^sup>* demo_issued t \<and> payment_records t \<noteq> [] \<and>
     (\<exists>r. reconcile_wallet t 4 = Inr r \<and> rec_matches r \<and> rec_diff r = 0 \<and> 0 \<le> rec_wallet_balance r)"
proof -
  obtain t p where pay: "record_onsite_payment demo_issued 9 60 4 ''onsite_cash'' 100 None 7 = Inr (t, p)"
    using demo_issued_pay by blast
  then have run: "billing_step\<^sup>*\<^sup>* demo_issued t" and "payment_records t \<noteq> []"
    by (blast intro: billing_step.pay) (use pay in \<open>auto elim!: pay_effect\<close>)
  moreover have "\<forall>k. wallet_bal demo_issued k = ledger_sum demo_issued k"
    by (simp add: demo_issued_def wallet_bal_def ledger_sum_def)
  ultimately show ?thesis using billing_wallet_reconciles [OF demo_issued_wf(3) _ run] by blast
qed



text \<open>
  A partial payment closes its invoice. Any positive amount up to the payable one is accepted on an issued
  invoice with no settled payment, marks it collected, and from then on the remainder can never be
  recorded: every further payment is refused because of the invoice status.
\<close>

theorem partial_payment_closes_invoice:
  assumes "get_invoice_row s iid = Inr iv" and "in_status iv \<in> {INV_ISSUED, INV_PAYMENT_PENDING}" and "settled_payments s iid = []"
    and "0 < amount" and "amount \<le> it_payable (in_totals iv)" and "mode \<in> set VALID_PAYMENT_MODES"
    and "mode' \<in> set VALID_PAYMENT_MODES"
  shows "\<exists>t p. record_onsite_payment s now iid (in_tenant_id iv) mode amount url user = Inr (t, p) \<and>
    status_of_invoice t iid = Some INV_PAYMENT_COLLECTED \<and>
    record_onsite_payment t now' iid (in_tenant_id iv) mode' amount' url' user' = Inl (ValueError ''INVOICE_INVALID_STATUS'')"
proof -
  let ?p = "onsite_payment (next_uuid s) now iv mode amount url"
  let ?u = "commit_payment s now iv ?p"
  let ?t = "best_effort_commission ?u now iid (Some user)"
  note row = get_invoice_row_Inr [OF assms(1)]
  have ok: "record_onsite_payment s now iid (in_tenant_id iv) mode amount url user = Inr (?t, ?p)"
    using assms row by (auto simp: record_onsite_payment_def Let_def)
  have "get_invoice_row ?u iid = Inr (iv\<lparr>in_payment_status := PAY_STATUS_COLLECTED, paid_at := Some now, in_status := INV_PAYMENT_COLLECTED\<rparr>)"
    using get_invoice_row_update [OF assms(1), of ?u "\<lambda>r. r\<lparr>in_payment_status := PAY_STATUS_COLLECTED, paid_at := Some now,
      in_status := INV_PAYMENT_COLLECTED\<rparr>"] commit_payment_keeps(1) [of s now iv ?p] row(2) by (simp add: keeps_invoice_def)
  moreover have "commission_only iid ?u ?t" unfolding best_effort_commission_def by (rule deduct_commission_keeps)
  ultimately obtain iv' where iv': "get_invoice_row ?t iid = Inr iv'" "in_status iv' = INV_PAYMENT_COLLECTED"
      "in_tenant_id iv' = in_tenant_id iv" by (auto elim!: commission_only_row)
  then have "status_of_invoice ?t iid = Some INV_PAYMENT_COLLECTED"
    by (simp add: status_of_invoice_def get_invoice_row_Inr)
  moreover have "record_onsite_payment ?t now' iid (in_tenant_id iv) mode' amount' url' user' = Inl (ValueError ''INVOICE_INVALID_STATUS'')"
    using assms(7) iv' by (simp add: record_onsite_payment_def)
  ultimately show ?thesis using ok by blast
qed

theorem partial_payment_closes_invoice_witness:
  "\<exists>t p. record_onsite_payment demo_issued 9 60 4 ''onsite_cash'' 1 None 7 = Inr (t, p) \<and>
     status_of_invoice t 60 = Some INV_PAYMENT_COLLECTED \<and>
     record_onsite_payment t 10 60 4 ''onsite_cash'' 524 None 7 = Inl (ValueError ''INVOICE_INVALID_STATUS'')"
proof -
  have "settled_payments demo_issued 60 = []" by (simp add: demo_issued_def)
  from partial_payment_closes_invoice [OF demo_issued_row(1) _ this, of 1 "''onsite_cash''" "''onsite_cash''" 9 None 7 10 524 None 7]
  show ?thesis by (simp add: demo_invoice_simps VALID_PAYMENT_MODES_def)
qed

text \<open>
  a home-services provider is not charged twice. For an invoice of a tenant in the home-services vertical
  without a commission record, \<^verbatim>\<open>deduct_commission\<close> succeeds with a zero commission that is \<^verbatim>\<open>not_required\<close>, whatever
  rates are configured, without touching a wallet; and every later call, with any key, changes nothing.
\<close>

theorem home_services_commission_not_required:
  assumes "get_invoice_row s iid = Inr iv" and "filter (\<lambda>t. tn_id t = in_tenant_id iv) (tenants s) = [tn]"
    and "tn_vertical tn = ''home_services''" and "commissions_of s iid = []"
    and "\<forall>c \<in> set (commission_records s). cr_id c < next_uuid s"
  shows "\<exists>t c. deduct_commission s now iid key actor = (t, Inr c) \<and> cr_status c = COM_NOT_REQUIRED \<and> cr_amount c = 0 \<and>
    tenant_wallets t = tenant_wallets s \<and> wallet_transactions t = wallet_transactions s \<and>
    deduct_commission t now' iid key' actor' = (t, Inr c)"
proof -
  note row = get_invoice_row_Inr(2) [OF assms(1)]
  let ?c = "\<lparr>cr_id = next_uuid s, cr_invoice_id = iid, cr_tenant_id = in_tenant_id iv, cr_status = COM_NOT_REQUIRED,
     cr_base_amount = commission_base s iv, cr_rate = 0, cr_amount = 0, cr_wallet_ledger_entry_id = None, cr_failure_code = None,
     cr_idempotency_key = None, cr_calculated_at = Some now, cr_deducted_at = None\<rparr>"
  let ?t = "log_fin_event (s\<lparr>commission_records := commission_records s @ [?c], next_uuid := Suc (next_uuid s)\<rparr>)
      ''commission'' (next_uuid s) (in_tenant_id iv) FEV_COMMISSION_CALCULATED ''system'' None"
  have "filter (\<lambda>c. cr_id c = next_uuid s) (commission_records s) = []"
    using assms(5) by (auto simp: filter_empty_conv)
  then have c: "get_commission ?t (next_uuid s) = Inr ?c" by (simp add: get_commission_def)
  have calc: "calculate_commission s now iid = Inr (?t, ?c)"
    using assms(1-4) row c by (simp add: calculate_commission_def uses_home_services_completion_ledger_def Let_def)
  have first: "deduct_commission s now iid key actor = (?t, Inr ?c)"
    using assms(1,4) row calc by (simp add: deduct_commission_def)
  have "get_invoice_row ?t iid = Inr iv" using assms(1) by (simp add: get_invoice_row_def)
  moreover have "commissions_of ?t iid = [?c]" using assms(4) by simp
  ultimately have "deduct_commission ?t now' iid key' actor' = (?t, Inr ?c)"
    using row by (simp add: deduct_commission_def)
  with first show ?thesis by (intro exI [of _ ?t] exI [of _ ?c]) (simp add: log_fin_event_def)
qed

theorem home_services_commission_not_required_witness:
  "\<exists>t c. deduct_commission (demo_issued\<lparr>tenants := [\<lparr>tn_id = 4, tn_vertical = ''home_services''\<rparr>]\<rparr>) 9 60 ''k'' None = (t, Inr c) \<and>
     cr_status c = COM_NOT_REQUIRED \<and> wallet_transactions t = []"
proof -
  let ?s = "demo_issued\<lparr>tenants := [\<lparr>tn_id = 4, tn_vertical = ''home_services''\<rparr>]\<rparr>"
  have "get_invoice_row ?s 60 = Inr (demo_invoice\<lparr>in_status := INV_ISSUED\<rparr>)"
    using demo_issued_row(1) by (simp add: get_invoice_row_def)
  from home_services_commission_not_required [OF this, of "\<lparr>tn_id = 4, tn_vertical = ''home_services''\<rparr>" 9 "''k''" None 10 "''k''" None]
  show ?thesis by (auto simp: demo_invoice_simps demo_issued_def)
qed

text \<open>
  a commission is taken exactly or not at all. On a chargeable commission record, a fresh key and an
  unlocked wallet, \<^verbatim>\<open>deduct_commission\<close> succeeds exactly when the balance covers the amount: the balance drops by it, one
  ledger entry is written and the record is deducted, though never linked to that entry. Otherwise the failure is
  committed on the record, an error is raised, and neither balance nor ledger moves.
\<close>

theorem deduct_commission_exact:
  assumes "wallet_wf s" and "get_invoice_row s iid = Inr iv" and "commissions_of s iid = [c]" and "get_commission s (cr_id c) = Inr c"
    and "cr_status c \<notin> {COM_DEDUCTED, COM_NOT_REQUIRED}" and "0 < cr_amount c" and "txn_by_key s (Some key) = Inr None"
    and "in_tenant_id iv \<notin> set (wallet_locks s)"
  shows "if cr_amount c \<le> wallet_bal s (in_tenant_id iv)
    then \<exists>t c' e. deduct_commission s now iid key actor = (t, Inr c') \<and> cr_status c' = COM_DEDUCTED \<and>
      cr_wallet_ledger_entry_id c' = None \<and> wallet_transactions t = wallet_transactions s @ [e] \<and> t_amount e = - cr_amount c \<and>
      wallet_bal t = (wallet_bal s)(in_tenant_id iv := wallet_bal s (in_tenant_id iv) - cr_amount c)
    else \<exists>t. deduct_commission s now iid key actor = (t, Inl (ValueError ''COMMISSION_DEDUCTION_FAILED'')) \<and>
      get_commission t (cr_id c) = Inr (c\<lparr>cr_status := COM_INSUFFICIENT_CREDIT, cr_failure_code := Some ''INSUFFICIENT_CREDIT''\<rparr>) \<and>
      wallet_transactions t = wallet_transactions s \<and> wallet_bal t = wallet_bal s"
proof -
  note row = get_invoice_row_Inr(2) [OF assms(2)]
  have d: "deduct_commission s now iid key actor = try_debit s now iv c key actor"
    using assms(2,3,5) row by (simp add: deduct_commission_def)
  let ?args = "\<lambda>s. debit_wallet s (in_tenant_id iv) (Some (cr_amount c)) ''commission_deduction'' (Some (str_uuid (in_id iv)))
        (Some ''invoice'') (Some ''Commission for invoice '') actor (Some key) now"
  show ?thesis
  proof (cases "cr_amount c \<le> wallet_bal s (in_tenant_id iv)")
    case True
    obtain s1 e where e: "?args s = Inr (s1, e)" "posted s (in_tenant_id iv) (- cr_amount c) s1 e"
      using debit_wallet_covers [OF assms(1,6,7,8) True] by blast
    let ?t = "commission_deducted s1 now iv c key None"
    have "try_debit s now iv c key actor = (?t, get_commission ?t (cr_id c))"
      using e assms(7) by (simp add: try_debit_def pending_id_def Let_def)
    moreover have "get_commission ?t (cr_id c) = Inr (c\<lparr>cr_status := COM_DEDUCTED, cr_wallet_ledger_entry_id := None,
            cr_idempotency_key := Some key, cr_deducted_at := Some now, cr_failure_code := None\<rparr>)"
      by (rule get_commission_update [OF assms(4)]) (use e(2) ledger_more_billing(5) [of s1 s] in \<open>simp_all add: commission_deducted_def update_commission_status_def posted_def\<close>)
    moreover have "same_wallets s1 ?t" by (simp add: commission_deducted_def) (simp add: update_commission_status_def same_wallets_def)
    then have "wallet_transactions ?t = wallet_transactions s1" "wallet_bal ?t = wallet_bal s1"
      by (simp_all add: same_wallets_def wallet_bal_def fun_eq_iff)
    ultimately show ?thesis using d e(2) True by (auto simp: posted_def)
  next
    case False
    then have e: "?args s = Inl (ServiceOSException ''COMMISSION_WALLET_EMPTY'')"
      by (intro debit_wallet_short [OF assms(1,6,7,8)]) simp
    let ?s1 = "failed_debit_state s (in_tenant_id iv) (cr_amount c) (Some key)"
    let ?t = "commission_failed ?s1 iv c COM_INSUFFICIENT_CREDIT ''INSUFFICIENT_CREDIT''"
    from get_wallet_unlocked [OF assms(1,8)] obtain s1 w where lk: "get_wallet_locked s (in_tenant_id iv) = Inr (s1, w)" .
    then have s1: "?s1 = s1" using assms(6,7) by (simp add: failed_debit_state_def)
    note k = get_wallet_locked_Inr [OF assms(1) lk]
    have "try_debit s now iv c key actor = (?t, Inl (ValueError ''COMMISSION_DEDUCTION_FAILED''))"
      using e by (simp add: try_debit_def Let_def)
    moreover have "get_commission ?t (cr_id c) = Inr (c\<lparr>cr_status := COM_INSUFFICIENT_CREDIT, cr_failure_code := Some ''INSUFFICIENT_CREDIT''\<rparr>)"
      by (rule get_commission_update [OF assms(4)]) (use ledger_more_billing(5) [OF k(9)] in \<open>simp_all add: s1 commission_failed_def update_commission_status_def Let_def\<close>)
    moreover have "same_wallets s1 ?t"
      by (simp add: s1 commission_failed_def Let_def) (simp add: update_commission_status_def same_wallets_def)
    then have "wallet_transactions ?t = wallet_transactions s" "wallet_bal ?t = wallet_bal s"
      using k(5,6) by (simp_all add: same_wallets_def wallet_bal_def fun_eq_iff)
    ultimately show ?thesis using d False by auto
  qed
qed

definition demo_commission :: commission_record where
  "demo_commission = \<lparr>cr_id = 80, cr_invoice_id = 60, cr_tenant_id = 4, cr_status = COM_CALCULATED, cr_base_amount = 500,
     cr_rate = 20, cr_amount = 100, cr_wallet_ledger_entry_id = None, cr_failure_code = None, cr_idempotency_key = None,
     cr_calculated_at = Some 1, cr_deducted_at = None\<rparr>"

definition demo_funded :: "decimal \<Rightarrow> com_status \<Rightarrow> billing_db" where
  "demo_funded b st = demo_issued\<lparr>commission_records := [demo_commission\<lparr>cr_status := st\<rparr>],
     tenant_wallets := [(new_wallet 4)\<lparr>credit_balance := b, lifetime_purchased := b\<rparr>]\<rparr>"

lemma demo_funded_facts:
  "0 \<le> b \<Longrightarrow> wallet_wf (demo_funded b st)" "wallet_bal (demo_funded b st) 4 = b" "wallet_locks (demo_funded b st) = []"
  "wallet_transactions (demo_funded b st) = []" "get_invoice_row (demo_funded b st) 60 = Inr (demo_invoice\<lparr>in_status := INV_ISSUED\<rparr>)"
  "commissions_of (demo_funded b st) 60 = [demo_commission\<lparr>cr_status := st\<rparr>]"
  "get_commission (demo_funded b st) 80 = Inr (demo_commission\<lparr>cr_status := st\<rparr>)"
  "txn_by_key (demo_funded b st) (Some key) = Inr None"
  using demo_issued_row(1)
  by (simp_all add: demo_funded_def demo_issued_def wallet_wf_def new_wallet_def truthy_keys_def wallet_bal_def demo_commission_def
      get_invoice_row_def get_commission_def txn_by_key_def)

theorem deduct_commission_exact_witness:
  "(\<exists>t c. deduct_commission (demo_funded 150 COM_CALCULATED) 9 60 ''k'' None = (t, Inr c) \<and> cr_status c = COM_DEDUCTED \<and>
      cr_wallet_ledger_entry_id c = None \<and> wallet_bal t 4 = 50) \<and>
   (\<exists>t. deduct_commission (demo_funded 50 COM_CALCULATED) 9 60 ''k'' None = (t, Inl (ValueError ''COMMISSION_DEDUCTION_FAILED'')) \<and>
      wallet_bal t 4 = 50)"
proof -
  have c: "cr_id (demo_commission\<lparr>cr_status := COM_CALCULATED\<rparr>) = 80" "cr_amount (demo_commission\<lparr>cr_status := COM_CALCULATED\<rparr>) = 100"
    by (simp_all add: demo_commission_def)
  have f: "get_commission (demo_funded b COM_CALCULATED) (cr_id (demo_commission\<lparr>cr_status := COM_CALCULATED\<rparr>)) =
      Inr (demo_commission\<lparr>cr_status := COM_CALCULATED\<rparr>)" for b
    unfolding c by (rule demo_funded_facts)
  have "0 \<le> (150 :: decimal)" "0 \<le> (50 :: decimal)" by simp_all
  from deduct_commission_exact [OF demo_funded_facts(1) [OF this(1)] demo_funded_facts(5,6) f, of "''k''" 9 None]
    deduct_commission_exact [OF demo_funded_facts(1) [OF this(2)] demo_funded_facts(5,6) f, of "''k''" 9 None]
  show ?thesis by (auto simp: c demo_invoice_simps demo_funded_facts)
qed

lemma billing_run_moves: "billing_step\<^sup>*\<^sup>* s t \<Longrightarrow> wallet_moves s t"
proof (induction rule: rtranclp_induct)
  case (step t u)
  then show ?case by (blast intro: wallet_moves_trans billing_step_wallet)
qed (simp add: wallet_moves_def)

lemma credit_reversal_call:
  "credit_reversal s now cid cr admin reason = Inr (t, txn) \<Longrightarrow> wallet_call s (Some (''reversal-'' @ str_uuid cid)) t txn"
  unfolding wallet_call_def credit_reversal_def by (rule conjI, simp, (rule exI)+, rule disjI2)

text \<open>
  A commission is refunded only once. \<^verbatim>\<open>reverse_commission\<close> keys its credit by the commission alone, so
  after one successful reversal, and whatever happened since (a new deduction under another key, say), a second
  reversal of the same commission reports success and marks it reversed, but credits nothing.
\<close>

theorem second_reversal_credits_nothing:
  assumes "wallet_wf s0" and "reverse_commission s0 now cid admin reason = Inr (s1, c1)" and "billing_step\<^sup>*\<^sup>* s1 s2"
    and "reverse_commission s2 now' cid admin' reason' = Inr (s3, c3)"
  shows "cr_status c3 = COM_REVERSED \<and> wallet_bal s3 = wallet_bal s2 \<and> wallet_transactions s3 = wallet_transactions s2"
proof -
  let ?k = "Some (''reversal-'' @ str_uuid cid)"
  from assms(2) obtain cr u txn row where d: "credit_reversal s0 now cid cr admin reason = Inr (u, txn)"
    and s1: "s1 = commission_reversed u cr row reason"
    by (auto simp: reverse_commission_def bind_res_Inr Let_def split: if_splits)
  have s1u: "same_wallets u s1"
    by (simp add: s1 commission_reversed_def Let_def split: option.split) (simp add: update_commission_status_def same_wallets_def)
  have "wallet_call s0 ?k u txn" using d by (rule credit_reversal_call)
  then have rec: "wallet_recorded u ?k txn" and wu: "wallet_wf u"
    using assms(1) wallet_keys.call_records wallet_keys.call_post wallet_step_wf by blast+
  have moves: "wallet_moves u s2" using wallet_moves_trans [OF wallet_moves_same [OF s1u] billing_run_moves [OF assms(3)]] .
  with rec wu have rec2: "wallet_recorded s2 ?k txn" and w2: "wallet_wf s2" by (auto simp: wallet_recorded_def wallet_moves_def)
  from assms(4) obtain cr' v txn' row' where d': "credit_reversal s2 now' cid cr' admin' reason' = Inr (v, txn')"
    and s3: "s3 = commission_reversed v cr' row' reason'" "get_commission s3 (cr_id cr') = Inr c3" "get_commission s2 cid = Inr cr'"
    by (auto simp: reverse_commission_def bind_res_Inr Let_def split: if_splits)
  have "wallet_call s2 ?k v txn'" using d' by (rule credit_reversal_call)
  with rec2 w2 have v: "v = s2" by (blast dest: wallet_keys.call_replays)
  have same: "same_wallets s2 s3"
    by (simp add: s3(1) v commission_reversed_def Let_def split: option.split) (simp add: update_commission_status_def same_wallets_def)
  have id: "cr_id cr' = cid"
    using s3(3) by (auto simp: get_commission_def bind_res_Inr require_Inr one_or_none_Some dest!: filter_eq_single_mem)
  have "get_commission s3 cid = Inr (cr'\<lparr>cr_status := COM_REVERSED\<rparr>)"
    by (rule get_commission_update [OF s3(3)])
       (simp_all add: s3(1) v commission_reversed_def Let_def id update_commission_status_def split: option.split)
  with s3(2) id same show ?thesis by (auto simp: same_wallets_def wallet_bal_def fun_eq_iff)
qed

theorem second_reversal_credits_nothing_witness:
  "\<exists>s1 c1 s2 c2 s3 c3. reverse_commission (demo_funded 0 COM_DEDUCTED) 9 80 None ''x'' = Inr (s1, c1) \<and>
     deduct_commission s1 10 60 ''k'' None = (s2, Inr c2) \<and> reverse_commission s2 11 80 None ''x'' = Inr (s3, c3) \<and>
     wallet_bal s1 4 = 100 \<and> wallet_bal s2 4 = 0 \<and> wallet_bal s3 4 = 0"
proof -
  note defs = reverse_commission_def credit_reversal_def credit_wallet_def commission_reversed_def get_commission_def
    txn_by_key_def get_wallet_locked_def demo_commission_def new_wallet_def demo_funded_def demo_issued_def Let_def
    update_commission_status_def log_fin_event_def wallet_bal_def demo_invoice_simps blank_def py_space_def
  have "\<exists>s1 c1 s2 c2 s3 c3. reverse_commission (demo_funded 0 COM_DEDUCTED) 9 80 None ''x'' = Inr (s1, c1) \<and>
     deduct_commission s1 10 60 ''k'' None = (s2, Inr c2) \<and> reverse_commission s2 11 80 None ''x'' = Inr (s3, c3) \<and>
     wallet_bal s1 4 = 100 \<and> wallet_bal s2 4 = 0"
    by (simp add: defs deduct_commission_def try_debit_def debit_wallet_def pending_id_def commission_deducted_def get_invoice_row_def)
  then obtain s1 c1 s2 c2 s3 c3 where r: "reverse_commission (demo_funded 0 COM_DEDUCTED) 9 80 None ''x'' = Inr (s1, c1)"
     "deduct_commission s1 10 60 ''k'' None = (s2, Inr c2)" "reverse_commission s2 11 80 None ''x'' = Inr (s3, c3)"
     "wallet_bal s1 4 = 100" "wallet_bal s2 4 = 0" by blast
  have "wallet_bal s3 = wallet_bal s2"
    using second_reversal_credits_nothing [OF demo_funded_facts(1) r(1) r_into_rtranclp [where r = billing_step, OF billing_step.deduct [OF r(2)]] r(3)]
    by simp
  with r show ?thesis by auto
qed

end
