(* ===== verification/Inventory.thy ===== *)
theory Inventory
  imports Payments
begin

section \<open>Inventory (inventory/service.py, models.py, constants.py)\<close>

text \<open>
  A provider's stock: the item catalogue, stock locations, the cached balance of an item at a
  location, the append-only stock ledger behind it and the reservations jobs hold. \<open>inv_db\<close> extends
  the billing tables, because the parts workflow of a job works on both. A balance is addressed by
  its unique key, the pair of item and location. Not kept: creation stamps, the free-text
  \<^verbatim>\<open>meta\<close> of an item, log lines and published events; a balance row locked by another transaction
  (\<^verbatim>\<open>FOR UPDATE NOWAIT\<close>) makes the call fail with \<^verbatim>\<open>CONFLICT\<close> and changes nothing, so the
  calls that do get through are the sequence of steps studied here.
\<close>

subsection \<open>Data (inventory/models.py, inventory/constants.py)\<close>

datatype reservation_status = RES_ACTIVE | RES_CONFIRMED | RES_RELEASED | RES_EXPIRED

definition RESERVATION_TTL_HOURS :: int where "RESERVATION_TTL_HOURS = 48"

record inventory_item =
  itm_id :: uuid
  itm_tenant_id :: uuid
  itm_name :: string
  itm_sku :: string
  itm_unit_cost :: decimal
  itm_selling_price :: "decimal option"
  itm_min_quantity :: int
  itm_is_active :: bool
  itm_status :: string

record stock_location =
  loc_id :: uuid
  loc_tenant_id :: uuid
  loc_name :: string
  loc_type :: string
  loc_staff_id :: "uuid option"
  loc_is_active :: bool

record stock_balance =
  sb_item_id :: uuid
  sb_location_id :: uuid
  sb_tenant_id :: uuid
  sb_quantity :: int
  sb_reserved_qty :: int
  sb_last_txn_at :: "time option"

record stock_txn =
  st_id :: uuid
  st_item_id :: uuid
  st_location_id :: uuid
  st_tenant_id :: uuid
  st_txn_type :: string
  st_quantity :: int
  st_balance_before :: int
  st_balance_after :: int
  st_job_id :: "string option"
  st_reference_id :: "string option"
  st_idempotency_key :: "string option"
  st_notes :: "string option"
  st_actor_id :: "uuid option"

record stock_reservation =
  rv_id :: uuid
  rv_job_id :: string
  rv_item_id :: uuid
  rv_location_id :: uuid
  rv_tenant_id :: uuid
  rv_quantity :: int
  rv_status :: reservation_status
  rv_expires_at :: time
  rv_resolved_at :: "time option"

record inv_db = billing_db +
  inventory_items :: "inventory_item list"
  stock_locations :: "stock_location list"
  stock_balances :: "stock_balance list"
  stock_transactions :: "stock_txn list"
  stock_reservations :: "stock_reservation list"

text \<open>The acting principal an \<^verbatim>\<open>InventoryService\<close> is built with.\<close>

record inv_actor =
  ia_actor_id :: "uuid option"
  ia_role :: "string option"
  ia_tenant_id :: "uuid option"

type_synonym stock_key = "uuid \<times> uuid"

abbreviation sb_key :: "stock_balance \<Rightarrow> stock_key" where
  "sb_key b \<equiv> (sb_item_id b, sb_location_id b)"

abbreviation st_key :: "stock_txn \<Rightarrow> stock_key" where
  "st_key t \<equiv> (st_item_id t, st_location_id t)"

abbreviation rv_key :: "stock_reservation \<Rightarrow> stock_key" where
  "rv_key r \<equiv> (rv_item_id r, rv_location_id r)"

subsection \<open>Guards and helpers\<close>

definition inv_super_admin :: "inv_actor \<Rightarrow> bool" where
  "inv_super_admin a \<longleftrightarrow> ia_role a = Some ''super_admin''"

definition require_trusted_tenant :: "inv_actor \<Rightarrow> uuid \<Rightarrow> uuid res" where
  "require_trusted_tenant a requested =
     (if inv_super_admin a then Inr requested
      else case ia_tenant_id a of
        None \<Rightarrow> Inl (ServiceOSException ''PERMISSION_DENIED'')
      | Some tid \<Rightarrow> if requested \<noteq> tid then Inl (ServiceOSException ''PERMISSION_DENIED'') else Inr tid)"

definition require_item ::
  "'a inv_db_scheme \<Rightarrow> inv_actor \<Rightarrow> uuid \<Rightarrow> uuid option \<Rightarrow> bool \<Rightarrow> inventory_item res" where
  "require_item s a item_id tenant_id active_only =
     (let effective_tenant = (case tenant_id of Some t \<Rightarrow> Some t | None \<Rightarrow> ia_tenant_id a);
          live = (\<lambda>i. active_only \<longrightarrow> itm_is_active i \<and> itm_status i = ''published'');
          found = (\<lambda>of_tenant. bind_res (one_or_none (filter (\<lambda>i. itm_id i = item_id \<and> of_tenant i \<and> live i)
                      (inventory_items s))) (require (ServiceOSException ''NOT_FOUND'')))
      in if \<not> inv_super_admin a then
           (case effective_tenant of
              None \<Rightarrow> Inl (ServiceOSException ''PERMISSION_DENIED'')
            | Some t \<Rightarrow> found (\<lambda>i. itm_tenant_id i = t))
         else (case tenant_id of None \<Rightarrow> found (\<lambda>_. True) | Some t \<Rightarrow> found (\<lambda>i. itm_tenant_id i = t)))"

definition require_location :: "'a inv_db_scheme \<Rightarrow> uuid \<Rightarrow> uuid \<Rightarrow> bool \<Rightarrow> stock_location res" where
  "require_location s location_id tenant_id active_only =
     bind_res (one_or_none (filter (\<lambda>l. loc_id l = location_id \<and> loc_tenant_id l = tenant_id \<and>
         (active_only \<longrightarrow> loc_is_active l)) (stock_locations s)))
       (require (ServiceOSException ''NOT_FOUND''))"

text \<open>\<^verbatim>\<open>_get_balance_locked\<close>: the balance row, created at zero the first time.\<close>

definition new_balance :: "uuid \<Rightarrow> uuid \<Rightarrow> uuid \<Rightarrow> stock_balance" where
  "new_balance item_id location_id tid =
     \<lparr>sb_item_id = item_id, sb_location_id = location_id, sb_tenant_id = tid, sb_quantity = 0,
      sb_reserved_qty = 0, sb_last_txn_at = None\<rparr>"

definition get_balance_locked ::
  "'a inv_db_scheme \<Rightarrow> uuid \<Rightarrow> uuid \<Rightarrow> (stock_balance \<times> 'a inv_db_scheme) res" where
  "get_balance_locked s item_id location_id =
     bind_res (one_or_none (filter (\<lambda>b. sb_key b = (item_id, location_id)) (stock_balances s))) (\<lambda>row.
       case row of
         Some b \<Rightarrow> Inr (b, s)
       | None \<Rightarrow>
         bind_res (one_or_none (filter (\<lambda>i. itm_id i = item_id) (inventory_items s))) (\<lambda>it.
         bind_res (require (ServiceOSException ''NOT_FOUND'') it) (\<lambda>i.
           let b = new_balance item_id location_id (itm_tenant_id i)
           in Inr (b, s\<lparr>stock_balances := stock_balances s @ [b]\<rparr>))))"

text \<open>Assignment to the attributes of a loaded balance.\<close>

definition set_balance ::
  "'a inv_db_scheme \<Rightarrow> stock_key \<Rightarrow> (stock_balance \<Rightarrow> stock_balance) \<Rightarrow> 'a inv_db_scheme" where
  "set_balance s k f = s\<lparr>stock_balances := update_where (\<lambda>b. sb_key b = k) f (stock_balances s)\<rparr>"

definition stock_txn_by_key :: "'a inv_db_scheme \<Rightarrow> string option \<Rightarrow> stock_txn option res" where
  "stock_txn_by_key s key =
     (if truthy key then one_or_none (filter (\<lambda>t. st_idempotency_key t = key) (stock_transactions s))
      else Inr None)"

text \<open>
  \<^verbatim>\<open>_write_txn\<close>: an entry whose key is recorded is returned as it is; otherwise the balance moves and
  the ledger gets the entry that explains the move.
\<close>

definition write_txn ::
  "'a inv_db_scheme \<Rightarrow> inv_actor \<Rightarrow> uuid \<Rightarrow> uuid \<Rightarrow> uuid \<Rightarrow> string \<Rightarrow> int \<Rightarrow> stock_balance \<Rightarrow> string option \<Rightarrow>
   string option \<Rightarrow> string option \<Rightarrow> string option \<Rightarrow> time \<Rightarrow> (stock_txn \<times> 'a inv_db_scheme) res" where
  "write_txn s a item_id location_id tenant_id ttype quantity bal job ref key notes now =
     bind_res (stock_txn_by_key s key) (\<lambda>existing.
       case existing of
         Some t \<Rightarrow> Inr (t, s)
       | None \<Rightarrow>
         let after = sb_quantity bal + quantity;
             txn = \<lparr>st_id = next_uuid s, st_item_id = item_id, st_location_id = location_id,
                    st_tenant_id = tenant_id, st_txn_type = ttype, st_quantity = quantity,
                    st_balance_before = sb_quantity bal, st_balance_after = after, st_job_id = job,
                    st_reference_id = ref, st_idempotency_key = key, st_notes = notes,
                    st_actor_id = ia_actor_id a\<rparr>
         in Inr (txn, (set_balance s (sb_key bal) (\<lambda>b. b\<lparr>sb_quantity := after, sb_last_txn_at := Some now\<rparr>))
                  \<lparr>stock_transactions := stock_transactions s @ [txn], next_uuid := Suc (next_uuid s)\<rparr>))"

definition reconcile :: "'a inv_db_scheme \<Rightarrow> uuid \<Rightarrow> uuid \<Rightarrow> (bool \<times> int \<times> int) res" where
  "reconcile s item_id location_id =
     (let ledger_sum = sum_list (map st_quantity (filter (\<lambda>t. st_key t = (item_id, location_id))
                         (stock_transactions s)))
      in bind_res (one_or_none (filter (\<lambda>b. sb_key b = (item_id, location_id)) (stock_balances s))) (\<lambda>bal.
           let cached = (case bal of Some b \<Rightarrow> sb_quantity b | None \<Rightarrow> 0)
           in Inr (ledger_sum = cached, ledger_sum, cached)))"

subsection \<open>Stock operations\<close>

definition receive_stock ::
  "'a inv_db_scheme \<Rightarrow> inv_actor \<Rightarrow> uuid \<Rightarrow> uuid \<Rightarrow> uuid \<Rightarrow> int \<Rightarrow> string option \<Rightarrow> string option \<Rightarrow> time \<Rightarrow>
   (stock_txn \<times> 'a inv_db_scheme) res" where
  "receive_stock s a item_id location_id tid quantity ref notes now =
     bind_res (require_trusted_tenant a tid) (\<lambda>tenant_id.
     if quantity \<le> 0 then Inl (ServiceOSException ''VALIDATION_ERROR'') else
     bind_res (require_item s a item_id (Some tenant_id) True) (\<lambda>_.
     bind_res (require_location s location_id tenant_id True) (\<lambda>_.
     bind_res (get_balance_locked s item_id location_id) (\<lambda>(bal, s1).
       write_txn s1 a item_id location_id tenant_id ''receipt'' quantity bal None ref None notes now))))"

record count_result =
  cn_previous_quantity :: int
  cn_counted_quantity :: int
  cn_adjustment :: int
  cn_txn_id :: uuid

definition count_stock ::
  "'a inv_db_scheme \<Rightarrow> inv_actor \<Rightarrow> uuid \<Rightarrow> uuid \<Rightarrow> uuid \<Rightarrow> int \<Rightarrow> string \<Rightarrow> string option \<Rightarrow> time \<Rightarrow>
   (count_result \<times> 'a inv_db_scheme) res" where
  "count_stock s a item_id location_id tid counted reason key now =
     bind_res (require_trusted_tenant a tid) (\<lambda>tenant_id.
     if counted < 0 \<or> blank reason then Inl (ServiceOSException ''VALIDATION_ERROR'') else
     bind_res (require_item s a item_id (Some tenant_id) True) (\<lambda>_.
     bind_res (require_location s location_id tenant_id True) (\<lambda>_.
     bind_res (get_balance_locked s item_id location_id) (\<lambda>(bal, s1).
     if counted < sb_reserved_qty bal then Inl (ServiceOSException ''CONFLICT'') else
     let delta = counted - sb_quantity bal in
     bind_res (write_txn s1 a item_id location_id tenant_id ''adjustment'' delta bal None None key
                 (Some (''Cycle count: '' @ strip reason)) now) (\<lambda>(txn, s2).
       Inr (\<lparr>cn_previous_quantity = counted - delta, cn_counted_quantity = counted, cn_adjustment = delta,
             cn_txn_id = st_id txn\<rparr>, s2))))))"

text \<open>The two balances of a transfer are locked in the order of their rendered ids.\<close>

fun str_le :: "string \<Rightarrow> string \<Rightarrow> bool" where
  "str_le [] _ = True"
| "str_le (_ # _) [] = False"
| "str_le (x # xs) (y # ys) = (of_char x < (of_char y :: nat) \<or> x = y \<and> str_le xs ys)"

definition lock_pair ::
  "'a inv_db_scheme \<Rightarrow> uuid \<Rightarrow> uuid \<Rightarrow> uuid \<Rightarrow> (stock_balance \<times> stock_balance \<times> 'a inv_db_scheme) res" where
  "lock_pair s item_id from_loc to_loc =
     (if str_le (str_uuid from_loc) (str_uuid to_loc)
      then bind_res (get_balance_locked s item_id from_loc) (\<lambda>(src, s1).
           bind_res (get_balance_locked s1 item_id to_loc) (\<lambda>(dst, s2). Inr (src, dst, s2)))
      else bind_res (get_balance_locked s item_id to_loc) (\<lambda>(dst, s1).
           bind_res (get_balance_locked s1 item_id from_loc) (\<lambda>(src, s2). Inr (src, dst, s2))))"

record transfer_result =
  tf_source_balance :: int
  tf_destination_balance :: int
  tf_transaction_ids :: "uuid list"
  tf_idempotent :: bool

definition key_out :: "string option \<Rightarrow> string option" where
  "key_out key = (if truthy key then Some (the key @ '':out'') else None)"

definition key_in :: "string option \<Rightarrow> string option" where
  "key_in key = (if truthy key then Some (the key @ '':in'') else None)"

definition transfer_stock ::
  "'a inv_db_scheme \<Rightarrow> inv_actor \<Rightarrow> uuid \<Rightarrow> uuid \<Rightarrow> uuid \<Rightarrow> uuid \<Rightarrow> int \<Rightarrow> string \<Rightarrow> string option \<Rightarrow> time \<Rightarrow>
   (transfer_result \<times> 'a inv_db_scheme) res" where
  "transfer_stock s a item_id from_loc to_loc tid quantity reason key now =
     bind_res (require_trusted_tenant a tid) (\<lambda>tenant_id.
     if from_loc = to_loc then Inl (ServiceOSException ''VALIDATION_ERROR'') else
     if quantity \<le> 0 \<or> blank reason then Inl (ServiceOSException ''VALIDATION_ERROR'') else
     bind_res (require_item s a item_id (Some tenant_id) True) (\<lambda>_.
     bind_res (require_location s from_loc tenant_id True) (\<lambda>_.
     bind_res (require_location s to_loc tenant_id True) (\<lambda>_.
     bind_res (lock_pair s item_id from_loc to_loc) (\<lambda>(source, destination, s1).
     let prior = (if truthy key then filter (\<lambda>t. st_idempotency_key t \<in> {key_out key, key_in key})
                    (stock_transactions s1) else []) in
     if truthy key \<and> length prior = 2 then
       Inr (\<lparr>tf_source_balance = sb_quantity source, tf_destination_balance = sb_quantity destination,
             tf_transaction_ids = map st_id prior, tf_idempotent = True\<rparr>, s1)
     else if truthy key \<and> prior \<noteq> [] then Inl (ServiceOSException ''DATA_INTEGRITY_ERROR'')
     else if sb_quantity source - sb_reserved_qty source < quantity
     then Inl (ServiceOSException ''CONFLICT'')
     else
       let ref = Some (''transfer:'' @ str_uuid from_loc @ '':'' @ str_uuid to_loc) in
       bind_res (write_txn s1 a item_id from_loc tenant_id ''transfer'' (- quantity) source None ref
                   (key_out key) (Some (''Transfer out: '' @ strip reason)) now) (\<lambda>(debit, s2).
       bind_res (write_txn s2 a item_id to_loc tenant_id ''transfer'' quantity destination None ref
                   (key_in key) (Some (''Transfer in: '' @ strip reason)) now) (\<lambda>(credit, s3).
         Inr (\<lparr>tf_source_balance = sb_quantity source - quantity,
               tf_destination_balance = sb_quantity destination + quantity,
               tf_transaction_ids = [st_id debit, st_id credit], tf_idempotent = False\<rparr>, s3))))))))"

record stock_level =
  lv_quantity :: int
  lv_reserved_qty :: int
  lv_available_qty :: int
  lv_min_quantity :: int
  lv_below_minimum :: bool
  lv_reconciliation_ok :: bool

definition get_stock_level :: "'a inv_db_scheme \<Rightarrow> inv_actor \<Rightarrow> uuid \<Rightarrow> uuid \<Rightarrow> stock_level res" where
  "get_stock_level s a item_id location_id =
     bind_res (require_item s a item_id None True) (\<lambda>item.
     bind_res (require_location s location_id (itm_tenant_id item) True) (\<lambda>_.
     bind_res (reconcile s item_id location_id) (\<lambda>(matches, _, _).
     bind_res (one_or_none (filter (\<lambda>b. sb_key b = (item_id, location_id)) (stock_balances s))) (\<lambda>bal.
       let quantity = (case bal of Some b \<Rightarrow> sb_quantity b | None \<Rightarrow> 0);
           reserved = (case bal of Some b \<Rightarrow> sb_reserved_qty b | None \<Rightarrow> 0)
       in Inr \<lparr>lv_quantity = quantity, lv_reserved_qty = reserved, lv_available_qty = quantity - reserved,
               lv_min_quantity = itm_min_quantity item, lv_below_minimum = quantity < itm_min_quantity item,
               lv_reconciliation_ok = matches\<rparr>))))"

subsection \<open>Reservations\<close>

definition reserve_key :: "string \<Rightarrow> string \<Rightarrow> uuid \<Rightarrow> string option" where
  "reserve_key verb job item_id = Some (verb @ '':'' @ job @ '':'' @ str_uuid item_id)"

definition create_reservation ::
  "'a inv_db_scheme \<Rightarrow> inv_actor \<Rightarrow> string \<Rightarrow> uuid \<Rightarrow> uuid \<Rightarrow> uuid \<Rightarrow> int \<Rightarrow> time \<Rightarrow>
   (stock_reservation \<times> 'a inv_db_scheme) res" where
  "create_reservation s a job item_id location_id tid quantity now =
     bind_res (require_trusted_tenant a tid) (\<lambda>tenant_id.
     if quantity \<le> 0 then Inl (ServiceOSException ''VALIDATION_ERROR'') else
     bind_res (require_item s a item_id (Some tenant_id) True) (\<lambda>_.
     bind_res (require_location s location_id tenant_id True) (\<lambda>_.
     bind_res (one_or_none (filter (\<lambda>r. rv_job_id r = job \<and> rv_key r = (item_id, location_id))
                 (stock_reservations s))) (\<lambda>existing.
     case existing of
       Some r \<Rightarrow> Inr (r, s)
     | None \<Rightarrow>
       bind_res (get_balance_locked s item_id location_id) (\<lambda>(bal, s1).
       if sb_quantity bal - sb_reserved_qty bal < quantity then Inl (ServiceOSException ''CONFLICT'') else
       let s2 = set_balance s1 (sb_key bal) (\<lambda>b. b\<lparr>sb_reserved_qty := sb_reserved_qty b + quantity\<rparr>);
           res = \<lparr>rv_id = next_uuid s2, rv_job_id = job, rv_item_id = item_id, rv_location_id = location_id,
                  rv_tenant_id = tenant_id, rv_quantity = quantity, rv_status = RES_ACTIVE,
                  rv_expires_at = now + RESERVATION_TTL_HOURS * 3600, rv_resolved_at = None\<rparr>;
           s3 = s2\<lparr>stock_reservations := stock_reservations s2 @ [res], next_uuid := Suc (next_uuid s2)\<rparr>
       in bind_res (write_txn s3 a item_id location_id tenant_id ''reservation'' 0 bal (Some job) None
                      (reserve_key ''reserve'' job item_id) (Some (''Reserved for job '' @ job)) now) (\<lambda>(_, s4).
            Inr (res, s4)))))))"

definition active_reservation ::
  "'a inv_db_scheme \<Rightarrow> string \<Rightarrow> stock_key \<Rightarrow> uuid \<Rightarrow> stock_reservation res" where
  "active_reservation s job k tenant_id =
     bind_res (one_or_none (filter (\<lambda>r. rv_job_id r = job \<and> rv_key r = k \<and> rv_tenant_id r = tenant_id \<and>
         rv_status r = RES_ACTIVE) (stock_reservations s)))
       (require (ServiceOSException ''NOT_FOUND''))"

definition resolve_reservation ::
  "'a inv_db_scheme \<Rightarrow> stock_reservation \<Rightarrow> reservation_status \<Rightarrow> time \<Rightarrow> 'a inv_db_scheme" where
  "resolve_reservation s res st now =
     s\<lparr>stock_reservations := update_where (\<lambda>r. rv_id r = rv_id res)
         (\<lambda>r. r\<lparr>rv_status := st, rv_resolved_at := Some now\<rparr>) (stock_reservations s)\<rparr>"

definition unreserve :: "'a inv_db_scheme \<Rightarrow> stock_balance \<Rightarrow> stock_reservation \<Rightarrow> 'a inv_db_scheme" where
  "unreserve s bal res =
     set_balance s (sb_key bal) (\<lambda>b. b\<lparr>sb_reserved_qty := max 0 (sb_reserved_qty b - rv_quantity res)\<rparr>)"

definition confirm_reservation ::
  "'a inv_db_scheme \<Rightarrow> inv_actor \<Rightarrow> string \<Rightarrow> uuid \<Rightarrow> uuid \<Rightarrow> uuid \<Rightarrow> time \<Rightarrow>
   (stock_reservation \<times> 'a inv_db_scheme) res" where
  "confirm_reservation s a job item_id location_id tid now =
     bind_res (require_trusted_tenant a tid) (\<lambda>tenant_id.
     bind_res (active_reservation s job (item_id, location_id) tenant_id) (\<lambda>res.
     bind_res (get_balance_locked s item_id location_id) (\<lambda>(bal, s1).
     bind_res (write_txn (unreserve s1 bal res) a item_id location_id tenant_id ''confirmation''
                 (- rv_quantity res) bal (Some job) None (reserve_key ''confirm'' job item_id)
                 (Some (''Consumed by job '' @ job)) now) (\<lambda>(_, s2).
       Inr (res, resolve_reservation s2 res RES_CONFIRMED now)))))"

definition release_reservation ::
  "'a inv_db_scheme \<Rightarrow> inv_actor \<Rightarrow> string \<Rightarrow> uuid \<Rightarrow> uuid \<Rightarrow> uuid \<Rightarrow> time \<Rightarrow>
   (stock_reservation \<times> 'a inv_db_scheme) res" where
  "release_reservation s a job item_id location_id tid now =
     bind_res (require_trusted_tenant a tid) (\<lambda>tenant_id.
     bind_res (active_reservation s job (item_id, location_id) tenant_id) (\<lambda>res.
     bind_res (get_balance_locked s item_id location_id) (\<lambda>(bal, s1).
     bind_res (write_txn (resolve_reservation (unreserve s1 bal res) res RES_RELEASED now) a item_id location_id
                 tenant_id ''return'' 0 bal (Some job) None (reserve_key ''release'' job item_id)
                 (Some (''Released for job '' @ job)) now) (\<lambda>(_, s2). Inr (res, s2)))))"

subsection \<open>What a stock position is\<close>

text \<open>
  Quantity on hand and reserved as the balance rows cache them, the sum of the ledger, and the
  quantity the active reservations hold, each per item and location.
\<close>

definition balance_row :: "'a inv_db_scheme \<Rightarrow> stock_key \<Rightarrow> stock_balance option" where
  "balance_row s k = first_row (filter (\<lambda>b. sb_key b = k) (stock_balances s))"

definition on_hand :: "'a inv_db_scheme \<Rightarrow> stock_key \<Rightarrow> int" where
  "on_hand s k = (case balance_row s k of Some b \<Rightarrow> sb_quantity b | None \<Rightarrow> 0)"

definition reserved_at :: "'a inv_db_scheme \<Rightarrow> stock_key \<Rightarrow> int" where
  "reserved_at s k = (case balance_row s k of Some b \<Rightarrow> sb_reserved_qty b | None \<Rightarrow> 0)"

definition ledger_qty :: "'a inv_db_scheme \<Rightarrow> stock_key \<Rightarrow> int" where
  "ledger_qty s k = sum_list (map st_quantity (filter (\<lambda>t. st_key t = k) (stock_transactions s)))"

definition held_in :: "stock_reservation list \<Rightarrow> stock_key \<Rightarrow> int" where
  "held_in rs k = sum_list (map rv_quantity (filter (\<lambda>r. rv_key r = k \<and> rv_status r = RES_ACTIVE) rs))"

definition stock_rows_ok :: "'a inv_db_scheme \<Rightarrow> bool" where
  "stock_rows_ok s \<longleftrightarrow> distinct (map sb_key (stock_balances s)) \<and>
     distinct (filter truthy (map st_idempotency_key (stock_transactions s)))"

definition reservations_ok :: "'a inv_db_scheme \<Rightarrow> bool" where
  "reservations_ok s \<longleftrightarrow> distinct (map rv_id (stock_reservations s)) \<and>
     distinct (map (\<lambda>r. (rv_job_id r, rv_key r)) (stock_reservations s)) \<and>
     (\<forall>r \<in> set (stock_reservations s). rv_id r < next_uuid s \<and> 0 < rv_quantity r)"

definition stock_ok :: "'a inv_db_scheme \<Rightarrow> bool" where
  "stock_ok s \<longleftrightarrow> stock_rows_ok s \<and> reservations_ok s \<and>
     (\<forall>k. reserved_at s k = held_in (stock_reservations s) k \<and> reserved_at s k \<le> on_hand s k)"

text \<open>
  The effect of a call on the position: every key moves by the given amounts, on hand and ledger
  alike; the ledger is only appended to.
\<close>

definition stock_effect ::
  "'a inv_db_scheme \<Rightarrow> 'a inv_db_scheme \<Rightarrow> (stock_key \<Rightarrow> int) \<Rightarrow> (stock_key \<Rightarrow> int) \<Rightarrow> bool" where
  "stock_effect s t dq dr \<longleftrightarrow> stock_rows_ok t \<and> next_uuid s \<le> next_uuid t \<and>
     (\<exists>ys. stock_transactions t = stock_transactions s @ ys) \<and>
     (\<forall>k. on_hand t k = on_hand s k + dq k \<and> ledger_qty t k = ledger_qty s k + dq k \<and>
          reserved_at t k = reserved_at s k + dr k)"

abbreviation at_key :: "stock_key \<Rightarrow> int \<Rightarrow> stock_key \<Rightarrow> int" where
  "at_key k n \<equiv> (\<lambda>k'. if k' = k then n else 0)"

abbreviation nowhere :: "stock_key \<Rightarrow> int" where
  "nowhere \<equiv> (\<lambda>_. 0)"

lemma stock_effect_trans:
  "stock_effect s t dq dr \<Longrightarrow> stock_effect t u dq' dr' \<Longrightarrow>
   stock_effect s u (\<lambda>k. dq k + dq' k) (\<lambda>k. dr k + dr' k)"
  by (auto simp: stock_effect_def)

lemma stock_effect_refl: "stock_rows_ok s \<Longrightarrow> stock_effect s s nowhere nowhere"
  by (simp add: stock_effect_def)

lemma stock_effect_rows: "stock_effect s t dq dr \<Longrightarrow> stock_rows_ok t"
  by (simp add: stock_effect_def)

lemma stock_effectD:
  assumes "stock_effect s t dq dr"
  shows "on_hand t k = on_hand s k + dq k" "ledger_qty t k = ledger_qty s k + dq k"
    "reserved_at t k = reserved_at s k + dr k" "next_uuid s \<le> next_uuid t"
  using assms unfolding stock_effect_def by blast+

lemma stock_effect_moves:
  "stock_effect s t dq dr \<Longrightarrow> on_hand t k - on_hand s k = ledger_qty t k - ledger_qty s k"
  using stock_effectD(1,2) [of s t dq dr k] by simp

lemma stock_okD:
  assumes "stock_ok s"
  shows "reserved_at s k = held_in (stock_reservations s) k" "reserved_at s k \<le> on_hand s k"
    "stock_rows_ok s" "reservations_ok s"
  using assms unfolding stock_ok_def by blast+

lemma stock_okI:
  "stock_rows_ok s \<Longrightarrow> reservations_ok s \<Longrightarrow> (\<And>k. reserved_at s k = held_in (stock_reservations s) k) \<Longrightarrow>
   (\<And>k. reserved_at s k \<le> on_hand s k) \<Longrightarrow> stock_ok s"
  unfolding stock_ok_def by blast

lemma balance_row_mem:
  "stock_rows_ok s \<Longrightarrow> b \<in> set (stock_balances s) \<Longrightarrow> balance_row s (sb_key b) = Some b"
  unfolding stock_rows_ok_def balance_row_def using filter_key_single [of sb_key "stock_balances s" b] by simp

lemma one_or_none_Inr:
  "one_or_none xs = Inr r \<longleftrightarrow> r = None \<and> xs = [] \<or> (\<exists>x. r = Some x \<and> xs = [x])"
  by (cases r) (auto simp: table_simps)

lemma get_balance_locked_ok:
  assumes "stock_rows_ok s" "get_balance_locked s i l = Inr (b, s1)"
  shows "stock_effect s s1 nowhere nowhere" "stock_reservations s1 = stock_reservations s"
    "next_uuid s1 = next_uuid s" "stock_transactions s1 = stock_transactions s"
    "sb_key b = (i, l)" "balance_row s1 (i, l) = Some b"
proof -
  consider (old) "filter (\<lambda>b. sb_key b = (i, l)) (stock_balances s) = [b]" "s1 = s"
    | (new) tid where "filter (\<lambda>b. sb_key b = (i, l)) (stock_balances s) = []" "b = new_balance i l tid"
        "s1 = s\<lparr>stock_balances := stock_balances s @ [b]\<rparr>"
    using assms(2)
    by (auto simp: get_balance_locked_def res_simps one_or_none_Inr Let_def)
  then have "stock_effect s s1 nowhere nowhere \<and> stock_reservations s1 = stock_reservations s \<and>
    next_uuid s1 = next_uuid s \<and> stock_transactions s1 = stock_transactions s \<and>
    sb_key b = (i, l) \<and> balance_row s1 (i, l) = Some b"
  proof cases
    case old
    then have "sb_key b = (i, l)" using filter_eq_single_mem by fastforce
    with old assms(1) show ?thesis by (simp add: stock_effect_refl balance_row_def)
  next
    case new
    then have fresh: "(i, l) \<notin> sb_key ` set (stock_balances s)" by (auto simp: filter_empty_conv)
    have row: "balance_row s1 k = (if k = (i, l) then Some b else balance_row s k)" for k
      using new by (auto simp: balance_row_def first_row_append new_balance_def split: option.split)
    have "balance_row s (i, l) = None" using new(1) by (simp add: balance_row_def)
    with row new fresh assms(1) show ?thesis
      by (auto simp: stock_effect_def stock_rows_ok_def on_hand_def reserved_at_def ledger_qty_def new_balance_def)
  qed
  then show "stock_effect s s1 nowhere nowhere" "stock_reservations s1 = stock_reservations s"
    "next_uuid s1 = next_uuid s" "stock_transactions s1 = stock_transactions s"
    "sb_key b = (i, l)" "balance_row s1 (i, l) = Some b" by blast+
qed

lemma get_balance_position:
  assumes "stock_rows_ok s" "get_balance_locked s i l = Inr (b, s1)"
  shows "on_hand s (i, l) = sb_quantity b" "reserved_at s (i, l) = sb_reserved_qty b"
  using stock_effectD(1,3) [OF get_balance_locked_ok(1) [OF assms], of "(i, l)"] get_balance_locked_ok(6) [OF assms]
  by (simp_all add: on_hand_def reserved_at_def)

lemma balance_row_set_balance:
  assumes "\<And>b. sb_key (f b) = sb_key b"
  shows "balance_row (set_balance s k f) k' = (if k' = k then map_option f (balance_row s k) else balance_row s k')"
proof -
  have "balance_row (set_balance s k f) k' =
      map_option (\<lambda>b. if sb_key b = k then f b else b) (balance_row s k')"
    unfolding balance_row_def set_balance_def by (simp add: first_row_update_where assms)
  moreover have "balance_row s k' = Some b \<Longrightarrow> sb_key b = k'" for b
    unfolding balance_row_def by (auto dest!: first_row_Some_set)
  ultimately show ?thesis by (cases "balance_row s k'") auto
qed

lemma set_balance_rows_ok:
  "(\<And>b. sb_key (f b) = sb_key b) \<Longrightarrow> stock_rows_ok s \<Longrightarrow> stock_rows_ok (set_balance s k f)"
  by (simp add: stock_rows_ok_def set_balance_def map_update_where_key)

lemma set_balance_tables [simp]:
  "stock_transactions (set_balance s k f) = stock_transactions s"
  "stock_reservations (set_balance s k f) = stock_reservations s"
  "next_uuid (set_balance s k f) = next_uuid s"
  by (simp_all add: set_balance_def)

text \<open>A change of the reserved quantity alone.\<close>

lemma set_reserved_effect:
  assumes "stock_rows_ok s" "balance_row s k = Some b" "g b = sb_reserved_qty b + n"
  shows "stock_effect s (set_balance s k (\<lambda>b. b\<lparr>sb_reserved_qty := g b\<rparr>)) nowhere (at_key k n)"
  using assms
  by (auto simp: stock_effect_def set_balance_rows_ok on_hand_def reserved_at_def balance_row_set_balance
        ledger_qty_def)

text \<open>A ledger write: replayed when its key is recorded, otherwise balance and ledger move together.\<close>

lemma write_txn_effect:
  assumes "stock_rows_ok s" "balance_row s (i, l) = Some row" "sb_key bal = (i, l)"
    "sb_quantity row = sb_quantity bal"
    and "write_txn s a i l tid ty q bal job ref key notes now = Inr (txn, t)"
  shows "stock_reservations t = stock_reservations s \<and>
    (t = s \<and> truthy key \<and> txn \<in> set (stock_transactions s) \<and> st_idempotency_key txn = key \<or>
     stock_effect s t (at_key (i, l) q) nowhere \<and> st_idempotency_key txn = key \<and>
     stock_transactions t = stock_transactions s @ [txn] \<and> next_uuid t = Suc (next_uuid s) \<and>
     (truthy key \<longrightarrow> Some (the key) \<notin> st_idempotency_key ` set (stock_transactions s)) \<and>
     (\<exists>row'. balance_row t (i, l) = Some row' \<and> sb_quantity row' = sb_quantity bal + q \<and>
        sb_reserved_qty row' = sb_reserved_qty row) \<and>
     (\<forall>k. k \<noteq> (i, l) \<longrightarrow> balance_row t k = balance_row s k))"
proof -
  consider (replay) "truthy key" "filter (\<lambda>x. st_idempotency_key x = key) (stock_transactions s) = [txn]" "t = s"
    | (new) "truthy key \<longrightarrow> filter (\<lambda>x. st_idempotency_key x = key) (stock_transactions s) = []"
        "st_idempotency_key txn = key" "st_key txn = (i, l)" "st_quantity txn = q"
        "t = (set_balance s (i, l) (\<lambda>b. b\<lparr>sb_quantity := sb_quantity bal + q, sb_last_txn_at := Some now\<rparr>))
             \<lparr>stock_transactions := stock_transactions s @ [txn], next_uuid := Suc (next_uuid s)\<rparr>"
  proof -
    obtain ex where ex: "stock_txn_by_key s key = Inr ex"
      using assms(5) by (auto simp: write_txn_def res_simps)
    show thesis
    proof (cases ex)
      case None
      with ex have "truthy key \<longrightarrow> filter (\<lambda>x. st_idempotency_key x = key) (stock_transactions s) = []"
        by (auto simp: stock_txn_by_key_def table_simps split: if_splits)
      then show thesis by (rule new) (use assms(3,5) ex None in \<open>auto simp: write_txn_def Let_def\<close>)
    next
      case (Some x)
      with ex have "truthy key" "filter (\<lambda>x. st_idempotency_key x = key) (stock_transactions s) = [x]"
        by (auto simp: stock_txn_by_key_def table_simps split: if_splits)
      then show thesis by (intro replay) (use assms(5) ex Some in \<open>auto simp: write_txn_def\<close>)
    qed
  qed
  then show ?thesis
  proof cases
    case replay
    from filter_eq_single_mem [OF replay(2)] replay(1,3) show ?thesis by simp
  next
    case new
    let ?f = "\<lambda>b. b\<lparr>sb_quantity := sb_quantity bal + q, sb_last_txn_at := Some now\<rparr>"
    have key: "truthy key \<longrightarrow> Some (the key) \<notin> st_idempotency_key ` set (stock_transactions s)"
      using new(1) by (auto simp: filter_empty_conv truthy_def split: option.splits)
    have row: "balance_row t k = (if k = (i, l) then map_option ?f (balance_row s k) else balance_row s k)" for k
      using balance_row_set_balance [of ?f s "(i, l)" k] new(5) by (simp add: balance_row_def)
    have "stock_rows_ok t"
      using assms(1) set_balance_rows_ok [of ?f s "(i, l)"] new(2,5) key
      by (auto simp: stock_rows_ok_def truthy_def split: option.splits)
    moreover have "ledger_qty t k = ledger_qty s k + at_key (i, l) q k" for k
      using new(3-5) by (auto simp: ledger_qty_def)
    moreover have "on_hand t k = on_hand s k + at_key (i, l) q k \<and> reserved_at t k = reserved_at s k" for k
      using assms(2,4) by (auto simp: on_hand_def reserved_at_def row)
    ultimately have "stock_effect s t (at_key (i, l) q) nowhere" using new(5) by (auto simp: stock_effect_def)
    moreover have "\<exists>row'. balance_row t (i, l) = Some row' \<and> sb_quantity row' = sb_quantity bal + q \<and>
        sb_reserved_qty row' = sb_reserved_qty row"
      using row [of "(i, l)"] assms(2) by auto
    ultimately show ?thesis using new key row by simp
  qed
qed

subsection \<open>Reservations and what they hold\<close>

lemma held_in_append: "held_in (rs @ rs') k = held_in rs k + held_in rs' k"
  by (simp add: held_in_def)

lemma held_in_nonneg: "\<forall>r \<in> set rs. 0 < rv_quantity r \<Longrightarrow> 0 \<le> held_in rs k"
  unfolding held_in_def by (rule sum_list_nonneg) (auto dest: order.strict_implies_order)

lemma held_in_member:
  assumes "\<forall>r \<in> set rs. 0 < rv_quantity r" "r \<in> set rs" "rv_status r = RES_ACTIVE"
  shows "rv_quantity r \<le> held_in rs (rv_key r)"
proof -
  have "rv_quantity r \<in> set (map rv_quantity (filter (\<lambda>x. rv_key x = rv_key r \<and> rv_status x = RES_ACTIVE) rs))"
    using assms by auto
  then show ?thesis unfolding held_in_def
    by (rule member_le_sum_list) (use assms(1) in \<open>auto dest: order.strict_implies_order\<close>)
qed

lemma held_in_resolve:
  assumes "distinct (map rv_id rs)" "res \<in> set rs" "rv_status res = RES_ACTIVE" "st \<noteq> RES_ACTIVE"
  shows "held_in (update_where (\<lambda>r. rv_id r = rv_id res) (\<lambda>r. r\<lparr>rv_status := st, rv_resolved_at := x\<rparr>) rs) k =
    held_in rs k - at_key (rv_key res) (rv_quantity res) k"
  using assms
proof (induction rs)
  case Nil
  then show ?case by simp
next
  case (Cons r rs)
  have split: "held_in (y # ys) k = (if rv_key y = k \<and> rv_status y = RES_ACTIVE then rv_quantity y else 0) +
      held_in ys k" for y ys by (simp add: held_in_def)
  show ?case
  proof (cases "r = res")
    case True
    with Cons.prems have "\<forall>r' \<in> set rs. rv_id r' \<noteq> rv_id res" by (metis distinct.simps(2) image_eqI list.simps(9) set_map)
    with True Cons.prems show ?thesis by (auto simp: split update_where_none)
  next
    case False
    with Cons.prems have mem: "res \<in> set rs" and "rv_id r \<noteq> rv_id res" by auto
    with Cons show ?thesis by (auto simp: split)
  qed
qed

lemma reservations_ok_resolve:
  "reservations_ok s \<Longrightarrow> next_uuid s \<le> next_uuid t \<Longrightarrow>
   stock_reservations t = update_where (\<lambda>r. rv_id r = i) (\<lambda>r. r\<lparr>rv_status := st, rv_resolved_at := x\<rparr>)
     (stock_reservations s) \<Longrightarrow> reservations_ok t"
  by (auto simp: reservations_ok_def map_update_where_key set_update_where)

lemma reservations_ok_same:
  "reservations_ok s \<Longrightarrow> next_uuid s \<le> next_uuid t \<Longrightarrow> stock_reservations t = stock_reservations s \<Longrightarrow>
   reservations_ok t"
  by (fastforce simp: reservations_ok_def)

subsection \<open>What each operation does to the position\<close>

text \<open>
  Each successful call is one of a few effects: an available quantity moves (receipt, count,
  transfer), a hold is placed, or a hold is settled with or without consuming the stock.
\<close>

inductive stock_move :: "'a inv_db_scheme \<Rightarrow> 'a inv_db_scheme \<Rightarrow> bool" where
  shift: "stock_effect s t dq nowhere \<Longrightarrow> (\<And>k. reserved_at s k \<le> on_hand s k + dq k) \<Longrightarrow>
    stock_reservations t = stock_reservations s \<Longrightarrow> stock_move s t"
| hold: "stock_effect s t nowhere (at_key (rv_key res) (rv_quantity res)) \<Longrightarrow>
    0 < rv_quantity res \<Longrightarrow> rv_quantity res \<le> on_hand s (rv_key res) - reserved_at s (rv_key res) \<Longrightarrow>
    rv_status res = RES_ACTIVE \<Longrightarrow> rv_id res = next_uuid s \<Longrightarrow> next_uuid s < next_uuid t \<Longrightarrow>
    \<forall>r \<in> set (stock_reservations s). rv_job_id r = rv_job_id res \<longrightarrow> rv_key r \<noteq> rv_key res \<Longrightarrow>
    stock_reservations t = stock_reservations s @ [res] \<Longrightarrow> stock_move s t"
| settle: "stock_effect s t dq (at_key (rv_key res) (- rv_quantity res)) \<Longrightarrow>
    res \<in> set (stock_reservations s) \<Longrightarrow> rv_status res = RES_ACTIVE \<Longrightarrow>
    st \<in> {RES_CONFIRMED, RES_RELEASED} \<Longrightarrow>
    dq = at_key (rv_key res) (- rv_quantity res) \<and> st = RES_CONFIRMED \<or> dq = nowhere \<Longrightarrow>
    stock_reservations t = update_where (\<lambda>r. rv_id r = rv_id res)
      (\<lambda>r. r\<lparr>rv_status := st, rv_resolved_at := Some now\<rparr>) (stock_reservations s) \<Longrightarrow> stock_move s t"

lemma stock_move_ok:
  assumes "stock_move s t" "stock_ok s"
  shows "stock_ok t"
  using assms(1)
proof cases
  case (shift dq)
  note e = stock_effectD [OF shift(1)] and o = stock_okD [OF assms(2)]
  show ?thesis
    by (rule stock_okI) (use shift e o reservations_ok_same [OF o(4) e(4)] stock_effect_rows in auto)
next
  case (hold res)
  note e = stock_effectD [OF hold(1)] and o = stock_okD [OF assms(2)]
  have "reservations_ok t" using o(4) hold(2-) by (force simp: reservations_ok_def)
  moreover have "held_in (stock_reservations t) k = held_in (stock_reservations s) k +
      at_key (rv_key res) (rv_quantity res) k" for k
    using hold by (auto simp: held_in_append held_in_def)
  moreover have "reserved_at t k \<le> on_hand t k" for k
    using e(1,3) [of k] o(2) [of k] hold(3) by (cases "k = rv_key res") simp_all
  ultimately show ?thesis using o e stock_effect_rows [OF hold(1)] by (intro stock_okI) simp_all
next
  case (settle dq res st now)
  note e = stock_effectD [OF settle(1)] and o = stock_okD [OF assms(2)]
  have ids: "distinct (map rv_id (stock_reservations s))" and pos: "0 < rv_quantity res"
    using o(4) settle(2) by (simp_all add: reservations_ok_def)
  have "held_in (stock_reservations t) k = held_in (stock_reservations s) k -
      at_key (rv_key res) (rv_quantity res) k" for k
    using settle(4,6) held_in_resolve [OF ids settle(2,3), of st "Some now" k] by auto
  moreover have "reserved_at t k \<le> on_hand t k" for k
    using e(1,3) [of k] o(2) [of k] settle(5) pos by (cases "k = rv_key res") auto
  ultimately show ?thesis
    using o e stock_effect_rows [OF settle(1)] reservations_ok_resolve [OF o(4) e(4) settle(6)]
    by (intro stock_okI) simp_all
qed

lemma stock_move_moves: "stock_move s t \<Longrightarrow> on_hand t k - on_hand s k = ledger_qty t k - ledger_qty s k"
  by (cases rule: stock_move.cases) (blast dest: stock_effect_moves)+

lemma stock_ok_bounds:
  assumes "stock_ok s" shows "0 \<le> reserved_at s k" "reserved_at s k \<le> on_hand s k"
  using stock_okD [OF assms] held_in_nonneg [of "stock_reservations s" k]
  by (auto simp: reservations_ok_def)

text \<open>One ledger write on a locked balance that keeps the reserved quantity covered.\<close>

lemma shift_once:
  assumes "stock_ok s" "get_balance_locked s i l = Inr (b, s1)"
    "write_txn s1 a i l tid ty q b job ref key notes now = Inr (txn, t)"
    "sb_reserved_qty b \<le> sb_quantity b + q"
  shows "stock_move s t"
proof -
  note rows = stock_okD(3) [OF assms(1)]
  note g = get_balance_locked_ok [OF rows assms(2)]
  note w = write_txn_effect [OF stock_effect_rows [OF g(1)] g(6,5) refl assms(3)]
  note pos = get_balance_position [OF rows assms(2)]
  have le: "reserved_at s k \<le> on_hand s k" for k using assms(1) by (rule stock_ok_bounds)
  from w show ?thesis
  proof (elim conjE disjE)
    assume "t = s1" "stock_reservations t = stock_reservations s1"
    with g(1,2) le show ?thesis by (intro stock_move.shift [of s t nowhere]) auto
  next
    assume "stock_effect s1 t (at_key (i, l) q) nowhere" "stock_reservations t = stock_reservations s1"
    with stock_effect_trans [OF g(1) this(1)] g(2) le pos assms(4) show ?thesis
      by (intro stock_move.shift [of s t "at_key (i, l) q"]) auto
  qed
qed

lemma receive_stock_move:
  assumes "stock_ok s" "receive_stock s a i l tid q ref notes now = Inr (txn, t)"
  shows "stock_move s t"
proof -
  obtain tenant b s1 where "0 < q" and g: "get_balance_locked s i l = Inr (b, s1)"
    and w: "write_txn s1 a i l tenant ''receipt'' q b None ref None notes now = Inr (txn, t)"
    using assms(2) by (auto simp: receive_stock_def res_simps split: if_splits)
  have "sb_reserved_qty b \<le> sb_quantity b"
    using stock_okD(2,3) [OF assms(1)] get_balance_position [OF _ g] by metis
  with \<open>0 < q\<close> show ?thesis by (intro shift_once [OF assms(1) g w]) simp
qed

lemma count_stock_move:
  assumes "stock_ok s" "count_stock s a i l tid n reason key now = Inr (res, t)"
  shows "stock_move s t"
proof -
  obtain tenant b s1 txn memo where "sb_reserved_qty b \<le> n" and g: "get_balance_locked s i l = Inr (b, s1)"
    and w: "write_txn s1 a i l tenant ''adjustment'' (n - sb_quantity b) b None None key memo now = Inr (txn, t)"
    using assms(2) by (auto simp: count_stock_def res_simps Let_def not_less split: if_splits)
  then show ?thesis by (intro shift_once [OF assms(1) g w]) simp
qed

text \<open>Locking a second balance leaves the first as it was.\<close>

lemma balance_row_kept:
  assumes "get_balance_locked s i l = Inr (b, s1)" "balance_row s k = Some r"
  shows "balance_row s1 k = Some r"
  using assms by (auto simp: get_balance_locked_def balance_row_def res_simps one_or_none_Inr Let_def first_row_append)

lemma lock_two:
  assumes "stock_rows_ok s" "get_balance_locked s i l = Inr (b, s1)" "get_balance_locked s1 i l' = Inr (b', s2)"
  shows "stock_effect s s2 nowhere nowhere \<and> stock_reservations s2 = stock_reservations s \<and>
    stock_transactions s2 = stock_transactions s \<and> sb_key b = (i, l) \<and> sb_key b' = (i, l') \<and>
    balance_row s2 (i, l) = Some b \<and> balance_row s2 (i, l') = Some b'"
proof -
  note g = get_balance_locked_ok [OF assms(1,2)]
  note h = get_balance_locked_ok [OF stock_effect_rows [OF g(1)] assms(3)]
  show ?thesis using stock_effect_trans [OF g(1) h(1)] g h balance_row_kept [OF assms(3) g(6)] by simp
qed

lemma lock_pair_ok:
  assumes "stock_rows_ok s" "lock_pair s i f d = Inr (src, dst, s1)"
  shows "stock_effect s s1 nowhere nowhere \<and> stock_reservations s1 = stock_reservations s \<and>
    stock_transactions s1 = stock_transactions s \<and> sb_key src = (i, f) \<and> sb_key dst = (i, d) \<and>
    balance_row s1 (i, f) = Some src \<and> balance_row s1 (i, d) = Some dst"
  using assms(2) lock_two [OF assms(1)]
  by (auto simp: lock_pair_def res_simps split: if_splits)

definition stock_recorded :: "'a inv_db_scheme \<Rightarrow> string option \<Rightarrow> bool" where
  "stock_recorded s key \<longleftrightarrow> truthy key \<and> key \<in> st_idempotency_key ` set (stock_transactions s)"

lemma transfer_stock_split:
  assumes "transfer_stock s a i f d tid q reason key now = Inr (res, t)" "lock_pair s i f d = Inr (src, dst, s1)"
  obtains (replay) "t = s1" "tf_idempotent res"
        "\<exists>x \<in> set (stock_transactions s1). st_idempotency_key x \<in> {key_out key, key_in key}"
    | (move) tenant ref n1 n2 deb s2 cre where "\<not> tf_idempotent res" "q \<le> sb_quantity src - sb_reserved_qty src"
        "write_txn s1 a i f tenant ''transfer'' (- q) src None ref (key_out key) n1 now = Inr (deb, s2)"
        "write_txn s2 a i d tenant ''transfer'' q dst None ref (key_in key) n2 now = Inr (cre, t)"
        "truthy key \<longrightarrow> (\<forall>x \<in> set (stock_transactions s1). st_idempotency_key x \<notin> {key_out key, key_in key})"
proof -
  let ?prior = "filter (\<lambda>x. st_idempotency_key x \<in> {key_out key, key_in key}) (stock_transactions s1)"
  show thesis
  proof (cases "truthy key \<and> length ?prior = 2")
    case True
    then have "?prior \<noteq> []" by auto
    then have "\<exists>x \<in> set (stock_transactions s1). st_idempotency_key x \<in> {key_out key, key_in key}"
      unfolding filter_empty_conv by blast
    with True show thesis
      by (intro replay) (use assms in \<open>auto simp: transfer_stock_def res_simps Let_def split: if_splits\<close>)
  next
    case False
    with assms move show thesis
      by (auto simp: transfer_stock_def res_simps Let_def filter_empty_conv not_less split: if_splits)
  qed
qed

text \<open>A transfer that was not replayed moves the quantity from the one key to the other.\<close>

lemma transfer_stock_cases:
  assumes "stock_ok s" "transfer_stock s a i f d tid q reason key now = Inr (res, t)"
  shows "stock_reservations t = stock_reservations s" and "f \<noteq> d" and "0 < q"
    and "if tf_idempotent res then stock_effect s t nowhere nowhere
         else stock_effect s t (\<lambda>k. at_key (i, f) (- q) k + at_key (i, d) q k) nowhere \<and>
           q \<le> on_hand s (i, f) - reserved_at s (i, f)"
    and "truthy key \<Longrightarrow> stock_recorded t (key_out key) \<or> stock_recorded t (key_in key)"
proof -
  note rows = stock_okD(3) [OF assms(1)]
  obtain src dst s1 where l: "lock_pair s i f d = Inr (src, dst, s1)" and ne: "f \<noteq> d" and pos: "0 < q"
    using assms(2) by (auto simp: transfer_stock_def res_simps split: if_splits)
  note lp = lock_pair_ok [OF rows l]
  have bal: "on_hand s (i, f) = sb_quantity src" "reserved_at s (i, f) = sb_reserved_qty src"
    using lp stock_effectD(1,3) [of s s1 nowhere nowhere "(i, f)"] by (simp_all add: on_hand_def reserved_at_def)
  consider (replay) "t = s1" "tf_idempotent res"
        "\<exists>x \<in> set (stock_transactions s1). st_idempotency_key x \<in> {key_out key, key_in key}"
    | (move) tenant ref n1 n2 deb s2 cre where "\<not> tf_idempotent res" "q \<le> sb_quantity src - sb_reserved_qty src"
        "write_txn s1 a i f tenant ''transfer'' (- q) src None ref (key_out key) n1 now = Inr (deb, s2)"
        "write_txn s2 a i d tenant ''transfer'' q dst None ref (key_in key) n2 now = Inr (cre, t)"
        "truthy key \<longrightarrow> (\<forall>x \<in> set (stock_transactions s1). st_idempotency_key x \<notin> {key_out key, key_in key})"
    using assms(2) l by (rule transfer_stock_split)
  then have "stock_reservations t = stock_reservations s \<and>
     (truthy key \<longrightarrow> stock_recorded t (key_out key) \<or> stock_recorded t (key_in key)) \<and>
     (if tf_idempotent res then stock_effect s t nowhere nowhere
      else stock_effect s t (\<lambda>k. at_key (i, f) (- q) k + at_key (i, d) q k) nowhere \<and>
           q \<le> on_hand s (i, f) - reserved_at s (i, f))"
  proof cases
    case replay
    then obtain x where x: "x \<in> set (stock_transactions t)" "st_idempotency_key x \<in> {key_out key, key_in key}" by auto
    from imageI [OF x(1), of st_idempotency_key] x(2)
    have "truthy key \<longrightarrow> stock_recorded t (key_out key) \<or> stock_recorded t (key_in key)"
      by (auto simp: stock_recorded_def key_out_def key_in_def)
    with replay lp show ?thesis by simp
  next
    case move
    note rows1 = stock_effect_rows [OF lp [THEN conjunct1]]
    have w1: "stock_reservations s2 = stock_reservations s1" "stock_effect s1 s2 (at_key (i, f) (- q)) nowhere"
      "stock_transactions s2 = stock_transactions s1 @ [deb]" "st_idempotency_key deb = key_out key"
      using write_txn_effect [OF rows1 _ _ refl move(3)] lp move(5) by (auto simp: key_out_def split: if_splits)
    have "balance_row s2 (i, d) = Some dst"
      using write_txn_effect [OF rows1 _ _ refl move(3)] lp ne move(5) by (auto simp: key_out_def split: if_splits)
    then have "stock_reservations t = stock_reservations s2 \<and> stock_effect s2 t (at_key (i, d) q) nowhere \<and>
        stock_transactions t = stock_transactions s2 @ [cre]"
      using write_txn_effect [OF stock_effect_rows [OF w1(2)] _ _ refl move(4)] lp move(5) w1(3,4)
      by (auto simp: key_out_def key_in_def split: if_splits)
    moreover from this w1(3,4) have "truthy key \<longrightarrow> stock_recorded t (key_out key)"
      by (auto simp: stock_recorded_def key_out_def image_iff)
    ultimately show ?thesis using w1(1) lp move(1,2) bal
      stock_effect_trans [OF stock_effect_trans [OF lp [THEN conjunct1] w1(2)], of t "at_key (i, d) q" nowhere]
      by simp
  qed
  then show "stock_reservations t = stock_reservations s" and "f \<noteq> d" and "0 < q"
    and "if tf_idempotent res then stock_effect s t nowhere nowhere
         else stock_effect s t (\<lambda>k. at_key (i, f) (- q) k + at_key (i, d) q k) nowhere \<and>
           q \<le> on_hand s (i, f) - reserved_at s (i, f)"
    and "truthy key \<Longrightarrow> stock_recorded t (key_out key) \<or> stock_recorded t (key_in key)"
    using ne pos by blast+
qed

lemma transfer_stock_move:
  assumes "stock_ok s" "transfer_stock s a i f d tid q reason key now = Inr (res, t)"
  shows "stock_move s t"
proof -
  note c = transfer_stock_cases [OF assms] and o = stock_okD(2) [OF assms(1)]
  show ?thesis
  proof (cases "tf_idempotent res")
    case True
    with c o show ?thesis by (intro stock_move.shift [of s t nowhere]) auto
  next
    case False
    let ?dq = "\<lambda>k. at_key (i, f) (- q) k + at_key (i, d) q k"
    have "reserved_at s k \<le> on_hand s k + ?dq k" for k
      using c(2-4) False o [of k] by (cases "k = (i, f)"; cases "k = (i, d)") auto
    with c False show ?thesis by (intro stock_move.shift [of s t ?dq]) auto
  qed
qed

lemma stock_move_refl: "stock_ok s \<Longrightarrow> stock_move s s"
  using stock_okD [of s] by (intro stock_move.shift [of s s nowhere]) (auto simp: stock_effect_refl)

text \<open>A ledger write with quantity zero, replayed or not, leaves every position.\<close>

lemma write_txn_zero:
  assumes "stock_rows_ok s" "balance_row s (i, l) = Some row" "sb_key bal = (i, l)"
    "sb_quantity row = sb_quantity bal"
    "write_txn s a i l tid ty 0 bal job ref key memo now = Inr (txn, t)"
  shows "stock_effect s t nowhere nowhere \<and> stock_reservations t = stock_reservations s"
proof -
  have "at_key (i, l) 0 = nowhere" by auto
  with write_txn_effect [OF assms] stock_effect_refl [OF assms(1)] show ?thesis by auto
qed

lemma create_reservation_cases:
  assumes "stock_ok s" "create_reservation s a job i l tid q now = Inr (res, t)"
  shows "t = s \<and> filter (\<lambda>r. rv_job_id r = job \<and> rv_key r = (i, l)) (stock_reservations s) = [res] \<or>
    filter (\<lambda>r. rv_job_id r = job \<and> rv_key r = (i, l)) (stock_reservations s) = [] \<and>
    rv_job_id res = job \<and> rv_key res = (i, l) \<and> rv_quantity res = q \<and> 0 < q \<and> rv_status res = RES_ACTIVE \<and>
    rv_id res = next_uuid s \<and> next_uuid s < next_uuid t \<and> rv_tenant_id res = tid \<and>
    q \<le> on_hand s (i, l) - reserved_at s (i, l) \<and>
    stock_effect s t nowhere (at_key (i, l) q) \<and> stock_reservations t = stock_reservations s @ [res]"
    (is "?old \<or> ?new")
proof -
  note rows = stock_okD(3) [OF assms(1)]
  obtain tenant ex where pre: "require_trusted_tenant a tid = Inr tenant" "0 < q"
    and ex: "one_or_none (filter (\<lambda>r. rv_job_id r = job \<and> rv_key r = (i, l)) (stock_reservations s)) = Inr ex"
    using assms(2) by (auto simp: create_reservation_def res_simps split: if_splits)
  have tenant: "tenant = tid"
    using pre(1) by (auto simp: require_trusted_tenant_def split: if_splits option.splits)
  show ?thesis
  proof (cases ex)
    case (Some r)
    then have "res = r" "t = s" using assms(2) pre ex
      by (auto simp: create_reservation_def res_simps split: if_splits)
    with ex Some show ?thesis by (auto simp: table_simps)
  next
    case None
    with ex have none: "filter (\<lambda>r. rv_job_id r = job \<and> rv_key r = (i, l)) (stock_reservations s) = []"
      by (simp add: table_simps)
    let ?res = "\<lambda>s2. \<lparr>rv_id = next_uuid s2, rv_job_id = job, rv_item_id = i, rv_location_id = l, rv_tenant_id = tenant,
         rv_quantity = q, rv_status = RES_ACTIVE, rv_expires_at = now + RESERVATION_TTL_HOURS * 3600,
         rv_resolved_at = None\<rparr>"
    let ?s3 = "\<lambda>s2. s2\<lparr>stock_reservations := stock_reservations s2 @ [?res s2], next_uuid := Suc (next_uuid s2)\<rparr>"
    obtain b s1 txn memo where g: "get_balance_locked s i l = Inr (b, s1)"
      and av: "q \<le> sb_quantity b - sb_reserved_qty b"
      and res: "res = ?res (set_balance s1 (sb_key b) (\<lambda>b. b\<lparr>sb_reserved_qty := sb_reserved_qty b + q\<rparr>))"
      and w: "write_txn (?s3 (set_balance s1 (sb_key b) (\<lambda>b. b\<lparr>sb_reserved_qty := sb_reserved_qty b + q\<rparr>))) a i l tenant
        ''reservation'' 0 b (Some job) None (reserve_key ''reserve'' job i) memo now = Inr (txn, t)"
      using assms(2) pre ex None
      by (auto simp: create_reservation_def res_simps Let_def not_less split: if_splits)
    note gb = get_balance_locked_ok [OF rows g] and pos = get_balance_position [OF rows g]
    define s2 where "s2 = set_balance s1 (sb_key b) (\<lambda>b. b\<lparr>sb_reserved_qty := sb_reserved_qty b + q\<rparr>)"
    have e2: "stock_effect s1 s2 nowhere (at_key (i, l) q)"
      unfolding s2_def gb(5) by (rule set_reserved_effect [OF stock_effect_rows [OF gb(1)] gb(6)]) simp
    have e3: "stock_effect s2 (?s3 s2) nowhere nowhere"
      using stock_effect_rows [OF e2]
      by (auto simp: stock_effect_def stock_rows_ok_def on_hand_def reserved_at_def ledger_qty_def balance_row_def)
    have "balance_row s2 (i, l) = Some (b\<lparr>sb_reserved_qty := sb_reserved_qty b + q\<rparr>)"
      using gb(5,6) by (simp add: s2_def balance_row_set_balance)
    then have row3: "balance_row (?s3 s2) (i, l) = Some (b\<lparr>sb_reserved_qty := sb_reserved_qty b + q\<rparr>)"
      by (simp add: balance_row_def)
    have e4: "stock_effect (?s3 s2) t nowhere nowhere \<and> stock_reservations t = stock_reservations (?s3 s2)"
      by (rule write_txn_zero [OF stock_effect_rows [OF e3] row3 gb(5) _ w [folded s2_def]]) simp
    have "stock_effect s t nowhere (at_key (i, l) q)"
      using stock_effect_trans [OF stock_effect_trans [OF stock_effect_trans [OF gb(1) e2] e3] e4 [THEN conjunct1]]
      by simp
    moreover have "next_uuid s < next_uuid t"
      using stock_effectD(4) [OF e4 [THEN conjunct1]] gb(3) by (simp add: s2_def)
    ultimately have ?new using none pre(2) res gb(2,3) e4 av pos tenant by (simp add: s2_def)
    then show ?thesis ..
  qed
qed

lemma create_reservation_move:
  assumes "stock_ok s" "create_reservation s a job i l tid q now = Inr (res, t)"
  shows "stock_move s t"
  using create_reservation_cases [OF assms]
proof (elim disjE conjE)
  assume "t = s"
  with assms(1) show ?thesis by (simp add: stock_move_refl)
qed (rule stock_move.hold [of s t res], auto simp: filter_empty_conv)

text \<open>Settling a hold: the reserved quantity drops by exactly what the reservation held.\<close>

lemma active_reservationD:
  assumes "active_reservation s job k tid = Inr res"
  shows "res \<in> set (stock_reservations s)" "rv_status res = RES_ACTIVE" "rv_job_id res = job" "rv_key res = k"
    "rv_tenant_id res = tid"
  using assms by (auto simp: active_reservation_def res_simps table_simps dest!: filter_eq_single_mem)

lemma unreserve_effect:
  assumes "stock_ok s" "get_balance_locked s i l = Inr (b, s1)" "res \<in> set (stock_reservations s)"
    "rv_status res = RES_ACTIVE" "rv_key res = (i, l)"
  shows "stock_effect s (unreserve s1 b res) nowhere (at_key (i, l) (- rv_quantity res))"
    "balance_row (unreserve s1 b res) (i, l) = Some (b\<lparr>sb_reserved_qty := sb_reserved_qty b - rv_quantity res\<rparr>)"
    "stock_reservations (unreserve s1 b res) = stock_reservations s"
    "stock_transactions (unreserve s1 b res) = stock_transactions s"
proof -
  note g = get_balance_locked_ok [OF stock_okD(3) [OF assms(1)] assms(2)]
  note pos = get_balance_position [OF stock_okD(3) [OF assms(1)] assms(2)]
  have "rv_quantity res \<le> sb_reserved_qty b"
    using held_in_member [OF _ assms(3,4)] stock_okD(1,4) [OF assms(1)] pos(2) assms(5)
    by (simp add: reservations_ok_def)
  then have max: "max 0 (sb_reserved_qty b - rv_quantity res) = sb_reserved_qty b + - rv_quantity res" by simp
  have "stock_effect s1 (unreserve s1 b res) nowhere (at_key (i, l) (- rv_quantity res))"
    unfolding unreserve_def g(5) by (rule set_reserved_effect [OF stock_effect_rows [OF g(1)] g(6)]) (fact max)
  from stock_effect_trans [OF g(1) this]
  show "stock_effect s (unreserve s1 b res) nowhere (at_key (i, l) (- rv_quantity res))" by simp
  show "balance_row (unreserve s1 b res) (i, l) = Some (b\<lparr>sb_reserved_qty := sb_reserved_qty b - rv_quantity res\<rparr>)"
    using g(5,6) max by (simp add: unreserve_def balance_row_set_balance)
qed (use get_balance_locked_ok [OF stock_okD(3) [OF assms(1)] assms(2)] in \<open>simp_all add: unreserve_def\<close>)

lemma resolve_effect: "stock_rows_ok s \<Longrightarrow> stock_effect s (resolve_reservation s res st now) nowhere nowhere"
  by (auto simp: resolve_reservation_def stock_effect_def stock_rows_ok_def on_hand_def reserved_at_def ledger_qty_def
        balance_row_def)

lemma resolve_row: "balance_row (resolve_reservation s res st now) k = balance_row s k"
  by (simp add: resolve_reservation_def balance_row_def)

lemma confirm_reservation_cases:
  assumes "stock_ok s" "confirm_reservation s a job i l tid now = Inr (res, t)"
  shows "res \<in> set (stock_reservations s)" "rv_status res = RES_ACTIVE" "rv_key res = (i, l)" "rv_job_id res = job"
    and "stock_effect s t (if stock_recorded s (reserve_key ''confirm'' job i) then nowhere
           else at_key (i, l) (- rv_quantity res)) (at_key (i, l) (- rv_quantity res))"
    and "stock_reservations t = update_where (\<lambda>r. rv_id r = rv_id res)
           (\<lambda>r. r\<lparr>rv_status := RES_CONFIRMED, rv_resolved_at := Some now\<rparr>) (stock_reservations s)"
    and "stock_recorded t (reserve_key ''confirm'' job i)"
proof -
  obtain tenant b s1 txn s2 memo where r: "active_reservation s job (i, l) tenant = Inr res"
    and g: "get_balance_locked s i l = Inr (b, s1)"
    and w: "write_txn (unreserve s1 b res) a i l tenant ''confirmation'' (- rv_quantity res) b (Some job) None
          (reserve_key ''confirm'' job i) memo now = Inr (txn, s2)"
    and t: "t = resolve_reservation s2 res RES_CONFIRMED now"
    using assms(2) by (auto simp: confirm_reservation_def res_simps)
  note a = active_reservationD [OF r]
  note u = unreserve_effect [OF assms(1) g a(1,2,4)]
  note gb = get_balance_locked_ok [OF stock_okD(3) [OF assms(1)] g]
  have key: "truthy (reserve_key ''confirm'' job i)" by (simp add: reserve_key_def)
  note we = write_txn_effect [OF stock_effect_rows [OF u(1)] u(2) gb(5) _ w, simplified]
  let ?dq = "if stock_recorded s (reserve_key ''confirm'' job i) then nowhere else at_key (i, l) (- rv_quantity res)"
  have e2: "stock_effect (unreserve s1 b res) s2 ?dq nowhere"
    using we key u(4) stock_effect_refl [OF stock_effect_rows [OF u(1)]]
    by (auto simp: stock_recorded_def reserve_key_def image_iff)
  have "stock_effect s s2 ?dq (at_key (i, l) (- rv_quantity res))"
    using stock_effect_trans [OF u(1) e2] by simp
  from stock_effect_trans [OF this resolve_effect [OF stock_effect_rows [OF this], of res RES_CONFIRMED now]]
  show "stock_effect s t ?dq (at_key (i, l) (- rv_quantity res))" using t by simp
  show "stock_reservations t = update_where (\<lambda>r. rv_id r = rv_id res)
      (\<lambda>r. r\<lparr>rv_status := RES_CONFIRMED, rv_resolved_at := Some now\<rparr>) (stock_reservations s)"
    using t we u(3) by (auto simp: resolve_reservation_def)
  show "stock_recorded t (reserve_key ''confirm'' job i)"
    using we key t unfolding stock_recorded_def resolve_reservation_def image_iff by (auto intro: sym)
qed (use assms(2) in \<open>auto simp: confirm_reservation_def res_simps dest: active_reservationD\<close>)

lemma release_reservation_cases:
  assumes "stock_ok s" "release_reservation s a job i l tid now = Inr (res, t)"
  shows "res \<in> set (stock_reservations s)" "rv_status res = RES_ACTIVE" "rv_key res = (i, l)" "rv_job_id res = job"
    and "stock_effect s t nowhere (at_key (i, l) (- rv_quantity res))"
    and "stock_reservations t = update_where (\<lambda>r. rv_id r = rv_id res)
           (\<lambda>r. r\<lparr>rv_status := RES_RELEASED, rv_resolved_at := Some now\<rparr>) (stock_reservations s)"
proof -
  obtain tenant b s1 txn memo where r: "active_reservation s job (i, l) tenant = Inr res"
    and g: "get_balance_locked s i l = Inr (b, s1)"
    and w: "write_txn (resolve_reservation (unreserve s1 b res) res RES_RELEASED now) a i l tenant ''return'' 0 b
          (Some job) None (reserve_key ''release'' job i) memo now = Inr (txn, t)"
    using assms(2) by (auto simp: release_reservation_def res_simps)
  note a = active_reservationD [OF r]
  note u = unreserve_effect [OF assms(1) g a(1,2,4)]
  note gb = get_balance_locked_ok [OF stock_okD(3) [OF assms(1)] g]
  note e = resolve_effect [OF stock_effect_rows [OF u(1)], of res RES_RELEASED now]
  have z: "stock_effect (resolve_reservation (unreserve s1 b res) res RES_RELEASED now) t nowhere nowhere \<and>
      stock_reservations t = stock_reservations (resolve_reservation (unreserve s1 b res) res RES_RELEASED now)"
    by (rule write_txn_zero [OF stock_effect_rows [OF e] trans [OF resolve_row u(2)] gb(5) _ w]) simp
  from stock_effect_trans [OF stock_effect_trans [OF u(1) e] z [THEN conjunct1]]
  show "stock_effect s t nowhere (at_key (i, l) (- rv_quantity res))" by simp
  show "stock_reservations t = update_where (\<lambda>r. rv_id r = rv_id res)
      (\<lambda>r. r\<lparr>rv_status := RES_RELEASED, rv_resolved_at := Some now\<rparr>) (stock_reservations s)"
    using z u(3) by (simp add: resolve_reservation_def)
qed (use assms(2) in \<open>auto simp: release_reservation_def res_simps dest: active_reservationD\<close>)

lemma confirm_reservation_move:
  "stock_ok s \<Longrightarrow> confirm_reservation s a job i l tid now = Inr (res, t) \<Longrightarrow> stock_move s t"
  using confirm_reservation_cases [of s a job i l tid now res t]
  by (intro stock_move.settle [of s t _ res RES_CONFIRMED now]) (auto split: if_splits)

lemma release_reservation_move:
  "stock_ok s \<Longrightarrow> release_reservation s a job i l tid now = Inr (res, t) \<Longrightarrow> stock_move s t"
  using release_reservation_cases [of s a job i l tid now res t]
  by (intro stock_move.settle [of s t nowhere res RES_RELEASED now]) auto

subsection \<open>Stock over time\<close>

text \<open>
  What can happen to the stock tables: the six operations by any actor, and calls that leave
  these tables alone (the catalogue, locations, the rest of the platform).
\<close>

inductive stock_step :: "'a inv_db_scheme \<Rightarrow> 'a inv_db_scheme \<Rightarrow> bool" where
  receive: "receive_stock s a i l tid q ref memo now = Inr (x, t) \<Longrightarrow> stock_step s t"
| count: "count_stock s a i l tid n reason key now = Inr (c, t) \<Longrightarrow> stock_step s t"
| transfer: "transfer_stock s a i f d tid q reason key now = Inr (y, t) \<Longrightarrow> stock_step s t"
| reserve: "create_reservation s a job i l tid q now = Inr (r, t) \<Longrightarrow> stock_step s t"
| confirm: "confirm_reservation s a job i l tid now = Inr (r, t) \<Longrightarrow> stock_step s t"
| release: "release_reservation s a job i l tid now = Inr (r, t) \<Longrightarrow> stock_step s t"
| elsewhere: "stock_balances t = stock_balances s \<Longrightarrow> stock_transactions t = stock_transactions s \<Longrightarrow>
    stock_reservations t = stock_reservations s \<Longrightarrow> next_uuid s \<le> next_uuid t \<Longrightarrow> stock_step s t"

lemma stock_step_move:
  assumes "stock_step s t" "stock_ok s"
  shows "stock_move s t"
  using assms(1)
proof cases
  case elsewhere
  then have "stock_effect s t nowhere nowhere"
    using stock_okD(3) [OF assms(2)]
    by (auto simp: stock_effect_def stock_rows_ok_def on_hand_def reserved_at_def ledger_qty_def balance_row_def)
  with elsewhere stock_okD(2) [OF assms(2)] show ?thesis by (intro stock_move.shift [of s t nowhere]) auto
qed (use assms(2) in \<open>blast intro: receive_stock_move count_stock_move transfer_stock_move create_reservation_move
      confirm_reservation_move release_reservation_move\<close>)+

lemma stock_step_ok: "stock_ok s \<Longrightarrow> stock_step s t \<Longrightarrow> stock_ok t"
  by (blast intro: stock_move_ok stock_step_move)

interpretation stock: solvent_ledger stock_ok "\<lambda>s k. of_int (on_hand s k)" "\<lambda>s k. of_int (ledger_qty s k)" stock_step
proof unfold_locales
  fix s t :: "'a inv_db_scheme" and k
  show "stock_ok t" if "stock_ok s" "stock_step s t" using that by (rule stock_step_ok)
  show "(of_int (on_hand t k) :: decimal) - of_int (on_hand s k) = of_int (ledger_qty t k) - of_int (ledger_qty s k)"
    if "stock_ok s" "stock_step s t"
    using stock_move_moves [OF stock_step_move [OF that(2,1)], of k] by (metis of_int_diff)
  show "(0 :: decimal) \<le> of_int (on_hand s k)" if "stock_ok s"
    using stock_ok_bounds [OF that, of k] by simp
qed

text \<open>A reservation is settled once.\<close>

fun reservation_edges :: "reservation_status \<Rightarrow> reservation_status list" where
  "reservation_edges RES_ACTIVE = [RES_CONFIRMED, RES_RELEASED]"
| "reservation_edges _ = []"

definition status_of_reservation :: "'a inv_db_scheme \<Rightarrow> uuid \<Rightarrow> reservation_status option" where
  "status_of_reservation s i = map_option rv_status (first_row (filter (\<lambda>r. rv_id r = i) (stock_reservations s)))"

lemma status_of_reservation_mem:
  "stock_ok s \<Longrightarrow> r \<in> set (stock_reservations s) \<Longrightarrow> status_of_reservation s (rv_id r) = Some (rv_status r)"
  using filter_key_single [of rv_id "stock_reservations s" r] stock_okD(4) [of s]
  by (simp add: status_of_reservation_def reservations_ok_def)

interpretation reservation_graph: guarded_records reservation_edges "\<lambda>st. st \<noteq> RES_ACTIVE" stock_ok
  status_of_reservation stock_step
proof unfold_locales
  fix st assume "st \<noteq> RES_ACTIVE"
  then show "reservation_edges st = []" by (cases st) auto
next
  fix s t :: "'a inv_db_scheme" and i st
  assume ok: "stock_ok s" and step: "stock_step s t"
  show "stock_ok t" using ok step by (rule stock_step_ok)
  assume st: "status_of_reservation s i = Some st"
  from step ok have "stock_move s t" by (rule stock_step_move)
  then show "\<exists>b. status_of_reservation t i = Some b \<and> (b = st \<or> b \<in> set (reservation_edges st))"
  proof cases
    case (shift dq)
    with st show ?thesis by (auto simp: status_of_reservation_def)
  next
    case (hold res)
    with st show ?thesis by (auto simp: status_of_reservation_def first_row_append split: option.splits)
  next
    case (settle dq res st' now)
    have "status_of_reservation t i =
      map_option (\<lambda>r. if rv_id r = rv_id res then st' else rv_status r)
        (first_row (filter (\<lambda>r. rv_id r = i) (stock_reservations s)))"
      unfolding status_of_reservation_def settle(6)
      by (subst first_row_update_where) (auto simp: option.map_comp comp_def intro!: option.map_cong)
    moreover obtain z where z: "first_row (filter (\<lambda>r. rv_id r = i) (stock_reservations s)) = Some z" "st = rv_status z"
      using st by (auto simp: status_of_reservation_def)
    moreover have "rv_status z = RES_ACTIVE" if "rv_id z = rv_id res"
      using status_of_reservation_mem [OF ok settle(2)] settle(3) that z st
        first_row_Some_set [OF z(1)] by (auto simp: status_of_reservation_def)
    ultimately show ?thesis using settle(4) by auto
  qed
qed

text \<open>What the ledger appended stays: a recorded key is recorded ever after.\<close>

lemma stock_move_appends: "stock_move s t \<Longrightarrow> \<exists>ys. stock_transactions t = stock_transactions s @ ys"
  by (cases rule: stock_move.cases) (auto simp: stock_effect_def)

lemma stock_run_recorded:
  "stock_step\<^sup>*\<^sup>* s t \<Longrightarrow> stock_ok s \<Longrightarrow> stock_recorded s key \<Longrightarrow> stock_recorded t key"
proof (induction rule: rtranclp_induct)
  case base
  then show ?case by simp
next
  case (step t u)
  then have "stock_ok t" using stock.run_inv by blast
  with step stock_move_appends [OF stock_step_move [OF step.hyps(2)]] show ?case
    by (auto simp: stock_recorded_def)
qed

lemma get_row_unique:
  assumes "stock_rows_ok s"
  shows "one_or_none (filter (\<lambda>b. sb_key b = k) (stock_balances s)) = Inr (balance_row s k)"
proof (cases "filter (\<lambda>b. sb_key b = k) (stock_balances s)")
  case Nil
  then show ?thesis by (simp add: balance_row_def)
next
  case (Cons b bs)
  then have "b \<in> set (stock_balances s)" "sb_key b = k" by (auto dest: Cons_eq_filterD [OF sym])
  with filter_key_single [of sb_key "stock_balances s" b] assms show ?thesis
    by (auto simp: stock_rows_ok_def balance_row_def)
qed

subsection \<open>Properties\<close>

text \<open>A warehouse and a van of the provider 4, one item at both, a reservation for job J at each.\<close>

definition demo_receipt :: "uuid \<Rightarrow> uuid \<Rightarrow> int \<Rightarrow> stock_txn" where
  "demo_receipt n l q = \<lparr>st_id = n, st_item_id = 70, st_location_id = l, st_tenant_id = 4, st_txn_type = ''receipt'',
     st_quantity = q, st_balance_before = 0, st_balance_after = q, st_job_id = None, st_reference_id = None,
     st_idempotency_key = None, st_notes = None, st_actor_id = None\<rparr>"

definition demo_hold :: "uuid \<Rightarrow> uuid \<Rightarrow> int \<Rightarrow> stock_reservation" where
  "demo_hold n l q = \<lparr>rv_id = n, rv_job_id = ''J'', rv_item_id = 70, rv_location_id = l, rv_tenant_id = 4,
     rv_quantity = q, rv_status = RES_ACTIVE, rv_expires_at = 999, rv_resolved_at = None\<rparr>"

definition demo_balance :: "uuid \<Rightarrow> int \<Rightarrow> int \<Rightarrow> stock_balance" where
  "demo_balance l q r = \<lparr>sb_item_id = 70, sb_location_id = l, sb_tenant_id = 4, sb_quantity = q,
     sb_reserved_qty = r, sb_last_txn_at = None\<rparr>"

definition demo_location :: "uuid \<Rightarrow> stock_location" where
  "demo_location l = \<lparr>loc_id = l, loc_tenant_id = 4, loc_name = ''store'', loc_type = ''warehouse'', loc_staff_id = None,
     loc_is_active = True\<rparr>"

definition demo_item :: inventory_item where
  "demo_item = \<lparr>itm_id = 70, itm_tenant_id = 4, itm_name = ''capacitor'', itm_sku = ''C1'', itm_unit_cost = 100,
     itm_selling_price = Some 150, itm_min_quantity = 5, itm_is_active = True, itm_status = ''published''\<rparr>"

definition demo_stock :: inv_db where
  "demo_stock = (billing_db.extend demo_billing (inv_db.fields [demo_item] [demo_location 71, demo_location 72]
     [demo_balance 71 10 3, demo_balance 72 8 2] [demo_receipt 73 71 10, demo_receipt 74 72 8]
     [demo_hold 75 71 3, demo_hold 76 72 2]))\<lparr>next_uuid := 200\<rparr>"

definition demo_keeper :: inv_actor where
  "demo_keeper = \<lparr>ia_actor_id = Some 5, ia_role = Some ''tenant_admin'', ia_tenant_id = Some 4\<rparr>"

lemmas demo_stock_simps = demo_stock_def demo_keeper_def demo_item_def demo_location_def demo_balance_def
  demo_hold_def demo_receipt_def billing_db.defs inv_db.defs

lemmas stock_op_simps = require_trusted_tenant_def inv_super_admin_def require_item_def require_location_def
  get_balance_locked_def active_reservation_def write_txn_def stock_txn_by_key_def reserve_key_def unreserve_def
  resolve_reservation_def set_balance_def

lemma demo_stock_ok: "stock_ok demo_stock"
proof (rule stock_okI)
  show "stock_rows_ok demo_stock" "reservations_ok demo_stock"
    by (simp_all add: stock_rows_ok_def reservations_ok_def demo_stock_simps)
  fix k
  show "reserved_at demo_stock k = held_in (stock_reservations demo_stock) k" "reserved_at demo_stock k \<le> on_hand demo_stock k"
    by (auto simp: reserved_at_def on_hand_def held_in_def balance_row_def demo_stock_simps)
qed

text \<open>
  C16: the stock is always explained. Whatever sequence of receipts, counts, transfers, reservations,
  confirmations and releases runs, by whoever, a balance that equalled the sum of its ledger still does,
  so the reconciliation of every stock reading reports a match; the reserved quantity is exactly what the
  active reservations hold, and never exceeds the quantity on hand.
\<close>

theorem stock_always_reconciles:
  assumes "stock_ok s" and "stock_step\<^sup>*\<^sup>* s t" and "on_hand s (i, l) = ledger_qty s (i, l)"
  shows "reconcile t i l = Inr (True, on_hand t (i, l), on_hand t (i, l)) \<and>
    reserved_at t (i, l) = held_in (stock_reservations t) (i, l) \<and>
    0 \<le> reserved_at t (i, l) \<and> reserved_at t (i, l) \<le> on_hand t (i, l)"
proof -
  have ok: "stock_ok t" using assms(1,2) by (rule stock.run_inv [rotated])
  have eq: "ledger_qty t (i, l) = on_hand t (i, l)"
    using stock.run_reconciled [OF assms(2,1), of "(i, l)"] assms(3) by simp
  have "one_or_none (filter (\<lambda>b. sb_key b = (i, l)) (stock_balances t)) = Inr (balance_row t (i, l))"
    using get_row_unique [OF stock_okD(3) [OF ok]] .
  with eq have "reconcile t i l = Inr (True, on_hand t (i, l), on_hand t (i, l))"
    by (simp add: reconcile_def ledger_qty_def on_hand_def Let_def)
  with stock_okD(1) [OF ok] stock_ok_bounds [OF ok] show ?thesis by blast
qed

theorem stock_always_reconciles_witness:
  "\<exists>t. stock_step demo_stock t \<and> on_hand t (70, 71) = 7 \<and> reserved_at t (70, 71) = 0 \<and> reconcile t 70 71 = Inr (True, 7, 7)"
proof -
  obtain r t where t: "confirm_reservation demo_stock demo_keeper ''J'' 70 71 4 9 = Inr (r, t)"
    and pos: "on_hand t (70, 71) = 7" "reserved_at t (70, 71) = 0"
    by (simp add: confirm_reservation_def stock_op_simps demo_stock_simps on_hand_def reserved_at_def balance_row_def
      Let_def)
  have step: "stock_step demo_stock t" using t by (rule stock_step.confirm)
  have "on_hand demo_stock (70, 71) = ledger_qty demo_stock (70, 71)"
    by (simp add: on_hand_def balance_row_def ledger_qty_def demo_stock_simps)
  from stock_always_reconciles [OF demo_stock_ok r_into_rtranclp [where r = stock_step, OF step] this] step pos
  show ?thesis by auto
qed

text \<open>A reservation keeps its job, item and location for as long as it exists.\<close>

lemma stock_move_keeps_reservation:
  assumes "stock_move s t" "r \<in> set (stock_reservations s)"
  shows "\<exists>r' \<in> set (stock_reservations t). rv_id r' = rv_id r \<and> rv_job_id r' = rv_job_id r \<and> rv_key r' = rv_key r"
  using assms(1)
proof cases
  case (settle dq res st now)
  let ?f = "\<lambda>r. if rv_id r = rv_id res then r\<lparr>rv_status := st, rv_resolved_at := Some now\<rparr> else r"
  have "?f r \<in> set (stock_reservations t)" using assms(2) settle(6) by (auto simp: update_where_def)
  then show ?thesis by (rule bexI [rotated]) simp
qed (use assms(2) in auto)

lemma stock_run_keeps_reservation:
  "stock_step\<^sup>*\<^sup>* s t \<Longrightarrow> stock_ok s \<Longrightarrow> r \<in> set (stock_reservations s) \<Longrightarrow>
   \<exists>r' \<in> set (stock_reservations t). rv_id r' = rv_id r \<and> rv_job_id r' = rv_job_id r \<and> rv_key r' = rv_key r"
proof (induction rule: rtranclp_induct)
  case base
  then show ?case by blast
next
  case (step t u)
  then have "stock_move t u" using stock.run_inv stock_step_move by blast
  with step show ?case using stock_move_keeps_reservation by metis
qed

lemma reservation_unique:
  assumes "stock_ok s" "r \<in> set (stock_reservations s)" "r' \<in> set (stock_reservations s)"
    "rv_job_id r' = rv_job_id r" "rv_key r' = rv_key r"
  shows "r' = r"
proof -
  have "distinct (map (\<lambda>r. (rv_job_id r, rv_key r)) (stock_reservations s))"
    using stock_okD(4) [OF assms(1)] by (simp add: reservations_ok_def)
  with assms(2-) show ?thesis by (auto simp: distinct_map dest: inj_onD)
qed

text \<open>
  C20: a reservation is settled once. After a reservation has been confirmed or released, whatever
  runs next, it keeps that status, and neither confirming nor releasing it again succeeds, for any
  actor: the stock of one hold cannot be consumed or given back twice.
\<close>

theorem reservation_settled_once:
  assumes "stock_ok s" and "stock_step\<^sup>*\<^sup>* s t"
    and "r \<in> set (stock_reservations s)" and "rv_status r \<noteq> RES_ACTIVE"
  shows "status_of_reservation t (rv_id r) = Some (rv_status r) \<and>
    confirm_reservation t a (rv_job_id r) (rv_item_id r) (rv_location_id r) tid now \<noteq> Inr x \<and>
    release_reservation t a (rv_job_id r) (rv_item_id r) (rv_location_id r) tid now \<noteq> Inr x"
proof -
  have ok: "stock_ok t" using assms(1,2) stock.run_inv by blast
  have st: "status_of_reservation t (rv_id r) = Some (rv_status r)"
    using reservation_graph.final_forever [OF assms(2,1) status_of_reservation_mem [OF assms(1,3)]] assms(4) by simp
  obtain r' where r': "r' \<in> set (stock_reservations t)" "rv_id r' = rv_id r" "rv_job_id r' = rv_job_id r"
    "rv_key r' = rv_key r" using stock_run_keeps_reservation [OF assms(2,1,3)] by blast
  have settled: "rv_status q \<noteq> RES_ACTIVE"
    if "q \<in> set (stock_reservations t)" "rv_job_id q = rv_job_id r" "rv_key q = rv_key r" for q
    using reservation_unique [OF ok r'(1) that(1)] that r' status_of_reservation_mem [OF ok r'(1)] st assms(4) by simp
  obtain res u where x: "x = (res, u)" by fastforce
  have "confirm_reservation t a (rv_job_id r) (rv_item_id r) (rv_location_id r) tid now \<noteq> Inr x"
    using confirm_reservation_cases(1-4) [OF ok, of a _ _ _ tid now res u] settled [of res] x by metis
  moreover have "release_reservation t a (rv_job_id r) (rv_item_id r) (rv_location_id r) tid now \<noteq> Inr x"
    using release_reservation_cases(1-4) [OF ok, of a _ _ _ tid now res u] settled [of res] x by metis
  ultimately show ?thesis using st by blast
qed

theorem reservation_settled_once_witness:
  "\<exists>t r. confirm_reservation demo_stock demo_keeper ''J'' 70 71 4 9 = Inr (r, t) \<and>
     (\<forall>x. release_reservation t demo_keeper ''J'' 70 71 4 10 \<noteq> Inr x)"
proof -
  obtain r t where t: "confirm_reservation demo_stock demo_keeper ''J'' 70 71 4 9 = Inr (r, t)"
    and mem: "(demo_hold 75 71 3)\<lparr>rv_status := RES_CONFIRMED, rv_resolved_at := Some 9\<rparr> \<in> set (stock_reservations t)"
    by (simp add: confirm_reservation_def stock_op_simps demo_stock_simps Let_def)
  have "stock_ok t" using stock_step_ok [OF demo_stock_ok stock_step.confirm [OF t]] .
  from reservation_settled_once [OF this rtranclp.rtrancl_refl mem, of demo_keeper 4 10]
  have "\<forall>x. release_reservation t demo_keeper ''J'' 70 71 4 10 \<noteq> Inr x" by (simp add: demo_hold_def)
  with t show ?thesis by blast
qed

text \<open>
  A second reservation of the same item for the same job consumes nothing. The confirmation's
  idempotency key names the job and the item but not the location: once a job has confirmed its
  reservation of an item at one location, confirming its reservation of that item at another one
  marks it confirmed and drops the hold, yet deducts no stock from that location.
\<close>

theorem second_location_not_deducted:
  assumes "stock_ok s" and "confirm_reservation s a job i l tid now = Inr (r, t)"
    and "stock_step\<^sup>*\<^sup>* t u" and "confirm_reservation u a' job i l' tid' now' = Inr (r', v)"
  shows "on_hand v k = on_hand u k \<and> reserved_at v (i, l') = reserved_at u (i, l') - rv_quantity r' \<and>
    status_of_reservation v (rv_id r') = Some RES_CONFIRMED"
proof -
  have ok: "stock_ok t" using stock_step_ok [OF assms(1) stock_step.confirm [OF assms(2)]] .
  then have oku: "stock_ok u" using assms(3) stock.run_inv by blast
  note c = confirm_reservation_cases [OF oku assms(4)]
  have "stock_recorded u (reserve_key ''confirm'' job i)"
    using stock_run_recorded [OF assms(3) ok confirm_reservation_cases(7) [OF assms(1,2)]] .
  then have e: "stock_effect u v nowhere (at_key (i, l') (- rv_quantity r'))" using c(5) by simp
  have "status_of_reservation v (rv_id r') = Some RES_CONFIRMED"
    using filter_key_single [of rv_id "stock_reservations u" r'] c(1) stock_okD(4) [OF oku]
    unfolding status_of_reservation_def c(6) reservations_ok_def by (subst first_row_update_where) auto
  with stock_effectD(1) [OF e, of k] stock_effectD(3) [OF e, of "(i, l')"] show ?thesis by simp
qed

theorem second_location_not_deducted_witness:
  "\<exists>t v r r'. confirm_reservation demo_stock demo_keeper ''J'' 70 71 4 9 = Inr (r, t) \<and>
     confirm_reservation t demo_keeper ''J'' 70 72 4 9 = Inr (r', v) \<and>
     on_hand v (70, 72) = 8 \<and> reserved_at v (70, 72) = 0"
proof -
  obtain r t r' v where t: "confirm_reservation demo_stock demo_keeper ''J'' 70 71 4 9 = Inr (r, t)"
    and v: "confirm_reservation t demo_keeper ''J'' 70 72 4 9 = Inr (r', v)"
    and "rv_quantity r' = 2" "on_hand t (70, 72) = 8" "reserved_at t (70, 72) = 2"
    by (simp add: confirm_reservation_def stock_op_simps demo_stock_simps on_hand_def reserved_at_def balance_row_def
      Let_def)
  with second_location_not_deducted [OF demo_stock_ok t rtranclp.rtrancl_refl v, of "(70, 72)"] show ?thesis by auto
qed

text \<open>A transfer under a key that moves stock finds the key unused and leaves it recorded.\<close>

lemma transfer_stock_fresh:
  assumes "stock_ok s" "transfer_stock s a i f d tid q reason key now = Inr (res, t)" "truthy key"
    "stock_recorded s (key_out key) \<or> stock_recorded s (key_in key)"
  shows "tf_idempotent res"
proof -
  obtain src dst s1 where l: "lock_pair s i f d = Inr (src, dst, s1)"
    using assms(2) by (auto simp: transfer_stock_def res_simps split: if_splits)
  have "stock_transactions s1 = stock_transactions s" using lock_pair_ok [OF stock_okD(3) [OF assms(1)] l] by blast
  with assms(4) have "filter (\<lambda>x. st_idempotency_key x \<in> {key_out key, key_in key}) (stock_transactions s1) \<noteq> []"
    by (auto simp: stock_recorded_def filter_empty_conv)
  with assms(2,3) l show ?thesis by (auto simp: transfer_stock_def res_simps Let_def split: if_splits)
qed

text \<open>
  A transfer moves stock and creates none. When a transfer succeeds, source and destination
  together hold what they held before, every other position and every hold is untouched, and the
  source still covers what is reserved there; and once a transfer has been made under an idempotency
  key, a later call that presents the same key moves nothing, whatever it asks for.
\<close>

theorem transfer_conserves_and_replays:
  assumes "stock_ok s" and "transfer_stock s a i f d tid q reason key now = Inr (res, t)"
  shows "on_hand t (i, f) + on_hand t (i, d) = on_hand s (i, f) + on_hand s (i, d) \<and>
    (\<not> tf_idempotent res \<longrightarrow> on_hand t (i, d) = on_hand s (i, d) + q) \<and>
    reserved_at t (i, f) \<le> on_hand t (i, f) \<and>
    (\<forall>k. reserved_at t k = reserved_at s k \<and> (k \<noteq> (i, f) \<and> k \<noteq> (i, d) \<longrightarrow> on_hand t k = on_hand s k)) \<and>
    (truthy key \<and> stock_step\<^sup>*\<^sup>* t u \<and> transfer_stock u a' i' f' d' tid' q' reason' key now' = Inr (res', v) \<longrightarrow>
       tf_idempotent res' \<and> on_hand v k = on_hand u k)"
proof -
  note c = transfer_stock_cases [OF assms]
  have ok: "stock_ok t" using stock_step_ok [OF assms(1) stock_step.transfer [OF assms(2)]] .
  have pos: "on_hand t k = on_hand s k + (if tf_idempotent res then 0 else at_key (i, f) (- q) k + at_key (i, d) q k) \<and>
      reserved_at t k = reserved_at s k" for k
    using c(4) by (cases "tf_idempotent res") (auto dest: stock_effectD(1,3) [where k = k])
  have "tf_idempotent res' \<and> on_hand v k = on_hand u k" if key: "truthy key" and run: "stock_step\<^sup>*\<^sup>* t u"
    and call: "transfer_stock u a' i' f' d' tid' q' reason' key now' = Inr (res', v)"
  proof -
    have oku: "stock_ok u" using run ok stock.run_inv by blast
    have "stock_recorded u (key_out key) \<or> stock_recorded u (key_in key)"
      using c(5) [OF key] stock_run_recorded [OF run ok] by blast
    with transfer_stock_fresh [OF oku call key] have "tf_idempotent res'" by blast
    with transfer_stock_cases(4) [OF oku call] show ?thesis by (auto dest: stock_effectD(1) [where k = k])
  qed
  with pos c(2) stock_okD(2) [OF ok] show ?thesis by auto
qed

theorem transfer_conserves_and_replays_witness:
  "\<exists>res t. transfer_stock demo_stock demo_keeper 70 71 72 4 6 ''restock'' (Some ''k1'') 9 = Inr (res, t) \<and>
     on_hand t (70, 71) + on_hand t (70, 72) = 18 \<and>
     transfer_stock demo_stock demo_keeper 70 71 72 4 8 ''restock'' (Some ''k1'') 9 = Inl (ServiceOSException ''CONFLICT'') \<and>
     (\<exists>res' v. transfer_stock t demo_keeper 70 71 72 4 6 ''restock'' (Some ''k1'') 10 = Inr (res', v) \<and>
        on_hand v (70, 71) = 4)"
proof -
  note op = transfer_stock_def lock_pair_def stock_op_simps demo_stock_simps on_hand_def reserved_at_def balance_row_def
    Let_def blank_def py_space_def key_out_def key_in_def
  obtain res t where t: "transfer_stock demo_stock demo_keeper 70 71 72 4 6 ''restock'' (Some ''k1'') 9 = Inr (res, t)"
    and again: "\<exists>res' v. transfer_stock t demo_keeper 70 71 72 4 6 ''restock'' (Some ''k1'') 10 = Inr (res', v)"
    and h: "on_hand t (70, 71) = 4"
    by (simp add: op)
  have z: "on_hand demo_stock (70, 71) + on_hand demo_stock (70, 72) = 18"
    "transfer_stock demo_stock demo_keeper 70 71 72 4 8 ''restock'' (Some ''k1'') 9 = Inl (ServiceOSException ''CONFLICT'')"
    by (simp_all add: op)
  obtain res' v where v: "transfer_stock t demo_keeper 70 71 72 4 6 ''restock'' (Some ''k1'') 10 = Inr (res', v)"
    using again by blast
  from transfer_conserves_and_replays [OF demo_stock_ok t, of t demo_keeper 70 71 72 4 6 "''restock''" 10 res' v "(70, 71)"]
    v h z t show ?thesis by auto
qed

text \<open>
  A count sets the balance, unless its key was used before. A count that succeeds under a key the
  ledger does not have leaves exactly the counted quantity on hand; under a key any earlier movement
  of any item recorded, the call still succeeds and reports the adjustment, but the stock is unchanged.
\<close>

theorem count_sets_balance_unless_replayed:
  assumes "stock_ok s" and "count_stock s a i l tid n reason key now = Inr (res, t)"
  shows "on_hand t (i, l) = (if stock_recorded s key then on_hand s (i, l) else n) \<and>
    cn_adjustment res = n - on_hand s (i, l) \<and> reserved_at t (i, l) = reserved_at s (i, l) \<and>
    reserved_at t (i, l) \<le> n \<and> (\<forall>k. k \<noteq> (i, l) \<longrightarrow> on_hand t k = on_hand s k)"
proof -
  note rows = stock_okD(3) [OF assms(1)]
  obtain tenant b s1 txn memo where res: "cn_adjustment res = n - sb_quantity b" "sb_reserved_qty b \<le> n"
    and g: "get_balance_locked s i l = Inr (b, s1)"
    and w: "write_txn s1 a i l tenant ''adjustment'' (n - sb_quantity b) b None None key memo now = Inr (txn, t)"
    using assms(2) by (auto simp: count_stock_def res_simps Let_def not_less split: if_splits)
  note gb = get_balance_locked_ok [OF rows g] and pos = get_balance_position [OF rows g]
  have "(if stock_recorded s key then t = s1 else stock_effect s1 t (at_key (i, l) (n - sb_quantity b)) nowhere)"
    using write_txn_effect [OF stock_effect_rows [OF gb(1)] gb(6,5) refl w] gb(4)
    by (auto simp: stock_recorded_def truthy_def image_iff split: option.splits)
  then have "stock_effect s t (if stock_recorded s key then nowhere else at_key (i, l) (n - sb_quantity b)) nowhere"
    using gb(1) stock_effect_trans [OF gb(1)] by (auto split: if_splits)
  note e = stock_effectD [OF this]
  show ?thesis using e(1,3) [of "(i, l)"] e(1) res pos by simp
qed

theorem count_sets_balance_unless_replayed_witness:
  "\<exists>res t. count_stock demo_stock demo_keeper 70 71 4 6 ''audit'' None 9 = Inr (res, t) \<and> on_hand t (70, 71) = 6"
proof -
  obtain res t where t: "count_stock demo_stock demo_keeper 70 71 4 6 ''audit'' None 9 = Inr (res, t)"
    by (simp add: count_stock_def stock_op_simps demo_stock_simps Let_def blank_def py_space_def)
  from count_sets_balance_unless_replayed [OF demo_stock_ok t] t show ?thesis by (auto simp: stock_recorded_def)
qed

end
