(* ===== verification/Slots.thy ===== *)
theory Slots
  imports UsageCredits "HOL-Library.While_Combinator" "HOL-Library.Product_Lexorder" "HOL-Library.List_Lexorder" "HOL-Library.Char_ord"
begin

section \<open>Bookable slots\<close>

text \<open>
  The provider-level slot service (home_service_booking/provider_slot_service.py) and the definition of
  an active technician it counts (home_service_assignment/eligibility.py). \<open>slot_db\<close> adds the
  availability rules, the tenant's exceptions and booking-window settings, users, tenant services and
  seat entitlements. A time of day is its number of seconds since midnight, a naive local date and time
  (\<open>moment\<close>) its number of microseconds; strings range over the first 256 code points. The tenant's
  clock is an argument: \<open>clock zone\<close> is the local time the zone database answers for a zone name, \<open>None\<close>
  where \<^verbatim>\<open>ZoneInfo\<close> raises. \<open>roster_unreadable\<close> says that the roster query raises.
\<close>

subsection \<open>Times of day\<close>

type_synonym tod = nat
type_synonym moment = int

definition combine :: "date \<Rightarrow> tod \<Rightarrow> moment" where
  "combine d t = (86400 * d + int t) * 1000000"

definition date_of :: "moment \<Rightarrow> date" where
  "date_of m = m div (86400 * 1000000)"

definition num2 :: "string \<Rightarrow> nat option" where
  "num2 cs = (if cs \<noteq> [] \<and> length cs \<le> 2 \<and> list_all is_digit cs then Some (nat_of_str cs) else None)"

text \<open>\<^verbatim>\<open>s.split(c)\<close>.\<close>

fun split_on :: "char \<Rightarrow> string \<Rightarrow> string list" where
  "split_on c [] = [[]]"
| "split_on c (x # xs) = (if x = c then [] # split_on c xs
     else case split_on c xs of [] \<Rightarrow> [[x]] | p # ps \<Rightarrow> (x # p) # ps)"

text \<open>\<^verbatim>\<open>strptime\<close> with \<^verbatim>\<open>%H:%M:%S\<close>, then with \<^verbatim>\<open>%H:%M\<close>: fields of one or two digits within their ranges.\<close>

definition parse_hhmm :: "string option \<Rightarrow> tod option" where
  "parse_hhmm v = (case v of None \<Rightarrow> None | Some raw \<Rightarrow>
     (case map num2 (split_on CHR '':'' (strip raw)) of
        [Some h, Some m, Some sec] \<Rightarrow> if h < 24 \<and> m < 60 \<and> sec < 60 then Some (3600 * h + 60 * m + sec) else None
      | [Some h, Some m] \<Rightarrow> if h < 24 \<and> m < 60 then Some (3600 * h + 60 * m) else None
      | _ \<Rightarrow> None))"

definition pad2 :: "nat \<Rightarrow> string" where
  "pad2 n = [char_of (48 + n div 10), char_of (48 + n mod 10)]"

definition hhmm :: "tod \<Rightarrow> string" where
  "hhmm t = pad2 (t div 3600) @ '':'' @ pad2 (t mod 3600 div 60)"

definition window_label :: "tod \<Rightarrow> tod \<Rightarrow> string" where
  "window_label start stop = hhmm start @ ''-'' @ hhmm stop"

subsection \<open>Tables\<close>

record availability_rule =
  ar_tenant_id :: uuid
  ar_scope_type :: string
  ar_scope_id :: "uuid option"
  ar_day_of_week :: int
  ar_is_active :: bool
  ar_start_time :: string
  ar_end_time :: string
  ar_break_start_time :: "string option"
  ar_break_end_time :: "string option"
  ar_max_jobs_per_day :: "int option"
  ar_timezone :: string

text \<open>A rule as the slot queries return it, with the joined buffer; a plain row has none.\<close>

record rule_row = availability_rule +
  buffer_minutes_between_jobs :: "int option"

record availability_exception =
  ax_tenant_id :: uuid
  ax_date :: date
  ax_status :: string
  ax_full_day_closed :: bool
  ax_start_time :: "string option"
  ax_end_time :: "string option"

record window_row =
  bw_tenant_id :: uuid
  bw_minimum_notice_minutes :: "int option"
  bw_maximum_advance_booking_days :: "int option"
  bw_allow_same_day_booking :: "bool option"
  bw_emergency_booking_allowed :: "bool option"
  bw_timezone :: "string option"
  bw_buffer_minutes_between_jobs :: "int option"

record user_row =
  us_id :: uuid
  us_is_active :: bool
  us_tenant_id :: "uuid option"
  us_role :: string

record tenant_service =
  sv_id :: uuid
  sv_tenant_id :: uuid
  sv_master_service_id :: uuid
  sv_job_type_id :: uuid
  sv_is_active :: bool
  sv_is_enabled :: bool
  sv_deleted :: bool
  sv_setup_status :: string

record document_row =
  td_tenant_id :: uuid
  td_staff_member_id :: "uuid option"
  td_doc_type :: string
  td_is_current :: bool
  td_status :: string
  td_expiry_date :: "time option"

record entitlement =
  en_tenant_id :: uuid
  en_seats :: int
  en_status :: string
  en_expires_at :: "time option"

record slot_db = credit_db +
  availability_rules :: "availability_rule list"
  availability_exceptions :: "availability_exception list"
  window_rows :: "window_row list"
  users :: "user_row list"
  tenant_services :: "tenant_service list"
  tenant_documents :: "document_row list"
  topup_entitlements :: "entitlement list"
  roster_unreadable :: bool

subsection \<open>Active technicians (home_service_assignment/eligibility.py)\<close>

definition ELIGIBLE_DESIGNATIONS :: "string list" where
  "ELIGIBLE_DESIGNATIONS = [''technician'', ''field_staff'', ''service_worker'', ''engineer'', ''installer'',
     ''field_engineer'', ''senior_technician'', ''lead_technician'']"

definition TECHNICIAN_MEMBER_TYPES :: "string list" where
  "TECHNICIAN_MEMBER_TYPES = [''technician'', ''owner_technician'']"

definition lower_char :: "char \<Rightarrow> char" where
  "lower_char c = (if 65 \<le> (of_char c :: nat) \<and> (of_char c :: nat) \<le> 90 then char_of (of_char c + 32 :: nat) else c)"

definition lower :: "string \<Rightarrow> string" where
  "lower = map lower_char"

definition upper_char :: "char \<Rightarrow> char" where
  "upper_char c = (if 97 \<le> (of_char c :: nat) \<and> (of_char c :: nat) \<le> 122 then char_of (of_char c - 32 :: nat) else c)"

definition upper :: "string \<Rightarrow> string" where
  "upper = map upper_char"

text \<open>\<^verbatim>\<open>str.split()\<close>: the maximal runs of characters that are not white space.\<close>

lemma words_shorter:
  assumes "dropWhile py_space s \<noteq> []"
  shows "length (dropWhile (\<lambda>c. \<not> py_space c) (dropWhile py_space s)) < length s"
proof -
  let ?r = "dropWhile py_space s"
  have "\<not> py_space (hd ?r)" using assms by (rule hd_dropWhile)
  then have "length (dropWhile (\<lambda>c. \<not> py_space c) ?r) < length ?r" using assms
    by (cases ?r) (auto intro: le_less_trans [OF length_dropWhile_le])
  also have "\<dots> \<le> length s" by (rule length_dropWhile_le)
  finally show ?thesis .
qed

function words :: "string \<Rightarrow> string list" where
  "words s = (let r = dropWhile py_space s in
     if r = [] then [] else takeWhile (\<lambda>c. \<not> py_space c) r # words (dropWhile (\<lambda>c. \<not> py_space c) r))"
  by pat_completeness auto
termination
  by (relation "measure length", simp, simp only: in_measure words_shorter not_False_eq_True)

declare words.simps [simp del]

fun join_words :: "string \<Rightarrow> string list \<Rightarrow> string" where
  "join_words sep [] = []"
| "join_words sep [w] = w"
| "join_words sep (w # ws) = w @ sep @ join_words sep ws"

definition normalise_designation :: "string option \<Rightarrow> string" where
  "normalise_designation v =
     join_words ''_'' (words (map (\<lambda>c. if c = CHR ''-'' then CHR '' '' else c)
       (lower (strip (case v of None \<Rightarrow> [] | Some x \<Rightarrow> x)))))"

definition is_technician_role :: "string option \<Rightarrow> string option \<Rightarrow> bool" where
  "is_technician_role designation member_type \<longleftrightarrow>
     lower (strip (case member_type of None \<Rightarrow> [] | Some x \<Rightarrow> x)) \<in> set TECHNICIAN_MEMBER_TYPES \<or>
     normalise_designation designation \<in> set ELIGIBLE_DESIGNATIONS"

text \<open>The SQL form: \<^verbatim>\<open>btrim\<close> removes spaces only, \<^verbatim>\<open>regexp_replace\<close> turns each run of white space and hyphens into one underscore.\<close>

definition pg_space :: "char \<Rightarrow> bool" where
  "pg_space c \<longleftrightarrow> of_char c \<in> {9, 10, 11, 12, 13, 32 :: nat}"

definition btrim :: "string \<Rightarrow> string" where
  "btrim s = rev (dropWhile (\<lambda>c. c = CHR '' '') (rev (dropWhile (\<lambda>c. c = CHR '' '') s)))"

fun squeeze :: "bool \<Rightarrow> string \<Rightarrow> string" where
  "squeeze inside [] = []"
| "squeeze inside (c # cs) =
     (if pg_space c \<or> c = CHR ''-'' then (if inside then squeeze True cs else CHR ''_'' # squeeze True cs)
      else c # squeeze False cs)"

definition coalesce_text :: "string option \<Rightarrow> string" where
  "coalesce_text v = (case v of None \<Rightarrow> [] | Some x \<Rightarrow> x)"

definition active_technician_sql :: "'a slot_db_scheme \<Rightarrow> team_member \<Rightarrow> bool" where
  "active_technician_sql s m \<longleftrightarrow>
     \<not> m_deleted m \<and> m_status m = ''active'' \<and> m_can_receive_assignment m \<noteq> Some False \<and>
     \<not> list_ex (\<lambda>u. Some (us_id u) = m_user_id m \<and> \<not> us_is_active u) (users s) \<and>
     (lower (btrim (coalesce_text (m_member_type m))) \<in> set TECHNICIAN_MEMBER_TYPES \<or>
      squeeze False (btrim (lower (coalesce_text (m_designation m)))) \<in> set ELIGIBLE_DESIGNATIONS)"

subsection \<open>Settings and clock\<close>

record window_settings =
  minimum_notice_minutes :: int
  maximum_advance_booking_days :: int
  allow_same_day_booking :: bool
  emergency_booking_allowed :: bool
  ws_timezone :: string

definition MAX_SEARCH_DAYS :: int where "MAX_SEARCH_DAYS = 62"
definition FALLBACK_SLOT_MINUTES :: nat where "FALLBACK_SLOT_MINUTES = 120"
definition DEFAULT_OFFERED_DAYS :: nat where "DEFAULT_OFFERED_DAYS = 2"

definition BOOKING_WINDOW_DEFAULTS :: window_settings where
  "BOOKING_WINDOW_DEFAULTS = \<lparr>minimum_notice_minutes = 120, maximum_advance_booking_days = 7,
     allow_same_day_booking = True, emergency_booking_allowed = False, ws_timezone = ''Asia/Kolkata''\<rparr>"

definition booking_window_settings :: "'a slot_db_scheme \<Rightarrow> uuid \<Rightarrow> window_settings" where
  "booking_window_settings s tid =
     (case first_row (filter (\<lambda>w. bw_tenant_id w = tid) (window_rows s)) of
        None \<Rightarrow> BOOKING_WINDOW_DEFAULTS
      | Some w \<Rightarrow>
          \<lparr>minimum_notice_minutes = (case bw_minimum_notice_minutes w of None \<Rightarrow> 120 | Some v \<Rightarrow> v),
           maximum_advance_booking_days = (case bw_maximum_advance_booking_days w of None \<Rightarrow> 7 | Some v \<Rightarrow> v),
           allow_same_day_booking = (case bw_allow_same_day_booking w of None \<Rightarrow> True | Some v \<Rightarrow> v),
           emergency_booking_allowed = (case bw_emergency_booking_allowed w of None \<Rightarrow> False | Some v \<Rightarrow> v),
           ws_timezone = (case bw_timezone w of None \<Rightarrow> ''Asia/Kolkata'' | Some v \<Rightarrow> v)\<rparr>)"

definition tenant_now :: "(string \<Rightarrow> moment option) \<Rightarrow> moment \<Rightarrow> window_settings \<Rightarrow> moment" where
  "tenant_now clock server st =
     (let try_zone = (\<lambda>z. if z = [] then None else clock z) in
      case try_zone (ws_timezone st) of
        Some m \<Rightarrow> m
      | None \<Rightarrow> (case try_zone (ws_timezone BOOKING_WINDOW_DEFAULTS) of Some m \<Rightarrow> m | None \<Rightarrow> server))"

definition notice_cutoff :: "window_settings \<Rightarrow> moment \<Rightarrow> bool \<Rightarrow> moment" where
  "notice_cutoff st now emergency =
     (if emergency \<and> emergency_booking_allowed st then now
      else now + minimum_notice_minutes st * 60 * 1000000)"

subsection \<open>The slots of a day\<close>

text \<open>0 is Sunday; the ordinal of a Sunday is a multiple of seven.\<close>

definition isoweekday_mod7 :: "date \<Rightarrow> int" where
  "isoweekday_mod7 d = (if d mod 7 = 0 then 7 else d mod 7) mod 7"

definition joined_buffer :: "'a slot_db_scheme \<Rightarrow> uuid \<Rightarrow> int" where
  "joined_buffer s tid =
     (case first_row (filter (\<lambda>w. bw_tenant_id w = tid) (window_rows s)) of
        None \<Rightarrow> 30
      | Some w \<Rightarrow> (case bw_buffer_minutes_between_jobs w of None \<Rightarrow> 30 | Some b \<Rightarrow> b))"

definition provider_rules_for_day :: "'a slot_db_scheme \<Rightarrow> uuid \<Rightarrow> int \<Rightarrow> rule_row list" where
  "provider_rules_for_day s tid dow =
     map (\<lambda>r. availability_rule.extend r (rule_row.fields (Some (joined_buffer s tid))))
       (sort_key ar_start_time
         (filter (\<lambda>r. ar_tenant_id r = tid \<and> ar_scope_type r = ''provider'' \<and> ar_scope_id r = None \<and>
            ar_day_of_week r = dow \<and> ar_is_active r) (availability_rules s)))"

definition is_closed :: "'a slot_db_scheme \<Rightarrow> uuid \<Rightarrow> date \<Rightarrow> bool" where
  "is_closed s tid day \<longleftrightarrow>
     list_ex (\<lambda>x. ax_tenant_id x = tid \<and> ax_date x = day \<and> ax_status x = ''active'' \<and> ax_full_day_closed x)
       (availability_exceptions s)"

definition RELEASING_STATUSES :: "job_status list" where
  "RELEASING_STATUSES = [JS_CANCELLED, JS_FAILED, JS_UNKNOWN ''rejected'']"

definition holds_place :: "uuid \<Rightarrow> date \<Rightarrow> uuid option \<Rightarrow> service_job \<Rightarrow> service_booking \<Rightarrow> booking_draft \<Rightarrow> bool" where
  "holds_place tid day exclude j b d \<longleftrightarrow>
     b_id b = j_booking_id j \<and> Some (d_id d) = b_draft_id b \<and> j_tenant_id j = Some tid \<and> j_scheduled_date j = Some day \<and>
     Some (j_id j) \<noteq> exclude \<and> d_status d = ''confirmed'' \<and>
     b_status b \<notin> set RELEASING_STATUSES \<and> j_status j \<notin> set RELEASING_STATUSES"

definition booked_windows :: "'a slot_db_scheme \<Rightarrow> uuid \<Rightarrow> date \<Rightarrow> uuid option \<Rightarrow> string option list" where
  "booked_windows s tid day exclude =
     [j_scheduled_time_window j. j \<leftarrow> service_jobs s, b \<leftarrow> service_bookings s, d \<leftarrow> booking_drafts s,
        holds_place tid day exclude j b d]"

definition booked_counts :: "'a slot_db_scheme \<Rightarrow> uuid \<Rightarrow> date \<Rightarrow> uuid option \<Rightarrow> (string option \<times> int) list" where
  "booked_counts s tid day exclude =
     (let ls = booked_windows s tid day exclude in map (\<lambda>l. (l, int (count_list ls l))) (remdups ls))"

abbreviation slot_seconds :: nat where
  "slot_seconds \<equiv> 60 * FALLBACK_SLOT_MINUTES"

function slot_walk :: "tod option \<Rightarrow> tod option \<Rightarrow> nat \<Rightarrow> tod \<Rightarrow> tod \<Rightarrow> (tod \<times> tod) list" where
  "slot_walk bs be buffer limit cursor =
     (if cursor + slot_seconds \<le> limit then
        (let nxt = cursor + slot_seconds in
         case (bs, be) of
           (Some b, Some e) \<Rightarrow>
             if cursor < e \<and> b < nxt then slot_walk bs be buffer limit e
             else (cursor, nxt) # slot_walk bs be buffer limit (nxt + buffer)
         | _ \<Rightarrow> (cursor, nxt) # slot_walk bs be buffer limit (nxt + buffer))
      else [])"
  by pat_completeness auto
termination
  by (relation "measure (\<lambda>(bs, be, buffer, limit, cursor). limit - cursor)") (auto simp: FALLBACK_SLOT_MINUTES_def)

declare slot_walk.simps [simp del]

definition slots_from_rule :: "rule_row \<Rightarrow> (tod \<times> tod) list" where
  "slots_from_rule r =
     (case (parse_hhmm (Some (ar_start_time r)), parse_hhmm (Some (ar_end_time r))) of
        (Some start, Some stop) \<Rightarrow>
          if stop \<le> start then []
          else slot_walk (parse_hhmm (ar_break_start_time r)) (parse_hhmm (ar_break_end_time r))
                 (nat (max 0 (case buffer_minutes_between_jobs r of None \<Rightarrow> 0 | Some b \<Rightarrow> b)) * 60) stop start
      | _ \<Rightarrow> [])"

definition distinct_slots :: "rule_row list \<Rightarrow> (tod \<times> tod) list" where
  "distinct_slots rules = sort (remdups (concat (map slots_from_rule rules)))"

definition physical_slots :: "(tod \<times> tod) list \<Rightarrow> nat" where
  "physical_slots ws = fst (foldl (\<lambda>(count, prev) (start, stop).
     if prev = None \<or> the prev \<le> start then (Suc count, Some stop) else (count, prev)) (0, None) ws)"

definition daily_remaining :: "rule_row list \<Rightarrow> int \<Rightarrow> (string option \<times> int) list \<Rightarrow> int" where
  "daily_remaining rules technicians booked =
     (let physical = int (physical_slots (distinct_slots rules)) * max 0 technicians;
          limits = List.map_filter ar_max_jobs_per_day rules;
          limit = foldl min physical limits
      in max 0 (limit - sum_list (map snd booked)))"

text \<open>\<^verbatim>\<open>label.split("-", 1)\<close>: no hyphen, no second part, and the unpacking raises \<^verbatim>\<open>ValueError\<close>.\<close>

definition split_label :: "string \<Rightarrow> (string \<times> string) option" where
  "split_label l = (let left = takeWhile (\<lambda>c. c \<noteq> CHR ''-'') l in
     case dropWhile (\<lambda>c. c \<noteq> CHR ''-'') l of [] \<Rightarrow> None | _ # right \<Rightarrow> Some (left, right))"

definition occupies :: "string option \<Rightarrow> tod \<Rightarrow> tod \<Rightarrow> bool" where
  "occupies label start stop =
     (case Option.bind label split_label of
        None \<Rightarrow> True
      | Some (left, right) \<Rightarrow>
          (case (parse_hhmm (Some left), parse_hhmm (Some right)) of
             (Some bs, Some be) \<Rightarrow> bs < stop \<and> start < be
           | _ \<Rightarrow> True))"

definition overlapping_bookings :: "(string option \<times> int) list \<Rightarrow> tod \<Rightarrow> tod \<Rightarrow> int" where
  "overlapping_bookings booked start stop =
     foldl (\<lambda>total (label, n). if occupies label start stop then total + n else total) 0 booked"

definition complete_windows :: "(tod \<times> tod) list \<Rightarrow> (tod \<times> tod) list" where
  "complete_windows ws = foldl (\<lambda>acc (start, stop).
     if acc = [] \<or> snd (last acc) \<le> start then acc @ [(start, stop)] else acc) [] ws"

definition slot_allocation :: "rule_row list \<Rightarrow> int \<Rightarrow> ((tod \<times> tod) \<times> int) list" where
  "slot_allocation rules technicians =
     (let windows = complete_windows (distinct_slots rules) in
      if windows = [] then []
      else (let limit = daily_remaining rules technicians [];
                base = limit div int (length windows); extra = limit mod int (length windows)
            in map (\<lambda>(i, w). (w, base + (if int i < extra then 1 else 0))) (enumerate 0 windows)))"

definition slot_cap :: "rule_row list \<Rightarrow> int \<Rightarrow> tod \<times> tod \<Rightarrow> int" where
  "slot_cap rules technicians w = (case map_of (slot_allocation rules technicians) w of None \<Rightarrow> 0 | Some c \<Rightarrow> c)"

subsection \<open>Capacity\<close>

definition required_technician_keys :: "string list" where
  "required_technician_keys = []"

definition serves :: "'a slot_db_scheme \<Rightarrow> team_member \<Rightarrow> uuid option \<Rightarrow> uuid option \<Rightarrow> bool" where
  "serves s m service job_type =
     (case service of None \<Rightarrow> True | Some ms \<Rightarrow>
        list_ex (\<lambda>v. sv_tenant_id v = m_tenant_id m \<and> sv_master_service_id v = ms \<and>
           (case job_type of None \<Rightarrow> True | Some jt \<Rightarrow> sv_job_type_id v = jt) \<and>
           sv_is_active v \<and> sv_is_enabled v \<and> \<not> sv_deleted v \<and> sv_setup_status v = ''published'' \<and>
           sv_id v \<in> set (m_supported_offering_ids m)) (tenant_services s))"

definition documented :: "'a slot_db_scheme \<Rightarrow> time \<Rightarrow> team_member \<Rightarrow> bool" where
  "documented s now m \<longleftrightarrow> required_technician_keys = [] \<or>
     length (remdups (map td_doc_type (filter (\<lambda>t. td_tenant_id t = m_tenant_id m \<and> td_staff_member_id t = Some (m_id m) \<and>
        td_is_current t \<and> td_status t = ''verified'' \<and> (case td_expiry_date t of None \<Rightarrow> True | Some x \<Rightarrow> now < x) \<and>
        td_doc_type t \<in> set required_technician_keys) (tenant_documents s)))) = length required_technician_keys"

definition ready_technicians ::
  "'a slot_db_scheme \<Rightarrow> time \<Rightarrow> uuid \<Rightarrow> uuid option \<Rightarrow> uuid option \<Rightarrow> team_member list" where
  "ready_technicians s now tid service job_type =
     filter (\<lambda>m. m_tenant_id m = tid \<and> active_technician_sql s m \<and> serves s m service job_type \<and> documented s now m)
       (team_members s)"

definition funded_seats :: "'a slot_db_scheme \<Rightarrow> time \<Rightarrow> uuid \<Rightarrow> int" where
  "funded_seats s now tid =
     sum_list (map en_seats (filter (\<lambda>e. en_tenant_id e = tid \<and> en_status e = ''active'' \<and>
       (case en_expires_at e of None \<Rightarrow> True | Some x \<Rightarrow> now < x)) (topup_entitlements s)))"

definition assignable_technician_count ::
  "'a slot_db_scheme \<Rightarrow> time \<Rightarrow> uuid \<Rightarrow> uuid option \<Rightarrow> uuid option \<Rightarrow> int" where
  "assignable_technician_count s now tid service job_type =
     (if roster_unreadable s then - 1
      else min (int (length (ready_technicians s now tid service job_type))) (funded_seats s now tid))"

subsection \<open>Offers\<close>

record slot_offer =
  so_date :: date
  so_time_window :: string
  so_starts_at :: moment
  so_ends_at :: moment
  so_slot_minutes :: int
  so_capacity :: int
  so_already_booked :: int
  so_available_slots :: int
  so_days_ahead :: nat

record listed_slot = slot_offer +
  so_daily_remaining :: int

text \<open>What both walks read of one day before they look at its slots; \<open>None\<close> where the walk goes on to the next day.\<close>

record day_state =
  ds_date :: date
  ds_offset :: nat
  ds_rules :: "rule_row list"
  ds_technicians :: int
  ds_booked :: "(string option \<times> int) list"

definition open_day ::
  "'a slot_db_scheme \<Rightarrow> time \<Rightarrow> uuid \<Rightarrow> uuid option \<Rightarrow> uuid option \<Rightarrow> window_settings \<Rightarrow> date \<Rightarrow> nat \<Rightarrow> day_state option" where
  "open_day s dbnow tid service job_type st day offset =
     (let target = day + int offset in
      if offset = 0 \<and> \<not> allow_same_day_booking st then None
      else if is_closed s tid target then None
      else (let rules = provider_rules_for_day s tid (isoweekday_mod7 target) in
        if rules = [] then None
        else (let technicians = assignable_technician_count s dbnow tid service job_type in
          if technicians \<le> 0 then None
          else (let booked = booked_counts s tid target None in
            if daily_remaining rules technicians booked \<le> 0 then None
            else Some \<lparr>ds_date = target, ds_offset = offset, ds_rules = rules, ds_technicians = technicians,
                       ds_booked = booked\<rparr>))))"

definition bookable :: "day_state \<Rightarrow> moment \<Rightarrow> tod \<times> tod \<Rightarrow> bool" where
  "bookable ds cutoff w \<longleftrightarrow>
     \<not> combine (ds_date ds) (fst w) < cutoff \<and>
     \<not> slot_cap (ds_rules ds) (ds_technicians ds) w \<le> overlapping_bookings (ds_booked ds) (fst w) (snd w)"

definition offer_of :: "day_state \<Rightarrow> tod \<times> tod \<Rightarrow> slot_offer" where
  "offer_of ds w =
     (let cap = slot_cap (ds_rules ds) (ds_technicians ds) w;
          over = overlapping_bookings (ds_booked ds) (fst w) (snd w) in
      \<lparr>so_date = ds_date ds, so_time_window = window_label (fst w) (snd w),
       so_starts_at = combine (ds_date ds) (fst w), so_ends_at = combine (ds_date ds) (snd w),
       so_slot_minutes = (combine (ds_date ds) (snd w) - combine (ds_date ds) (fst w)) div 1000000 div 60,
       so_capacity = cap, so_already_booked = over,
       so_available_slots = min (max 0 (cap - over)) (daily_remaining (ds_rules ds) (ds_technicians ds) (ds_booked ds)),
       so_days_ahead = ds_offset ds\<rparr>)"

definition horizon_of :: "window_settings \<Rightarrow> int option \<Rightarrow> nat" where
  "horizon_of st search_days =
     nat (min (case search_days of None \<Rightarrow> maximum_advance_booking_days st | Some d \<Rightarrow> d) MAX_SEARCH_DAYS)"

definition first_in_day :: "moment \<Rightarrow> day_state \<Rightarrow> slot_offer option" where
  "first_in_day cutoff ds =
     map_option (offer_of ds) (find (bookable ds cutoff) (concat (map slots_from_rule (ds_rules ds))))"

fun earliest_from :: "(nat \<Rightarrow> day_state option) \<Rightarrow> moment \<Rightarrow> nat list \<Rightarrow> slot_offer option" where
  "earliest_from open_at cutoff [] = None"
| "earliest_from open_at cutoff (k # ks) =
     (case Option.bind (open_at k) (first_in_day cutoff) of
        Some offer \<Rightarrow> Some offer
      | None \<Rightarrow> earliest_from open_at cutoff ks)"

text \<open>\<open>now\<close> is \<^verbatim>\<open>from_datetime or _tenant_now(settings)\<close>; \<open>dbnow\<close> is the database's \<^verbatim>\<open>now()\<close>.\<close>

definition find_earliest_available_slot ::
  "'a slot_db_scheme \<Rightarrow> time \<Rightarrow> uuid \<Rightarrow> moment \<Rightarrow> int option \<Rightarrow> bool \<Rightarrow> uuid option \<Rightarrow> uuid option \<Rightarrow> slot_offer option" where
  "find_earliest_available_slot s dbnow tid now search_days emergency service job_type =
     (let st = booking_window_settings s tid in
      earliest_from (open_day s dbnow tid service job_type st (date_of now)) (notice_cutoff st now emergency)
        [0..<horizon_of st search_days])"

definition list_offer :: "day_state \<Rightarrow> tod \<times> tod \<Rightarrow> listed_slot" where
  "list_offer ds w = slot_offer.extend (offer_of ds w)
     (listed_slot.fields (daily_remaining (ds_rules ds) (ds_technicians ds) (ds_booked ds)))"

definition list_day ::
  "moment \<Rightarrow> day_state \<Rightarrow> listed_slot list \<times> (date \<times> string) list \<Rightarrow> listed_slot list \<times> (date \<times> string) list" where
  "list_day cutoff ds acc =
     foldl (\<lambda>(results, seen) w.
        if bookable ds cutoff w \<and> (ds_date ds, window_label (fst w) (snd w)) \<notin> set seen
        then (results @ [list_offer ds w], seen @ [(ds_date ds, window_label (fst w) (snd w))])
        else (results, seen)) acc (concat (map slots_from_rule (ds_rules ds)))"

fun list_days ::
  "(nat \<Rightarrow> day_state option) \<Rightarrow> moment \<Rightarrow> nat \<Rightarrow> nat list \<Rightarrow> listed_slot list \<times> (date \<times> string) list \<Rightarrow> nat \<Rightarrow> listed_slot list" where
  "list_days open_at cutoff max_days [] acc days = fst acc"
| "list_days open_at cutoff max_days (k # ks) acc days =
     (if max_days \<le> days then fst acc
      else case open_at k of
        None \<Rightarrow> list_days open_at cutoff max_days ks acc days
      | Some ds \<Rightarrow>
          (let acc' = list_day cutoff ds acc
           in list_days open_at cutoff max_days ks acc' (if fst acc' = fst acc then days else Suc days)))"

definition list_available_slots ::
  "'a slot_db_scheme \<Rightarrow> time \<Rightarrow> uuid \<Rightarrow> moment \<Rightarrow> int option \<Rightarrow> nat \<Rightarrow> bool \<Rightarrow> uuid option \<Rightarrow> uuid option \<Rightarrow> listed_slot list" where
  "list_available_slots s dbnow tid now search_days max_days emergency service job_type =
     (let st = booking_window_settings s tid in
      list_days (open_day s dbnow tid service job_type st (date_of now)) (notice_cutoff st now emergency) max_days
        [0..<horizon_of st search_days] ([], []) 0)"

definition slot_has_capacity ::
  "'a slot_db_scheme \<Rightarrow> time \<Rightarrow> uuid \<Rightarrow> date \<Rightarrow> string \<Rightarrow> uuid option \<Rightarrow> uuid option \<Rightarrow> uuid option \<Rightarrow> bool" where
  "slot_has_capacity s dbnow tid day time_window service job_type exclude =
     (let technicians = assignable_technician_count s dbnow tid service job_type in
      if is_closed s tid day then False
      else (let rules = provider_rules_for_day s tid (isoweekday_mod7 day) in
        if rules = [] then False
        else (let booked = booked_counts s tid day exclude in
          if daily_remaining rules technicians booked \<le> 0 then False
          else (case find (\<lambda>w. window_label (fst w) (snd w) = time_window) (concat (map slots_from_rule rules)) of
                  None \<Rightarrow> False
                | Some w \<Rightarrow> overlapping_bookings booked (fst w) (snd w) < slot_cap rules technicians w))))"

record preview_slot =
  pv_time_window :: string
  pv_capacity :: int
  pv_already_booked :: int
  pv_available_slots :: int

record day_preview =
  pv_date :: date
  pv_closed :: bool
  pv_slots :: "preview_slot list"
  pv_daily_remaining :: int
  pv_technicians :: "int option"

definition daily_slot_preview :: "'a slot_db_scheme \<Rightarrow> time \<Rightarrow> uuid \<Rightarrow> date \<Rightarrow> uuid option \<Rightarrow> uuid option \<Rightarrow> day_preview" where
  "daily_slot_preview s dbnow tid day service job_type =
     (if is_closed s tid day
      then \<lparr>pv_date = day, pv_closed = True, pv_slots = [], pv_daily_remaining = 0, pv_technicians = None\<rparr>
      else (let rules = provider_rules_for_day s tid (isoweekday_mod7 day);
                technicians = assignable_technician_count s dbnow tid service job_type;
                booked = booked_counts s tid day None;
                remaining = daily_remaining rules technicians booked
            in \<lparr>pv_date = day, pv_closed = (rules = []),
                pv_slots = map (\<lambda>((start, stop), cap).
                  (let over = overlapping_bookings booked start stop in
                   \<lparr>pv_time_window = window_label start stop, pv_capacity = cap, pv_already_booked = over,
                    pv_available_slots = min remaining (max 0 (cap - over))\<rparr>)) (slot_allocation rules technicians),
                pv_daily_remaining = remaining, pv_technicians = Some (max 0 technicians)\<rparr>))"

section \<open>Properties of the slots\<close>

subsection \<open>Labels\<close>

lemma of_char_digit: "n < 10 \<Longrightarrow> of_char (char_of (48 + n :: nat)) = 48 + n"
  by simp

lemma digit_chars:
  fixes n :: nat
  assumes n: "n < 10"
  shows "is_digit (char_of (48 + n))" "\<not> py_space (char_of (48 + n))"
    "char_of (48 + n) \<noteq> CHR '':''" "char_of (48 + n) \<noteq> CHR ''-''"
proof -
  note d = of_char_digit [OF n]
  show "is_digit (char_of (48 + n))" using n unfolding is_digit_def d by simp
  show "\<not> py_space (char_of (48 + n))" using n unfolding py_space_def d by auto
  have "of_char (char_of (48 + n)) \<noteq> (58 :: nat)" "of_char (char_of (48 + n)) \<noteq> (45 :: nat)" using n unfolding d by auto
  moreover have "of_char (CHR '':'') = (58 :: nat)" "of_char (CHR ''-'') = (45 :: nat)" by simp_all
  ultimately show "char_of (48 + n) \<noteq> CHR '':''" "char_of (48 + n) \<noteq> CHR ''-''" by metis+
qed

definition plain_chars :: "string \<Rightarrow> bool" where
  "plain_chars s \<longleftrightarrow> (\<forall>c \<in> set s. c \<noteq> CHR '':'' \<and> c \<noteq> CHR ''-'' \<and> \<not> py_space c)"

lemma pad2_facts:
  assumes "n < 100"
  shows "num2 (pad2 n) = Some n" "plain_chars (pad2 n)"
proof -
  have d: "n div 10 < 10" "n mod 10 < 10" using assms by auto
  have "nat_of_str (pad2 n) = 10 * (n div 10) + n mod 10"
    unfolding nat_of_str_def pad2_def foldl.simps of_char_digit [OF d(1)] of_char_digit [OF d(2)] by simp
  moreover have "list_all is_digit (pad2 n)"
    unfolding pad2_def list_all_iff using digit_chars(1) [OF d(1)] digit_chars(1) [OF d(2)] by simp
  ultimately show "num2 (pad2 n) = Some n" by (simp add: num2_def) (simp add: pad2_def)
  show "plain_chars (pad2 n)"
    unfolding plain_chars_def pad2_def using digit_chars [OF d(1)] digit_chars [OF d(2)] by (simp only: list.set ball_simps) blast
qed

lemma split_on_no: "c \<notin> set xs \<Longrightarrow> split_on c xs = [xs]"
  by (induction xs) auto

lemma split_on_append: "c \<notin> set xs \<Longrightarrow> split_on c (xs @ c # ys) = xs # split_on c ys"
  by (induction xs) auto

lemma strip_id:
  assumes "\<forall>c \<in> set s. \<not> py_space c"
  shows "strip s = s"
proof -
  have "dropWhile py_space xs = xs" if "\<forall>c \<in> set xs. \<not> py_space c" for xs using that by (cases xs) auto
  from this [of s] this [of "rev s"] assms show ?thesis by (simp add: strip_def)
qed

lemma colon_facts: "\<not> py_space CHR '':''" "CHR '':'' \<noteq> CHR ''-''"
  by (simp_all add: py_space_def)

lemma hhmm_chars:
  assumes "t < 86400"
  shows "\<forall>c \<in> set (hhmm t). c \<noteq> CHR ''-'' \<and> \<not> py_space c"
proof -
  have "t div 3600 < 100" "t mod 3600 div 60 < 100" using assms by auto
  then have "plain_chars (pad2 (t div 3600))" "plain_chars (pad2 (t mod 3600 div 60))" by (simp_all only: pad2_facts)
  then show ?thesis using colon_facts unfolding hhmm_def plain_chars_def by (simp only: set_append list.set) blast
qed

lemma parse_hhmm_hhmm:
  assumes "t < 86400"
  shows "parse_hhmm (Some (hhmm t)) = Some (60 * (t div 60))"
proof -
  have b: "t div 3600 < 24" "t mod 3600 div 60 < 60" using assms by auto
  then have c: "t div 3600 < 100" "t mod 3600 div 60 < 100" by auto
  note p = pad2_facts [OF c(1)] pad2_facts [OF c(2)]
  have s: "strip (hhmm t) = hhmm t" using hhmm_chars [OF assms] by (intro strip_id) blast
  have "CHR '':'' \<notin> set (pad2 (t div 3600))" "CHR '':'' \<notin> set (pad2 (t mod 3600 div 60))"
    using p(2,4) by (auto simp: plain_chars_def)
  then have "split_on CHR '':'' (hhmm t) = [pad2 (t div 3600), pad2 (t mod 3600 div 60)]"
    by (simp add: hhmm_def split_on_append split_on_no)
  then have "parse_hhmm (Some (hhmm t)) = Some (3600 * (t div 3600) + 60 * (t mod 3600 div 60))"
    using b p(1,3) by (simp add: parse_hhmm_def s)
  also have "3600 * (t div 3600) + 60 * (t mod 3600 div 60) = 60 * (t div 60)"
  proof -
    have "t div 60 = (t mod 3600 + (60 * (t div 3600)) * 60) div 60" by simp
    also have "\<dots> = 60 * (t div 3600) + t mod 3600 div 60" by (simp only: div_mult_self1 zero_neq_numeral not_False_eq_True)
    finally show ?thesis by simp
  qed
  finally show ?thesis .
qed

lemma hhmm_inject: "t < 86400 \<Longrightarrow> u < 86400 \<Longrightarrow> hhmm t = hhmm u \<Longrightarrow> t div 60 = u div 60"
  using parse_hhmm_hhmm [of t] parse_hhmm_hhmm [of u] by simp

lemma split_label_window:
  assumes "a < 86400" and "b < 86400"
  shows "split_label (window_label a b) = Some (hhmm a, hhmm b)"
proof -
  have "\<forall>c \<in> set (hhmm a). c \<noteq> CHR ''-''" using hhmm_chars [OF assms(1)] by blast
  then show ?thesis by (simp add: split_label_def window_label_def takeWhile_append dropWhile_append)
qed

lemma window_label_inject:
  assumes "a < 86400" "b < 86400" "c < 86400" "d < 86400" "window_label a b = window_label c d"
  shows "a div 60 = c div 60 \<and> b div 60 = d div 60"
  using split_label_window [OF assms(1,2)] split_label_window [OF assms(3,4)] assms by (auto dest: hhmm_inject)

lemma occupies_window:
  "a < 86400 \<Longrightarrow> b < 86400 \<Longrightarrow>
   occupies (Some (window_label a b)) start stop \<longleftrightarrow> 60 * (a div 60) < stop \<and> start < 60 * (b div 60)"
  by (simp add: occupies_def split_label_window parse_hhmm_hhmm)

lemma parse_hhmm_bound: "parse_hhmm v = Some t \<Longrightarrow> t < 86400"
  by (auto simp: parse_hhmm_def split: option.splits list.splits if_splits)

subsection \<open>The walk over one day\<close>

definition clash :: "tod option \<Rightarrow> tod option \<Rightarrow> tod \<times> tod \<Rightarrow> bool" where
  "clash bs be w \<longleftrightarrow> (case (bs, be) of (Some b, Some e) \<Rightarrow> fst w < e \<and> b < snd w | _ \<Rightarrow> False)"

text \<open>A schedule of two-hour visits between two times of day, clear of the break and a buffer apart.\<close>

definition visit_plan :: "tod option \<Rightarrow> tod option \<Rightarrow> nat \<Rightarrow> tod \<Rightarrow> tod \<Rightarrow> (tod \<times> tod) list \<Rightarrow> bool" where
  "visit_plan bs be buffer start stop ws \<longleftrightarrow>
     (\<forall>w \<in> set ws. snd w = fst w + 7200 \<and> start \<le> fst w \<and> snd w \<le> stop \<and> \<not> clash bs be w) \<and>
     sorted_wrt (\<lambda>v w. snd v + buffer \<le> fst w) ws"

lemma visit_plan_simps:
  "visit_plan bs be buffer start stop []"
  "visit_plan bs be buffer start stop (w # ws) \<longleftrightarrow> snd w = fst w + 7200 \<and> start \<le> fst w \<and> snd w \<le> stop \<and>
     \<not> clash bs be w \<and> visit_plan bs be buffer (snd w + buffer) stop ws"
  by (auto simp: visit_plan_def)

lemma visit_plan_mono: "visit_plan bs be buffer start stop ws \<Longrightarrow> start' \<le> start \<Longrightarrow> visit_plan bs be buffer start' stop ws"
  by (auto simp: visit_plan_def)

lemma slot_walk_unfold:
  "slot_walk bs be buffer limit cursor =
     (if limit < cursor + 7200 then []
      else if clash bs be (cursor, cursor + 7200) then slot_walk bs be buffer limit (the be)
      else (cursor, cursor + 7200) # slot_walk bs be buffer limit (cursor + 7200 + buffer))"
  by (subst slot_walk.simps) (auto simp: clash_def FALLBACK_SLOT_MINUTES_def Let_def split: option.split)

lemma slot_walk_induct [case_names walk]:
  assumes "\<And>cursor. (\<And>c. cursor + 7200 \<le> limit \<Longrightarrow> cursor < c \<Longrightarrow> P c) \<Longrightarrow> P cursor"
  shows "P (cursor :: nat)"
proof (induction "limit - cursor" arbitrary: cursor rule: less_induct)
  case less
  show ?case by (rule assms) (use less in simp)
qed

lemma slot_walk_plan: "visit_plan bs be buffer cursor limit (slot_walk bs be buffer limit cursor)"
proof (induction cursor rule: slot_walk_induct [where limit = limit])
  case (walk cursor)
  show ?case
  proof (cases "limit < cursor + 7200")
    case True then show ?thesis by (simp add: slot_walk_unfold [of _ _ _ _ cursor] visit_plan_simps)
  next
    case False
    show ?thesis
    proof (cases "clash bs be (cursor, cursor + 7200)")
      case True
      then have "cursor < the be" by (auto simp: clash_def split: option.splits)
      with walk [of "the be"] False visit_plan_mono [of bs be buffer "the be" limit] True show ?thesis
        by (simp add: slot_walk_unfold [of _ _ _ _ cursor])
    next
      case clear: False
      with walk [of "cursor + 7200 + buffer"] False show ?thesis
        by (simp add: slot_walk_unfold [of _ _ _ _ cursor] visit_plan_simps)
    qed
  qed
qed

lemma visit_plan_skip:
  assumes "visit_plan bs be buffer cursor limit ws" and "clash bs be (cursor, cursor + 7200)"
  shows "visit_plan bs be buffer (the be) limit ws"
  using assms by (auto simp: visit_plan_def clash_def split: option.splits)

lemma slot_walk_optimal:
  "visit_plan bs be buffer cursor limit ws \<Longrightarrow> length ws \<le> length (slot_walk bs be buffer limit cursor)"
proof (induction cursor arbitrary: ws rule: slot_walk_induct [where limit = limit])
  case (walk cursor)
  show ?case
  proof (cases ws)
    case (Cons w ws')
    with walk.prems have w: "snd w = fst w + 7200" "cursor \<le> fst w" "snd w \<le> limit"
      "visit_plan bs be buffer (snd w + buffer) limit ws'" by (auto simp: visit_plan_simps)
    then have fits: "\<not> limit < cursor + 7200" by simp
    show ?thesis
    proof (cases "clash bs be (cursor, cursor + 7200)")
      case True
      then have "cursor < the be" by (auto simp: clash_def split: option.splits)
      with walk.IH [of "the be" ws] fits visit_plan_skip [OF walk.prems True] True show ?thesis
        by (simp add: slot_walk_unfold [of _ _ _ _ cursor])
    next
      case False
      have "length ws' \<le> length (slot_walk bs be buffer limit (cursor + 7200 + buffer))"
        by (rule walk.IH) (use fits visit_plan_mono [OF w(4)] w(1,2) in auto)
      with False fits Cons show ?thesis by (simp add: slot_walk_unfold [of _ _ _ _ cursor])
    qed
  qed simp
qed

definition rule_buffer :: "rule_row \<Rightarrow> nat" where
  "rule_buffer r = nat (max 0 (case buffer_minutes_between_jobs r of None \<Rightarrow> 0 | Some b \<Rightarrow> b)) * 60"

text \<open>
  C11: the slots of a working day are the best schedule that fits. For a rule whose hours parse, every slot is two hours
  long, inside the hours, clear of the break, and a full buffer after the one before; and no schedule with these properties
  has more visits. A rule whose hours do not parse has no slot.
\<close>

theorem slots_from_rule_optimal:
  "case (parse_hhmm (Some (ar_start_time r)), parse_hhmm (Some (ar_end_time r))) of
     (Some start, Some stop) \<Rightarrow>
       (let plan = visit_plan (parse_hhmm (ar_break_start_time r)) (parse_hhmm (ar_break_end_time r)) (rule_buffer r) start stop
        in plan (slots_from_rule r) \<and> (\<forall>ws. length (slots_from_rule r) < length ws \<longrightarrow> \<not> plan ws))
   | _ \<Rightarrow> slots_from_rule r = []"
proof (cases "(parse_hhmm (Some (ar_start_time r)), parse_hhmm (Some (ar_end_time r)))")
  case (Pair start' stop')
  let ?plan = "visit_plan (parse_hhmm (ar_break_start_time r)) (parse_hhmm (ar_break_end_time r)) (rule_buffer r)"
  show ?thesis
  proof (cases "\<exists>start stop. start' = Some start \<and> stop' = Some stop")
    case True
    then obtain start stop where b: "start' = Some start" "stop' = Some stop" by blast
    have "?plan start stop (slots_from_rule r) \<and> (\<forall>ws. ?plan start stop ws \<longrightarrow> length ws \<le> length (slots_from_rule r))"
    proof (cases "stop \<le> start")
      case True
      then have "?plan start stop ws \<Longrightarrow> ws = []" for ws by (cases ws) (auto simp: visit_plan_simps)
      with True Pair b show ?thesis by (auto simp: slots_from_rule_def visit_plan_simps)
    next
      case False
      with Pair b show ?thesis
        by (auto simp: slots_from_rule_def rule_buffer_def slot_walk_plan slot_walk_optimal)
    qed
    with Pair b show ?thesis by (auto simp: Let_def not_less [symmetric])
  next
    case False
    with Pair show ?thesis by (auto simp: slots_from_rule_def split: option.split)
  qed
qed

definition demo_rule :: rule_row where
  "demo_rule = availability_rule.extend \<lparr>ar_tenant_id = 4, ar_scope_type = ''provider'', ar_scope_id = None, ar_day_of_week = 1,
     ar_is_active = True, ar_start_time = ''09:00'', ar_end_time = ''18:00'', ar_break_start_time = Some ''13:00'',
     ar_break_end_time = Some ''14:00'', ar_max_jobs_per_day = None, ar_timezone = ''Asia/Kolkata''\<rparr>
     (rule_row.fields (Some 30))"

lemma demo_rule_simps [simp]:
  "parse_hhmm (Some (ar_start_time demo_rule)) = Some 32400" "parse_hhmm (Some (ar_end_time demo_rule)) = Some 64800"
  "parse_hhmm (ar_break_start_time demo_rule) = Some 46800" "parse_hhmm (ar_break_end_time demo_rule) = Some 50400"
  "buffer_minutes_between_jobs demo_rule = Some 30" "ar_max_jobs_per_day demo_rule = None"
  by (simp_all add: demo_rule_def availability_rule.defs rule_row.defs parse_hhmm_def strip_def py_space_def num2_def
      is_digit_def nat_of_str_def)

lemma demo_rule_slots [simp]: "slots_from_rule demo_rule = [(32400, 39600), (50400, 57600)]"
proof -
  have w: "slot_walk (Some 46800) (Some 50400) 1800 64800 c =
     (if 64800 < c + 7200 then [] else if c < 50400 \<and> 46800 < c + 7200 then slot_walk (Some 46800) (Some 50400) 1800 64800 50400
      else (c, c + 7200) # slot_walk (Some 46800) (Some 50400) 1800 64800 (c + 9000))" for c
    by (subst slot_walk_unfold) (simp add: clash_def add.commute)
  show ?thesis by (simp add: slots_from_rule_def w [of 32400] w [of 41400] w [of 50400] w [of 59400])
qed

theorem slots_from_rule_optimal_witness:
  "slots_from_rule demo_rule = [(32400, 39600), (50400, 57600)] \<and>
   \<not> visit_plan (Some 46800) (Some 50400) 1800 32400 64800 [(32400, 39600), (41400, 48600), (50400, 57600)]"
  using slots_from_rule_optimal [of demo_rule] by (simp add: Let_def rule_buffer_def)

subsection \<open>The loop as the code writes it\<close>

text \<open>
  The \<^verbatim>\<open>while\<close> loop of \<^verbatim>\<open>_slots_from_rule\<close> on its two variables, the cursor and the slots found so far; \<open>while_option\<close>
  answers \<open>None\<close> when the loop runs forever.
\<close>

definition slots_loop ::
  "tod option \<Rightarrow> tod option \<Rightarrow> nat \<Rightarrow> tod \<Rightarrow> tod \<times> (tod \<times> tod) list \<Rightarrow> (tod \<times> (tod \<times> tod) list) option" where
  "slots_loop bs be buffer limit =
     while_option (\<lambda>(cursor, slots). cursor + slot_seconds \<le> limit)
       (\<lambda>(cursor, slots). let nxt = cursor + slot_seconds in
          case (bs, be) of
            (Some b, Some e) \<Rightarrow> if cursor < e \<and> b < nxt then (e, slots) else (nxt + buffer, slots @ [(cursor, nxt)])
          | _ \<Rightarrow> (nxt + buffer, slots @ [(cursor, nxt)]))"

lemma slots_loop_unfold:
  "slots_loop bs be buffer limit (cursor, slots) =
     (if limit < cursor + 7200 then Some (cursor, slots)
      else if clash bs be (cursor, cursor + 7200) then slots_loop bs be buffer limit (the be, slots)
      else slots_loop bs be buffer limit (cursor + 7200 + buffer, slots @ [(cursor, cursor + 7200)]))"
  unfolding slots_loop_def
  by (subst while_option_unfold) (auto simp: clash_def FALLBACK_SLOT_MINUTES_def Let_def split: option.split)

lemma slots_loop_result:
  "\<exists>c. slots_loop bs be buffer limit (cursor, slots) = Some (c, slots @ slot_walk bs be buffer limit cursor)"
proof (induction cursor arbitrary: slots rule: slot_walk_induct [where limit = limit])
  case (walk cursor)
  show ?case
  proof (cases "limit < cursor + 7200")
    case True
    then show ?thesis by (subst slots_loop_unfold) (simp add: slot_walk_unfold [of _ _ _ _ cursor])
  next
    case fits: False
    show ?thesis
    proof (cases "clash bs be (cursor, cursor + 7200)")
      case True
      then have "cursor < the be" by (auto simp: clash_def split: option.splits)
      with walk [of "the be" slots] fits True show ?thesis
        by (subst slots_loop_unfold) (simp add: slot_walk_unfold [of _ _ _ _ cursor])
    next
      case False
      with walk [of "cursor + 7200 + buffer" "slots @ [(cursor, cursor + 7200)]"] fits show ?thesis
        by (subst slots_loop_unfold) (simp add: slot_walk_unfold [of _ _ _ _ cursor])
    qed
  qed
qed

text \<open>
  C32: the loop that cuts a day into slots always ends. Started at any time of day, with any break (empty, inverted or
  outside the hours) and any buffer, it returns, with exactly the slots of the recursive definition, and at most one slot
  per two hours of the day.
\<close>

theorem slots_loop_terminates:
  "\<exists>cursor. slots_loop bs be buffer limit (start, []) = Some (cursor, slot_walk bs be buffer limit start) \<and>
     7200 * length (slot_walk bs be buffer limit start) \<le> limit - start"
proof -
  have len: "7200 * length (slot_walk bs be buffer limit c) \<le> limit - c" for c
  proof (induction c rule: slot_walk_induct [where limit = limit])
    case (walk c)
    have "cursor < the be" if "clash bs be (cursor, cursor + 7200)" for cursor
      using that by (auto simp: clash_def split: option.splits)
    with walk [of "the be"] walk [of "c + 7200 + buffer"] show ?case
      by (subst slot_walk_unfold) force
  qed
  from slots_loop_result [of bs be buffer limit start "[]"] len [of start] show ?thesis by simp
qed

subsection \<open>Capacity\<close>

lemma physical_slots_windows: "physical_slots ws = length (complete_windows ws)"
proof -
  have "foldl (\<lambda>(count, prev) (start, stop). if prev = None \<or> the prev \<le> start then (Suc count, Some stop) else (count, prev))
      (length acc, if acc = [] then None else Some (snd (last acc))) ws =
    (let acc' = foldl (\<lambda>acc (start, stop). if acc = [] \<or> snd (last acc) \<le> start then acc @ [(start, stop)] else acc) acc ws
     in (length acc', if acc' = [] then None else Some (snd (last acc'))))" for acc :: "(nat \<times> nat) list"
  proof (induction ws arbitrary: acc)
    case (Cons w ws)
    show ?case using Cons [of acc] Cons [of "acc @ [w]"] by (cases w) (auto simp: Let_def)
  qed (simp add: Let_def)
  from this [of "[]"] show ?thesis by (simp add: physical_slots_def complete_windows_def Let_def)
qed

lemma complete_windows_snoc:
  "complete_windows (ws @ [w]) =
     (let acc = complete_windows ws in if acc = [] \<or> snd (last acc) \<le> fst w then acc @ [w] else acc)"
  by (cases w) (simp add: complete_windows_def Let_def)

lemma complete_windows_sub: "set (complete_windows ws) \<subseteq> set ws"
  by (induction ws rule: rev_induct) (auto simp: complete_windows_snoc Let_def complete_windows_def [of "[]"])

lemma complete_windows_disjoint:
  "\<forall>w \<in> set ws. fst w < snd w \<Longrightarrow> sorted_wrt (\<lambda>v w. snd v \<le> fst w) (complete_windows ws)"
proof (induction ws rule: rev_induct)
  case (snoc w ws)
  then have srt: "sorted_wrt (\<lambda>v w. snd v \<le> fst w) (complete_windows ws)" by simp
  have pos: "\<forall>v \<in> set (complete_windows ws). fst v < snd v" using snoc.prems complete_windows_sub by fastforce
  have "snd v \<le> fst w" if "complete_windows ws \<noteq> []" "snd (last (complete_windows ws)) \<le> fst w" "v \<in> set (complete_windows ws)" for v
  proof -
    from that(1) obtain us u where us: "complete_windows ws = us @ [u]" by (cases "complete_windows ws" rule: rev_cases) auto
    with that(3) srt pos that(2) show ?thesis by (auto simp: sorted_wrt_append)
  qed
  with srt show ?case
    by (cases "complete_windows ws = []") (auto simp: complete_windows_snoc Let_def sorted_wrt_append)
qed (simp add: complete_windows_def)

lemma foldl_min_le: "foldl min a xs \<le> (a :: int)"
proof (induction xs arbitrary: a)
  case (Cons x xs)
  from Cons [of "min a x"] show ?case by simp
qed simp

lemma foldl_min_mem: "x \<in> set xs \<Longrightarrow> foldl min a xs \<le> (x :: int)"
proof (induction xs arbitrary: a)
  case (Cons y xs)
  with foldl_min_le [of "min a y" xs] show ?case by auto
qed simp

lemmas foldl_min = foldl_min_le foldl_min_mem

lemma daily_remaining_bounds:
  "0 \<le> daily_remaining rules t booked"
  "daily_remaining rules t [] \<le> int (length (complete_windows (distinct_slots rules))) * max 0 t"
  "r \<in> set rules \<Longrightarrow> ar_max_jobs_per_day r = Some m \<Longrightarrow> daily_remaining rules t [] \<le> max 0 m"
proof -
  show "daily_remaining rules t [] \<le> int (length (complete_windows (distinct_slots rules))) * max 0 t"
    using foldl_min(1) by (simp add: daily_remaining_def Let_def physical_slots_windows)
  assume "r \<in> set rules" "ar_max_jobs_per_day r = Some m"
  then have "m \<in> set (List.map_filter ar_max_jobs_per_day rules)" by (force simp: map_filter_def)
  then show "daily_remaining rules t [] \<le> max 0 m"
    using foldl_min(2) by (simp add: daily_remaining_def Let_def) (metis max.coboundedI2)
qed (simp add: daily_remaining_def Let_def)

lemma spread_sum:
  "0 \<le> e \<Longrightarrow> sum_list (map (\<lambda>i. b + (if int i < e then 1 else 0)) [0..<n]) = int n * b + min (int n) (e :: int)"
  by (induction n) (auto simp: algebra_simps)

lemma slot_allocation_eq:
  fixes rules t
  defines "ws \<equiv> complete_windows (distinct_slots rules)"
  defines "limit \<equiv> daily_remaining rules t []"
  defines "share \<equiv> (\<lambda>i. limit div int (length ws) + (if int i < limit mod int (length ws) then 1 else 0))"
  shows "map fst (slot_allocation rules t) = ws" "map snd (slot_allocation rules t) = map share [0..<length ws]"
proof -
  have "slot_allocation rules t = map (\<lambda>(i, w). (w, share i)) (enumerate 0 ws)"
    by (simp add: slot_allocation_def Let_def ws_def [symmetric] limit_def [symmetric] share_def)
  then have z: "slot_allocation rules t = map (\<lambda>(i, w). (w, share i)) (zip [0..<length ws] ws)"
    by (simp add: enumerate_eq_zip)
  show "map fst (slot_allocation rules t) = ws" by (simp add: z split_def map_snd_zip comp_def)
  have "map snd (slot_allocation rules t) = map share (map fst (zip [0..<length ws] ws))"
    unfolding z by (simp only: map_map split_def comp_def snd_conv)
  then show "map snd (slot_allocation rules t) = map share [0..<length ws]" by (simp only: map_fst_zip length_upt diff_zero)
qed

lemma slot_allocation_sum:
  "sum_list (map snd (slot_allocation rules t)) = (if slot_allocation rules t = [] then 0 else daily_remaining rules t [])"
proof (cases "complete_windows (distinct_slots rules) = []")
  case False
  let ?n = "int (length (complete_windows (distinct_slots rules)))"
  have n: "0 < ?n" using False by simp
  then have "0 \<le> daily_remaining rules t [] mod ?n" "daily_remaining rules t [] mod ?n < ?n" by simp_all
  moreover have "slot_allocation rules t \<noteq> []" using False slot_allocation_eq(1) [of rules t] by auto
  ultimately show ?thesis by (simp add: slot_allocation_eq spread_sum)
qed (simp add: slot_allocation_def)

lemma slot_allocation_share:
  assumes "(w, c) \<in> set (slot_allocation rules t)"
  shows "0 \<le> c \<and> c \<le> max 0 t"
proof -
  let ?n = "int (length (complete_windows (distinct_slots rules)))" and ?l = "daily_remaining rules t []"
  have "complete_windows (distinct_slots rules) \<noteq> []" using assms by (auto simp: slot_allocation_def Let_def split: if_splits)
  then have n: "0 < ?n" by simp
  have "c \<in> set (map snd (slot_allocation rules t))" using assms by force
  then obtain i where c: "c = ?l div ?n + (if int i < ?l mod ?n then 1 else 0)"
    unfolding slot_allocation_eq by auto
  have l: "0 \<le> ?l" "?l \<le> ?n * max 0 t" by (rule daily_remaining_bounds)+
  have low: "0 \<le> ?l div ?n" using l n by (simp add: pos_imp_zdiv_nonneg_iff)
  show ?thesis
  proof (cases "?l mod ?n = 0")
    case True
    have "?n * (?l div ?n) = ?l" using True by auto
    with l(2) n have "?l div ?n \<le> max 0 t" by (metis mult_le_cancel_left_pos)
    with c low True show ?thesis by simp
  next
    case False
    with n have "0 < ?l mod ?n" by (metis less_le pos_mod_sign)
    then have "?n * (?l div ?n) < ?l" by (metis add.commute div_mult_mod_eq less_add_same_cancel2 mult.commute)
    with l(2) have "?n * (?l div ?n) < ?n * max 0 t" by linarith
    with n have "?l div ?n < max 0 t" by simp
    with c low show ?thesis by auto
  qed
qed

lemma slots_from_rule_shape:
  assumes "w \<in> set (slots_from_rule r)"
  shows "snd w = fst w + 7200 \<and> snd w < 86400"
proof -
  from assms obtain start stop where p: "parse_hhmm (Some (ar_end_time r)) = Some stop"
    "w \<in> set (slot_walk (parse_hhmm (ar_break_start_time r)) (parse_hhmm (ar_break_end_time r)) (rule_buffer r) stop start)"
    unfolding slots_from_rule_def rule_buffer_def [symmetric]
    by (cases "parse_hhmm (Some (ar_start_time r))"; cases "parse_hhmm (Some (ar_end_time r))") (auto split: if_splits)
  with slot_walk_plan [of "parse_hhmm (ar_break_start_time r)" "parse_hhmm (ar_break_end_time r)" "rule_buffer r" start stop]
    parse_hhmm_bound [OF p(1)]
  show ?thesis by (fastforce simp: visit_plan_def)
qed

lemma set_distinct_slots: "set (distinct_slots rules) = (\<Union>r \<in> set rules. set (slots_from_rule r))"
  by (simp add: distinct_slots_def)

text \<open>
  The promised capacity is the team's. The windows a day is allotted over are slots of its rules that do not overlap;
  each holds at least zero and at most one visit per technician; together they hold exactly the day's limit, which is at
  most the whole team in every window and at most every configured daily maximum.
\<close>

theorem slot_allocation_sound:
  assumes "slot_allocation rules technicians = alloc"
  shows "sorted_wrt (\<lambda>v w. snd v \<le> fst w) (map fst alloc) \<and>
    (\<forall>(w, c) \<in> set alloc. (\<exists>r \<in> set rules. w \<in> set (slots_from_rule r)) \<and> 0 \<le> c \<and> c \<le> max 0 technicians) \<and>
    sum_list (map snd alloc) = (if alloc = [] then 0 else daily_remaining rules technicians []) \<and>
    sum_list (map snd alloc) \<le> int (length alloc) * max 0 technicians \<and>
    (\<forall>r \<in> set rules. \<forall>m. ar_max_jobs_per_day r = Some m \<longrightarrow> sum_list (map snd alloc) \<le> max 0 m)"
proof -
  note ws = slot_allocation_eq(1) [of rules technicians, unfolded assms]
  have pos: "\<forall>w \<in> set (distinct_slots rules). fst w < snd w" using slots_from_rule_shape by (fastforce simp: set_distinct_slots)
  have sum: "sum_list (map snd alloc) = (if alloc = [] then 0 else daily_remaining rules technicians [])"
    using slot_allocation_sum [of rules technicians] assms by simp
  have len: "length alloc = length (complete_windows (distinct_slots rules))" using ws by (metis length_map)
  show ?thesis
  proof (intro conjI)
    show "sorted_wrt (\<lambda>v w. snd v \<le> fst w) (map fst alloc)" unfolding ws by (rule complete_windows_disjoint [OF pos])
    show "\<forall>(w, c) \<in> set alloc. (\<exists>r \<in> set rules. w \<in> set (slots_from_rule r)) \<and> 0 \<le> c \<and> c \<le> max 0 technicians"
    proof clarify
      fix a b c assume mem: "((a, b), c) \<in> set alloc"
      then have "(a, b) \<in> set (map fst alloc)" by force
      then have "(a, b) \<in> set (distinct_slots rules)" unfolding ws using complete_windows_sub by blast
      with slot_allocation_share [of "(a, b)" c rules technicians] mem assms
      show "(\<exists>r \<in> set rules. (a, b) \<in> set (slots_from_rule r)) \<and> 0 \<le> c \<and> c \<le> max 0 technicians"
        by (simp add: set_distinct_slots)
    qed
    show "sum_list (map snd alloc) \<le> int (length alloc) * max 0 technicians"
      using daily_remaining_bounds(2) [of rules technicians] by (simp add: sum len)
    show "\<forall>r \<in> set rules. \<forall>m. ar_max_jobs_per_day r = Some m \<longrightarrow> sum_list (map snd alloc) \<le> max 0 m"
      using daily_remaining_bounds(3) by (auto simp: sum)
  qed (rule sum)
qed

theorem slot_allocation_sound_witness:
  "\<exists>alloc. slot_allocation [demo_rule] 3 = alloc \<and> map fst alloc = [(32400, 39600), (50400, 57600)] \<and>
     sum_list (map snd alloc) = 6"
proof -
  have ds: "distinct_slots [demo_rule] = [(32400, 39600), (50400, 57600)]" by (simp add: distinct_slots_def)
  have "daily_remaining [demo_rule] 3 [] = 6"
    by (simp add: daily_remaining_def ds physical_slots_def List.map_filter_simps)
  moreover have "map fst (slot_allocation [demo_rule] 3) = [(32400, 39600), (50400, 57600)]"
    by (simp add: slot_allocation_eq ds complete_windows_def)
  ultimately show ?thesis using slot_allocation_sound [of "[demo_rule]" 3, OF refl] by auto
qed

subsection \<open>The two walks over the days\<close>

abbreviation day_slots :: "day_state \<Rightarrow> (tod \<times> tod) list" where
  "day_slots ds \<equiv> concat (map slots_from_rule (ds_rules ds))"

lemma list_walk_extends:
  "\<exists>new seen'. foldl (\<lambda>(results, seen) w.
        if bookable ds cutoff w \<and> (ds_date ds, window_label (fst w) (snd w)) \<notin> set seen
        then (results @ [list_offer ds w], seen @ [(ds_date ds, window_label (fst w) (snd w))])
        else (results, seen)) (res, seen) ws = (res @ map (list_offer ds) new, seen') \<and>
     (\<forall>w \<in> set new. w \<in> set ws \<and> bookable ds cutoff w)"
proof (induction ws arbitrary: res seen)
  case (Cons w ws)
  show ?case
  proof (cases "bookable ds cutoff w \<and> (ds_date ds, window_label (fst w) (snd w)) \<notin> set seen")
    case True
    from Cons [of "res @ [list_offer ds w]" "seen @ [(ds_date ds, window_label (fst w) (snd w))]"] obtain new seen' where
      IH: "foldl (\<lambda>(results, seen) w.
        if bookable ds cutoff w \<and> (ds_date ds, window_label (fst w) (snd w)) \<notin> set seen
        then (results @ [list_offer ds w], seen @ [(ds_date ds, window_label (fst w) (snd w))])
        else (results, seen)) (res @ [list_offer ds w], seen @ [(ds_date ds, window_label (fst w) (snd w))]) ws =
          ((res @ [list_offer ds w]) @ map (list_offer ds) new, seen')" "\<forall>w \<in> set new. w \<in> set ws \<and> bookable ds cutoff w" by blast
    show ?thesis
      by (rule exI [of _ "w # new"], rule exI [of _ seen']) (use True IH in \<open>auto simp del: split_paired_All\<close>)
  next
    case False
    with Cons [of res seen] show ?thesis by (auto simp del: split_paired_All)
  qed
qed auto

lemma list_day_extends:
  obtains new seen' where "list_day cutoff ds acc = (fst acc @ map (list_offer ds) new, seen')"
    "\<forall>w \<in> set new. w \<in> set (day_slots ds) \<and> bookable ds cutoff w"
  using list_walk_extends [of ds cutoff "fst acc" "snd acc" "day_slots ds"] unfolding list_day_def by auto

lemma list_day_first:
  "case find (bookable ds cutoff) (day_slots ds) of
     None \<Rightarrow> list_day cutoff ds ([], []) = ([], [])
   | Some w \<Rightarrow> \<exists>rest seen'. list_day cutoff ds ([], []) = (list_offer ds w # rest, seen')"
proof -
  let ?f = "\<lambda>(results, seen) w.
        if bookable ds cutoff w \<and> (ds_date ds, window_label (fst w) (snd w)) \<notin> set seen
        then (results @ [list_offer ds w], seen @ [(ds_date ds, window_label (fst w) (snd w))])
        else (results, seen)"
  have "case find (bookable ds cutoff) ws of
     None \<Rightarrow> foldl ?f ([], []) ws = ([], [])
   | Some w \<Rightarrow> \<exists>rest seen'. foldl ?f ([], []) ws = (list_offer ds w # rest, seen')" for ws
  proof (induction ws)
    case (Cons w ws)
    show ?case
    proof (cases "bookable ds cutoff w")
      case True
      then show ?thesis
        using list_walk_extends [of ds cutoff "[list_offer ds w]" "[(ds_date ds, window_label (fst w) (snd w))]" ws] by auto
    next
      case False
      with Cons show ?thesis by (cases "find (bookable ds cutoff) ws") auto
    qed
  qed simp
  then show ?thesis unfolding list_day_def .
qed

lemma list_days_extends: "\<exists>rest. list_days open_at cutoff max_days ks acc days = fst acc @ rest"
proof (induction ks arbitrary: acc days)
  case (Cons k ks)
  show ?case
  proof (cases "open_at k")
    case (Some ds)
    obtain new seen' where n: "list_day cutoff ds acc = (fst acc @ map (list_offer ds) new, seen')"
      by (rule list_day_extends)
    show ?thesis
      using Some Cons [of "list_day cutoff ds acc" "if fst (list_day cutoff ds acc) = fst acc then days else Suc days"]
      by (auto simp: n Let_def)
  qed (use Cons [of acc days] in auto)
qed simp

lemma list_days_sound:
  "x \<in> set (list_days open_at cutoff max_days ks acc days) \<Longrightarrow> x \<in> set (fst acc) \<or>
     (\<exists>k \<in> set ks. \<exists>ds w. open_at k = Some ds \<and> w \<in> set (day_slots ds) \<and> bookable ds cutoff w \<and> x = list_offer ds w)"
proof (induction ks arbitrary: acc days)
  case (Cons k ks)
  show ?case
  proof (cases "open_at k")
    case None
    with Cons.IH [of acc days] Cons.prems show ?thesis by (auto split: if_splits)
  next
    case (Some ds)
    obtain new seen' where n: "list_day cutoff ds acc = (fst acc @ map (list_offer ds) new, seen')"
      "\<forall>w \<in> set new. w \<in> set (day_slots ds) \<and> bookable ds cutoff w" by (rule list_day_extends)
    let ?acc = "list_day cutoff ds acc"
    have "x \<in> set (fst ?acc) \<or>
       (\<exists>k \<in> set ks. \<exists>ds w. open_at k = Some ds \<and> w \<in> set (day_slots ds) \<and> bookable ds cutoff w \<and> x = list_offer ds w)"
    proof (cases "max_days \<le> days")
      case True
      then show ?thesis using Cons.prems by (auto simp: n(1))
    next
      case False
      with Cons.prems Some show ?thesis by (intro Cons.IH [of ?acc]) (auto simp: Let_def)
    qed
    moreover have "x \<in> set (fst ?acc) \<Longrightarrow> x \<in> set (fst acc) \<or>
       (\<exists>w. w \<in> set (day_slots ds) \<and> bookable ds cutoff w \<and> x = list_offer ds w)"
      using n(2) by (auto simp: n(1))
    ultimately show ?thesis using Some by auto
  qed
qed simp

lemma truncate_list_offer: "slot_offer.truncate (list_offer ds w) = offer_of ds w"
  by (simp add: list_offer_def slot_offer.defs)

lemma earliest_is_first:
  assumes "0 < max_days"
  shows "earliest_from open_at cutoff ks =
    map_option slot_offer.truncate (first_row (list_days open_at cutoff max_days ks ([], []) 0))"
proof (induction ks)
  case (Cons k ks)
  show ?case
  proof (cases "open_at k")
    case None
    with Cons assms show ?thesis by simp
  next
    case (Some ds)
    show ?thesis
    proof (cases "find (bookable ds cutoff) (day_slots ds)")
      case None
      with list_day_first [where ds = ds and cutoff = cutoff] Some Cons assms show ?thesis by (simp add: first_in_day_def Let_def)
    next
      case w: (Some w)
      with list_day_first [where ds = ds and cutoff = cutoff] obtain rest seen' where l: "list_day cutoff ds ([], []) = (list_offer ds w # rest, seen')"
        by auto
      with list_days_extends [of open_at cutoff max_days ks "(list_offer ds w # rest, seen')" 1] w Some assms
      show ?thesis by (auto simp: first_in_day_def Let_def truncate_list_offer)
    qed
  qed
qed simp

text \<open>
  The earliest slot is the first of the list. Whatever the roster, the rules, the exceptions and the bookings are,
  \<^verbatim>\<open>find_earliest_available_slot\<close> answers exactly the first entry of \<^verbatim>\<open>list_available_slots\<close> for the same request (without
  its \<^verbatim>\<open>daily_remaining\<close> field), and nothing when the list is empty, as long as the list may show at least one day.
\<close>

theorem earliest_slot_heads_the_list:
  assumes "0 < max_days"
  shows "find_earliest_available_slot s dbnow tid now search_days emergency service job_type =
    map_option slot_offer.truncate
      (first_row (list_available_slots s dbnow tid now search_days max_days emergency service job_type))"
  unfolding find_earliest_available_slot_def list_available_slots_def Let_def by (rule earliest_is_first [OF assms])

subsection \<open>An offer can be kept\<close>

definition minute_aligned :: "string option \<Rightarrow> bool" where
  "minute_aligned v \<longleftrightarrow> (case parse_hhmm v of None \<Rightarrow> True | Some t \<Rightarrow> t mod 60 = 0)"

definition hours_aligned :: "'a availability_rule_scheme \<Rightarrow> bool" where
  "hours_aligned r \<longleftrightarrow> minute_aligned (Some (ar_start_time r)) \<and> minute_aligned (ar_break_end_time r)"

lemma slot_walk_aligned:
  assumes "\<And>e. be = Some e \<Longrightarrow> e mod 60 = 0" and "buffer mod 60 = 0"
  shows "cursor mod 60 = 0 \<Longrightarrow> w \<in> set (slot_walk bs be buffer limit cursor) \<Longrightarrow> fst w mod 60 = 0"
proof (induction cursor rule: slot_walk_induct [where limit = limit])
  case (walk cursor)
  have e: "cursor < the be \<and> the be mod 60 = 0" if "clash bs be (cursor, cursor + 7200)"
    using that assms(1) by (auto simp: clash_def split: option.splits)
  have "(cursor + 7200 + buffer) mod 60 = 0"
    using walk.prems(1) assms(2) by (simp add: mod_eq_0_iff_dvd)
  with walk.IH [of "the be"] walk.IH [of "cursor + 7200 + buffer"] walk.prems e show ?case
    by (subst (asm) slot_walk_unfold) (auto split: if_splits)
qed

lemma slots_aligned:
  assumes "hours_aligned r" and "w \<in> set (slots_from_rule r)"
  shows "fst w mod 60 = 0 \<and> snd w mod 60 = 0"
proof -
  from assms(2) obtain start stop where p: "parse_hhmm (Some (ar_start_time r)) = Some start"
    "w \<in> set (slot_walk (parse_hhmm (ar_break_start_time r)) (parse_hhmm (ar_break_end_time r)) (rule_buffer r) stop start)"
    unfolding slots_from_rule_def rule_buffer_def [symmetric]
    by (cases "parse_hhmm (Some (ar_start_time r))"; cases "parse_hhmm (Some (ar_end_time r))") (auto split: if_splits)
  have "fst w mod 60 = 0"
    by (rule slot_walk_aligned [OF _ _ _ p(2)])
       (use assms(1) p(1) in \<open>auto simp: hours_aligned_def minute_aligned_def rule_buffer_def\<close>)
  with slots_from_rule_shape [OF assms(2)] show ?thesis by (simp add: mod_eq_0_iff_dvd)
qed

lemma same_label_same_slot:
  assumes "v \<in> set (slots_from_rule q)" "w \<in> set (slots_from_rule r)" "hours_aligned q" "hours_aligned r"
    "window_label (fst v) (snd v) = window_label (fst w) (snd w)"
  shows "v = w"
proof -
  note v = slots_from_rule_shape [OF assms(1)] slots_aligned [OF assms(3,1)]
  note w = slots_from_rule_shape [OF assms(2)] slots_aligned [OF assms(4,2)]
  have "fst v div 60 = fst w div 60"
    using window_label_inject [of "fst v" "snd v" "fst w" "snd w"] v(1) w(1) assms(5) by simp
  then have "fst v = fst w" using v(2) w(2) by (metis div_mult_mod_eq)
  with v(1) w(1) show ?thesis by (simp add: prod_eq_iff)
qed

lemma extended_rule [simp]:
  "ar_start_time (availability_rule.extend r (rule_row.fields b)) = ar_start_time r"
  "ar_end_time (availability_rule.extend r (rule_row.fields b)) = ar_end_time r"
  "ar_break_start_time (availability_rule.extend r (rule_row.fields b)) = ar_break_start_time r"
  "ar_break_end_time (availability_rule.extend r (rule_row.fields b)) = ar_break_end_time r"
  "ar_max_jobs_per_day (availability_rule.extend r (rule_row.fields b)) = ar_max_jobs_per_day r"
  "buffer_minutes_between_jobs (availability_rule.extend r (rule_row.fields b)) = b"
  by (simp_all add: availability_rule.defs rule_row.defs)

lemma provider_rules_aligned:
  "\<forall>r \<in> set (availability_rules s). hours_aligned r \<Longrightarrow> r \<in> set (provider_rules_for_day s tid dow) \<Longrightarrow> hours_aligned r"
  by (auto simp: provider_rules_for_day_def hours_aligned_def)

lemma open_day_Some:
  assumes "open_day s dbnow tid service job_type st day offset = Some ds"
  shows "ds_date ds = day + int offset" "ds_offset ds = offset" "\<not> is_closed s tid (ds_date ds)"
    "ds_rules ds = provider_rules_for_day s tid (isoweekday_mod7 (ds_date ds))" "ds_rules ds \<noteq> []"
    "ds_technicians ds = assignable_technician_count s dbnow tid service job_type" "0 < ds_technicians ds"
    "ds_booked ds = booked_counts s tid (ds_date ds) None"
    "0 < daily_remaining (ds_rules ds) (ds_technicians ds) (ds_booked ds)"
    "offset = 0 \<longrightarrow> allow_same_day_booking st"
  using assms by (auto simp: open_day_def Let_def split: if_splits)

lemma find_unique: "\<exists>x \<in> set xs. P x \<Longrightarrow> \<exists>x. find P xs = Some x \<and> x \<in> set xs \<and> P x"
  by (induction xs) auto

lemma slot_cap_bounds: "slot_cap rules t w \<le> max 0 t"
  using slot_allocation_share [of w _ rules t] by (auto simp: slot_cap_def split: option.split dest: map_of_SomeD)

text \<open>
  Every slot offered can be booked. With hours on the whole minute, a slot that \<^verbatim>\<open>list_available_slots\<close> shows passes
  the check made at confirmation on the same data, starts no earlier than the notice period allows, lasts two hours, lies
  within the search horizon, is not today where same-day booking is off, and has room for at least one visit and for no more
  than the ready technicians.
\<close>

theorem offered_slot_is_bookable:
  assumes "x \<in> set (list_available_slots s dbnow tid now search_days max_days emergency service job_type)"
    and "\<forall>r \<in> set (availability_rules s). hours_aligned r"
  shows "slot_has_capacity s dbnow tid (so_date x) (so_time_window x) service job_type None \<and>
    notice_cutoff (booking_window_settings s tid) now emergency \<le> so_starts_at x \<and>
    so_ends_at x = so_starts_at x + 2 * 3600 * 1000000 \<and>
    so_date x = date_of now + int (so_days_ahead x) \<and> so_days_ahead x < horizon_of (booking_window_settings s tid) search_days \<and>
    (so_date x = date_of now \<longrightarrow> allow_same_day_booking (booking_window_settings s tid)) \<and>
    1 \<le> so_available_slots x \<and> so_available_slots x \<le> assignable_technician_count s dbnow tid service job_type"
proof -
  let ?st = "booking_window_settings s tid"
  have "\<exists>k \<in> set [0..<horizon_of ?st search_days]. \<exists>ds w. open_day s dbnow tid service job_type ?st (date_of now) k = Some ds \<and>
      w \<in> set (day_slots ds) \<and> bookable ds (notice_cutoff ?st now emergency) w \<and> x = list_offer ds w"
    using list_days_sound [OF assms(1) [unfolded list_available_slots_def Let_def]] by simp
  then obtain k ds w where k: "k < horizon_of ?st search_days" and o: "open_day s dbnow tid service job_type ?st (date_of now) k = Some ds"
      and w: "w \<in> set (day_slots ds)" "bookable ds (notice_cutoff ?st now emergency) w" "x = list_offer ds w"
    by (metis atLeastLessThan_iff set_upt)
  note ds = open_day_Some [OF o]
  have x: "so_date x = ds_date ds" "so_time_window x = window_label (fst w) (snd w)" "so_starts_at x = combine (ds_date ds) (fst w)"
    "so_ends_at x = combine (ds_date ds) (snd w)" "so_days_ahead x = k"
    "so_available_slots x = min (max 0 (slot_cap (ds_rules ds) (ds_technicians ds) w - overlapping_bookings (ds_booked ds) (fst w) (snd w)))
       (daily_remaining (ds_rules ds) (ds_technicians ds) (ds_booked ds))"
    using ds(2) by (simp_all add: w(3) list_offer_def offer_of_def slot_offer.defs Let_def)
  from w(1) obtain r where r: "r \<in> set (ds_rules ds)" "w \<in> set (slots_from_rule r)" by auto
  have room: "overlapping_bookings (ds_booked ds) (fst w) (snd w) < slot_cap (ds_rules ds) (ds_technicians ds) w"
    using w(2) by (simp add: bookable_def)
  obtain v where v: "find (\<lambda>v. window_label (fst v) (snd v) = so_time_window x) (day_slots ds) = Some v" "v \<in> set (day_slots ds)"
      "window_label (fst v) (snd v) = so_time_window x"
    using find_unique [of "day_slots ds" "\<lambda>v. window_label (fst v) (snd v) = so_time_window x",
        OF bexI [where P = "\<lambda>v. window_label (fst v) (snd v) = so_time_window x", OF x(2) [symmetric] w(1)]] by blast
  from v(2) obtain q where q: "q \<in> set (ds_rules ds)" "v \<in> set (slots_from_rule q)" by auto
  have "v = w" by (rule same_label_same_slot [OF q(2) r(2)])
    (use q(1) r(1) provider_rules_aligned [OF assms(2)] ds(4) v(3) x(2) in auto)
  then have "slot_has_capacity s dbnow tid (so_date x) (so_time_window x) service job_type None"
    using v(1) room ds(3-9) by (simp add: slot_has_capacity_def x(1) Let_def)
  moreover have "0 \<le> overlapping_bookings (ds_booked ds) (fst w) (snd w)"
  proof -
    have "0 \<le> t \<Longrightarrow> \<forall>b \<in> set bs. 0 \<le> snd b \<Longrightarrow>
      0 \<le> foldl (\<lambda>total (label, n). if occupies label a c then total + n else total) (t :: int) bs" for a c t bs
      by (induction bs arbitrary: t) auto
    then show ?thesis by (auto simp: overlapping_bookings_def ds(8) booked_counts_def Let_def)
  qed
  ultimately show ?thesis
    using ds w(2) k room slots_from_rule_shape [OF r(2)] slot_cap_bounds [of "ds_rules ds" "ds_technicians ds" w]
    by (auto simp: x bookable_def combine_def)
qed

subsection \<open>A concrete provider\<close>

definition demo_slots :: slot_db where
  "demo_slots = credit_db.extend empty_credits
     (slot_db.fields [availability_rule.truncate demo_rule] [] [] [] [] [] [\<lparr>en_tenant_id = 4, en_seats = 3, en_status = ''active'', en_expires_at = None\<rparr>] False)"

lemma demo_slots_simps [simp]:
  "availability_rules demo_slots = [availability_rule.truncate demo_rule]" "availability_exceptions demo_slots = []"
  "window_rows demo_slots = []" "users demo_slots = []" "\<not> roster_unreadable demo_slots" "team_members demo_slots = [demo_member]"
  "topup_entitlements demo_slots = [\<lparr>en_tenant_id = 4, en_seats = 3, en_status = ''active'', en_expires_at = None\<rparr>]"
  "service_jobs demo_slots = [demo_job]" "booking_drafts demo_slots = []" "service_bookings demo_slots = [demo_booking]"
  by (simp_all add: demo_slots_def credit_db.defs slot_db.defs empty_credits_def monet_db.defs demo_monet_def job_db.defs demo_jobs_def
      ledger_db.defs)

lemma demo_slots_day:
  "provider_rules_for_day demo_slots 4 dow = (if dow = 1 then [demo_rule] else [])"
  "assignable_technician_count demo_slots now 4 None None = 1"
  "booked_counts demo_slots 4 day None = []" "\<not> is_closed demo_slots 4 day"
  "booking_window_settings demo_slots 4 = BOOKING_WINDOW_DEFAULTS"
  by (simp_all add: provider_rules_for_day_def joined_buffer_def demo_rule_def availability_rule.defs rule_row.defs
      assignable_technician_count_def ready_technicians_def active_technician_sql_def coalesce_text_def serves_def
      documented_def required_technician_keys_def funded_seats_def booked_counts_def booked_windows_def is_closed_def
      booking_window_settings_def btrim_def lower_def lower_char_def TECHNICIAN_MEMBER_TYPES_def)

lemma demo_labels: "window_label 32400 39600 = ''09:00-11:00''" "window_label 50400 57600 = ''14:00-16:00''"
  by (simp_all add: window_label_def hhmm_def pad2_def char_of_eq_iff)

lemma demo_capacity:
  "distinct_slots [demo_rule] = [(32400, 39600), (50400, 57600)]" "daily_remaining [demo_rule] 1 [] = 2"
  "slot_cap [demo_rule] 1 (32400, 39600) = 1" "slot_cap [demo_rule] 1 (50400, 57600) = 1"
proof -
  show ds: "distinct_slots [demo_rule] = [(32400, 39600), (50400, 57600)]" by (simp add: distinct_slots_def)
  show r: "daily_remaining [demo_rule] 1 [] = 2"
    by (simp add: daily_remaining_def ds physical_slots_def List.map_filter_simps)
  show "slot_cap [demo_rule] 1 (32400, 39600) = 1" "slot_cap [demo_rule] 1 (50400, 57600) = 1"
    by (simp_all add: slot_cap_def slot_allocation_def r ds complete_windows_def Let_def)
qed

lemma demo_slots_list:
  "\<exists>x y. list_available_slots demo_slots 0 4 (combine 8 0) None 2 False None None = [x, y] \<and>
     so_time_window x = ''09:00-11:00'' \<and> so_date x = 8"
proof -
  have d: "open_day demo_slots 0 4 None None BOOKING_WINDOW_DEFAULTS 8 k =
    (if k mod 7 = 0 then Some \<lparr>ds_date = 8 + int k, ds_offset = k, ds_rules = [demo_rule], ds_technicians = 1, ds_booked = []\<rparr> else None)" for k
  proof -
    have "isoweekday_mod7 (8 + int k) = 1 \<longleftrightarrow> k mod 7 = 0" unfolding isoweekday_mod7_def by presburger
    then show ?thesis by (simp add: open_day_def demo_slots_day BOOKING_WINDOW_DEFAULTS_def demo_capacity Let_def)
  qed
  have now: "date_of (combine 8 0) = 8" by (simp add: date_of_def combine_def)
  have h: "[0..<horizon_of BOOKING_WINDOW_DEFAULTS None] = [0, 1, 2, 3, 4, 5, 6]"
    by (simp add: horizon_of_def BOOKING_WINDOW_DEFAULTS_def MAX_SEARCH_DAYS_def upt_rec)
  have cut: "notice_cutoff BOOKING_WINDOW_DEFAULTS (combine 8 0) False = combine 8 7200"
    by (simp add: notice_cutoff_def BOOKING_WINDOW_DEFAULTS_def combine_def)
  show ?thesis unfolding list_available_slots_def demo_slots_day now h cut Let_def
    by (simp add: d list_day_def bookable_def demo_capacity demo_labels overlapping_bookings_def list_offer_def offer_of_def slot_offer.defs Let_def)
       (simp add: combine_def)
qed

theorem earliest_slot_heads_the_list_witness:
  "\<exists>x. find_earliest_available_slot demo_slots 0 4 (combine 8 0) None False None None = Some x \<and> so_time_window x = ''09:00-11:00''"
proof -
  from demo_slots_list obtain x y where "list_available_slots demo_slots 0 4 (combine 8 0) None 2 False None None = [x, y]"
    "so_time_window x = ''09:00-11:00''" by blast
  with earliest_slot_heads_the_list [of 2 demo_slots 0 4 "combine 8 0" None False None None] show ?thesis
    by (cases x) (simp add: slot_offer.defs)
qed

theorem offered_slot_is_bookable_witness:
  "slot_has_capacity demo_slots 0 4 8 ''09:00-11:00'' None None None"
proof -
  from demo_slots_list obtain x y where x: "list_available_slots demo_slots 0 4 (combine 8 0) None 2 False None None = [x, y]"
    "so_time_window x = ''09:00-11:00''" "so_date x = 8" by blast
  have "hours_aligned (availability_rule.truncate demo_rule)"
    using demo_rule_simps(1,4) by (simp add: hours_aligned_def minute_aligned_def availability_rule.defs)
  then have "\<forall>r \<in> set (availability_rules demo_slots). hours_aligned r" by simp
  with offered_slot_is_bookable [of x demo_slots 0 4 "combine 8 0" None 2 False None None] x show ?thesis by simp
qed

end
