(* ===== verification/Checklists.thy ===== *)
theory Checklists
  imports Inventory Slots
begin

section \<open>The checklist catalogue (checklist_catalog/service.py, gate.py, models.py, constants.py)\<close>

text \<open>
  Templates with draft and published versions, their sections and items, the mapping of a version to
  a job type, the checklist instance a job gets, the technician's answers, the provider's selection of
  points, and the gate the execution engine asks before a job may move on. Rows are read in insertion
  order where the query has no \<^verbatim>\<open>ORDER BY\<close>, and sorted stably by \<^verbatim>\<open>display_order\<close> where it has
  one. A JSON answer is \<open>None\<close> or the list of its members, so \<open>Some []\<close> is \<^verbatim>\<open>{}\<close>; an evidence
  list keeps the file ids. Not kept: icons, help texts, file types, units, validation rules, who
  published or changed a row and when; the audit rows of the admin router.
\<close>

subsection \<open>Vocabularies (checklist_catalog/constants.py)\<close>

definition TEMPLATE_PURPOSES :: "string list" where
  "TEMPLATE_PURPOSES = [''PRE_ARRIVAL'', ''INSPECTION'', ''PRE_WORK'', ''EXECUTION'', ''SAFETY'', ''COMPLETION'', ''HANDOVER'']"

definition OWNER_SCOPES :: "string list" where
  "OWNER_SCOPES = [''PLATFORM'', ''TENANT'']"

datatype version_status = VERSION_DRAFT | VERSION_PUBLISHED | VERSION_ARCHIVED

definition ITEM_TYPES :: "string list" where
  "ITEM_TYPES = [''CHECKBOX'', ''YES_NO'', ''SHORT_TEXT'', ''LONG_TEXT'', ''NUMBER'', ''MEASUREMENT'', ''SINGLE_SELECT'',
     ''MULTI_SELECT'', ''PHOTO'', ''DOCUMENT'', ''SIGNATURE'']"

definition EVIDENCE_CAPABLE_ITEM_TYPES :: "string list" where
  "EVIDENCE_CAPABLE_ITEM_TYPES = [''PHOTO'', ''DOCUMENT'', ''SIGNATURE'']"

definition ACTORS :: "string list" where
  "ACTORS = [''TECHNICIAN'', ''STAFF'', ''TENANT_ADMIN'', ''CUSTOMER'']"

datatype usage = USAGE_DISABLED | USAGE_OPTIONAL | USAGE_REQUIRED

datatype gate_code =
    GATE_NONE | GATE_BEFORE_INSPECTION_COMPLETE | GATE_BEFORE_ESTIMATE_SUBMISSION | GATE_BEFORE_WORK_START
  | GATE_BEFORE_JOB_COMPLETION | GATE_BEFORE_HANDOVER

definition PURPOSE_ALLOWED_GATES :: "string \<Rightarrow> gate_code list" where
  "PURPOSE_ALLOWED_GATES purpose =
     (if purpose = ''PRE_ARRIVAL'' then [GATE_NONE, GATE_BEFORE_WORK_START]
      else if purpose = ''INSPECTION'' then [GATE_NONE, GATE_BEFORE_INSPECTION_COMPLETE, GATE_BEFORE_ESTIMATE_SUBMISSION]
      else if purpose = ''PRE_WORK'' then [GATE_NONE, GATE_BEFORE_WORK_START]
      else if purpose = ''EXECUTION'' then [GATE_NONE, GATE_BEFORE_JOB_COMPLETION]
      else if purpose = ''SAFETY'' then [GATE_NONE, GATE_BEFORE_WORK_START, GATE_BEFORE_JOB_COMPLETION]
      else if purpose = ''COMPLETION'' then [GATE_NONE, GATE_BEFORE_JOB_COMPLETION, GATE_BEFORE_HANDOVER]
      else if purpose = ''HANDOVER'' then [GATE_NONE, GATE_BEFORE_HANDOVER]
      else [GATE_NONE])"

datatype instance_state =
  INSTANCE_NOT_STARTED | INSTANCE_IN_PROGRESS | INSTANCE_COMPLETED | INSTANCE_BLOCKED | INSTANCE_WAIVED

definition MIN_TENANT_CHECKLIST_ITEMS_PER_SERVICE :: nat where
  "MIN_TENANT_CHECKLIST_ITEMS_PER_SERVICE = 5"

subsection \<open>Data (checklist_catalog/models.py)\<close>

record checklist_template =
  tp_id :: uuid
  tp_name :: string
  tp_code :: string
  tp_purpose :: string
  tp_active :: bool
  tp_owner_scope :: string
  tp_tenant_id :: "uuid option"

record template_version =
  vr_id :: uuid
  vr_template_id :: uuid
  vr_number :: nat
  vr_status :: version_status
  vr_published_at :: "time option"

record checklist_section =
  se_id :: uuid
  se_version_id :: uuid
  se_title :: string
  se_order :: int

text \<open>What an item says; \<open>item_fields\<close> is the dictionary the author submits.\<close>

record item_fields =
  f_item_type :: string
  f_label :: string
  f_is_required :: bool
  f_evidence_required :: bool
  f_min_evidence_count :: int
  f_max_evidence_count :: int
  f_select_options :: "(string \<times> string) list option"
  f_display_order :: int
  f_customer_visible :: bool

record checklist_item =
  ci_id :: uuid
  ci_section_id :: uuid
  ci_fields :: item_fields

text \<open>A declarative rule tree: one clause of \<^verbatim>\<open>all\<close> or \<^verbatim>\<open>any\<close> compares a field of the context.\<close>

datatype rule_op = OP_EQ string | OP_NEQ string | OP_IN "string list" | OP_UNKNOWN

datatype condition_rules = RULE_ALL "(string \<times> rule_op) list" | RULE_ANY "(string \<times> rule_op) list" | RULE_NONE

record checklist_mapping =
  mp_id :: uuid
  mp_link_id :: uuid
  mp_workflow_id :: "uuid option"
  mp_version_id :: uuid
  mp_phase :: string
  mp_usage :: usage
  mp_actor :: string
  mp_gate :: gate_code
  mp_rules :: condition_rules
  mp_order :: int
  mp_active :: bool
  mp_effective_from :: "time option"
  mp_effective_until :: "time option"

record checklist_instance =
  jc_id :: uuid
  jc_job_id :: uuid
  jc_tenant_id :: "uuid option"
  jc_mapping_id :: uuid
  jc_version_id :: uuid
  jc_phase :: string
  jc_assigned_actor :: string
  jc_state :: instance_state

record checklist_response =
  rs_instance_id :: uuid
  rs_item_id :: uuid
  rs_value :: "string list option"
  rs_evidence :: "string list option"

record tenant_selection =
  ts_tenant_id :: uuid
  ts_service_id :: uuid
  ts_item_id :: uuid
  ts_version_id :: uuid
  ts_is_active :: bool

record chk_db = inv_db +
  checklist_templates :: "checklist_template list"
  template_versions :: "template_version list"
  checklist_sections :: "checklist_section list"
  checklist_items :: "checklist_item list"
  checklist_mappings :: "checklist_mapping list"
  checklist_instances :: "checklist_instance list"
  checklist_responses :: "checklist_response list"
  tenant_selections :: "tenant_selection list"

subsection \<open>Authoring: templates, versions, sections, items\<close>

definition code_char :: "char \<Rightarrow> bool" where
  "code_char ch \<longleftrightarrow> ch \<in> set ''ABCDEFGHIJKLMNOPQRSTUVWXYZ0123456789_-''"

definition fresh_id :: "'a chk_db_scheme \<Rightarrow> 'a chk_db_scheme" where
  "fresh_id s = s\<lparr>next_uuid := Suc (next_uuid s)\<rparr>"

definition template_by_id :: "'a chk_db_scheme \<Rightarrow> uuid \<Rightarrow> checklist_template option" where
  "template_by_id s i = first_row (filter (\<lambda>t. tp_id t = i) (checklist_templates s))"

definition version_by_id :: "'a chk_db_scheme \<Rightarrow> uuid \<Rightarrow> template_version option" where
  "version_by_id s i = first_row (filter (\<lambda>v. vr_id v = i) (template_versions s))"

definition section_by_id :: "'a chk_db_scheme \<Rightarrow> uuid \<Rightarrow> checklist_section option" where
  "section_by_id s i = first_row (filter (\<lambda>x. se_id x = i) (checklist_sections s))"

definition item_by_id :: "'a chk_db_scheme \<Rightarrow> uuid \<Rightarrow> checklist_item option" where
  "item_by_id s i = first_row (filter (\<lambda>x. ci_id x = i) (checklist_items s))"

definition add_version :: "'a chk_db_scheme \<Rightarrow> uuid \<Rightarrow> nat \<Rightarrow> template_version \<times> 'a chk_db_scheme" where
  "add_version s tid n =
     (let v = \<lparr>vr_id = next_uuid s, vr_template_id = tid, vr_number = n, vr_status = VERSION_DRAFT, vr_published_at = None\<rparr>
      in (v, fresh_id (s\<lparr>template_versions := template_versions s @ [v]\<rparr>)))"

definition create_template ::
  "'a chk_db_scheme \<Rightarrow> string \<Rightarrow> string \<Rightarrow> string \<Rightarrow> string \<Rightarrow> uuid option \<Rightarrow> (checklist_template \<times> 'a chk_db_scheme) res" where
  "create_template s name0 code0 purpose owner_scope tid =
     (let name = strip name0; code = upper (strip code0) in
      if name = [] then Inl (ServiceOSException ''CHECKLIST_NAME_REQUIRED'')
      else if length name > 200 then Inl (ServiceOSException ''CHECKLIST_NAME_INVALID'')
      else if code = [] \<or> length code > 80 \<or> \<not> list_all code_char code
      then Inl (ServiceOSException ''CHECKLIST_CODE_INVALID'')
      else if purpose \<notin> set TEMPLATE_PURPOSES then Inl (ServiceOSException ''CHECKLIST_PURPOSE_INVALID'')
      else if owner_scope \<notin> set OWNER_SCOPES then Inl (ServiceOSException ''CHECKLIST_OWNER_SCOPE_INVALID'')
      else if code \<in> tp_code ` set (checklist_templates s) then Inl DBAPIError
      else
        let t = \<lparr>tp_id = next_uuid s, tp_name = name, tp_code = code, tp_purpose = purpose, tp_active = True,
                 tp_owner_scope = owner_scope, tp_tenant_id = tid\<rparr>;
            s1 = fresh_id (s\<lparr>checklist_templates := checklist_templates s @ [t]\<rparr>)
        in Inr (t, snd (add_version s1 (tp_id t) 1)))"

definition latest_version :: "'a chk_db_scheme \<Rightarrow> uuid \<Rightarrow> template_version option" where
  "latest_version s tid =
     first_row (sort_key (\<lambda>v. - int (vr_number v)) (filter (\<lambda>v. vr_template_id v = tid) (template_versions s)))"

definition sections_of :: "'a chk_db_scheme \<Rightarrow> uuid \<Rightarrow> checklist_section list" where
  "sections_of s vid = sort_key se_order (filter (\<lambda>x. se_version_id x = vid) (checklist_sections s))"

definition items_of_section :: "'a chk_db_scheme \<Rightarrow> uuid \<Rightarrow> checklist_item list" where
  "items_of_section s sid = sort_key (\<lambda>i. f_display_order (ci_fields i)) (filter (\<lambda>i. ci_section_id i = sid) (checklist_items s))"

definition insert_section :: "'a chk_db_scheme \<Rightarrow> uuid \<Rightarrow> string \<Rightarrow> int \<Rightarrow> checklist_section \<times> 'a chk_db_scheme" where
  "insert_section s vid title order =
     (let x = \<lparr>se_id = next_uuid s, se_version_id = vid, se_title = title, se_order = order\<rparr>
      in (x, fresh_id (s\<lparr>checklist_sections := checklist_sections s @ [x]\<rparr>)))"

definition insert_item :: "'a chk_db_scheme \<Rightarrow> uuid \<Rightarrow> item_fields \<Rightarrow> checklist_item \<times> 'a chk_db_scheme" where
  "insert_item s sid f =
     (let i = \<lparr>ci_id = next_uuid s, ci_section_id = sid, ci_fields = f\<rparr>
      in (i, fresh_id (s\<lparr>checklist_items := checklist_items s @ [i]\<rparr>)))"

definition copy_section :: "uuid \<Rightarrow> 'a chk_db_scheme \<Rightarrow> checklist_section \<Rightarrow> 'a chk_db_scheme" where
  "copy_section vid s sec =
     (let (new_sec, s1) = insert_section s vid (se_title sec) (se_order sec)
      in foldl (\<lambda>t it. snd (insert_item t (se_id new_sec) (ci_fields it))) s1 (items_of_section s1 (se_id sec)))"

definition create_draft_version ::
  "'a chk_db_scheme \<Rightarrow> uuid \<Rightarrow> template_version option \<Rightarrow> (template_version \<times> 'a chk_db_scheme) res" where
  "create_draft_version s tid source =
     (let src = (case source of Some v \<Rightarrow> Some v | None \<Rightarrow> latest_version s tid);
          n = (case src of Some v \<Rightarrow> Suc (vr_number v) | None \<Rightarrow> 1)
      in if \<exists>v \<in> set (template_versions s). vr_template_id v = tid \<and> vr_number v = n then Inl DBAPIError
         else
           let (new, s1) = add_version s tid n
           in Inr (new, case src of None \<Rightarrow> s1
                | Some v \<Rightarrow> foldl (copy_section (vr_id new)) s1 (sections_of s1 (vr_id v))))"

definition get_draft_version :: "'a chk_db_scheme \<Rightarrow> uuid \<Rightarrow> (template_version \<times> 'a chk_db_scheme) res" where
  "get_draft_version s tid =
     bind_res (require (ServiceOSException ''CHECKLIST_CONFIGURATION_UNRESOLVED'') (latest_version s tid)) (\<lambda>latest.
       if vr_status latest = VERSION_DRAFT then Inr (latest, s) else create_draft_version s tid (Some latest))"

definition assert_version_editable :: "template_version \<Rightarrow> unit res" where
  "assert_version_editable v =
     (if vr_status v \<noteq> VERSION_DRAFT then Inl (ServiceOSException ''CHECKLIST_VERSION_NOT_EDITABLE'') else Inr ())"

text \<open>\<^verbatim>\<open>_editable_template\<close> of the admin router, which every authoring route goes through.\<close>

definition editable_template :: "'a chk_db_scheme \<Rightarrow> template_version option \<Rightarrow> template_version res" where
  "editable_template s version =
     bind_res (require (ServiceOSException ''CHECKLIST_CONFIGURATION_UNRESOLVED'') version) (\<lambda>v.
     bind_res (assert_version_editable v) (\<lambda>_.
       case template_by_id s (vr_template_id v) of
         Some t \<Rightarrow> if tp_active t then Inr v else Inl (ServiceOSException ''CHECKLIST_TEMPLATE_RETIRED'')
       | None \<Rightarrow> Inl (ServiceOSException ''CHECKLIST_TEMPLATE_RETIRED'')))"

definition add_section ::
  "'a chk_db_scheme \<Rightarrow> uuid \<Rightarrow> string \<Rightarrow> int \<Rightarrow> (checklist_section \<times> 'a chk_db_scheme) res" where
  "add_section s vid title0 order =
     bind_res (require (ServiceOSException ''NOT_FOUND'') (version_by_id s vid)) (\<lambda>version.
     bind_res (editable_template s (Some version)) (\<lambda>v.
     bind_res (assert_version_editable v) (\<lambda>_.
       let title = strip title0 in
       if title = [] \<or> length title > 200 then Inl (ServiceOSException ''CHECKLIST_SECTION_INVALID'')
       else Inr (insert_section s (vr_id v) title order))))"

definition distinct_options :: "(string \<times> string) list option \<Rightarrow> bool" where
  "distinct_options opts = (case opts of None \<Rightarrow> False
     | Some os \<Rightarrow> length os \<ge> 2 \<and> list_all (\<lambda>(v, l). strip v \<noteq> [] \<and> strip l \<noteq> []) os \<and> distinct (map fst os))"

definition validate_item_fields :: "item_fields \<Rightarrow> item_fields res" where
  "validate_item_fields f0 =
     (let f = f0\<lparr>f_label := strip (f_label f0)\<rparr> in
      if f_label f = [] \<or> length (f_label f) > 300 then Inl (ServiceOSException ''CHECKLIST_ITEM_VALIDATION_FAILED'')
      else if f_item_type f \<notin> set ITEM_TYPES then Inl (ServiceOSException ''CHECKLIST_ITEM_TYPE_INVALID'')
      else if f_evidence_required f \<and> f_item_type f \<notin> set EVIDENCE_CAPABLE_ITEM_TYPES
      then Inl (ServiceOSException ''CHECKLIST_ITEM_VALIDATION_FAILED'')
      else if f_min_evidence_count f < 0 \<or> f_max_evidence_count f < max (f_min_evidence_count f) 1
      then Inl (ServiceOSException ''CHECKLIST_ITEM_VALIDATION_FAILED'')
      else if f_item_type f \<in> {''SINGLE_SELECT'', ''MULTI_SELECT''} \<and> \<not> distinct_options (f_select_options f)
      then Inl (ServiceOSException ''CHECKLIST_ITEM_VALIDATION_FAILED'')
      else Inr f)"

text \<open>The version a section or an item belongs to, as the routes look it up.\<close>

definition editable_section :: "'a chk_db_scheme \<Rightarrow> uuid \<Rightarrow> checklist_section res" where
  "editable_section s sid =
     bind_res (require (ServiceOSException ''NOT_FOUND'') (section_by_id s sid)) (\<lambda>sec.
     bind_res (editable_template s (version_by_id s (se_version_id sec))) (\<lambda>_. Inr sec))"

definition editable_item :: "'a chk_db_scheme \<Rightarrow> uuid \<Rightarrow> checklist_item res" where
  "editable_item s iid =
     bind_res (require (ServiceOSException ''NOT_FOUND'') (item_by_id s iid)) (\<lambda>item.
     bind_res (require AttributeError (section_by_id s (ci_section_id item))) (\<lambda>sec.
     bind_res (editable_template s (version_by_id s (se_version_id sec))) (\<lambda>_. Inr item)))"

definition add_checklist_item ::
  "'a chk_db_scheme \<Rightarrow> uuid \<Rightarrow> item_fields \<Rightarrow> (checklist_item \<times> 'a chk_db_scheme) res" where
  "add_checklist_item s sid f0 =
     bind_res (editable_section s sid) (\<lambda>sec.
     bind_res (validate_item_fields f0) (\<lambda>f. Inr (insert_item s (se_id sec) f)))"

definition update_checklist_item :: "'a chk_db_scheme \<Rightarrow> uuid \<Rightarrow> (item_fields \<Rightarrow> item_fields) \<Rightarrow> 'a chk_db_scheme res" where
  "update_checklist_item s iid change =
     bind_res (editable_item s iid) (\<lambda>item.
     bind_res (validate_item_fields (change (ci_fields item))) (\<lambda>f.
       Inr (s\<lparr>checklist_items := update_where (\<lambda>i. ci_id i = ci_id item) (\<lambda>i. i\<lparr>ci_fields := f\<rparr>) (checklist_items s)\<rparr>)))"

definition delete_checklist_item :: "'a chk_db_scheme \<Rightarrow> uuid \<Rightarrow> 'a chk_db_scheme res" where
  "delete_checklist_item s iid =
     bind_res (editable_item s iid) (\<lambda>item.
       Inr (s\<lparr>checklist_items := filter (\<lambda>i. ci_id i \<noteq> ci_id item) (checklist_items s)\<rparr>))"

definition update_section :: "'a chk_db_scheme \<Rightarrow> uuid \<Rightarrow> string \<Rightarrow> int option \<Rightarrow> 'a chk_db_scheme res" where
  "update_section s sid title0 order =
     bind_res (editable_section s sid) (\<lambda>sec.
       let title = strip title0 in
       if title = [] \<or> length title > 200 then Inl (ServiceOSException ''CHECKLIST_SECTION_INVALID'')
       else Inr (s\<lparr>checklist_sections := update_where (\<lambda>x. se_id x = se_id sec)
              (\<lambda>x. x\<lparr>se_title := title, se_order := (case order of Some n \<Rightarrow> n | None \<Rightarrow> se_order x)\<rparr>) (checklist_sections s)\<rparr>))"

definition delete_section :: "'a chk_db_scheme \<Rightarrow> uuid \<Rightarrow> 'a chk_db_scheme res" where
  "delete_section s sid =
     bind_res (editable_section s sid) (\<lambda>sec.
       Inr (s\<lparr>checklist_items := filter (\<lambda>i. ci_section_id i \<noteq> se_id sec) (checklist_items s),
              checklist_sections := filter (\<lambda>x. se_id x \<noteq> se_id sec) (checklist_sections s)\<rparr>))"

definition version_item_count :: "'a chk_db_scheme \<Rightarrow> uuid \<Rightarrow> nat" where
  "version_item_count s vid =
     length (concat (map (\<lambda>x. filter (\<lambda>i. ci_section_id i = se_id x) (checklist_items s))
       (filter (\<lambda>x. se_version_id x = vid) (checklist_sections s))))"

definition publish_version :: "'a chk_db_scheme \<Rightarrow> uuid \<Rightarrow> time \<Rightarrow> 'a chk_db_scheme res" where
  "publish_version s vid now =
     bind_res (require (ServiceOSException ''NOT_FOUND'') (version_by_id s vid)) (\<lambda>version.
     bind_res (editable_template s (Some version)) (\<lambda>v.
     bind_res (assert_version_editable v) (\<lambda>_.
       if version_item_count s (vr_id v) = 0 then Inl (ServiceOSException ''CHECKLIST_CONFIGURATION_UNRESOLVED'')
       else Inr (s\<lparr>template_versions := update_where (\<lambda>x. vr_id x = vr_id v)
              (\<lambda>x. x\<lparr>vr_status := VERSION_PUBLISHED, vr_published_at := Some now\<rparr>) (template_versions s)\<rparr>))))"

definition archive_template :: "'a chk_db_scheme \<Rightarrow> uuid \<Rightarrow> string \<Rightarrow> 'a chk_db_scheme res" where
  "archive_template s tid reason =
     bind_res (require (ServiceOSException ''NOT_FOUND'') (template_by_id s tid)) (\<lambda>t.
       if length (strip reason) < 5 then Inl (ServiceOSException ''CHECKLIST_RETIRE_REASON_REQUIRED'')
       else
         let vids = map vr_id (filter (\<lambda>v. vr_template_id v = tp_id t) (template_versions s))
         in Inr (s\<lparr>checklist_templates := update_where (\<lambda>x. tp_id x = tp_id t) (\<lambda>x. x\<lparr>tp_active := False\<rparr>)
                    (checklist_templates s),
                  checklist_mappings := update_where (\<lambda>m. mp_version_id m \<in> set vids \<and> mp_active m)
                    (\<lambda>m. m\<lparr>mp_active := False\<rparr>) (checklist_mappings s)\<rparr>))"

definition restore_template :: "'a chk_db_scheme \<Rightarrow> uuid \<Rightarrow> string \<Rightarrow> 'a chk_db_scheme res" where
  "restore_template s tid reason =
     bind_res (require (ServiceOSException ''NOT_FOUND'') (template_by_id s tid)) (\<lambda>t.
       if length (strip reason) < 5 then Inl (ServiceOSException ''CHECKLIST_RESTORE_REASON_REQUIRED'')
       else Inr (s\<lparr>checklist_templates := update_where (\<lambda>x. tp_id x = tp_id t) (\<lambda>x. x\<lparr>tp_active := True\<rparr>)
              (checklist_templates s)\<rparr>))"

subsection \<open>Mapping a version to a job type\<close>

fun usage_of :: "string \<Rightarrow> usage option" where
  "usage_of u = (if u = ''DISABLED'' then Some USAGE_DISABLED else if u = ''OPTIONAL'' then Some USAGE_OPTIONAL
     else if u = ''REQUIRED'' then Some USAGE_REQUIRED else None)"

fun gate_of :: "string \<Rightarrow> gate_code option" where
  "gate_of g = (if g = ''NONE'' then Some GATE_NONE
     else if g = ''REQUIRE_BEFORE_INSPECTION_COMPLETE'' then Some GATE_BEFORE_INSPECTION_COMPLETE
     else if g = ''REQUIRE_BEFORE_ESTIMATE_SUBMISSION'' then Some GATE_BEFORE_ESTIMATE_SUBMISSION
     else if g = ''REQUIRE_BEFORE_WORK_START'' then Some GATE_BEFORE_WORK_START
     else if g = ''REQUIRE_BEFORE_JOB_COMPLETION'' then Some GATE_BEFORE_JOB_COMPLETION
     else if g = ''REQUIRE_BEFORE_HANDOVER'' then Some GATE_BEFORE_HANDOVER else None)"

definition version_live :: "'a chk_db_scheme \<Rightarrow> uuid \<Rightarrow> bool" where
  "version_live s vid =
     given (version_by_id s vid) (\<lambda>v. vr_status v = VERSION_PUBLISHED \<and>
       given (template_by_id s (vr_template_id v)) tp_active)"

definition create_mapping ::
  "'a chk_db_scheme \<Rightarrow> uuid \<Rightarrow> uuid option \<Rightarrow> uuid \<Rightarrow> string \<Rightarrow> string \<Rightarrow> string \<Rightarrow> string \<Rightarrow> condition_rules \<Rightarrow> int \<Rightarrow>
   (checklist_mapping \<times> 'a chk_db_scheme) res" where
  "create_mapping s link_id workflow_id vid phase0 usage0 actor gate0 rules order =
     (case first_row (filter (\<lambda>l. lk_id l = link_id) (master_service_job_types s)) of
        None \<Rightarrow> Inl (ServiceOSException ''CHECKLIST_CONFIGURATION_UNRESOLVED'')
      | Some link \<Rightarrow>
        if \<not> lk_is_active link then Inl (ServiceOSException ''CHECKLIST_CONFIGURATION_UNRESOLVED'') else
        (case version_by_id s vid of
           None \<Rightarrow> Inl (ServiceOSException ''CHECKLIST_VERSION_NOT_PUBLISHED'')
         | Some v \<Rightarrow>
           if vr_status v \<noteq> VERSION_PUBLISHED then Inl (ServiceOSException ''CHECKLIST_VERSION_NOT_PUBLISHED'') else
           (case template_by_id s (vr_template_id v) of
              None \<Rightarrow> Inl (ServiceOSException ''CHECKLIST_TEMPLATE_RETIRED'')
            | Some t \<Rightarrow>
              if \<not> tp_active t then Inl (ServiceOSException ''CHECKLIST_TEMPLATE_RETIRED'') else
              let phase = lower (strip phase0) in
              if upper phase \<notin> set TEMPLATE_PURPOSES then Inl (ServiceOSException ''CHECKLIST_PHASE_INVALID'') else
              bind_res (require (ServiceOSException ''CHECKLIST_USAGE_INVALID'') (usage_of usage0)) (\<lambda>u.
              if actor \<notin> set ACTORS then Inl (ServiceOSException ''CHECKLIST_ACTOR_INVALID'') else
              bind_res (require (ServiceOSException ''CHECKLIST_GATE_INVALID'') (gate_of gate0)) (\<lambda>g.
              if g \<notin> set (PURPOSE_ALLOWED_GATES (tp_purpose t)) then Inl (ServiceOSException ''CHECKLIST_GATE_PURPOSE_MISMATCH'')
              else if (case workflow_id of None \<Rightarrow> False
                 | Some wid \<Rightarrow> \<not> given (find (\<lambda>w. wf_id w = wid) (job_workflows s)) (\<lambda>w.
                     wf_master_service_id w = lk_master_service_id link \<and> wf_job_type_id w = lk_job_type_id link))
              then Inl (ServiceOSException ''CHECKLIST_CONFIGURATION_UNRESOLVED'')
              else
                bind_res (one_or_none (filter (\<lambda>m. mp_link_id m = link_id \<and> mp_version_id m = vid \<and> mp_phase m = phase)
                            (checklist_mappings s))) (\<lambda>duplicate.
                if duplicate \<noteq> None then Inl (ServiceOSException ''CHECKLIST_MAPPING_ALREADY_EXISTS'')
                else
                  let m = \<lparr>mp_id = next_uuid s, mp_link_id = link_id, mp_workflow_id = workflow_id, mp_version_id = vid,
                           mp_phase = phase, mp_usage = u, mp_actor = actor, mp_gate = g, mp_rules = rules, mp_order = order,
                           mp_active = True, mp_effective_from = None, mp_effective_until = None\<rparr>
                  in Inr (m, fresh_id (s\<lparr>checklist_mappings := checklist_mappings s @ [m]\<rparr>))))))))"

definition disable_mapping :: "'a chk_db_scheme \<Rightarrow> uuid \<Rightarrow> string \<Rightarrow> 'a chk_db_scheme res" where
  "disable_mapping s mid reason =
     bind_res (require (ServiceOSException ''NOT_FOUND'') (first_row (filter (\<lambda>m. mp_id m = mid) (checklist_mappings s)))) (\<lambda>m.
       if length (strip reason) < 5 then Inl (ServiceOSException ''CHECKLIST_MAPPING_DISABLE_REASON_REQUIRED'')
       else Inr (s\<lparr>checklist_mappings := update_where (\<lambda>x. mp_id x = mid) (\<lambda>x. x\<lparr>mp_active := False\<rparr>) (checklist_mappings s)\<rparr>))"

definition enable_mapping :: "'a chk_db_scheme \<Rightarrow> uuid \<Rightarrow> 'a chk_db_scheme res" where
  "enable_mapping s mid =
     bind_res (require (ServiceOSException ''NOT_FOUND'') (first_row (filter (\<lambda>m. mp_id m = mid) (checklist_mappings s)))) (\<lambda>m.
       if \<not> version_live s (mp_version_id m) then Inl (ServiceOSException ''CHECKLIST_CONFIGURATION_UNRESOLVED'')
       else Inr (s\<lparr>checklist_mappings := update_where (\<lambda>x. mp_id x = mid) (\<lambda>x. x\<lparr>mp_active := True\<rparr>) (checklist_mappings s)\<rparr>))"

definition eval_clause :: "(string \<Rightarrow> string option) \<Rightarrow> string \<times> rule_op \<Rightarrow> bool" where
  "eval_clause context cl = (case snd cl of
       OP_EQ v \<Rightarrow> context (fst cl) = Some v
     | OP_NEQ v \<Rightarrow> context (fst cl) \<noteq> Some v
     | OP_IN vs \<Rightarrow> (case context (fst cl) of None \<Rightarrow> False | Some a \<Rightarrow> a \<in> set vs)
     | OP_UNKNOWN \<Rightarrow> False)"

definition evaluate_condition :: "condition_rules \<Rightarrow> (string \<Rightarrow> string option) \<Rightarrow> bool" where
  "evaluate_condition rules context = (case rules of
       RULE_ALL cls \<Rightarrow> list_all (eval_clause context) cls
     | RULE_ANY cls \<Rightarrow> list_ex (eval_clause context) cls
     | RULE_NONE \<Rightarrow> True)"

definition resolve_master_service_job_type_id :: "'a chk_db_scheme \<Rightarrow> service_job \<Rightarrow> uuid option" where
  "resolve_master_service_job_type_id s job =
     (case j_job_type_id job of None \<Rightarrow> None
      | Some jt \<Rightarrow> map_option lk_id (first_row (filter (\<lambda>l. lk_master_service_id l = j_offering_id job \<and>
          lk_job_type_id l = jt \<and> lk_is_active l) (master_service_job_types s))))"

definition get_applicable_mappings ::
  "'a chk_db_scheme \<Rightarrow> service_job \<Rightarrow> string option \<Rightarrow> (string \<Rightarrow> string option) \<Rightarrow> time \<Rightarrow> checklist_mapping list" where
  "get_applicable_mappings s job phase context now =
     (case resolve_master_service_job_type_id s job of None \<Rightarrow> []
      | Some lid \<Rightarrow>
        filter (\<lambda>m. \<not> given (mp_effective_from m) (\<lambda>t. t > now) \<and> \<not> given (mp_effective_until m) (\<lambda>t. t < now) \<and>
                    evaluate_condition (mp_rules m) context)
          (sort_key mp_order (filter (\<lambda>m. mp_link_id m = lid \<and> mp_active m \<and> mp_usage m \<noteq> USAGE_DISABLED \<and>
             (case phase of None \<Rightarrow> True | Some p \<Rightarrow> mp_phase m = lower (strip p))) (checklist_mappings s))))"

subsection \<open>Instances and answers\<close>

definition find_instance :: "'a chk_db_scheme \<Rightarrow> uuid \<Rightarrow> uuid \<Rightarrow> checklist_instance option" where
  "find_instance s jid mid = first_row (filter (\<lambda>x. jc_job_id x = jid \<and> jc_mapping_id x = mid) (checklist_instances s))"

definition ensure_instance ::
  "'a chk_db_scheme \<Rightarrow> service_job \<Rightarrow> checklist_mapping \<Rightarrow> (checklist_instance \<times> 'a chk_db_scheme) res" where
  "ensure_instance s job m =
     (case find_instance s (j_id job) (mp_id m) of
        Some x \<Rightarrow> Inr (x, s)
      | None \<Rightarrow>
        if \<not> given (version_by_id s (mp_version_id m)) (\<lambda>v. vr_status v \<in> {VERSION_PUBLISHED, VERSION_ARCHIVED})
        then Inl (ServiceOSException ''CHECKLIST_VERSION_NOT_PUBLISHED'')
        else
          let x = \<lparr>jc_id = next_uuid s, jc_job_id = j_id job, jc_tenant_id = j_tenant_id job, jc_mapping_id = mp_id m,
                   jc_version_id = mp_version_id m, jc_phase = mp_phase m, jc_assigned_actor = mp_actor m,
                   jc_state = INSTANCE_NOT_STARTED\<rparr>
          in Inr (x, fresh_id (s\<lparr>checklist_instances := checklist_instances s @ [x]\<rparr>)))"

definition authored_items :: "'a chk_db_scheme \<Rightarrow> uuid \<Rightarrow> checklist_item list" where
  "authored_items s vid = concat (map (\<lambda>x. items_of_section s (se_id x)) (sections_of s vid))"

definition tenant_selected_item_ids_for_job :: "'a chk_db_scheme \<Rightarrow> checklist_instance \<Rightarrow> uuid list" where
  "tenant_selected_item_ids_for_job s x =
     (case first_row (filter (\<lambda>j. j_id j = jc_job_id x) (service_jobs s)) of None \<Rightarrow> []
      | Some j \<Rightarrow>
        (case j_tenant_id j of None \<Rightarrow> []
         | Some tid \<Rightarrow> map ts_item_id (filter (\<lambda>r. ts_tenant_id r = tid \<and> ts_service_id r = j_offering_id j \<and> ts_is_active r)
             (tenant_selections s))))"

definition instance_items :: "'a chk_db_scheme \<Rightarrow> checklist_instance \<Rightarrow> checklist_item list" where
  "instance_items s x =
     (let items = authored_items s (jc_version_id x);
          selected_ids = tenant_selected_item_ids_for_job s x
      in if selected_ids = [] then items
         else
           let narrowed = filter (\<lambda>i. ci_id i \<in> set selected_ids \<or> f_is_required (ci_fields i)) items
           in if narrowed = [] then items else narrowed)"

definition evidence_count :: "string list option \<Rightarrow> int" where
  "evidence_count ev = (case ev of None \<Rightarrow> 0 | Some es \<Rightarrow> int (length es))"

definition find_response :: "'a chk_db_scheme \<Rightarrow> uuid \<Rightarrow> uuid \<Rightarrow> checklist_response option" where
  "find_response s xid iid = first_row (filter (\<lambda>r. rs_instance_id r = xid \<and> rs_item_id r = iid) (checklist_responses s))"

definition save_response ::
  "'a chk_db_scheme \<Rightarrow> checklist_instance \<Rightarrow> uuid \<Rightarrow> string \<Rightarrow> string list option \<Rightarrow> string list option \<Rightarrow> 'a chk_db_scheme res" where
  "save_response s x iid role v ev =
     (if jc_assigned_actor x \<notin> {role, ''STAFF''}
      then Inl (ServiceOSException ''CHECKLIST_ACTOR_NOT_AUTHORIZED'')
      else case item_by_id s iid of
        None \<Rightarrow> Inl (ServiceOSException ''CHECKLIST_ITEM_NOT_FOUND'')
      | Some item \<Rightarrow>
        let f = ci_fields item in
        if f_evidence_required f \<and> evidence_count ev < max (f_min_evidence_count f) 1
        then Inl (ServiceOSException ''CHECKLIST_EVIDENCE_REQUIRED'')
        else if f_max_evidence_count f \<noteq> 0 \<and> evidence_count ev > 0 \<and> evidence_count ev > f_max_evidence_count f
        then Inl (ServiceOSException ''CHECKLIST_ITEM_VALIDATION_FAILED'')
        else
          let s1 = (case find_response s (jc_id x) iid of
              Some r \<Rightarrow> s\<lparr>checklist_responses := update_where (\<lambda>r. rs_instance_id r = jc_id x \<and> rs_item_id r = iid)
                  (\<lambda>r. r\<lparr>rs_value := v, rs_evidence := ev\<rparr>) (checklist_responses s)\<rparr>
            | None \<Rightarrow> s\<lparr>checklist_responses := checklist_responses s @
                  [\<lparr>rs_instance_id = jc_id x, rs_item_id = iid, rs_value = v, rs_evidence = ev\<rparr>]\<rparr>)
          in Inr (if jc_state x = INSTANCE_NOT_STARTED
                  then s1\<lparr>checklist_instances := update_where (\<lambda>y. jc_id y = jc_id x)
                         (\<lambda>y. y\<lparr>jc_state := INSTANCE_IN_PROGRESS\<rparr>) (checklist_instances s1)\<rparr>
                  else s1))"

text \<open>\<^verbatim>\<open>resp.response_value in (None, {}, "")\<close>.\<close>

definition answered :: "checklist_response option \<Rightarrow> bool" where
  "answered r = given r (\<lambda>r. rs_value r \<noteq> None \<and> rs_value r \<noteq> Some [])"

fun check_items :: "'a chk_db_scheme \<Rightarrow> uuid \<Rightarrow> checklist_item list \<Rightarrow> unit res" where
  "check_items s xid [] = Inr ()"
| "check_items s xid (i # is) =
     (let f = ci_fields i; r = find_response s xid (ci_id i) in
      if \<not> f_is_required f then check_items s xid is
      else if \<not> answered r then Inl (ServiceOSException ''CHECKLIST_ITEM_VALIDATION_FAILED'')
      else if f_evidence_required f \<and>
              evidence_count (Option.bind r rs_evidence) < max (f_min_evidence_count f) 1
      then Inl (ServiceOSException ''CHECKLIST_EVIDENCE_REQUIRED'')
      else check_items s xid is)"

definition set_instance_state :: "'a chk_db_scheme \<Rightarrow> uuid \<Rightarrow> instance_state \<Rightarrow> 'a chk_db_scheme" where
  "set_instance_state s xid st =
     s\<lparr>checklist_instances := update_where (\<lambda>y. jc_id y = xid) (\<lambda>y. y\<lparr>jc_state := st\<rparr>) (checklist_instances s)\<rparr>"

definition complete_instance :: "'a chk_db_scheme \<Rightarrow> checklist_instance \<Rightarrow> 'a chk_db_scheme res" where
  "complete_instance s x =
     bind_res (check_items s (jc_id x) (instance_items s x)) (\<lambda>_. Inr (set_instance_state s (jc_id x) INSTANCE_COMPLETED))"

definition waive_instance :: "'a chk_db_scheme \<Rightarrow> checklist_instance \<Rightarrow> string \<Rightarrow> bool \<Rightarrow> 'a chk_db_scheme res" where
  "waive_instance s x reason authorized =
     (if \<not> authorized then Inl (ServiceOSException ''CHECKLIST_ACTOR_NOT_AUTHORIZED'')
      else if blank reason then Inl (ServiceOSException ''CHECKLIST_WAIVER_REASON_REQUIRED'')
      else Inr (set_instance_state s (jc_id x) INSTANCE_WAIVED))"

subsection \<open>The gate (checklist_catalog/gate.py)\<close>

text \<open>
  The safeguard for a job in a terminal status compares the status text with the suffixes
  \<^verbatim>\<open>_declined\<close> and \<^verbatim>\<open>cancelled\<close>; of the platform's statuses these are the declined estimate
  and the cancelled job.
\<close>

definition gate_terminal :: "job_status \<Rightarrow> bool" where
  "gate_terminal st = (case st of JS_CLOSED_ESTIMATE_DECLINED \<Rightarrow> True | JS_CANCELLED \<Rightarrow> True
     | JS_UNKNOWN t \<Rightarrow> endswith t ''_declined'' \<or> endswith t ''cancelled'' | _ \<Rightarrow> False)"

fun gate_loop :: "'a chk_db_scheme \<Rightarrow> service_job \<Rightarrow> checklist_mapping list \<Rightarrow> 'a chk_db_scheme res" where
  "gate_loop s job [] = Inr s"
| "gate_loop s job (m # ms) =
     bind_res (ensure_instance s job m) (\<lambda>(x, s1).
       if jc_state x \<in> {INSTANCE_COMPLETED, INSTANCE_WAIVED} then gate_loop s1 job ms
       else Inl (ServiceOSException ''REQUIRED_CHECKLIST_INCOMPLETE''))"

definition required_mappings :: "'a chk_db_scheme \<Rightarrow> service_job \<Rightarrow> gate_code \<Rightarrow> time \<Rightarrow> checklist_mapping list" where
  "required_mappings s job gate now =
     filter (\<lambda>m. mp_gate m = gate \<and> mp_usage m = USAGE_REQUIRED) (get_applicable_mappings s job None (\<lambda>_. None) now)"

definition assert_gate_satisfied :: "'a chk_db_scheme \<Rightarrow> service_job \<Rightarrow> gate_code \<Rightarrow> time \<Rightarrow> 'a chk_db_scheme res" where
  "assert_gate_satisfied s job gate now =
     (if gate_terminal (j_status job) then Inr s else gate_loop s job (required_mappings s job gate now))"

subsection \<open>The provider's selection of points\<close>

record selectable_item =
  sx_item :: checklist_item
  sx_section_title :: string
  sx_version_id :: uuid

definition mapping_points :: "'a chk_db_scheme \<Rightarrow> checklist_mapping \<Rightarrow> selectable_item list" where
  "mapping_points s m =
     (if version_live s (mp_version_id m)
      then concat (map (\<lambda>x. map (\<lambda>i. \<lparr>sx_item = i, sx_section_title = se_title x, sx_version_id = mp_version_id m\<rparr>)
                              (items_of_section s (se_id x))) (sections_of s (mp_version_id m)))
      else [])"

text \<open>The first occurrence of each item id is kept.\<close>

fun keep_unseen :: "uuid list \<Rightarrow> selectable_item list \<Rightarrow> selectable_item list" where
  "keep_unseen seen [] = []"
| "keep_unseen seen (x # xs) =
     (if ci_id (sx_item x) \<in> set seen then keep_unseen seen xs
      else x # keep_unseen (ci_id (sx_item x) # seen) xs)"

definition selectable_items_for_service :: "'a chk_db_scheme \<Rightarrow> uuid \<Rightarrow> selectable_item list" where
  "selectable_items_for_service s sid =
     (let links = map lk_id (filter (\<lambda>l. lk_master_service_id l = sid \<and> lk_is_active l) (master_service_job_types s));
          mappings = sort_key mp_order (filter (\<lambda>m. mp_link_id m \<in> set links \<and> mp_active m \<and> mp_usage m \<noteq> USAGE_DISABLED)
            (checklist_mappings s))
      in keep_unseen [] (concat (map (mapping_points s) mappings)))"

definition get_tenant_selection :: "'a chk_db_scheme \<Rightarrow> uuid \<Rightarrow> uuid \<Rightarrow> tenant_selection list" where
  "get_tenant_selection s tid sid =
     filter (\<lambda>r. ts_tenant_id r = tid \<and> ts_service_id r = sid \<and> ts_is_active r) (tenant_selections s)"

text \<open>\<^verbatim>\<open>list(dict.fromkeys(ids))\<close>.\<close>

definition dedupe :: "uuid list \<Rightarrow> uuid list" where
  "dedupe xs = rev (remdups (rev xs))"

definition select_item ::
  "uuid \<Rightarrow> uuid \<Rightarrow> (uuid \<Rightarrow> uuid) \<Rightarrow> tenant_selection list \<Rightarrow> uuid \<Rightarrow> tenant_selection list" where
  "select_item tid sid version_of rows iid =
     (if \<exists>r \<in> set rows. ts_tenant_id r = tid \<and> ts_service_id r = sid \<and> ts_item_id r = iid
      then update_where (\<lambda>r. ts_tenant_id r = tid \<and> ts_service_id r = sid \<and> ts_item_id r = iid)
             (\<lambda>r. r\<lparr>ts_is_active := True, ts_version_id := version_of iid\<rparr>) rows
      else rows @ [\<lparr>ts_tenant_id = tid, ts_service_id = sid, ts_item_id = iid, ts_version_id = version_of iid,
                    ts_is_active = True\<rparr>])"

definition set_tenant_selection ::
  "'a chk_db_scheme \<Rightarrow> uuid \<Rightarrow> uuid \<Rightarrow> uuid list \<Rightarrow> 'a chk_db_scheme res" where
  "set_tenant_selection s tid sid item_ids =
     (let unique_ids = dedupe item_ids;
          selectable = selectable_items_for_service s sid;
          version_of = (\<lambda>iid. case find (\<lambda>x. ci_id (sx_item x) = iid) selectable of Some x \<Rightarrow> sx_version_id x | None \<Rightarrow> 0)
      in if length unique_ids < MIN_TENANT_CHECKLIST_ITEMS_PER_SERVICE
         then Inl (ServiceOSException ''CHECKLIST_SELECTION_TOO_SMALL'')
         else if \<exists>i \<in> set unique_ids. i \<notin> ci_id ` sx_item ` set selectable
         then Inl (ServiceOSException ''CHECKLIST_ITEM_NOT_SELECTABLE'')
         else Inr (s\<lparr>tenant_selections :=
           update_where (\<lambda>r. ts_tenant_id r = tid \<and> ts_service_id r = sid \<and> ts_item_id r \<notin> set unique_ids \<and> ts_is_active r)
             (\<lambda>r. r\<lparr>ts_is_active := False\<rparr>) (foldl (select_item tid sid version_of) (tenant_selections s) unique_ids)\<rparr>))"

record readiness =
  rd_selected_count :: nat
  rd_selectable_total :: nat
  rd_shortfall :: nat
  rd_satisfied :: bool
  rd_nothing_authored :: bool
  rd_cannot_satisfy :: bool

definition tenant_selection_readiness :: "'a chk_db_scheme \<Rightarrow> uuid \<Rightarrow> uuid \<Rightarrow> readiness" where
  "tenant_selection_readiness s tid sid =
     (let selectable = selectable_items_for_service s sid;
          selected = filter (\<lambda>r. ts_item_id r \<in> ci_id ` sx_item ` set selectable) (get_tenant_selection s tid sid);
          n = length selected; minimum = MIN_TENANT_CHECKLIST_ITEMS_PER_SERVICE; total = length selectable
      in \<lparr>rd_selected_count = n, rd_selectable_total = total, rd_shortfall = minimum - n, rd_satisfied = (n \<ge> minimum),
          rd_nothing_authored = (total = 0), rd_cannot_satisfy = (0 < total \<and> total < minimum)\<rparr>)"

text \<open>What the customer is shown before booking: the points, without the grouping into titles.\<close>

definition customer_checklist_preview :: "'a chk_db_scheme \<Rightarrow> uuid option \<Rightarrow> uuid \<Rightarrow> checklist_item list" where
  "customer_checklist_preview s tid sid =
     (let authored = map sx_item (selectable_items_for_service s sid);
          selected_ids = (case tid of None \<Rightarrow> [] | Some t \<Rightarrow> map ts_item_id (get_tenant_selection s t sid));
          items = (if selected_ids \<noteq> [] then filter (\<lambda>i. ci_id i \<in> set selected_ids) authored else authored)
      in filter (\<lambda>i. f_customer_visible (ci_fields i)) items)"

subsection \<open>Published content\<close>

definition draft :: "'a chk_db_scheme \<Rightarrow> uuid \<Rightarrow> bool" where
  "draft s w \<longleftrightarrow> (\<exists>v \<in> set (template_versions s). vr_id v = w \<and> vr_status v = VERSION_DRAFT)"

definition draft_section :: "'a chk_db_scheme \<Rightarrow> uuid \<Rightarrow> bool" where
  "draft_section s sid \<longleftrightarrow> (\<exists>x \<in> set (checklist_sections s). se_id x = sid \<and> draft s (se_version_id x))"

definition draft_item :: "'a chk_db_scheme \<Rightarrow> uuid \<Rightarrow> bool" where
  "draft_item s iid \<longleftrightarrow> (\<exists>i \<in> set (checklist_items s). ci_id i = iid \<and> draft_section s (ci_section_id i))"

definition chk_wf :: "'a chk_db_scheme \<Rightarrow> bool" where
  "chk_wf s \<longleftrightarrow> distinct (map vr_id (template_versions s)) \<and> distinct (map se_id (checklist_sections s)) \<and>
     distinct (map ci_id (checklist_items s)) \<and>
     (\<forall>v \<in> set (template_versions s). vr_id v < next_uuid s) \<and>
     (\<forall>x \<in> set (checklist_sections s). se_id x < next_uuid s) \<and>
     (\<forall>i \<in> set (checklist_items s). ci_id i < next_uuid s)"

text \<open>The moves of which every authoring operation is composed: content changes only under a draft.\<close>

abbreviation same_content :: "'a chk_db_scheme \<Rightarrow> 'a chk_db_scheme \<Rightarrow> bool" where
  "same_content s t \<equiv> checklist_sections t = checklist_sections s \<and> checklist_items t = checklist_items s"

inductive content_move :: "'a chk_db_scheme \<Rightarrow> 'a chk_db_scheme \<Rightarrow> bool" where
  elsewhere: "template_versions t = template_versions s \<Longrightarrow> same_content s t \<Longrightarrow> next_uuid s \<le> next_uuid t \<Longrightarrow> content_move s t"
| new_version: "template_versions t = template_versions s @ [v] \<Longrightarrow> vr_id v = next_uuid s \<Longrightarrow> vr_status v = VERSION_DRAFT \<Longrightarrow>
    same_content s t \<Longrightarrow> next_uuid t = Suc (next_uuid s) \<Longrightarrow> content_move s t"
| publish: "draft s w \<Longrightarrow> template_versions t = update_where (\<lambda>x. vr_id x = w)
      (\<lambda>x. x\<lparr>vr_status := VERSION_PUBLISHED, vr_published_at := Some now\<rparr>) (template_versions s) \<Longrightarrow>
    same_content s t \<Longrightarrow> next_uuid t = next_uuid s \<Longrightarrow> content_move s t"
| new_section: "checklist_sections t = checklist_sections s @ [x] \<Longrightarrow> se_id x = next_uuid s \<Longrightarrow> draft s (se_version_id x) \<Longrightarrow>
    template_versions t = template_versions s \<Longrightarrow> checklist_items t = checklist_items s \<Longrightarrow>
    next_uuid t = Suc (next_uuid s) \<Longrightarrow> content_move s t"
| new_item: "checklist_items t = checklist_items s @ [i] \<Longrightarrow> ci_id i = next_uuid s \<Longrightarrow> draft_section s (ci_section_id i) \<Longrightarrow>
    template_versions t = template_versions s \<Longrightarrow> checklist_sections t = checklist_sections s \<Longrightarrow>
    next_uuid t = Suc (next_uuid s) \<Longrightarrow> content_move s t"
| edit_section: "draft_section s sid \<Longrightarrow> checklist_sections t = update_where (\<lambda>x. se_id x = sid) f (checklist_sections s) \<Longrightarrow>
    \<forall>x. se_id (f x) = se_id x \<and> se_version_id (f x) = se_version_id x \<Longrightarrow>
    template_versions t = template_versions s \<Longrightarrow> checklist_items t = checklist_items s \<Longrightarrow>
    next_uuid t = next_uuid s \<Longrightarrow> content_move s t"
| edit_item: "draft_item s iid \<Longrightarrow> checklist_items t = update_where (\<lambda>i. ci_id i = iid) (\<lambda>i. i\<lparr>ci_fields := g\<rparr>) (checklist_items s) \<Longrightarrow>
    template_versions t = template_versions s \<Longrightarrow> checklist_sections t = checklist_sections s \<Longrightarrow>
    next_uuid t = next_uuid s \<Longrightarrow> content_move s t"
| drop_item: "draft_item s iid \<Longrightarrow> checklist_items t = filter (\<lambda>i. ci_id i \<noteq> iid) (checklist_items s) \<Longrightarrow>
    template_versions t = template_versions s \<Longrightarrow> checklist_sections t = checklist_sections s \<Longrightarrow>
    next_uuid t = next_uuid s \<Longrightarrow> content_move s t"
| drop_section: "draft_section s sid \<Longrightarrow> checklist_items t = filter (\<lambda>i. ci_section_id i \<noteq> sid) (checklist_items s) \<Longrightarrow>
    checklist_sections t = filter (\<lambda>x. se_id x \<noteq> sid) (checklist_sections s) \<Longrightarrow>
    template_versions t = template_versions s \<Longrightarrow> next_uuid t = next_uuid s \<Longrightarrow> content_move s t"

lemma content_move_wf: "content_move s t \<Longrightarrow> chk_wf s \<Longrightarrow> chk_wf t"
proof (induction rule: content_move.induct)
  case (edit_section s sid t f)
  then show ?case by (auto simp: chk_wf_def map_update_where_key set_update_where)
next
  case (edit_item s iid t g)
  then show ?case by (auto simp: chk_wf_def map_update_where_key set_update_where)
next
  case (publish s w t now)
  then show ?case by (auto simp: chk_wf_def map_update_where_key set_update_where)
next
  case (drop_item s iid t)
  then show ?case by (auto simp: chk_wf_def distinct_map_filter)
next
  case (drop_section s sid t)
  then show ?case by (auto simp: chk_wf_def distinct_map_filter)
qed (force simp: chk_wf_def)+

definition version_sections :: "'a chk_db_scheme \<Rightarrow> uuid \<Rightarrow> checklist_section list" where
  "version_sections s vid = filter (\<lambda>x. se_version_id x = vid) (checklist_sections s)"

definition version_items :: "'a chk_db_scheme \<Rightarrow> uuid \<Rightarrow> checklist_item list" where
  "version_items s vid = filter (\<lambda>i. ci_section_id i \<in> se_id ` set (version_sections s vid)) (checklist_items s)"

definition version_state :: "'a chk_db_scheme \<Rightarrow> uuid \<Rightarrow> version_status option" where
  "version_state s vid = map_option vr_status (version_by_id s vid)"

lemma version_state_draft: "chk_wf s \<Longrightarrow> draft s w \<Longrightarrow> version_state s w = Some VERSION_DRAFT"
  using filter_key_single [of vr_id "template_versions s"]
  by (auto simp: draft_def version_state_def version_by_id_def chk_wf_def)

lemma draft_section_apart:
  assumes "chk_wf s" "draft_section s sid" "version_state s vid = Some VERSION_PUBLISHED"
  shows "\<forall>x \<in> set (checklist_sections s). se_id x = sid \<longrightarrow> se_version_id x \<noteq> vid"
proof -
  obtain y where y: "y \<in> set (checklist_sections s)" "se_id y = sid" "draft s (se_version_id y)"
    using assms(2) by (auto simp: draft_section_def)
  then have "se_version_id y \<noteq> vid" using version_state_draft [OF assms(1)] assms(3) by auto
  moreover have "x = y" if "x \<in> set (checklist_sections s)" "se_id x = sid" for x
    using assms(1) y(1,2) that by (auto simp: chk_wf_def distinct_map dest: inj_onD)
  ultimately show ?thesis by blast
qed

lemma draft_section_not_in:
  "chk_wf s \<Longrightarrow> draft_section s sid \<Longrightarrow> version_state s vid = Some VERSION_PUBLISHED \<Longrightarrow>
   sid \<notin> se_id ` set (version_sections s vid)"
  using draft_section_apart by (fastforce simp: version_sections_def)

lemma draft_item_not_in:
  assumes "chk_wf s" "draft_item s iid" "version_state s vid = Some VERSION_PUBLISHED"
  shows "\<forall>i \<in> set (checklist_items s). ci_id i = iid \<longrightarrow> ci_section_id i \<notin> se_id ` set (version_sections s vid)"
proof -
  obtain j where j: "j \<in> set (checklist_items s)" "ci_id j = iid" "draft_section s (ci_section_id j)"
    using assms(2) by (auto simp: draft_item_def)
  have "i = j" if "i \<in> set (checklist_items s)" "ci_id i = iid" for i
    using assms(1) j(1,2) that by (auto simp: chk_wf_def distinct_map dest: inj_onD)
  with draft_section_not_in [OF assms(1) j(3) assms(3)] show ?thesis by blast
qed

lemma filter_update_where_miss:
  "(\<And>x. x \<in> set xs \<Longrightarrow> p x \<Longrightarrow> \<not> q x \<and> \<not> q (f x)) \<Longrightarrow> filter q (update_where p f xs) = filter q xs"
  by (induction xs) auto

lemma filter_filter_miss: "(\<And>x. x \<in> set xs \<Longrightarrow> q x \<Longrightarrow> p x) \<Longrightarrow> filter q (filter p xs) = filter q xs"
  by (induction xs) auto

text \<open>A move leaves the state and the content of a published version.\<close>

lemma content_move_published:
  assumes "content_move s t" "chk_wf s" "version_state s vid = Some VERSION_PUBLISHED"
  shows "version_state t vid = Some VERSION_PUBLISHED \<and> version_sections t vid = version_sections s vid \<and>
    version_items t vid = version_items s vid"
  using assms(1)
proof cases
  case (new_version v)
  then show ?thesis using assms(3)
    by (auto simp: version_state_def version_by_id_def version_sections_def version_items_def first_row_append
        split: option.splits)
next
  case (publish w now)
  have "version_state t vid = Some VERSION_PUBLISHED"
  proof -
    obtain z where "version_by_id s vid = Some z" "vr_status z = VERSION_PUBLISHED"
      using assms(3) by (auto simp: version_state_def)
    then show ?thesis using publish(2) by (simp add: version_state_def version_by_id_def first_row_update_where)
  qed
  with publish show ?thesis by (simp add: version_sections_def version_items_def)
next
  case (new_section x)
  with version_state_draft [OF assms(2)] assms(3) have "se_version_id x \<noteq> vid" by auto
  with new_section assms(3) show ?thesis
    by (simp add: version_state_def version_by_id_def version_sections_def version_items_def)
next
  case (new_item i)
  with draft_section_not_in [OF assms(2) _ assms(3)] assms(3) show ?thesis
    by (simp add: version_state_def version_by_id_def version_sections_def version_items_def)
next
  case (edit_section sid f)
  have "version_sections t vid = version_sections s vid"
    unfolding version_sections_def edit_section(2)
    by (rule filter_update_where_miss) (use draft_section_apart [OF assms(2) edit_section(1) assms(3)] edit_section(3) in auto)
  with edit_section assms(3) show ?thesis by (simp add: version_state_def version_by_id_def version_items_def)
next
  case (edit_item iid g)
  have sec: "version_sections t vid = version_sections s vid" using edit_item by (simp add: version_sections_def)
  have "version_items t vid = version_items s vid"
    unfolding version_items_def sec edit_item(2)
    by (rule filter_update_where_miss) (use draft_item_not_in [OF assms(2) edit_item(1) assms(3)] in auto)
  with sec edit_item assms(3) show ?thesis by (simp add: version_state_def version_by_id_def)
next
  case (drop_item iid)
  have sec: "version_sections t vid = version_sections s vid" using drop_item by (simp add: version_sections_def)
  have "version_items t vid = version_items s vid"
    unfolding version_items_def sec drop_item(2)
    by (rule filter_filter_miss) (use draft_item_not_in [OF assms(2) drop_item(1) assms(3)] in auto)
  with sec drop_item assms(3) show ?thesis by (simp add: version_state_def version_by_id_def)
next
  case (drop_section sid)
  have sec: "version_sections t vid = version_sections s vid"
    unfolding version_sections_def drop_section(3)
    by (rule filter_filter_miss) (use draft_section_apart [OF assms(2) drop_section(1) assms(3)] in auto)
  have "version_items t vid = version_items s vid"
    unfolding version_items_def sec drop_section(2)
    by (rule filter_filter_miss) (use draft_section_not_in [OF assms(2) drop_section(1) assms(3)] in auto)
  with sec drop_section assms(3) show ?thesis by (simp add: version_state_def version_by_id_def)
qed (use assms(3) in \<open>simp_all add: version_state_def version_by_id_def version_sections_def version_items_def\<close>)

subsection \<open>The operations are such moves\<close>

lemma fresh_id_tables [simp]:
  "next_uuid (fresh_id s) = Suc (next_uuid s)" "template_versions (fresh_id s) = template_versions s"
  "checklist_sections (fresh_id s) = checklist_sections s" "checklist_items (fresh_id s) = checklist_items s"
  "checklist_instances (fresh_id s) = checklist_instances s" "checklist_mappings (fresh_id s) = checklist_mappings s"
  "checklist_responses (fresh_id s) = checklist_responses s" "tenant_selections (fresh_id s) = tenant_selections s"
  "service_jobs (fresh_id s) = service_jobs s"
  by (simp_all add: fresh_id_def)

lemma insert_item_move: "draft_section s sid \<Longrightarrow> content_move s (snd (insert_item s sid f))"
  by (rule content_move.new_item [where i = "fst (insert_item s sid f)"]) (simp_all add: Let_def insert_item_def)

lemma insert_section_move: "draft s vid \<Longrightarrow> content_move s (snd (insert_section s vid title order))"
  by (rule content_move.new_section [where x = "fst (insert_section s vid title order)"])
    (simp_all add: Let_def insert_section_def)

lemma add_version_move: "content_move s (snd (add_version s tid n))"
  by (rule content_move.new_version [where v = "fst (add_version s tid n)"]) (simp_all add: Let_def add_version_def)

lemma copy_items_moves:
  "draft_section s sid \<Longrightarrow> content_move\<^sup>*\<^sup>* s (foldl (\<lambda>t it. snd (insert_item t sid (ci_fields it))) s is) \<and>
   template_versions (foldl (\<lambda>t it. snd (insert_item t sid (ci_fields it))) s is) = template_versions s"
proof (induction "is" arbitrary: s)
  case Nil
  then show ?case by simp
next
  case (Cons i "is")
  let ?t = "snd (insert_item s sid (ci_fields i))"
  have "draft_section ?t sid" using Cons.prems by (simp add: draft_section_def draft_def Let_def insert_item_def)
  with Cons.IH [of ?t] insert_item_move [OF Cons.prems, of "ci_fields i"] show ?case
    by (auto simp: Let_def insert_item_def intro: converse_rtranclp_into_rtranclp)
qed

lemma copy_section_moves:
  assumes "draft s vid"
  shows "content_move\<^sup>*\<^sup>* s (copy_section vid s sec) \<and> draft (copy_section vid s sec) vid"
proof -
  obtain x s1 where x: "insert_section s vid (se_title sec) (se_order sec) = (x, s1)" by fastforce
  then have m: "content_move s s1" using insert_section_move [OF assms, of "se_title sec" "se_order sec"] by simp
  have d: "draft_section s1 (se_id x)" and v: "template_versions s1 = template_versions s"
    using x assms by (auto simp: Let_def insert_section_def draft_section_def draft_def)
  have "copy_section vid s sec = foldl (\<lambda>t it. snd (insert_item t (se_id x) (ci_fields it))) s1 (items_of_section s1 (se_id sec))"
    using x by (simp add: copy_section_def)
  with copy_items_moves [OF d, of "items_of_section s1 (se_id sec)"] m v assms show ?thesis
    by (auto simp: draft_def intro: converse_rtranclp_into_rtranclp)
qed

lemma copy_sections_moves: "draft s vid \<Longrightarrow> content_move\<^sup>*\<^sup>* s (foldl (copy_section vid) s secs)"
proof (induction secs arbitrary: s)
  case (Cons sec secs)
  then show ?case using copy_section_moves [of s vid sec] Cons.IH [of "copy_section vid s sec"]
    by (auto intro: rtranclp_trans)
qed simp

lemma create_draft_version_moves:
  assumes "create_draft_version s tid source = Inr (v, t)" shows "content_move\<^sup>*\<^sup>* s t"
proof -
  let ?src = "case source of Some v \<Rightarrow> Some v | None \<Rightarrow> latest_version s tid"
  let ?n = "case ?src of Some v \<Rightarrow> Suc (vr_number v) | None \<Rightarrow> 1"
  let ?new = "fst (add_version s tid ?n)" and ?s1 = "snd (add_version s tid ?n)"
  have t: "t = (case ?src of None \<Rightarrow> ?s1 | Some v \<Rightarrow> foldl (copy_section (vr_id ?new)) ?s1 (sections_of ?s1 (vr_id v)))"
    using assms by (simp only: create_draft_version_def Let_def case_prod_beta sum.simps prod.inject split: if_splits) blast
  have "draft ?s1 (vr_id ?new)" by (simp add: add_version_def draft_def Let_def)
  then have "content_move\<^sup>*\<^sup>* ?s1 t" unfolding t by (cases ?src) (simp_all add: copy_sections_moves)
  with add_version_move [of s tid ?n] show ?thesis by (rule converse_rtranclp_into_rtranclp)
qed

lemma version_by_id_mem: "version_by_id s w = Some v \<Longrightarrow> v \<in> set (template_versions s) \<and> vr_id v = w"
  unfolding version_by_id_def by (auto dest!: first_row_Some_set)

lemma editable_draft:
  assumes "editable_template s (version_by_id s w) = Inr v" shows "draft s w \<and> vr_id v = w \<and> version_by_id s w = Some v"
proof -
  obtain x where x: "version_by_id s w = Some x" "assert_version_editable x = Inr ()" "v = x"
    using assms unfolding editable_template_def
    by (cases "version_by_id s w") (auto simp: res_simps split: option.splits if_splits)
  then show ?thesis using version_by_id_mem [OF x(1)]
    by (auto simp: assert_version_editable_def draft_def split: if_splits)
qed

lemma editable_section_draft:
  assumes "editable_section s sid = Inr sec" shows "draft_section s sid \<and> se_id sec = sid"
proof -
  obtain v where sec: "section_by_id s sid = Some sec"
    and v: "editable_template s (version_by_id s (se_version_id sec)) = Inr v"
    using assms by (auto simp: editable_section_def res_simps)
  have "sec \<in> set (checklist_sections s)" "se_id sec = sid"
    using sec unfolding section_by_id_def by (auto dest!: first_row_Some_set)
  with editable_draft [OF v] show ?thesis by (auto simp: draft_section_def)
qed

lemma editable_item_draft:
  assumes "editable_item s iid = Inr i" shows "draft_item s iid \<and> ci_id i = iid"
proof -
  obtain sec v where i: "item_by_id s iid = Some i" and sec: "section_by_id s (ci_section_id i) = Some sec"
    and v: "editable_template s (version_by_id s (se_version_id sec)) = Inr v"
    using assms by (auto simp: editable_item_def res_simps)
  have "i \<in> set (checklist_items s)" "ci_id i = iid"
    using i unfolding item_by_id_def by (auto dest!: first_row_Some_set)
  moreover have "draft_section s (ci_section_id i)"
    using sec editable_draft [OF v] unfolding draft_section_def section_by_id_def by (auto dest!: first_row_Some_set)
  ultimately show ?thesis by (auto simp: draft_item_def)
qed

text \<open>What can happen to the catalogue and to the checklists of jobs.\<close>

inductive chk_step :: "'a chk_db_scheme \<Rightarrow> 'a chk_db_scheme \<Rightarrow> bool" where
  create_template: "create_template s nm cd pp ow ten = Inr (x, t) \<Longrightarrow> chk_step s t"
| get_draft: "get_draft_version s tid = Inr (v, t) \<Longrightarrow> chk_step s t"
| create_draft: "create_draft_version s tid source = Inr (v, t) \<Longrightarrow> chk_step s t"
| add_section: "add_section s vid title order = Inr (sec, t) \<Longrightarrow> chk_step s t"
| add_item: "add_checklist_item s sid f = Inr (i, t) \<Longrightarrow> chk_step s t"
| update_item: "update_checklist_item s iid change = Inr t \<Longrightarrow> chk_step s t"
| delete_item: "delete_checklist_item s iid = Inr t \<Longrightarrow> chk_step s t"
| update_section: "update_section s sid title ord = Inr t \<Longrightarrow> chk_step s t"
| delete_section: "delete_section s sid = Inr t \<Longrightarrow> chk_step s t"
| publish: "publish_version s vid now = Inr t \<Longrightarrow> chk_step s t"
| archive: "archive_template s tid reason = Inr t \<Longrightarrow> chk_step s t"
| restore: "restore_template s tid reason = Inr t \<Longrightarrow> chk_step s t"
| map_version: "create_mapping s lid wid vid ph us ac gt ru od = Inr (m, t) \<Longrightarrow> chk_step s t"
| disable: "disable_mapping s mid reason = Inr t \<Longrightarrow> chk_step s t"
| enable: "enable_mapping s mid = Inr t \<Longrightarrow> chk_step s t"
| ensure: "ensure_instance s job m = Inr (x, t) \<Longrightarrow> chk_step s t"
| respond: "save_response s x iid role v ev = Inr t \<Longrightarrow> chk_step s t"
| complete: "complete_instance s x = Inr t \<Longrightarrow> chk_step s t"
| waive: "waive_instance s x reason ok = Inr t \<Longrightarrow> chk_step s t"
| select: "set_tenant_selection s tid sid ids = Inr t \<Longrightarrow> chk_step s t"

lemma content_elsewhere:
  "template_versions t = template_versions s \<Longrightarrow> same_content s t \<Longrightarrow> next_uuid s \<le> next_uuid t \<Longrightarrow> content_move\<^sup>*\<^sup>* s t"
  by (blast intro: content_move.elsewhere)

lemma ensure_instance_keeps:
  assumes "ensure_instance s job m = Inr (x, t)"
  shows "template_versions t = template_versions s" "same_content s t" "next_uuid s \<le> next_uuid t"
    "checklist_mappings t = checklist_mappings s" "checklist_responses t = checklist_responses s"
    "tenant_selections t = tenant_selections s" "service_jobs t = service_jobs s"
  using assms by (auto simp: ensure_instance_def Let_def split: option.splits if_splits)

lemma save_response_keeps:
  assumes "save_response s x iid role v ev = Inr t"
  shows "template_versions t = template_versions s" "same_content s t" "next_uuid s \<le> next_uuid t"
  using assms by (auto simp: save_response_def Let_def split: option.splits if_splits)

lemma chk_step_moves:
  assumes "chk_step s t" shows "content_move\<^sup>*\<^sup>* s t"
  using assms
proof cases
  case (create_template nm cd pp ow ten x)
  then obtain ts where t: "t = snd (add_version (fresh_id (s\<lparr>checklist_templates := ts\<rparr>)) (tp_id x) 1)"
    unfolding create_template_def Let_def by (auto split: if_splits)
  define s1 where "s1 = fresh_id (s\<lparr>checklist_templates := ts\<rparr>)"
  have "content_move\<^sup>*\<^sup>* s s1" by (rule content_elsewhere) (simp_all add: s1_def)
  with t [folded s1_def] add_version_move [of s1 "tp_id x" 1] show ?thesis by (simp add: rtranclp.rtrancl_into_rtrancl)
next
  case (get_draft tid v)
  then show ?thesis
    by (auto simp: get_draft_version_def res_simps split: if_splits dest: create_draft_version_moves)
next
  case (create_draft tid source v)
  then show ?thesis by (rule create_draft_version_moves)
next
  case (add_section vid title order sec)
  then obtain v where "editable_template s (version_by_id s vid) = Inr v"
    and t: "t = snd (insert_section s (vr_id v) (strip title) order)"
    by (auto simp: add_section_def res_simps Let_def split: if_splits)
  with editable_draft show ?thesis by (metis insert_section_move r_into_rtranclp)
next
  case (add_item sid f i)
  then obtain sec g where "editable_section s sid = Inr sec" and "insert_item s (se_id sec) g = (i, t)"
    by (auto simp: add_checklist_item_def res_simps)
  then have "editable_section s sid = Inr sec" and t: "t = snd (insert_item s (se_id sec) g)" by simp_all
  with editable_section_draft show ?thesis by (metis insert_item_move r_into_rtranclp)
next
  case (update_item iid change)
  then obtain i f where "editable_item s iid = Inr i"
    and t: "t = s\<lparr>checklist_items := update_where (\<lambda>x. ci_id x = ci_id i) (\<lambda>x. x\<lparr>ci_fields := f\<rparr>) (checklist_items s)\<rparr>"
    by (auto simp: update_checklist_item_def res_simps)
  then have "content_move s t" using editable_item_draft [of s iid i]
    by (intro content_move.edit_item [of s iid t f]) auto
  then show ?thesis ..
next
  case (delete_item iid)
  then obtain i where "editable_item s iid = Inr i" and t: "t = s\<lparr>checklist_items := filter (\<lambda>x. ci_id x \<noteq> ci_id i) (checklist_items s)\<rparr>"
    by (auto simp: delete_checklist_item_def res_simps)
  then have "content_move s t" using editable_item_draft [of s iid i]
    by (intro content_move.drop_item [of s iid t]) auto
  then show ?thesis ..
next
  case (update_section sid title ord)
  then obtain sec where "editable_section s sid = Inr sec"
    and t: "t = s\<lparr>checklist_sections := update_where (\<lambda>x. se_id x = se_id sec)
      (\<lambda>x. x\<lparr>se_title := strip title, se_order := (case ord of Some n \<Rightarrow> n | None \<Rightarrow> se_order x)\<rparr>) (checklist_sections s)\<rparr>"
    by (auto simp: update_section_def res_simps Let_def split: if_splits)
  then have "content_move s t" using editable_section_draft [of s sid sec]
    by (intro content_move.edit_section [where sid = sid]) auto
  then show ?thesis ..
next
  case (delete_section sid)
  then obtain sec where "editable_section s sid = Inr sec"
    and t: "t = s\<lparr>checklist_items := filter (\<lambda>i. ci_section_id i \<noteq> se_id sec) (checklist_items s),
        checklist_sections := filter (\<lambda>x. se_id x \<noteq> se_id sec) (checklist_sections s)\<rparr>"
    by (auto simp: delete_section_def res_simps)
  then have "content_move s t" using editable_section_draft [of s sid sec]
    by (intro content_move.drop_section [of s sid t]) auto
  then show ?thesis ..
next
  case (publish vid now)
  then obtain v where "editable_template s (version_by_id s vid) = Inr v"
    and t: "t = s\<lparr>template_versions := update_where (\<lambda>x. vr_id x = vr_id v)
      (\<lambda>x. x\<lparr>vr_status := VERSION_PUBLISHED, vr_published_at := Some now\<rparr>) (template_versions s)\<rparr>"
    by (auto simp: publish_version_def res_simps split: if_splits)
  then have "content_move s t" using editable_draft [of s vid v]
    by (intro content_move.publish [of s vid t now]) auto
  then show ?thesis ..
next
  case (ensure job m x)
  from ensure_instance_keeps(1-3) [OF this] show ?thesis by (rule content_elsewhere)
next
  case (respond x iid role v ev)
  from save_response_keeps [OF this] show ?thesis by (rule content_elsewhere)
next
  case (map_version lid wid vid ph us ac gt ru od m)
  then have "\<exists>ms. t = fresh_id (s\<lparr>checklist_mappings := ms\<rparr>)"
    by (auto simp: create_mapping_def res_simps Let_def split: option.splits if_splits)
  then show ?thesis by (auto intro!: content_elsewhere)
qed (auto simp: archive_template_def restore_template_def disable_mapping_def enable_mapping_def complete_instance_def
      waive_instance_def set_tenant_selection_def set_instance_state_def res_simps Let_def
      intro!: content_elsewhere split: if_splits)

lemma content_moves_published:
  "content_move\<^sup>*\<^sup>* s t \<Longrightarrow> chk_wf s \<Longrightarrow> version_state s vid = Some VERSION_PUBLISHED \<Longrightarrow>
   chk_wf t \<and> version_state t vid = Some VERSION_PUBLISHED \<and> version_sections t vid = version_sections s vid \<and>
   version_items t vid = version_items s vid"
proof (induction rule: rtranclp_induct)
  case base
  then show ?case by simp
next
  case (step t u)
  then show ?case using content_move_wf [of t u] content_move_published [of t u vid] by simp
qed

lemma chk_run_moves: "chk_step\<^sup>*\<^sup>* s t \<Longrightarrow> content_move\<^sup>*\<^sup>* s t"
  by (induction rule: rtranclp_induct) (auto dest: chk_step_moves)

subsection \<open>What the gate and a completed checklist guarantee\<close>

lemma gate_loop_satisfied:
  "gate_loop s job ms = Inr t \<Longrightarrow> m \<in> set ms \<Longrightarrow>
   \<exists>x. find_instance s (j_id job) (mp_id m) = Some x \<and> jc_state x \<in> {INSTANCE_COMPLETED, INSTANCE_WAIVED}"
proof (induction ms arbitrary: s)
  case Nil
  then show ?case by simp
next
  case (Cons m' ms)
  then obtain x s1 where e: "ensure_instance s job m' = Inr (x, s1)"
    and st: "jc_state x \<in> {INSTANCE_COMPLETED, INSTANCE_WAIVED}" and g: "gate_loop s1 job ms = Inr t"
    by (auto simp: res_simps split: if_splits)
  then have x: "find_instance s (j_id job) (mp_id m') = Some x" "s1 = s"
    by (auto simp: ensure_instance_def Let_def split: option.splits if_splits)
  with Cons.IH [of s1] g st Cons.prems(2) show ?case by auto
qed

lemma gate_loop_state: "gate_loop s job ms = Inr t \<Longrightarrow> t = s"
proof (induction ms arbitrary: s)
  case (Cons m ms)
  then obtain x s1 where "ensure_instance s job m = Inr (x, s1)" "jc_state x \<in> {INSTANCE_COMPLETED, INSTANCE_WAIVED}"
    "gate_loop s1 job ms = Inr t" by (auto simp: res_simps split: if_splits)
  moreover from this(1,2) have "s1 = s" by (auto simp: ensure_instance_def Let_def split: option.splits if_splits)
  ultimately show ?case using Cons.IH by simp
qed simp

lemma assert_gate_state: "assert_gate_satisfied s job gate now = Inr t \<Longrightarrow> t = s"
  by (auto simp: assert_gate_satisfied_def dest: gate_loop_state split: if_splits)

lemma check_items_ok:
  "check_items s xid is = Inr () \<Longrightarrow> i \<in> set is \<Longrightarrow> f_is_required (ci_fields i) \<Longrightarrow>
   \<exists>r. find_response s xid (ci_id i) = Some r \<and> rs_value r \<noteq> None \<and> rs_value r \<noteq> Some [] \<and>
     (f_evidence_required (ci_fields i) \<longrightarrow> max (f_min_evidence_count (ci_fields i)) 1 \<le> evidence_count (rs_evidence r))"
proof (induction "is")
  case Nil
  then show ?case by simp
next
  case (Cons j js)
  show ?case
  proof (cases "i = j")
    case True
    with Cons.prems have a: "answered (find_response s xid (ci_id i))"
      and e: "f_evidence_required (ci_fields i) \<longrightarrow> \<not> evidence_count (Option.bind (find_response s xid (ci_id i)) rs_evidence) <
        max (f_min_evidence_count (ci_fields i)) 1" by (auto simp: Let_def split: if_splits)
    from a obtain r where "find_response s xid (ci_id i) = Some r" "rs_value r \<noteq> None" "rs_value r \<noteq> Some []"
      by (auto simp: answered_def given_def split: option.splits)
    with e show ?thesis by auto
  next
    case False
    with Cons show ?thesis by (auto simp: Let_def split: if_splits)
  qed
qed

text \<open>No selection of the provider removes a point the author made required.\<close>

lemma required_in_instance_items:
  assumes "i \<in> set (authored_items s (jc_version_id x))" "f_is_required (ci_fields i)"
  shows "i \<in> set (instance_items s x)"
  using assms by (auto simp: instance_items_def Let_def)

lemma set_authored_items:
  "set (authored_items s vid) = {i \<in> set (checklist_items s). ci_section_id i \<in> se_id ` set (version_sections s vid)}"
  by (auto simp: authored_items_def items_of_section_def sections_of_def version_sections_def)

lemma set_authored_version_items: "set (authored_items s vid) = set (version_items s vid)"
  by (auto simp: set_authored_items version_items_def)

subsection \<open>A selection\<close>

lemma set_dedupe [simp]: "set (dedupe xs) = set xs"
  by (simp add: dedupe_def)

definition chosen :: "tenant_selection list \<Rightarrow> uuid \<Rightarrow> uuid \<Rightarrow> uuid set" where
  "chosen rows tid sid = ts_item_id ` {r \<in> set rows. ts_tenant_id r = tid \<and> ts_service_id r = sid \<and> ts_is_active r}"

lemma update_where_hits: "y \<in> set (update_where p f xs) \<Longrightarrow> p y \<Longrightarrow> \<exists>x. y = f x"
  by (auto simp: update_where_def split: if_splits)

lemma chosen_Nil [simp]: "chosen [] tid sid = {}"
  by (simp add: chosen_def)

lemma chosen_Cons:
  "chosen (r # rows) tid sid =
     (if ts_tenant_id r = tid \<and> ts_service_id r = sid \<and> ts_is_active r then {ts_item_id r} else {}) \<union> chosen rows tid sid"
  by (auto simp: chosen_def)

lemma chosen_append: "chosen (xs @ ys) tid sid = chosen xs tid sid \<union> chosen ys tid sid"
  by (auto simp: chosen_def)

lemma chosen_reactivate:
  "chosen (update_where (\<lambda>r. ts_tenant_id r = tid \<and> ts_service_id r = sid \<and> ts_item_id r = iid)
       (\<lambda>r. r\<lparr>ts_is_active := True, ts_version_id := v\<rparr>) rows) tid' sid' =
     (if tid' = tid \<and> sid' = sid \<and> (\<exists>r \<in> set rows. ts_tenant_id r = tid \<and> ts_service_id r = sid \<and> ts_item_id r = iid)
      then insert iid (chosen rows tid sid) else chosen rows tid' sid')"
  by (induction rows) (auto simp: chosen_Cons update_where_def)

lemma chosen_select_item:
  "chosen (select_item tid sid vf rows iid) tid' sid' =
     (if tid' = tid \<and> sid' = sid then insert iid (chosen rows tid sid) else chosen rows tid' sid')"
proof (cases "\<exists>r \<in> set rows. ts_tenant_id r = tid \<and> ts_service_id r = sid \<and> ts_item_id r = iid")
  case True
  then show ?thesis by (simp add: select_item_def chosen_reactivate)
next
  case False
  then have "select_item tid sid vf rows iid = rows @ [\<lparr>ts_tenant_id = tid, ts_service_id = sid, ts_item_id = iid,
      ts_version_id = vf iid, ts_is_active = True\<rparr>]" by (auto simp: select_item_def)
  then show ?thesis by (simp only: chosen_append) (simp add: chosen_Cons Un_commute)
qed

lemma chosen_select_items:
  "chosen (foldl (select_item tid sid vf) rows ids) tid' sid' =
     (if tid' = tid \<and> sid' = sid then set ids \<union> chosen rows tid sid else chosen rows tid' sid')"
  by (induction ids arbitrary: rows) (auto simp: chosen_select_item)

lemma chosen_deactivate:
  "chosen (update_where (\<lambda>r. ts_tenant_id r = tid \<and> ts_service_id r = sid \<and> ts_item_id r \<notin> ids \<and> ts_is_active r)
       (\<lambda>r. r\<lparr>ts_is_active := False\<rparr>) rows) tid' sid' =
     (if tid' = tid \<and> sid' = sid then chosen rows tid sid \<inter> ids else chosen rows tid' sid')"
  by (induction rows) (auto simp: chosen_Cons update_where_def)

lemma chosen_selection: "ts_item_id ` set (get_tenant_selection s tid sid) = chosen (tenant_selections s) tid sid"
  by (auto simp: get_tenant_selection_def chosen_def)

subsection \<open>Properties\<close>

lemma gate_loop_iff:
  "gate_loop s job ms = Inr s \<longleftrightarrow>
   (\<forall>m \<in> set ms. \<exists>x. find_instance s (j_id job) (mp_id m) = Some x \<and> jc_state x \<in> {INSTANCE_COMPLETED, INSTANCE_WAIVED})"
proof (induction ms)
  case Nil
  then show ?case by simp
next
  case (Cons m ms)
  show ?case
  proof (cases "find_instance s (j_id job) (mp_id m)")
    case None
    then show ?thesis using gate_loop_satisfied [of s job "m # ms" s m] by auto
  next
    case (Some x)
    then show ?thesis using Cons.IH by (auto simp: ensure_instance_def res_simps)
  qed
qed

text \<open>The gate reads neither the answers nor the selections.\<close>

lemma assert_gate_cong:
  assumes "assert_gate_satisfied s job gate now = Inr s"
    and "checklist_instances t = checklist_instances s" "checklist_mappings t = checklist_mappings s"
    and "master_service_job_types t = master_service_job_types s"
  shows "assert_gate_satisfied t job gate now = Inr t"
proof -
  have "resolve_master_service_job_type_id t job = resolve_master_service_job_type_id s job"
    by (simp add: resolve_master_service_job_type_id_def assms(4) cong: option.case_cong)
  then have "required_mappings t job gate now = required_mappings s job gate now"
    by (simp add: required_mappings_def get_applicable_mappings_def assms(3) cong: option.case_cong)
  then show ?thesis using assms(1,2)
    by (auto simp: assert_gate_satisfied_def gate_loop_iff find_instance_def split: if_splits)
qed

subsubsection \<open>A catalogue for the witnesses\<close>

definition demo_point :: "uuid \<Rightarrow> bool \<Rightarrow> checklist_item" where
  "demo_point iid req = \<lparr>ci_id = iid, ci_section_id = 112, ci_fields = \<lparr>f_item_type = ''CHECKBOX'', f_label = ''check'',
     f_is_required = req, f_evidence_required = False, f_min_evidence_count = 0, f_max_evidence_count = 0,
     f_select_options = None, f_display_order = 0, f_customer_visible = True\<rparr>\<rparr>"

definition demo_chk_job :: service_job where
  "demo_chk_job = demo_job\<lparr>j_job_type_id := Some 11\<rparr>"

definition demo_mapping :: checklist_mapping where
  "demo_mapping = \<lparr>mp_id = 119, mp_link_id = 109, mp_workflow_id = None, mp_version_id = 111, mp_phase = ''execution'',
     mp_usage = USAGE_REQUIRED, mp_actor = ''TECHNICIAN'', mp_gate = GATE_BEFORE_JOB_COMPLETION, mp_rules = RULE_NONE,
     mp_order = 0, mp_active = True, mp_effective_from = None, mp_effective_until = None\<rparr>"

definition demo_checklist :: "instance_state \<Rightarrow> checklist_instance" where
  "demo_checklist st = \<lparr>jc_id = 120, jc_job_id = 1, jc_tenant_id = Some 4, jc_mapping_id = 119, jc_version_id = 111,
     jc_phase = ''execution'', jc_assigned_actor = ''TECHNICIAN'', jc_state = st\<rparr>"

definition demo_catalogue :: "instance_state \<Rightarrow> tenant_selection list \<Rightarrow> chk_db" where
  "demo_catalogue st rows = (inv_db.extend demo_stock (chk_db.fields
     [\<lparr>tp_id = 110, tp_name = ''Work'', tp_code = ''WORK'', tp_purpose = ''EXECUTION'', tp_active = True,
       tp_owner_scope = ''PLATFORM'', tp_tenant_id = None\<rparr>]
     [\<lparr>vr_id = 111, vr_template_id = 110, vr_number = 1, vr_status = VERSION_PUBLISHED, vr_published_at = Some 5\<rparr>]
     [\<lparr>se_id = 112, se_version_id = 111, se_title = ''Checks'', se_order = 0\<rparr>]
     [demo_point 113 True, demo_point 114 False, demo_point 115 False, demo_point 116 False, demo_point 117 False,
      demo_point 118 False]
     [demo_mapping] [demo_checklist st]
     [\<lparr>rs_instance_id = 120, rs_item_id = 113, rs_value = Some [''yes''], rs_evidence = None\<rparr>] rows))
     \<lparr>master_service_job_types := [\<lparr>lk_id = 109, lk_master_service_id = 6, lk_job_type_id = 11, lk_is_active = True\<rparr>],
      service_jobs := [demo_chk_job]\<rparr>"

lemma demo_catalogue_simps [simp]:
  "checklist_templates (demo_catalogue st rows) = [\<lparr>tp_id = 110, tp_name = ''Work'', tp_code = ''WORK'',
     tp_purpose = ''EXECUTION'', tp_active = True, tp_owner_scope = ''PLATFORM'', tp_tenant_id = None\<rparr>]"
  "template_versions (demo_catalogue st rows) = [\<lparr>vr_id = 111, vr_template_id = 110, vr_number = 1,
     vr_status = VERSION_PUBLISHED, vr_published_at = Some 5\<rparr>]"
  "checklist_sections (demo_catalogue st rows) = [\<lparr>se_id = 112, se_version_id = 111, se_title = ''Checks'', se_order = 0\<rparr>]"
  "checklist_items (demo_catalogue st rows) = [demo_point 113 True, demo_point 114 False, demo_point 115 False,
     demo_point 116 False, demo_point 117 False, demo_point 118 False]"
  "checklist_mappings (demo_catalogue st rows) = [demo_mapping]"
  "checklist_instances (demo_catalogue st rows) = [demo_checklist st]"
  "checklist_responses (demo_catalogue st rows) =
     [\<lparr>rs_instance_id = 120, rs_item_id = 113, rs_value = Some [''yes''], rs_evidence = None\<rparr>]"
  "tenant_selections (demo_catalogue st rows) = rows"
  "master_service_job_types (demo_catalogue st rows) =
     [\<lparr>lk_id = 109, lk_master_service_id = 6, lk_job_type_id = 11, lk_is_active = True\<rparr>]"
  "service_jobs (demo_catalogue st rows) = [demo_chk_job]" "next_uuid (demo_catalogue st rows) = 200"
  by (simp_all add: demo_catalogue_def demo_stock_def inv_db.defs chk_db.defs)

lemma demo_point_simps [simp]:
  "ci_id (demo_point iid req) = iid" "ci_section_id (demo_point iid req) = 112"
  "f_is_required (ci_fields (demo_point iid req)) = req" "f_evidence_required (ci_fields (demo_point iid req)) = False"
  "f_display_order (ci_fields (demo_point iid req)) = 0" "f_customer_visible (ci_fields (demo_point iid req)) = True"
  by (simp_all add: demo_point_def)

lemma demo_checklist_simps [simp]:
  "jc_id (demo_checklist st) = 120" "jc_job_id (demo_checklist st) = 1" "jc_mapping_id (demo_checklist st) = 119"
  "jc_version_id (demo_checklist st) = 111" "jc_assigned_actor (demo_checklist st) = ''TECHNICIAN''"
  "jc_state (demo_checklist st) = st"
  by (simp_all add: demo_checklist_def)

lemma demo_catalogue_content:
  "version_state (demo_catalogue st rows) 111 = Some VERSION_PUBLISHED"
  "version_items (demo_catalogue st rows) 111 = checklist_items (demo_catalogue st rows)"
  by (simp_all add: version_state_def version_by_id_def version_items_def version_sections_def)

lemma demo_gate_passed:
  "assert_gate_satisfied (demo_catalogue INSTANCE_COMPLETED rows) demo_chk_job GATE_BEFORE_JOB_COMPLETION 9 =
     Inr (demo_catalogue INSTANCE_COMPLETED rows)"
  "get_applicable_mappings (demo_catalogue st rows) demo_chk_job None (\<lambda>_. None) 9 = [demo_mapping]"
  by (simp_all add: assert_gate_satisfied_def required_mappings_def get_applicable_mappings_def
      resolve_master_service_job_type_id_def demo_chk_job_def demo_job_def demo_mapping_def evaluate_condition_def
      gate_terminal_def ensure_instance_def find_instance_def)

text \<open>
  C17: published content never changes. Whatever is authored, mapped, disabled, archived, answered,
  completed or selected afterwards, a version that was published stays published, with the same
  sections and the same items, so a job's checklist is the one its mapping was made for.
\<close>

theorem published_content_immutable:
  assumes "chk_step\<^sup>*\<^sup>* s t" and "chk_wf s" and "version_state s vid = Some VERSION_PUBLISHED"
  shows "version_state t vid = Some VERSION_PUBLISHED \<and> version_sections t vid = version_sections s vid \<and>
    version_items t vid = version_items s vid"
  using content_moves_published [OF chk_run_moves [OF assms(1)] assms(2,3)] by simp

theorem published_content_immutable_witness:
  "\<exists>t. chk_step\<^sup>*\<^sup>* (demo_catalogue INSTANCE_NOT_STARTED []) t \<and> version_state t 111 = Some VERSION_PUBLISHED \<and>
     length (version_items t 111) = 6 \<and> length (template_versions t) = 2"
proof -
  let ?s = "demo_catalogue INSTANCE_NOT_STARTED []"
  obtain v t where op: "create_draft_version ?s 110 None = Inr (v, t)" and two: "length (template_versions t) = 2"
    by (simp add: create_draft_version_def latest_version_def add_version_def copy_section_def insert_section_def insert_item_def
        sections_of_def items_of_section_def template_by_id_def fresh_id_def Let_def)
  then have run: "chk_step\<^sup>*\<^sup>* ?s t" by (blast intro: chk_step.create_draft)
  have "chk_wf ?s" by (simp add: chk_wf_def)
  from published_content_immutable [OF run this demo_catalogue_content(1)] run two show ?thesis
    by (auto simp: demo_catalogue_content(2))
qed





text \<open>
  An answer can be emptied after completion. \<^verbatim>\<open>save_response\<close> does not look at the state of the
  instance: on a completed checklist it overwrites the answer of any point that needs no evidence with
  nothing, the checklist stays completed, and every gate that was passed is still passed.
\<close>

theorem completed_checklist_can_be_emptied:
  assumes "item_by_id s iid = Some i" and "\<not> f_evidence_required (ci_fields i)" and "jc_assigned_actor x \<in> {role, ''STAFF''}"
    and "jc_state x = INSTANCE_COMPLETED" and "assert_gate_satisfied s job gate now = Inr s"
  shows "\<exists>t. save_response s x iid role None None = Inr t \<and> \<not> answered (find_response t (jc_id x) iid) \<and>
    checklist_instances t = checklist_instances s \<and> assert_gate_satisfied t job gate now = Inr t"
proof -
  define empty where "empty = (\<lambda>r. r\<lparr>rs_value := None, rs_evidence := None\<rparr> :: checklist_response)"
  let ?p = "\<lambda>r. rs_instance_id r = jc_id x \<and> rs_item_id r = iid"
  let ?new = "\<lparr>rs_instance_id = jc_id x, rs_item_id = iid, rs_value = None, rs_evidence = None\<rparr>"
  define rows where "rows = (case find_response s (jc_id x) iid of
      Some _ \<Rightarrow> update_where ?p empty (checklist_responses s) | None \<Rightarrow> checklist_responses s @ [?new])"
  have t: "save_response s x iid role None None = Inr (s\<lparr>checklist_responses := rows\<rparr>)"
    using assms(1-4) by (auto simp: save_response_def rows_def empty_def evidence_count_def Let_def split: option.splits)
  have "\<not> answered (first_row (filter ?p rows))"
  proof (cases "find_response s (jc_id x) iid")
    case None
    then have "filter ?p (checklist_responses s) = []"
      by (auto simp: find_response_def first_row_def split: list.splits)
    with None show ?thesis by (simp add: rows_def answered_def first_row_def)
  next
    case (Some r)
    then have rows: "rows = update_where ?p empty (checklist_responses s)" by (simp add: rows_def)
    have gone: "rs_value y = None" if "y \<in> set rows" "?p y" for y
      using update_where_hits [OF that(1) [unfolded rows] that(2)] by (auto simp: empty_def)
    show ?thesis
    proof (cases "first_row (filter ?p rows)")
      case None
      then show ?thesis by (simp add: answered_def)
    next
      case (Some y)
      then have "y \<in> set (filter ?p rows)" by (rule first_row_Some_set)
      with gone have "rs_value y = None" by simp
      with Some show ?thesis by (simp add: answered_def)
    qed
  qed
  then have "\<not> answered (find_response (s\<lparr>checklist_responses := rows\<rparr>) (jc_id x) iid)" by (simp add: find_response_def)
  with t show ?thesis using assert_gate_cong [OF assms(5), of "s\<lparr>checklist_responses := rows\<rparr>"] by auto
qed

theorem completed_checklist_can_be_emptied_witness:
  "\<exists>t. save_response (demo_catalogue INSTANCE_COMPLETED []) (demo_checklist INSTANCE_COMPLETED) 113 ''TECHNICIAN'' None None = Inr t \<and>
     \<not> answered (find_response t 120 113) \<and> assert_gate_satisfied t demo_chk_job GATE_BEFORE_JOB_COMPLETION 9 = Inr t"
proof -
  have "item_by_id (demo_catalogue INSTANCE_COMPLETED []) 113 = Some (demo_point 113 True)" by (simp add: item_by_id_def)
  from completed_checklist_can_be_emptied [OF this _ _ _ demo_gate_passed(1), of "demo_checklist INSTANCE_COMPLETED" "''TECHNICIAN''"]
  show ?thesis by auto
qed

text \<open>
  C37: the provider's selection round trip. After a selection is stored, reading it back gives exactly the
  requested points, at least five distinct ones, all offered for the service; the selections of other
  tenants and other services are as before.
\<close>

theorem selection_roundtrip:
  assumes "set_tenant_selection s tid sid ids = Inr t"
  shows "ts_item_id ` set (get_tenant_selection t tid sid) = set ids \<and>
    MIN_TENANT_CHECKLIST_ITEMS_PER_SERVICE \<le> card (set ids) \<and>
    set ids \<subseteq> ci_id ` sx_item ` set (selectable_items_for_service s sid) \<and>
    ((tid', sid') \<noteq> (tid, sid) \<longrightarrow>
      ts_item_id ` set (get_tenant_selection t tid' sid') = ts_item_id ` set (get_tenant_selection s tid' sid'))"
proof -
  obtain vf where n: "\<not> length (dedupe ids) < MIN_TENANT_CHECKLIST_ITEMS_PER_SERVICE"
    and sel: "\<forall>i \<in> set ids. i \<in> ci_id ` sx_item ` set (selectable_items_for_service s sid)"
    and t: "tenant_selections t = update_where
        (\<lambda>r. ts_tenant_id r = tid \<and> ts_service_id r = sid \<and> ts_item_id r \<notin> set ids \<and> ts_is_active r)
        (\<lambda>r. r\<lparr>ts_is_active := False\<rparr>) (foldl (select_item tid sid vf) (tenant_selections s) (dedupe ids))"
    using assms unfolding set_tenant_selection_def Let_def by (auto split: if_splits)
  have "length (dedupe ids) = card (set ids)" by (simp add: dedupe_def length_remdups_card_conv)
  with n sel show ?thesis unfolding chosen_selection t by (auto simp: chosen_deactivate chosen_select_items)
qed

theorem selection_roundtrip_witness:
  "\<exists>t. set_tenant_selection (demo_catalogue INSTANCE_NOT_STARTED []) 4 6 [114, 115, 116, 117, 118, 114] = Inr t \<and>
     ts_item_id ` set (get_tenant_selection t 4 6) = {114, 115, 116, 117, 118}"
proof -
  obtain t where t: "set_tenant_selection (demo_catalogue INSTANCE_NOT_STARTED []) 4 6 [114, 115, 116, 117, 118, 114] = Inr t"
    by (simp add: set_tenant_selection_def selectable_items_for_service_def mapping_points_def version_live_def version_by_id_def
        template_by_id_def sections_of_def items_of_section_def dedupe_def demo_mapping_def MIN_TENANT_CHECKLIST_ITEMS_PER_SERVICE_def Let_def)
  from selection_roundtrip [OF this, of 0 0] t show ?thesis by auto
qed

text \<open>
  The preview promises less than the job holds. A required, customer-visible point the provider did
  not select is on the technician's checklist of a job for that service and not in the preview the customer
  confirms.
\<close>

theorem preview_omits_required_point:
  assumes "i \<in> set (version_items s (jc_version_id x))" and "f_is_required (ci_fields i)" and "f_customer_visible (ci_fields i)"
    and "get_tenant_selection s tid sid \<noteq> []" and "ci_id i \<notin> ts_item_id ` set (get_tenant_selection s tid sid)"
  shows "i \<in> set (instance_items s x) \<and> i \<notin> set (customer_checklist_preview s (Some tid) sid)"
  using assms required_in_instance_items [of i s x]
  by (auto simp: set_authored_version_items customer_checklist_preview_def Let_def)

theorem preview_omits_required_point_witness:
  "demo_point 113 True \<in> set (instance_items (demo_catalogue INSTANCE_NOT_STARTED
       [\<lparr>ts_tenant_id = 4, ts_service_id = 6, ts_item_id = 114, ts_version_id = 111, ts_is_active = True\<rparr>]) (demo_checklist INSTANCE_NOT_STARTED)) \<and>
   demo_point 113 True \<notin> set (customer_checklist_preview (demo_catalogue INSTANCE_NOT_STARTED
       [\<lparr>ts_tenant_id = 4, ts_service_id = 6, ts_item_id = 114, ts_version_id = 111, ts_is_active = True\<rparr>]) (Some 4) 6)"
  by (rule preview_omits_required_point) (simp_all add: demo_catalogue_content(2) get_tenant_selection_def)

end
