(* ===== verification/Availability.thy ===== *)
theory Availability
  imports Slots
begin

section \<open>Effective availability\<close>

text \<open>
  The resolver that answers whether a technician can work on a date
  (home_service_assignment/availability_resolver.py): business hours, exceptions, the weekly pattern, dated overrides,
  leave from two tables, committed jobs and capacity, read either query by query or from a prefetched page.
  \<open>avail_db\<close> adds overrides and the two leave tables. Jobs are named by their identifier where the code shows the
  job number; service names are not kept. A time column is its text, as \<^verbatim>\<open>_time_str\<close> reads it. The window pattern also accepts the en and
  em dash between two times; texts are lists of 8-bit characters, so only the hyphen is in the model.
\<close>

subsection \<open>Windows and concurrency\<close>

text \<open>The part \<^verbatim>\<open>(\d{1,2}):(\d{2})\<close> of the window pattern, with what follows it.\<close>

definition clock_at :: "string \<Rightarrow> ((nat \<times> nat) \<times> string) option" where
  "clock_at s = (let h = takeWhile is_digit s in
     case dropWhile is_digit s of
       [] \<Rightarrow> None
     | c # r \<Rightarrow> (let m = takeWhile is_digit r in
         if c = CHR '':'' \<and> length h \<in> {1, 2} \<and> length m = 2 then Some ((nat_of_str h, nat_of_str m), dropWhile is_digit r)
         else None))"

definition match_window :: "string \<Rightarrow> ((nat \<times> nat) \<times> (nat \<times> nat)) option" where
  "match_window label =
     Option.bind (clock_at (dropWhile py_space label)) (\<lambda>(a, r).
       case dropWhile py_space r of
         [] \<Rightarrow> None
       | c # r2 \<Rightarrow> if c \<noteq> CHR ''-'' then None
           else Option.bind (clock_at (dropWhile py_space r2)) (\<lambda>(b, r3).
             if list_all py_space r3 then Some (a, b) else None))"

definition parse_window :: "string option \<Rightarrow> (nat \<times> nat) option" where
  "parse_window label =
     (case label of None \<Rightarrow> None | Some l \<Rightarrow>
        (case match_window l of
           None \<Rightarrow> None
         | Some ((sh, sm), (eh, em)) \<Rightarrow>
             if 23 < sh \<or> 24 < eh \<or> 59 < sm \<or> 59 < em then None
             else (let start = sh * 60 + sm; stop = eh * 60 + em in if start < stop then Some (start, stop) else None)))"

record assignment =
  as_job_id :: uuid
  as_status :: job_status
  as_time_window :: "string option"

definition timed :: "assignment list \<Rightarrow> ((nat \<times> nat) \<times> uuid) list" where
  "timed xs = List.map_filter (\<lambda>a. map_option (\<lambda>w. (w, as_job_id a)) (parse_window (as_time_window a))) xs"

definition window_events :: "((nat \<times> nat) \<times> uuid) list \<Rightarrow> (nat \<times> int) list" where
  "window_events ws = concat (map (\<lambda>((start, stop), _). [(start, 1), (stop, - 1)]) ws)"

definition sweep :: "(nat \<times> int) list \<Rightarrow> int \<times> int \<times> nat option" where
  "sweep es = foldl (\<lambda>(running, peak, pk) (minute, delta).
     (let r = running + delta in if peak < r then (r, r, Some minute) else (r, peak, pk))) (0, 0, None) es"

definition peak_overlap :: "assignment list \<Rightarrow> int \<times> uuid list" where
  "peak_overlap xs =
     (let ws = timed xs in
      if ws = [] then (0, [])
      else (let (_, peak, pk) = sweep (sort (window_events ws))
            in (peak, map snd (filter (\<lambda>((start, stop), _). case pk of None \<Rightarrow> False | Some m \<Rightarrow> start \<le> m \<and> m < stop) ws))))"

section \<open>The sweep\<close>

definition at_once :: "((nat \<times> nat) \<times> uuid) list \<Rightarrow> nat \<Rightarrow> uuid list" where
  "at_once ws t = map snd (filter (\<lambda>((start, stop), _). start \<le> t \<and> t < stop) ws)"

abbreviation net :: "(nat \<times> int) list \<Rightarrow> int" where
  "net es \<equiv> sum_list (map snd es)"

lemma sweep_snoc:
  "sweep (es @ [(m, d)]) = (let (running, peak, pk) = sweep es; r = running + d in
     if peak < r then (r, r, Some m) else (r, peak, pk))"
  by (simp add: sweep_def split_def Let_def)

lemma sweep_invariant:
  "case sweep es of (running, peak, pk) \<Rightarrow> running = net es \<and> 0 \<le> peak \<and> (\<forall>p q. es = p @ q \<longrightarrow> net p \<le> peak) \<and>
     (case pk of None \<Rightarrow> peak = 0 | Some m \<Rightarrow> 0 < peak \<and> (\<exists>p d q. es = p @ (m, d) # q \<and> net (p @ [(m, d)]) = peak \<and> net p < peak))"
proof (induction es rule: rev_induct)
  case (snoc e es)
  obtain m d where e: "e = (m, d)" by (cases e)
  obtain running peak pk where s: "sweep es = (running, peak, pk)" by (cases "sweep es")
  with snoc have IH: "running = net es" "0 \<le> peak" "\<And>p q. es = p @ q \<Longrightarrow> net p \<le> peak"
    "case pk of None \<Rightarrow> peak = 0 | Some m \<Rightarrow> 0 < peak \<and> (\<exists>p d q. es = p @ (m, d) # q \<and> net (p @ [(m, d)]) = peak \<and> net p < peak)" by auto
  have pre: "net p \<le> peak \<or> p = es @ [e]" if "es @ [e] = p @ q" for p q
    using that IH(3) by (cases q rule: rev_cases) auto
  show ?case
  proof (cases "peak < running + d")
    case True
    have "net p \<le> running + d" if "es @ [e] = p @ q" for p q
      using pre [OF that] True IH(1) e by auto
    moreover have "net es < running + d" using True IH(1) IH(3) [of es "[]"] by simp
    ultimately show ?thesis using True IH(1,2) s e by (auto simp: sweep_snoc Let_def intro!: exI [of _ es])
  next
    case False
    have "net p \<le> peak" if "es @ [e] = p @ q" for p q using pre [OF that] False IH(1) e by auto
    moreover have "case pk of None \<Rightarrow> peak = 0 | Some m' \<Rightarrow> 0 < peak \<and>
        (\<exists>p d' q. es @ [e] = p @ (m', d') # q \<and> net (p @ [(m', d')]) = peak \<and> net p < peak)"
    proof (cases pk)
      case (Some m')
      with IH(4) obtain p d' q where "es = p @ (m', d') # q" "net (p @ [(m', d')]) = peak" "net p < peak" "0 < peak" by auto
      then show ?thesis using Some by (simp del: map_append) (rule exI [of _ p], rule exI [of _ d'], simp)
    qed (use IH(4) in simp)
    ultimately show ?thesis using False IH(1,2) s e by (auto simp: sweep_snoc Let_def)
  qed
qed (simp add: sweep_def)

lemma net_filter_insort: "net (filter P (insort e es)) = net (filter P (e # es))"
  by (induction es) auto

lemma net_filter_sort: "net (filter P (sort es)) = net (filter P es)"
  by (induction es) (simp_all add: net_filter_insort)

lemma net_events:
  assumes "\<forall>((a, b), _) \<in> set ws. a < b"
  shows "net (filter (\<lambda>e. e \<le> (t, 1)) (window_events ws)) = int (length (at_once ws t))"
  using assms
proof (induction ws)
  case (Cons w ws)
  obtain a b j where w: "w = ((a, b), j)" by (metis surj_pair)
  have le: "((m, d) \<le> (t, 1 :: int)) = (m \<le> t)" if "d \<le> 1" for m d using that by auto
  have "filter (\<lambda>e. e \<le> (t, 1)) (window_events (w # ws)) =
      (if a \<le> t then [(a, 1)] else []) @ (if b \<le> t then [(b, - 1)] else []) @ filter (\<lambda>e. e \<le> (t, 1)) (window_events ws)"
    by (simp add: window_events_def w le del: less_eq_prod_simp)
  with Cons w show ?case by (auto simp: at_once_def)
qed (simp add: window_events_def at_once_def)

lemma timed_ordered: "\<forall>((a, b), _) \<in> set (timed xs). a < b"
  by (auto simp: timed_def map_filter_def parse_window_def Let_def split: option.splits if_splits)

lemma sorted_split: "sorted xs \<Longrightarrow> xs = filter (\<lambda>e. e \<le> x) xs @ filter (\<lambda>e. \<not> e \<le> x) xs"
proof (induction xs)
  case (Cons y ys)
  show ?case
  proof (cases "y \<le> x")
    case True
    with Cons show ?thesis by simp
  next
    case False
    with Cons.prems have "\<forall>z \<in> set ys. \<not> z \<le> x" by auto
    then have "filter (\<lambda>e. e \<le> x) ys = []" "filter (\<lambda>e. \<not> e \<le> x) ys = ys" by (simp_all add: filter_empty_conv filter_id_conv)
    with False show ?thesis by simp
  qed
qed simp

lemma events_delta: "e \<in> set (window_events ws) \<Longrightarrow> snd e = 1 \<or> snd e = - 1"
  by (auto simp: window_events_def)

lemma sweep_peak:
  assumes ord: "\<forall>((a, b), _) \<in> set ws. a < b" and ne: "ws \<noteq> []"
  shows "\<exists>r m. sweep (sort (window_events ws)) = (r, int (length (at_once ws m)), Some m) \<and>
    (\<forall>u. length (at_once ws u) \<le> length (at_once ws m))"
proof -
  let ?es = "sort (window_events ws)"
  obtain r peak pk where s: "sweep ?es = (r, peak, pk)" by (cases "sweep ?es")
  have inv: "\<And>p q. ?es = p @ q \<Longrightarrow> net p \<le> peak"
    "case pk of None \<Rightarrow> peak = 0 | Some m \<Rightarrow> 0 < peak \<and> (\<exists>p d q. ?es = p @ (m, d) # q \<and> net (p @ [(m, d)]) = peak \<and> net p < peak)"
    using sweep_invariant [of ?es] unfolding s prod.case by blast+
  have conc: "net (filter (\<lambda>e. e \<le> (u, 1)) ?es) = int (length (at_once ws u))" for u
    unfolding net_filter_sort by (rule net_events [OF ord])
  have le: "int (length (at_once ws u)) \<le> peak" for u
    using inv(1) [OF sorted_split [OF sorted_sort, of _ "(u, 1)"]] conc [of u] by simp
  obtain a b j where "((a, b), j) \<in> set ws" using ne by (cases ws) auto
  with ord have "at_once ws a \<noteq> []" by (force simp: at_once_def filter_empty_conv)
  then have "0 < peak" using le [of a] by (cases "at_once ws a") auto
  with inv(2) obtain m p d q where m: "pk = Some m" "?es = p @ (m, d) # q" "net (p @ [(m, d)]) = peak" "net p < peak"
    by (cases pk) auto
  have "(m, d) \<in> set (window_events ws)" using m(2) by (metis in_set_conv_decomp set_sort)
  with events_delta [OF this] m(3,4) have d: "d = 1" by auto
  have srt: "sorted (p @ (m, d) # q)" using m(2) by (metis sorted_sort)
  have "filter (\<lambda>e. e \<le> (m, 1)) p = p" using srt d by (auto simp: filter_id_conv sorted_append)
  then have "filter (\<lambda>e. e \<le> (m, 1)) ?es = p @ (m, 1) # filter (\<lambda>e. e \<le> (m, 1)) q" by (simp add: m(2) d)
  moreover have "0 \<le> net (filter (\<lambda>e. e \<le> (m, 1)) q)"
  proof -
    have "snd e = 1" if "e \<in> set q" "e \<le> (m, 1)" for e
    proof -
      have "(m, 1) \<le> e" using srt that(1) d by (simp add: sorted_append)
      with that(2) have "e = (m, 1)" by (rule order_antisym)
      then show ?thesis by simp
    qed
    then show ?thesis by (intro sum_list_nonneg) auto
  qed
  ultimately have "peak \<le> int (length (at_once ws m))" using conc [of m] m(3) d by simp
  with le have "peak = int (length (at_once ws m))" by (metis order_antisym)
  with s m(1) le show ?thesis by auto
qed

lemma peak_overlap_at:
  "\<exists>t. peak_overlap xs = (int (length (at_once (timed xs) t)), at_once (timed xs) t) \<and>
     (\<forall>u. length (at_once (timed xs) u) \<le> length (at_once (timed xs) t))"
proof (cases "timed xs = []")
  case True
  then show ?thesis by (simp add: peak_overlap_def at_once_def)
next
  case False
  from sweep_peak [OF timed_ordered False] obtain r m where
    "sweep (sort (window_events (timed xs))) = (r, int (length (at_once (timed xs) m)), Some m)"
    "\<forall>u. length (at_once (timed xs) u) \<le> length (at_once (timed xs) m)" by blast
  with False show ?thesis by (auto simp: peak_overlap_def at_once_def Let_def)
qed

text \<open>
  The sweep finds the true peak. For any list of assignments, \<^verbatim>\<open>_peak_overlap\<close> answers the largest number of jobs
  that run at one minute, over all minutes, together with exactly the jobs running at such a minute; a job that ends when
  another starts does not run with it, and a job without a readable window does not count.
\<close>

theorem peak_overlap_exact:
  "\<exists>t. peak_overlap xs = (int (length (at_once (timed xs) t)), at_once (timed xs) t) \<and>
     (\<forall>u. length (at_once (timed xs) u) \<le> length (at_once (timed xs) t))"
  by (rule peak_overlap_at)

section \<open>One technician, one day\<close>

subsection \<open>Tables\<close>

record owner_leave =
  ol_id :: uuid
  ol_tenant_id :: uuid
  ol_staff_id :: uuid
  ol_status :: string
  ol_start_date :: date
  ol_end_date :: date
  ol_all_day :: bool
  ol_start_time :: "string option"
  ol_end_time :: "string option"

record leave_request =
  lr_id :: uuid
  lr_tenant_id :: uuid
  lr_staff_id :: uuid
  lr_status :: string
  lr_cancelled :: bool
  lr_start_date :: date
  lr_end_date :: date
  lr_is_full_day :: bool
  lr_start_time :: "string option"
  lr_end_time :: "string option"

record staff_override =
  ov_tenant_id :: uuid
  ov_staff_id :: uuid
  ov_date :: date
  ov_start_time :: "string option"
  ov_end_time :: "string option"
  ov_full_day_closed :: bool

record avail_db = slot_db +
  owner_leaves :: "owner_leave list"
  leave_requests :: "leave_request list"
  staff_overrides :: "staff_override list"

record time_off =
  tf_id :: uuid
  tf_all_day :: bool
  tf_start :: "string option"
  tf_end :: "string option"
  tf_source :: string

definition TERMINAL_STATUSES :: "job_status list" where
  "TERMINAL_STATUSES = [JS_COMPLETED, JS_CANCELLED, JS_FAILED, JS_CLOSED_ESTIMATE_DECLINED]"

definition time_str :: "string option \<Rightarrow> string option" where
  "time_str v = map_option (take 5) v"

subsection \<open>Reading query by query\<close>

definition fetch_business_hours :: "'a avail_db_scheme \<Rightarrow> uuid \<Rightarrow> int \<Rightarrow> availability_rule list" where
  "fetch_business_hours s tid dow = filter (\<lambda>r. ar_tenant_id r = tid \<and> ar_scope_type r = ''provider'' \<and> ar_scope_id r = None \<and>
     ar_day_of_week r = dow \<and> ar_is_active r) (availability_rules s)"

definition fetch_tenant_exception :: "'a avail_db_scheme \<Rightarrow> uuid \<Rightarrow> date \<Rightarrow> availability_exception option" where
  "fetch_tenant_exception s tid day =
     first_row (filter (\<lambda>x. ax_tenant_id x = tid \<and> ax_date x = day \<and> ax_status x = ''active'') (availability_exceptions s))"

definition fetch_staff :: "'a avail_db_scheme \<Rightarrow> uuid \<Rightarrow> uuid \<Rightarrow> team_member option" where
  "fetch_staff s tid sid = first_row (filter (\<lambda>m. m_id m = sid \<and> m_tenant_id m = tid) (team_members s))"

definition coalesce :: "'b option \<Rightarrow> 'b option \<Rightarrow> 'b option" where
  "coalesce a b = (case a of None \<Rightarrow> b | Some x \<Rightarrow> Some x)"

definition committed :: "uuid \<Rightarrow> date \<Rightarrow> uuid \<Rightarrow> service_job \<Rightarrow> service_booking \<Rightarrow> bool" where
  "committed tid day sid j b \<longleftrightarrow> b_id b = j_booking_id j \<and> j_tenant_id j = Some tid \<and> j_assigned_staff_id j = Some sid \<and>
     coalesce (j_scheduled_date j) (b_preferred_date b) = Some day \<and>
     j_status j \<notin> set TERMINAL_STATUSES \<and> b_status b \<notin> set TERMINAL_STATUSES"

definition assignment_of :: "service_job \<Rightarrow> service_booking \<Rightarrow> assignment" where
  "assignment_of j b = \<lparr>as_job_id = j_id j, as_status = j_status j,
     as_time_window = coalesce (j_scheduled_time_window j) (b_preferred_time_window b)\<rparr>"

definition fetch_assignments :: "'a avail_db_scheme \<Rightarrow> uuid \<Rightarrow> uuid \<Rightarrow> date \<Rightarrow> assignment list" where
  "fetch_assignments s tid sid day =
     [assignment_of j b. j \<leftarrow> service_jobs s, b \<leftarrow> service_bookings s, committed tid day sid j b]"

definition owner_time_off :: "owner_leave \<Rightarrow> time_off" where
  "owner_time_off l = \<lparr>tf_id = ol_id l, tf_all_day = ol_all_day l, tf_start = time_str (ol_start_time l),
     tf_end = time_str (ol_end_time l), tf_source = ''owner_booked''\<rparr>"

definition requested_time_off :: "leave_request \<Rightarrow> time_off" where
  "requested_time_off l = \<lparr>tf_id = lr_id l, tf_all_day = lr_is_full_day l, tf_start = time_str (lr_start_time l),
     tf_end = time_str (lr_end_time l), tf_source = ''requested''\<rparr>"

definition owner_covers :: "uuid \<Rightarrow> uuid \<Rightarrow> date \<Rightarrow> owner_leave \<Rightarrow> bool" where
  "owner_covers tid sid day l \<longleftrightarrow> ol_tenant_id l = tid \<and> ol_staff_id l = sid \<and> ol_status l = ''approved'' \<and>
     ol_start_date l \<le> day \<and> day \<le> ol_end_date l"

definition request_covers :: "uuid \<Rightarrow> uuid \<Rightarrow> date \<Rightarrow> leave_request \<Rightarrow> bool" where
  "request_covers tid sid day l \<longleftrightarrow> lr_tenant_id l = tid \<and> lr_staff_id l = sid \<and> lr_status l = ''approved'' \<and> \<not> lr_cancelled l \<and>
     lr_start_date l \<le> day \<and> day \<le> lr_end_date l"

definition staff_time_off :: "'a avail_db_scheme \<Rightarrow> uuid \<Rightarrow> uuid \<Rightarrow> date \<Rightarrow> time_off option" where
  "staff_time_off s tid sid day =
     (let owner = map_option owner_time_off
            (first_row (sort_key (\<lambda>l. \<not> ol_all_day l) (filter (owner_covers tid sid day) (owner_leaves s))));
          requested = map_option requested_time_off (first_row (filter (request_covers tid sid day) (leave_requests s)))
      in first_row (sort_key (\<lambda>c. \<not> tf_all_day c)
           ((case owner of None \<Rightarrow> [] | Some c \<Rightarrow> [c]) @ (case requested of None \<Rightarrow> [] | Some c \<Rightarrow> [c]))))"

definition fetch_override :: "'a avail_db_scheme \<Rightarrow> uuid \<Rightarrow> uuid \<Rightarrow> date \<Rightarrow> staff_override option" where
  "fetch_override s tid sid day =
     first_row (filter (\<lambda>v. ov_tenant_id v = tid \<and> ov_staff_id v = sid \<and> ov_date v = day) (staff_overrides s))"

text \<open>What the rules engine reads, whichever way it is read.\<close>

record day_source =
  src_assignments :: "uuid \<Rightarrow> date \<Rightarrow> assignment list"
  src_exception :: "date \<Rightarrow> availability_exception option"
  src_hours :: "int \<Rightarrow> availability_rule list"
  src_staff :: "uuid \<Rightarrow> team_member option"
  src_override :: "uuid \<Rightarrow> date \<Rightarrow> staff_override option"
  src_time_off :: "uuid \<Rightarrow> date \<Rightarrow> time_off option"

definition direct_source :: "'a avail_db_scheme \<Rightarrow> uuid \<Rightarrow> day_source" where
  "direct_source s tid = \<lparr>src_assignments = fetch_assignments s tid, src_exception = fetch_tenant_exception s tid,
     src_hours = fetch_business_hours s tid, src_staff = fetch_staff s tid, src_override = fetch_override s tid,
     src_time_off = staff_time_off s tid\<rparr>"

subsection \<open>The rules engine\<close>

datatype reason =
    R_BUSINESS_CLOSED | R_STAFF_INACTIVE | R_STAFF_SETUP_INCOMPLETE | R_STAFF_TIME_OFF | R_STAFF_OFF_DAY
  | R_OUTSIDE_WORKING_HOURS | R_ON_TIME_OFF | R_SCHEDULE_CONFLICT | R_ASSIGNMENT_OUTSIDE_AVAILABILITY
  | R_DAILY_CAPACITY_EXCEEDED | R_CONCURRENT_CAPACITY_EXCEEDED

record capacity =
  cp_limit :: int
  cp_used :: int
  cp_remaining :: int

record day_result =
  dr_available :: bool
  dr_reasons :: "reason list"
  dr_timezone :: string
  dr_business_hours :: "(string \<times> string) option"
  dr_working_hours :: "(string option \<times> string option) option"
  dr_break :: "(string \<times> string) option"
  dr_daily_capacity :: "capacity option"
  dr_concurrent_capacity :: "capacity option"
  dr_untimed :: nat
  dr_assignments_today :: "assignment list"
  dr_time_off :: "time_off option"
  dr_date_override :: "staff_override option"
  dr_tenant_exception :: "(string option \<times> string option) option"
  dr_overlapping_jobs :: "uuid list"

definition DEFAULT_TIMEZONE :: string where "DEFAULT_TIMEZONE = ''Asia/Kolkata''"

definition blank_day :: "assignment list \<Rightarrow> day_result" where
  "blank_day xs = \<lparr>dr_available = False, dr_reasons = [], dr_timezone = DEFAULT_TIMEZONE, dr_business_hours = None,
     dr_working_hours = None, dr_break = None, dr_daily_capacity = None, dr_concurrent_capacity = None, dr_untimed = 0,
     dr_assignments_today = xs, dr_time_off = None, dr_date_override = None, dr_tenant_exception = None, dr_overlapping_jobs = []\<rparr>"

definition unavailable_result :: "assignment list \<Rightarrow> day_result \<Rightarrow> reason list \<Rightarrow> day_result" where
  "unavailable_result active res reasons =
     (if active \<noteq> [] \<and> R_ASSIGNMENT_OUTSIDE_AVAILABILITY \<notin> set reasons
      then res\<lparr>dr_reasons := reasons @ [R_ASSIGNMENT_OUTSIDE_AVAILABILITY], dr_overlapping_jobs := map as_job_id active\<rparr>
      else res\<lparr>dr_reasons := reasons\<rparr>)"

definition fetch_staff_pattern :: "day_source \<Rightarrow> int \<Rightarrow> availability_rule option" where
  "fetch_staff_pattern src dow =
     map_option (\<lambda>r. r\<lparr>ar_max_jobs_per_day :=
        Some (int (length (slots_from_rule (availability_rule.extend r (rule_row.fields None)))))\<rparr>) (first_row (src_hours src dow))"

text \<open>The later of two starts and the earlier of two ends, as texts; the exception has both.\<close>

definition later_start :: "string option \<Rightarrow> string \<Rightarrow> string" where
  "later_start cur x = (case cur of None \<Rightarrow> x | Some c \<Rightarrow> if c = [] then x else max c x)"

definition earlier_end :: "string option \<Rightarrow> string \<Rightarrow> string" where
  "earlier_end cur x = (case cur of None \<Rightarrow> x | Some c \<Rightarrow> if c = [] then x else min c x)"

definition text_window :: "string option \<Rightarrow> string option \<Rightarrow> (nat \<times> nat) option" where
  "text_window a b = (case (a, b) of
     (Some x, Some y) \<Rightarrow> if x \<noteq> [] \<and> y \<noteq> [] then parse_window (Some (x @ ''-'' @ y)) else None | _ \<Rightarrow> None)"

definition overlaps :: "nat \<times> nat \<Rightarrow> (nat \<times> nat) option \<Rightarrow> bool" where
  "overlaps w v = (case v of None \<Rightarrow> False | Some u \<Rightarrow> fst w < snd u \<and> fst u < snd w)"

definition misplaced :: "(nat \<times> nat) option \<Rightarrow> (nat \<times> nat) option \<Rightarrow> (nat \<times> nat) option \<Rightarrow> assignment \<Rightarrow> bool" where
  "misplaced working break leave a = (case parse_window (as_time_window a) of
     None \<Rightarrow> False
   | Some w \<Rightarrow> (case working of None \<Rightarrow> False | Some u \<Rightarrow> fst w < fst u \<or> snd u < snd w) \<or> overlaps w break \<or> overlaps w leave)"

definition CONCURRENT_CAP :: int where "CONCURRENT_CAP = 1"

text \<open>Steps 8 to 11: break, assignments, concurrency and volume, on the hours settled so far.\<close>

definition resolve_capacity :: "assignment list \<Rightarrow> availability_rule \<Rightarrow> time_off option \<Rightarrow> day_result \<Rightarrow> day_result" where
  "resolve_capacity active pattern off res =
     (let bs = time_str (ar_break_start_time pattern); be = time_str (ar_break_end_time pattern);
          has_break = (case (bs, be) of (Some x, Some y) \<Rightarrow> if x \<noteq> [] \<and> y \<noteq> [] then Some (x, y) else None | _ \<Rightarrow> None);
          (peak, peak_jobs) = peak_overlap active;
          untimed = filter (\<lambda>a. parse_window (as_time_window a) = None) active;
          r1 = (if CONCURRENT_CAP < peak then [R_CONCURRENT_CAPACITY_EXCEEDED, R_SCHEDULE_CONFLICT] else []);
          working = (case dr_working_hours res of None \<Rightarrow> None | Some (a, b) \<Rightarrow> text_window a b);
          leave = (case off of None \<Rightarrow> None | Some l \<Rightarrow>
             if tf_all_day l then None
             else parse_window (Some ((case tf_start l of None \<Rightarrow> ''None'' | Some x \<Rightarrow> x) @ ''-'' @
                    (case tf_end l of None \<Rightarrow> ''None'' | Some x \<Rightarrow> x))));
          outside = map as_job_id (filter (misplaced working (text_window bs be) leave) active);
          r2 = (if outside = [] then r1 else r1 @ [R_ASSIGNMENT_OUTSIDE_AVAILABILITY] @
             (if R_SCHEDULE_CONFLICT \<in> set r1 then [] else [R_SCHEDULE_CONFLICT]));
          used = int (length active);
          r3 = (case ar_max_jobs_per_day pattern of None \<Rightarrow> r2 | Some cap \<Rightarrow> if cap \<le> used then r2 @ [R_DAILY_CAPACITY_EXCEEDED] else r2)
      in res\<lparr>dr_break := has_break,
             dr_daily_capacity := map_option (\<lambda>cap. \<lparr>cp_limit = cap, cp_used = used, cp_remaining = max (cap - used) 0\<rparr>)
               (ar_max_jobs_per_day pattern),
             dr_concurrent_capacity := Some \<lparr>cp_limit = CONCURRENT_CAP, cp_used = peak, cp_remaining = max (CONCURRENT_CAP - peak) 0\<rparr>,
             dr_untimed := length untimed,
             dr_overlapping_jobs := (if R_SCHEDULE_CONFLICT \<in> set r3 then sort (remdups (peak_jobs @ outside)) else []),
             dr_reasons := r3, dr_available := (r3 = [])\<rparr>)"

text \<open>Step 6: a tenant-wide part-day exception narrows the hours.\<close>

definition resolve_exception ::
  "assignment list \<Rightarrow> availability_exception option \<Rightarrow> availability_rule \<Rightarrow> time_off option \<Rightarrow> day_result \<Rightarrow> day_result" where
  "resolve_exception active exc pattern off res =
     (case exc of
        None \<Rightarrow> resolve_capacity active pattern off res
      | Some x \<Rightarrow>
          if \<not> ax_full_day_closed x \<and> truthy (ax_start_time x) \<and> truthy (ax_end_time x) then
            (let xs = take 5 (the (ax_start_time x)); xe = take 5 (the (ax_end_time x));
                 cur = (case dr_working_hours res of None \<Rightarrow> (None, None) | Some w \<Rightarrow> w);
                 start = later_start (fst cur) xs; stop = earlier_end (snd cur) xe;
                 res' = res\<lparr>dr_tenant_exception := Some (Some xs, Some xe), dr_working_hours := Some (Some start, Some stop)\<rparr>
             in if stop \<le> start then unavailable_result active res' [R_OUTSIDE_WORKING_HOURS]
                else resolve_capacity active pattern off res')
          else resolve_capacity active pattern off res)"

text \<open>Step 5: the weekly pattern, the dated override that replaces it, and leave.\<close>

definition resolve_pattern ::
  "day_source \<Rightarrow> uuid \<Rightarrow> date \<Rightarrow> assignment list \<Rightarrow> availability_exception option \<Rightarrow> day_result \<Rightarrow> day_result" where
  "resolve_pattern src sid day active exc res =
     (case fetch_staff_pattern src (isoweekday_mod7 day) of
        None \<Rightarrow> res\<lparr>dr_reasons := [R_STAFF_SETUP_INCOMPLETE]\<rparr>
      | Some pattern \<Rightarrow>
          (let res1 = res\<lparr>dr_working_hours := Some (time_str (Some (ar_start_time pattern)), time_str (Some (ar_end_time pattern)))\<rparr>;
               override = src_override src sid day;
               res2 = (case override of None \<Rightarrow> res1 | Some v \<Rightarrow> res1\<lparr>dr_date_override := Some v\<rparr>)
           in if (case override of None \<Rightarrow> False | Some v \<Rightarrow> ov_full_day_closed v)
              then unavailable_result active res2 [R_STAFF_OFF_DAY]
              else (let res3 = (case override of None \<Rightarrow> res2
                      | Some v \<Rightarrow> res2\<lparr>dr_working_hours := Some (time_str (ov_start_time v), time_str (ov_end_time v))\<rparr>);
                        off = src_time_off src sid day;
                        res4 = res3\<lparr>dr_time_off := off\<rparr>
                    in case off of
                         Some l \<Rightarrow> if tf_all_day l
                           then unavailable_result active res4 [if tf_source l = ''requested'' then R_ON_TIME_OFF else R_STAFF_TIME_OFF]
                           else resolve_exception active exc pattern off
                                  (if ar_timezone pattern = [] then res4 else res4\<lparr>dr_timezone := ar_timezone pattern\<rparr>)
                       | None \<Rightarrow> resolve_exception active exc pattern off
                                  (if ar_timezone pattern = [] then res4 else res4\<lparr>dr_timezone := ar_timezone pattern\<rparr>))))"

definition resolve_staff_day :: "day_source \<Rightarrow> uuid \<Rightarrow> date \<Rightarrow> day_result" where
  "resolve_staff_day src sid day =
     (let active = filter (\<lambda>a. as_status a \<notin> set TERMINAL_STATUSES) (src_assignments src sid day);
          res = blank_day active;
          exc = src_exception src day;
          hours = src_hours src (isoweekday_mod7 day)
      in if (case exc of None \<Rightarrow> False | Some x \<Rightarrow> ax_full_day_closed x) then unavailable_result active res [R_BUSINESS_CLOSED]
         else if hours = [] \<and> exc = None then unavailable_result active res [R_BUSINESS_CLOSED]
         else (let res1 = (case hours of [] \<Rightarrow> res
                 | r # _ \<Rightarrow> res\<lparr>dr_business_hours := Some (take 5 (ar_start_time r), take 5 (ar_end_time r))\<rparr>)
               in case src_staff src sid of
                    None \<Rightarrow> unavailable_result active res1 [R_STAFF_INACTIVE]
                  | Some m \<Rightarrow>
                      if m_deleted m \<or> m_status m \<noteq> ''active'' then unavailable_result active res1 [R_STAFF_INACTIVE]
                      else resolve_pattern src sid day active exc
                             (res1\<lparr>dr_concurrent_capacity := Some \<lparr>cp_limit = CONCURRENT_CAP, cp_used = 0, cp_remaining = CONCURRENT_CAP\<rparr>\<rparr>)))"

subsection \<open>Reading a prefetched page\<close>

record page_cache =
  pc_business_hours :: "int \<Rightarrow> availability_rule list"
  pc_tenant_exceptions :: "date \<Rightarrow> availability_exception option"
  pc_staff :: "uuid \<Rightarrow> team_member option"
  pc_overrides :: "uuid \<times> date \<Rightarrow> staff_override option"
  pc_time_off :: "uuid \<times> date \<Rightarrow> time_off option"
  pc_assignments :: "uuid \<times> date \<Rightarrow> assignment list"

text \<open>A dictionary filled row by row: the last row of a key stays.\<close>

definition fill :: "('r \<Rightarrow> 'k) \<Rightarrow> ('r \<Rightarrow> 'v) \<Rightarrow> 'r list \<Rightarrow> 'k \<Rightarrow> 'v option" where
  "fill key val rows = foldl (\<lambda>m r. m(key r := Some (val r))) (\<lambda>_. None) rows"

definition keep_stronger :: "time_off \<Rightarrow> time_off option \<Rightarrow> time_off option" where
  "keep_stronger v cur = (case cur of None \<Rightarrow> Some v
     | Some c \<Rightarrow> if tf_all_day v \<and> \<not> tf_all_day c then Some v else Some c)"

definition add_time_off ::
  "date \<Rightarrow> date \<Rightarrow> (uuid \<times> date \<Rightarrow> time_off option) \<Rightarrow> uuid \<times> date \<times> date \<times> time_off \<Rightarrow> (uuid \<times> date \<Rightarrow> time_off option)" where
  "add_time_off lo hi c = (\<lambda>(sid, first, last, v).
     foldl (\<lambda>m day. m((sid, day) := keep_stronger v (m (sid, day)))) c [max first lo..min last hi])"

definition assignment_owner :: "team_member list \<Rightarrow> uuid \<Rightarrow> uuid option" where
  "assignment_owner staff = foldl (\<lambda>m r. (case m_user_id r of None \<Rightarrow> m(m_id r := Some (m_id r))
     | Some u \<Rightarrow> (m(m_id r := Some (m_id r)))(u := Some (m_id r)))) (\<lambda>_. None) staff"

definition page_assignments ::
  "'a avail_db_scheme \<Rightarrow> uuid \<Rightarrow> team_member list \<Rightarrow> date \<Rightarrow> date \<Rightarrow> ((uuid \<times> date) \<times> assignment) list" where
  "page_assignments s tid staff lo hi =
     [((the (assignment_owner staff (the (j_assigned_staff_id j))), the (coalesce (j_scheduled_date j) (b_preferred_date b))),
        assignment_of j b).
       j \<leftarrow> service_jobs s, b \<leftarrow> service_bookings s,
       (case (j_assigned_staff_id j, coalesce (j_scheduled_date j) (b_preferred_date b)) of
          (Some a, Some d) \<Rightarrow> assignment_owner staff a \<noteq> None \<and> lo \<le> d \<and> d \<le> hi \<and> committed tid d a j b
        | _ \<Rightarrow> False)]"

definition load_page ::
  "'a avail_db_scheme \<Rightarrow> uuid \<Rightarrow> team_member list \<Rightarrow> date \<Rightarrow> date \<Rightarrow> page_cache" where
  "load_page s tid staff lo hi =
     (let ids = map m_id staff;
          owner = map (\<lambda>l. (ol_staff_id l, ol_start_date l, ol_end_date l, owner_time_off l))
            (sort_key (\<lambda>l. \<not> ol_all_day l) (rev (filter (\<lambda>l. ol_tenant_id l = tid \<and> ol_staff_id l \<in> set ids \<and> ol_status l = ''approved'' \<and>
               ol_start_date l \<le> hi \<and> lo \<le> ol_end_date l) (owner_leaves s))));
          requested = map (\<lambda>l. (lr_staff_id l, lr_start_date l, lr_end_date l, requested_time_off l))
            (sort_key (\<lambda>l. \<not> lr_is_full_day l) (rev (filter (\<lambda>l. lr_tenant_id l = tid \<and> lr_staff_id l \<in> set ids \<and> lr_status l = ''approved'' \<and>
               \<not> lr_cancelled l \<and> lr_start_date l \<le> hi \<and> lo \<le> lr_end_date l) (leave_requests s))))
      in \<lparr>pc_business_hours = fetch_business_hours s tid,
          pc_tenant_exceptions = fill ax_date (\<lambda>x. x) (filter (\<lambda>x. ax_tenant_id x = tid \<and> lo \<le> ax_date x \<and> ax_date x \<le> hi \<and>
             ax_status x = ''active'') (availability_exceptions s)),
          pc_staff = fill m_id (\<lambda>m. m) staff,
          pc_overrides = fill (\<lambda>v. (ov_staff_id v, ov_date v)) (\<lambda>v. v) (filter (\<lambda>v. ov_tenant_id v = tid \<and> ov_staff_id v \<in> set ids \<and>
             lo \<le> ov_date v \<and> ov_date v \<le> hi) (staff_overrides s)),
          pc_time_off = foldl (add_time_off lo hi) (\<lambda>_. None) (owner @ requested),
          pc_assignments = (\<lambda>k. map snd (filter (\<lambda>p. fst p = k) (page_assignments s tid staff lo hi)))\<rparr>)"

definition empty_page :: page_cache where
  "empty_page = \<lparr>pc_business_hours = (\<lambda>_. []), pc_tenant_exceptions = (\<lambda>_. None), pc_staff = (\<lambda>_. None), pc_overrides = (\<lambda>_. None),
     pc_time_off = (\<lambda>_. None), pc_assignments = (\<lambda>_. [])\<rparr>"

definition prefetch_resolution_cache ::
  "'a avail_db_scheme \<Rightarrow> uuid \<Rightarrow> team_member list \<Rightarrow> date \<Rightarrow> date \<Rightarrow> page_cache" where
  "prefetch_resolution_cache s tid staff lo hi = (if staff = [] then empty_page else load_page s tid staff lo hi)"

definition cached_source :: "page_cache \<Rightarrow> day_source" where
  "cached_source c = \<lparr>src_assignments = (\<lambda>sid day. pc_assignments c (sid, day)), src_exception = pc_tenant_exceptions c,
     src_hours = pc_business_hours c, src_staff = pc_staff c, src_override = (\<lambda>sid day. pc_overrides c (sid, day)),
     src_time_off = (\<lambda>sid day. pc_time_off c (sid, day))\<rparr>"

section \<open>The page answers like the queries\<close>

text \<open>Tables in which a query and the page have only one row to choose from.\<close>

definition unambiguous :: "'a avail_db_scheme \<Rightarrow> uuid \<Rightarrow> uuid \<Rightarrow> date \<Rightarrow> bool" where
  "unambiguous s tid sid day \<longleftrightarrow>
     length (filter (\<lambda>x. ax_tenant_id x = tid \<and> ax_date x = day \<and> ax_status x = ''active'') (availability_exceptions s)) \<le> 1 \<and>
     length (filter (\<lambda>v. ov_tenant_id v = tid \<and> ov_staff_id v = sid \<and> ov_date v = day) (staff_overrides s)) \<le> 1 \<and>
     length (filter (owner_covers tid sid day) (owner_leaves s)) \<le> 1 \<and>
     length (filter (request_covers tid sid day) (leave_requests s)) \<le> 1"

text \<open>Staff pages of the tenant's own roster, whose jobs are recorded under the roster id and not under the login.\<close>

definition roster_page :: "'a avail_db_scheme \<Rightarrow> uuid \<Rightarrow> team_member list \<Rightarrow> bool" where
  "roster_page s tid staff \<longleftrightarrow> distinct (map m_id (team_members s)) \<and> distinct (map m_id staff) \<and>
     (\<forall>m \<in> set staff. m \<in> set (team_members s) \<and> m_tenant_id m = tid) \<and>
     (\<forall>m \<in> set staff. \<forall>j \<in> set (service_jobs s). m_user_id m = None \<or> j_assigned_staff_id j \<noteq> m_user_id m)"

lemma fill_snoc: "fill key val (rows @ [r]) = (fill key val rows)(key r := Some (val r))"
  by (simp add: fill_def)

lemma fill_filter: "fill key val rows k = map_option val (first_row (rev (filter (\<lambda>r. key r = k) rows)))"
  by (induction rows rule: rev_induct) (auto simp: fill_snoc fill_def [of _ _ "[]"])

lemma single_first: "length xs \<le> 1 \<Longrightarrow> first_row (rev xs) = first_row xs"
  by (cases xs) (auto simp: le_Suc_eq)

lemma add_time_off_at:
  assumes "lo \<le> day" and "day \<le> hi"
  shows "add_time_off lo hi c (sid', a, b, v) (sid, day) =
    (if sid' = sid \<and> a \<le> day \<and> day \<le> b then keep_stronger v (c (sid, day)) else c (sid, day))"
proof -
  have "foldl (\<lambda>m d. m((sid', d) := keep_stronger v (m (sid', d)))) c ds (sid, day) =
      (if sid' = sid \<and> day \<in> set ds then keep_stronger v (c (sid, day)) else c (sid, day))" if "distinct ds" for ds c
    using that by (induction ds arbitrary: c) auto
  from this [OF distinct_upto] show ?thesis using assms by (auto simp: add_time_off_def)
qed

lemma page_time_off_at:
  assumes "lo \<le> day" and "day \<le> hi"
  shows "foldl (add_time_off lo hi) c xs (sid, day) =
    foldl (\<lambda>cur (sid', a, b, v). keep_stronger v cur) (c (sid, day))
      (filter (\<lambda>(sid', a, b, v). sid' = sid \<and> a \<le> day \<and> day \<le> b) xs)"
proof (induction xs arbitrary: c)
  case (Cons x xs)
  obtain sid' a b v where x: "x = (sid', a, b, v)" by (cases x)
  show ?case
    by (cases "sid' = sid \<and> a \<le> day \<and> day \<le> b") (simp_all add: x Cons add_time_off_at [OF assms] del: de_Morgan_conj)
qed simp

lemma page_time_off_rows:
  assumes "lo \<le> day" "day \<le> hi" "sid \<in> m_id ` set staff"
  shows "pc_time_off (load_page s tid staff lo hi) (sid, day) =
    foldl (\<lambda>cur v. keep_stronger v cur) None
      (map owner_time_off (sort_key (\<lambda>l. \<not> ol_all_day l) (rev (filter (owner_covers tid sid day) (owner_leaves s)))) @
       map requested_time_off (sort_key (\<lambda>l. \<not> lr_is_full_day l) (rev (filter (request_covers tid sid day) (leave_requests s)))))"
proof -
  let ?o = "filter (\<lambda>l. ol_tenant_id l = tid \<and> ol_staff_id l \<in> set (map m_id staff) \<and> ol_status l = ''approved'' \<and>
               ol_start_date l \<le> hi \<and> lo \<le> ol_end_date l) (owner_leaves s)"
  let ?r = "filter (\<lambda>l. lr_tenant_id l = tid \<and> lr_staff_id l \<in> set (map m_id staff) \<and> lr_status l = ''approved'' \<and>
               \<not> lr_cancelled l \<and> lr_start_date l \<le> hi \<and> lo \<le> lr_end_date l) (leave_requests s)"
  have o: "filter (\<lambda>l. ol_staff_id l = sid \<and> ol_start_date l \<le> day \<and> day \<le> ol_end_date l) ?o = filter (owner_covers tid sid day) (owner_leaves s)"
    using assms by (auto simp: owner_covers_def intro!: filter_cong)
  have r: "filter (\<lambda>l. lr_staff_id l = sid \<and> lr_start_date l \<le> day \<and> day \<le> lr_end_date l) ?r = filter (request_covers tid sid day) (leave_requests s)"
    using assms by (auto simp: request_covers_def intro!: filter_cong)
  show ?thesis
    unfolding load_page_def Let_def page_cache.select_convs page_time_off_at [OF assms(1,2)]
    unfolding o [symmetric] r [symmetric]
    by (simp only: filter_append filter_map foldl_append foldl_map comp_def prod.case filter_sort rev_filter)
qed

lemma page_time_off:
  assumes "lo \<le> day" "day \<le> hi" "sid \<in> m_id ` set staff" "unambiguous s tid sid day"
  shows "pc_time_off (load_page s tid staff lo hi) (sid, day) = staff_time_off s tid sid day"
proof -
  have "length (filter (owner_covers tid sid day) (owner_leaves s)) \<le> 1" "length (filter (request_covers tid sid day) (leave_requests s)) \<le> 1"
    using assms(4) by (simp_all add: unambiguous_def)
  then show ?thesis unfolding page_time_off_rows [OF assms(1-3)]
    by (cases "filter (owner_covers tid sid day) (owner_leaves s)"; cases "filter (request_covers tid sid day) (leave_requests s)")
      (auto simp: le_Suc_eq staff_time_off_def Let_def keep_stronger_def owner_time_off_def requested_time_off_def)
qed

lemma assignment_owner_at:
  "\<forall>m \<in> set staff. m_user_id m \<noteq> Some a \<Longrightarrow> assignment_owner staff a = (if a \<in> m_id ` set staff then Some a else None)"
  by (induction staff rule: rev_induct) (auto simp: assignment_owner_def split: option.split)

lemma select_pairs:
  assumes "\<And>x y. x \<in> set xs \<Longrightarrow> (P x y \<and> f x y = k) = Q x y"
  shows "map snd (filter (\<lambda>p. fst p = k) [(f x y, v x y). x \<leftarrow> xs, y \<leftarrow> ys, P x y]) = [v x y. x \<leftarrow> xs, y \<leftarrow> ys, Q x y]"
proof -
  have "map snd (filter (\<lambda>p. fst p = k) [(f x y, v x y). y \<leftarrow> ys, P x y]) = [v x y. y \<leftarrow> ys, Q x y]" if "x \<in> set xs" for x
    using assms [OF that] by (induction ys) auto
  then show ?thesis by (induction xs) auto
qed

lemma page_assignments_at:
  assumes "lo \<le> day" "day \<le> hi" "sid \<in> m_id ` set staff" "roster_page s tid staff"
  shows "pc_assignments (load_page s tid staff lo hi) (sid, day) = fetch_assignments s tid sid day"
proof -
  have own: "assignment_owner staff a = (if a \<in> m_id ` set staff then Some a else None)"
    if "j \<in> set (service_jobs s)" "j_assigned_staff_id j = Some a" for j a
    using assms(4) that by (intro assignment_owner_at) (force simp: roster_page_def)
  have row: "(case (j_assigned_staff_id j, coalesce (j_scheduled_date j) (b_preferred_date b)) of
          (Some a, Some d) \<Rightarrow> assignment_owner staff a \<noteq> None \<and> lo \<le> d \<and> d \<le> hi \<and> committed tid d a j b
        | _ \<Rightarrow> False) \<and>
      (the (assignment_owner staff (the (j_assigned_staff_id j))), the (coalesce (j_scheduled_date j) (b_preferred_date b))) = (sid, day)
      \<longleftrightarrow> committed tid day sid j b" if j: "j \<in> set (service_jobs s)" for j b
    using own [OF j] assms(1-3) by (auto simp: committed_def split: option.splits if_splits)
  show ?thesis
    unfolding load_page_def Let_def page_cache.select_convs page_assignments_def fetch_assignments_def
    by (rule select_pairs) (rule row)
qed

lemma page_staff:
  assumes "m \<in> set staff" "roster_page s tid staff"
  shows "pc_staff (load_page s tid staff lo hi) (m_id m) = fetch_staff s tid (m_id m)"
proof -
  have only: "filter (\<lambda>n. m_id n = m_id m) xs = [m]" if "distinct (map m_id xs)" "m \<in> set xs" for xs
    using that by (induction xs) (auto simp: filter_empty_conv, metis imageI)
  have "filter (\<lambda>n. m_id n = m_id m) staff = [m]" using assms by (intro only) (auto simp: roster_page_def)
  moreover have "filter (\<lambda>n. m_id n = m_id m) (team_members s) = [m]" using assms by (intro only) (auto simp: roster_page_def)
  then have "filter (\<lambda>n. m_id n = m_id m \<and> m_tenant_id n = tid) (team_members s) = [m]"
    using assms by (simp add: filter_filter [symmetric] roster_page_def)
  ultimately show ?thesis by (simp add: load_page_def Let_def fill_filter fetch_staff_def)
qed

lemma page_exception:
  assumes "lo \<le> day" "day \<le> hi" "unambiguous s tid sid day"
  shows "pc_tenant_exceptions (load_page s tid staff lo hi) day = fetch_tenant_exception s tid day"
proof -
  let ?xs = "filter (\<lambda>x. ax_tenant_id x = tid \<and> ax_date x = day \<and> ax_status x = ''active'') (availability_exceptions s)"
  have "filter (\<lambda>x. ax_date x = day) (filter (\<lambda>x. ax_tenant_id x = tid \<and> lo \<le> ax_date x \<and> ax_date x \<le> hi \<and>
             ax_status x = ''active'') (availability_exceptions s)) = ?xs"
    using assms(1,2) by (auto intro!: filter_cong)
  moreover have "first_row (rev ?xs) = first_row ?xs" using assms(3) by (intro single_first) (simp add: unambiguous_def)
  ultimately show ?thesis
    by (simp only: load_page_def Let_def page_cache.select_convs fill_filter fetch_tenant_exception_def option.map_ident)
qed

lemma page_override:
  assumes "lo \<le> day" "day \<le> hi" "sid \<in> m_id ` set staff" "unambiguous s tid sid day"
  shows "pc_overrides (load_page s tid staff lo hi) (sid, day) = fetch_override s tid sid day"
proof -
  let ?xs = "filter (\<lambda>v. ov_tenant_id v = tid \<and> ov_staff_id v = sid \<and> ov_date v = day) (staff_overrides s)"
  have "filter (\<lambda>v. (ov_staff_id v, ov_date v) = (sid, day)) (filter (\<lambda>v. ov_tenant_id v = tid \<and> ov_staff_id v \<in> set (map m_id staff) \<and>
             lo \<le> ov_date v \<and> ov_date v \<le> hi) (staff_overrides s)) = ?xs"
    using assms(1-3) by (auto intro!: filter_cong)
  moreover have "first_row (rev ?xs) = first_row ?xs" using assms(4) by (intro single_first) (simp add: unambiguous_def)
  ultimately show ?thesis
    by (simp only: load_page_def Let_def page_cache.select_convs fill_filter fetch_override_def option.map_ident)
qed

lemma resolve_staff_day_cong:
  assumes "src_assignments u sid day = src_assignments v sid day" "src_exception u day = src_exception v day"
    "src_hours u = src_hours v" "src_staff u sid = src_staff v sid" "src_override u sid day = src_override v sid day"
    "src_time_off u sid day = src_time_off v sid day"
  shows "resolve_staff_day u sid day = resolve_staff_day v sid day"
  unfolding resolve_staff_day_def resolve_pattern_def fetch_staff_pattern_def assms ..


definition demo_hours :: availability_rule where
  "demo_hours = availability_rule.truncate demo_rule"

definition demo_avail :: avail_db where
  "demo_avail = slot_db.extend (demo_slots\<lparr>service_jobs := [demo_job\<lparr>j_assigned_staff_id := Some 1, j_scheduled_date := Some 8,
       j_scheduled_time_window := Some ''09:00-11:00''\<rparr>], availability_rules := [demo_hours]\<rparr>) (avail_db.fields [] [] [])"

lemma demo_avail_simps [simp]:
  "availability_rules demo_avail = [demo_hours]" "availability_exceptions demo_avail = []" "team_members demo_avail = [demo_member]"
  "service_jobs demo_avail = [demo_job\<lparr>j_assigned_staff_id := Some 1, j_scheduled_date := Some 8, j_scheduled_time_window := Some ''09:00-11:00''\<rparr>]"
  "service_bookings demo_avail = [demo_booking]" "owner_leaves demo_avail = []" "leave_requests demo_avail = []" "staff_overrides demo_avail = []"
  by (simp_all add: demo_avail_def slot_db.defs avail_db.defs)


section \<open>A day answered available\<close>

lemma unavailable_result_available [simp]: "dr_available (unavailable_result active res rs) = dr_available res"
  by (simp add: unavailable_result_def)

lemma blank_day_available [simp]: "\<not> dr_available (blank_day xs)"
  by (simp add: blank_day_def)

definition slack :: "assignment list \<Rightarrow> availability_rule \<Rightarrow> bool" where
  "slack active pattern \<longleftrightarrow> fst (peak_overlap active) \<le> CONCURRENT_CAP \<and>
     (case ar_max_jobs_per_day pattern of None \<Rightarrow> True | Some cap \<Rightarrow> int (length active) < cap)"

definition hours_window :: "day_result \<Rightarrow> (nat \<times> nat) option" where
  "hours_window r = (case dr_working_hours r of None \<Rightarrow> None | Some (a, b) \<Rightarrow> text_window a b)"

definition placed :: "assignment list \<Rightarrow> day_result \<Rightarrow> bool" where
  "placed active r \<longleftrightarrow> (\<forall>a \<in> set active. \<forall>w. parse_window (as_time_window a) = Some w \<longrightarrow>
     (\<forall>u. hours_window r = Some u \<longrightarrow> fst u \<le> fst w \<and> snd w \<le> snd u) \<and>
     (\<forall>x y. dr_break r = Some (x, y) \<longrightarrow> \<not> overlaps w (text_window (Some x) (Some y))))"

lemma resolve_capacity_hours [simp]: "hours_window (resolve_capacity active pattern off res) = hours_window res"
  by (simp add: resolve_capacity_def hours_window_def Let_def split: prod.split)

lemma resolve_capacity_break:
  "dr_break (resolve_capacity active pattern off res) = Some (x, y) \<Longrightarrow>
   time_str (ar_break_start_time pattern) = Some x \<and> time_str (ar_break_end_time pattern) = Some y"
  by (simp add: resolve_capacity_def Let_def split: prod.splits option.splits if_splits)

lemma resolve_capacity_outcome:
  assumes "dr_available (resolve_capacity active pattern off res)"
  shows "fst (peak_overlap active) \<le> CONCURRENT_CAP"
    "\<exists>leave. filter (misplaced (hours_window res)
       (text_window (time_str (ar_break_start_time pattern)) (time_str (ar_break_end_time pattern))) leave) active = []"
    "case ar_max_jobs_per_day pattern of None \<Rightarrow> True | Some cap \<Rightarrow> int (length active) < cap"
proof -
  obtain p js where pk: "peak_overlap active = (p, js)" by (cases "peak_overlap active")
  note a = assms [unfolded resolve_capacity_def Let_def pk prod.case, simplified, folded hours_window_def]
  show "fst (peak_overlap active) \<le> CONCURRENT_CAP" using a by (simp add: pk split: option.splits if_splits)
  show "case ar_max_jobs_per_day pattern of None \<Rightarrow> True | Some cap \<Rightarrow> int (length active) < cap"
    using a by (simp split: option.splits if_splits)
  show "\<exists>leave. filter (misplaced (hours_window res)
       (text_window (time_str (ar_break_start_time pattern)) (time_str (ar_break_end_time pattern))) leave) active = []"
    using a by (cases "ar_max_jobs_per_day pattern") (auto simp: filter_empty_conv split: if_splits)
qed

lemma resolve_capacity_available:
  assumes "dr_available (resolve_capacity active pattern off res)"
  shows "slack active pattern \<and> placed active (resolve_capacity active pattern off res)"
proof
  show "slack active pattern" using resolve_capacity_outcome(1,3) [OF assms] by (simp add: slack_def)
  from resolve_capacity_outcome(2) [OF assms] obtain leave where
    "\<forall>a \<in> set active. \<not> misplaced (hours_window res)
       (text_window (time_str (ar_break_start_time pattern)) (time_str (ar_break_end_time pattern))) leave a"
    by (auto simp: filter_empty_conv)
  then show "placed active (resolve_capacity active pattern off res)"
    unfolding placed_def by (fastforce simp: misplaced_def dest: resolve_capacity_break split: option.splits)
qed

lemma resolve_exception_available:
  assumes "dr_available (resolve_exception active exc pattern off res)" "\<not> dr_available res"
  shows "slack active pattern \<and> placed active (resolve_exception active exc pattern off res)"
  using assms resolve_capacity_available [of active pattern off]
  by (auto simp: resolve_exception_def Let_def split: option.splits if_splits)

lemma resolve_pattern_available:
  assumes "dr_available (resolve_pattern src sid day active exc res)" "\<not> dr_available res"
  shows "(\<exists>pattern. fetch_staff_pattern src (isoweekday_mod7 day) = Some pattern \<and> slack active pattern) \<and>
    placed active (resolve_pattern src sid day active exc res) \<and>
    (\<forall>v. src_override src sid day = Some v \<longrightarrow> \<not> ov_full_day_closed v) \<and>
    (\<forall>l. src_time_off src sid day = Some l \<longrightarrow> \<not> tf_all_day l)"
  using assms by (auto simp: resolve_pattern_def Let_def dest: resolve_exception_available split: option.splits if_splits)

lemma available_reaches_pattern:
  assumes "dr_available (resolve_staff_day src sid day)"
  shows "\<exists>m res. src_staff src sid = Some m \<and> \<not> m_deleted m \<and> m_status m = ''active'' \<and>
    (\<forall>x. src_exception src day = Some x \<longrightarrow> \<not> ax_full_day_closed x) \<and>
    resolve_staff_day src sid day = resolve_pattern src sid day
      (filter (\<lambda>a. as_status a \<notin> set TERMINAL_STATUSES) (src_assignments src sid day)) (src_exception src day) res \<and> \<not> dr_available res"
  using assms by (auto simp: resolve_staff_day_def Let_def split: option.splits if_splits list.splits)


definition demo_assignment :: assignment where
  "demo_assignment = \<lparr>as_job_id = 1, as_status = JS_ACCEPTED, as_time_window = Some ''09:00-11:00''\<rparr>"

lemma demo_hours_slots:
  "slots_from_rule (availability_rule.extend demo_hours (rule_row.fields None)) =
     [(32400, 39600), (39600, 46800), (50400, 57600), (57600, 64800)]"
proof -
  have w: "slot_walk (Some 46800) (Some 50400) 0 64800 c =
     (if 64800 < c + 7200 then [] else if c < 50400 \<and> 46800 < c + 7200 then slot_walk (Some 46800) (Some 50400) 0 64800 50400
      else (c, c + 7200) # slot_walk (Some 46800) (Some 50400) 0 64800 (c + 7200))" for c
    by (subst slot_walk_unfold) (simp add: clash_def add.commute)
  have "parse_hhmm (Some ''09:00'') = Some 32400" "parse_hhmm (Some ''18:00'') = Some 64800"
    "parse_hhmm (Some ''13:00'') = Some 46800" "parse_hhmm (Some ''14:00'') = Some 50400"
    using demo_rule_simps(1-4) by (simp_all add: demo_rule_def availability_rule.defs)
  then show ?thesis
    by (simp add: slots_from_rule_def demo_hours_def demo_rule_def availability_rule.defs rule_row.defs
        w [of 32400] w [of 39600] w [of 46800] w [of 50400] w [of 57600] w [of 64800])
qed

lemma demo_windows:
  "parse_window (Some ''09:00-11:00'') = Some (540, 660)" "parse_window (Some ''09:00-18:00'') = Some (540, 1080)"
  "parse_window (Some ''13:00-14:00'') = Some (780, 840)"
  by (simp_all add: parse_window_def match_window_def clock_at_def py_space_def is_digit_def nat_of_str_def Let_def)

lemma demo_day:
  "fetch_assignments demo_avail 4 1 8 = [demo_assignment]" "dr_available (resolve_staff_day (direct_source demo_avail 4) 1 8)"
proof -
  show a: "fetch_assignments demo_avail 4 1 8 = [demo_assignment]"
    by (simp add: fetch_assignments_def committed_def demo_job_def demo_booking_def coalesce_def TERMINAL_STATUSES_def
        assignment_of_def demo_assignment_def)
  have h: "fetch_business_hours demo_avail 4 (isoweekday_mod7 8) = [demo_hours]"
    by (simp add: fetch_business_hours_def demo_hours_def demo_rule_def availability_rule.defs isoweekday_mod7_def)
  have pk: "peak_overlap [demo_assignment] = (1, [1])"
    by (simp add: peak_overlap_def timed_def demo_assignment_def demo_windows List.map_filter_simps window_events_def sweep_def Let_def)
  have act: "filter (\<lambda>a. as_status a \<notin> set TERMINAL_STATUSES) (src_assignments (direct_source demo_avail 4) 1 8) = [demo_assignment]"
    unfolding direct_source_def day_source.select_convs a by (simp add: demo_assignment_def TERMINAL_STATUSES_def)
  have src: "src_hours (direct_source demo_avail 4) (isoweekday_mod7 8) = [demo_hours]"
    "src_staff (direct_source demo_avail 4) 1 = Some demo_member" "src_exception (direct_source demo_avail 4) 8 = None"
    "src_override (direct_source demo_avail 4) 1 8 = None" "src_time_off (direct_source demo_avail 4) 1 8 = None"
    by (simp_all add: direct_source_def h fetch_tenant_exception_def fetch_staff_def fetch_override_def staff_time_off_def)
  have "ar_break_start_time demo_hours = Some ''13:00''" "ar_break_end_time demo_hours = Some ''14:00''"
    "ar_start_time demo_hours = ''09:00''" "ar_end_time demo_hours = ''18:00''"
    by (simp_all add: demo_hours_def demo_rule_def availability_rule.defs)
  moreover have "\<not> misplaced (Some (540, 1080)) (Some (780, 840)) None demo_assignment"
    by (simp add: misplaced_def demo_assignment_def demo_windows overlaps_def)
  ultimately show "dr_available (resolve_staff_day (direct_source demo_avail 4) 1 8)"
    unfolding resolve_staff_day_def act src Let_def resolve_pattern_def fetch_staff_pattern_def
    by (simp add: demo_hours_slots resolve_exception_def resolve_capacity_def pk Let_def CONCURRENT_CAP_def
        time_str_def text_window_def demo_windows del: One_nat_def)
qed


section \<open>Labels of the slot service read back\<close>

lemma pad2_digits:
  assumes "n < 100"
  shows "\<forall>c \<in> set (pad2 n). is_digit c" "nat_of_str (pad2 n) = n" "length (pad2 n) = 2"
proof -
  have "list_all is_digit (pad2 n) \<and> nat_of_str (pad2 n) = n"
    using pad2_facts(1) [OF assms] by (simp add: num2_def split: if_splits)
  then show "\<forall>c \<in> set (pad2 n). is_digit c" "nat_of_str (pad2 n) = n" by (simp_all add: list_all_iff)
  show "length (pad2 n) = 2" by (simp add: pad2_def)
qed

lemma clock_at_hhmm:
  assumes "t < 86400" "r = [] \<or> \<not> is_digit (hd r)"
  shows "clock_at (hhmm t @ r) = Some ((t div 3600, t mod 3600 div 60), r)"
proof -
  have b: "t div 3600 < 100" "t mod 3600 div 60 < 100" using assms(1) by (simp_all add: div_less_iff_less_mult less_trans [OF mod_less_divisor])
  note h = pad2_digits [OF b(1)] and m = pad2_digits [OF b(2)]
  have r: "takeWhile is_digit r = []" "dropWhile is_digit r = r" using assms(2) by (cases r; simp)+
  have c: "\<not> is_digit CHR '':''" by (simp add: is_digit_def)
  show ?thesis unfolding clock_at_def hhmm_def
    by (simp add: takeWhile_append2 [OF h(1) [rule_format]] dropWhile_append2 [OF h(1) [rule_format]]
        takeWhile_append2 [OF m(1) [rule_format]] dropWhile_append2 [OF m(1) [rule_format]] r c h(2,3) m(2,3) Let_def)
qed

text \<open>
  The resolver reads the labels the slot service writes. The text of any window within a day, written by
  \<^verbatim>\<open>_window_label\<close>, is read by \<^verbatim>\<open>_parse_window\<close> as the minutes the window starts and ends at, provided it is
  at least a minute long after the seconds are dropped.
\<close>

theorem window_label_roundtrip:
  assumes "b < 86400" "a div 60 < b div 60"
  shows "parse_window (Some (window_label a b)) = Some (a div 60, b div 60)"
proof -
  have "a < b" using assms(2) by (meson div_le_mono leI not_le)
  then have a: "a < 86400" using assms(1) by simp
  have min: "t div 3600 * 60 + t mod 3600 div 60 = t div 60" for t :: nat
    using div_mult2_eq [of t 60 60] mod_mult2_eq [of t 60 60] by (simp add: mult.commute)
  have sp: "dropWhile py_space (hhmm t @ r) = hhmm t @ r" if "t < 86400" for t r
    using hhmm_chars [OF that] by (cases "hhmm t") (auto simp: hhmm_def pad2_def)
  have dash: "\<not> is_digit CHR ''-''" "\<not> py_space CHR ''-''" by (simp_all add: is_digit_def py_space_def)
  have "match_window (window_label a b) = Some ((a div 3600, a mod 3600 div 60), (b div 3600, b mod 3600 div 60))"
    using clock_at_hhmm [OF a, of "''-'' @ hhmm b"] clock_at_hhmm [OF assms(1), of "[]"] sp [OF a, of "''-'' @ hhmm b"] sp [OF assms(1), of "[]"]
    by (simp add: match_window_def window_label_def dash)
  moreover have "t div 3600 < 24" "t mod 3600 div 60 < 60" if "t < 86400" for t :: nat
    using that by (auto intro: less_mult_imp_div_less)
  note this [OF a] this [OF assms(1)]
  ultimately show ?thesis using assms(2) min [of a] min [of b] by (simp add: parse_window_def Let_def not_less [symmetric])
qed

theorem window_label_roundtrip_witness:
  "window_label 32400 39600 = ''09:00-11:00'' \<and> parse_window (Some (window_label 32400 39600)) = Some (540, 660)"
  using window_label_roundtrip [of 39600 32400] demo_labels(1) by simp

section \<open>Two approved requests on one date\<close>

text \<open>
  The comment of \<^verbatim>\<open>_staff_time_off\<close> gives full-day leave precedence. A part-day request read first hides a
  full-day request from the query, and not from the prefetched page.
\<close>

lemma part_day_request_hides_full_day:
  assumes "filter (owner_covers tid sid day) (owner_leaves s) = []"
    "filter (request_covers tid sid day) (leave_requests s) = [p, f]" "\<not> lr_is_full_day p" "lr_is_full_day f"
    "lo \<le> day" "day \<le> hi" "sid \<in> m_id ` set staff"
  shows "staff_time_off s tid sid day = Some (requested_time_off p)"
    "pc_time_off (prefetch_resolution_cache s tid staff lo hi) (sid, day) = Some (requested_time_off f)"
proof -
  show "staff_time_off s tid sid day = Some (requested_time_off p)" by (simp add: staff_time_off_def assms(1,2))
  have "prefetch_resolution_cache s tid staff lo hi = load_page s tid staff lo hi"
    using assms(7) by (auto simp: prefetch_resolution_cache_def)
  then show "pc_time_off (prefetch_resolution_cache s tid staff lo hi) (sid, day) = Some (requested_time_off f)"
    by (simp add: page_time_off_rows assms keep_stronger_def requested_time_off_def)
qed

section \<open>Aggregate answers\<close>

subsection \<open>Operations\<close>

fun reason_code :: "reason \<Rightarrow> string" where
  "reason_code R_BUSINESS_CLOSED = ''BUSINESS_CLOSED''"
| "reason_code R_STAFF_INACTIVE = ''STAFF_INACTIVE''"
| "reason_code R_STAFF_SETUP_INCOMPLETE = ''STAFF_SETUP_INCOMPLETE''"
| "reason_code R_STAFF_TIME_OFF = ''STAFF_TIME_OFF''"
| "reason_code R_STAFF_OFF_DAY = ''STAFF_DATE_OVERRIDE_CLOSED''"
| "reason_code R_OUTSIDE_WORKING_HOURS = ''OUTSIDE_WORKING_HOURS''"
| "reason_code R_ON_TIME_OFF = ''ON_TIME_OFF''"
| "reason_code R_SCHEDULE_CONFLICT = ''SCHEDULE_CONFLICT''"
| "reason_code R_ASSIGNMENT_OUTSIDE_AVAILABILITY = ''ASSIGNMENT_OUTSIDE_AVAILABILITY''"
| "reason_code R_DAILY_CAPACITY_EXCEEDED = ''DAILY_CAPACITY_EXCEEDED''"
| "reason_code R_CONCURRENT_CAPACITY_EXCEEDED = ''CONCURRENT_CAPACITY_EXCEEDED''"

record aggregate =
  ag_available :: bool
  ag_eligible :: nat
  ag_remaining :: int
  ag_reasons :: "string list"

definition day_remaining :: "day_result \<Rightarrow> int" where
  "day_remaining r = (case (map_option cp_remaining (dr_daily_capacity r), map_option cp_remaining (dr_concurrent_capacity r)) of
     (Some dc, Some cc) \<Rightarrow> min dc cc | (Some dc, None) \<Rightarrow> dc | (None, Some cc) \<Rightarrow> cc | (None, None) \<Rightarrow> 1)"

definition aggregate_slot_available :: "'a avail_db_scheme \<Rightarrow> uuid \<Rightarrow> date \<Rightarrow> aggregate" where
  "aggregate_slot_available s tid day =
     (let staff_ids = map m_id (filter (\<lambda>m. m_tenant_id m = tid \<and> \<not> m_deleted m \<and> m_status m = ''active'') (team_members s))
      in if staff_ids = [] then \<lparr>ag_available = False, ag_eligible = 0, ag_remaining = 0, ag_reasons = [reason_code R_STAFF_INACTIVE]\<rparr>
         else (let (eligible, remaining, seen) = foldl (\<lambda>(e, rem, seen) sid.
                     (let r = resolve_staff_day (direct_source s tid) sid day
                      in if dr_available r then (Suc e, rem + day_remaining r, seen)
                         else (e, rem, seen @ map reason_code (dr_reasons r)))) (0, 0, []) staff_ids
               in \<lparr>ag_available = 0 < eligible, ag_eligible = eligible, ag_remaining = remaining,
                   ag_reasons = (if 0 < eligible then [] else sort (remdups seen))\<rparr>))"

record affected_date =
  ad_date :: date
  ad_count :: nat
  ad_jobs :: "uuid list"
  ad_reasons :: "string list"

record pattern_preview =
  pp_affected :: "affected_date list"
  pp_total :: nat
  pp_capacity_drop :: bool
  pp_requires_confirmation :: bool

definition affected_on :: "'a avail_db_scheme \<Rightarrow> uuid \<Rightarrow> uuid \<Rightarrow> bool \<Rightarrow> int option \<Rightarrow> date \<Rightarrow> affected_date option" where
  "affected_on s tid sid proposed_is_active proposed_max d =
     (let active = filter (\<lambda>a. as_status a \<notin> set TERMINAL_STATUSES) (fetch_assignments s tid sid d);
          rs = (if proposed_is_active then [] else [''day_would_become_unavailable'']) @
               (case proposed_max of None \<Rightarrow> [] | Some n \<Rightarrow> if n < int (length active) then [''capacity_below_existing_assignments''] else [])
      in if active \<noteq> [] \<and> rs \<noteq> [] then Some \<lparr>ad_date = d, ad_count = length active, ad_jobs = map as_job_id active, ad_reasons = rs\<rparr>
         else None)"

definition preview_staff_pattern_change ::
  "'a avail_db_scheme \<Rightarrow> uuid \<Rightarrow> uuid \<Rightarrow> date \<Rightarrow> int \<Rightarrow> bool \<Rightarrow> int option \<Rightarrow> int \<Rightarrow> pattern_preview" where
  "preview_staff_pattern_change s tid sid today dow proposed_is_active proposed_max horizon_days =
     (let affected = List.map_filter (affected_on s tid sid proposed_is_active proposed_max)
            (filter (\<lambda>d. isoweekday_mod7 d = dow) [today..today + horizon_days])
      in \<lparr>pp_affected = affected, pp_total = sum_list (map ad_count affected),
          pp_capacity_drop = list_ex (\<lambda>a. ''capacity_below_existing_assignments'' \<in> set (ad_reasons a)) affected,
          pp_requires_confirmation = affected \<noteq> []\<rparr>)"

subsection \<open>What they count\<close>

abbreviation active_jobs :: "'a avail_db_scheme \<Rightarrow> uuid \<Rightarrow> uuid \<Rightarrow> date \<Rightarrow> assignment list" where
  "active_jobs s tid sid day \<equiv> filter (\<lambda>a. as_status a \<notin> set TERMINAL_STATUSES) (fetch_assignments s tid sid day)"

lemma resolve_capacity_remaining:
  assumes "dr_available (resolve_capacity active pattern off res)" "ar_max_jobs_per_day pattern = Some cap"
  shows "day_remaining (resolve_capacity active pattern off res) = (if timed active = [] then 1 else 0)"
proof -
  obtain p js where pk: "peak_overlap active = (p, js)" by (cases "peak_overlap active")
  have "p \<le> 1" "int (length active) < cap"
    using resolve_capacity_outcome(1,3) [OF assms(1)] assms(2) by (simp_all add: pk CONCURRENT_CAP_def)
  moreover have "p = (if timed active = [] then 0 else 1)"
  proof (cases "timed active")
    case Nil
    then show ?thesis using pk by (simp add: peak_overlap_def)
  next
    case (Cons x xs)
    from peak_overlap_at [of active] obtain t where t: "p = int (length (at_once (timed active) t))"
      "length (at_once (timed active) (fst (fst x))) \<le> length (at_once (timed active) t)" unfolding pk by auto
    have "fst (fst x) < snd (fst x)" using timed_ordered [of active] Cons by auto
    then have "at_once (timed active) (fst (fst x)) \<noteq> []" by (cases x) (auto simp: Cons at_once_def)
    then have "1 \<le> length (at_once (timed active) (fst (fst x)))" by (simp add: Suc_le_eq)
    with t \<open>p \<le> 1\<close> Cons show ?thesis by simp
  qed
  ultimately show ?thesis
    by (simp add: day_remaining_def resolve_capacity_def pk assms(2) Let_def CONCURRENT_CAP_def)
qed

lemma resolve_exception_remaining:
  assumes "dr_available (resolve_exception active exc pattern off res)" "\<not> dr_available res" "ar_max_jobs_per_day pattern = Some cap"
  shows "day_remaining (resolve_exception active exc pattern off res) = (if timed active = [] then 1 else 0)"
  using assms resolve_capacity_remaining [OF _ assms(3)]
  by (auto simp: resolve_exception_def Let_def split: option.splits if_splits)

lemma resolve_pattern_remaining:
  assumes "dr_available (resolve_pattern src sid day active exc res)" "\<not> dr_available res"
  shows "day_remaining (resolve_pattern src sid day active exc res) = (if timed active = [] then 1 else 0)"
proof -
  from assms obtain pattern where p: "fetch_staff_pattern src (isoweekday_mod7 day) = Some pattern"
    by (auto simp: resolve_pattern_def split: option.splits)
  then obtain cap where cap: "ar_max_jobs_per_day pattern = Some cap" by (auto simp: fetch_staff_pattern_def)
  show ?thesis using assms resolve_exception_remaining [OF _ _ cap]
    unfolding resolve_pattern_def p option.case Let_def by (auto split: option.splits if_splits)
qed

lemma available_day_remaining:
  assumes "dr_available (resolve_staff_day (direct_source s tid) sid day)"
  shows "day_remaining (resolve_staff_day (direct_source s tid) sid day) = (if timed (active_jobs s tid sid day) = [] then 1 else 0)"
proof -
  have act: "src_assignments (direct_source s tid) sid day = fetch_assignments s tid sid day" by (simp add: direct_source_def)
  from available_reaches_pattern [OF assms] obtain res where r: "\<not> dr_available res"
    "resolve_staff_day (direct_source s tid) sid day =
      resolve_pattern (direct_source s tid) sid day (active_jobs s tid sid day) (src_exception (direct_source s tid) day) res"
    unfolding act by blast
  from resolve_pattern_remaining [OF assms [unfolded r(2)] r(1)] show ?thesis unfolding r(2) .
qed

abbreviation roster :: "'a avail_db_scheme \<Rightarrow> uuid \<Rightarrow> team_member list" where
  "roster s tid \<equiv> filter (\<lambda>m. m_tenant_id m = tid \<and> \<not> m_deleted m \<and> m_status m = ''active'') (team_members s)"

lemma aggregate_fold:
  "foldl (\<lambda>(e, rem, seen) sid. (let r = resolve_staff_day (direct_source s tid) sid day
      in if dr_available r then (Suc e, rem + day_remaining r, seen) else (e, rem, seen @ map reason_code (dr_reasons r)))) (e, rem, seen) ids =
   (e + length (filter (\<lambda>sid. dr_available (resolve_staff_day (direct_source s tid) sid day)) ids),
    rem + int (length (filter (\<lambda>sid. dr_available (resolve_staff_day (direct_source s tid) sid day) \<and> timed (active_jobs s tid sid day) = []) ids)),
    seen @ concat (map (\<lambda>sid. if dr_available (resolve_staff_day (direct_source s tid) sid day) then []
      else map reason_code (dr_reasons (resolve_staff_day (direct_source s tid) sid day))) ids))"
proof (induction ids arbitrary: e rem seen)
  case (Cons x xs)
  then show ?case by (cases "dr_available (resolve_staff_day (direct_source s tid) x day)") (simp_all add: Let_def available_day_remaining)
qed simp

text \<open>
  what the customer-facing aggregate counts. A date is offered exactly when some active technician of the tenant is available
  on it, the eligible count is the number of such technicians, reasons are given exactly when there is none, and the
  remaining capacity counts only the available technicians with no timed job that day: a technician whose day still has room
  beside one timed job counts as eligible and adds nothing to the remaining capacity.
\<close>

theorem aggregate_counts_idle_technicians:
  "(ag_available (aggregate_slot_available s tid day) \<longleftrightarrow>
      (\<exists>m \<in> set (roster s tid). dr_available (resolve_staff_day (direct_source s tid) (m_id m) day))) \<and>
   ag_eligible (aggregate_slot_available s tid day) =
     length (filter (\<lambda>m. dr_available (resolve_staff_day (direct_source s tid) (m_id m) day)) (roster s tid)) \<and>
   ag_remaining (aggregate_slot_available s tid day) =
     int (length (filter (\<lambda>m. dr_available (resolve_staff_day (direct_source s tid) (m_id m) day) \<and>
       timed (active_jobs s tid (m_id m) day) = []) (roster s tid)))"
proof (cases "roster s tid = []")
  case True
  then show ?thesis by (simp add: aggregate_slot_available_def)
next
  case False
  then have "map m_id (roster s tid) \<noteq> []" by simp
  then have "\<exists>rs. aggregate_slot_available s tid day =
    \<lparr>ag_available = 0 < length (filter (\<lambda>m. dr_available (resolve_staff_day (direct_source s tid) (m_id m) day)) (roster s tid)),
     ag_eligible = length (filter (\<lambda>m. dr_available (resolve_staff_day (direct_source s tid) (m_id m) day)) (roster s tid)),
     ag_remaining = int (length (filter (\<lambda>m. dr_available (resolve_staff_day (direct_source s tid) (m_id m) day) \<and>
       timed (active_jobs s tid (m_id m) day) = []) (roster s tid))), ag_reasons = rs\<rparr>"
    unfolding aggregate_slot_available_def aggregate_fold Let_def [of "map m_id (roster s tid)"]
    by (simp only: if_False prod.case Let_def) (simp add: filter_map comp_def)
  then show ?thesis by (auto simp: filter_empty_conv)
qed

lemma preview_confirms_exactly:
  "pp_requires_confirmation (preview_staff_pattern_change s tid sid today dow act bound horizon) \<longleftrightarrow>
     (\<exists>d. today \<le> d \<and> d \<le> today + horizon \<and> isoweekday_mod7 d = dow \<and> active_jobs s tid sid d \<noteq> [] \<and>
       (\<not> act \<or> (case bound of None \<Rightarrow> False | Some n \<Rightarrow> n < int (length (active_jobs s tid sid d)))))"
proof -
  have nil: "List.map_filter f xs = [] \<longleftrightarrow> (\<forall>x \<in> set xs. f x = None)" for f :: "date \<Rightarrow> affected_date option" and xs
    by (induction xs) (auto simp: List.map_filter_simps split: option.split)
  show ?thesis by (auto simp: preview_staff_pattern_change_def nil affected_on_def Let_def split: option.splits if_splits)
qed

end
