(* ===== verification/Assignments.thy ===== *)
theory Assignments
  imports Availability
begin

section \<open>Assignments\<close>

text \<open>
  Who visits and when (home_service_assignment/service.py, provider_reschedule_service.py), on the slot clock of
  weather/slots.py, the work-in-progress gate of vertical_catalog/seat_enforcement.py and the published operations policy of
  vertical_monetization/runtime_operations.py. \<open>assign_db\<close> adds the assignment rows, their timeline and the slot-change
  requests. A visit is the job's scheduled date and window. Notes, reasons, reminder and SLA columns, chat messages and
  in-app notifications are not kept, nor are the skill warnings of a list row; \<^verbatim>\<open>casefold\<close> is the lower case of ASCII. The optimistic version token is an argument that says whether the caller's copy is stale.
\<close>

subsection \<open>The clock of a visit (weather/slots.py)\<close>

text \<open>All instants are read on the fixed India offset; a window is wall-clock text.\<close>

definition meridiem :: "string \<Rightarrow> nat \<Rightarrow> nat option" where
  "meridiem p h = (if 1 \<le> h \<and> h \<le> 12 then
     (if p = ''AM'' then Some (h mod 12) else if p = ''PM'' then Some (h mod 12 + 12) else None) else None)"

definition clock_tod :: "nat \<Rightarrow> nat \<Rightarrow> tod option" where
  "clock_tod h m = (if h < 24 \<and> m < 60 then Some (3600 * h + 60 * m) else None)"

definition parse_wall_time :: "string \<Rightarrow> tod option" where
  "parse_wall_time v =
     (let raw = join_words '' '' (words (map upper_char v)) in
      case split_on CHR '':'' raw of
        [h] \<Rightarrow> (case split_on CHR '' '' h of
            [hh] \<Rightarrow> Option.bind (num2 hh) (\<lambda>n. clock_tod n 0)
          | [hh, p] \<Rightarrow> Option.bind (Option.bind (num2 hh) (meridiem p)) (\<lambda>n. clock_tod n 0)
          | _ \<Rightarrow> None)
      | [h, m] \<Rightarrow> (case split_on CHR '' '' m of
            [mm] \<Rightarrow> Option.bind (num2 h) (\<lambda>n. Option.bind (num2 mm) (clock_tod n))
          | [mm, p] \<Rightarrow> Option.bind (Option.bind (num2 h) (meridiem p)) (\<lambda>n. Option.bind (num2 mm) (clock_tod n))
          | _ \<Rightarrow> None)
      | _ \<Rightarrow> None)"

definition DEFAULT_START :: tod where "DEFAULT_START = 32400"
definition ASSUMED_DURATION :: int where "ASSUMED_DURATION = 7200 * 1000000"

definition slot_start :: "date option \<Rightarrow> string option \<Rightarrow> moment option" where
  "slot_start day window =
     (case day of None \<Rightarrow> None
      | Some d \<Rightarrow>
          if truthy window then map_option (combine d) (parse_wall_time (strip (hd (split_on CHR ''-'' (the window)))))
          else Some (combine d DEFAULT_START))"

definition slot_end :: "date option \<Rightarrow> string option \<Rightarrow> moment option" where
  "slot_end day window =
     (case slot_start day window of None \<Rightarrow> None
      | Some start \<Rightarrow>
          if truthy window \<and> CHR ''-'' \<in> set (the window) then
            (case parse_wall_time (strip (tl (dropWhile (\<lambda>c. c \<noteq> CHR ''-'') (the window)))) of
               None \<Rightarrow> Some (start + ASSUMED_DURATION)
             | Some t \<Rightarrow> (let stop = combine (date_of start) t in
                 if stop \<le> start then Some (stop + 86400 * 1000000) else Some stop))
          else Some (start + ASSUMED_DURATION))"

definition slot_has_ended :: "date option \<Rightarrow> string option \<Rightarrow> moment \<Rightarrow> bool" where
  "slot_has_ended day window now =
     (if day = None \<or> blank (case window of None \<Rightarrow> [] | Some w \<Rightarrow> w) then False
      else (case slot_end day window of None \<Rightarrow> False | Some stop \<Rightarrow> stop \<le> now))"

subsection \<open>Tables\<close>

record job_assignment =
  ja_id :: uuid
  ja_job_id :: uuid
  ja_booking_id :: uuid
  ja_tenant_id :: uuid
  ja_staff_id :: uuid
  ja_status :: assign_state
  ja_scheduled_date :: "date option"
  ja_scheduled_time_window :: "string option"
  ja_is_current :: bool

record assignment_event =
  ae_job_id :: uuid
  ae_booking_id :: uuid
  ae_event_type :: string
  ae_request_id :: "string option"

record reschedule_request =
  rq_id :: uuid
  rq_booking_id :: uuid
  rq_job_id :: "uuid option"
  rq_tenant_id :: uuid
  rq_request_source :: string
  rq_original_date :: "date option"
  rq_original_slot :: "string option"
  rq_requested_date :: "date option"
  rq_requested_slot :: "string option"
  rq_status :: string
  rq_expires_at :: "moment option"

record assign_db = avail_db +
  job_assignments :: "job_assignment list"
  assignment_events :: "assignment_event list"
  reschedule_requests :: "reschedule_request list"

record assign_env =
  en_now :: moment
  en_dbnow :: time

definition utc_today :: "assign_env \<Rightarrow> date" where
  "utc_today env = date_of (en_now env - 19800 * 1000000)"

subsection \<open>The operations policy (vertical_monetization/runtime_operations.py)\<close>

record operations_policy =
  op_customer_reschedule_limit :: int
  op_provider_reschedule_limit :: int
  op_customer_cancellation_enabled :: bool
  op_customer_cancellation_cutoff_minutes :: int
  op_customer_cancellation_reasons :: "cancellation_rule list"
  op_provider_reschedule_approval_hours :: int

definition cancellation_rule_of :: "string \<Rightarrow> string \<Rightarrow> bool \<Rightarrow> cancellation_rule" where
  "cancellation_rule_of code label detail = \<lparr>cn_code = code, cn_label = label, cn_active = True, cn_requires_detail = detail\<rparr>"

definition DEFAULT_CUSTOMER_CANCELLATION_REASONS :: "cancellation_rule list" where
  "DEFAULT_CUSTOMER_CANCELLATION_REASONS =
     [cancellation_rule_of ''changed_mind'' ''Changed my mind'' False,
      cancellation_rule_of ''found_another_provider'' ''Found another provider'' False,
      cancellation_rule_of ''price_concern'' ''Price concern'' False,
      cancellation_rule_of ''schedule_conflict'' ''Schedule conflict'' False,
      cancellation_rule_of ''no_longer_needed'' ''Service no longer needed'' False,
      cancellation_rule_of ''provider_asked_to_cancel_or_pay_direct'' ''Provider asked me to cancel or pay directly'' True,
      cancellation_rule_of ''other'' ''Another reason'' True]"

definition DEFAULT_OPERATIONS :: operations_policy where
  "DEFAULT_OPERATIONS = \<lparr>op_customer_reschedule_limit = 3, op_provider_reschedule_limit = 3, op_customer_cancellation_enabled = True,
     op_customer_cancellation_cutoff_minutes = 120, op_customer_cancellation_reasons = DEFAULT_CUSTOMER_CANCELLATION_REASONS,
     op_provider_reschedule_approval_hours = 24\<rparr>"

definition get_home_services_operations_policy :: "'a monet_db_scheme \<Rightarrow> operations_policy" where
  "get_home_services_operations_policy s =
     (case first_row (filter (\<lambda>p. list_ex (\<lambda>v. v_id v = p_vertical_id p \<and> v_key v = ''home_services'') (verticals s) \<and>
          p_status p = ''published'' \<and> p_is_current p) (policies s)) of
        None \<Rightarrow> DEFAULT_OPERATIONS
      | Some p \<Rightarrow> \<lparr>op_customer_reschedule_limit = (case p_customer_reschedule_limit p of None \<Rightarrow> 3 | Some n \<Rightarrow> n),
          op_provider_reschedule_limit = (case p_provider_reschedule_limit p of None \<Rightarrow> 3 | Some n \<Rightarrow> n),
          op_customer_cancellation_enabled = (case p_customer_cancellation_enabled p of None \<Rightarrow> True | Some b \<Rightarrow> b),
          op_customer_cancellation_cutoff_minutes = (case p_customer_cancellation_cutoff_minutes p of None \<Rightarrow> 120 | Some n \<Rightarrow> n),
          op_customer_cancellation_reasons = (if p_customer_cancellation_reasons p = [] then DEFAULT_CUSTOMER_CANCELLATION_REASONS
             else p_customer_cancellation_reasons p),
          op_provider_reschedule_approval_hours =
            (case p_provider_reschedule_approval_hours p of None \<Rightarrow> 24 | Some n \<Rightarrow> if n = 0 then 24 else n)\<rparr>)"

subsection \<open>Work in progress (vertical_catalog/seat_enforcement.py)\<close>

definition OCCUPYING_JOB_STATUSES :: "job_status list" where
  "OCCUPYING_JOB_STATUSES = [JS_ASSIGNED, JS_ACCEPTED, JS_SCHEDULED, JS_ON_THE_WAY, JS_REACHED_SITE, JS_INSPECTION_STARTED,
     JS_INSPECTION_DONE, JS_QUOTE_REQUIRED, JS_SERVICE_STARTED, JS_CUSTOMER_NOT_AVAIL]"

definition resolve_qualifying_technician_count :: "'a slot_db_scheme \<Rightarrow> uuid \<Rightarrow> nat" where
  "resolve_qualifying_technician_count s tid =
     length (filter (\<lambda>m. m_tenant_id m = tid \<and> active_technician_sql s m) (team_members s))"

definition open_jobs :: "'a job_db_scheme \<Rightarrow> uuid \<Rightarrow> nat" where
  "open_jobs s tid = length (filter (\<lambda>j. j_tenant_id j = Some tid \<and> j_assigned_staff_id j \<noteq> None \<and>
     j_status j \<in> set OCCUPYING_JOB_STATUSES) (service_jobs s))"

definition assert_wip_capacity :: "'a slot_db_scheme \<Rightarrow> uuid \<Rightarrow> unit res" where
  "assert_wip_capacity s tid =
     (let technicians = resolve_qualifying_technician_count s tid in
      if technicians = 0 then Inl (ServiceOSException ''NO_TECHNICIANS_AVAILABLE'')
      else if technicians \<le> open_jobs s tid then Inl (ServiceOSException ''TECHNICIAN_CAPACITY_REACHED'')
      else Inr ())"

subsection \<open>Rows of one job\<close>

definition load_job :: "'a job_db_scheme \<Rightarrow> uuid \<Rightarrow> service_job option" where
  "load_job s jid = first_row (filter (\<lambda>j. j_id j = jid) (service_jobs s))"

definition load_booking :: "'a job_db_scheme \<Rightarrow> uuid \<Rightarrow> service_booking option" where
  "load_booking s bid = first_row (filter (\<lambda>b. b_id b = bid) (service_bookings s))"

definition current_assignment :: "'a assign_db_scheme \<Rightarrow> uuid \<Rightarrow> job_assignment option" where
  "current_assignment s jid = first_row (filter (\<lambda>a. ja_job_id a = jid \<and> ja_is_current a) (job_assignments s))"

definition set_job :: "uuid \<Rightarrow> (service_job \<Rightarrow> service_job) \<Rightarrow> 'a assign_db_scheme \<Rightarrow> 'a assign_db_scheme" where
  "set_job jid f s = s\<lparr>service_jobs := update_where (\<lambda>j. j_id j = jid) f (service_jobs s)\<rparr>"

definition set_booking :: "uuid \<Rightarrow> (service_booking \<Rightarrow> service_booking) \<Rightarrow> 'a assign_db_scheme \<Rightarrow> 'a assign_db_scheme" where
  "set_booking bid f s = s\<lparr>service_bookings := update_where (\<lambda>b. b_id b = bid) f (service_bookings s)\<rparr>"

definition set_assignment :: "uuid \<Rightarrow> (job_assignment \<Rightarrow> job_assignment) \<Rightarrow> 'a assign_db_scheme \<Rightarrow> 'a assign_db_scheme" where
  "set_assignment aid f s = s\<lparr>job_assignments := update_where (\<lambda>a. ja_id a = aid) f (job_assignments s)\<rparr>"

definition set_request :: "uuid \<Rightarrow> (reschedule_request \<Rightarrow> reschedule_request) \<Rightarrow> 'a assign_db_scheme \<Rightarrow> 'a assign_db_scheme" where
  "set_request rid f s = s\<lparr>reschedule_requests := update_where (\<lambda>r. rq_id r = rid) f (reschedule_requests s)\<rparr>"

definition sync_booking :: "uuid \<Rightarrow> assign_state \<Rightarrow> job_status \<Rightarrow> 'a assign_db_scheme \<Rightarrow> 'a assign_db_scheme" where
  "sync_booking bid ast st = set_booking bid (\<lambda>b. b\<lparr>b_assignment_status := ast, b_status := st\<rparr>)"

definition emit_event :: "service_job \<Rightarrow> string \<Rightarrow> string option \<Rightarrow> 'a assign_db_scheme \<Rightarrow> 'a assign_db_scheme" where
  "emit_event job ty req s = s\<lparr>assignment_events := assignment_events s @
     [\<lparr>ae_job_id = j_id job, ae_booking_id = j_booking_id job, ae_event_type = ty, ae_request_id = req\<rparr>]\<rparr>"

definition customer_reschedule_count :: "'a assign_db_scheme \<Rightarrow> uuid \<Rightarrow> nat" where
  "customer_reschedule_count s jid = length (filter (\<lambda>e. ae_job_id e = jid \<and>
     ae_event_type e = ''customer_rescheduled_booking'') (assignment_events s))"

subsection \<open>Conflicts\<close>

datatype conflict = ACTIVE_JOB_IN_PROGRESS | SCHEDULE_CONFLICT

definition occupying_jobs :: "'a job_db_scheme \<Rightarrow> uuid option \<Rightarrow> uuid \<Rightarrow> uuid option \<Rightarrow> service_job list" where
  "occupying_jobs s tid sid excl = filter (\<lambda>j. j_tenant_id j = tid \<and> j_assigned_staff_id j = Some sid \<and>
     j_status j \<in> set OCCUPYING_JOB_STATUSES \<and> Some (j_id j) \<noteq> excl) (service_jobs s)"

definition staff_has_open_job :: "'a job_db_scheme \<Rightarrow> uuid option \<Rightarrow> uuid \<Rightarrow> uuid option \<Rightarrow> bool" where
  "staff_has_open_job s tid sid excl \<longleftrightarrow> occupying_jobs s tid sid excl \<noteq> []"

fun conflict_scan :: "date \<Rightarrow> moment \<Rightarrow> moment \<Rightarrow> service_job list \<Rightarrow> conflict option" where
  "conflict_scan day start stop [] = None"
| "conflict_scan day start stop (j # js) =
     (if j_scheduled_date j = None \<or> \<not> truthy (j_scheduled_time_window j) then Some ACTIVE_JOB_IN_PROGRESS
      else if j_scheduled_date j \<noteq> Some day then conflict_scan day start stop js
      else (case (slot_start (j_scheduled_date j) (j_scheduled_time_window j), slot_end (j_scheduled_date j) (j_scheduled_time_window j)) of
              (Some a, Some b) \<Rightarrow> if start < b \<and> a < stop then Some SCHEDULE_CONFLICT else conflict_scan day start stop js
            | _ \<Rightarrow> Some ACTIVE_JOB_IN_PROGRESS))"

definition staff_assignment_conflict_reason ::
  "'a job_db_scheme \<Rightarrow> service_job \<Rightarrow> uuid \<Rightarrow> uuid option \<Rightarrow> date option \<Rightarrow> string option \<Rightarrow> conflict option" where
  "staff_assignment_conflict_reason s job sid excl date_override window_override =
     (let day = coalesce date_override (j_scheduled_date job);
          window = coalesce window_override (j_scheduled_time_window job)
      in case (day, slot_start day window, slot_end day window) of
           (Some d, Some a, Some b) \<Rightarrow> conflict_scan d a b (occupying_jobs s (j_tenant_id job) sid excl)
         | _ \<Rightarrow> if staff_has_open_job s (j_tenant_id job) sid excl then Some ACTIVE_JOB_IN_PROGRESS else None)"

subsection \<open>Eligibility of a person\<close>

datatype staff = Team team_member | Login user_row

definition load_staff :: "'a slot_db_scheme \<Rightarrow> uuid \<Rightarrow> staff option" where
  "load_staff s sid =
     (case first_row (filter (\<lambda>m. m_id m = sid) (team_members s)) of
        Some m \<Rightarrow> Some (Team m)
      | None \<Rightarrow> map_option Login (first_row (filter (\<lambda>u. us_id u = sid) (users s))))"

definition advisory :: "reason list" where
  "advisory = [R_DAILY_CAPACITY_EXCEEDED, R_CONCURRENT_CAPACITY_EXCEEDED, R_SCHEDULE_CONFLICT]"

definition availability_block_reasons :: "'a avail_db_scheme \<Rightarrow> uuid \<Rightarrow> service_job \<Rightarrow> uuid \<Rightarrow> string list" where
  "availability_block_reasons s tid job sid =
     (case j_scheduled_date job of None \<Rightarrow> []
      | Some day \<Rightarrow>
          if \<not> list_ex (\<lambda>m. m_id m = sid) (team_members s) then []
          else map (\<lambda>r. lower (reason_code r)) (filter (\<lambda>r. r \<notin> set advisory)
                 (dr_reasons (resolve_staff_day (direct_source s tid) sid day))))"

definition member_reasons :: "'a slot_db_scheme \<Rightarrow> team_member \<Rightarrow> string list" where
  "member_reasons s m =
     (if m_status m \<noteq> ''active'' then [''staff_inactive'']
      else (case m_user_id m of None \<Rightarrow> []
            | Some u \<Rightarrow> (case first_row (filter (\<lambda>r. us_id r = u) (users s)) of
                Some r \<Rightarrow> if us_is_active r then [] else [''staff_inactive''] | None \<Rightarrow> []))) @
     (if m_can_receive_assignment m = Some True then [] else [''cannot_receive_assignment'']) @
     (if normalise_designation (m_designation m) \<noteq> [] \<and> \<not> is_technician_role (m_designation m) (m_member_type m)
      then [''role_not_allowed''] else [])"

definition login_reasons :: "user_row \<Rightarrow> string list" where
  "login_reasons u =
     (if us_is_active u then [] else [''staff_inactive'']) @
     (let d = normalise_designation (Some (us_role u)) in
      if d \<noteq> [] \<and> d \<notin> set ELIGIBLE_DESIGNATIONS \<and> d \<noteq> ''staff'' then [''role_not_allowed''] else [])"

definition validate_staff_eligibility :: "'a avail_db_scheme \<Rightarrow> uuid \<Rightarrow> service_job \<Rightarrow> uuid \<Rightarrow> string list res" where
  "validate_staff_eligibility s tid job sid =
     (case load_staff s sid of
        None \<Rightarrow> Inl (ValueError ''JOB_ASSIGNMENT_STAFF_NOT_FOUND'')
      | Some st \<Rightarrow>
          (let (home, basic) = (case st of Team m \<Rightarrow> (Some (m_tenant_id m), member_reasons s m)
                                | Login u \<Rightarrow> (us_tenant_id u, login_reasons u))
           in if home \<noteq> j_tenant_id job then Inr [''wrong_tenant'']
              else if basic \<noteq> [] then Inr basic
              else Inr (availability_block_reasons s tid job sid)))"

definition refuse_blocked :: "string list \<Rightarrow> unit res" where
  "refuse_blocked blocked =
     (if ''wrong_tenant'' \<in> set blocked then Inl (ValueError ''JOB_ASSIGNMENT_STAFF_WRONG_TENANT'')
      else if ''staff_inactive'' \<in> set blocked then Inl (ValueError ''JOB_ASSIGNMENT_STAFF_INACTIVE'')
      else if ''role_not_allowed'' \<in> set blocked then Inl (ValueError ''JOB_ASSIGNMENT_ROLE_NOT_ALLOWED'')
      else if blocked \<noteq> [] then Inl (ValueError ''JOB_ASSIGNMENT_STAFF_NOT_ELIGIBLE'')
      else Inr ())"

subsection \<open>Assigning\<close>

definition ASSIGN_TERMINAL_STATUSES :: "job_status list" where
  "ASSIGN_TERMINAL_STATUSES = [JS_CANCELLED, JS_FAILED, JS_COMPLETED]"

definition validate_job_assignable :: "service_job \<Rightarrow> unit res" where
  "validate_job_assignable job =
     (if j_status job \<in> set ASSIGN_TERMINAL_STATUSES
      then Inl (ValueError (if j_status job = JS_CANCELLED then ''JOB_ASSIGNMENT_JOB_CANCELLED'' else ''JOB_ASSIGNMENT_JOB_COMPLETED''))
      else Inr ())"

text \<open>The writes of \<^verbatim>\<open>assign_job\<close>, once every guard has passed.\<close>

definition place_assignment ::
  "'a assign_db_scheme \<Rightarrow> service_job \<Rightarrow> uuid \<Rightarrow> uuid \<Rightarrow> date option \<Rightarrow> string option \<Rightarrow> job_assignment option \<Rightarrow> string option \<Rightarrow>
   'a assign_db_scheme" where
  "place_assignment s job sid tid day window old req =
     (let s1 = (case old of None \<Rightarrow> s
              | Some a \<Rightarrow> set_assignment (ja_id a) (\<lambda>x. x\<lparr>ja_is_current := False, ja_status := ASSIGN_REASSIGNED\<rparr>) s);
          a = \<lparr>ja_id = next_uuid s1, ja_job_id = j_id job, ja_booking_id = j_booking_id job, ja_tenant_id = tid, ja_staff_id = sid,
               ja_status = ASSIGN_ASSIGNED, ja_scheduled_date = day, ja_scheduled_time_window = window, ja_is_current = True\<rparr>;
          s2 = s1\<lparr>job_assignments := job_assignments s1 @ [a], next_uuid := Suc (next_uuid s1)\<rparr>;
          s3 = set_job (j_id job) (\<lambda>j. (if day = None then j else j\<lparr>j_scheduled_date := day, j_scheduled_time_window := window\<rparr>)
                 \<lparr>j_assigned_staff_id := Some sid, j_status := JS_ASSIGNED, j_assignment_status := ASSIGN_ASSIGNED\<rparr>) s2
      in emit_event job (if old = None then ''assignment_created'' else ''assignment_reassigned'') req
           (sync_booking (j_booking_id job) ASSIGN_ASSIGNED JS_ASSIGNED s3))"

definition assign_job ::
  "'a assign_db_scheme \<Rightarrow> assign_env \<Rightarrow> uuid \<Rightarrow> uuid \<Rightarrow> uuid \<Rightarrow> date option \<Rightarrow> string option \<Rightarrow> bool \<Rightarrow> string option \<Rightarrow>
   'a assign_db_scheme res" where
  "assign_job s env jid sid tid date window allow_accepted req =
     (case load_job s jid of
        None \<Rightarrow> Inl AttributeError
      | Some job \<Rightarrow>
          if j_tenant_id job \<noteq> Some tid then Inl (ValueError ''JOB_ASSIGNMENT_ACCESS_DENIED'')
          else bind_res (validate_job_assignable job) (\<lambda>_.
            let day = coalesce date (j_scheduled_date job);
                win = coalesce window (j_scheduled_time_window job)
            in if (j_scheduled_date job \<noteq> None \<or> truthy (j_scheduled_time_window job)) \<and>
                  (day \<noteq> j_scheduled_date job \<or> win \<noteq> j_scheduled_time_window job)
               then Inl (ValueError ''JOB_RESCHEDULE_CUSTOMER_APPROVAL_REQUIRED'')
               else if slot_has_ended day win (en_now env) then Inl (ValueError ''JOB_ASSIGNMENT_VISIT_SLOT_EXPIRED'')
               else (let old = current_assignment s jid;
                         timed_slot = day \<noteq> None \<and> slot_start day win \<noteq> None \<and> slot_end day win \<noteq> None
                     in bind_res (if old = None \<and> \<not> allow_accepted \<and> \<not> timed_slot then assert_wip_capacity s tid else Inr ()) (\<lambda>_.
                          if staff_assignment_conflict_reason s job sid (Some jid) day win \<noteq> None
                          then Inl (ValueError ''JOB_ASSIGNMENT_STAFF_SCHEDULE_CONFLICT'')
                          else bind_res (bind_res (validate_staff_eligibility s tid job sid) refuse_blocked) (\<lambda>_.
                            if (case old of None \<Rightarrow> False | Some a \<Rightarrow> ja_status a = ASSIGN_ACCEPTED) \<and> \<not> allow_accepted
                            then Inl (ValueError ''JOB_ASSIGNMENT_REASSIGN_NOT_ALLOWED'')
                            else Inr (place_assignment s job sid tid day win old req))))))"

definition REASSIGNABLE :: "job_status list" where
  "REASSIGNABLE = [JS_PENDING_ASSIGNMENT, JS_ASSIGNED, JS_ACCEPTED, JS_SCHEDULED, JS_CUSTOMER_NOT_AVAIL]"

definition reassign_job ::
  "'a assign_db_scheme \<Rightarrow> assign_env \<Rightarrow> uuid \<Rightarrow> uuid \<Rightarrow> uuid \<Rightarrow> string \<Rightarrow> string option \<Rightarrow> 'a assign_db_scheme res" where
  "reassign_job s env jid sid tid reason req =
     (if blank reason then Inl (ValueError ''JOB_ASSIGNMENT_REASON_REQUIRED'')
      else bind_res (require (ValueError ''JOB_ASSIGNMENT_JOB_NOT_FOUND'') (load_job s jid)) (\<lambda>job.
        bind_res (validate_job_assignable job) (\<lambda>_.
          if j_status job \<notin> set REASSIGNABLE then Inl (ValueError ''JOB_ASSIGNMENT_REASSIGN_NOT_ALLOWED'')
          else assign_job s env jid sid tid None None True req)))"

subsection \<open>Taking an assignment back, and the technician's answer\<close>

definition release_assignment :: "'a assign_db_scheme \<Rightarrow> service_job \<Rightarrow> job_assignment \<Rightarrow> assign_state \<Rightarrow> assign_state \<Rightarrow> 'a assign_db_scheme" where
  "release_assignment s job a row_state job_state =
     sync_booking (j_booking_id job) job_state JS_PENDING_ASSIGNMENT
       (set_job (j_id job) (\<lambda>j. j\<lparr>j_assigned_staff_id := None, j_status := JS_PENDING_ASSIGNMENT, j_assignment_status := job_state\<rparr>)
         (set_assignment (ja_id a) (\<lambda>x. x\<lparr>ja_status := row_state, ja_is_current := False\<rparr>) s))"

definition cancel_assignment ::
  "'a assign_db_scheme \<Rightarrow> uuid \<Rightarrow> uuid \<Rightarrow> string \<Rightarrow> string option \<Rightarrow> 'a assign_db_scheme res" where
  "cancel_assignment s jid tid reason req =
     (if blank reason then Inl (ValueError ''JOB_ASSIGNMENT_REASON_REQUIRED'')
      else bind_res (require (ValueError ''JOB_ASSIGNMENT_JOB_NOT_FOUND'') (load_job s jid)) (\<lambda>job.
        if j_tenant_id job \<noteq> Some tid then Inl (ValueError ''JOB_ASSIGNMENT_ACCESS_DENIED'')
        else bind_res (require (ValueError ''JOB_ASSIGNMENT_NOT_FOUND'') (current_assignment s jid)) (\<lambda>a.
          if ja_status a = ASSIGN_ACCEPTED then Inl (ValueError ''JOB_ASSIGNMENT_CANCEL_NOT_ALLOWED'')
          else Inr (emit_event job ''assignment_cancelled'' req (release_assignment s job a ASSIGN_CANCELLED ASSIGN_UNASSIGNED)))))"

text \<open>The guards \<^verbatim>\<open>technician_accept_job\<close> and \<^verbatim>\<open>technician_reject_job\<close> share.\<close>

definition own_assignment :: "'a assign_db_scheme \<Rightarrow> uuid \<Rightarrow> uuid \<Rightarrow> uuid option \<Rightarrow> (service_job \<times> job_assignment) res" where
  "own_assignment s jid staff tid =
     bind_res (require (ValueError ''JOB_ASSIGNMENT_JOB_NOT_FOUND'') (load_job s jid)) (\<lambda>job.
       if tid \<noteq> None \<and> j_tenant_id job \<noteq> tid then Inl (ValueError ''JOB_ASSIGNMENT_ACCESS_DENIED'')
       else (case current_assignment s jid of
               None \<Rightarrow> Inl (ValueError ''STAFF_JOB_NOT_ASSIGNED_TO_USER'')
             | Some a \<Rightarrow>
                 if ja_staff_id a \<noteq> staff then Inl (ValueError ''STAFF_JOB_NOT_ASSIGNED_TO_USER'')
                 else if ja_status a = ASSIGN_ACCEPTED then Inl (ValueError ''STAFF_JOB_ALREADY_ACCEPTED'')
                 else if ja_status a = ASSIGN_REJECTED then Inl (ValueError ''STAFF_JOB_ALREADY_REJECTED'')
                 else Inr (job, a)))"

definition technician_accept_job ::
  "'a assign_db_scheme \<Rightarrow> assign_env \<Rightarrow> uuid \<Rightarrow> uuid \<Rightarrow> uuid option \<Rightarrow> string option \<Rightarrow> 'a assign_db_scheme res" where
  "technician_accept_job s env jid staff tid req =
     bind_res (own_assignment s jid staff tid) (\<lambda>(job, a).
       if slot_has_ended (j_scheduled_date job) (j_scheduled_time_window job) (en_now env)
       then Inl (ValueError ''JOB_ASSIGNMENT_VISIT_SLOT_EXPIRED'')
       else Inr (emit_event job ''technician_accepted'' req
              (sync_booking (j_booking_id job) ASSIGN_ACCEPTED JS_ACCEPTED
                (set_job jid (\<lambda>j. j\<lparr>j_status := JS_ACCEPTED, j_assignment_status := ASSIGN_ACCEPTED\<rparr>)
                  (set_assignment (ja_id a) (\<lambda>x. x\<lparr>ja_status := ASSIGN_ACCEPTED\<rparr>) s)))))"

definition technician_reject_job ::
  "'a assign_db_scheme \<Rightarrow> uuid \<Rightarrow> uuid \<Rightarrow> string \<Rightarrow> uuid option \<Rightarrow> string option \<Rightarrow> 'a assign_db_scheme res" where
  "technician_reject_job s jid staff reason tid req =
     (if blank reason then Inl (ValueError ''JOB_ASSIGNMENT_REASON_REQUIRED'')
      else bind_res (own_assignment s jid staff tid) (\<lambda>(job, a).
        Inr (emit_event job ''technician_rejected'' req (release_assignment s job a ASSIGN_REJECTED ASSIGN_REJECTED))))"

subsection \<open>Slot changes the provider asks for (provider_reschedule_service.py)\<close>

definition capacity_available :: "'a assign_db_scheme \<Rightarrow> assign_env \<Rightarrow> service_job \<Rightarrow> date \<Rightarrow> string \<Rightarrow> bool" where
  "capacity_available s env job day window \<longleftrightarrow>
     (case j_tenant_id job of None \<Rightarrow> False
      | Some tid \<Rightarrow> slot_has_capacity s (en_dbnow env) tid day window (Some (j_offering_id job)) (j_job_type_id job) (Some (j_id job)))"

definition approved_provider_reschedule_count :: "'a assign_db_scheme \<Rightarrow> uuid \<Rightarrow> nat" where
  "approved_provider_reschedule_count s jid = length (filter (\<lambda>r. rq_job_id r = Some jid \<and> rq_request_source r = ''provider'' \<and>
     rq_status r = ''approved'') (reschedule_requests s))"

definition pending_request :: "'a assign_db_scheme \<Rightarrow> uuid \<Rightarrow> reschedule_request option" where
  "pending_request s jid = first_row (filter (\<lambda>r. rq_job_id r = Some jid \<and> rq_request_source r = ''provider'' \<and>
     rq_status r = ''pending'') (reschedule_requests s))"

definition expired :: "assign_env \<Rightarrow> reschedule_request \<Rightarrow> bool" where
  "expired env r = (case rq_expires_at r of None \<Rightarrow> False | Some t \<Rightarrow> t \<le> en_now env)"

definition open_request ::
  "'a assign_db_scheme \<Rightarrow> assign_env \<Rightarrow> service_job \<Rightarrow> uuid \<Rightarrow> date \<Rightarrow> string \<Rightarrow> string option \<Rightarrow> 'a assign_db_scheme" where
  "open_request s env job tid day window req =
     emit_event job ''provider_reschedule_requested'' req
       (s\<lparr>reschedule_requests := reschedule_requests s @
            [\<lparr>rq_id = next_uuid s, rq_booking_id = j_booking_id job, rq_job_id = Some (j_id job), rq_tenant_id = tid,
              rq_request_source = ''provider'', rq_original_date = j_scheduled_date job, rq_original_slot = j_scheduled_time_window job,
              rq_requested_date = Some day, rq_requested_slot = Some window, rq_status = ''pending'',
              rq_expires_at = Some (en_now env + op_provider_reschedule_approval_hours (get_home_services_operations_policy s) * 3600 * 1000000)\<rparr>],
          next_uuid := Suc (next_uuid s)\<rparr>)"

definition create_request ::
  "'a assign_db_scheme \<Rightarrow> assign_env \<Rightarrow> uuid \<Rightarrow> uuid \<Rightarrow> date \<Rightarrow> string \<Rightarrow> string \<Rightarrow> string option \<Rightarrow> ('a assign_db_scheme \<times> string) res" where
  "create_request s env jid tid day window reason req =
     (if blank reason then Inl (ServiceOSException ''JOB_ASSIGNMENT_REASON_REQUIRED'')
      else if day < utc_today env then Inl (ServiceOSException ''JOB_ASSIGNMENT_PAST_DATE'')
      else if slot_has_ended (Some day) (Some window) (en_now env) then Inl (ServiceOSException ''JOB_ASSIGNMENT_VISIT_SLOT_EXPIRED'')
      else (case load_job s jid of
        None \<Rightarrow> Inl (ServiceOSException ''JOB_ASSIGNMENT_JOB_NOT_FOUND'')
      | Some job \<Rightarrow>
          if j_tenant_id job \<noteq> Some tid then Inl (ServiceOSException ''JOB_ASSIGNMENT_JOB_NOT_FOUND'')
          else if j_status job \<notin> set REASSIGNABLE then Inl (ServiceOSException ''JOB_ASSIGNMENT_INVALID_STATUS'')
          else if j_scheduled_date job = None \<and> \<not> truthy (j_scheduled_time_window job)
          then Inl (ServiceOSException ''JOB_RESCHEDULE_ORIGINAL_SLOT_REQUIRED'')
          else if j_scheduled_date job = Some day \<and> j_scheduled_time_window job = Some window then Inr (s, ''unchanged'')
          else if (case resolve_job_type_workflow s job of None \<Rightarrow> False | Some w \<Rightarrow> \<not> allows_reschedule w)
          then Inl (ServiceOSException ''JOB_ASSIGNMENT_RESCHEDULE_NOT_ALLOWED'')
          else if op_provider_reschedule_limit (get_home_services_operations_policy s) \<le> int (approved_provider_reschedule_count s jid)
          then Inl (ServiceOSException ''JOB_ASSIGNMENT_RESCHEDULE_LIMIT_REACHED'')
          else if \<not> capacity_available s env job day window then Inl (ServiceOSException ''JOB_ASSIGNMENT_SLOT_UNAVAILABLE'')
          else (case load_booking s (j_booking_id job) of
            None \<Rightarrow> Inl (ServiceOSException ''JOB_RESCHEDULE_CUSTOMER_REQUIRED'')
          | Some b \<Rightarrow>
              if b_customer_id b = None then Inl (ServiceOSException ''JOB_RESCHEDULE_CUSTOMER_REQUIRED'')
              else (case pending_request s jid of
                None \<Rightarrow> Inr (open_request s env job tid day window req, ''pending_customer_approval'')
              | Some r \<Rightarrow>
                  if expired env r
                  then Inr (open_request (set_request (rq_id r) (\<lambda>x. x\<lparr>rq_status := ''expired''\<rparr>) s) env job tid day window req,
                            ''pending_customer_approval'')
                  else if rq_requested_date r = Some day \<and> rq_requested_slot r = Some window then Inr (s, ''pending_customer_approval'')
                  else Inr (open_request (set_request (rq_id r) (\<lambda>x. x\<lparr>rq_status := ''superseded''\<rparr>) s) env job tid day window req,
                            ''pending_customer_approval'')))))"

text \<open>The writes of an approval.\<close>

definition move_visit :: "'a assign_db_scheme \<Rightarrow> service_job \<Rightarrow> uuid \<Rightarrow> date \<Rightarrow> string \<Rightarrow> 'a assign_db_scheme" where
  "move_visit s job bid day window =
     (let s1 = set_booking bid (\<lambda>b. b\<lparr>b_preferred_date := Some day, b_preferred_time_window := Some window, b_status := JS_SCHEDULED\<rparr>)
                 (set_job (j_id job) (\<lambda>j. j\<lparr>j_scheduled_date := Some day, j_scheduled_time_window := Some window, j_status := JS_SCHEDULED,
                    j_reschedule_count := Suc (j_reschedule_count j)\<rparr>) s)
      in case current_assignment s1 (j_id job) of None \<Rightarrow> s1
         | Some a \<Rightarrow> set_assignment (ja_id a) (\<lambda>x. x\<lparr>ja_scheduled_date := Some day, ja_scheduled_time_window := Some window\<rparr>) s1)"

definition requested_window :: "reschedule_request \<Rightarrow> string" where
  "requested_window r = strip (case rq_requested_slot r of None \<Rightarrow> [] | Some w \<Rightarrow> w)"

definition decide_request ::
  "'a assign_db_scheme \<Rightarrow> assign_env \<Rightarrow> uuid \<Rightarrow> uuid \<Rightarrow> string \<Rightarrow> ('a assign_db_scheme \<times> string) res" where
  "decide_request s env rid customer decision =
     (case first_row (filter (\<lambda>r. rq_id r = rid) (reschedule_requests s)) of
        None \<Rightarrow> Inl (ServiceOSException ''RESCHEDULE_REQUEST_NOT_FOUND'')
      | Some r \<Rightarrow>
          if rq_request_source r \<noteq> ''provider'' then Inl (ServiceOSException ''RESCHEDULE_REQUEST_NOT_FOUND'')
          else (case load_booking s (rq_booking_id r) of
            None \<Rightarrow> Inl (ServiceOSException ''RESCHEDULE_REQUEST_NOT_FOUND'')
          | Some b \<Rightarrow>
              if b_customer_id b \<noteq> Some customer then Inl (ServiceOSException ''RESCHEDULE_REQUEST_NOT_FOUND'')
              else if rq_status r \<noteq> ''pending'' then Inl (ServiceOSException ''RESCHEDULE_REQUEST_ALREADY_DECIDED'')
              else if expired env r then Inr (set_request rid (\<lambda>x. x\<lparr>rq_status := ''expired''\<rparr>) s, ''expired'')
              else if decision \<noteq> ''approve'' \<and> decision \<noteq> ''reject'' then Inl (ServiceOSException ''RESCHEDULE_DECISION_INVALID'')
              else (case Option.bind (rq_job_id r) (load_job s) of
                None \<Rightarrow> Inl (ServiceOSException ''JOB_ASSIGNMENT_JOB_NOT_FOUND'')
              | Some job \<Rightarrow>
                  if j_booking_id job \<noteq> b_id b then Inl (ServiceOSException ''JOB_ASSIGNMENT_JOB_NOT_FOUND'')
                  else if decision = ''reject''
                  then Inr (emit_event job ''provider_reschedule_rejected'' None (set_request rid (\<lambda>x. x\<lparr>rq_status := ''rejected''\<rparr>) s), ''rejected'')
                  else (case rq_requested_date r of
                    None \<Rightarrow> Inl (ValueError ''Invalid isoformat string'')
                  | Some day \<Rightarrow>
                      (let window = requested_window r in
                       if \<not> capacity_available s env job day window
                       then Inr (set_request rid (\<lambda>x. x\<lparr>rq_status := ''expired''\<rparr>) s, ''slot_unavailable'')
                       else if op_provider_reschedule_limit (get_home_services_operations_policy s) \<le>
                               int (approved_provider_reschedule_count s (j_id job))
                       then Inr (set_request rid (\<lambda>x. x\<lparr>rq_status := ''expired''\<rparr>) s, ''reschedule_limit_reached'')
                       else Inr (emit_event job ''provider_reschedule_approved'' None
                              (set_request rid (\<lambda>x. x\<lparr>rq_status := ''approved''\<rparr>) (move_visit s job (b_id b) day window)), ''approved''))))))"

definition schedule_job ::
  "'a assign_db_scheme \<Rightarrow> assign_env \<Rightarrow> uuid \<Rightarrow> uuid \<Rightarrow> date \<Rightarrow> string \<Rightarrow> string option \<Rightarrow> string option \<Rightarrow> ('a assign_db_scheme \<times> string) res" where
  "schedule_job s env jid tid day window reason req =
     bind_res (require (ValueError ''JOB_ASSIGNMENT_JOB_NOT_FOUND'') (load_job s jid)) (\<lambda>job.
       if j_tenant_id job \<noteq> Some tid then Inl (ValueError ''JOB_ASSIGNMENT_ACCESS_DENIED'')
       else if j_status job \<notin> set REASSIGNABLE then Inl (ValueError ''JOB_ASSIGNMENT_INVALID_STATUS'')
       else (let moving = j_scheduled_date job \<noteq> Some day \<or> j_scheduled_time_window job \<noteq> Some window in
         if moving \<and> (j_scheduled_date job \<noteq> None \<or> truthy (j_scheduled_time_window job))
         then create_request s env jid tid day window
                (if truthy reason then the reason else ''Provider requested a different visit slot.'') req
         else if moving \<and> \<not> slot_has_capacity s (en_dbnow env) tid day window (Some (j_offering_id job)) (j_job_type_id job) (Some jid)
         then Inl (ValueError ''JOB_ASSIGNMENT_SLOT_UNAVAILABLE'')
         else (let s1 = set_job jid (\<lambda>j. j\<lparr>j_scheduled_date := Some day, j_scheduled_time_window := Some window, j_status := JS_SCHEDULED\<rparr>) s;
                   s2 = (case current_assignment s jid of None \<Rightarrow> s1
                     | Some a \<Rightarrow> set_assignment (ja_id a) (\<lambda>x. x\<lparr>ja_scheduled_date := Some day, ja_scheduled_time_window := Some window\<rparr>) s1)
               in Inr (emit_event job ''job_scheduled'' req (sync_booking (j_booking_id job) (j_assignment_status job) JS_SCHEDULED s2), ''scheduled''))))"

subsection \<open>The customer's own cancel and reschedule\<close>

definition CUSTOMER_CANCELLABLE_JOB_STATUSES :: "job_status list" where
  "CUSTOMER_CANCELLABLE_JOB_STATUSES = [JS_PENDING_ASSIGNMENT, JS_ASSIGNED, JS_ACCEPTED, JS_SCHEDULED]"

definition CUSTOMER_RESCHEDULABLE_JOB_STATUSES :: "job_status list" where
  "CUSTOMER_RESCHEDULABLE_JOB_STATUSES = CUSTOMER_CANCELLABLE_JOB_STATUSES @ [JS_REACHED_SITE, JS_CUSTOMER_NOT_AVAIL]"

definition load_booking_and_job :: "'a job_db_scheme \<Rightarrow> uuid \<Rightarrow> uuid \<Rightarrow> (service_booking \<times> service_job option) res" where
  "load_booking_and_job s bid customer =
     bind_res (require (ValueError ''JOB_ASSIGNMENT_BOOKING_NOT_FOUND'') (load_booking s bid)) (\<lambda>b.
       if b_customer_id b \<noteq> Some customer then Inl (ValueError ''JOB_ASSIGNMENT_ACCESS_DENIED'')
       else Inr (b, first_row (filter (\<lambda>j. j_booking_id j = bid) (service_jobs s))))"

text \<open>The booking of the caller and its job; every caller but the tracking read refuses a booking without a job.\<close>

definition own_job :: "'a job_db_scheme \<Rightarrow> uuid \<Rightarrow> uuid \<Rightarrow> service_job res" where
  "own_job s bid customer = bind_res (load_booking_and_job s bid customer) (\<lambda>(b, job). require (ValueError ''JOB_ASSIGNMENT_JOB_NOT_FOUND'') job)"

definition check_version :: "bool \<Rightarrow> unit res" where
  "check_version stale = (if stale then Inl (ValueError ''JOB_ASSIGNMENT_STALE_VERSION'') else Inr ())"

record cancel_decision =
  cd_block_reason :: "string option"
  cd_deadline :: "moment option"
  cd_cutoff_minutes :: int
  cd_reason_options :: "cancellation_rule list"

definition can_cancel :: "cancel_decision \<Rightarrow> bool" where
  "can_cancel d \<longleftrightarrow> cd_block_reason d = None"

definition customer_cancellation_decision ::
  "assign_env \<Rightarrow> service_job \<Rightarrow> job_workflow option \<Rightarrow> operations_policy \<Rightarrow> cancel_decision" where
  "customer_cancellation_decision env job workflow policy =
     (let cutoff = max 0 (op_customer_cancellation_cutoff_minutes policy);
          deadline = map_option (\<lambda>start. start - cutoff * 60 * 1000000) (slot_start (j_scheduled_date job) (j_scheduled_time_window job));
          code = (if \<not> op_customer_cancellation_enabled policy then Some ''customer_cancellation_disabled''
                  else if given workflow (\<lambda>w. \<not> allows_cancellation w) then Some ''service_policy_disallows_cancellation''
                  else if j_status job \<notin> set CUSTOMER_CANCELLABLE_JOB_STATUSES then Some ''booking_not_in_cancellable_state''
                  else if given deadline (\<lambda>t. t \<le> en_now env) then Some ''customer_cancellation_cutoff_passed''
                  else None)
      in \<lparr>cd_block_reason = code, cd_deadline = deadline, cd_cutoff_minutes = cutoff,
          cd_reason_options = filter cn_active (op_customer_cancellation_reasons policy)\<rparr>)"

record eligibility =
  el_cancellation :: cancel_decision
  el_can_reschedule :: bool
  el_reschedule_block_reason :: "string option"
  el_remaining_reschedule_allowance :: int

definition get_customer_eligibility :: "'a assign_db_scheme \<Rightarrow> assign_env \<Rightarrow> uuid \<Rightarrow> uuid \<Rightarrow> eligibility res" where
  "get_customer_eligibility s env bid customer =
     bind_res (own_job s bid customer) (\<lambda>job.
       let workflow = resolve_job_type_workflow s job;
           allows = \<not> given workflow (\<lambda>w. \<not> allows_reschedule w);
           policy = get_home_services_operations_policy s;
           remaining = max 0 (op_customer_reschedule_limit policy - int (customer_reschedule_count s (j_id job)));
           state_eligible = j_status job \<in> set CUSTOMER_RESCHEDULABLE_JOB_STATUSES
       in Inr \<lparr>el_cancellation = customer_cancellation_decision env job workflow policy,
               el_can_reschedule = (state_eligible \<and> allows \<and> 0 < remaining),
               el_reschedule_block_reason =
                 (if \<not> allows then Some ''service_policy_disallows_reschedule''
                  else if \<not> state_eligible then Some ''booking_not_in_reschedulable_state''
                  else if remaining \<le> 0 then Some ''reschedule_limit_reached'' else None),
               el_remaining_reschedule_allowance = remaining\<rparr>)"

definition get_reschedule_available_dates ::
  "'a assign_db_scheme \<Rightarrow> assign_env \<Rightarrow> uuid \<Rightarrow> uuid \<Rightarrow> int \<Rightarrow> (date \<times> bool) list res" where
  "get_reschedule_available_dates s env bid customer horizon_days =
     bind_res (own_job s bid customer) (\<lambda>job.
       if given (resolve_job_type_workflow s job) (\<lambda>w. \<not> allows_reschedule w) then Inl (ValueError ''JOB_ASSIGNMENT_RESCHEDULE_NOT_ALLOWED'')
       else (case j_tenant_id job of None \<Rightarrow> Inr []
             | Some tid \<Rightarrow> Inr (map (\<lambda>i. let d = utc_today env + int i in (d, ag_available (aggregate_slot_available s tid d)))
                 [1..<Suc (nat (max 1 (min horizon_days 30)))])))"

text \<open>
  The dict of the accepted rules, as the list of its values: one entry per code, at the place of the code's first rule,
  holding its last.
\<close>

definition reason_rules :: "cancellation_rule list \<Rightarrow> cancellation_rule list" where
  "reason_rules rules = map (\<lambda>c. the (find (\<lambda>r. cn_code r = c) (rev rules))) (rev (remdups (rev (map cn_code rules))))"

definition cancellation_rule_for :: "cancellation_rule list \<Rightarrow> string \<Rightarrow> cancellation_rule option" where
  "cancellation_rule_for rules reason =
     (case find (\<lambda>r. cn_code r = reason) (reason_rules rules) of
        Some r \<Rightarrow> Some r
      | None \<Rightarrow> find (\<lambda>r. lower (strip (cn_label r)) = lower (strip reason)) (reason_rules rules))"

definition event_recorded :: "'a assign_db_scheme \<Rightarrow> uuid \<Rightarrow> string \<Rightarrow> string option \<Rightarrow> bool" where
  "event_recorded s bid ty req \<longleftrightarrow> truthy req \<and>
     list_ex (\<lambda>e. ae_booking_id e = bid \<and> ae_event_type e = ty \<and> ae_request_id e = req) (assignment_events s)"

text \<open>The writes of a cancellation; a report of off-platform solicitation also leaves an execution event.\<close>

definition apply_cancellation :: "'a assign_db_scheme \<Rightarrow> service_job \<Rightarrow> uuid \<Rightarrow> string \<Rightarrow> string option \<Rightarrow> 'a assign_db_scheme" where
  "apply_cancellation s job bid code req =
     (let s1 = (case current_assignment s (j_id job) of None \<Rightarrow> s
              | Some a \<Rightarrow> set_assignment (ja_id a) (\<lambda>x. x\<lparr>ja_is_current := False, ja_status := ASSIGN_CANCELLED\<rparr>) s);
          s2 = set_job (j_id job) (\<lambda>j. j\<lparr>j_status := JS_CANCELLED, j_assigned_staff_id := None, j_assignment_status := ASSIGN_CANCELLED\<rparr>) s1;
          s3 = emit_event job ''customer_cancelled_booking'' req (sync_booking bid ASSIGN_CANCELLED JS_CANCELLED s2)
      in if code = ''provider_asked_to_cancel_or_pay_direct''
         then s3\<lparr>execution_events := execution_events s3 @ [\<lparr>ev_job_id = j_id job,
             ev_event_type = ''off_platform_solicitation_reported'', ev_old_status = Some (j_status job),
             ev_new_status = Some JS_CANCELLED\<rparr>]\<rparr>
         else s3)"

definition customer_cancel_booking ::
  "'a assign_db_scheme \<Rightarrow> assign_env \<Rightarrow> uuid \<Rightarrow> uuid \<Rightarrow> string \<Rightarrow> string option \<Rightarrow> bool \<Rightarrow> string option \<Rightarrow> 'a assign_db_scheme res" where
  "customer_cancel_booking s env bid customer reason detail stale req =
     (if blank reason then Inl (ValueError ''JOB_ASSIGNMENT_REASON_REQUIRED'')
      else bind_res (own_job s bid customer) (\<lambda>job.
        let workflow = resolve_job_type_workflow s job in
        if given workflow (\<lambda>w. \<not> allows_cancellation w) then Inl (ValueError ''JOB_ASSIGNMENT_CANCEL_NOT_ALLOWED'')
        else if j_status job = JS_CANCELLED
        then (if event_recorded s bid ''customer_cancelled_booking'' req then Inr s else Inl (ValueError ''JOB_ASSIGNMENT_CANCEL_NOT_ALLOWED''))
        else (let decision = customer_cancellation_decision env job workflow (get_home_services_operations_policy s) in
          if \<not> can_cancel decision then Inl (ValueError ''JOB_ASSIGNMENT_CANCEL_NOT_ALLOWED'')
          else bind_res (check_version stale) (\<lambda>_.
            case cancellation_rule_for (cd_reason_options decision) reason of
              None \<Rightarrow> Inl (ValueError ''JOB_ASSIGNMENT_INVALID_REASON'')
            | Some rule \<Rightarrow>
                if cn_requires_detail rule \<and> blank (case detail of None \<Rightarrow> [] | Some d \<Rightarrow> d)
                then Inl (ValueError ''JOB_ASSIGNMENT_REASON_REQUIRED'')
                else Inr (apply_cancellation s job bid (cn_code rule) req)))))"

text \<open>The writes of a reschedule. Only a visit that had begun moves the assignment row along.\<close>

definition apply_reschedule ::
  "'a assign_db_scheme \<Rightarrow> service_job \<Rightarrow> uuid \<Rightarrow> date \<Rightarrow> string option \<Rightarrow> string option \<Rightarrow> 'a assign_db_scheme" where
  "apply_reschedule s job bid day window req =
     (let begun = j_status job = JS_REACHED_SITE \<or> j_status job = JS_CUSTOMER_NOT_AVAIL;
          s1 = set_job (j_id job) (\<lambda>j. (if begun then j\<lparr>j_status := JS_SCHEDULED\<rparr> else j)
                 \<lparr>j_scheduled_date := Some day, j_scheduled_time_window := window, j_reschedule_count := Suc (j_reschedule_count j)\<rparr>) s;
          s2 = (case (begun, current_assignment s (j_id job)) of
                  (True, Some a) \<Rightarrow> set_assignment (ja_id a) (\<lambda>x. x\<lparr>ja_scheduled_date := Some day, ja_scheduled_time_window := window\<rparr>) s1
                | _ \<Rightarrow> s1);
          s3 = set_booking bid (\<lambda>b. (if begun then b\<lparr>b_status := JS_SCHEDULED\<rparr> else b)
                 \<lparr>b_preferred_date := Some day, b_preferred_time_window := window\<rparr>) s2
      in emit_event job ''customer_rescheduled_booking'' req s3)"

definition customer_reschedule_booking ::
  "'a assign_db_scheme \<Rightarrow> assign_env \<Rightarrow> uuid \<Rightarrow> uuid \<Rightarrow> date \<Rightarrow> string option \<Rightarrow> string \<Rightarrow> bool \<Rightarrow> string option \<Rightarrow> 'a assign_db_scheme res" where
  "customer_reschedule_booking s env bid customer day window reason stale req =
     (if blank reason then Inl (ValueError ''JOB_ASSIGNMENT_REASON_REQUIRED'')
      else if day < utc_today env then Inl (ValueError ''JOB_ASSIGNMENT_PAST_DATE'')
      else bind_res (own_job s bid customer) (\<lambda>job.
        if given (resolve_job_type_workflow s job) (\<lambda>w. \<not> allows_reschedule w) then Inl (ValueError ''JOB_ASSIGNMENT_RESCHEDULE_NOT_ALLOWED'')
        else if event_recorded s bid ''customer_rescheduled_booking'' req \<and> j_scheduled_date job = Some day \<and> j_scheduled_time_window job = window
        then Inr s
        else if j_status job \<notin> set CUSTOMER_RESCHEDULABLE_JOB_STATUSES then Inl (ValueError ''JOB_ASSIGNMENT_RESCHEDULE_NOT_ALLOWED'')
        else if op_customer_reschedule_limit (get_home_services_operations_policy s) \<le> int (customer_reschedule_count s (j_id job))
        then Inl (ValueError ''JOB_ASSIGNMENT_RESCHEDULE_LIMIT_REACHED'')
        else bind_res (check_version stale) (\<lambda>_.
          if given (j_tenant_id job) (\<lambda>tid. \<not> ag_available (aggregate_slot_available s tid day) \<or>
               (truthy window \<and> \<not> slot_has_capacity s (en_dbnow env) tid day (the window) (Some (j_offering_id job)) (j_job_type_id job)
                  (Some (j_id job))))
          then Inl (ValueError ''JOB_ASSIGNMENT_SLOT_UNAVAILABLE'')
          else Inr (apply_reschedule s job bid day window req))))"

subsection \<open>The dispatcher's list\<close>

text \<open>
  The members of the roster, or the logins when the tenant keeps no roster. The skill warnings of the list, which block
  nobody, are not kept.
\<close>

definition roster_for :: "'a slot_db_scheme \<Rightarrow> uuid \<Rightarrow> staff list" where
  "roster_for s tid =
     (let all_staff = filter (\<lambda>m. m_tenant_id m = tid \<and> \<not> m_deleted m) (team_members s)
      in if all_staff \<noteq> [] then map Team all_staff
         else map Login (filter (\<lambda>u. us_tenant_id u = Some tid \<and> us_role u \<in> {''technician'', ''staff''}) (users s)))"

definition staff_id_of :: "staff \<Rightarrow> uuid" where
  "staff_id_of st = (case st of Team m \<Rightarrow> m_id m | Login u \<Rightarrow> us_id u)"

definition conflict_code :: "conflict \<Rightarrow> string" where
  "conflict_code c = (case c of ACTIVE_JOB_IN_PROGRESS \<Rightarrow> ''active_job_in_progress'' | SCHEDULE_CONFLICT \<Rightarrow> ''schedule_conflict'')"

definition blocked_reasons :: "'a avail_db_scheme \<Rightarrow> uuid \<Rightarrow> service_job \<Rightarrow> staff \<Rightarrow> string list" where
  "blocked_reasons s tid job st =
     (let reasons = (case st of Team m \<Rightarrow> member_reasons s m | Login u \<Rightarrow> if us_is_active u then [] else [''staff_inactive'']) @
            availability_block_reasons s tid job (staff_id_of st)
      in if reasons \<noteq> [] then reasons
         else (case staff_assignment_conflict_reason s job (staff_id_of st) (Some (j_id job)) None None of
                 None \<Rightarrow> [] | Some c \<Rightarrow> [conflict_code c]))"

definition list_eligible_staff_for_job ::
  "'a assign_db_scheme \<Rightarrow> uuid \<Rightarrow> uuid \<Rightarrow> (uuid list \<times> (uuid \<times> string list) list) res" where
  "list_eligible_staff_for_job s jid tid =
     bind_res (require (ValueError ''JOB_ASSIGNMENT_JOB_NOT_FOUND'') (load_job s jid)) (\<lambda>job.
       if j_tenant_id job \<noteq> Some tid then Inl (ValueError ''JOB_ASSIGNMENT_ACCESS_DENIED'')
       else Inr (map staff_id_of (filter (\<lambda>st. blocked_reasons s tid job st = []) (roster_for s tid)),
                 map (\<lambda>st. (staff_id_of st, blocked_reasons s tid job st)) (filter (\<lambda>st. blocked_reasons s tid job st \<noteq> []) (roster_for s tid))))"

section \<open>Assignments: results\<close>

subsection \<open>The tables a write touches\<close>

named_theorems board_simps "the tables behind each write"

lemma set_job_tables [board_simps]:
  "service_jobs (set_job jid f s) = update_where (\<lambda>j. j_id j = jid) f (service_jobs s)"
  "job_assignments (set_job jid f s) = job_assignments s"
  "assignment_events (set_job jid f s) = assignment_events s"
  "reschedule_requests (set_job jid f s) = reschedule_requests s"
  "next_uuid (set_job jid f s) = next_uuid s"
  by (simp_all add: set_job_def)

lemma set_booking_tables [board_simps]:
  "service_jobs (set_booking bid g s) = service_jobs s"
  "job_assignments (set_booking bid g s) = job_assignments s"
  "assignment_events (set_booking bid g s) = assignment_events s"
  "reschedule_requests (set_booking bid g s) = reschedule_requests s"
  "next_uuid (set_booking bid g s) = next_uuid s"
  by (simp_all add: set_booking_def)

lemma set_assignment_tables [board_simps]:
  "service_jobs (set_assignment aid g s) = service_jobs s"
  "job_assignments (set_assignment aid g s) = update_where (\<lambda>a. ja_id a = aid) g (job_assignments s)"
  "assignment_events (set_assignment aid g s) = assignment_events s"
  "reschedule_requests (set_assignment aid g s) = reschedule_requests s"
  "next_uuid (set_assignment aid g s) = next_uuid s"
  by (simp_all add: set_assignment_def)

lemma set_request_tables [board_simps]:
  "service_jobs (set_request rid g s) = service_jobs s"
  "job_assignments (set_request rid g s) = job_assignments s"
  "assignment_events (set_request rid g s) = assignment_events s"
  "reschedule_requests (set_request rid g s) = update_where (\<lambda>r. rq_id r = rid) g (reschedule_requests s)"
  "next_uuid (set_request rid g s) = next_uuid s"
  by (simp_all add: set_request_def)

lemma sync_booking_tables [board_simps]:
  "service_jobs (sync_booking bid ast st s) = service_jobs s"
  "job_assignments (sync_booking bid ast st s) = job_assignments s"
  "assignment_events (sync_booking bid ast st s) = assignment_events s"
  "reschedule_requests (sync_booking bid ast st s) = reschedule_requests s"
  "next_uuid (sync_booking bid ast st s) = next_uuid s"
  by (simp_all add: sync_booking_def board_simps)

lemma emit_event_tables [board_simps]:
  "service_jobs (emit_event job ty req s) = service_jobs s"
  "job_assignments (emit_event job ty req s) = job_assignments s"
  "assignment_events (emit_event job ty req s) = assignment_events s @
     [\<lparr>ae_job_id = j_id job, ae_booking_id = j_booking_id job, ae_event_type = ty, ae_request_id = req\<rparr>]"
  "reschedule_requests (emit_event job ty req s) = reschedule_requests s"
  "next_uuid (emit_event job ty req s) = next_uuid s"
  by (simp_all add: emit_event_def)

text \<open>The published policy is read, never written.\<close>

lemma policy_kept [board_simps]:
  "get_home_services_operations_policy (set_job jid f s) = get_home_services_operations_policy s"
  "get_home_services_operations_policy (set_booking bid g s) = get_home_services_operations_policy s"
  "get_home_services_operations_policy (set_assignment aid h s) = get_home_services_operations_policy s"
  "get_home_services_operations_policy (set_request rid k s) = get_home_services_operations_policy s"
  "get_home_services_operations_policy (sync_booking bid ast st s) = get_home_services_operations_policy s"
  "get_home_services_operations_policy (emit_event job ty req s) = get_home_services_operations_policy s"
  by (simp_all add: get_home_services_operations_policy_def set_job_def set_booking_def set_assignment_def set_request_def
      sync_booking_def emit_event_def)

subsection \<open>The board: who holds which job\<close>

definition live_state :: "assign_state \<Rightarrow> bool" where
  "live_state st \<longleftrightarrow> st = ASSIGN_ASSIGNED \<or> st = ASSIGN_ACCEPTED"

definition current_of :: "job_assignment list \<Rightarrow> uuid \<Rightarrow> job_assignment option" where
  "current_of as jid = first_row (filter (\<lambda>a. ja_job_id a = jid \<and> ja_is_current a) as)"

lemma current_assignment_of: "current_assignment s jid = current_of (job_assignments s) jid"
  by (simp add: current_assignment_def current_of_def)

definition board_ok :: "service_job list \<Rightarrow> job_assignment list \<Rightarrow> nat \<Rightarrow> bool" where
  "board_ok js as n \<longleftrightarrow> distinct (map j_id js) \<and> distinct (map ja_id as) \<and> (\<forall>a \<in> set as. ja_id a < n) \<and>
     distinct (map ja_job_id (filter ja_is_current as)) \<and>
     (\<forall>a \<in> set as. ja_is_current a \<longleftrightarrow> live_state (ja_status a)) \<and>
     (\<forall>j \<in> set js. j_assigned_staff_id j = map_option ja_staff_id (current_of as (j_id j)))"

definition assign_ok :: "'a assign_db_scheme \<Rightarrow> bool" where
  "assign_ok s \<longleftrightarrow> board_ok (service_jobs s) (job_assignments s) (next_uuid s)"

definition row_status :: "job_assignment list \<Rightarrow> uuid \<Rightarrow> assign_state option" where
  "row_status as i = map_option ja_status (first_row (filter (\<lambda>a. ja_id a = i) as))"

lemma first_row_filter_map:
  "first_row (filter P (map g xs)) = map_option g (first_row (filter (\<lambda>x. P (g x)) xs))"
  by (induction xs) auto

lemma current_of_Some:
  assumes "board_ok js as n" and "current_of as jid = Some a"
  shows "a \<in> set as" "ja_job_id a = jid" "ja_is_current a" "filter (\<lambda>x. ja_job_id x = jid \<and> ja_is_current x) as = [a]"
proof -
  from assms(2) have "a \<in> set (filter (\<lambda>x. ja_job_id x = jid \<and> ja_is_current x) as)"
    unfolding current_of_def by (rule first_row_Some_set)
  then show a: "a \<in> set as" "ja_job_id a = jid" "ja_is_current a" by auto
  from assms(1) a have "filter (\<lambda>r. ja_job_id r = ja_job_id a) (filter ja_is_current as) = [a]"
    by (intro filter_key_single) (auto simp: board_ok_def)
  with a show "filter (\<lambda>x. ja_job_id x = jid \<and> ja_is_current x) as = [a]" by (simp add: conj_commute)
qed

text \<open>Four ways a write can move the board.\<close>

inductive board_move ::
  "service_job list \<times> job_assignment list \<times> nat \<Rightarrow> service_job list \<times> job_assignment list \<times> nat \<Rightarrow> bool" where
  keep: "\<lbrakk>\<And>j. j_id (f j) = j_id j; \<And>j. j_assigned_staff_id (f j) = j_assigned_staff_id j;
          \<And>a. ja_id (g a) = ja_id a; \<And>a. ja_job_id (g a) = ja_job_id a; \<And>a. ja_staff_id (g a) = ja_staff_id a;
          \<And>a. ja_is_current (g a) = ja_is_current a; \<And>a. ja_status (g a) = ja_status a; n \<le> m\<rbrakk>
         \<Longrightarrow> board_move (js, as, n) (map f js, map g as, m)"
| answer: "\<lbrakk>\<And>j. j_id (f j) = j_id j; \<And>j. j_assigned_staff_id (f j) = j_assigned_staff_id j;
          current_of as jid = Some a; ja_status a \<noteq> ASSIGN_ACCEPTED\<rbrakk>
         \<Longrightarrow> board_move (js, as, n) (map f js, update_where (\<lambda>x. ja_id x = ja_id a) (\<lambda>x. x\<lparr>ja_status := ASSIGN_ACCEPTED\<rparr>) as, n)"
| vacate: "\<lbrakk>\<And>j. j_id (f j) = j_id j; \<And>j. j_assigned_staff_id (f j) = None; current_of as jid = None\<rbrakk>
         \<Longrightarrow> board_move (js, as, n) (update_where (\<lambda>j. j_id j = jid) f js, as, n)"
| drop: "\<lbrakk>\<And>j. j_id (f j) = j_id j; \<And>j. j_assigned_staff_id (f j) = None; current_of as jid = Some a;
          st = ASSIGN_CANCELLED \<or> st = ASSIGN_REASSIGNED \<or> (st = ASSIGN_REJECTED \<and> ja_status a \<noteq> ASSIGN_ACCEPTED)\<rbrakk>
         \<Longrightarrow> board_move (js, as, n) (update_where (\<lambda>j. j_id j = jid) f js,
               update_where (\<lambda>x. ja_id x = ja_id a) (\<lambda>x. x\<lparr>ja_is_current := False, ja_status := st\<rparr>) as, n)"
| place: "\<lbrakk>\<And>j. j_id (f j) = j_id j; \<And>j. j_assigned_staff_id (f j) = Some (ja_staff_id a); current_of as (ja_job_id a) = None;
          ja_id a = n; ja_is_current a; ja_status a = ASSIGN_ASSIGNED\<rbrakk>
         \<Longrightarrow> board_move (js, as, n) (update_where (\<lambda>j. j_id j = ja_job_id a) f js, as @ [a], Suc n)"

lemma current_of_drop:
  assumes "board_ok js as n" and "current_of as jid = Some a"
  shows "current_of (update_where (\<lambda>x. ja_id x = ja_id a) (\<lambda>x. x\<lparr>ja_is_current := False, ja_status := st\<rparr>) as) k =
    (if k = jid then None else current_of as k)"
proof -
  note a = current_of_Some [OF assms]
  have filt: "filter (\<lambda>x. ja_job_id x = k \<and> ja_is_current x)
      (update_where (\<lambda>x. ja_id x = ja_id a) (\<lambda>x. x\<lparr>ja_is_current := False, ja_status := st\<rparr>) as) =
    filter (\<lambda>x. ja_id x \<noteq> ja_id a) (filter (\<lambda>x. ja_job_id x = k \<and> ja_is_current x) as)" for as
    by (induction as) auto
  show ?thesis
  proof (cases "k = jid")
    case True
    with a(4) show ?thesis unfolding current_of_def filt by simp
  next
    case False
    from assms(1) a(1) have "x = a" if "x \<in> set as" "ja_id x = ja_id a" for x
      using that by (auto simp: board_ok_def distinct_map dest: inj_onD)
    with False a(2) have "filter (\<lambda>x. ja_id x \<noteq> ja_id a) (filter (\<lambda>x. ja_job_id x = k \<and> ja_is_current x) as) =
      filter (\<lambda>x. ja_job_id x = k \<and> ja_is_current x) as"
      by (intro filter_True) auto
    with False show ?thesis unfolding current_of_def filt by simp
  qed
qed

lemma current_of_append:
  "current_of (as @ [a]) k = (case current_of as k of
     None \<Rightarrow> if ja_job_id a = k \<and> ja_is_current a then Some a else None | Some x \<Rightarrow> Some x)"
  by (simp add: current_of_def first_row_append split: option.splits)

lemma current_of_map:
  assumes "\<And>a. ja_job_id (g a) = ja_job_id a" "\<And>a. ja_is_current (g a) = ja_is_current a"
  shows "current_of (map g as) k = map_option g (current_of as k)"
  by (simp add: current_of_def first_row_filter_map assms)

lemma live_state_simps [simp]:
  "live_state ASSIGN_ASSIGNED" "live_state ASSIGN_ACCEPTED" "\<not> live_state ASSIGN_UNASSIGNED"
  "\<not> live_state ASSIGN_REJECTED" "\<not> live_state ASSIGN_CANCELLED" "\<not> live_state ASSIGN_REASSIGNED"
  by (simp_all add: live_state_def)

lemma board_ok_keep:
  assumes "board_ok js as n" and f: "\<And>j. j_id (f j) = j_id j" "\<And>j. j_assigned_staff_id (f j) = j_assigned_staff_id j"
    and g: "\<And>a. ja_id (g a) = ja_id a" "\<And>a. ja_job_id (g a) = ja_job_id a" "\<And>a. ja_staff_id (g a) = ja_staff_id a"
      "\<And>a. ja_is_current (g a) = ja_is_current a" "\<And>a. live_state (ja_status (g a)) = live_state (ja_status a)" and "n \<le> m"
  shows "board_ok (map f js) (map g as) m"
proof -
  have eqs: "j_id \<circ> f = j_id" "ja_id \<circ> g = ja_id" "ja_job_id \<circ> g = ja_job_id" "ja_is_current \<circ> g = ja_is_current"
    "ja_staff_id \<circ> g = ja_staff_id" by (simp_all add: fun_eq_iff f g)
  from assms(1) \<open>n \<le> m\<close> show ?thesis
    by (auto simp: board_ok_def filter_map eqs f g current_of_map option.map_comp)
qed

lemma board_ok_drop:
  assumes "board_ok js as n" and f: "\<And>j. j_id (f j) = j_id j" "\<And>j. j_assigned_staff_id (f j) = None"
    and cur: "current_of as jid = Some a" and "\<not> live_state st"
  shows "board_ok (update_where (\<lambda>j. j_id j = jid) f js)
     (update_where (\<lambda>x. ja_id x = ja_id a) (\<lambda>x. x\<lparr>ja_is_current := False, ja_status := st\<rparr>) as) n"
proof -
  let ?as = "update_where (\<lambda>x. ja_id x = ja_id a) (\<lambda>x. x\<lparr>ja_is_current := False, ja_status := st\<rparr>) as"
  note ok = assms(1) [unfolded board_ok_def]
  have "filter ja_is_current ?as = filter (\<lambda>x. ja_id x \<noteq> ja_id a) (filter ja_is_current as)"
    by (induction as) auto
  then have "distinct (map ja_job_id (filter ja_is_current ?as))" using ok by (metis distinct_map_filter)
  moreover have "\<forall>x \<in> set ?as. ja_id x < n \<and> (ja_is_current x \<longleftrightarrow> live_state (ja_status x))"
    using ok \<open>\<not> live_state st\<close> by (auto simp: set_update_where)
  moreover have "\<forall>j \<in> set (update_where (\<lambda>j. j_id j = jid) f js). j_assigned_staff_id j = map_option ja_staff_id (current_of ?as (j_id j))"
    using ok by (auto simp: set_update_where f current_of_drop [OF assms(1) cur])
  ultimately show ?thesis using ok by (simp add: board_ok_def map_update_where_key f)
qed

lemma board_ok_vacate:
  assumes "board_ok js as n" and f: "\<And>j. j_id (f j) = j_id j" "\<And>j. j_assigned_staff_id (f j) = None" and "current_of as jid = None"
  shows "board_ok (update_where (\<lambda>j. j_id j = jid) f js) as n"
  using assms by (auto simp: board_ok_def map_update_where_key set_update_where)

lemma board_ok_place:
  assumes "board_ok js as n" and f: "\<And>j. j_id (f j) = j_id j" "\<And>j. j_assigned_staff_id (f j) = Some (ja_staff_id a)"
    and none: "current_of as (ja_job_id a) = None" and a: "ja_id a = n" "ja_is_current a" "ja_status a = ASSIGN_ASSIGNED"
  shows "board_ok (update_where (\<lambda>j. j_id j = ja_job_id a) f js) (as @ [a]) (Suc n)"
proof -
  note ok = assms(1) [unfolded board_ok_def]
  from none have "ja_job_id a \<notin> set (map ja_job_id (filter ja_is_current as))"
    by (auto simp: current_of_def first_row_None filter_empty_conv)
  moreover from ok a have "ja_id a \<notin> set (map ja_id as)" by auto
  moreover have "\<forall>j \<in> set (update_where (\<lambda>j. j_id j = ja_job_id a) f js).
      j_assigned_staff_id j = map_option ja_staff_id (current_of (as @ [a]) (j_id j))"
  proof
    fix j assume "j \<in> set (update_where (\<lambda>j. j_id j = ja_job_id a) f js)"
    then consider i where "i \<in> set js" "j_id i = ja_job_id a" "j = f i" | "j \<in> set js" "j_id j \<noteq> ja_job_id a"
      by (auto simp: set_update_where)
    then show "j_assigned_staff_id j = map_option ja_staff_id (current_of (as @ [a]) (j_id j))"
    proof cases
      case 1
      then show ?thesis using none a(2) by (simp add: f current_of_append)
    next
      case 2
      with ok show ?thesis by (simp add: current_of_append split: option.splits)
    qed
  qed
  moreover have "\<forall>x \<in> set as. ja_id x < Suc n" using ok by (meson less_SucI)
  ultimately show ?thesis using ok a unfolding board_ok_def by (simp add: map_update_where_key f)
qed

lemma board_move_ok: "board_move (js, as, n) (js', as', m) \<Longrightarrow> board_ok js as n \<Longrightarrow> board_ok js' as' m"
proof (induction "(js, as, n)" "(js', as', m)" rule: board_move.induct)
  case (keep f g)
  then have "board_ok (map f js) (map g as) m" by (intro board_ok_keep) auto
  with keep show ?case by simp
next
  case (answer f jid a)
  then have "live_state (ja_status a)" using current_of_Some [of js as n jid a] by (auto simp: board_ok_def)
  with answer have "live_state (ja_status x)" if "x \<in> set as" "ja_id x = ja_id a" for x
    using that current_of_Some(1) [of js as n jid a] by (auto simp: board_ok_def distinct_map dest: inj_onD)
  then have "board_ok (map f js) (map (\<lambda>x. if ja_id x = ja_id a \<and> live_state (ja_status x) then x\<lparr>ja_status := ASSIGN_ACCEPTED\<rparr> else x) as) n"
    using answer by (intro board_ok_keep) auto
  moreover have "map (\<lambda>x. if ja_id x = ja_id a \<and> live_state (ja_status x) then x\<lparr>ja_status := ASSIGN_ACCEPTED\<rparr> else x) as =
    update_where (\<lambda>x. ja_id x = ja_id a) (\<lambda>x. x\<lparr>ja_status := ASSIGN_ACCEPTED\<rparr>) as"
    using \<open>\<And>x. x \<in> set as \<Longrightarrow> ja_id x = ja_id a \<Longrightarrow> live_state (ja_status x)\<close> by (auto simp: update_where_def)
  ultimately show ?case using answer by simp
next
  case (vacate f jid)
  then show ?case by (auto intro: board_ok_vacate)
next
  case (drop f jid a st)
  then show ?case by (auto intro!: board_ok_drop)
next
  case (place f a)
  then show ?case by (auto intro: board_ok_place)
qed

subsection \<open>Every operation moves the board\<close>

definition board :: "'a assign_db_scheme \<Rightarrow> service_job list \<times> job_assignment list \<times> nat" where
  "board s = (service_jobs s, job_assignments s, next_uuid s)"

lemma update_where_absorb:
  "(\<And>x. p (g x) = p x) \<Longrightarrow> (\<And>x. f (g x) = f x) \<Longrightarrow> update_where p f (update_where p g xs) = update_where p f xs"
  by (induction xs) auto

lemma load_job_id: "load_job s jid = Some job \<Longrightarrow> job \<in> set (service_jobs s) \<and> j_id job = jid"
  by (auto simp: load_job_def dest: first_row_Some_set)

lemma own_job_row: "own_job s bid customer = Inr job \<Longrightarrow> job \<in> set (service_jobs s) \<and> j_booking_id job = bid"
  by (auto simp: own_job_def load_booking_and_job_def res_simps split: if_splits dest!: first_row_Some_set)

lemma place_moves:
  assumes "assign_ok s" and old: "old = current_assignment s (j_id job)"
  shows "board_move\<^sup>*\<^sup>* (board s) (board (place_assignment s job sid tid day window old req))"
proof -
  let ?f = "\<lambda>j. (if day = None then j else j\<lparr>j_scheduled_date := day, j_scheduled_time_window := window\<rparr>)
                 \<lparr>j_assigned_staff_id := Some sid, j_status := JS_ASSIGNED, j_assignment_status := ASSIGN_ASSIGNED\<rparr>"
  let ?a = "\<lparr>ja_id = next_uuid s, ja_job_id = j_id job, ja_booking_id = j_booking_id job, ja_tenant_id = tid, ja_staff_id = sid,
               ja_status = ASSIGN_ASSIGNED, ja_scheduled_date = day, ja_scheduled_time_window = window, ja_is_current = True\<rparr>"
  have put: "board_move (js, as, next_uuid s) (update_where (\<lambda>j. j_id j = j_id job) ?f js, as @ [?a], Suc (next_uuid s))"
    if "current_of as (j_id job) = None" for js as
    using board_move.place [of ?f ?a as "next_uuid s" js] that by simp
  show ?thesis
  proof (cases old)
    case None
    with put [of "job_assignments s" "service_jobs s"] old show ?thesis
      by (auto simp: place_assignment_def board_def board_simps Let_def current_assignment_of intro!: r_into_rtranclp)
  next
    case (Some a)
    let ?g = "\<lambda>j. j\<lparr>j_assigned_staff_id := None\<rparr>" and ?h = "\<lambda>x. x\<lparr>ja_is_current := False, ja_status := ASSIGN_REASSIGNED\<rparr>"
    let ?as = "update_where (\<lambda>x. ja_id x = ja_id a) ?h (job_assignments s)"
    from Some old have cur: "current_of (job_assignments s) (j_id job) = Some a" by (simp add: current_assignment_of)
    then have drop: "board_move (board s) (update_where (\<lambda>j. j_id j = j_id job) ?g (service_jobs s), ?as, next_uuid s)"
      unfolding board_def by (intro board_move.drop) auto
    from cur assms(1) have "current_of ?as (j_id job) = None"
      by (simp add: current_of_drop assign_ok_def)
    from put [OF this, of "update_where (\<lambda>j. j_id j = j_id job) ?g (service_jobs s)"] have "board_move (update_where (\<lambda>j. j_id j = j_id job) ?g (service_jobs s), ?as, next_uuid s)
        (update_where (\<lambda>j. j_id j = j_id job) ?f (service_jobs s), ?as @ [?a], Suc (next_uuid s))"
      by (simp add: update_where_absorb)
    with drop have "board_move\<^sup>*\<^sup>* (board s) (update_where (\<lambda>j. j_id j = j_id job) ?f (service_jobs s), ?as @ [?a], Suc (next_uuid s))"
      by (meson r_into_rtranclp rtranclp.rtrancl_into_rtrancl)
    with Some show ?thesis by (simp add: place_assignment_def board_def board_simps Let_def)
  qed
qed

lemma release_moves:
  assumes "current_assignment s (j_id job) = Some a"
    and "st = ASSIGN_CANCELLED \<or> (st = ASSIGN_REJECTED \<and> ja_status a \<noteq> ASSIGN_ACCEPTED)"
  shows "board_move (board s) (board (release_assignment s job a st ast))"
proof -
  let ?f = "\<lambda>j. j\<lparr>j_assigned_staff_id := None, j_status := JS_PENDING_ASSIGNMENT, j_assignment_status := ast\<rparr>"
  have "board_move (board s) (update_where (\<lambda>j. j_id j = j_id job) ?f (service_jobs s),
      update_where (\<lambda>x. ja_id x = ja_id a) (\<lambda>x. x\<lparr>ja_is_current := False, ja_status := st\<rparr>) (job_assignments s), next_uuid s)"
    unfolding board_def using assms by (intro board_move.drop) (auto simp: current_assignment_of)
  moreover have "(\<lambda>x. x\<lparr>ja_status := st, ja_is_current := False\<rparr>) = (\<lambda>x :: job_assignment. x\<lparr>ja_is_current := False, ja_status := st\<rparr>)"
    by (simp add: fun_eq_iff)
  ultimately show ?thesis by (simp add: release_assignment_def board_def board_simps)
qed

text \<open>A write that leaves ids, holders and assignment states alone keeps the board.\<close>

lemma keep_move:
  assumes "service_jobs t = update_where p f (service_jobs s)" "\<And>j. j_id (f j) = j_id j" "\<And>j. j_assigned_staff_id (f j) = j_assigned_staff_id j"
    and "job_assignments t = update_where q g (job_assignments s)" "\<And>a. ja_id (g a) = ja_id a" "\<And>a. ja_job_id (g a) = ja_job_id a"
      "\<And>a. ja_staff_id (g a) = ja_staff_id a" "\<And>a. ja_is_current (g a) = ja_is_current a" "\<And>a. ja_status (g a) = ja_status a"
    and "next_uuid s \<le> next_uuid t"
  shows "board_move (board s) (board t)"
proof -
  have "board_move (service_jobs s, job_assignments s, next_uuid s)
      (map (\<lambda>r. if p r then f r else r) (service_jobs s), map (\<lambda>r. if q r then g r else r) (job_assignments s), next_uuid t)"
    by (rule board_move.keep) (simp_all add: assms)
  then show ?thesis by (simp add: board_def assms(1,4) update_where_def)
qed

lemma update_where_False: "xs = update_where (\<lambda>_. False) id xs"
  by (simp add: update_where_none)

lemma same_board_move:
  assumes "service_jobs t = service_jobs s" "job_assignments t = job_assignments s" "next_uuid s \<le> next_uuid t"
  shows "board_move (board s) (board t)"
  by (rule keep_move [of _ "\<lambda>_. False" id _ "\<lambda>_. False" id]) (simp_all add: assms update_where_False [symmetric])

lemma move_visit_moves: "board_move (board s) (board (move_visit s job bid day window))"
proof (cases "current_assignment s (j_id job)")
  case None
  then show ?thesis
    by (intro keep_move [of _ "\<lambda>j. j_id j = j_id job" "\<lambda>j. j\<lparr>j_scheduled_date := Some day, j_scheduled_time_window := Some window,
        j_status := JS_SCHEDULED, j_reschedule_count := Suc (j_reschedule_count j)\<rparr>" _ "\<lambda>_. False" id])
      (simp_all add: move_visit_def board_simps Let_def current_assignment_of update_where_False [symmetric])
next
  case (Some a)
  then show ?thesis
    by (intro keep_move [of _ "\<lambda>j. j_id j = j_id job" "\<lambda>j. j\<lparr>j_scheduled_date := Some day, j_scheduled_time_window := Some window,
        j_status := JS_SCHEDULED, j_reschedule_count := Suc (j_reschedule_count j)\<rparr>" _ "\<lambda>x. ja_id x = ja_id a"
        "\<lambda>x. x\<lparr>ja_scheduled_date := Some day, ja_scheduled_time_window := Some window\<rparr>"])
      (simp_all add: move_visit_def board_simps Let_def current_assignment_of)
qed

inductive assign_step :: "'a assign_db_scheme \<Rightarrow> 'a assign_db_scheme \<Rightarrow> bool" where
  assign: "assign_job s env jid sid tid date window allow req = Inr t \<Longrightarrow> assign_step s t"
| reassign: "reassign_job s env jid sid tid reason req = Inr t \<Longrightarrow> assign_step s t"
| cancel: "cancel_assignment s jid tid reason req = Inr t \<Longrightarrow> assign_step s t"
| accept: "technician_accept_job s env jid sid otid req = Inr t \<Longrightarrow> assign_step s t"
| reject: "technician_reject_job s jid sid reason otid req = Inr t \<Longrightarrow> assign_step s t"
| request: "create_request s env jid tid day win reason req = Inr (t, outcome) \<Longrightarrow> assign_step s t"
| decide: "decide_request s env rid customer decision = Inr (t, outcome) \<Longrightarrow> assign_step s t"
| schedule: "schedule_job s env jid tid day win oreason req = Inr (t, outcome) \<Longrightarrow> assign_step s t"
| customer_cancel: "customer_cancel_booking s env bid customer reason detail stale req = Inr t \<Longrightarrow> assign_step s t"
| customer_reschedule: "customer_reschedule_booking s env bid customer day window reason stale req = Inr t \<Longrightarrow> assign_step s t"

lemma assign_job_place:
  assumes "assign_job s env jid sid tid date window allow req = Inr t"
  obtains job where "load_job s jid = Some job" "j_status job \<notin> set ASSIGN_TERMINAL_STATUSES"
    "staff_assignment_conflict_reason s job sid (Some jid) (coalesce date (j_scheduled_date job)) (coalesce window (j_scheduled_time_window job)) = None"
    "validate_staff_eligibility s tid job sid = Inr []" "j_tenant_id job = Some tid"
    "j_scheduled_date job \<noteq> None \<or> truthy (j_scheduled_time_window job) \<Longrightarrow>
       coalesce date (j_scheduled_date job) = j_scheduled_date job \<and> coalesce window (j_scheduled_time_window job) = j_scheduled_time_window job"
    "\<not> slot_has_ended (coalesce date (j_scheduled_date job)) (coalesce window (j_scheduled_time_window job)) (en_now env)"
    "\<And>a. current_assignment s jid = Some a \<Longrightarrow> ja_status a = ASSIGN_ACCEPTED \<Longrightarrow> allow"
    "t = place_assignment s job sid tid (coalesce date (j_scheduled_date job)) (coalesce window (j_scheduled_time_window job))
       (current_assignment s jid) req"
  using assms
  by (auto simp: assign_job_def validate_job_assignable_def refuse_blocked_def res_simps Let_def split: option.splits if_splits)

lemma reassign_job_assign:
  "reassign_job s env jid sid tid reason req = Inr t \<Longrightarrow> assign_job s env jid sid tid None None True req = Inr t"
  by (auto simp: reassign_job_def res_simps split: if_splits)

lemma cancel_assignment_release:
  assumes "cancel_assignment s jid tid reason req = Inr t"
  obtains job a where "load_job s jid = Some job" "current_assignment s jid = Some a" "ja_status a \<noteq> ASSIGN_ACCEPTED"
    "t = emit_event job ''assignment_cancelled'' req (release_assignment s job a ASSIGN_CANCELLED ASSIGN_UNASSIGNED)"
  using assms by (auto simp: cancel_assignment_def res_simps split: if_splits)

lemma own_assignment_Inr:
  assumes "own_assignment s jid sid otid = Inr (job, a)"
  shows "load_job s jid = Some job" "current_assignment s jid = Some a" "ja_staff_id a = sid" "ja_status a \<noteq> ASSIGN_ACCEPTED"
  using assms by (auto simp: own_assignment_def res_simps split: if_splits option.splits)

lemma reject_release:
  assumes "technician_reject_job s jid sid reason otid req = Inr t"
  obtains job a where "load_job s jid = Some job" "current_assignment s jid = Some a" "ja_status a \<noteq> ASSIGN_ACCEPTED" "ja_staff_id a = sid"
    "t = emit_event job ''technician_rejected'' req (release_assignment s job a ASSIGN_REJECTED ASSIGN_REJECTED)"
  using assms by (auto simp: technician_reject_job_def res_simps dest: own_assignment_Inr split: if_splits)

lemma create_request_keeps:
  assumes "create_request s env jid tid day win reason req = Inr (t, outcome)"
  shows "service_jobs t = service_jobs s" "job_assignments t = job_assignments s" "next_uuid s \<le> next_uuid t"
  using assms by (auto simp: create_request_def open_request_def board_simps split: if_splits option.splits)

lemma customer_cancel_apply:
  assumes "customer_cancel_booking s env bid customer reason detail stale req = Inr t"
  obtains "t = s" | job code where "own_job s bid customer = Inr job" "j_status job \<in> set CUSTOMER_CANCELLABLE_JOB_STATUSES"
    "t = apply_cancellation s job bid code req"
  using assms by (auto simp: customer_cancel_booking_def res_simps Let_def can_cancel_def customer_cancellation_decision_def
      split: if_splits option.splits)

lemma customer_reschedule_apply:
  assumes "customer_reschedule_booking s env bid customer day window reason stale req = Inr t"
  obtains "t = s" | job where "own_job s bid customer = Inr job" "j_status job \<in> set CUSTOMER_RESCHEDULABLE_JOB_STATUSES"
    "int (customer_reschedule_count s (j_id job)) < op_customer_reschedule_limit (get_home_services_operations_policy s)"
    "t = apply_reschedule s job bid day window req"
  using assms by (auto simp: customer_reschedule_booking_def res_simps split: if_splits)

lemma accept_moves:
  assumes "technician_accept_job s env jid sid otid req = Inr t"
  shows "board_move (board s) (board t)"
proof -
  from assms obtain job a where own: "own_assignment s jid sid otid = Inr (job, a)"
    and t: "t = emit_event job ''technician_accepted'' req (sync_booking (j_booking_id job) ASSIGN_ACCEPTED JS_ACCEPTED
      (set_job jid (\<lambda>j. j\<lparr>j_status := JS_ACCEPTED, j_assignment_status := ASSIGN_ACCEPTED\<rparr>)
        (set_assignment (ja_id a) (\<lambda>x. x\<lparr>ja_status := ASSIGN_ACCEPTED\<rparr>) s)))"
    by (auto simp: technician_accept_job_def res_simps split: if_splits)
  let ?f = "\<lambda>j. if j_id j = jid then j\<lparr>j_status := JS_ACCEPTED, j_assignment_status := ASSIGN_ACCEPTED\<rparr> else j"
  have "board_move (board s) (map ?f (service_jobs s), update_where (\<lambda>x. ja_id x = ja_id a) (\<lambda>x. x\<lparr>ja_status := ASSIGN_ACCEPTED\<rparr>)
      (job_assignments s), next_uuid s)"
    unfolding board_def using own_assignment_Inr [OF own]
    by (intro board_move.answer [where jid = jid]) (auto simp: current_assignment_of)
  then show ?thesis by (simp add: t board_def board_simps update_where_def)
qed

lemma decide_outcome:
  assumes "decide_request s env rid customer decision = Inr (t, outcome)"
  obtains (closed) st where "st \<noteq> ''approved''" "t = set_request rid (\<lambda>x. x\<lparr>rq_status := st\<rparr>) s"
    | (rejected) job where "t = emit_event job ''provider_reschedule_rejected'' None (set_request rid (\<lambda>x. x\<lparr>rq_status := ''rejected''\<rparr>) s)"
    | (approved) r b job day window where
        "first_row (filter (\<lambda>r. rq_id r = rid) (reschedule_requests s)) = Some r" "rq_request_source r = ''provider''" "rq_status r = ''pending''"
        "load_booking s (rq_booking_id r) = Some b" "b_customer_id b = Some customer" "rq_job_id r = Some (j_id job)"
        "load_job s (j_id job) = Some job" "j_booking_id job = b_id b" "\<not> expired env r"
        "rq_requested_date r = Some day" "window = requested_window r"
        "capacity_available s env job day window" "decision = ''approve''"
        "int (approved_provider_reschedule_count s (j_id job)) < op_provider_reschedule_limit (get_home_services_operations_policy s)"
        "t = emit_event job ''provider_reschedule_approved'' None
          (set_request rid (\<lambda>x. x\<lparr>rq_status := ''approved''\<rparr>) (move_visit s job (b_id b) day window))"
proof -
  show ?thesis
  proof (cases "outcome = ''approved''")
    case True
    with assms obtain r b job day where o:
      "first_row (filter (\<lambda>r. rq_id r = rid) (reschedule_requests s)) = Some r" "rq_request_source r = ''provider''" "rq_status r = ''pending''"
      "load_booking s (rq_booking_id r) = Some b" "b_customer_id b = Some customer" "Option.bind (rq_job_id r) (load_job s) = Some job"
      "j_booking_id job = b_id b" "\<not> expired env r"
      "rq_requested_date r = Some day" "capacity_available s env job day (requested_window r)" "decision = ''approve''"
      "int (approved_provider_reschedule_count s (j_id job)) < op_provider_reschedule_limit (get_home_services_operations_policy s)"
      "t = emit_event job ''provider_reschedule_approved'' None
        (set_request rid (\<lambda>x. x\<lparr>rq_status := ''approved''\<rparr>) (move_visit s job (b_id b) day (requested_window r)))"
      by (auto simp: decide_request_def Let_def not_le split: if_splits option.splits)
    from o(6) have j: "rq_job_id r = Some (j_id job)" "load_job s (j_id job) = Some job"
      by (auto simp: bind_eq_Some_conv dest: load_job_id)
    show ?thesis by (rule approved [OF o(1-5) j o(7-9) refl o(10-13)])
  next
    case False
    with assms have "t = set_request rid (\<lambda>x. x\<lparr>rq_status := ''expired''\<rparr>) s \<or>
        (\<exists>job. t = emit_event job ''provider_reschedule_rejected'' None (set_request rid (\<lambda>x. x\<lparr>rq_status := ''rejected''\<rparr>) s))"
      by (auto simp: decide_request_def Let_def split: if_splits option.splits)
    then show ?thesis using closed [of "''expired''"] rejected by auto
  qed
qed

lemma set_request_board [simp]: "board (set_request rid g s) = board s"
  by (simp add: board_def board_simps)

lemma emit_event_board [simp]: "board (emit_event job ty req s) = board s"
  by (simp add: board_def board_simps)

lemma decide_moves:
  assumes "decide_request s env rid customer decision = Inr (t, outcome)"
  shows "board_move (board s) (board t)"
  using assms by (cases rule: decide_outcome) (simp_all add: move_visit_moves same_board_move)

lemma schedule_moves:
  assumes "schedule_job s env jid tid day win oreason req = Inr (t, outcome)"
  shows "board_move (board s) (board t)"
proof -
  let ?f = "\<lambda>j. j\<lparr>j_scheduled_date := Some day, j_scheduled_time_window := Some win, j_status := JS_SCHEDULED\<rparr>"
  from assms consider reason where "create_request s env jid tid day win reason req = Inr (t, outcome)"
    | job where "t = emit_event job ''job_scheduled'' req (sync_booking (j_booking_id job) (j_assignment_status job) JS_SCHEDULED
        (case current_assignment s jid of None \<Rightarrow> set_job jid ?f s
         | Some a \<Rightarrow> set_assignment (ja_id a) (\<lambda>x. x\<lparr>ja_scheduled_date := Some day, ja_scheduled_time_window := Some win\<rparr>) (set_job jid ?f s)))"
    by (auto simp: schedule_job_def res_simps Let_def split: if_splits)
  then show ?thesis
  proof cases
    case 1
    from create_request_keeps [OF this] show ?thesis by (rule same_board_move)
  next
    case (2 job)
    show ?thesis
    proof (cases "current_assignment s jid")
      case None
      with 2 show ?thesis
        by (intro keep_move [of _ "\<lambda>j. j_id j = jid" ?f _ "\<lambda>_. False" id]) (simp_all add: board_simps update_where_False [symmetric])
    next
      case (Some a)
      with 2 show ?thesis
        by (intro keep_move [of _ "\<lambda>j. j_id j = jid" ?f _ "\<lambda>x. ja_id x = ja_id a"
            "\<lambda>x. x\<lparr>ja_scheduled_date := Some day, ja_scheduled_time_window := Some win\<rparr>"]) (simp_all add: board_simps)
    qed
  qed
qed

lemma cancellation_moves: "board_move (board s) (board (apply_cancellation s job bid code req))"
proof -
  let ?f = "\<lambda>j. j\<lparr>j_status := JS_CANCELLED, j_assigned_staff_id := None, j_assignment_status := ASSIGN_CANCELLED\<rparr>"
  show ?thesis
  proof (cases "current_assignment s (j_id job)")
    case None
    then have "board_move (board s) (update_where (\<lambda>j. j_id j = j_id job) ?f (service_jobs s), job_assignments s, next_uuid s)"
      unfolding board_def by (intro board_move.vacate) (auto simp: current_assignment_of)
    with None show ?thesis by (auto simp: apply_cancellation_def board_def board_simps Let_def)
  next
    case (Some a)
    then have "board_move (board s) (update_where (\<lambda>j. j_id j = j_id job) ?f (service_jobs s),
        update_where (\<lambda>x. ja_id x = ja_id a) (\<lambda>x. x\<lparr>ja_is_current := False, ja_status := ASSIGN_CANCELLED\<rparr>) (job_assignments s), next_uuid s)"
      unfolding board_def by (intro board_move.drop) (auto simp: current_assignment_of)
    with Some show ?thesis by (auto simp: apply_cancellation_def board_def board_simps Let_def)
  qed
qed

lemma reschedule_moves: "board_move (board s) (board (apply_reschedule s job bid day window req))"
proof -
  let ?b = "j_status job = JS_REACHED_SITE \<or> j_status job = JS_CUSTOMER_NOT_AVAIL"
  let ?f = "\<lambda>j. (if ?b then j\<lparr>j_status := JS_SCHEDULED\<rparr> else j)
      \<lparr>j_scheduled_date := Some day, j_scheduled_time_window := window, j_reschedule_count := Suc (j_reschedule_count j)\<rparr>"
  show ?thesis
  proof (cases "?b \<and> current_assignment s (j_id job) \<noteq> None")
    case True
    then obtain a where "current_assignment s (j_id job) = Some a" by auto
    with True show ?thesis
      by (intro keep_move [of _ "\<lambda>j. j_id j = j_id job" ?f _ "\<lambda>x. ja_id x = ja_id a"
          "\<lambda>x. x\<lparr>ja_scheduled_date := Some day, ja_scheduled_time_window := window\<rparr>"])
        (simp_all add: apply_reschedule_def board_simps Let_def)
  next
    case False
    then show ?thesis
      by (intro keep_move [of _ "\<lambda>j. j_id j = j_id job" ?f _ "\<lambda>_. False" id])
        (auto simp: apply_reschedule_def board_simps Let_def update_where_False [symmetric] split: option.splits bool.splits)
  qed
qed

lemma assign_step_moves: "assign_step s t \<Longrightarrow> assign_ok s \<Longrightarrow> board_move\<^sup>*\<^sup>* (board s) (board t)"
proof (induction rule: assign_step.induct)
  case (assign s env jid sid tid date window allow req t)
  from assign.hyps show ?case
    by (elim assign_job_place) (use assign.prems place_moves load_job_id in metis)
next
  case (reassign s env jid sid tid reason req t)
  from reassign_job_assign [OF reassign.hyps] show ?case
    by (elim assign_job_place) (use reassign.prems place_moves load_job_id in metis)
next
  case (cancel s jid tid reason req t)
  from cancel.hyps show ?case
    by (elim cancel_assignment_release) (auto dest!: load_job_id intro!: r_into_rtranclp release_moves)
next
  case (accept s env jid sid otid req t)
  then show ?case by (blast intro: r_into_rtranclp accept_moves)
next
  case (reject s jid sid reason otid req t)
  from reject.hyps show ?case
    by (elim reject_release) (auto dest!: load_job_id intro!: r_into_rtranclp release_moves)
next
  case (request s env jid tid day win reason req t outcome)
  from create_request_keeps [OF this(1)] show ?case by (blast intro: r_into_rtranclp same_board_move)
next
  case (decide s env rid customer decision t outcome)
  then show ?case by (blast intro: r_into_rtranclp decide_moves)
next
  case (schedule s env jid tid day win oreason req t outcome)
  then show ?case by (blast intro: r_into_rtranclp schedule_moves)
next
  case (customer_cancel s env bid customer reason detail stale req t)
  from customer_cancel.hyps show ?case
    by (elim customer_cancel_apply) (auto intro: r_into_rtranclp cancellation_moves)
next
  case (customer_reschedule s env bid customer day window reason stale req t)
  from customer_reschedule.hyps show ?case
    by (elim customer_reschedule_apply) (auto intro: r_into_rtranclp reschedule_moves)
qed

subsection \<open>Runs of the board\<close>

lemma board_run_ok: "board_move\<^sup>*\<^sup>* (board s) (board t) \<Longrightarrow> assign_ok s \<Longrightarrow> assign_ok t"
proof -
  have "board_move\<^sup>*\<^sup>* x y \<Longrightarrow> (case x of (js, as, n) \<Rightarrow> board_ok js as n) \<Longrightarrow> (case y of (js, as, n) \<Rightarrow> board_ok js as n)" for x y
    by (induction rule: rtranclp_induct) (auto intro: board_move_ok)
  then show "board_move\<^sup>*\<^sup>* (board s) (board t) \<Longrightarrow> assign_ok s \<Longrightarrow> assign_ok t"
    by (fastforce simp: assign_ok_def board_def)
qed

lemma assign_step_ok: "assign_step s t \<Longrightarrow> assign_ok s \<Longrightarrow> assign_ok t"
  by (blast intro: assign_step_moves board_run_ok)

lemma assign_run_moves: "assign_step\<^sup>*\<^sup>* s t \<Longrightarrow> assign_ok s \<Longrightarrow> board_move\<^sup>*\<^sup>* (board s) (board t)"
proof (induction rule: rtranclp_induct)
  case base
  show ?case by simp
next
  case (step t u)
  then have "board_move\<^sup>*\<^sup>* (board s) (board t)" by blast
  moreover from this step.prems have "assign_ok t" by (rule board_run_ok)
  with step.hyps(2) have "board_move\<^sup>*\<^sup>* (board t) (board u)" by (rule assign_step_moves)
  ultimately show ?case by simp
qed

fun assignment_edges :: "assign_state \<Rightarrow> assign_state list" where
  "assignment_edges ASSIGN_ASSIGNED = [ASSIGN_ACCEPTED, ASSIGN_REJECTED, ASSIGN_CANCELLED, ASSIGN_REASSIGNED]"
| "assignment_edges ASSIGN_ACCEPTED = [ASSIGN_CANCELLED, ASSIGN_REASSIGNED]"
| "assignment_edges _ = []"

lemma row_status_map:
  "(\<And>a. ja_id (g a) = ja_id a) \<Longrightarrow> row_status (map g as) i = map_option (\<lambda>a. ja_status (g a)) (first_row (filter (\<lambda>a. ja_id a = i) as))"
  by (simp add: row_status_def first_row_filter_map option.map_comp comp_def)

text \<open>Rewriting the state of the current row of a job.\<close>

lemma row_status_current:
  assumes "board_ok js as n" and "current_of as jid = Some a" and "row_status as i = Some st"
    and g: "\<And>x. ja_id (g x) = ja_id x" "\<And>x. ja_status (g x) = new"
  shows "row_status (update_where (\<lambda>x. ja_id x = ja_id a) g as) i = Some (if i = ja_id a then new else st)"
    "i = ja_id a \<Longrightarrow> st = ja_status a"
proof -
  note a = current_of_Some [OF assms(1,2)]
  from assms(3) obtain x where x: "first_row (filter (\<lambda>a. ja_id a = i) as) = Some x" "st = ja_status x" by (auto simp: row_status_def)
  then have "x \<in> set as" "ja_id x = i" by (auto dest: first_row_Some_set)
  with a(1) assms(1) have "i = ja_id a \<Longrightarrow> x = a" by (auto simp: board_ok_def distinct_map dest: inj_onD)
  then show "i = ja_id a \<Longrightarrow> st = ja_status a" by (simp add: x(2))
  show "row_status (update_where (\<lambda>x. ja_id x = ja_id a) g as) i = Some (if i = ja_id a then new else st)"
    unfolding update_where_def using x \<open>ja_id x = i\<close> by (subst row_status_map) (auto simp: g)
qed

lemma current_is_live: "board_ok js as n \<Longrightarrow> current_of as jid = Some a \<Longrightarrow> ja_status a = ASSIGN_ASSIGNED \<or> ja_status a = ASSIGN_ACCEPTED"
  using current_of_Some [of js as n jid a] by (auto simp: board_ok_def live_state_def)

lemma row_status_along:
  "board_move (js, as, n) (js', as', m) \<Longrightarrow> board_ok js as n \<Longrightarrow> row_status as i = Some st \<Longrightarrow>
   \<exists>st'. row_status as' i = Some st' \<and> (st' = st \<or> st' \<in> set (assignment_edges st))"
proof (induction "(js, as, n)" "(js', as', m)" rule: board_move.induct)
  case (keep f g)
  then have "row_status as' i = row_status as i" using row_status_map [of g as i] by (simp add: row_status_def)
  with keep.prems show ?case by simp
next
  case (answer f jid a)
  have "row_status as' i = Some (if i = ja_id a then ASSIGN_ACCEPTED else st)" "i = ja_id a \<Longrightarrow> st = ja_status a"
    using row_status_current [OF answer.prems(1) answer.hyps(3) answer.prems(2), of "\<lambda>x. x\<lparr>ja_status := ASSIGN_ACCEPTED\<rparr>" ASSIGN_ACCEPTED]
      answer.hyps by auto
  with current_is_live [OF answer.prems(1) answer.hyps(3)] show ?case by auto
next
  case (vacate f jid)
  then show ?case by auto
next
  case (drop f jid a new)
  have "row_status as' i = Some (if i = ja_id a then new else st)" "i = ja_id a \<Longrightarrow> st = ja_status a"
    using row_status_current [OF drop.prems(1) drop.hyps(3) drop.prems(2), of "\<lambda>x. x\<lparr>ja_is_current := False, ja_status := new\<rparr>" new]
      drop.hyps by auto
  with current_is_live [OF drop.prems(1) drop.hyps(3)] drop.hyps(4) show ?case by auto
next
  case (place f a)
  then show ?case by (auto simp: row_status_def first_row_append split: option.splits)
qed

interpretation assignment_rows: guarded_records assignment_edges "\<lambda>st. \<not> live_state st"
  "\<lambda>(js, as, n). board_ok js as n" "\<lambda>(js, as, n) i. row_status as i" board_move
proof
  fix x y :: "service_job list \<times> job_assignment list \<times> nat" and i st
  show "assignment_edges st = []" if "\<not> live_state st" using that by (cases st) auto
  show "case y of (js, as, n) \<Rightarrow> board_ok js as n" if "case x of (js, as, n) \<Rightarrow> board_ok js as n" "board_move x y"
    using that by (auto intro: board_move_ok split: prod.splits)
  show "\<exists>b. (case y of (js, as, n) \<Rightarrow> \<lambda>i. row_status as i) i = Some b \<and> (b = st \<or> b \<in> set (assignment_edges st))"
    if "case x of (js, as, n) \<Rightarrow> board_ok js as n" "board_move x y" "(case x of (js, as, n) \<Rightarrow> \<lambda>i. row_status as i) i = Some st"
    using that row_status_along by (fastforce split: prod.splits)
qed

subsection \<open>What the assignment service guarantees\<close>

text \<open>
  C4: One holder per job: over every run of the ten operations a job has at most one current assignment row, current rows are exactly
  those assigned or accepted, and the technician written on the job is the one of that row.
\<close>

theorem one_holder_per_job:
  assumes "assign_step\<^sup>*\<^sup>* s t" and "assign_ok s"
  shows "distinct (map ja_job_id (filter ja_is_current (job_assignments t))) \<and>
    (\<forall>a \<in> set (job_assignments t). ja_is_current a \<longleftrightarrow> ja_status a = ASSIGN_ASSIGNED \<or> ja_status a = ASSIGN_ACCEPTED) \<and>
    (\<forall>j \<in> set (service_jobs t). j_assigned_staff_id j = map_option ja_staff_id (current_assignment t (j_id j)))"
proof -
  from assign_run_moves [OF assms] assms(2) have "assign_ok t" by (rule board_run_ok)
  then show ?thesis by (simp add: assign_ok_def board_ok_def current_assignment_of live_state_def)
qed

text \<open>
  An assignment row that was rejected, cancelled or replaced is history: whatever operations follow, its state never changes again.
\<close>

theorem closed_assignment_is_final:
  assumes "assign_step\<^sup>*\<^sup>* s t" and "assign_ok s" and "row_status (job_assignments s) i = Some st"
    and "st \<in> {ASSIGN_REJECTED, ASSIGN_CANCELLED, ASSIGN_REASSIGNED}"
  shows "row_status (job_assignments t) i = Some st"
  using assignment_rows.final_forever [OF assign_run_moves [OF assms(1,2)], of i st] assms(2-4)
  by (auto simp: board_def assign_ok_def)

subsection \<open>What a step does to a job\<close>

definition has_visit :: "service_job \<Rightarrow> bool" where
  "has_visit j \<longleftrightarrow> j_scheduled_date j \<noteq> None \<or> truthy (j_scheduled_time_window j)"

definition visit_of :: "service_job \<Rightarrow> date option \<times> string option" where
  "visit_of j = (j_scheduled_date j, j_scheduled_time_window j)"

text \<open>A cancelled job holds no technician.\<close>

definition cancelled_released :: "'a job_db_scheme \<Rightarrow> bool" where
  "cancelled_released s \<longleftrightarrow> (\<forall>j \<in> set (service_jobs s). j_status j = JS_CANCELLED \<longrightarrow> j_assigned_staff_id j = None)"

lemma load_job_mem:
  assumes "assign_ok s" and "job \<in> set (service_jobs s)"
  shows "load_job s (j_id job) = Some job"
  using assms filter_key_single [of j_id "service_jobs s" job] by (auto simp: load_job_def assign_ok_def board_ok_def)

lemma load_job_update:
  assumes "service_jobs t = update_where (\<lambda>j. j_id j = jid) f (service_jobs s)" and "\<And>j. j_id (f j) = j_id j"
  shows "load_job t k = (if k = jid then map_option f (load_job s k) else load_job s k)"
proof -
  have "load_job t k = map_option (\<lambda>j. if j_id j = jid then f j else j) (load_job s k)"
    unfolding load_job_def assms(1) by (rule first_row_update_where) (simp add: assms(2))
  then show ?thesis by (cases "load_job s k") (auto dest: load_job_id)
qed

lemma held_not_cancelled:
  assumes "assign_ok s" "cancelled_released s" "load_job s jid = Some job" "current_assignment s jid = Some a"
  shows "j_status job \<noteq> JS_CANCELLED"
  using assms load_job_id [OF assms(3)] by (auto simp: assign_ok_def board_ok_def cancelled_released_def current_assignment_of)

text \<open>
  \<open>touches s t job f\<close>: the step rewrote exactly that job, and a job it leaves cancelled holds nobody it did not hold before.
\<close>

definition touches :: "'a assign_db_scheme \<Rightarrow> 'a assign_db_scheme \<Rightarrow> service_job \<Rightarrow> (service_job \<Rightarrow> service_job) \<Rightarrow> bool" where
  "touches s t job f \<longleftrightarrow> load_job s (j_id job) = Some job \<and> service_jobs t = update_where (\<lambda>j. j_id j = j_id job) f (service_jobs s) \<and>
     (\<forall>j. j_id (f j) = j_id j) \<and>
     (\<forall>j. j_status (f j) = JS_CANCELLED \<longrightarrow> j_assigned_staff_id (f j) = None \<or>
        j_status j = JS_CANCELLED \<and> j_assigned_staff_id (f j) = j_assigned_staff_id j)"

lemma place_touches:
  assumes "assign_job s env jid sid tid date window allow req = Inr t"
  obtains job f where "touches s t job f" "j_id job = jid" "j_status job \<noteq> JS_CANCELLED" "has_visit job \<Longrightarrow> visit_of (f job) = visit_of job"
proof -
  from assms obtain job where j: "load_job s jid = Some job" "j_status job \<notin> set ASSIGN_TERMINAL_STATUSES"
    "has_visit job \<Longrightarrow> coalesce date (j_scheduled_date job) = j_scheduled_date job \<and> coalesce window (j_scheduled_time_window job) = j_scheduled_time_window job"
    "t = place_assignment s job sid tid (coalesce date (j_scheduled_date job)) (coalesce window (j_scheduled_time_window job))
       (current_assignment s jid) req"
    by (elim assign_job_place) (auto simp: has_visit_def)
  let ?day = "coalesce date (j_scheduled_date job)" and ?win = "coalesce window (j_scheduled_time_window job)"
  let ?f = "\<lambda>j. (if ?day = None then j else j\<lparr>j_scheduled_date := ?day, j_scheduled_time_window := ?win\<rparr>)
                 \<lparr>j_assigned_staff_id := Some sid, j_status := JS_ASSIGNED, j_assignment_status := ASSIGN_ASSIGNED\<rparr>"
  have "touches s t job ?f" using j load_job_id [OF j(1)]
    by (auto simp: touches_def place_assignment_def board_simps Let_def split: option.splits)
  moreover have "has_visit job \<Longrightarrow> visit_of (?f job) = visit_of job" using j(3) by (auto simp: visit_of_def)
  ultimately show ?thesis using that load_job_id [OF j(1)] j(2) by (auto simp: ASSIGN_TERMINAL_STATUSES_def)
qed

lemma release_touches:
  assumes "load_job s jid = Some job" and "t = emit_event job ty req (release_assignment s job a st ast)"
  shows "touches s t job
    (\<lambda>j. j\<lparr>j_assigned_staff_id := None, j_status := JS_PENDING_ASSIGNMENT, j_assignment_status := ast\<rparr>)"
  using assms load_job_id [OF assms(1)] by (auto simp: touches_def release_assignment_def board_simps)

lemma accept_touches:
  assumes "technician_accept_job s env jid sid otid req = Inr t"
  obtains job a where "touches s t job (\<lambda>j. j\<lparr>j_status := JS_ACCEPTED, j_assignment_status := ASSIGN_ACCEPTED\<rparr>)" "j_id job = jid"
    "load_job s jid = Some job" "current_assignment s jid = Some a"
proof -
  from assms obtain job a where own: "own_assignment s jid sid otid = Inr (job, a)"
    and t: "t = emit_event job ''technician_accepted'' req (sync_booking (j_booking_id job) ASSIGN_ACCEPTED JS_ACCEPTED
      (set_job jid (\<lambda>j. j\<lparr>j_status := JS_ACCEPTED, j_assignment_status := ASSIGN_ACCEPTED\<rparr>)
        (set_assignment (ja_id a) (\<lambda>x. x\<lparr>ja_status := ASSIGN_ACCEPTED\<rparr>) s)))"
    by (auto simp: technician_accept_job_def res_simps split: if_splits)
  note o = own_assignment_Inr [OF own]
  show ?thesis by (rule that [OF _ _ o(1,2)]) (use load_job_id [OF o(1)] o(1) in \<open>auto simp: touches_def t board_simps\<close>)
qed

lemma schedule_touches:
  assumes "schedule_job s env jid tid day win oreason req = Inr (t, outcome)"
  obtains "service_jobs t = service_jobs s"
    | job f where "touches s t job f" "j_status job \<noteq> JS_CANCELLED" "has_visit job \<Longrightarrow> visit_of (f job) = visit_of job"
proof -
  let ?f = "\<lambda>j. j\<lparr>j_scheduled_date := Some day, j_scheduled_time_window := Some win, j_status := JS_SCHEDULED\<rparr>"
  from assms consider reason where "create_request s env jid tid day win reason req = Inr (t, outcome)"
    | job where "load_job s jid = Some job" "j_status job \<in> set REASSIGNABLE" "has_visit job \<Longrightarrow> visit_of job = (Some day, Some win)"
      "service_jobs t = update_where (\<lambda>j. j_id j = jid) ?f (service_jobs s)"
    by (auto simp: schedule_job_def res_simps Let_def has_visit_def visit_of_def board_simps split: if_splits option.splits)
  then show ?thesis
  proof cases
    case 1
    then show ?thesis using that(1) create_request_keeps by blast
  next
    case (2 job)
    show ?thesis by (rule that(2) [of job ?f]) (use 2 load_job_id [OF 2(1)] in \<open>auto simp: touches_def visit_of_def REASSIGNABLE_def\<close>)
  qed
qed

lemma cancellation_touches:
  assumes "assign_ok s" "own_job s bid customer = Inr job"
  shows "touches s (apply_cancellation s job bid code req) job
    (\<lambda>j. j\<lparr>j_status := JS_CANCELLED, j_assigned_staff_id := None, j_assignment_status := ASSIGN_CANCELLED\<rparr>)"
  using load_job_mem [OF assms(1)] own_job_row [OF assms(2)]
  by (auto simp: touches_def apply_cancellation_def board_simps Let_def split: option.splits)

lemma reschedule_touches:
  assumes "assign_ok s" "own_job s bid customer = Inr job"
  shows "touches s (apply_reschedule s job bid day window req) job
    (\<lambda>j. (if j_status job = JS_REACHED_SITE \<or> j_status job = JS_CUSTOMER_NOT_AVAIL then j\<lparr>j_status := JS_SCHEDULED\<rparr> else j)
      \<lparr>j_scheduled_date := Some day, j_scheduled_time_window := window, j_reschedule_count := Suc (j_reschedule_count j)\<rparr>)"
  using load_job_mem [OF assms(1)] own_job_row [OF assms(2)]
  by (auto simp: touches_def apply_reschedule_def board_simps Let_def split: option.splits bool.splits)

lemma move_visit_jobs:
  "service_jobs (move_visit s job bid day window) = update_where (\<lambda>j. j_id j = j_id job)
     (\<lambda>j. j\<lparr>j_scheduled_date := Some day, j_scheduled_time_window := Some window, j_status := JS_SCHEDULED,
        j_reschedule_count := Suc (j_reschedule_count j)\<rparr>) (service_jobs s)"
  by (simp add: move_visit_def board_simps Let_def split: option.splits)

lemma assign_step_job:
  assumes "assign_step s t" and "assign_ok s" and "cancelled_released s"
  obtains (same) "service_jobs t = service_jobs s"
    | (provider) job f where "touches s t job f" "j_status job \<noteq> JS_CANCELLED" "has_visit job \<Longrightarrow> visit_of (f job) = visit_of job"
    | (customer) job f env customer day window reason stale req where "touches s t job f" "j_status job \<noteq> JS_CANCELLED"
        "customer_reschedule_booking s env (j_booking_id job) customer day window reason stale req = Inr t"
    | (approval) job f env rid customer b where "touches s t job f" "decide_request s env rid customer ''approve'' = Inr (t, ''approved'')"
        "load_booking s (j_booking_id job) = Some b" "b_customer_id b = Some customer" "j_status (f job) = JS_SCHEDULED"
  using assms(1)
proof cases
  case (assign env jid sid tid date window allow req)
  from assign show ?thesis by (elim place_touches) (blast intro: provider)
next
  case (reassign env jid sid tid reason req)
  from reassign_job_assign [OF this] show ?thesis by (elim place_touches) (blast intro: provider)
next
  case (cancel jid tid reason req)
  then show ?thesis
    by (elim cancel_assignment_release) (rule provider [OF release_touches], auto simp: visit_of_def held_not_cancelled [OF assms(2,3)])
next
  case (accept env jid sid otid req)
  then show ?thesis
    by (elim accept_touches) (rule provider, assumption, auto simp: visit_of_def held_not_cancelled [OF assms(2,3)])
next
  case (reject jid sid reason otid req)
  then show ?thesis
    by (elim reject_release) (rule provider [OF release_touches], auto simp: visit_of_def held_not_cancelled [OF assms(2,3)])
next
  case (request env jid tid day win reason req outcome)
  then show ?thesis by (blast intro: same create_request_keeps)
next
  case (decide env rid customer decision outcome)
  from decide show ?thesis
  proof (cases rule: decide_outcome)
    case closed
    then show ?thesis by (intro same) (simp add: board_simps)
  next
    case rejected
    then show ?thesis by (intro same) (simp add: board_simps)
  next
    case (approved r b job day window)
    have "outcome = ''approved''" using decide approved(1-14)
      by (auto simp: decide_request_def Let_def)
    moreover have "touches s t job (\<lambda>j. j\<lparr>j_scheduled_date := Some day, j_scheduled_time_window := Some window, j_status := JS_SCHEDULED,
        j_reschedule_count := Suc (j_reschedule_count j)\<rparr>)"
      using approved by (auto simp: touches_def board_simps move_visit_jobs)
    moreover have "b_id b = rq_booking_id r" using approved(4) by (auto simp: load_booking_def dest: first_row_Some_set)
    with approved(4,8) have "load_booking s (j_booking_id job) = Some b" by simp
    ultimately show ?thesis using decide approved by (intro approval) auto
  qed
next
  case (schedule env jid tid day win oreason req outcome)
  from schedule show ?thesis by (elim schedule_touches) (blast intro: same provider)+
next
  case (customer_cancel env bid customer reason detail stale req)
  from customer_cancel show ?thesis
  proof (cases rule: customer_cancel_apply)
    case 1
    then show ?thesis by (intro same) simp
  next
    case (2 job code)
    show ?thesis
      by (rule provider [OF cancellation_touches [OF assms(2) 2(1), of code req, folded 2(3)]])
        (use 2(2) in \<open>auto simp: visit_of_def CUSTOMER_CANCELLABLE_JOB_STATUSES_def\<close>)
  qed
next
  case (customer_reschedule env bid customer day window reason stale req)
  from customer_reschedule show ?thesis
  proof (cases rule: customer_reschedule_apply)
    case 1
    then show ?thesis by (intro same) simp
  next
    case (2 job)
    show ?thesis
      by (rule customer [OF reschedule_touches [OF assms(2) 2(1), of day window req, folded 2(4)]])
        (use 2 customer_reschedule own_job_row [OF 2(1)] in
          \<open>auto simp: CUSTOMER_RESCHEDULABLE_JOB_STATUSES_def CUSTOMER_CANCELLABLE_JOB_STATUSES_def\<close>)
  qed
qed

lemma touches_released: "touches s t job f \<Longrightarrow> cancelled_released s \<Longrightarrow> cancelled_released t"
  by (fastforce simp: touches_def cancelled_released_def set_update_where)

lemma assign_step_released:
  assumes "assign_step s t" "assign_ok s" "cancelled_released s"
  shows "cancelled_released t"
  using assms
proof (cases rule: assign_step_job)
  case same
  with assms(3) show ?thesis by (simp add: cancelled_released_def)
qed (use assms(3) in \<open>blast intro: touches_released\<close>)+

lemma touches_load: "touches s t job f \<Longrightarrow> load_job t k = (if k = j_id job then Some (f job) else load_job s k)"
  using load_job_update [of t "j_id job" f s k] by (auto simp: touches_def)



subsection \<open>Reschedule allowances\<close>

definition limits_ok :: "'a assign_db_scheme \<Rightarrow> bool" where
  "limits_ok s \<longleftrightarrow> distinct (map rq_id (reschedule_requests s)) \<and> (\<forall>r \<in> set (reschedule_requests s). rq_id r < next_uuid s) \<and>
     (\<forall>jid. int (customer_reschedule_count s jid) \<le> max 0 (op_customer_reschedule_limit (get_home_services_operations_policy s))) \<and>
     (\<forall>jid. int (approved_provider_reschedule_count s jid) \<le> max 0 (op_provider_reschedule_limit (get_home_services_operations_policy s)))"

definition same_limits :: "'a assign_db_scheme \<Rightarrow> 'a assign_db_scheme \<Rightarrow> bool" where
  "same_limits s t \<longleftrightarrow> get_home_services_operations_policy t = get_home_services_operations_policy s \<and> next_uuid s \<le> next_uuid t"

lemma limits_events:
  assumes "limits_ok s" and "same_limits s t" and "reschedule_requests t = reschedule_requests s"
    and "assignment_events t = assignment_events s @ [e]"
    and "ae_event_type e = ''customer_rescheduled_booking'' \<Longrightarrow>
      int (customer_reschedule_count s (ae_job_id e)) < op_customer_reschedule_limit (get_home_services_operations_policy s)"
  shows "limits_ok t"
proof -
  have "int (customer_reschedule_count t jid) \<le> max 0 (op_customer_reschedule_limit (get_home_services_operations_policy s))" for jid
    using assms(1,4,5) by (cases "ae_event_type e = ''customer_rescheduled_booking'' \<and> ae_job_id e = jid")
      (auto simp: customer_reschedule_count_def limits_ok_def)
  with assms(1-3) show ?thesis
    by (auto simp: limits_ok_def same_limits_def approved_provider_reschedule_count_def intro: order.strict_trans2)
qed

text \<open>Rewriting the one request with that id.\<close>

lemma request_row:
  assumes "limits_ok s" and "first_row (filter (\<lambda>r. rq_id r = rid) (reschedule_requests s)) = Some r" and "x \<in> set (reschedule_requests s)" "rq_id x = rid"
  shows "x = r"
proof -
  from assms(2) have "r \<in> set (reschedule_requests s)" "rq_id r = rid" by (auto dest: first_row_Some_set)
  with assms show ?thesis by (auto simp: limits_ok_def distinct_map dest: inj_onD)
qed

lemma length_filter_update_le:
  "(\<And>x. x \<in> set xs \<Longrightarrow> p x \<Longrightarrow> P (g x) \<Longrightarrow> P x) \<Longrightarrow> length (filter P (update_where p g xs)) \<le> length (filter P xs)"
  by (induction xs) (auto simp: le_SucI)

lemma length_filter_update_one:
  "distinct (map k xs) \<Longrightarrow> length (filter P (update_where (\<lambda>x. k x = i) g xs)) \<le> Suc (length (filter P xs))"
proof (induction xs)
  case (Cons x xs)
  show ?case
  proof (cases "k x = i")
    case True
    with Cons.prems have "update_where (\<lambda>x. k x = i) g xs = xs" by (intro update_where_none) (auto simp: image_iff)
    then show ?thesis by simp
  next
    case False
    with Cons show ?thesis by simp
  qed
qed simp

lemma limits_close_request:
  assumes "limits_ok s" and "st \<noteq> ''approved''"
  shows "limits_ok (set_request rid (\<lambda>x. x\<lparr>rq_status := st\<rparr>) s)"
proof -
  let ?t = "set_request rid (\<lambda>x. x\<lparr>rq_status := st\<rparr>) s"
  have "approved_provider_reschedule_count ?t jid \<le> approved_provider_reschedule_count s jid" for jid
    unfolding approved_provider_reschedule_count_def board_simps using assms(2) by (intro length_filter_update_le) auto
  then have "int (approved_provider_reschedule_count ?t jid) \<le> max 0 (op_provider_reschedule_limit (get_home_services_operations_policy s))" for jid
    using assms(1) unfolding limits_ok_def by (meson order.trans of_nat_le_iff)
  moreover have "map rq_id (reschedule_requests ?t) = map rq_id (reschedule_requests s)"
    by (simp add: board_simps map_update_where_key)
  moreover have "\<forall>r \<in> set (reschedule_requests ?t). rq_id r < next_uuid s"
    using assms(1) by (auto simp: board_simps set_update_where limits_ok_def)
  ultimately show ?thesis using assms(1) by (simp add: limits_ok_def board_simps customer_reschedule_count_def)
qed

lemma limits_approve:
  assumes ok: "limits_ok s" and r: "first_row (filter (\<lambda>r. rq_id r = rid) (reschedule_requests s)) = Some r" "rq_job_id r = Some jid"
    and room: "int (approved_provider_reschedule_count s jid) < op_provider_reschedule_limit (get_home_services_operations_policy s)"
  shows "limits_ok (set_request rid (\<lambda>x. x\<lparr>rq_status := ''approved''\<rparr>) s)"
proof -
  let ?t = "set_request rid (\<lambda>x. x\<lparr>rq_status := ''approved''\<rparr>) s"
  have other: "approved_provider_reschedule_count ?t k \<le> approved_provider_reschedule_count s k" if "k \<noteq> jid" for k
    unfolding approved_provider_reschedule_count_def board_simps
    using that r(2) request_row [OF ok r(1)] by (intro length_filter_update_le) auto
  have one: "approved_provider_reschedule_count ?t jid \<le> Suc (approved_provider_reschedule_count s jid)"
    unfolding approved_provider_reschedule_count_def board_simps
    using ok by (intro length_filter_update_one) (simp add: limits_ok_def)
  have old: "int (approved_provider_reschedule_count s k) \<le> max 0 (op_provider_reschedule_limit (get_home_services_operations_policy s))" for k
    using ok by (simp add: limits_ok_def)
  have "int (approved_provider_reschedule_count ?t k) \<le> max 0 (op_provider_reschedule_limit (get_home_services_operations_policy s))" for k
  proof (cases "k = jid")
    case True
    with one room show ?thesis by (simp add: le_max_iff_disj)
  next
    case False
    with other [OF False] old [of k] show ?thesis by linarith
  qed
  moreover have "map rq_id (reschedule_requests ?t) = map rq_id (reschedule_requests s)"
    by (simp add: board_simps map_update_where_key)
  moreover have "\<forall>r \<in> set (reschedule_requests ?t). rq_id r < next_uuid s"
    using ok by (auto simp: board_simps set_update_where limits_ok_def)
  ultimately show ?thesis using ok by (simp add: limits_ok_def board_simps customer_reschedule_count_def)
qed

lemma policy_read_only [board_simps]:
  "get_home_services_operations_policy (s\<lparr>reschedule_requests := rs, next_uuid := n\<rparr>) = get_home_services_operations_policy s"
  "get_home_services_operations_policy (s\<lparr>job_assignments := as, next_uuid := n\<rparr>) = get_home_services_operations_policy s"
  "get_home_services_operations_policy (s\<lparr>execution_events := es\<rparr>) = get_home_services_operations_policy s"
  by (simp_all add: get_home_services_operations_policy_def)

lemma limits_open_request:
  assumes "limits_ok s"
  shows "limits_ok (open_request s env job tid day window req)"
proof -
  let ?t = "open_request s env job tid day window req"
  have "approved_provider_reschedule_count ?t k = approved_provider_reschedule_count s k"
    "customer_reschedule_count ?t k = customer_reschedule_count s k" for k
    by (simp_all add: approved_provider_reschedule_count_def customer_reschedule_count_def open_request_def board_simps)
  moreover have "distinct (map rq_id (reschedule_requests ?t))" "\<forall>r \<in> set (reschedule_requests ?t). rq_id r < next_uuid ?t"
    using assms by (auto simp: limits_ok_def open_request_def board_simps)
  ultimately show ?thesis using assms by (simp add: limits_ok_def) (simp add: open_request_def board_simps)
qed

lemma place_limits:
  assumes "limits_ok s"
  shows "limits_ok (place_assignment s job sid tid day window old req)"
  by (rule limits_events [OF assms, of _ "\<lparr>ae_job_id = j_id job, ae_booking_id = j_booking_id job,
      ae_event_type = (if old = None then ''assignment_created'' else ''assignment_reassigned''), ae_request_id = req\<rparr>"])
    (auto simp: place_assignment_def same_limits_def board_simps Let_def split: option.splits if_splits)

lemma emit_limits:
  assumes "limits_ok s" and "same_limits s t" and "reschedule_requests t = reschedule_requests s" "assignment_events t = assignment_events s"
    and "ty = ''customer_rescheduled_booking'' \<Longrightarrow>
      int (customer_reschedule_count s (j_id job)) < op_customer_reschedule_limit (get_home_services_operations_policy s)"
  shows "limits_ok (emit_event job ty req t)"
  using assms by (intro limits_events [OF assms(1)]) (auto simp: same_limits_def board_simps)

lemma same_limits_writes [simp]:
  "same_limits s (set_job jid f t) = same_limits s t" "same_limits s (set_booking bid g t) = same_limits s t"
  "same_limits s (set_assignment aid h t) = same_limits s t" "same_limits s (sync_booking bid ast st t) = same_limits s t"
  "same_limits s s"
  by (simp_all add: same_limits_def board_simps)

lemma limits_frame:
  assumes "limits_ok s" "same_limits s t" "reschedule_requests t = reschedule_requests s" "assignment_events t = assignment_events s"
  shows "limits_ok t"
  using assms by (auto simp: limits_ok_def same_limits_def approved_provider_reschedule_count_def customer_reschedule_count_def
      intro: order.strict_trans2)

lemma create_request_limits:
  assumes "create_request s env jid tid day win reason req = Inr (t, outcome)" and "limits_ok s"
  shows "limits_ok t"
  using assms by (auto simp: create_request_def split: if_splits option.splits intro!: limits_open_request limits_close_request)

lemma decide_limits:
  assumes "decide_request s env rid customer decision = Inr (t, outcome)" and "limits_ok s"
  shows "limits_ok t"
  using assms(1)
proof (cases rule: decide_outcome)
  case closed
  with assms(2) show ?thesis by (simp add: limits_close_request)
next
  case (rejected job)
  have "limits_ok (set_request rid (\<lambda>x. x\<lparr>rq_status := ''rejected''\<rparr>) s)" using assms(2) by (rule limits_close_request) simp
  then show ?thesis unfolding rejected by (rule emit_limits) simp_all
next
  case (approved r b job day window)
  let ?u = "move_visit s job (b_id b) day window"
  have u: "limits_ok ?u" "reschedule_requests ?u = reschedule_requests s"
    using assms(2) by (auto simp: move_visit_def board_simps Let_def split: option.splits intro!: limits_frame [OF assms(2)])
  moreover have "get_home_services_operations_policy ?u = get_home_services_operations_policy s"
    by (simp add: move_visit_def board_simps Let_def split: option.splits)
  ultimately have "limits_ok (set_request rid (\<lambda>x. x\<lparr>rq_status := ''approved''\<rparr>) ?u)"
    using approved by (intro limits_approve [of _ _ r "j_id job"]) (auto simp: approved_provider_reschedule_count_def)
  then show ?thesis unfolding approved(15) by (rule emit_limits) simp_all
qed

lemma assign_step_limits: "assign_step s t \<Longrightarrow> limits_ok s \<Longrightarrow> limits_ok t"
proof (induction rule: assign_step.induct)
  case (assign s env jid sid tid date window allow req t)
  from assign.hyps show ?case by (elim assign_job_place) (simp add: place_limits assign.prems)
next
  case (reassign s env jid sid tid reason req t)
  from reassign_job_assign [OF reassign.hyps] show ?case by (elim assign_job_place) (simp add: place_limits reassign.prems)
next
  case (cancel s jid tid reason req t)
  from cancel.hyps show ?case
    by (elim cancel_assignment_release) (auto simp: release_assignment_def board_simps intro!: emit_limits [OF cancel.prems(1)])
next
  case (accept s env jid sid otid req t)
  then show ?case
    by (auto simp: technician_accept_job_def res_simps board_simps split: if_splits intro!: emit_limits [OF accept.prems(1)])
next
  case (reject s jid sid reason otid req t)
  from reject.hyps show ?case
    by (elim reject_release) (auto simp: release_assignment_def board_simps intro!: emit_limits [OF reject.prems(1)])
next
  case (request s env jid tid day win reason req t outcome)
  then show ?case by (blast intro: create_request_limits)
next
  case (decide s env rid customer decision t outcome)
  then show ?case by (blast intro: decide_limits)
next
  case (schedule s env jid tid day win oreason req t outcome)
  then show ?case
    by (auto simp: schedule_job_def res_simps Let_def board_simps split: if_splits option.splits
        intro: create_request_limits intro!: emit_limits [OF schedule.prems(1)])
next
  case (customer_cancel s env bid customer reason detail stale req t)
  from customer_cancel.hyps show ?case
  proof (cases rule: customer_cancel_apply)
    case (2 job code)
    show ?thesis unfolding 2(3)
      by (rule limits_events [OF customer_cancel.prems(1), of _ "\<lparr>ae_job_id = j_id job, ae_booking_id = j_booking_id job,
          ae_event_type = ''customer_cancelled_booking'', ae_request_id = req\<rparr>"])
        (auto simp: apply_cancellation_def same_limits_def board_simps Let_def split: option.splits)
  qed (simp add: customer_cancel.prems)
next
  case (customer_reschedule s env bid customer day window reason stale req t)
  from customer_reschedule.hyps show ?case
  proof (cases rule: customer_reschedule_apply)
    case (2 job)
    then show ?thesis
      by (auto simp: apply_reschedule_def board_simps Let_def split: option.splits bool.splits intro!: emit_limits [OF customer_reschedule.prems(1)])
  qed (simp add: customer_reschedule.prems)
qed

text \<open>
  Allowances hold over every run: no job is ever rescheduled by its customer, or moved on the provider's request, more often than the
  published policy allows.
\<close>

theorem reschedule_allowances_hold:
  assumes "assign_step\<^sup>*\<^sup>* s t" and "limits_ok s"
  shows "int (customer_reschedule_count t jid) \<le> max 0 (op_customer_reschedule_limit (get_home_services_operations_policy t)) \<and>
    int (approved_provider_reschedule_count t jid) \<le> max 0 (op_provider_reschedule_limit (get_home_services_operations_policy t))"
proof -
  from assms have "limits_ok t" by (induction rule: rtranclp_induct) (auto intro: assign_step_limits)
  then show ?thesis by (simp add: limits_ok_def)
qed

subsection \<open>A technician's calendar\<close>

definition visit_start :: "service_job \<Rightarrow> moment option" where
  "visit_start j = slot_start (j_scheduled_date j) (j_scheduled_time_window j)"

definition visit_end :: "service_job \<Rightarrow> moment option" where
  "visit_end j = slot_end (j_scheduled_date j) (j_scheduled_time_window j)"

text \<open>The other visit has a readable slot, and on the same day the two do not overlap.\<close>

definition clear_of :: "date \<Rightarrow> moment \<Rightarrow> moment \<Rightarrow> service_job \<Rightarrow> bool" where
  "clear_of day start stop j \<longleftrightarrow> j_scheduled_date j \<noteq> None \<and> truthy (j_scheduled_time_window j) \<and>
     (j_scheduled_date j = Some day \<longrightarrow> (\<exists>a b. visit_start j = Some a \<and> visit_end j = Some b \<and> (b \<le> start \<or> stop \<le> a)))"

lemma conflict_scan_None: "conflict_scan day start stop js = None \<longleftrightarrow> (\<forall>j \<in> set js. clear_of day start stop j)"
  by (induction js) (auto simp: clear_of_def visit_start_def visit_end_def split: option.splits)

lemma coalesce_laws: "coalesce (coalesce x y) y = coalesce x y" "coalesce None x = x" "coalesce x x = x"
  by (cases x; cases y; simp add: coalesce_def)+

lemma place_job:
  assumes "load_job s jid = Some job" and "t = place_assignment s job sid tid day window old req"
  shows "load_job t jid = Some ((if day = None then job else job\<lparr>j_scheduled_date := day, j_scheduled_time_window := window\<rparr>)
      \<lparr>j_assigned_staff_id := Some sid, j_status := JS_ASSIGNED, j_assignment_status := ASSIGN_ASSIGNED\<rparr>)"
    and "\<And>j. j \<in> set (service_jobs t) \<Longrightarrow> j_id j \<noteq> jid \<Longrightarrow> j \<in> set (service_jobs s)"
proof -
  let ?f = "\<lambda>j. (if day = None then j else j\<lparr>j_scheduled_date := day, j_scheduled_time_window := window\<rparr>)
      \<lparr>j_assigned_staff_id := Some sid, j_status := JS_ASSIGNED, j_assignment_status := ASSIGN_ASSIGNED\<rparr>"
  have jobs: "service_jobs t = update_where (\<lambda>j. j_id j = jid) ?f (service_jobs s)"
    using assms load_job_id [OF assms(1)] by (auto simp: place_assignment_def board_simps Let_def split: option.splits)
  show "load_job t jid = Some (?f job)" using load_job_update [OF jobs, of jid] assms(1) by simp
  show "\<And>j. j \<in> set (service_jobs t) \<Longrightarrow> j_id j \<noteq> jid \<Longrightarrow> j \<in> set (service_jobs s)"
    by (auto simp: jobs set_update_where)
qed

text \<open>
  C3: An assignment never double-books: once a job is assigned, every other job its technician holds in the tenant and has not finished
  is clear of the new visit; and when the new visit has no readable slot, the technician holds no other open job at all.
\<close>

theorem assigned_technician_not_double_booked:
  assumes "assign_job s env jid sid tid date window allow req = Inr t"
  shows "\<exists>job. load_job t jid = Some job \<and> j_assigned_staff_id job = Some sid \<and> j_status job = JS_ASSIGNED \<and>
    (\<forall>other \<in> set (service_jobs t). j_id other \<noteq> jid \<longrightarrow> j_tenant_id other = Some tid \<longrightarrow> j_assigned_staff_id other = Some sid \<longrightarrow>
       j_status other \<in> set OCCUPYING_JOB_STATUSES \<longrightarrow>
       (\<exists>day a b. j_scheduled_date job = Some day \<and> visit_start job = Some a \<and> visit_end job = Some b \<and> clear_of day a b other))"
proof -
  from assms obtain job where j: "load_job s jid = Some job" "j_tenant_id job = Some tid"
    "staff_assignment_conflict_reason s job sid (Some jid) (coalesce date (j_scheduled_date job)) (coalesce window (j_scheduled_time_window job)) = None"
    "t = place_assignment s job sid tid (coalesce date (j_scheduled_date job)) (coalesce window (j_scheduled_time_window job))
       (current_assignment s jid) req" by (elim assign_job_place) auto
  let ?day = "coalesce date (j_scheduled_date job)" and ?win = "coalesce window (j_scheduled_time_window job)"
  let ?j = "(if ?day = None then job else job\<lparr>j_scheduled_date := ?day, j_scheduled_time_window := ?win\<rparr>)
      \<lparr>j_assigned_staff_id := Some sid, j_status := JS_ASSIGNED, j_assignment_status := ASSIGN_ASSIGNED\<rparr>"
  note new = place_job [OF j(1,4)]
  have "\<exists>day a b. j_scheduled_date ?j = Some day \<and> visit_start ?j = Some a \<and> visit_end ?j = Some b \<and> clear_of day a b other"
    if "other \<in> set (service_jobs t)" "j_id other \<noteq> jid" "j_tenant_id other = Some tid" "j_assigned_staff_id other = Some sid"
      "j_status other \<in> set OCCUPYING_JOB_STATUSES" for other
  proof -
    have mem: "other \<in> set (occupying_jobs s (Some tid) sid (Some jid))"
      using that new(2) by (auto simp: occupying_jobs_def)
    then have "staff_has_open_job s (Some tid) sid (Some jid)" by (auto simp: staff_has_open_job_def)
    with j(3) obtain day a b where d: "?day = Some day" "slot_start ?day ?win = Some a" "slot_end ?day ?win = Some b"
      "conflict_scan day a b (occupying_jobs s (Some tid) sid (Some jid)) = None"
      by (auto simp: staff_assignment_conflict_reason_def coalesce_laws j(2) Let_def split: option.splits)
    then show ?thesis using mem by (auto simp: conflict_scan_None visit_start_def visit_end_def)
  qed
  with new(1) show ?thesis by (intro exI [of _ ?j]) auto
qed

subsection \<open>Reads that agree with the writes\<close>

text \<open>
  The cancel button tells the truth: for an accepted reason the eligibility read says the booking can be cancelled exactly when the
  cancellation goes through.
\<close>

theorem eligibility_predicts_cancellation:
  assumes "get_customer_eligibility s env bid customer = Inr e"
    and "cancellation_rule_for (cd_reason_options (el_cancellation e)) reason = Some rule" and "\<not> blank reason"
    and "cn_requires_detail rule \<Longrightarrow> \<not> blank detail"
  shows "can_cancel (el_cancellation e) \<longleftrightarrow> (\<exists>t. customer_cancel_booking s env bid customer reason (Some detail) False None = Inr t)"
proof -
  from assms(1) obtain job where job: "own_job s bid customer = Inr job"
    and e: "el_cancellation e = customer_cancellation_decision env job (resolve_job_type_workflow s job) (get_home_services_operations_policy s)"
    by (auto simp: get_customer_eligibility_def res_simps Let_def)
  let ?d = "el_cancellation e"
  have "can_cancel ?d \<Longrightarrow> \<not> given (resolve_job_type_workflow s job) (\<lambda>w. \<not> allows_cancellation w) \<and> j_status job \<noteq> JS_CANCELLED"
    unfolding e by (auto simp: can_cancel_def customer_cancellation_decision_def Let_def CUSTOMER_CANCELLABLE_JOB_STATUSES_def split: if_splits)
  then show ?thesis
    using assms(2-4) by (auto simp: customer_cancel_booking_def job e [symmetric] check_version_def event_recorded_def Let_def)
qed

text \<open>
  And so does the reschedule button: when the day is not past and the new slot has room, a fresh request goes through exactly when the
  read offered it.
\<close>

theorem eligibility_predicts_reschedule:
  assumes "get_customer_eligibility s env bid customer = Inr e" and "own_job s bid customer = Inr job"
    and "\<not> blank reason" and "utc_today env \<le> day" and "j_tenant_id job = Some tid"
    and "ag_available (aggregate_slot_available s tid day)"
    and "slot_has_capacity s (en_dbnow env) tid day window (Some (j_offering_id job)) (j_job_type_id job) (Some (j_id job))"
  shows "el_can_reschedule e \<longleftrightarrow> (\<exists>t. customer_reschedule_booking s env bid customer day (Some window) reason False None = Inr t)"
proof -
  let ?used = "int (customer_reschedule_count s (j_id job))" and ?limit = "op_customer_reschedule_limit (get_home_services_operations_policy s)"
  from assms(1,2) have "el_can_reschedule e \<longleftrightarrow> j_status job \<in> set CUSTOMER_RESCHEDULABLE_JOB_STATUSES \<and>
      \<not> given (resolve_job_type_workflow s job) (\<lambda>w. \<not> allows_reschedule w) \<and> ?used < ?limit"
    by (auto simp: get_customer_eligibility_def res_simps Let_def)
  with assms(2-7) show ?thesis
    by (auto simp: customer_reschedule_booking_def check_version_def event_recorded_def)
qed

definition staff_ids_unique :: "'a slot_db_scheme \<Rightarrow> bool" where
  "staff_ids_unique s \<longleftrightarrow> distinct (map m_id (team_members s) @ map us_id (users s))"

lemma load_staff_unique:
  assumes "staff_ids_unique s"
  shows "m \<in> set (team_members s) \<Longrightarrow> load_staff s (m_id m) = Some (Team m)"
    and "u \<in> set (users s) \<Longrightarrow> load_staff s (us_id u) = Some (Login u)"
proof -
  show "load_staff s (m_id m) = Some (Team m)" if "m \<in> set (team_members s)"
    using filter_key_single [of m_id "team_members s" m] that assms by (simp add: load_staff_def staff_ids_unique_def)
  show "load_staff s (us_id u) = Some (Login u)" if "u \<in> set (users s)"
  proof -
    from that assms have "filter (\<lambda>m. m_id m = us_id u) (team_members s) = []"
      by (auto simp: staff_ids_unique_def filter_empty_conv)
    with filter_key_single [of us_id "users s" u] that assms show ?thesis by (simp add: load_staff_def staff_ids_unique_def)
  qed
qed

lemma field_role_allowed:
  "us_role u = ''technician'' \<or> us_role u = ''staff'' \<Longrightarrow> us_is_active u \<Longrightarrow> login_reasons u = []"
proof -
  have "normalise_designation (Some ''technician'') \<in> set ELIGIBLE_DESIGNATIONS" "normalise_designation (Some ''staff'') = ''staff''"
    by code_simp+
  then show "us_role u = ''technician'' \<or> us_role u = ''staff'' \<Longrightarrow> us_is_active u \<Longrightarrow> login_reasons u = []"
    by (auto simp: login_reasons_def Let_def)
qed

lemma listed_staff_valid:
  assumes "staff_ids_unique s" and "st \<in> set (roster_for s tid)" and "blocked_reasons s tid job st = []" and "j_tenant_id job = Some tid"
  shows "validate_staff_eligibility s tid job (staff_id_of st) = Inr []"
    and "staff_assignment_conflict_reason s job (staff_id_of st) (Some (j_id job)) None None = None"
proof -
  show "staff_assignment_conflict_reason s job (staff_id_of st) (Some (j_id job)) None None = None"
    using assms(3) by (auto simp: blocked_reasons_def Let_def split: if_splits option.splits)
  have av: "availability_block_reasons s tid job (staff_id_of st) = []"
    using assms(3) by (auto simp: blocked_reasons_def Let_def split: if_splits)
  show "validate_staff_eligibility s tid job (staff_id_of st) = Inr []"
  proof (cases st)
    case (Team m)
    with assms have "m \<in> set (team_members s)" "m_tenant_id m = tid" "member_reasons s m = []"
      by (auto simp: roster_for_def blocked_reasons_def Let_def split: if_splits)
    with Team av load_staff_unique(1) [OF assms(1)] assms(4) show ?thesis by (simp add: validate_staff_eligibility_def staff_id_of_def)
  next
    case (Login u)
    with assms have "u \<in> set (users s)" "us_tenant_id u = Some tid" "login_reasons u = []"
      by (auto simp: roster_for_def blocked_reasons_def Let_def intro!: field_role_allowed split: if_splits)
    with Login av load_staff_unique(2) [OF assms(1)] assms(4) show ?thesis by (simp add: validate_staff_eligibility_def staff_id_of_def)
  qed
qed


subsection \<open>A concrete board\<close>

definition demo_tech :: team_member where
  "demo_tech = demo_member\<lparr>m_supported_offering_ids := [11]\<rparr>"

definition demo_visit :: service_job where
  "demo_visit = demo_job\<lparr>j_status := JS_ASSIGNED, j_assigned_staff_id := Some 1, j_scheduled_date := Some 8,
     j_scheduled_time_window := Some ''09:00-11:00'', j_assignment_status := ASSIGN_ASSIGNED\<rparr>"

definition demo_row :: job_assignment where
  "demo_row = \<lparr>ja_id = 7, ja_job_id = 1, ja_booking_id = 2, ja_tenant_id = 4, ja_staff_id = 1, ja_status = ASSIGN_ASSIGNED,
     ja_scheduled_date = Some 8, ja_scheduled_time_window = Some ''09:00-11:00'', ja_is_current = True\<rparr>"

definition demo_request :: reschedule_request where
  "demo_request = \<lparr>rq_id = 8, rq_booking_id = 2, rq_job_id = Some 1, rq_tenant_id = 4, rq_request_source = ''provider'',
     rq_original_date = Some 8, rq_original_slot = Some ''09:00-11:00'', rq_requested_date = Some 8, rq_requested_slot = Some ''14:00-16:00'',
     rq_status = ''pending'', rq_expires_at = None\<rparr>"

text \<open>One provider with one technician, one job and its assignment row, and the slot change the provider asked for.\<close>

definition demo_board_of :: "service_job list \<Rightarrow> job_assignment list \<Rightarrow> assign_db" where
  "demo_board_of js as = avail_db.extend
     (demo_avail\<lparr>service_jobs := js, next_uuid := 10, team_members := [demo_tech], tenant_services :=
        [\<lparr>sv_id = 11, sv_tenant_id = 4, sv_master_service_id = 6, sv_job_type_id = 0, sv_is_active = True, sv_is_enabled = True,
          sv_deleted = False, sv_setup_status = ''published''\<rparr>]\<rparr>)
     (assign_db.fields as [] [demo_request])"

lemma demo_board_simps [simp]:
  "service_jobs (demo_board_of js as) = js" "job_assignments (demo_board_of js as) = as" "next_uuid (demo_board_of js as) = 10"
  "assignment_events (demo_board_of js as) = []" "reschedule_requests (demo_board_of js as) = [demo_request]"
  "service_bookings (demo_board_of js as) = [demo_booking]" "team_members (demo_board_of js as) = [demo_tech]"
  "users (demo_board_of js as) = []" "job_workflows (demo_board_of js as) = []"
  "verticals (demo_board_of js as) = [\<lparr>v_id = 2, v_key = ''home_services''\<rparr>]" "policies (demo_board_of js as) = [demo_policy]"
  "availability_rules (demo_board_of js as) = [demo_hours]" "availability_exceptions (demo_board_of js as) = []"
  "topup_entitlements (demo_board_of js as) = [\<lparr>en_tenant_id = 4, en_seats = 3, en_status = ''active'', en_expires_at = None\<rparr>]"
  "\<not> roster_unreadable (demo_board_of js as)" "booking_drafts (demo_board_of js as) = []" "window_rows (demo_board_of js as) = []"
  "tenant_services (demo_board_of js as) = [\<lparr>sv_id = 11, sv_tenant_id = 4, sv_master_service_id = 6, sv_job_type_id = 0, sv_is_active = True,
     sv_is_enabled = True, sv_deleted = False, sv_setup_status = ''published''\<rparr>]"
  by (simp_all add: demo_board_of_def avail_db.defs assign_db.defs demo_avail_def slot_db.defs demo_slots_def credit_db.defs empty_credits_def
      monet_db.defs demo_monet_def job_db.defs demo_jobs_def ledger_db.defs)

lemma demo_policy_limits:
  "op_customer_reschedule_limit (get_home_services_operations_policy (demo_board_of js as)) = 3"
  "op_provider_reschedule_limit (get_home_services_operations_policy (demo_board_of js as)) = 3"
  "op_customer_cancellation_enabled (get_home_services_operations_policy (demo_board_of js as))"
  "op_customer_cancellation_cutoff_minutes (get_home_services_operations_policy (demo_board_of js as)) = 120"
  "op_customer_cancellation_reasons (get_home_services_operations_policy (demo_board_of js as)) = DEFAULT_CUSTOMER_CANCELLATION_REASONS"
  by (simp_all add: get_home_services_operations_policy_def demo_policy_def DEFAULT_OPERATIONS_def)

definition demo_board_env :: assign_env where
  "demo_board_env = \<lparr>en_now = combine 7 0, en_dbnow = 0\<rparr>"

lemma demo_board_ok: "assign_ok (demo_board_of [demo_visit] [demo_row])" "cancelled_released (demo_board_of [demo_visit] [demo_row])"
  "limits_ok (demo_board_of js as)"
  by (simp_all add: assign_ok_def board_ok_def demo_row_def demo_visit_def demo_job_def current_of_def cancelled_released_def
      limits_ok_def demo_policy_limits customer_reschedule_count_def approved_provider_reschedule_count_def demo_request_def)

theorem one_holder_per_job_witness:
  "\<exists>t. technician_reject_job (demo_board_of [demo_visit] [demo_row]) 1 1 ''busy'' None None = Inr t \<and>
     (\<forall>j \<in> set (service_jobs t). j_assigned_staff_id j = map_option ja_staff_id (current_assignment t (j_id j)))"
proof -
  obtain t where t: "technician_reject_job (demo_board_of [demo_visit] [demo_row]) 1 1 ''busy'' None None = Inr t"
    by (simp add: technician_reject_job_def own_assignment_def blank_def py_space_def load_job_def current_assignment_def demo_visit_def
        demo_job_def demo_row_def)
  with one_holder_per_job [OF r_into_rtranclp [of assign_step, OF assign_step.reject [OF t]] demo_board_ok(1)] show ?thesis by blast
qed

lemma demo_board_capacity:
  "slot_has_capacity (demo_board_of [demo_visit\<lparr>j_status := st, j_assigned_staff_id := h\<rparr>] as) 0 4 8 ''14:00-16:00'' (Some 6) None (Some 1)"
proof -
  let ?s = "demo_board_of [demo_visit\<lparr>j_status := st, j_assigned_staff_id := h\<rparr>] as"
  have rules: "provider_rules_for_day ?s 4 (isoweekday_mod7 8) = [demo_rule]"
    by (simp add: provider_rules_for_day_def joined_buffer_def demo_hours_def demo_rule_def availability_rule.defs rule_row.defs isoweekday_mod7_def)
  have count: "assignable_technician_count ?s 0 4 (Some 6) None = 1"
    by (simp add: assignable_technician_count_def ready_technicians_def active_technician_sql_def coalesce_text_def serves_def
        documented_def required_technician_keys_def funded_seats_def btrim_def lower_def lower_char_def TECHNICIAN_MEMBER_TYPES_def demo_tech_def)
  have booked: "booked_counts ?s 4 8 (Some 1) = []" "\<not> is_closed ?s 4 8"
    by (simp_all add: booked_counts_def booked_windows_def is_closed_def demo_visit_def demo_job_def)
  show ?thesis unfolding slot_has_capacity_def rules count booked(1)
    using booked(2) by (simp add: demo_capacity overlapping_bookings_def demo_labels Let_def)
qed

lemma demo_fields:
  "j_id demo_visit = 1" "j_booking_id demo_visit = 2" "j_tenant_id demo_visit = Some 4" "j_offering_id demo_visit = 6"
  "j_job_type_id demo_visit = None" "j_scheduled_date demo_visit = Some 8" "j_scheduled_time_window demo_visit = Some ''09:00-11:00''"
  "rq_id demo_request = 8" "rq_booking_id demo_request = 2" "rq_job_id demo_request = Some 1" "rq_request_source demo_request = ''provider''"
  "rq_status demo_request = ''pending''" "rq_expires_at demo_request = None" "rq_requested_date demo_request = Some 8"
  "requested_window demo_request = ''14:00-16:00''" "b_id demo_booking = 2" "b_customer_id demo_booking = Some 3"
  by (simp_all add: demo_visit_def demo_job_def demo_request_def requested_window_def strip_def py_space_def demo_booking_def)

text \<open>The job was cancelled; then its customer approved the request that was still open.\<close>

lemma demo_revival:
  defines "s \<equiv> demo_board_of [demo_visit\<lparr>j_status := JS_CANCELLED, j_assigned_staff_id := None\<rparr>] []"
  obtains t j' where "decide_request s demo_board_env 8 3 ''approve'' = Inr (t, ''approved'')" "load_job t 1 = Some j'"
    "j_status j' = JS_SCHEDULED" "visit_of j' = (Some 8, Some ''14:00-16:00'')"
proof -
  let ?job = "demo_visit\<lparr>j_status := JS_CANCELLED, j_assigned_staff_id := None\<rparr>"
  have load: "load_job s 1 = Some ?job" "load_booking s 2 = Some demo_booking"
    by (simp_all add: load_job_def load_booking_def s_def demo_fields)
  have cap: "capacity_available s demo_board_env ?job 8 ''14:00-16:00''"
    using demo_board_capacity [where st = JS_CANCELLED and h = None and as = "[]"]
    by (simp add: capacity_available_def demo_board_env_def s_def demo_fields)
  have room: "approved_provider_reschedule_count s 1 = 0" by (simp add: approved_provider_reschedule_count_def s_def demo_fields)
  have "reschedule_requests s = [demo_request]" "op_provider_reschedule_limit (get_home_services_operations_policy s) = 3"
    by (simp_all add: s_def demo_policy_limits)
  then have t: "decide_request s demo_board_env 8 3 ''approve'' = Inr (emit_event ?job ''provider_reschedule_approved'' None
      (set_request 8 (\<lambda>x. x\<lparr>rq_status := ''approved''\<rparr>) (move_visit s ?job 2 8 ''14:00-16:00'')), ''approved'')" (is "_ = Inr (?t, _)")
    using cap room load by (simp add: decide_request_def expired_def demo_fields Let_def del: One_nat_def)
  have "load_job ?t 1 = Some (?job\<lparr>j_scheduled_date := Some 8, j_scheduled_time_window := Some ''14:00-16:00'', j_status := JS_SCHEDULED,
      j_reschedule_count := Suc (j_reschedule_count ?job)\<rparr>)"
    by (simp add: load_job_def board_simps move_visit_jobs s_def demo_fields)
  then show ?thesis by (rule that [OF t]) (simp_all add: visit_of_def)
qed

definition demo_cancelled :: assign_db where
  "demo_cancelled = demo_board_of [demo_visit\<lparr>j_status := JS_CANCELLED, j_assigned_staff_id := None\<rparr>] []"

lemma demo_cancelled_ok:
  "assign_ok demo_cancelled" "cancelled_released demo_cancelled" "limits_ok demo_cancelled"
  "load_job demo_cancelled 1 = Some (demo_visit\<lparr>j_status := JS_CANCELLED, j_assigned_staff_id := None\<rparr>)"
  by (simp_all add: demo_cancelled_def assign_ok_def board_ok_def current_of_def cancelled_released_def demo_board_ok load_job_def demo_fields)



theorem reschedule_allowances_hold_witness:
  "\<exists>t. decide_request demo_cancelled demo_board_env 8 3 ''approve'' = Inr (t, ''approved'') \<and>
     int (approved_provider_reschedule_count t 1) \<le> max 0 (op_provider_reschedule_limit (get_home_services_operations_policy t))"
proof -
  from demo_revival [folded demo_cancelled_def] obtain t where t: "decide_request demo_cancelled demo_board_env 8 3 ''approve'' = Inr (t, ''approved'')" by metis
  with reschedule_allowances_hold [OF r_into_rtranclp [of assign_step, OF assign_step.decide [OF t]] demo_cancelled_ok(3), of 1] show ?thesis by blast
qed

text \<open>A closed row, and the provider scheduling the job again at the same slot.\<close>

definition demo_closed :: assign_db where
  "demo_closed = demo_board_of [demo_visit\<lparr>j_status := JS_PENDING_ASSIGNMENT, j_assigned_staff_id := None\<rparr>]
     [demo_row\<lparr>ja_status := ASSIGN_REJECTED, ja_is_current := False\<rparr>]"

theorem closed_assignment_is_final_witness:
  "\<exists>t. schedule_job demo_closed demo_board_env 1 4 8 ''09:00-11:00'' None None = Inr (t, ''scheduled'') \<and>
     row_status (job_assignments t) 7 = Some ASSIGN_REJECTED"
proof -
  have ok: "assign_ok demo_closed" "row_status (job_assignments demo_closed) 7 = Some ASSIGN_REJECTED"
    by (simp_all add: demo_closed_def assign_ok_def board_ok_def current_of_def row_status_def demo_row_def)
  obtain t where t: "schedule_job demo_closed demo_board_env 1 4 8 ''09:00-11:00'' None None = Inr (t, ''scheduled'')"
    by (simp add: schedule_job_def load_job_def demo_closed_def demo_fields REASSIGNABLE_def Let_def)
  with closed_assignment_is_final [OF r_into_rtranclp [of assign_step, OF assign_step.schedule [OF t]] ok] show ?thesis by simp
qed

text \<open>A second job of the technician in the afternoon, and the morning one assigned to them.\<close>

definition demo_open :: assign_db where
  "demo_open = demo_board_of [demo_job\<lparr>j_status := JS_PENDING_ASSIGNMENT\<rparr>,
     demo_visit\<lparr>j_id := 21, j_scheduled_time_window := Some ''14:00-16:00''\<rparr>] [demo_row\<lparr>ja_job_id := 21\<rparr>]"

lemma demo_job_fields: "j_tenant_id demo_job = Some 4" "j_scheduled_date demo_job = None" "j_scheduled_time_window demo_job = None"
  by (simp_all add: demo_job_def)

lemma words_plain: "s \<noteq> [] \<Longrightarrow> list_all (\<lambda>c. \<not> py_space c) s \<Longrightarrow> words s = [s]"
proof -
  have nil: "words [] = []" by (subst words.simps) simp
  assume s: "s \<noteq> []" "list_all (\<lambda>c. \<not> py_space c) s"
  then have d: "dropWhile py_space s = s" "takeWhile (\<lambda>c. \<not> py_space c) s = s" "dropWhile (\<lambda>c. \<not> py_space c) s = []"
    by (cases s; auto simp: list_all_iff)+
  show ?thesis by (subst words.simps) (simp only: d Let_def s(1) if_False nil)
qed

lemma demo_clock:
  "slot_start (Some 8) (Some ''09:00-11:00'') = Some (combine 8 32400)" "slot_end (Some 8) (Some ''09:00-11:00'') = Some (combine 8 39600)"
  "slot_start (Some 8) (Some ''14:00-16:00'') = Some (combine 8 50400)" "slot_end (Some 8) (Some ''14:00-16:00'') = Some (combine 8 57600)"
proof -
  have p: "parse_wall_time ''09:00'' = Some 32400" "parse_wall_time ''11:00'' = Some 39600"
    "parse_wall_time ''14:00'' = Some 50400" "parse_wall_time ''16:00'' = Some 57600"
    by (simp_all add: parse_wall_time_def words_plain upper_char_def num2_def clock_tod_def py_space_def is_digit_def nat_of_str_def Let_def)
  have d: "date_of (combine 8 32400) = 8" "date_of (combine 8 50400) = 8" by (simp_all add: date_of_def combine_def)
  show "slot_start (Some 8) (Some ''09:00-11:00'') = Some (combine 8 32400)" "slot_end (Some 8) (Some ''09:00-11:00'') = Some (combine 8 39600)"
    "slot_start (Some 8) (Some ''14:00-16:00'') = Some (combine 8 50400)" "slot_end (Some 8) (Some ''14:00-16:00'') = Some (combine 8 57600)"
    by (simp_all add: slot_start_def slot_end_def strip_def py_space_def p d Let_def) (simp_all add: combine_def)
qed

theorem assigned_technician_not_double_booked_witness:
  "\<exists>t job. assign_job demo_open demo_board_env 1 1 4 (Some 8) (Some ''09:00-11:00'') False None = Inr t \<and>
     load_job t 1 = Some job \<and> j_assigned_staff_id job = Some 1"
proof -
  have job: "load_job demo_open 1 = Some (demo_job\<lparr>j_status := JS_PENDING_ASSIGNMENT\<rparr>)" by (simp add: load_job_def demo_open_def demo_job_def)
  have "occupying_jobs demo_open (Some 4) 1 (Some 1) = [demo_visit\<lparr>j_id := 21, j_scheduled_time_window := Some ''14:00-16:00''\<rparr>]"
    by (simp add: occupying_jobs_def demo_open_def demo_visit_def demo_job_def OCCUPYING_JOB_STATUSES_def)
  then have free: "staff_assignment_conflict_reason demo_open (demo_job\<lparr>j_status := JS_PENDING_ASSIGNMENT\<rparr>) 1 (Some 1) (Some 8) (Some ''09:00-11:00'') = None"
    by (simp add: staff_assignment_conflict_reason_def demo_job_def coalesce_def demo_clock demo_fields Let_def del: One_nat_def) (simp add: combine_def)
  have elig: "validate_staff_eligibility demo_open 4 (demo_job\<lparr>j_status := JS_PENDING_ASSIGNMENT\<rparr>) 1 = Inr []"
    by (simp add: validate_staff_eligibility_def load_staff_def demo_open_def demo_tech_def member_reasons_def availability_block_reasons_def
        demo_job_def) (code_simp)
  have "\<not> slot_has_ended (Some 8) (Some ''09:00-11:00'') (en_now demo_board_env)"
    by (simp add: slot_has_ended_def demo_clock demo_board_env_def combine_def)
  moreover have "current_assignment demo_open 1 = None" by (simp add: current_assignment_def demo_open_def demo_row_def)
  ultimately obtain t where t: "assign_job demo_open demo_board_env 1 1 4 (Some 8) (Some ''09:00-11:00'') False None = Inr t"
    using job free elig by (simp add: assign_job_def validate_job_assignable_def ASSIGN_TERMINAL_STATUSES_def refuse_blocked_def coalesce_def
        demo_clock demo_job_fields Let_def del: One_nat_def)
  from assigned_technician_not_double_booked [OF t] t show ?thesis by blast
qed

lemma demo_rule_found: "cancellation_rule_for (filter cn_active DEFAULT_CUSTOMER_CANCELLATION_REASONS) ''changed_mind'' =
    Some (cancellation_rule_of ''changed_mind'' ''Changed my mind'' False)"
  by (simp add: cancellation_rule_for_def reason_rules_def DEFAULT_CUSTOMER_CANCELLATION_REASONS_def cancellation_rule_of_def)

theorem eligibility_predicts_cancellation_witness:
  "\<exists>t. customer_cancel_booking (demo_board_of [demo_visit] [demo_row]) demo_board_env 2 3 ''changed_mind'' (Some []) False None = Inr t"
proof -
  let ?s = "demo_board_of [demo_visit] [demo_row]"
  have job: "own_job ?s 2 3 = Inr demo_visit"
    by (simp add: own_job_def load_booking_and_job_def load_booking_def demo_fields)
  have wf: "resolve_job_type_workflow ?s demo_visit = None"
    by (simp add: resolve_job_type_workflow_def demo_fields demo_visit_def demo_job_def)
  obtain e where e: "get_customer_eligibility ?s demo_board_env 2 3 = Inr e"
    "el_cancellation e = customer_cancellation_decision demo_board_env demo_visit None (get_home_services_operations_policy ?s)"
    by (simp add: get_customer_eligibility_def job wf Let_def)
  have "j_status demo_visit = JS_ASSIGNED" by (simp add: demo_visit_def)
  then have d: "can_cancel (el_cancellation e)"
    "cd_reason_options (el_cancellation e) = filter cn_active DEFAULT_CUSTOMER_CANCELLATION_REASONS"
    by (simp_all add: e(2) can_cancel_def customer_cancellation_decision_def demo_policy_limits demo_fields demo_clock demo_board_env_def combine_def
        CUSTOMER_CANCELLABLE_JOB_STATUSES_def Let_def)
  from eligibility_predicts_cancellation [OF e(1), unfolded d(2), OF demo_rule_found, of "[]"] d(1)
  show ?thesis by (simp add: blank_def py_space_def cancellation_rule_of_def)
qed

definition demo_login :: user_row where
  "demo_login = \<lparr>us_id = 31, us_is_active = True, us_tenant_id = Some 4, us_role = ''technician''\<rparr>"


subsection \<open>The clock is well formed\<close>

lemma clock_tod_range: "clock_tod h m = Some t \<Longrightarrow> t < 86400"
  by (auto simp: clock_tod_def split: if_splits)

lemma parse_wall_time_range: "parse_wall_time v = Some t \<Longrightarrow> t < 86400"
  by (auto simp: parse_wall_time_def Let_def bind_eq_Some_conv dest: clock_tod_range split: list.splits)

lemma date_of_combine: "t < 86400 \<Longrightarrow> date_of (combine d t) = d"
  by (simp add: date_of_def combine_def)

lemma slot_start_range: "slot_start day window = Some a \<Longrightarrow> \<exists>d t. day = Some d \<and> a = combine d t \<and> t < 86400"
  by (auto simp: slot_start_def DEFAULT_START_def dest: parse_wall_time_range split: option.splits if_splits)



end
