(* ===== verification/Execution.thy ===== *)
theory Execution
  imports Checklists Assignments
begin

section \<open>Job execution (execution/home_service_service.py)\<close>

text \<open>
  What the technician, the provider and the customer can do to a home-service job once it is assigned:
  accept or reject, travel, arrive, inspect, work, request parts, finish and complete it, and cancel it. Every
  change of the status goes through \<open>set_status\<close>, which holds the transition guard, the gates of the work
  start, the event log and the booking mirror. Rows without an \<^verbatim>\<open>ORDER BY\<close> are read in insertion order, and
  the newest row of a table is the last one inserted.

  What the operations of other components answer is an argument where that component is not modelled: the
  verification of the arrival (\<open>arrival\<close>), and the settlement of a recorded missed slot (\<open>settle\<close>). Not
  kept: stage timers, completion data, warranty certificates, notes, media, messages to the
  customer, the enrolment in the arrival clock when travel starts, and who acted in which request. A completion
  takes the branch of a job with an invoice or without; the arrival of an instagram booking, which waits for the
  customer's word, is not modelled.
\<close>

subsection \<open>Data\<close>

record completion_proof =
  cp_job_id :: uuid
  cp_tenant_id :: uuid
  cp_status :: string
  cp_handover_status :: string

record exec_db = chk_db +
  completion_proofs :: "completion_proof list"
  visit_buffers :: "(uuid \<times> int option) list"
  job_assignment_rows :: "job_assignment list"
  legacy_checklists :: "uuid list"
  job_type_keys :: "(uuid \<times> string) list"

definition EV_CUSTOMER_CONTACTED :: string where "EV_CUSTOMER_CONTACTED = ''customer_contacted''"

definition PARTS_PENDING_STATUSES :: "string list" where
  "PARTS_PENDING_STATUSES = [''requested'', ''customer_approval_pending'']"

definition PARTS_APPROVED_STATUSES :: "string list" where
  "PARTS_APPROVED_STATUSES = [''business_approved'', ''customer_approved'']"

definition PARTS_REQUEST_ALLOWED_JOB_STATUSES :: "job_status list" where
  "PARTS_REQUEST_ALLOWED_JOB_STATUSES =
     [JS_INSPECTION_STARTED, JS_INSPECTION_DONE, JS_SERVICE_STARTED, JS_QUOTE_REQUIRED]"

definition COMPLETABLE_JOB_STATUSES :: "job_status list" where
  "COMPLETABLE_JOB_STATUSES = [JS_WORK_DONE]"

definition PAYMENT_MODE_HOME_SERVICES :: string where
  "PAYMENT_MODE_HOME_SERVICES = ''customer_pays_provider_directly''"

subsection \<open>Helpers\<close>

definition get_job :: "'a exec_db_scheme \<Rightarrow> uuid \<Rightarrow> uuid \<Rightarrow> service_job res" where
  "get_job s jid tid =
     require (ServiceOSException ''RECORD_NOT_FOUND'')
       (first_row (filter (\<lambda>j. j_id j = jid \<and> j_tenant_id j = Some tid) (service_jobs s)))"

definition assert_staff_owns_job :: "service_job \<Rightarrow> uuid \<Rightarrow> unit res" where
  "assert_staff_owns_job job staff =
     (if j_assigned_staff_id job \<noteq> Some staff then Inl (ServiceOSException ''STAFF_NOT_ASSIGNED'') else Inr ())"

definition staff_job :: "'a exec_db_scheme \<Rightarrow> uuid \<Rightarrow> uuid \<Rightarrow> uuid \<Rightarrow> service_job res" where
  "staff_job s jid tid staff =
     bind_res (get_job s jid tid) (\<lambda>job. bind_res (assert_staff_owns_job job staff) (\<lambda>_. Inr job))"

definition log_event ::
  "'a exec_db_scheme \<Rightarrow> service_job \<Rightarrow> string \<Rightarrow> job_status \<Rightarrow> job_status \<Rightarrow> 'a exec_db_scheme" where
  "log_event s job event_type old new =
     s\<lparr>execution_events := execution_events s @
        [\<lparr>ev_job_id = j_id job, ev_event_type = event_type, ev_old_status = Some old, ev_new_status = Some new\<rparr>]\<rparr>"

definition edit_job :: "'a exec_db_scheme \<Rightarrow> uuid \<Rightarrow> (service_job \<Rightarrow> service_job) \<Rightarrow> 'a exec_db_scheme" where
  "edit_job s jid f = s\<lparr>service_jobs := update_where (\<lambda>j. j_id j = jid) f (service_jobs s)\<rparr>"

definition customer_already_contacted :: "'a exec_db_scheme \<Rightarrow> uuid \<Rightarrow> bool" where
  "customer_already_contacted s jid \<longleftrightarrow>
     (\<exists>e \<in> set (execution_events s). ev_job_id e = jid \<and> ev_event_type e = EV_CUSTOMER_CONTACTED)"

definition assert_checklist_satisfied :: "'a exec_db_scheme \<Rightarrow> service_job \<Rightarrow> time \<Rightarrow> unit res" where
  "assert_checklist_satisfied s job now =
     (case resolve_job_type_workflow s job of
        None \<Rightarrow> Inr ()
      | Some w \<Rightarrow>
        if \<not> checklist_required w then Inr ()
        else if j_job_type_id job \<noteq> None \<and> get_applicable_mappings s job None (\<lambda>_. None) now \<noteq> [] then Inr ()
        else if \<exists>x \<in> set (checklist_instances s). jc_job_id x = j_id job \<and> jc_state x \<in> {INSTANCE_COMPLETED, INSTANCE_WAIVED}
        then Inr ()
        else if j_id job \<in> set (legacy_checklists s) then Inr ()
        else Inl (ServiceOSException ''CHECKLIST_REQUIRED_BEFORE_WORK_START''))"

definition work_start_gates :: "'a exec_db_scheme \<Rightarrow> service_job \<Rightarrow> time \<Rightarrow> unit res" where
  "work_start_gates s job now =
     bind_res (assert_quote_approval_satisfied s job) (\<lambda>_.
     bind_res (assert_customer_platform_fee_paid_if_required s (j_id job)) (\<lambda>_.
       assert_checklist_satisfied s job now))"

definition sync_booking_status :: "'a exec_db_scheme \<Rightarrow> uuid \<Rightarrow> job_status \<Rightarrow> 'a exec_db_scheme" where
  "sync_booking_status s bid new =
     s\<lparr>service_bookings := update_where (\<lambda>b. b_id b = bid) (\<lambda>b. b\<lparr>b_status := new\<rparr>) (service_bookings s)\<rparr>"

text \<open>The only place where the status of a job is written.\<close>

definition set_status ::
  "'a exec_db_scheme \<Rightarrow> service_job \<Rightarrow> job_status \<Rightarrow> string \<Rightarrow> string \<Rightarrow> time \<Rightarrow> 'a exec_db_scheme res" where
  "set_status s job new event_type actor now =
     (let old = j_status job in
      bind_res (require (ServiceOSException ''RECORD_NOT_FOUND'')
          (first_row (filter (\<lambda>j. j_id j = j_id job) (service_jobs s)))) (\<lambda>row.
        if j_status row \<noteq> old then Inl (ServiceOSException ''JOB_STATUS_CONFLICT'')
        else if old = new then Inr s
        else bind_res (assert_transition_allowed s job new (Some actor)) (\<lambda>_.
             bind_res (if new = JS_SERVICE_STARTED then work_start_gates s job now else Inr ()) (\<lambda>_.
               Inr (sync_booking_status (log_event (edit_job s (j_id job) (\<lambda>j. j\<lparr>j_status := new\<rparr>))
                      job event_type old new) (j_booking_id job) new)))))"

text \<open>
  The arrival clock (sla_breach_service.py): the published policy of the vertical, and the deadline of a visit, which is the
  end of its slot and the hours of grace. Instants of the slot clock are microseconds, times of the rows are seconds.
\<close>

definition sla_policy :: "'a monet_db_scheme \<Rightarrow> policy option" where
  "sla_policy s = map_option fst (first_row (filter (\<lambda>(p, v). v_id v = p_vertical_id p \<and> p_is_current p \<and>
     p_status p = ''published'' \<and> v_key v = HS_KEY) (List.product (policies s) (verticals s))))"

definition compute_due_at :: "date option \<Rightarrow> string option \<Rightarrow> int option \<Rightarrow> time option" where
  "compute_due_at day window breach_hours =
     (case (day, breach_hours) of
        (Some _, Some h) \<Rightarrow>
          if h < 0 then None else map_option (\<lambda>stop. stop div 1000000 + 3600 * h) (slot_end day window)
      | _ \<Rightarrow> None)"

definition stamp_due_at :: "'a exec_db_scheme \<Rightarrow> uuid \<Rightarrow> time \<Rightarrow> 'a exec_db_scheme" where
  "stamp_due_at s jid now =
     (case Option.bind (sla_policy s) (\<lambda>p. t_breach_hours (p_sla p)) of
        None \<Rightarrow> s
      | Some h \<Rightarrow> (case Option.bind (first_row (filter (\<lambda>j. j_id j = jid) (service_jobs s)))
                        (\<lambda>j. compute_due_at (j_scheduled_date j) (j_scheduled_time_window j) (Some h)) of
          None \<Rightarrow> s
        | Some due \<Rightarrow> edit_job s jid (\<lambda>j. j\<lparr>j_sla := (j_sla j)\<lparr>sla_due_at := Some due, sla_next_penalty_at := Some due,
            sla_enforcement_started_at := (case sla_enforcement_started_at (j_sla j) of None \<Rightarrow> Some now | Some t \<Rightarrow> Some t),
            sla_stopped_at := None\<rparr>\<rparr>)))"

text \<open>
  Verified field work ends the arrival clock: no deadline and no further penalty. The statement keeps an earlier stop
  time; its callers in this service write the current time over it right after, so that is what stays.
\<close>

definition stop_sla :: "'a exec_db_scheme \<Rightarrow> uuid \<Rightarrow> time \<Rightarrow> 'a exec_db_scheme" where
  "stop_sla s jid now = edit_job s jid (\<lambda>j. j\<lparr>j_sla := (j_sla j)\<lparr>sla_due_at := None, sla_next_penalty_at := None,
     sla_stopped_at := Some now\<rparr>\<rparr>)"

subsection \<open>Accept, reject, schedule\<close>

definition accept_job :: "'a exec_db_scheme \<Rightarrow> uuid \<Rightarrow> uuid \<Rightarrow> uuid \<Rightarrow> time \<Rightarrow> 'a exec_db_scheme res" where
  "accept_job s jid tid staff now =
     bind_res (staff_job s jid tid staff) (\<lambda>job. set_status s job JS_ACCEPTED ''job_accepted'' ''staff'' now)"

definition reject_job :: "'a exec_db_scheme \<Rightarrow> uuid \<Rightarrow> uuid \<Rightarrow> uuid \<Rightarrow> string \<Rightarrow> time \<Rightarrow> 'a exec_db_scheme res" where
  "reject_job s jid tid staff reason now =
     (if blank reason then Inl (ServiceOSException ''REASON_REQUIRED'')
      else bind_res (staff_job s jid tid staff) (\<lambda>job. set_status s job JS_CANCELLED ''job_rejected'' ''staff'' now))"

definition mark_scheduled ::
  "'a exec_db_scheme \<Rightarrow> uuid \<Rightarrow> uuid \<Rightarrow> date option \<Rightarrow> string option \<Rightarrow> time \<Rightarrow> 'a exec_db_scheme res" where
  "mark_scheduled s jid tid day window now =
     bind_res (get_job s jid tid) (\<lambda>job.
       let plan = (\<lambda>j. j\<lparr>j_scheduled_date := (case day of None \<Rightarrow> j_scheduled_date j | Some d \<Rightarrow> Some d),
                        j_scheduled_time_window := (if truthy window then window else j_scheduled_time_window j)\<rparr>)
       in set_status (edit_job s (j_id job) plan) (plan job) JS_SCHEDULED ''job_scheduled'' ''staff'' now)"

subsection \<open>In the field\<close>

definition travel_minutes :: "'a exec_db_scheme \<Rightarrow> service_job \<Rightarrow> int" where
  "travel_minutes s job =
     (let configured = Option.bind (first_row (filter (\<lambda>r. Some (fst r) = j_tenant_id job) (visit_buffers s))) snd;
          minutes = (case configured of None \<Rightarrow> 30 | Some m \<Rightarrow> if m = 0 then 30 else m)
      in min 1440 (max 5 minutes))"

definition mark_on_the_way ::
  "'a exec_db_scheme \<Rightarrow> uuid \<Rightarrow> uuid \<Rightarrow> uuid \<Rightarrow> moment \<Rightarrow> time \<Rightarrow> 'a exec_db_scheme res" where
  "mark_on_the_way s jid tid staff now_local now =
     bind_res (staff_job s jid tid staff) (\<lambda>job.
       if \<not> customer_already_contacted s (j_id job) then Inl (ServiceOSException ''CUSTOMER_CONTACT_REQUIRED'')
       else if given (j_scheduled_date job) (\<lambda>d. d > date_of now_local) then Inl (ServiceOSException ''TRAVEL_BEFORE_VISIT_DAY'')
       else if given (slot_start (j_scheduled_date job) (j_scheduled_time_window job))
                 (\<lambda>starts_at. now_local < starts_at - travel_minutes s job * 60 * 1000000)
       then Inl (ServiceOSException ''TRAVEL_TOO_EARLY'')
       else bind_res (set_status s job JS_ON_THE_WAY ''technician_on_the_way'' ''staff'' now) (\<lambda>s1.
         Inr (if sla_due_at (j_sla job) = None \<and> sla_enforcement_started_at (j_sla job) = None
              then stamp_due_at s1 (j_id job) now else s1)))"

definition log_customer_contacted :: "'a exec_db_scheme \<Rightarrow> uuid \<Rightarrow> uuid \<Rightarrow> uuid \<Rightarrow> 'a exec_db_scheme res" where
  "log_customer_contacted s jid tid staff =
     bind_res (staff_job s jid tid staff) (\<lambda>job.
       Inr (if customer_already_contacted s (j_id job) then s
            else log_event s job EV_CUSTOMER_CONTACTED (j_status job) (j_status job)))"

text \<open>The branch without the customer's confirmation in a chat: \<open>arrival\<close> is what \<^verbatim>\<open>verify_arrival\<close> answers.\<close>

definition mark_reached_site ::
  "'a exec_db_scheme \<Rightarrow> uuid \<Rightarrow> uuid \<Rightarrow> uuid \<Rightarrow> unit res \<Rightarrow> time \<Rightarrow> 'a exec_db_scheme res" where
  "mark_reached_site s jid tid staff arrival now =
     bind_res (staff_job s jid tid staff) (\<lambda>job.
     bind_res arrival (\<lambda>_.
       let verified = (\<lambda>j. j\<lparr>j_arrival_verified_at := Some now\<rparr>)
       in bind_res (set_status (edit_job s (j_id job) verified) (verified job) JS_REACHED_SITE ''technician_reached_site'' ''staff'' now)
            (\<lambda>s1. Inr (stop_sla s1 (j_id job) now))))"

definition start_inspection :: "'a exec_db_scheme \<Rightarrow> uuid \<Rightarrow> uuid \<Rightarrow> uuid \<Rightarrow> time \<Rightarrow> 'a exec_db_scheme res" where
  "start_inspection s jid tid staff now =
     bind_res (staff_job s jid tid staff) (\<lambda>job.
       if \<not> (case resolve_job_type_workflow s job of None \<Rightarrow> True
             | Some w \<Rightarrow> inspection_required w \<or> pricing_behavior w = ''inspection_required'')
       then Inl (ServiceOSException ''INSPECTION_NOT_REQUIRED'')
       else if j_arrival_verified_at job = None then Inl (ServiceOSException ''ARRIVAL_VERIFICATION_REQUIRED'')
       else bind_res (set_status s job JS_INSPECTION_STARTED ''inspection_started'' ''staff'' now)
              (\<lambda>s1. Inr (stop_sla s1 (j_id job) now)))"

definition complete_inspection :: "'a exec_db_scheme \<Rightarrow> uuid \<Rightarrow> uuid \<Rightarrow> uuid \<Rightarrow> time \<Rightarrow> 'a exec_db_scheme res" where
  "complete_inspection s jid tid staff now =
     bind_res (staff_job s jid tid staff) (\<lambda>job.
     bind_res (assert_gate_satisfied s job GATE_BEFORE_INSPECTION_COMPLETE now) (\<lambda>s1.
       set_status s1 job JS_INSPECTION_DONE ''inspection_completed'' ''staff'' now))"

definition start_service :: "'a exec_db_scheme \<Rightarrow> uuid \<Rightarrow> uuid \<Rightarrow> uuid \<Rightarrow> string option \<Rightarrow> time \<Rightarrow> 'a exec_db_scheme res" where
  "start_service s jid tid staff rid now =
     bind_res (staff_job s jid tid staff) (\<lambda>job.
       if j_arrival_verified_at job = None then Inl (ServiceOSException ''ARRIVAL_VERIFICATION_REQUIRED'')
       else bind_res (assert_gate_satisfied s job GATE_BEFORE_WORK_START now) (\<lambda>s1.
            bind_res (set_status s1 job JS_SERVICE_STARTED ''service_started'' ''staff'' now) (\<lambda>s2.
            bind_res (attempt_charge_at_event (stop_sla s2 (j_id job) now) now (job\<lparr>j_status := JS_SERVICE_STARTED\<rparr>) ''work_started'' rid) (\<lambda>(s3, _).
              Inr s3))))"

definition mark_customer_not_available :: "'a exec_db_scheme \<Rightarrow> uuid \<Rightarrow> uuid \<Rightarrow> uuid \<Rightarrow> time \<Rightarrow> 'a exec_db_scheme res" where
  "mark_customer_not_available s jid tid staff now =
     bind_res (staff_job s jid tid staff) (\<lambda>job.
       set_status s job JS_CUSTOMER_NOT_AVAIL ''customer_not_available'' ''staff'' now)"

definition mark_quote_required :: "'a exec_db_scheme \<Rightarrow> uuid \<Rightarrow> uuid \<Rightarrow> uuid \<Rightarrow> time \<Rightarrow> 'a exec_db_scheme res" where
  "mark_quote_required s jid tid staff now =
     bind_res (staff_job s jid tid staff) (\<lambda>job. set_status s job JS_QUOTE_REQUIRED ''quote_required'' ''staff'' now)"

definition mark_parts_required :: "'a exec_db_scheme \<Rightarrow> uuid \<Rightarrow> uuid \<Rightarrow> uuid \<Rightarrow> time \<Rightarrow> 'a exec_db_scheme res" where
  "mark_parts_required s jid tid staff now =
     bind_res (staff_job s jid tid staff) (\<lambda>job. set_status s job JS_QUOTE_REQUIRED ''parts_required'' ''staff'' now)"

text \<open>\<open>settle\<close> is \<^verbatim>\<open>settle_no_arrival_close\<close>; only a provider with a recorded breach reaches it.\<close>

definition breach_recorded :: "service_job \<Rightarrow> bool" where
  "breach_recorded job \<longleftrightarrow> sla_breached_at (j_sla job) \<noteq> None \<or> sla_penalty_day_count (j_sla job) > 0"

definition close_assignment :: "job_assignment list \<Rightarrow> uuid \<Rightarrow> job_assignment list" where
  "close_assignment rows jid =
     (case first_row (filter (\<lambda>a. ja_job_id a = jid \<and> ja_is_current a) rows) of
        None \<Rightarrow> rows
      | Some a \<Rightarrow> update_where (\<lambda>r. ja_id r = ja_id a)
          (\<lambda>r. r\<lparr>ja_is_current := False, ja_status := ASSIGN_CANCELLED\<rparr>) rows)"

definition cancel_job ::
  "('a exec_db_scheme \<Rightarrow> uuid \<Rightarrow> 'a exec_db_scheme res) \<Rightarrow> 'a exec_db_scheme \<Rightarrow> uuid \<Rightarrow> uuid \<Rightarrow> string \<Rightarrow> string \<Rightarrow> time \<Rightarrow>
   'a exec_db_scheme res" where
  "cancel_job settle s jid tid reason actor now =
     (if blank reason then Inl (ServiceOSException ''REASON_REQUIRED'')
      else bind_res (get_job s jid tid) (\<lambda>job.
        if given (resolve_job_type_workflow s job) (\<lambda>w. \<not> allows_cancellation w)
        then Inl (ServiceOSException ''CANCELLATION_NOT_ALLOWED'')
        else bind_res (if actor = ''provider'' \<and> breach_recorded job then settle s (j_id job) else Inr s) (\<lambda>s1.
        bind_res (set_status s1 job JS_CANCELLED ''job_cancelled'' actor now) (\<lambda>s2.
          Inr (edit_job s2 (j_id job) (\<lambda>j. j\<lparr>j_assignment_status := ASSIGN_CANCELLED\<rparr>)
            \<lparr>job_assignment_rows := close_assignment (job_assignment_rows s2) (j_id job),
             service_bookings := update_where (\<lambda>b. b_id b = j_booking_id job)
               (\<lambda>b. b\<lparr>b_status := JS_CANCELLED, b_assignment_status := ASSIGN_CANCELLED\<rparr>) (service_bookings s2)\<rparr>)))))"

subsection \<open>Parts\<close>

definition inventory_part :: "'a exec_db_scheme \<Rightarrow> uuid \<Rightarrow> uuid \<Rightarrow> inventory_item res" where
  "inventory_part s tid item_id =
     require (ServiceOSException ''PARTS_INVENTORY_ITEM_UNAVAILABLE'')
       (first_row (filter (\<lambda>i. itm_id i = item_id \<and> itm_tenant_id i = tid \<and> itm_is_active i \<and> itm_status i = ''published'')
          (inventory_items s)))"

definition inventory_part_price :: "inventory_item \<Rightarrow> decimal" where
  "inventory_part_price item = (case itm_selling_price item of Some p \<Rightarrow> p | None \<Rightarrow> itm_unit_cost item)"

text \<open>The unreserved stock of an item: location, quantity, and the technician whose stock it is.\<close>

definition available_stock :: "'a exec_db_scheme \<Rightarrow> uuid \<Rightarrow> uuid \<Rightarrow> (uuid \<times> int \<times> uuid option) list" where
  "available_stock s tid item_id =
     concat (map (\<lambda>b. map (\<lambda>l. (sb_location_id b, max 0 (sb_quantity b - sb_reserved_qty b), loc_staff_id l))
         (filter (\<lambda>l. loc_id l = sb_location_id b \<and> loc_tenant_id l = tid \<and> loc_is_active l) (stock_locations s)))
       (filter (\<lambda>b. sb_tenant_id b = tid \<and> sb_item_id b = item_id) (stock_balances s)))"

text \<open>The technician's own stock first, then the fullest location.\<close>

definition stock_location_for_part ::
  "'a exec_db_scheme \<Rightarrow> uuid \<Rightarrow> inventory_item \<Rightarrow> int \<Rightarrow> uuid set \<Rightarrow> uuid res" where
  "stock_location_for_part s tid item quantity holders =
     (let usable = filter (\<lambda>(_, q, _). quantity \<le> q) (available_stock s tid (itm_id item));
          fullest = sort_key (\<lambda>(_, q, _). - q) usable;
          held = (\<lambda>(_, _, st). st \<in> Some ` holders);
          ranked = filter held fullest @ filter (\<lambda>x. \<not> held x) fullest
      in case ranked of [] \<Rightarrow> Inl (ServiceOSException ''PARTS_INSUFFICIENT_STOCK'') | x # _ \<Rightarrow> Inr (fst x))"

definition edit_part :: "'a exec_db_scheme \<Rightarrow> uuid \<Rightarrow> (parts_request \<Rightarrow> parts_request) \<Rightarrow> 'a exec_db_scheme" where
  "edit_part s prid f = s\<lparr>parts_requests := update_where (\<lambda>p. pr_id p = prid) f (parts_requests s)\<rparr>"

definition create_parts_request ::
  "'a exec_db_scheme \<Rightarrow> uuid \<Rightarrow> uuid \<Rightarrow> uuid \<Rightarrow> uuid \<Rightarrow> uuid option \<Rightarrow> int option \<Rightarrow> string \<Rightarrow> time \<Rightarrow> 'a exec_db_scheme res" where
  "create_parts_request s jid tid staff user item_id quantity reason now =
     bind_res (staff_job s jid tid staff) (\<lambda>job.
     bind_res (require (ServiceOSException ''PARTS_INVENTORY_ITEM_REQUIRED'') item_id) (\<lambda>iid.
     case quantity of None \<Rightarrow> Inl (ServiceOSException ''PART_QUANTITY_INVALID'')
     | Some n \<Rightarrow>
       if n \<le> 0 then Inl (ServiceOSException ''PART_QUANTITY_INVALID'')
       else if blank reason then Inl (ServiceOSException ''PART_REASON_REQUIRED'')
       else if j_status job \<notin> set PARTS_REQUEST_ALLOWED_JOB_STATUSES
       then Inl (ServiceOSException ''PARTS_REQUEST_NOT_ALLOWED_IN_CURRENT_STATUS'')
       else bind_res (inventory_part s tid iid) (\<lambda>item.
            bind_res (stock_location_for_part s tid item n {staff, user}) (\<lambda>loc.
              let pr = \<lparr>pr_id = next_uuid s, pr_job_id = j_id job, pr_tenant_id = tid, pr_part_name = itm_name item,
                        pr_quantity = n, pr_estimated_cost = inventory_part_price item, pr_reason = strip reason,
                        pr_status = ''customer_approval_pending'', customer_approval_required = True,
                        procurement_source = ''inventory'', inventory_item_id = Some (itm_id item),
                        stock_location_id = Some loc, stock_reservation_id = None,
                        unit_price_snapshot = Some (inventory_part_price item)\<rparr>;
                  s1 = fresh_id (s\<lparr>parts_requests := parts_requests s @ [pr]\<rparr>)
              in if j_status job \<notin> {JS_QUOTE_REQUIRED, JS_SERVICE_STARTED}
                 then set_status s1 job JS_QUOTE_REQUIRED ''parts_required'' ''staff'' now
                 else Inr (log_event s1 job ''parts_required'' (j_status job) (j_status job))))))"

definition get_parts_request :: "'a exec_db_scheme \<Rightarrow> uuid \<Rightarrow> uuid \<Rightarrow> parts_request res" where
  "get_parts_request s prid tid =
     require (ServiceOSException ''PARTS_REQUEST_NOT_FOUND'')
       (first_row (filter (\<lambda>p. pr_id p = prid \<and> pr_tenant_id p = tid) (parts_requests s)))"

definition cancel_parts_request :: "'a exec_db_scheme \<Rightarrow> uuid \<Rightarrow> uuid \<Rightarrow> uuid \<Rightarrow> uuid \<Rightarrow> 'a exec_db_scheme res" where
  "cancel_parts_request s jid prid tid staff =
     bind_res (staff_job s jid tid staff) (\<lambda>job.
     bind_res (get_parts_request s prid tid) (\<lambda>pr.
       if pr_job_id pr \<noteq> j_id job then Inl (ServiceOSException ''PARTS_REQUEST_NOT_FOUND'')
       else if pr_status pr \<notin> set PARTS_PENDING_STATUSES then Inl (ServiceOSException ''PARTS_REQUEST_ALREADY_DECIDED'')
       else Inr (log_event (edit_part s (pr_id pr) (\<lambda>p. p\<lparr>pr_status := ''cancelled''\<rparr>)) job
              ''parts_request_cancelled'' (j_status job) (j_status job))))"

definition assert_no_pending_parts :: "'a exec_db_scheme \<Rightarrow> service_job \<Rightarrow> unit res" where
  "assert_no_pending_parts s job =
     (if filter (\<lambda>p. pr_job_id p = j_id job \<and> pr_status p \<in> set PARTS_PENDING_STATUSES) (parts_requests s) \<noteq> []
      then Inl (ServiceOSException ''PARTS_PENDING_BLOCK_WORK_DONE'') else Inr ())"

text \<open>The key of the stock reservation: the job and the request.\<close>

definition parts_inventory_job_ref :: "parts_request \<Rightarrow> string" where
  "parts_inventory_job_ref pr = str_uuid (pr_job_id pr) @ '':'' @ str_uuid (pr_id pr)"

definition system_keeper :: "uuid option \<Rightarrow> uuid \<Rightarrow> inv_actor" where
  "system_keeper actor tid = \<lparr>ia_actor_id = actor, ia_role = Some ''system'', ia_tenant_id = Some tid\<rparr>"

definition reserve_parts_inventory ::
  "'a exec_db_scheme \<Rightarrow> parts_request \<Rightarrow> uuid \<Rightarrow> time \<Rightarrow> 'a exec_db_scheme res" where
  "reserve_parts_inventory s pr actor now =
     (if procurement_source pr \<noteq> ''inventory'' then Inr s
      else case (inventory_item_id pr, stock_location_id pr) of
        (Some i, Some l) \<Rightarrow>
          let keeper = system_keeper (Some actor) (pr_tenant_id pr)
          in bind_res (if unit_price_snapshot pr = None
                then bind_res (require_item s keeper i None False) (\<lambda>item. Inr (Some (inventory_part_price item)))
                else Inr None) (\<lambda>price.
             bind_res (create_reservation s keeper (parts_inventory_job_ref pr) i l (pr_tenant_id pr) (pr_quantity pr) now)
               (\<lambda>(res, s1). Inr (edit_part s1 (pr_id pr) (\<lambda>p. (case price of None \<Rightarrow> p
                   | Some c \<Rightarrow> p\<lparr>pr_estimated_cost := c, unit_price_snapshot := Some c\<rparr>)\<lparr>stock_reservation_id := Some (rv_id res)\<rparr>))))
      | _ \<Rightarrow> Inl (ServiceOSException ''PARTS_INVENTORY_ALLOCATION_REQUIRED''))"

definition consume_parts_inventory :: "'a exec_db_scheme \<Rightarrow> parts_request \<Rightarrow> time \<Rightarrow> 'a exec_db_scheme res" where
  "consume_parts_inventory s pr now =
     (if procurement_source pr \<noteq> ''inventory'' then Inr s
      else case (inventory_item_id pr, stock_location_id pr, stock_reservation_id pr) of
        (Some i, Some l, Some _) \<Rightarrow>
          bind_res (confirm_reservation s (system_keeper None (pr_tenant_id pr)) (parts_inventory_job_ref pr) i l
              (pr_tenant_id pr) now) (\<lambda>(_, s1). Inr s1)
      | _ \<Rightarrow> Inl (ServiceOSException ''PARTS_INVENTORY_RESERVATION_MISSING''))"

fun install_parts :: "'a exec_db_scheme \<Rightarrow> time \<Rightarrow> parts_request list \<Rightarrow> 'a exec_db_scheme res" where
  "install_parts s now [] = Inr s"
| "install_parts s now (pr # prs) =
     (if procurement_source pr = ''inventory'' \<and> stock_reservation_id pr = None then install_parts s now prs
      else bind_res (consume_parts_inventory s pr now) (\<lambda>s1.
             install_parts (edit_part s1 (pr_id pr) (\<lambda>p. p\<lparr>pr_status := ''installed''\<rparr>)) now prs))"

definition install_approved_parts :: "'a exec_db_scheme \<Rightarrow> uuid \<Rightarrow> time \<Rightarrow> 'a exec_db_scheme res" where
  "install_approved_parts s jid now =
     install_parts s now (filter (\<lambda>p. pr_job_id p = jid \<and> pr_status p \<in> set PARTS_APPROVED_STATUSES) (parts_requests s))"

definition approve_parts_request ::
  "'a exec_db_scheme \<Rightarrow> uuid \<Rightarrow> uuid \<Rightarrow> uuid \<Rightarrow> string \<Rightarrow> uuid option \<Rightarrow> uuid option \<Rightarrow> time \<Rightarrow> 'a exec_db_scheme res" where
  "approve_parts_request s prid tid approver src item_id location_id now =
     bind_res (get_parts_request s prid tid) (\<lambda>pr.
       if pr_status pr \<noteq> ''requested'' then Inl (ServiceOSException ''PARTS_REQUEST_ALREADY_DECIDED'')
       else if src \<notin> {''inventory'', ''external''} then Inl (ServiceOSException ''PARTS_PROCUREMENT_SOURCE_INVALID'')
       else if src = ''inventory'' \<and> (item_id = None \<or> location_id = None)
       then Inl (ServiceOSException ''PARTS_INVENTORY_ALLOCATION_REQUIRED'')
       else bind_res (if src = ''inventory'' then bind_res (inventory_part s tid (the item_id)) (\<lambda>item. Inr (Some (inventory_part_price item)))
                      else Inr None) (\<lambda>price.
         let decide = (\<lambda>p. (case price of None \<Rightarrow> p | Some c \<Rightarrow> p\<lparr>pr_estimated_cost := c, unit_price_snapshot := Some c\<rparr>)
               \<lparr>procurement_source := src,
                inventory_item_id := (if src = ''inventory'' then item_id else None),
                stock_location_id := (if src = ''inventory'' then location_id else None),
                pr_status := (if customer_approval_required p then ''customer_approval_pending'' else ''business_approved'')\<rparr>);
             s1 = edit_part s (pr_id pr) decide
         in if \<not> customer_approval_required pr then reserve_parts_inventory s1 (decide pr) approver now else Inr s1))"

definition reject_parts_request :: "'a exec_db_scheme \<Rightarrow> uuid \<Rightarrow> uuid \<Rightarrow> 'a exec_db_scheme res" where
  "reject_parts_request s prid tid =
     bind_res (get_parts_request s prid tid) (\<lambda>pr.
       if pr_status pr \<noteq> ''requested'' then Inl (ServiceOSException ''PARTS_REQUEST_ALREADY_DECIDED'')
       else Inr (edit_part s (pr_id pr) (\<lambda>p. p\<lparr>pr_status := ''business_rejected''\<rparr>)))"

definition install_parts_request :: "'a exec_db_scheme \<Rightarrow> uuid \<Rightarrow> uuid \<Rightarrow> time \<Rightarrow> 'a exec_db_scheme res" where
  "install_parts_request s prid tid now =
     bind_res (get_parts_request s prid tid) (\<lambda>pr.
       if pr_status pr \<in> {''business_rejected'', ''customer_rejected''}
       then Inl (ServiceOSException ''PARTS_REQUEST_REJECTED_CANNOT_INSTALL'')
       else if pr_status pr \<notin> set PARTS_APPROVED_STATUSES then Inl (ServiceOSException ''PARTS_REQUEST_NOT_APPROVED'')
       else bind_res (consume_parts_inventory s pr now) (\<lambda>s1.
              Inr (edit_part s1 (pr_id pr) (\<lambda>p. p\<lparr>pr_status := ''installed''\<rparr>))))"

definition customer_decide_parts_request ::
  "'a exec_db_scheme \<Rightarrow> uuid \<Rightarrow> uuid \<Rightarrow> string \<Rightarrow> string \<Rightarrow> time \<Rightarrow> 'a exec_db_scheme res" where
  "customer_decide_parts_request s prid customer decision reason now =
     bind_res (require (ServiceOSException ''PARTS_REQUEST_NOT_FOUND'') (first_row (filter (\<lambda>p. pr_id p = prid) (parts_requests s)))) (\<lambda>pr.
     bind_res (require (ServiceOSException ''PARTS_REQUEST_NOT_FOUND'')
        (first_row (filter (\<lambda>j. j_id j = pr_job_id pr) (service_jobs s)))) (\<lambda>job.
       if j_customer_id job \<noteq> Some customer then Inl (ServiceOSException ''PARTS_REQUEST_NOT_FOUND'')
       else if \<not> customer_approval_required pr then Inl (ServiceOSException ''PARTS_REQUEST_CUSTOMER_DECISION_NOT_ALLOWED'')
       else if pr_status pr \<noteq> ''customer_approval_pending'' then Inl (ServiceOSException ''PARTS_REQUEST_ALREADY_DECIDED'')
       else if decision = ''approve'' then
         (let approve = (\<lambda>p. p\<lparr>pr_status := ''customer_approved''\<rparr>)
          in bind_res (reserve_parts_inventory (edit_part s (pr_id pr) approve) (approve pr) customer now) (\<lambda>s1.
               Inr (log_event s1 job ''customer_part_approved'' (j_status job) (j_status job))))
       else if decision = ''decline'' then
         (if blank reason then Inl (ServiceOSException ''PART_REASON_REQUIRED'')
          else Inr (log_event (edit_part s (pr_id pr) (\<lambda>p. p\<lparr>pr_status := ''customer_rejected''\<rparr>)) job
                 ''customer_part_declined'' (j_status job) (j_status job)))
       else Inl (ServiceOSException ''PARTS_INVALID_DECISION'')))"

text \<open>What the customer sees: the visible requests, newest first, the sum so far and with the parts.\<close>

definition CUSTOMER_VISIBLE_PARTS_STATUSES :: "string list" where
  "CUSTOMER_VISIBLE_PARTS_STATUSES =
     [''customer_approval_pending'', ''customer_approved'', ''customer_rejected'', ''business_approved'', ''installed'']"

record parts_view =
  pv_previous_total :: decimal
  pv_additional_total :: decimal
  pv_new_total :: decimal
  pv_items :: "parts_request list"

definition customer_list_parts_requests :: "'a exec_db_scheme \<Rightarrow> uuid \<Rightarrow> uuid \<Rightarrow> parts_view res" where
  "customer_list_parts_requests s jid customer =
     bind_res (require (ServiceOSException ''PARTS_REQUEST_NOT_FOUND'') (first_row (filter (\<lambda>j. j_id j = jid) (service_jobs s)))) (\<lambda>job.
       if j_customer_id job \<noteq> Some customer then Inl (ServiceOSException ''PARTS_REQUEST_NOT_FOUND'')
       else
         let visible = filter (\<lambda>p. pr_status p \<in> set CUSTOMER_VISIBLE_PARTS_STATUSES)
               (rev (filter (\<lambda>p. pr_job_id p = jid) (parts_requests s)));
             additional = sum_list (map (\<lambda>p. pr_estimated_cost p * of_int (pr_quantity p)) visible);
             previous = (case first_row (filter (\<lambda>q. q_job_id q = jid \<and> q_is_current q) (quotes s)) of
                None \<Rightarrow> 0 | Some q \<Rightarrow> customer_payable_amount (q_totals q))
         in Inr \<lparr>pv_previous_total = previous, pv_additional_total = additional, pv_new_total = previous + additional,
                 pv_items = visible\<rparr>)"

subsection \<open>Finishing the work\<close>

definition mark_work_done :: "'a exec_db_scheme \<Rightarrow> uuid \<Rightarrow> uuid \<Rightarrow> uuid \<Rightarrow> string option \<Rightarrow> time \<Rightarrow> 'a exec_db_scheme res" where
  "mark_work_done s jid tid staff rid now =
     bind_res (staff_job s jid tid staff) (\<lambda>job.
     bind_res (assert_no_pending_parts s job) (\<lambda>_.
     bind_res (set_status s job JS_WORK_DONE ''work_done'' ''staff'' now) (\<lambda>s1.
     bind_res (install_approved_parts s1 (j_id job) now) (\<lambda>s2.
     bind_res (attempt_charge_at_event s2 now (job\<lparr>j_status := JS_WORK_DONE\<rparr>) ''work_done'' rid) (\<lambda>(s3, _). Inr s3)))))"

subsection \<open>The reconciliation of the payment (invoice_payment/direct_payments_service.py)\<close>

datatype reconciliation = RS_AWAITING_PROVIDER | RS_AWAITING_CUSTOMER | RS_CONFIRMED | RS_MISMATCHED | RS_DISPUTED

definition AMOUNT_TOLERANCE :: decimal where "AMOUNT_TOLERANCE = 0"

definition MISMATCH_ACTIONS :: "string list" where
  "MISMATCH_ACTIONS = [''different_amount'', ''not_paid'', ''different_method'']"

definition dispute_is_open :: "payment_record \<Rightarrow> bool" where
  "dispute_is_open pay =
     (if py_payment_status pay \<in> {PAYMENT_DISPUTE_RESOLVED, PAYMENT_DISPUTE_WITHDRAWN} then False
      else py_dispute_complaint_id pay \<noteq> None \<or> py_payment_status pay = PAY_STATUS_DISPUTED)"

definition derive_status :: "payment_record \<Rightarrow> reconciliation" where
  "derive_status pay =
     (if dispute_is_open pay then RS_DISPUTED
      else if py_payment_status pay = PAYMENT_DISPUTE_RESOLVED then RS_CONFIRMED
      else if given (py_customer_confirmation_action pay) (\<lambda>a. a \<in> set MISMATCH_ACTIONS) then RS_MISMATCHED
      else if py_customer_confirmed pay
      then (if given (py_customer_reported_amount pay) (\<lambda>a. \<bar>py_collected_amount pay - a\<bar> > AMOUNT_TOLERANCE)
            then RS_MISMATCHED else RS_CONFIRMED)
      else if py_provider_confirmed_at pay \<noteq> None
      then (if given (py_expected_amount pay) (\<lambda>a. \<bar>py_collected_amount pay - a\<bar> > AMOUNT_TOLERANCE)
            then RS_MISMATCHED else RS_AWAITING_CUSTOMER)
      else RS_AWAITING_PROVIDER)"

subsection \<open>Completing the job\<close>

definition latest_payment :: "'a exec_db_scheme \<Rightarrow> uuid \<Rightarrow> uuid \<Rightarrow> payment_record option" where
  "latest_payment s jid tid =
     first_row (rev (filter (\<lambda>p. py_job_id p = jid \<and> py_tenant_id p = tid) (payment_records s)))"

text \<open>What has to be true of a job in work done before it may be completed.\<close>

definition completion_checks ::
  "'a exec_db_scheme \<Rightarrow> service_job \<Rightarrow> uuid \<Rightarrow> string \<Rightarrow> decimal option \<Rightarrow> string \<Rightarrow> uuid list \<Rightarrow> bool \<Rightarrow> bool \<Rightarrow> decimal res" where
  "completion_checks s job tid summary collected mode photos require_photo require_parts =
     (if j_status job \<notin> set COMPLETABLE_JOB_STATUSES then Inl (ServiceOSException ''JOB_NOT_COMPLETABLE'')
      else if blank summary then Inl (ServiceOSException ''WORK_SUMMARY_REQUIRED'')
      else case collected of None \<Rightarrow> Inl (ServiceOSException ''COLLECTED_AMOUNT_REQUIRED'')
      | Some amount \<Rightarrow>
        if amount < 0 then Inl (ServiceOSException ''COLLECTED_AMOUNT_INVALID'')
        else if mode \<noteq> PAYMENT_MODE_HOME_SERVICES then Inl (ServiceOSException ''PAYMENT_MODE_INVALID'')
        else bind_res (require (ServiceOSException ''COMPLETION_PROOF_NOT_SUBMITTED'')
            (first_row (filter (\<lambda>p. cp_job_id p = j_id job \<and> cp_tenant_id p = tid) (completion_proofs s)))) (\<lambda>proof.
        if cp_status proof \<noteq> ''submitted'' then Inl (ServiceOSException ''COMPLETION_PROOF_NOT_SUBMITTED'')
        else if cp_handover_status proof \<notin> {''acknowledged'', ''customer_unavailable''}
        then Inl (ServiceOSException ''CUSTOMER_HANDOVER_NOT_ACKNOWLEDGED'')
        else bind_res (require (ServiceOSException ''PAYMENT_NOT_DECLARED'') (latest_payment s (j_id job) tid)) (\<lambda>payment.
        if derive_status payment \<noteq> RS_CONFIRMED then Inl (ServiceOSException ''PAYMENT_NOT_RECONCILED'')
        else if \<bar>amount - py_collected_amount payment\<bar> > 1 / 100 then Inl (ServiceOSException ''COLLECTED_AMOUNT_MISMATCH'')
        else if require_photo \<and> photos = [] then Inl (ServiceOSException ''COMPLETION_PHOTO_REQUIRED'')
        else if require_parts \<and> (\<exists>p \<in> set (parts_requests s). pr_job_id p = j_id job \<and> pr_tenant_id p = tid \<and>
                                   pr_status p = ''requested'')
        then Inl (ServiceOSException ''UNRESOLVED_PARTS_REQUESTS_BLOCK_COMPLETION'')
        else Inr amount)))"

text \<open>The basis of the provider's charge: the issued invoice without the approved parts.\<close>

definition billed_invoice :: "'a exec_db_scheme \<Rightarrow> uuid \<Rightarrow> uuid \<Rightarrow> invoice option" where
  "billed_invoice s jid tid =
     first_row (rev (filter (\<lambda>i. in_job_id i = jid \<and> in_tenant_id i = tid \<and> in_status i \<noteq> INV_CANCELLED) (invoices s)))"

definition service_charge_basis :: "'a exec_db_scheme \<Rightarrow> invoice option \<Rightarrow> decimal \<Rightarrow> decimal" where
  "service_charge_basis s iv collected =
     (case iv of None \<Rightarrow> collected | Some i \<Rightarrow> max 0 (it_total (in_totals i) - approved_parts_amount s (in_id i)))"

definition completion_event :: "'a exec_db_scheme \<Rightarrow> service_job \<Rightarrow> string" where
  "completion_event s job =
     (case Option.bind (j_job_type_id job) (\<lambda>jt. map_option snd (first_row (filter (\<lambda>x. fst x = jt) (job_type_keys s)))) of
        Some key \<Rightarrow> if key = ''consultation'' then ''consultation_completed'' else ''job_completed''
      | None \<Rightarrow> ''job_completed'')"

text \<open>A charge runs in a savepoint: an exception leaves the state, and the outcome \<open>None\<close> is \<^verbatim>\<open>failed\<close>.\<close>

definition savepoint :: "'s \<Rightarrow> ('s \<times> 'r) res \<Rightarrow> 's \<times> 'r option" where
  "savepoint s result = (case result of Inl _ \<Rightarrow> (s, None) | Inr (t, r) \<Rightarrow> (t, Some r))"

definition completion_charges ::
  "'a exec_db_scheme \<Rightarrow> service_job \<Rightarrow> uuid \<Rightarrow> decimal \<Rightarrow> string option \<Rightarrow> time \<Rightarrow>
   'a exec_db_scheme \<times> deduction_outcome option \<times> recovery_outcome option" where
  "completion_charges s job tid collected rid now =
     (let iv = billed_invoice s (j_id job) tid;
          basis = service_charge_basis s iv collected;
          booking = find (\<lambda>b. b_id b = j_booking_id job) (service_bookings s);
          draft = Option.bind (Option.bind booking b_draft_id) (\<lambda>did. find (\<lambda>d. d_id d = did) (booking_drafts s));
          (s1, deduction) = savepoint s (deduct_for_completed_job s now (Some tid) (j_id job) (j_booking_id job)
             (j_offering_id job) (Option.bind draft d_offering_type_id) (Option.bind draft d_brand_id) (j_job_type_id job)
             (Some basis) rid (completion_event s job));
          (s2, recovery) = savepoint s1 (deduct_customer_platform_charge_recovery s1 tid (j_id job) (j_booking_id job)
             ''home_services'' basis (map_option (\<lambda>i. it_platform_fee (in_totals i)) iv)
             (map_option (\<lambda>i. ''service_invoice:'' @ str_uuid (in_id i)) iv) rid)
      in (s2, deduction, recovery))"

definition complete_job ::
  "'a exec_db_scheme \<Rightarrow> uuid \<Rightarrow> uuid \<Rightarrow> uuid \<Rightarrow> string \<Rightarrow> decimal option \<Rightarrow> string \<Rightarrow> uuid list \<Rightarrow> bool \<Rightarrow> bool \<Rightarrow>
   string option \<Rightarrow> time \<Rightarrow> ('a exec_db_scheme \<times> deduction_outcome option \<times> recovery_outcome option) res" where
  "complete_job s jid tid staff summary collected mode photos require_photo require_parts rid now =
     bind_res (staff_job s jid tid staff) (\<lambda>job.
     bind_res (completion_checks s job tid summary collected mode photos require_photo require_parts) (\<lambda>amount.
     bind_res (assert_gate_satisfied s job GATE_BEFORE_JOB_COMPLETION now) (\<lambda>s1.
     bind_res (set_status s1 job JS_COMPLETED ''work_done'' ''staff'' now) (\<lambda>s2.
       Inr (completion_charges s2 (job\<lparr>j_status := JS_COMPLETED\<rparr>) tid amount rid now)))))"

end
