(* ===== verification/Timeline.thy ===== *)
theory Timeline
  imports Execution
begin

section \<open>What an execution guarantees\<close>

text \<open>
  The operations of \<open>Execution\<close> as one step relation \<open>exec_step\<close>, and what every run of it keeps: the status of
  a job moves along the graph and the event log holds every move (so replaying the log gives the status), the
  stock stays reconciled with its ledger, work starts behind its gates and completion is earned.
\<close>

subsection \<open>Status and timeline\<close>

definition status_of_job :: "'a job_db_scheme \<Rightarrow> uuid \<Rightarrow> job_status option" where
  "status_of_job s i = map_option j_status (first_row (filter (\<lambda>j. j_id j = i) (service_jobs s)))"

text \<open>The status changes the event log holds for a job; notes, parts and contacts keep the status.\<close>

definition status_changes :: "'a job_db_scheme \<Rightarrow> uuid \<Rightarrow> (job_status option \<times> job_status option) list" where
  "status_changes s i = map (\<lambda>e. (ev_old_status e, ev_new_status e))
     (filter (\<lambda>e. ev_job_id e = i \<and> ev_old_status e \<noteq> ev_new_status e) (execution_events s))"

text \<open>What the settlement of a missed slot may do: it posts a penalty and keeps statuses, log and stock.\<close>

definition penalty_only :: "('a exec_db_scheme \<Rightarrow> uuid \<Rightarrow> 'a exec_db_scheme res) \<Rightarrow> bool" where
  "penalty_only settle \<longleftrightarrow> (\<forall>x i y. settle x i = Inr y \<longrightarrow> status_of_job y = status_of_job x \<and>
     execution_events y = execution_events x \<and> stock_balances y = stock_balances x \<and>
     stock_transactions y = stock_transactions x \<and> stock_reservations y = stock_reservations x \<and> next_uuid x \<le> next_uuid y)"

subsection \<open>What can happen to a job\<close>

inductive exec_step :: "'a exec_db_scheme \<Rightarrow> 'a exec_db_scheme \<Rightarrow> bool" where
  accept: "accept_job s jid tid staff now = Inr t \<Longrightarrow> exec_step s t"
| reject: "reject_job s jid tid staff reason now = Inr t \<Longrightarrow> exec_step s t"
| schedule: "mark_scheduled s jid tid day window now = Inr t \<Longrightarrow> exec_step s t"
| travel: "mark_on_the_way s jid tid staff now_local now = Inr t \<Longrightarrow> exec_step s t"
| contact: "log_customer_contacted s jid tid staff = Inr t \<Longrightarrow> exec_step s t"
| arrive: "mark_reached_site s jid tid staff arrival now = Inr t \<Longrightarrow> exec_step s t"
| inspect: "start_inspection s jid tid staff now = Inr t \<Longrightarrow> exec_step s t"
| inspected: "complete_inspection s jid tid staff now = Inr t \<Longrightarrow> exec_step s t"
| start: "start_service s jid tid staff rid now = Inr t \<Longrightarrow> exec_step s t"
| absent: "mark_customer_not_available s jid tid staff now = Inr t \<Longrightarrow> exec_step s t"
| quote: "mark_quote_required s jid tid staff now = Inr t \<Longrightarrow> exec_step s t"
| parts: "mark_parts_required s jid tid staff now = Inr t \<Longrightarrow> exec_step s t"
| cancel: "cancel_job settle s jid tid reason actor now = Inr t \<Longrightarrow> penalty_only settle \<Longrightarrow> exec_step s t"
| request_part: "create_parts_request s jid tid staff user iid quantity reason now = Inr t \<Longrightarrow> exec_step s t"
| cancel_part: "cancel_parts_request s jid prid tid staff = Inr t \<Longrightarrow> exec_step s t"
| approve_part: "approve_parts_request s prid tid approver src iid lid now = Inr t \<Longrightarrow> exec_step s t"
| reject_part: "reject_parts_request s prid tid = Inr t \<Longrightarrow> exec_step s t"
| install_part: "install_parts_request s prid tid now = Inr t \<Longrightarrow> exec_step s t"
| decide_part: "customer_decide_parts_request s prid customer decision reason now = Inr t \<Longrightarrow> exec_step s t"
| finish: "mark_work_done s jid tid staff rid now = Inr t \<Longrightarrow> exec_step s t"
| complete: "complete_job s jid tid staff summary collected mode photos rp rq rid now = Inr (t, d, r) \<Longrightarrow> exec_step s t"

inductive job_move :: "job_status set \<Rightarrow> 'a job_db_scheme \<Rightarrow> 'a job_db_scheme \<Rightarrow> bool" for X where
  stay: "status_of_job t = status_of_job s \<Longrightarrow> status_changes t = status_changes s \<Longrightarrow> job_move X s t"
| shift: "status_of_job s i = Some a \<Longrightarrow> b \<in> set (JOB_TRANSITIONS a) \<Longrightarrow> a \<noteq> b \<Longrightarrow> b \<in> X \<Longrightarrow>
    status_of_job t = (status_of_job s)(i \<mapsto> b) \<Longrightarrow>
    status_changes t = (status_changes s)(i := status_changes s i @ [(Some a, Some b)]) \<Longrightarrow> job_move X s t"

lemma bind_InrE: "bind_res m k = Inr y \<Longrightarrow> (\<And>x. m = Inr x \<Longrightarrow> k x = Inr y \<Longrightarrow> P) \<Longrightarrow> P"
  by (cases m) auto

lemma job_move_refl [simp]: "job_move X s s"
  by (rule stay) simp_all

lemma status_of_edit_job:
  "(\<And>j. j_id (f j) = j_id j) \<Longrightarrow> (\<And>j. j_status (f j) = j_status j) \<Longrightarrow> status_of_job (edit_job s i f) = status_of_job s"
  by (auto simp: status_of_job_def edit_job_def fun_eq_iff first_row_update_where option.map_comp comp_def if_distrib
      cong: if_cong)

lemma status_changes_log:
  "status_changes (log_event s job ty a b) = (\<lambda>i. status_changes s i @ (if i = j_id job \<and> a \<noteq> b then [(Some a, Some b)] else []))"
  by (auto simp: status_changes_def log_event_def)

lemma status_of_job_tables: "service_jobs t = service_jobs s \<Longrightarrow> status_of_job t = status_of_job s"
  by (simp add: status_of_job_def fun_eq_iff)

lemma status_changes_tables: "execution_events t = execution_events s \<Longrightarrow> status_changes t = status_changes s"
  by (simp add: status_changes_def fun_eq_iff)

text \<open>
  A piece of an operation: it moves jobs along the graph into the statuses \<open>X\<close>, logging each move, and the stock
  by stock steps.
\<close>

definition carries :: "job_status set \<Rightarrow> 'a exec_db_scheme \<Rightarrow> 'a exec_db_scheme \<Rightarrow> bool" where
  "carries X s t \<longleftrightarrow> (job_move X)\<^sup>*\<^sup>* s t \<and> stock_step\<^sup>*\<^sup>* s t"

lemma carries_refl [simp]: "carries X s s"
  by (simp add: carries_def)

lemma carries_trans [trans]: "carries X s t \<Longrightarrow> carries X t u \<Longrightarrow> carries X s u"
  by (auto simp: carries_def)

lemma carriesI: "job_move X s t \<Longrightarrow> stock_step s t \<Longrightarrow> carries X s t"
  by (auto simp: carries_def)

lemma carries_mono: "carries X s t \<Longrightarrow> X \<subseteq> Y \<Longrightarrow> carries Y s t"
  unfolding carries_def by (auto elim!: rtranclp_mono [THEN predicate2D, rotated] elim!: job_move.cases intro: job_move.intros)

lemma carries_status:
  assumes "carries X s t" "status_of_job t i = Some b"
  shows "status_of_job s i = Some b \<or> b \<in> X"
proof -
  from assms(1) have "(job_move X)\<^sup>*\<^sup>* s t" by (simp add: carries_def)
  then show ?thesis using assms(2)
    by (induction arbitrary: b rule: rtranclp_induct) (force elim!: job_move.cases split: if_splits)+
qed

lemma carries_quiet:
  assumes "status_of_job t = status_of_job s" "status_changes t = status_changes s"
    "stock_balances t = stock_balances s" "stock_transactions t = stock_transactions s"
    "stock_reservations t = stock_reservations s" "next_uuid s \<le> next_uuid t"
  shows "carries X s t"
  using job_move.stay [OF assms(1,2)] stock_step.elsewhere [OF assms(3-6)] by (rule carriesI)

lemma carries_tables:
  assumes "service_jobs t = service_jobs s" "execution_events t = execution_events s"
    "stock_balances t = stock_balances s" "stock_transactions t = stock_transactions s"
    "stock_reservations t = stock_reservations s" "next_uuid s \<le> next_uuid t"
  shows "carries X s t"
  using assms by (intro carries_quiet status_of_job_tables status_changes_tables)

lemma edit_job_carries:
  assumes "\<And>j. j_id (f j) = j_id j" "\<And>j. j_status (f j) = j_status j"
  shows "carries X s (edit_job s i f)"
  by (rule carries_quiet [OF status_of_edit_job [OF assms]]) (simp_all add: status_changes_def edit_job_def fun_eq_iff)

lemma log_event_carries: "carries X s (log_event s job ty a a)"
  by (rule carries_quiet) (simp_all add: status_changes_def status_of_job_def log_event_def fun_eq_iff)

lemma stop_sla_status [simp]: "status_of_job (stop_sla s i now) = status_of_job s"
  unfolding stop_sla_def by (rule status_of_edit_job) simp_all

lemma stamp_due_at_carries: "carries X s (stamp_due_at s i now)"
  by (auto simp: stamp_due_at_def intro: edit_job_carries split: option.split)

lemma stop_sla_carries: "carries X s (stop_sla s i now)"
  unfolding stop_sla_def by (rule edit_job_carries) simp_all

lemma edit_part_carries: "carries X s (edit_part s i f)"
  by (rule carries_tables) (simp_all add: edit_part_def)

subsection \<open>Writing the status\<close>

definition moved_to :: "'a exec_db_scheme \<Rightarrow> service_job \<Rightarrow> job_status \<Rightarrow> string \<Rightarrow> 'a exec_db_scheme" where
  "moved_to s job new event_type =
     sync_booking_status (log_event (edit_job s (j_id job) (\<lambda>j. j\<lparr>j_status := new\<rparr>)) job event_type (j_status job) new)
       (j_booking_id job) new"

lemma set_status_cases:
  assumes "set_status s job new ty actor now = Inr t"
  obtains (same) "j_status job = new" "t = s" "status_of_job s (j_id job) = Some (j_status job)"
  | (moved) "j_status job \<noteq> new" "t = moved_to s job new ty" "status_of_job s (j_id job) = Some (j_status job)"
      "new \<in> set (JOB_TRANSITIONS (j_status job))" "new = JS_SERVICE_STARTED \<Longrightarrow> work_start_gates s job now = Inr ()"
proof -
  obtain row where row: "first_row (filter (\<lambda>j. j_id j = j_id job) (service_jobs s)) = Some row" "j_status row = j_status job"
    using assms by (auto simp: set_status_def Let_def res_simps split: if_splits)
  then have st: "status_of_job s (j_id job) = Some (j_status job)" by (simp add: status_of_job_def)
  show thesis
  proof (cases "j_status job = new")
    case True
    with assms row have "t = s" by (simp add: set_status_def Let_def)
    with True st show thesis by (intro same)
  next
    case False
    with assms row have ok: "assert_transition_allowed s job new (Some actor) = Inr ()"
      and g: "new = JS_SERVICE_STARTED \<Longrightarrow> work_start_gates s job now = Inr ()" and t: "t = moved_to s job new ty"
      by (auto simp: set_status_def Let_def res_simps moved_to_def split: if_splits)
    from ok False have "new \<in> set (JOB_TRANSITIONS (j_status job))"
      by (auto simp: assert_transition_allowed_def is_status_move_allowed_def split: if_splits)
    with False g t st show thesis by (intro moved) auto
  qed
qed

lemma moved_to_status:
  assumes "status_of_job s (j_id job) \<noteq> None"
  shows "status_of_job (moved_to s job new ty) = (status_of_job s)(j_id job \<mapsto> new)"
proof
  fix i
  have "status_of_job (moved_to s job new ty) i =
    map_option (\<lambda>j. if j_id j = j_id job then new else j_status j) (first_row (filter (\<lambda>j. j_id j = i) (service_jobs s)))"
    by (simp add: status_of_job_def moved_to_def sync_booking_status_def log_event_def edit_job_def first_row_update_where
        option.map_comp comp_def if_distrib [of j_status] cong: if_cong)
  with assms show "status_of_job (moved_to s job new ty) i = ((status_of_job s)(j_id job \<mapsto> new)) i"
    by (cases "first_row (filter (\<lambda>j. j_id j = i) (service_jobs s))")
      (auto simp: status_of_job_def [of s] table_simps dest!: first_row_Some_set)
qed

lemma moved_to_changes:
  "j_status job \<noteq> new \<Longrightarrow> status_changes (moved_to s job new ty) =
   (status_changes s)(j_id job := status_changes s (j_id job) @ [(Some (j_status job), Some new)])"
  by (auto simp: status_changes_def moved_to_def sync_booking_status_def log_event_def edit_job_def fun_eq_iff)

lemma moved_to_tables [simp]:
  "stock_balances (moved_to s job new ty) = stock_balances s" "stock_transactions (moved_to s job new ty) = stock_transactions s"
  "stock_reservations (moved_to s job new ty) = stock_reservations s" "next_uuid (moved_to s job new ty) = next_uuid s"
  "parts_requests (moved_to s job new ty) = parts_requests s" "job_assignment_rows (moved_to s job new ty) = job_assignment_rows s"
  "usage_credit_ledger (moved_to s job new ty) = usage_credit_ledger s"
  "checklist_instances (moved_to s job new ty) = checklist_instances s"
  by (simp_all add: moved_to_def sync_booking_status_def log_event_def edit_job_def)

lemma set_status_carries:
  assumes "set_status s job new ty actor now = Inr t" "new \<in> X" shows "carries X s t"
  using assms(1)
proof (cases rule: set_status_cases)
  case same
  then show ?thesis by simp
next
  case moved
  have "job_move X s t"
    by (rule job_move.shift [of s "j_id job" "j_status job" new])
      (use moved assms(2) in \<open>simp_all add: moved_to_status moved_to_changes\<close>)
  moreover have "stock_step s t" by (rule stock_step.elsewhere) (simp_all add: moved)
  ultimately show ?thesis by (rule carriesI)
qed

lemma set_status_new:
  assumes "set_status s job new ty actor now = Inr t" shows "status_of_job t (j_id job) = Some new"
  using assms by (cases rule: set_status_cases) (simp_all add: moved_to_status)

lemma set_status_parts:
  assumes "set_status s job new ty actor now = Inr t"
  shows "parts_requests t = parts_requests s" "stock_reservations t = stock_reservations s"
    "stock_balances t = stock_balances s" "job_assignment_rows t = job_assignment_rows s"
    "usage_credit_ledger t = usage_credit_ledger s"
  using assms by (cases rule: set_status_cases; simp)+

lemma staff_jobD:
  assumes "staff_job s jid tid staff = Inr job"
  shows "job \<in> set (service_jobs s)" "j_id job = jid" "j_tenant_id job = Some tid" "j_assigned_staff_id job = Some staff"
  using assms by (auto simp: staff_job_def get_job_def assert_staff_owns_job_def res_simps split: if_splits dest!: first_row_Some_set)

subsection \<open>Pieces of other components\<close>

definition stock_only :: "'a inv_db_scheme \<Rightarrow> 'a inv_db_scheme \<Rightarrow> bool" where
  "stock_only s t \<longleftrightarrow> service_jobs t = service_jobs s \<and> execution_events t = execution_events s \<and>
     parts_requests t = parts_requests s"

lemma get_balance_locked_stock_only: "get_balance_locked s i l = Inr (b, t) \<Longrightarrow> stock_only s t"
  by (auto simp: get_balance_locked_def Let_def stock_only_def elim!: bind_InrE split: option.split_asm)

lemma write_txn_stock_only: "write_txn s a i l tid ty d b jr rt k n now = Inr (x, t) \<Longrightarrow> stock_only s t"
  by (auto simp: write_txn_def set_balance_def Let_def stock_only_def elim!: bind_InrE split: option.split_asm if_split_asm)

lemma stock_only_refl [simp]: "stock_only s s"
  by (simp add: stock_only_def)

lemma reservation_frame:
  "create_reservation s a ref i l tid q now = Inr (r, t) \<Longrightarrow> stock_only s t"
  "confirm_reservation s a ref i l tid now = Inr (r, t) \<Longrightarrow> stock_only s t"
  unfolding create_reservation_def confirm_reservation_def Let_def
  by (elim bind_InrE; auto elim!: bind_InrE split: option.split_asm if_split_asm
      dest!: get_balance_locked_stock_only write_txn_stock_only
      simp: stock_only_def set_balance_def unreserve_def resolve_reservation_def)+

lemma create_reservation_carries: "create_reservation s a ref i l tid q now = Inr (r, t) \<Longrightarrow> carries X s t"
  using reservation_frame(1) [of s a ref i l tid q now r t]
  by (auto simp: stock_only_def intro!: carriesI job_move.stay status_of_job_tables status_changes_tables intro: stock_step.reserve)

lemma confirm_reservation_carries: "confirm_reservation s a ref i l tid now = Inr (r, t) \<Longrightarrow> carries X s t"
  using reservation_frame(2) [of s a ref i l tid now r t]
  by (auto simp: stock_only_def intro!: carriesI job_move.stay status_of_job_tables status_changes_tables intro: stock_step.confirm)

text \<open>The credit operations leave every table added after the credit tables, and the jobs and the log.\<close>

definition credit_only :: "'a credit_db_scheme \<Rightarrow> 'a credit_db_scheme \<Rightarrow> bool" where
  "credit_only s t \<longleftrightarrow> service_jobs t = service_jobs s \<and> execution_events t = execution_events s \<and>
     credit_db.more t = credit_db.more s \<and> next_uuid s \<le> next_uuid t"

lemma credit_only_refl [simp]: "credit_only s s"
  by (simp add: credit_only_def)

lemma ensure_billing_credit_only: "ensure_billing s tn = Inr (t, b) \<Longrightarrow> credit_only s t"
  by (auto simp: ensure_billing_def credit_only_def Let_def split: option.splits if_splits)

lemma credit_only_trans: "credit_only s t \<Longrightarrow> credit_only t u \<Longrightarrow> credit_only s u"
  by (simp add: credit_only_def)

lemma write_entry_credit_only: "credit_only s (write_entry s e)"
  by (simp add: credit_only_def write_entry_def)

lemma sync_team_credit_only: "credit_only s (fst (sync_team_credit_suspension s now tid))"
  by (simp add: credit_only_def sync_team_credit_suspension_def split: option.split)

lemma deduct_credit_only:
  "deduct_for_completed_job s now tn job bk ms ot br jt price req ev = Inr (t, out) \<Longrightarrow> credit_only s t"
  by (auto simp: deduct_for_completed_job_def res_simps Let_def split: option.splits if_splits
      intro: credit_only_trans [OF credit_only_trans [OF ensure_billing_credit_only write_entry_credit_only] sync_team_credit_only])

lemma recovery_credit_only:
  "deduct_customer_platform_charge_recovery s tid job bk key amt fee pref req = Inr (t, out) \<Longrightarrow> credit_only s t"
  by (auto simp: deduct_customer_platform_charge_recovery_def res_simps Let_def split: option.splits if_splits
      intro: credit_only_trans [OF ensure_billing_credit_only write_entry_credit_only])

lemma attempt_credit_only:
  assumes "attempt_charge_at_event s now job ev rid = Inr (t, out)" shows "credit_only s t"
  using assms unfolding attempt_charge_at_event_def Let_def
  by (elim bind_InrE) (auto split: sum.split_asm dest: deduct_credit_only)

lemma credit_only_more:
  assumes "credit_only s (t :: 'a exec_db_scheme)"
  shows "stock_balances t = stock_balances s" "stock_transactions t = stock_transactions s"
    "stock_reservations t = stock_reservations s" "parts_requests t = parts_requests s"
proof -
  have "credit_db.more t = credit_db.more s" using assms by (simp add: credit_only_def)
  then show "stock_balances t = stock_balances s" "stock_transactions t = stock_transactions s"
    "stock_reservations t = stock_reservations s" "parts_requests t = parts_requests s"
    by (cases s, cases t, simp)+
qed

lemma credit_only_carries: "credit_only s t \<Longrightarrow> carries X s t"
  by (rule carries_tables) (simp_all add: credit_only_more, simp_all add: credit_only_def)

subsection \<open>Every operation is such a run\<close>

lemma assert_gate_same: "assert_gate_satisfied s job g now = Inr t \<Longrightarrow> t = s"
  by (rule assert_gate_state)

lemma settle_carries: "penalty_only settle \<Longrightarrow> settle s i = Inr t \<Longrightarrow> carries X s t"
  by (intro carries_quiet status_changes_tables) (simp_all add: penalty_only_def)

lemma close_job_carries:
  "carries X s (edit_job s i (\<lambda>j. j\<lparr>j_assignment_status := a\<rparr>)\<lparr>job_assignment_rows := r, service_bookings := b\<rparr>)"
proof -
  have "carries X s (edit_job s i (\<lambda>j. j\<lparr>j_assignment_status := a\<rparr>))" by (rule edit_job_carries) simp_all
  also have "carries X \<dots> (edit_job s i (\<lambda>j. j\<lparr>j_assignment_status := a\<rparr>)\<lparr>job_assignment_rows := r, service_bookings := b\<rparr>)"
    by (rule carries_tables) simp_all
  finally show ?thesis .
qed

lemma cancel_job_carries:
  assumes "cancel_job settle s jid tid reason actor now = Inr t" "penalty_only settle" "JS_CANCELLED \<in> X" shows "carries X s t"
  using assms(1) unfolding cancel_job_def
  by (auto elim!: bind_InrE split: if_split_asm
      intro: carries_trans [OF settle_carries [OF assms(2)] carries_trans [OF set_status_carries [OF _ assms(3)] close_job_carries]]
        carries_trans [OF set_status_carries [OF _ assms(3)] close_job_carries])

lemma add_part_carries: "carries X s (fresh_id (s\<lparr>parts_requests := prs\<rparr>))"
  by (rule carries_tables) (simp_all add: fresh_id_def)

lemma create_parts_request_carries:
  "create_parts_request s jid tid staff user iid quantity reason now = Inr t \<Longrightarrow> JS_QUOTE_REQUIRED \<in> X \<Longrightarrow> carries X s t"
  unfolding create_parts_request_def Let_def
  by (auto elim!: bind_InrE split: option.split_asm if_split_asm)
    (rule carries_trans [OF add_part_carries], (erule (1) set_status_carries | rule log_event_carries))+

lemma reserve_parts_carries:
  assumes "reserve_parts_inventory s pr actor now = Inr t" shows "carries X s t"
proof (cases "procurement_source pr = ''inventory''")
  case False
  with assms show ?thesis by (simp add: reserve_parts_inventory_def)
next
  case True
  with assms obtain i l r s1 f where c: "create_reservation s (system_keeper (Some actor) (pr_tenant_id pr))
      (parts_inventory_job_ref pr) i l (pr_tenant_id pr) (pr_quantity pr) now = Inr (r, s1)" and t: "t = edit_part s1 (pr_id pr) f"
    by (auto simp: reserve_parts_inventory_def Let_def res_simps split: option.splits)
  from create_reservation_carries [OF c] edit_part_carries show ?thesis unfolding t by (rule carries_trans)
qed

lemma consume_parts_carries: "consume_parts_inventory s pr now = Inr t \<Longrightarrow> carries X s t"
  unfolding consume_parts_inventory_def
  by (auto elim!: bind_InrE split: option.split_asm if_split_asm intro: confirm_reservation_carries)

lemma consume_parts_frame:
  assumes "consume_parts_inventory s pr now = Inr t"
  shows "parts_requests t = parts_requests s" "status_of_job t = status_of_job s" "status_changes t = status_changes s"
proof -
  have "stock_only s t"
    using assms unfolding consume_parts_inventory_def
    by (auto elim!: bind_InrE split: option.split_asm if_split_asm intro: reservation_frame)
  then show "parts_requests t = parts_requests s" "status_of_job t = status_of_job s" "status_changes t = status_changes s"
    by (auto simp: stock_only_def intro: status_of_job_tables status_changes_tables)
qed

lemma install_parts_run:
  "install_parts s now prs = Inr t \<Longrightarrow>
   carries X s t \<and> status_of_job t = status_of_job s \<and> status_changes t = status_changes s \<and>
   parts_requests t = update_where
     (\<lambda>p. pr_id p \<in> pr_id ` {q \<in> set prs. \<not> (procurement_source q = ''inventory'' \<and> stock_reservation_id q = None)})
     (\<lambda>p. p\<lparr>pr_status := ''installed''\<rparr>) (parts_requests s)"
proof (induction prs arbitrary: s)
  case Nil
  then show ?case by (simp add: update_where_def)
next
  case (Cons pr prs)
  show ?case
  proof (cases "procurement_source pr = ''inventory'' \<and> stock_reservation_id pr = None")
    case True
    with Cons.prems Cons.IH [of s] show ?thesis by (auto simp: update_where_def)
  next
    case False
    with Cons.prems obtain s1 where c: "consume_parts_inventory s pr now = Inr s1"
      and rest: "install_parts (edit_part s1 (pr_id pr) (\<lambda>p. p\<lparr>pr_status := ''installed''\<rparr>)) now prs = Inr t"
      by (auto simp: res_simps)
    let ?s2 = "edit_part s1 (pr_id pr) (\<lambda>p. p\<lparr>pr_status := ''installed''\<rparr>)"
    note IH = Cons.IH [OF rest] and c' = consume_parts_carries [OF c] consume_parts_frame [OF c]
    have "carries X s t" using carries_trans [OF carries_trans [OF c'(1) edit_part_carries]] IH by blast
    moreover have "status_of_job ?s2 = status_of_job s" "status_changes ?s2 = status_changes s"
      using c'(3,4) by (simp_all add: edit_part_def status_of_job_def status_changes_def fun_eq_iff)
    ultimately show ?thesis using IH False c'(2) by (auto simp: edit_part_def update_where_def)
  qed
qed

lemma parts_decision_carries:
  "approve_parts_request s prid tid approver src iid lid now = Inr t \<Longrightarrow> carries X s t"
  "reject_parts_request s prid tid = Inr t \<Longrightarrow> carries X s t"
  "cancel_parts_request s jid prid tid staff = Inr t \<Longrightarrow> carries X s t"
  "customer_decide_parts_request s prid customer decision reason now = Inr t \<Longrightarrow> carries X s t"
  unfolding approve_parts_request_def reject_parts_request_def cancel_parts_request_def customer_decide_parts_request_def Let_def
  by (elim bind_InrE; auto elim!: bind_InrE split: if_split_asm
      intro: edit_part_carries carries_trans [OF edit_part_carries reserve_parts_carries]
        carries_trans [OF edit_part_carries log_event_carries]
        carries_trans [OF carries_trans [OF edit_part_carries reserve_parts_carries] log_event_carries])+

lemma install_parts_request_carries: "install_parts_request s prid tid now = Inr t \<Longrightarrow> carries X s t"
  unfolding install_parts_request_def
  by (auto elim!: bind_InrE split: if_split_asm intro: carries_trans [OF consume_parts_carries edit_part_carries])

lemma mark_work_done_parts:
  assumes "mark_work_done s jid tid staff rid now = Inr t"
  obtains job s1 s2 out where "staff_job s jid tid staff = Inr job" "assert_no_pending_parts s job = Inr ()"
    "set_status s job JS_WORK_DONE ''work_done'' ''staff'' now = Inr s1" "install_approved_parts s1 (j_id job) now = Inr s2"
    "attempt_charge_at_event s2 now (job\<lparr>j_status := JS_WORK_DONE\<rparr>) ''work_done'' rid = Inr (t, out)"
  using assms by (auto simp: mark_work_done_def elim!: bind_InrE)

lemma start_service_parts:
  assumes "start_service s jid tid staff rid now = Inr t"
  obtains job s1 out where "staff_job s jid tid staff = Inr job" "j_arrival_verified_at job \<noteq> None"
    "assert_gate_satisfied s job GATE_BEFORE_WORK_START now = Inr s" "set_status s job JS_SERVICE_STARTED ''service_started'' ''staff'' now = Inr s1"
    "attempt_charge_at_event (stop_sla s1 (j_id job) now) now (job\<lparr>j_status := JS_SERVICE_STARTED\<rparr>) ''work_started'' rid = Inr (t, out)"
  using assms by (auto simp: start_service_def elim!: bind_InrE split: if_split_asm) (frule assert_gate_same, auto)

lemma completion_charges_carries: "completion_charges s job tid c rid now = (t, d, r) \<Longrightarrow> carries X s t"
  by (auto simp: completion_charges_def savepoint_def Let_def split: sum.splits prod.splits
      dest!: deduct_credit_only recovery_credit_only credit_only_carries intro: carries_trans)

lemma complete_job_parts:
  assumes "complete_job s jid tid staff summary collected mode photos rp rq rid now = Inr (t, d, r)"
  obtains job amount s1 where "staff_job s jid tid staff = Inr job"
    "completion_checks s job tid summary collected mode photos rp rq = Inr amount"
    "assert_gate_satisfied s job GATE_BEFORE_JOB_COMPLETION now = Inr s"
    "set_status s job JS_COMPLETED ''work_done'' ''staff'' now = Inr s1"
    "completion_charges s1 (job\<lparr>j_status := JS_COMPLETED\<rparr>) tid amount rid now = (t, d, r)"
  using assms by (auto simp: complete_job_def elim!: bind_InrE) (frule assert_gate_same, auto)

text \<open>Every status but the two an operation of its own reaches: the start of the work and the completion.\<close>

abbreviation ordinary :: "job_status set" where "ordinary \<equiv> - {JS_SERVICE_STARTED, JS_COMPLETED}"

lemma set_status_ordinary: "set_status s job new ty actor now = Inr t \<Longrightarrow> new \<noteq> JS_SERVICE_STARTED \<Longrightarrow> new \<noteq> JS_COMPLETED \<Longrightarrow> carries ordinary s t"
  by (rule set_status_carries) simp_all

lemma plain_step_carries:
  "accept_job s jid tid staff now = Inr t \<Longrightarrow> carries ordinary s t"
  "reject_job s jid tid staff reason now = Inr t \<Longrightarrow> carries ordinary s t"
  "mark_on_the_way s jid tid staff now_local now = Inr t \<Longrightarrow> carries ordinary s t"
  "log_customer_contacted s jid tid staff = Inr t \<Longrightarrow> carries ordinary s t"
  "start_inspection s jid tid staff now = Inr t \<Longrightarrow> carries ordinary s t"
  "complete_inspection s jid tid staff now = Inr t \<Longrightarrow> carries ordinary s t"
  "mark_customer_not_available s jid tid staff now = Inr t \<Longrightarrow> carries ordinary s t"
  "mark_quote_required s jid tid staff now = Inr t \<Longrightarrow> carries ordinary s t"
  "mark_parts_required s jid tid staff now = Inr t \<Longrightarrow> carries ordinary s t"
  unfolding accept_job_def reject_job_def mark_on_the_way_def log_customer_contacted_def start_inspection_def
    complete_inspection_def mark_customer_not_available_def mark_quote_required_def mark_parts_required_def
  by (auto elim!: bind_InrE split: if_split_asm dest: assert_gate_same dest!: set_status_ordinary
      intro!: log_event_carries carries_trans [OF _ stop_sla_carries] carries_trans [OF _ stamp_due_at_carries])

lemma prepared_step_carries:
  "mark_scheduled s jid tid day window now = Inr t \<Longrightarrow> carries ordinary s t"
  "mark_reached_site s jid tid staff arrival now = Inr t \<Longrightarrow> carries ordinary s t"
  unfolding mark_scheduled_def mark_reached_site_def Let_def
  by (auto elim!: bind_InrE dest!: set_status_ordinary)
    (rule carries_trans [OF edit_job_carries, rotated 2], (assumption | erule carries_trans [OF _ stop_sla_carries]), simp, simp)+

lemma charged_step_carries:
  "start_service s jid tid staff rid now = Inr t \<Longrightarrow> JS_SERVICE_STARTED \<in> X \<Longrightarrow> carries X s t"
  "complete_job s jid tid staff summary collected mode photos rp rq rid now = Inr (t, d, r) \<Longrightarrow> JS_COMPLETED \<in> X \<Longrightarrow> carries X s t"
  by (auto elim!: start_service_parts complete_job_parts
      intro: carries_trans [OF carries_trans [OF set_status_carries stop_sla_carries] credit_only_carries [OF attempt_credit_only]]
        carries_trans [OF set_status_carries completion_charges_carries])

lemma mark_work_done_carries:
  assumes "mark_work_done s jid tid staff rid now = Inr t" shows "carries ordinary s t"
  using assms
proof (cases rule: mark_work_done_parts)
  case (1 job s1 s2 out)
  have "carries ordinary s1 s2" using install_parts_run [OF 1(4) [unfolded install_approved_parts_def]] by blast
  moreover have "carries ordinary s2 t" using 1(5) by (intro credit_only_carries attempt_credit_only)
  ultimately show ?thesis using set_status_ordinary [OF 1(3)] by (auto intro: carries_trans)
qed

lemmas op_carries = plain_step_carries prepared_step_carries mark_work_done_carries
  parts_decision_carries install_parts_request_carries

lemma exec_step_cases:
  assumes "exec_step s t"
  obtains (ordinary) "carries ordinary s t"
  | (start) jid tid staff rid now where "start_service s jid tid staff rid now = Inr t"
  | (complete) jid tid staff summary collected mode photos rp rq rid now d r
    where "complete_job s jid tid staff summary collected mode photos rp rq rid now = Inr (t, d, r)"
  using assms
  by cases (blast | rule ordinary, (erule op_carries | erule (1) cancel_job_carries, simp | erule create_parts_request_carries, simp))+

lemma exec_step_carries: "exec_step s t \<Longrightarrow> carries UNIV s t"
  by (erule exec_step_cases) (auto intro: carries_mono charged_step_carries)

lemma exec_run_carries: "exec_step\<^sup>*\<^sup>* s t \<Longrightarrow> carries UNIV s t"
  by (induction rule: rtranclp_induct) (auto intro: carries_trans exec_step_carries)

text \<open>The status graph, and the stock ledger, as interfaces of the execution.\<close>

interpretation job_graph: guarded_records JOB_TRANSITIONS "\<lambda>st. st \<in> set TERMINAL_JOB_STATUSES" "\<lambda>_. True" status_of_job "job_move UNIV"
proof unfold_locales
  show "JOB_TRANSITIONS a = []" if "a \<in> set TERMINAL_JOB_STATUSES" for a using that by (rule terminal_no_moves)
  show "\<exists>b. status_of_job t i = Some b \<and> (b = a \<or> b \<in> set (JOB_TRANSITIONS a))"
    if "job_move UNIV s t" "status_of_job s i = Some a" for s t :: "'a job_db_scheme" and i a
    using that by cases auto
qed auto

text \<open>Replaying logged changes from a status along the graph.\<close>

fun replay :: "job_status \<Rightarrow> (job_status option \<times> job_status option) list \<Rightarrow> job_status option" where
  "replay a [] = Some a"
| "replay a ((Some x, Some y) # rest) = (if x = a \<and> y \<in> set (JOB_TRANSITIONS a) then replay y rest else None)"
| "replay a (_ # rest) = None"

lemma replay_append: "replay a (xs @ ys) = Option.bind (replay a xs) (\<lambda>b. replay b ys)"
  by (induction a xs rule: replay.induct) auto

lemma job_run_replay:
  "(job_move X)\<^sup>*\<^sup>* s t \<Longrightarrow> status_of_job s i = Some a \<Longrightarrow>
   \<exists>ms. status_changes t i = status_changes s i @ ms \<and> replay a ms = status_of_job t i"
proof (induction rule: rtranclp_induct)
  case base
  then show ?case by (intro exI [of _ "[]"]) simp
next
  case (step t u)
  then obtain ms where ms: "status_changes t i = status_changes s i @ ms" "replay a ms = status_of_job t i" by blast
  from step.hyps(2) show ?case
  proof cases
    case stay
    with ms show ?thesis by auto
  next
    case (shift k x y)
    then show ?thesis
    proof (cases "k = i")
      case True
      with shift ms show ?thesis by (intro exI [of _ "ms @ [(Some x, Some y)]"]) (simp add: replay_append)
    next
      case False
      with shift ms show ?thesis by auto
    qed
  qed
qed

subsection \<open>How a status is entered\<close>

lemma run_enters: "r\<^sup>*\<^sup>* s t \<Longrightarrow> P t \<Longrightarrow> \<not> P s \<Longrightarrow> \<exists>u v. r\<^sup>*\<^sup>* s u \<and> r u v \<and> \<not> P u \<and> P v"
  by (induction rule: rtranclp_induct) blast+

lemma set_status_other: "set_status s job new ty actor now = Inr t \<Longrightarrow> i \<noteq> j_id job \<Longrightarrow> status_of_job t i = status_of_job s i"
  by (erule set_status_cases) (simp_all add: moved_to_status)

lemma credit_only_status: "credit_only s t \<Longrightarrow> status_of_job t = status_of_job s"
  by (auto simp: credit_only_def intro: status_of_job_tables)

lemma completion_charges_status: "completion_charges s job tid c rid now = (t, d, r) \<Longrightarrow> status_of_job t = status_of_job s"
  by (auto simp: completion_charges_def savepoint_def Let_def split: sum.splits prod.splits
      dest!: deduct_credit_only recovery_credit_only credit_only_status)

lemma started_by_start_service:
  assumes "exec_step u v" "status_of_job u i \<noteq> Some JS_SERVICE_STARTED" "status_of_job v i = Some JS_SERVICE_STARTED"
  obtains job now where "job \<in> set (service_jobs u)" "j_id job = i" "j_assigned_staff_id job \<noteq> None"
    "j_arrival_verified_at job \<noteq> None" "assert_gate_satisfied u job GATE_BEFORE_WORK_START now = Inr u"
    "work_start_gates u job now = Inr ()"
  using assms(1)
proof (cases rule: exec_step_cases)
  case ordinary
  with carries_status [OF ordinary assms(3)] assms(2) show thesis by simp
next
  case (complete jid tid staff summary collected mode photos rp rq rid now d r)
  then have "carries {JS_COMPLETED} u v" by (rule charged_step_carries) simp
  from carries_status [OF this assms(3)] assms(2) show thesis by simp
next
  case (start jid tid staff rid now)
  then obtain job s1 out where job: "staff_job u jid tid staff = Inr job" "j_arrival_verified_at job \<noteq> None"
      "assert_gate_satisfied u job GATE_BEFORE_WORK_START now = Inr u"
    and set: "set_status u job JS_SERVICE_STARTED ''service_started'' ''staff'' now = Inr s1"
    and "attempt_charge_at_event (stop_sla s1 (j_id job) now) now (job\<lparr>j_status := JS_SERVICE_STARTED\<rparr>) ''work_started'' rid = Inr (v, out)"
    by (rule start_service_parts)
  then have v: "status_of_job v = status_of_job s1" by (auto dest!: attempt_credit_only credit_only_status)
  have id: "j_id job = i" using set_status_other [OF set, of i] assms(2,3) v by auto
  from set have "work_start_gates u job now = Inr ()"
    using assms(2) id by (cases rule: set_status_cases) auto
  with job id staff_jobD [OF job(1)] show thesis by (intro that) auto
qed

lemma completion_checksD:
  assumes "completion_checks s job tid summary collected mode photos rp rq = Inr amount"
  obtains pf pay where "j_status job = JS_WORK_DONE" "pf \<in> set (completion_proofs s)" "cp_job_id pf = j_id job"
    "cp_status pf = ''submitted''" "cp_handover_status pf \<in> {''acknowledged'', ''customer_unavailable''}"
    "pay \<in> set (payment_records s)" "py_job_id pay = j_id job" "derive_status pay = RS_CONFIRMED"
    "0 \<le> amount" "\<bar>amount - py_collected_amount pay\<bar> \<le> 1 / 100"
  using assms unfolding completion_checks_def latest_payment_def
  by (auto simp: COMPLETABLE_JOB_STATUSES_def res_simps not_less split: if_split_asm option.split_asm dest!: first_row_Some_set)

lemma completed_by_complete_job:
  assumes "exec_step u v" "status_of_job u i \<noteq> Some JS_COMPLETED" "status_of_job v i = Some JS_COMPLETED"
  obtains pf pay where "status_of_job u i = Some JS_WORK_DONE" "pf \<in> set (completion_proofs u)" "cp_job_id pf = i"
    "cp_status pf = ''submitted''" "cp_handover_status pf \<in> {''acknowledged'', ''customer_unavailable''}"
    "pay \<in> set (payment_records u)" "py_job_id pay = i" "derive_status pay = RS_CONFIRMED"
  using assms(1)
proof (cases rule: exec_step_cases)
  case ordinary
  with carries_status [OF ordinary assms(3)] assms(2) show thesis by simp
next
  case (start jid tid staff rid now)
  then have "carries {JS_SERVICE_STARTED} u v" by (rule charged_step_carries) simp
  from carries_status [OF this assms(3)] assms(2) show thesis by simp
next
  case (complete jid tid staff summary collected mode photos rp rq rid now d r)
  then obtain job amount s1 where c: "completion_checks u job tid summary collected mode photos rp rq = Inr amount"
    and set: "set_status u job JS_COMPLETED ''work_done'' ''staff'' now = Inr s1"
    and "completion_charges s1 (job\<lparr>j_status := JS_COMPLETED\<rparr>) tid amount rid now = (v, d, r)"
    by (rule complete_job_parts)
  then have v: "status_of_job v = status_of_job s1" by (blast dest: completion_charges_status)
  have id: "j_id job = i" using set_status_other [OF set, of i] assms(2,3) v by auto
  have "status_of_job u i = Some (j_status job)" using set id by (cases rule: set_status_cases) auto
  with c id that show thesis by (elim completion_checksD) auto
qed

subsection \<open>A site for the witnesses\<close>

definition demo_site_job :: "job_status \<Rightarrow> service_job" where
  "demo_site_job st = demo_job\<lparr>j_job_type_id := Some 11, j_status := st, j_assigned_staff_id := Some 7, j_arrival_verified_at := Some 5\<rparr>"

definition demo_site_workflow :: job_workflow where
  "demo_site_workflow = \<lparr>wf_id = 9, wf_master_service_id = 6, wf_job_type_id = 11, wf_is_current = True,
     quote_approval_required = False, pricing_behavior = ''fixed'', steps_json = [], transitions_json = [],
     allows_reschedule = True, allows_cancellation = True, checklist_required = False, inspection_required = False\<rparr>"

definition demo_site_part :: "string \<Rightarrow> string \<Rightarrow> parts_request" where
  "demo_site_part st src = \<lparr>pr_id = 130, pr_job_id = 1, pr_tenant_id = 4, pr_part_name = ''capacitor'', pr_quantity = 2,
     pr_estimated_cost = 150, pr_reason = ''worn'', pr_status = st, customer_approval_required = True,
     procurement_source = src, inventory_item_id = Some 70, stock_location_id = Some 71, stock_reservation_id = None,
     unit_price_snapshot = Some 150\<rparr>"

definition demo_site_payment :: payment_record where
  "demo_site_payment = \<lparr>py_id = 131, py_invoice_id = 60, py_job_id = 1, py_tenant_id = 4, py_customer_id = 3,
     py_payment_mode = ''cash'', py_payment_status = PAY_STATUS_COLLECTED, py_collected_amount = 500,
     py_proof_media_url = None, py_customer_confirmed = True, py_customer_confirmed_at = Some 6,
     py_provider_confirmed_at = Some 6, py_admin_verified_at = None, py_expected_amount = Some 500,
     py_customer_reported_amount = None, py_customer_confirmation_action = None, py_dispute_complaint_id = None\<rparr>"

definition demo_site :: "job_status \<Rightarrow> parts_request list \<Rightarrow> exec_db" where
  "demo_site st parts = (chk_db.extend (demo_catalogue INSTANCE_COMPLETED []) (exec_db.fields
     [\<lparr>cp_job_id = 1, cp_tenant_id = 4, cp_status = ''submitted'', cp_handover_status = ''acknowledged''\<rparr>] [] [] [] []))
     \<lparr>service_jobs := [demo_site_job st], service_bookings := [demo_booking], job_workflows := [demo_site_workflow],
      execution_events := [], parts_requests := parts, payment_records := [demo_site_payment], fee_charges := []\<rparr>"

lemma demo_site_simps [simp]:
  "service_jobs (demo_site st ps) = [demo_site_job st]" "service_bookings (demo_site st ps) = [demo_booking]"
  "job_workflows (demo_site st ps) = [demo_site_workflow]" "execution_events (demo_site st ps) = []"
  "parts_requests (demo_site st ps) = ps" "payment_records (demo_site st ps) = [demo_site_payment]"
  "fee_charges (demo_site st ps) = []" "visit_buffers (demo_site st ps) = []" "job_assignment_rows (demo_site st ps) = []"
  "completion_proofs (demo_site st ps) = [\<lparr>cp_job_id = 1, cp_tenant_id = 4, cp_status = ''submitted'', cp_handover_status = ''acknowledged''\<rparr>]"
  "checklist_mappings (demo_site st ps) = [demo_mapping]" "checklist_instances (demo_site st ps) = [demo_checklist INSTANCE_COMPLETED]"
  "master_service_job_types (demo_site st ps) = [\<lparr>lk_id = 109, lk_master_service_id = 6, lk_job_type_id = 11, lk_is_active = True\<rparr>]"
  "stock_balances (demo_site st ps) = stock_balances demo_stock" "stock_transactions (demo_site st ps) = stock_transactions demo_stock"
  "stock_reservations (demo_site st ps) = stock_reservations demo_stock" "next_uuid (demo_site st ps) = 200"
  "inventory_items (demo_site st ps) = inventory_items demo_stock" "stock_locations (demo_site st ps) = stock_locations demo_stock"
  by (simp_all add: demo_site_def demo_catalogue_def demo_stock_def inv_db.defs chk_db.defs exec_db.defs)

lemma demo_site_next: "next_uuid demo_stock = 200"
  by (simp add: demo_stock_def)

lemma demo_site_job_simps [simp]:
  "j_id (demo_site_job st) = 1" "j_tenant_id (demo_site_job st) = Some 4" "j_status (demo_site_job st) = st"
  "j_assigned_staff_id (demo_site_job st) = Some 7" "j_arrival_verified_at (demo_site_job st) = Some 5"
  "j_job_type_id (demo_site_job st) = Some 11" "j_workflow_id (demo_site_job st) = None" "j_offering_id (demo_site_job st) = 6"
  "j_booking_id (demo_site_job st) = 2" "j_customer_id (demo_site_job st) = Some 3"
  by (simp_all add: demo_site_job_def demo_job_def)

lemma demo_site_staff [simp]:
  "get_job (demo_site st ps) (Suc 0) 4 = Inr (demo_site_job st)"
  "staff_job (demo_site st ps) (Suc 0) 4 7 = Inr (demo_site_job st)"
  by (simp_all add: staff_job_def get_job_def assert_staff_owns_job_def)

lemma demo_site_workflow_of [simp]: "resolve_job_type_workflow (demo_site st ps) (demo_site_job st') = Some demo_site_workflow"
  by (simp add: resolve_job_type_workflow_def demo_site_workflow_def)

lemma demo_site_move [simp]:
  "new \<in> set (JOB_TRANSITIONS st') \<Longrightarrow> assert_transition_allowed (demo_site st ps) (demo_site_job st') new actor = Inr ()"
  by (simp add: assert_transition_allowed_def is_status_move_allowed_def workflow_verdict_def)

lemma demo_site_work_gates [simp]: "work_start_gates (demo_site st ps) (demo_site_job st) now = Inr ()"
  by (simp add: work_start_gates_def assert_quote_approval_satisfied_def assert_checklist_satisfied_def
      assert_customer_platform_fee_paid_if_required_def workflow_requires_quote_def snapshot_requires_quote_def
      demo_booking_def, simp add: demo_site_workflow_def)

lemma demo_site_status [simp]: "status_of_job (demo_site st ps) (Suc 0) = Some st"
  by (simp add: status_of_job_def)

lemma demo_site_set_status:
  "new \<noteq> st \<Longrightarrow> new \<in> set (JOB_TRANSITIONS st) \<Longrightarrow>
   set_status (demo_site st ps) (demo_site_job st) new ty actor now = Inr (moved_to (demo_site st ps) (demo_site_job st) new ty)"
  by (auto simp: set_status_def moved_to_def Let_def)

lemma demo_site_gate [simp]:
  "assert_gate_satisfied (demo_site st ps) (demo_site_job st) g 9 = Inr (demo_site st ps)"
  by (simp add: assert_gate_satisfied_def required_mappings_def get_applicable_mappings_def resolve_master_service_job_type_id_def
      demo_mapping_def evaluate_condition_def gate_terminal_def ensure_instance_def find_instance_def)

text \<open>A booking without a price snapshot never makes the charge attempt raise.\<close>

lemma attempt_answers:
  assumes "\<And>b. b \<in> set (service_bookings s) \<Longrightarrow> b_price_snapshot b = None"
  shows "\<exists>r. attempt_charge_at_event s now job ev rid = Inr r"
proof -
  have "Option.bind (find (\<lambda>b. b_id b = j_booking_id job) (service_bookings s)) b_price_snapshot = None"
    using assms by (cases "find (\<lambda>b. b_id b = j_booking_id job) (service_bookings s)") 
      (auto simp: find_first_row dest!: first_row_Some_set)
  then show ?thesis by (auto simp: attempt_charge_at_event_def Let_def split: sum.split)
qed

subsection \<open>Properties\<close>



text \<open>
  A finished job stays finished. Once a job is completed, cancelled, failed or closed with a declined estimate,
  no operation of the execution gives it another status.
\<close>

theorem finished_job_stays:
  assumes "exec_step\<^sup>*\<^sup>* s t" and "status_of_job s i = Some a" and "a \<in> set TERMINAL_JOB_STATUSES"
  shows "status_of_job t i = Some a"
proof -
  have "(job_move UNIV)\<^sup>*\<^sup>* s t" using exec_run_carries [OF assms(1)] by (simp add: carries_def)
  from job_graph.final_forever [OF this TrueI assms(2,3)] show ?thesis .
qed

theorem finished_job_stays_witness:
  "\<exists>t. exec_step (demo_site JS_CANCELLED []) t \<and> execution_events t \<noteq> [] \<and> status_of_job t 1 = Some JS_CANCELLED"
proof -
  let ?s = "demo_site JS_CANCELLED []"
  let ?t = "log_event ?s (demo_site_job JS_CANCELLED) EV_CUSTOMER_CONTACTED JS_CANCELLED JS_CANCELLED"
  have "log_customer_contacted ?s 1 4 7 = Inr ?t"
    by (simp add: log_customer_contacted_def customer_already_contacted_def)
  then have step: "exec_step ?s ?t" by (rule exec_step.contact)
  from finished_job_stays [OF r_into_rtranclp [where r = exec_step, OF step] demo_site_status] step
  show ?thesis by (intro exI [of _ ?t]) (simp add: log_event_def TERMINAL_JOB_STATUSES_def)
qed





text \<open>
  C9: the parts of the jobs keep the stock explained. Requesting, approving, installing and cancelling parts, and
  everything else that happens to jobs, leaves every stock balance equal to its ledger and covering its holds.
\<close>

theorem execution_keeps_stock_reconciled:
  assumes "stock_ok s" and "exec_step\<^sup>*\<^sup>* s t" and "on_hand s k = ledger_qty s k"
  shows "on_hand t k = ledger_qty t k \<and> 0 \<le> reserved_at t k \<and> reserved_at t k \<le> on_hand t k"
proof -
  have run: "stock_step\<^sup>*\<^sup>* s t" using exec_run_carries [OF assms(2)] by (simp add: carries_def)
  then have "stock_ok t" using assms(1) by (rule stock.run_inv)
  with stock_ok_bounds have "0 \<le> reserved_at t k" "reserved_at t k \<le> on_hand t k" by blast+
  with stock.run_reconciled [OF run assms(1), of k] assms(3) show ?thesis by simp
qed

theorem execution_keeps_stock_reconciled_witness:
  "\<exists>t. exec_step (demo_site JS_SERVICE_STARTED [demo_site_part ''customer_approval_pending'' ''inventory'']) t \<and>
     on_hand t (70, 71) = ledger_qty t (70, 71) \<and> reserved_at t (70, 71) = 5"
proof -
  let ?s = "demo_site JS_SERVICE_STARTED [demo_site_part ''customer_approval_pending'' ''inventory'']"
  have "''J'' \<noteq> xs @ CHR '':'' # ys" for xs ys by (cases xs) auto
  then obtain t where t: "customer_decide_parts_request ?s 130 3 ''approve'' '''' 9 = Inr t" and held: "reserved_at t (70, 71) = 5"
    by (simp add: customer_decide_parts_request_def demo_site_part_def reserve_parts_inventory_def system_keeper_def
        create_reservation_def stock_op_simps demo_stock_simps edit_part_def log_event_def reserved_at_def balance_row_def
        parts_inventory_job_ref_def Let_def)
  then have step: "exec_step ?s t" by (blast intro: exec_step.decide_part)
  have "reserved_at ?s = reserved_at demo_stock" "on_hand ?s = on_hand demo_stock"
    by (simp_all add: fun_eq_iff reserved_at_def on_hand_def balance_row_def)
  then have ok: "stock_ok ?s"
    using demo_stock_ok demo_site_next by (simp add: stock_ok_def stock_rows_ok_def reservations_ok_def) metis
  have "on_hand ?s (70, 71) = ledger_qty ?s (70, 71)"
    by (simp add: on_hand_def balance_row_def ledger_qty_def demo_stock_simps)
  from execution_keeps_stock_reconciled [OF ok r_into_rtranclp [where r = exec_step, OF step] this] step held
  show ?thesis by auto
qed

text \<open>
  Work done settles the parts. After a technician marked the work done, none of the job's part requests waits
  for a decision, and an approved one that is not installed is an inventory part that was never reserved.
\<close>

theorem work_done_settles_parts:
  assumes "mark_work_done s jid tid staff rid now = Inr t" and "distinct (map pr_id (parts_requests s))"
    and "p \<in> set (parts_requests t)" and "pr_job_id p = jid"
  shows "pr_status p \<notin> set PARTS_PENDING_STATUSES \<and>
    (pr_status p \<in> set PARTS_APPROVED_STATUSES \<longrightarrow> procurement_source p = ''inventory'' \<and> stock_reservation_id p = None)"
proof -
  obtain job s1 s2 out where job: "staff_job s jid tid staff = Inr job" "assert_no_pending_parts s job = Inr ()"
    and s1: "set_status s job JS_WORK_DONE ''work_done'' ''staff'' now = Inr s1" and s2: "install_approved_parts s1 (j_id job) now = Inr s2"
    and out: "attempt_charge_at_event s2 now (job\<lparr>j_status := JS_WORK_DONE\<rparr>) ''work_done'' rid = Inr (t, out)"
    using assms(1) by (rule mark_work_done_parts)
  have id: "j_id job = jid" using staff_jobD [OF job(1)] by simp
  have "parts_requests t = parts_requests s2"
    using attempt_credit_only [OF out] by (rule credit_only_more)
  with install_parts_run [OF s2 [unfolded install_approved_parts_def]] set_status_parts(1) [OF s1] id assms(3)
  obtain q where q: "q \<in> set (parts_requests s)"
    and p: "p = (if pr_id q \<in> pr_id ` {q \<in> set (parts_requests s). pr_job_id q = jid \<and> pr_status q \<in> set PARTS_APPROVED_STATUSES \<and>
        \<not> (procurement_source q = ''inventory'' \<and> stock_reservation_id q = None)} then q\<lparr>pr_status := ''installed''\<rparr> else q)"
    by (auto simp: update_where_def split: if_splits)
  have pending: "pr_status q \<notin> set PARTS_PENDING_STATUSES" if "pr_job_id q = jid"
    using job(2) q that id by (auto simp: assert_no_pending_parts_def filter_empty_conv split: if_splits)
  show ?thesis
    using p pending q assms(4)
    by (auto simp: PARTS_PENDING_STATUSES_def PARTS_APPROVED_STATUSES_def split: if_splits)
qed

theorem work_done_settles_parts_witness:
  "\<exists>t p. mark_work_done (demo_site JS_SERVICE_STARTED [demo_site_part ''customer_approved'' ''external'']) 1 4 7 None 9 = Inr t \<and>
     p \<in> set (parts_requests t) \<and> pr_status p \<notin> set PARTS_PENDING_STATUSES \<and> pr_status p \<notin> set PARTS_APPROVED_STATUSES"
proof -
  let ?part = "demo_site_part ''customer_approved'' ''external''"
  let ?s = "demo_site JS_SERVICE_STARTED [?part]" and ?job = "demo_site_job JS_SERVICE_STARTED"
  let ?u = "moved_to ?s ?job JS_WORK_DONE ''work_done''"
  let ?v = "edit_part ?u 130 (\<lambda>p. p\<lparr>pr_status := ''installed''\<rparr>)"
  have "\<exists>r. attempt_charge_at_event ?v 9 (?job\<lparr>j_status := JS_WORK_DONE\<rparr>) ''work_done'' None = Inr r"
    by (rule attempt_answers)
      (auto simp: moved_to_def sync_booking_status_def log_event_def edit_job_def edit_part_def update_where_def demo_booking_def split: if_splits)
  then obtain t out where att: "attempt_charge_at_event ?v 9 (?job\<lparr>j_status := JS_WORK_DONE\<rparr>) ''work_done'' None = Inr (t, out)"
    by auto
  have part: "pr_job_id ?part = 1" "pr_id ?part = 130" "pr_status ?part = ''customer_approved''" "procurement_source ?part = ''external''"
    by (simp_all add: demo_site_part_def)
  have t: "mark_work_done ?s 1 4 7 None 9 = Inr t"
    using att by (simp add: mark_work_done_def demo_site_set_status assert_no_pending_parts_def install_approved_parts_def
        consume_parts_inventory_def PARTS_PENDING_STATUSES_def PARTS_APPROVED_STATUSES_def part)
  have "parts_requests t = parts_requests ?v" using attempt_credit_only [OF att] by (rule credit_only_more)
  then have "?part\<lparr>pr_status := ''installed''\<rparr> \<in> set (parts_requests t)"
    by (simp add: edit_part_def update_where_def part)
  from work_done_settles_parts [OF t _ this] t this show ?thesis by (auto simp: demo_site_part_def)
qed

text \<open>
  A cancellation gives nothing back. Cancelling a job changes no part request, no reservation and no stock
  balance: whatever was held for its approved parts stays held, although nothing will use it.
\<close>

theorem cancelled_job_keeps_its_holds:
  assumes "cancel_job settle s jid tid reason actor now = Inr t" and "penalty_only settle"
  shows "stock_reservations t = stock_reservations s \<and> stock_balances t = stock_balances s \<and>
    status_of_job t jid = Some JS_CANCELLED"
proof -
  obtain job s1 s2 where job: "get_job s jid tid = Inr job"
    and st: "(if actor = ''provider'' \<and> breach_recorded job then settle s (j_id job) else Inr s) = Inr s1"
    and m: "set_status s1 job JS_CANCELLED ''job_cancelled'' actor now = Inr s2"
    and t: "status_of_job t = status_of_job s2" "stock_reservations t = stock_reservations s2" "stock_balances t = stock_balances s2"
    using assms(1) unfolding cancel_job_def
    by (auto elim!: bind_InrE split: if_split_asm simp: edit_job_def status_of_job_def fun_eq_iff first_row_update_where
        option.map_comp comp_def if_distrib [of j_status] cong: if_cong)
  have "stock_reservations s1 = stock_reservations s \<and> stock_balances s1 = stock_balances s"
    using st assms(2) by (auto simp: penalty_only_def split: if_splits)
  moreover have "j_id job = jid" using job by (auto simp: get_job_def res_simps dest!: first_row_Some_set)
  ultimately show ?thesis using t set_status_parts(2,3) [OF m] set_status_new [OF m] by simp
qed

theorem cancelled_job_keeps_its_holds_witness:
  "\<exists>t. cancel_job (\<lambda>x i. Inr x) (demo_site JS_ACCEPTED []) 1 4 ''late'' ''customer'' 9 = Inr t \<and>
     stock_reservations t = stock_reservations demo_stock \<and> status_of_job t 1 = Some JS_CANCELLED"
proof -
  obtain t where t: "cancel_job (\<lambda>x i. Inr x) (demo_site JS_ACCEPTED []) 1 4 ''late'' ''customer'' 9 = Inr t"
    by (simp add: cancel_job_def demo_site_set_status blank_def py_space_def, simp add: demo_site_workflow_def demo_site_set_status)
  have "penalty_only (\<lambda>x i. Inr x)" by (simp add: penalty_only_def)
  from cancelled_job_keeps_its_holds [OF t this] t show ?thesis by simp
qed

text \<open>
  Rejecting escapes the settlement. A technician who rejects a job cancels it without the workflow's cancellation
  rule, without the penalty a provider's cancellation after a missed slot pays, and without closing the assignment:
  the credit ledger and the assignments are those of before, whatever the breach.
\<close>

theorem rejection_escapes_settlement:
  assumes "reject_job s jid tid staff reason now = Inr t" and "status_of_job s jid \<noteq> Some JS_CANCELLED"
  shows "status_of_job t jid = Some JS_CANCELLED \<and> usage_credit_ledger t = usage_credit_ledger s \<and>
    job_assignment_rows t = job_assignment_rows s"
proof -
  obtain job where job: "staff_job s jid tid staff = Inr job"
    and m: "set_status s job JS_CANCELLED ''job_rejected'' ''staff'' now = Inr t"
    using assms(1) unfolding reject_job_def by (auto elim!: bind_InrE split: if_split_asm)
  from set_status_new [OF m] set_status_parts [OF m] staff_jobD [OF job] show ?thesis by simp
qed

theorem rejection_escapes_settlement_witness:
  "\<exists>t. reject_job (demo_site JS_ASSIGNED []) 1 4 7 ''busy'' 9 = Inr t \<and> status_of_job t 1 = Some JS_CANCELLED \<and>
     usage_credit_ledger t = usage_credit_ledger (demo_site JS_ASSIGNED [])"
proof -
  let ?s = "demo_site JS_ASSIGNED []"
  have t: "reject_job ?s 1 4 7 ''busy'' 9 = Inr (moved_to ?s (demo_site_job JS_ASSIGNED) JS_CANCELLED ''job_rejected'')"
    by (simp add: reject_job_def demo_site_set_status blank_def py_space_def)
  from rejection_escapes_settlement [OF t] t show ?thesis by (simp add: demo_site_status)
qed

end
