(* ===== verification/CustomerCredits.thy ===== *)
theory CustomerCredits
  imports Timeline
begin

section \<open>Customer credits and dispute settlements (customer_credits)\<close>

text \<open>
  The service credit a customer gets for a failed visit, and what becomes of it: it is issued by an admin, by a
  settled dispute or out of the provider's usage credits, drawn on a booking or an invoice soonest expiry first,
  cancelled or extended. Credits are listed in the order they were created. Texts, numbers, currencies and the
  audit log are not kept; the floats of a preview are the decimals they come from.
\<close>

subsection \<open>Data\<close>

datatype credit_status = CS_ACTIVE | CS_PARTIALLY_USED | CS_USED | CS_CANCELLED | CS_EXPIRED | CS_REVERSED | CS_REVOKED

record customer_credit =
  cc_id :: uuid
  cc_customer_id :: uuid
  cc_tenant_id :: "uuid option"
  cc_booking_id :: "uuid option"
  cc_job_id :: "uuid option"
  cc_dispute_id :: "uuid option"
  cc_settlement_id :: "uuid option"
  cc_amount :: decimal
  cc_remaining :: decimal
  cc_credit_type :: string
  cc_source :: string
  cc_status :: credit_status
  cc_valid_from :: time
  cc_expires_at :: "time option"

record customer_credit_entry =
  ce_credit_id :: uuid
  ce_customer_id :: uuid
  ce_booking_id :: "uuid option"
  ce_type :: string
  ce_amount :: decimal
  ce_balance_after :: decimal
  ce_reference_type :: "string option"
  ce_reference_id :: "uuid option"

datatype settlement_status = DS_DRAFT | DS_PENDING_APPROVAL | DS_APPROVED | DS_EXECUTED | DS_CANCELLED | DS_REVERSED | DS_FAILED

record dispute_settlement =
  ds_id :: uuid
  ds_dispute_id :: uuid
  ds_booking_id :: "uuid option"
  ds_job_id :: "uuid option"
  ds_customer_id :: uuid
  ds_tenant_id :: uuid
  ds_type :: string
  ds_status :: settlement_status
  ds_amount :: decimal
  ds_deduction_source :: string
  ds_wallet_deduction :: decimal
  ds_goodwill :: decimal
  ds_credit_id :: "uuid option"
  ds_penalty_id :: "uuid option"

record tenant_penalty =
  pen_id :: uuid
  pen_tenant_id :: uuid
  pen_settlement_id :: "uuid option"
  pen_amount :: decimal
  pen_source :: string
  pen_status :: string

record complaint =
  cm_id :: uuid
  cm_customer_id :: uuid
  cm_tenant_id :: "uuid option"
  cm_booking_id :: "uuid option"
  cm_settlement_status :: "string option"

record legacy_booking =
  lb_id :: uuid
  lb_customer_id :: uuid
  lb_quoted_price :: "decimal option"
  lb_credit_applied :: decimal
  lb_payable_amount :: "decimal option"

text \<open>\<open>invoice_credits\<close> is the column \<^verbatim>\<open>service_invoices.credit_applied_amount\<close>, zero where absent.\<close>

record remedy_db = exec_db +
  customer_credits :: "customer_credit list"
  customer_credit_ledger :: "customer_credit_entry list"
  dispute_settlements :: "dispute_settlement list"
  tenant_penalties :: "tenant_penalty list"
  complaints :: "complaint list"
  legacy_bookings :: "legacy_booking list"
  invoice_credits :: "(uuid \<times> decimal) list"

definition VALID_SETTLEMENT_TYPES :: "string list" where
  "VALID_SETTLEMENT_TYPES = [''customer_service_credit'', ''tenant_revisit'', ''tenant_direct_refund'',
     ''no_compensation'', ''platform_goodwill_credit'', ''manual_customer_refund_exception'']"

definition VALID_DEDUCTION_STRATEGIES :: "string list" where
  "VALID_DEDUCTION_STRATEGIES = [''tenant_wallet'', ''platform_goodwill'', ''none'']"

definition CREDIT_EXPIRY_DAYS :: int where "CREDIT_EXPIRY_DAYS = 180"

text \<open>\<^verbatim>\<open>quantize(Decimal("0.01"), ROUND_DOWN)\<close>: towards zero.\<close>

definition two :: "decimal \<Rightarrow> decimal" where
  "two v = (if v < 0 then - of_int \<lfloor>- v * 100\<rfloor> else of_int \<lfloor>v * 100\<rfloor>) / 100"

subsection \<open>Issuing a credit\<close>

text \<open>A movement of the provider's usage credits; its key is unique in the table.\<close>

definition insert_usage_entry :: "'a credit_db_scheme \<Rightarrow> credit_entry \<Rightarrow> 'a credit_db_scheme res" where
  "insert_usage_entry s e =
     (if u_idempotency_key e \<noteq> None \<and> u_idempotency_key e \<in> u_idempotency_key ` set (usage_credit_ledger s)
      then Inl DBAPIError else Inr (write_entry s e))"

text \<open>The row of a credit and the ledger entry that explains it.\<close>

definition grant_credit :: "'a remedy_db_scheme \<Rightarrow> customer_credit \<Rightarrow> uuid option \<Rightarrow> string \<Rightarrow> uuid option \<Rightarrow> 'a remedy_db_scheme" where
  "grant_credit s c booking rt rid =
     s\<lparr>customer_credits := customer_credits s @ [c],
       customer_credit_ledger := customer_credit_ledger s @
         [\<lparr>ce_credit_id = cc_id c, ce_customer_id = cc_customer_id c, ce_booking_id = booking, ce_type = ''issued'',
           ce_amount = cc_amount c, ce_balance_after = cc_amount c, ce_reference_type = Some rt,
           ce_reference_id = rid\<rparr>],
       next_uuid := Suc (next_uuid s)\<rparr>"

record remedy_request =
  rq_tenant_id :: uuid
  rq_customer_id :: uuid
  rq_amount :: decimal
  rq_reference_type :: string
  rq_reference_id :: uuid
  rq_reason :: string
  rq_actor_id :: "uuid option"
  rq_actor_role :: string
  rq_request_id :: string
  rq_booking_id :: "uuid option"
  rq_job_id :: "uuid option"

record remedy_result =
  rr_credit :: "customer_credit option"
  rr_provider_credit_deducted :: decimal
  rr_idempotent_replay :: bool

definition issued_for :: "'a remedy_db_scheme \<Rightarrow> string \<Rightarrow> uuid \<Rightarrow> customer_credit_entry option" where
  "issued_for s rt rid = first_row (filter (\<lambda>e. ce_reference_type e = Some rt \<and> ce_reference_id e = Some rid \<and>
     ce_type e = ''issued'') (customer_credit_ledger s))"

definition remedy_key :: "string \<Rightarrow> uuid \<Rightarrow> string" where
  "remedy_key rt rid = ''customer_remedy:'' @ rt @ '':'' @ str_uuid rid @ '':credits''"

definition remedy_entry :: "'a credit_db_scheme \<Rightarrow> remedy_request \<Rightarrow> decimal \<Rightarrow> decimal \<Rightarrow> credit_entry" where
  "remedy_entry s rq before amount =
     (blank_entry (next_uuid s) (rq_tenant_id rq) ''customer_remedy_deduction'' (- amount) before (rq_reason rq))
       \<lparr>u_job_id := rq_job_id rq, u_booking_id := rq_booking_id rq, deduction_source := Some ''provider_usage_credits'',
        u_created_by := rq_actor_id rq, u_request_id := Some (rq_request_id rq),
        u_idempotency_key := Some (remedy_key (rq_reference_type rq) (rq_reference_id rq)),
        u_source_type := Some (rq_reference_type rq), u_source_id := Some (str_uuid (rq_reference_id rq)),
        u_reason_code := Some ''provider_failed_resolution'', u_actor_role := Some (rq_actor_role rq)\<rparr>"

definition issue_provider_funded_customer_credit ::
  "'a remedy_db_scheme \<Rightarrow> remedy_request \<Rightarrow> time \<Rightarrow> ('a remedy_db_scheme \<times> remedy_result) res" where
  "issue_provider_funded_customer_credit s rq now =
     (let amount = two (rq_amount rq) in
      if amount \<le> 0 then Inl (ServiceOSException ''VALIDATION_ERROR'')
      else case issued_for s (rq_reference_type rq) (rq_reference_id rq) of
        Some e \<Rightarrow> Inr (s, \<lparr>rr_credit = first_row (filter (\<lambda>c. cc_id c = ce_credit_id e) (customer_credits s)),
                         rr_provider_credit_deducted = 0, rr_idempotent_replay = True\<rparr>)
      | None \<Rightarrow>
        bind_res (case first_row (billings_of s (rq_tenant_id rq)) of
            None \<Rightarrow> Inr s
          | Some b \<Rightarrow> insert_usage_entry s (remedy_entry s rq (two (tb_credit_balance b)) amount)) (\<lambda>s1.
          let c = \<lparr>cc_id = next_uuid s1, cc_customer_id = rq_customer_id rq, cc_tenant_id = Some (rq_tenant_id rq),
                   cc_booking_id = rq_booking_id rq, cc_job_id = rq_job_id rq, cc_dispute_id = None, cc_settlement_id = None,
                   cc_amount = amount, cc_remaining = amount,
                   cc_credit_type = (if rq_reference_type rq = ''warranty_claim'' then ''warranty_compensation''
                                     else ''refund_compensation''),
                   cc_source = ''provider_funded_remedy'', cc_status = CS_ACTIVE, cc_valid_from = now,
                   cc_expires_at = Some (now + CREDIT_EXPIRY_DAYS * 86400)\<rparr>
          in Inr (grant_credit s1 c (rq_booking_id rq) (rq_reference_type rq) (Some (rq_reference_id rq)),
                  \<lparr>rr_credit = Some c, rr_provider_credit_deducted = amount, rr_idempotent_replay = False\<rparr>)))"

definition issue_credit_manual ::
  "'a remedy_db_scheme \<Rightarrow> uuid \<Rightarrow> decimal option \<Rightarrow> string option \<Rightarrow> int option \<Rightarrow> time \<Rightarrow> ('a remedy_db_scheme \<times> customer_credit) res" where
  "issue_credit_manual s customer amount credit_type validity now =
     (let a = two (case amount of None \<Rightarrow> 0 | Some v \<Rightarrow> v) in
      if a \<le> 0 then Inl (ServiceOSException ''VALIDATION_ERROR'')
      else
        let c = \<lparr>cc_id = next_uuid s, cc_customer_id = customer, cc_tenant_id = None, cc_booking_id = None, cc_job_id = None,
                 cc_dispute_id = None, cc_settlement_id = None, cc_amount = a, cc_remaining = a,
                 cc_credit_type = (case credit_type of None \<Rightarrow> ''platform_goodwill'' | Some t \<Rightarrow> t),
                 cc_source = ''manual_admin_credit'', cc_status = CS_ACTIVE, cc_valid_from = now,
                 cc_expires_at = Some (now + (case validity of None \<Rightarrow> CREDIT_EXPIRY_DAYS | Some d \<Rightarrow> d) * 86400)\<rparr>
        in Inr (grant_credit s c None ''admin_manual'' None, c))"

subsection \<open>The settlement of a dispute\<close>

record deduction_preview =
  dp_wallet_balance :: decimal
  dp_wallet_deduction :: decimal
  dp_wallet_balance_after :: decimal
  dp_goes_negative :: bool
  dp_shortfall :: decimal
  dp_goodwill :: decimal
  dp_uncovered :: decimal
  dp_can_fully_cover :: bool

definition preview_deduction :: "'a remedy_db_scheme \<Rightarrow> uuid \<Rightarrow> decimal \<Rightarrow> string \<Rightarrow> deduction_preview res" where
  "preview_deduction s tid amount strategy =
     (if strategy \<notin> set VALID_DEDUCTION_STRATEGIES then Inl (ServiceOSException ''VALIDATION_ERROR'')
      else
        let balance = two (case first_row (billings_of s tid) of None \<Rightarrow> 0 | Some b \<Rightarrow> tb_credit_balance b);
            deduct = (if strategy = ''tenant_wallet'' then amount else 0);
            goodwill = (if strategy = ''platform_goodwill'' then amount else 0);
            after = balance - deduct
        in Inr \<lparr>dp_wallet_balance = balance, dp_wallet_deduction = deduct, dp_wallet_balance_after = after,
                dp_goes_negative = after < 0, dp_shortfall = (if after < 0 then - after else 0), dp_goodwill = goodwill,
                dp_uncovered = 0, dp_can_fully_cover = True\<rparr>)"

definition create_settlement ::
  "'a remedy_db_scheme \<Rightarrow> uuid \<Rightarrow> string \<Rightarrow> string option \<Rightarrow> decimal option \<Rightarrow> ('a remedy_db_scheme \<times> dispute_settlement) res" where
  "create_settlement s dispute_id ty strategy_in amount_in =
     bind_res (require (ServiceOSException ''NOT_FOUND'') (first_row (filter (\<lambda>c. cm_id c = dispute_id) (complaints s)))) (\<lambda>complaint.
       let strategy = (case strategy_in of None \<Rightarrow> ''tenant_wallet'' | Some x \<Rightarrow> x);
           amount = two (case amount_in of None \<Rightarrow> 0 | Some a \<Rightarrow> a)
       in if ty \<notin> set VALID_SETTLEMENT_TYPES then Inl (ServiceOSException ''VALIDATION_ERROR'')
          else if strategy \<notin> set VALID_DEDUCTION_STRATEGIES then Inl (ServiceOSException ''VALIDATION_ERROR'')
          else if amount < 0 then Inl (ServiceOSException ''VALIDATION_ERROR'')
          else if filter (\<lambda>x. ds_dispute_id x = dispute_id \<and> ds_status x \<notin> {DS_CANCELLED, DS_REVERSED}) (dispute_settlements s) \<noteq> []
          then Inl (ServiceOSException ''DUPLICATE_SETTLEMENT'')
          else bind_res (require (ValueError ''badly formed hexadecimal UUID string'') (cm_tenant_id complaint)) (\<lambda>tid.
               bind_res (preview_deduction s tid amount strategy) (\<lambda>preview.
                 let x = \<lparr>ds_id = next_uuid s, ds_dispute_id = dispute_id, ds_booking_id = cm_booking_id complaint, ds_job_id = None,
                          ds_customer_id = cm_customer_id complaint, ds_tenant_id = tid, ds_type = ty, ds_status = DS_DRAFT,
                          ds_amount = amount, ds_deduction_source = strategy, ds_wallet_deduction = dp_wallet_deduction preview,
                          ds_goodwill = dp_goodwill preview, ds_credit_id = None, ds_penalty_id = None\<rparr>
                 in Inr (s\<lparr>dispute_settlements := dispute_settlements s @ [x], next_uuid := Suc (next_uuid s)\<rparr>, x))))"

definition get_settlement :: "'a remedy_db_scheme \<Rightarrow> uuid \<Rightarrow> dispute_settlement res" where
  "get_settlement s sid = require (ServiceOSException ''NOT_FOUND'') (first_row (filter (\<lambda>x. ds_id x = sid) (dispute_settlements s)))"

definition set_settlement :: "'a remedy_db_scheme \<Rightarrow> uuid \<Rightarrow> (dispute_settlement \<Rightarrow> dispute_settlement) \<Rightarrow> 'a remedy_db_scheme" where
  "set_settlement s sid f = s\<lparr>dispute_settlements := update_where (\<lambda>x. ds_id x = sid) f (dispute_settlements s)\<rparr>"

definition approve_settlement :: "'a remedy_db_scheme \<Rightarrow> uuid \<Rightarrow> 'a remedy_db_scheme res" where
  "approve_settlement s sid =
     bind_res (get_settlement s sid) (\<lambda>x.
       if ds_status x \<notin> {DS_DRAFT, DS_PENDING_APPROVAL} then Inl (ServiceOSException ''INVALID_STATE'')
       else Inr (set_settlement s sid (\<lambda>x. x\<lparr>ds_status := DS_APPROVED\<rparr>)))"

text \<open>The debit of the provider, where the provider has a billing row.\<close>

definition settlement_debit ::
  "'a remedy_db_scheme \<Rightarrow> dispute_settlement \<Rightarrow> decimal \<Rightarrow> uuid \<Rightarrow> string \<Rightarrow> string \<Rightarrow> 'a remedy_db_scheme res" where
  "settlement_debit s x deduct actor role req =
     (if deduct \<le> 0 then Inr s
      else case first_row (billings_of s (ds_tenant_id x)) of
        None \<Rightarrow> Inr s
      | Some b \<Rightarrow>
        let e = (blank_entry (next_uuid s) (ds_tenant_id x) ''customer_remedy_deduction'' (- deduct) (tb_credit_balance b)
                   ''Dispute settlement deduction'')
              \<lparr>u_job_id := ds_job_id x, u_booking_id := ds_booking_id x, deduction_source := Some ''provider_usage_credits'',
               u_created_by := Some actor, u_request_id := Some req,
               u_idempotency_key := Some (remedy_key ''dispute'' (ds_id x)), u_source_type := Some ''dispute_settlement'',
               u_source_id := Some (str_uuid (ds_id x)), u_reason_code := Some ''provider_failed_resolution'',
               u_actor_role := Some role\<rparr>
        in bind_res (insert_usage_entry s e) (\<lambda>s1.
             Inr (set_settlement s1 (ds_id x) (\<lambda>x. x\<lparr>ds_wallet_deduction := deduct\<rparr>))))"

definition settlement_credit :: "dispute_settlement \<Rightarrow> uuid \<Rightarrow> time \<Rightarrow> customer_credit" where
  "settlement_credit x i now =
     \<lparr>cc_id = i, cc_customer_id = ds_customer_id x, cc_tenant_id = Some (ds_tenant_id x), cc_booking_id = ds_booking_id x,
      cc_job_id = None, cc_dispute_id = Some (ds_dispute_id x), cc_settlement_id = Some (ds_id x), cc_amount = ds_amount x,
      cc_remaining = ds_amount x, cc_credit_type = ''dispute_compensation'',
      cc_source = (if ds_deduction_source x = ''platform_goodwill'' then ''platform_goodwill'' else ''dispute_settlement''),
      cc_status = CS_ACTIVE, cc_valid_from = now, cc_expires_at = Some (now + CREDIT_EXPIRY_DAYS * 86400)\<rparr>"

text \<open>The penalty row, the links of the settlement and the state of the complaint.\<close>

definition close_settlement ::
  "'a remedy_db_scheme \<Rightarrow> dispute_settlement \<Rightarrow> uuid \<Rightarrow> decimal \<Rightarrow> decimal \<Rightarrow> 'a remedy_db_scheme" where
  "close_settlement s x credit deduct goodwill =
     (let p = \<lparr>pen_id = next_uuid s, pen_tenant_id = ds_tenant_id x, pen_settlement_id = Some (ds_id x), pen_amount = deduct,
               pen_source = ''tenant_wallet'', pen_status = ''applied''\<rparr>;
          s1 = set_settlement s (ds_id x) (\<lambda>r. r\<lparr>ds_goodwill := goodwill, ds_credit_id := Some credit,
                 ds_penalty_id := Some (pen_id p), ds_status := DS_EXECUTED\<rparr>)
      in s1\<lparr>tenant_penalties := tenant_penalties s1 @ [p], next_uuid := Suc (next_uuid s1),
            complaints := update_where (\<lambda>m. cm_id m = ds_dispute_id x) (\<lambda>m. m\<lparr>cm_settlement_status := Some ''settled''\<rparr>)
              (complaints s1)\<rparr>)"

definition execute_settlement ::
  "'a remedy_db_scheme \<Rightarrow> uuid \<Rightarrow> uuid \<Rightarrow> string \<Rightarrow> string \<Rightarrow> time \<Rightarrow> 'a remedy_db_scheme res" where
  "execute_settlement s sid actor role req now =
     bind_res (get_settlement s sid) (\<lambda>x.
       if ds_status x = DS_EXECUTED then Inl (ServiceOSException ''ALREADY_EXECUTED'')
       else if ds_status x \<noteq> DS_APPROVED then Inl (ServiceOSException ''INVALID_STATE'')
       else bind_res (preview_deduction s (ds_tenant_id x) (ds_amount x) (ds_deduction_source x)) (\<lambda>preview.
         if \<not> dp_can_fully_cover preview then Inl (ServiceOSException ''PROVIDER_REMEDY_FUNDS_INSUFFICIENT'')
         else
           let deduct = two (dp_wallet_deduction preview); goodwill = two (dp_goodwill preview)
           in bind_res (settlement_debit s x deduct actor role req) (\<lambda>s1.
             let c = settlement_credit x (next_uuid s1) now
             in Inr (close_settlement (grant_credit s1 c None ''dispute_settlement'' (Some sid)) x (cc_id c) deduct goodwill))))"

definition cancel_settlement :: "'a remedy_db_scheme \<Rightarrow> uuid \<Rightarrow> 'a remedy_db_scheme res" where
  "cancel_settlement s sid =
     bind_res (get_settlement s sid) (\<lambda>x.
       if ds_status x = DS_EXECUTED then Inl (ServiceOSException ''INVALID_STATE'')
       else Inr (set_settlement s sid (\<lambda>x. x\<lparr>ds_status := DS_CANCELLED\<rparr>)))"

record settlement_summary =
  sm_total :: nat
  sm_pending :: nat
  sm_executed :: nat
  sm_failed :: nat
  sm_credits_issued :: decimal
  sm_wallet_deducted :: decimal

definition get_settlement_summary :: "'a remedy_db_scheme \<Rightarrow> settlement_summary" where
  "get_settlement_summary s =
     (let xs = dispute_settlements s; executed = filter (\<lambda>x. ds_status x = DS_EXECUTED) xs
      in \<lparr>sm_total = length xs,
          sm_pending = length (filter (\<lambda>x. ds_status x \<in> {DS_DRAFT, DS_PENDING_APPROVAL, DS_APPROVED}) xs),
          sm_executed = length executed, sm_failed = length (filter (\<lambda>x. ds_status x \<in> {DS_FAILED, DS_CANCELLED}) xs),
          sm_credits_issued = sum_list (map ds_amount (filter (\<lambda>x. ds_type x = ''customer_service_credit'') executed)),
          sm_wallet_deducted = sum_list (map ds_wallet_deduction executed)\<rparr>)"

subsection \<open>The life of a credit\<close>

definition get_credit_row :: "'a remedy_db_scheme \<Rightarrow> uuid \<Rightarrow> customer_credit res" where
  "get_credit_row s i = require (ServiceOSException ''NOT_FOUND'') (first_row (filter (\<lambda>c. cc_id c = i) (customer_credits s)))"

definition set_credit :: "'a remedy_db_scheme \<Rightarrow> uuid \<Rightarrow> (customer_credit \<Rightarrow> customer_credit) \<Rightarrow> 'a remedy_db_scheme" where
  "set_credit s i f = s\<lparr>customer_credits := update_where (\<lambda>c. cc_id c = i) f (customer_credits s)\<rparr>"

definition cancel_credit :: "'a remedy_db_scheme \<Rightarrow> uuid \<Rightarrow> 'a remedy_db_scheme res" where
  "cancel_credit s i =
     bind_res (get_credit_row s i) (\<lambda>c.
       if cc_status c \<in> {CS_CANCELLED, CS_EXPIRED, CS_REVERSED} then Inl (ServiceOSException ''INVALID_STATE'')
       else Inr (set_credit s i (\<lambda>c. c\<lparr>cc_status := CS_CANCELLED\<rparr>)))"

definition extend_credit_expiry :: "'a remedy_db_scheme \<Rightarrow> uuid \<Rightarrow> time \<Rightarrow> 'a remedy_db_scheme res" where
  "extend_credit_expiry s i expiry =
     bind_res (get_credit_row s i) (\<lambda>c.
       if cc_status c \<notin> {CS_ACTIVE, CS_PARTIALLY_USED} then Inl (ServiceOSException ''INVALID_STATE'')
       else Inr (set_credit s i (\<lambda>c. c\<lparr>cc_expires_at := Some expiry\<rparr>)))"

definition get_credit :: "'a remedy_db_scheme \<Rightarrow> uuid \<Rightarrow> uuid option \<Rightarrow> (customer_credit \<times> customer_credit_entry list) res" where
  "get_credit s i customer =
     bind_res (get_credit_row s i) (\<lambda>c.
       if given customer (\<lambda>u. cc_customer_id c \<noteq> u) then Inl (ServiceOSException ''NOT_FOUND'')
       else Inr (c, rev (filter (\<lambda>e. ce_credit_id e = i) (customer_credit_ledger s))))"

record credit_summary =
  cs_total :: nat
  cs_active :: nat
  cs_used :: nat
  cs_expired :: nat
  cs_cancelled :: nat
  cs_active_balance :: decimal
  cs_from_disputes :: nat

definition get_credit_summary :: "'a remedy_db_scheme \<Rightarrow> uuid option \<Rightarrow> credit_summary" where
  "get_credit_summary s customer =
     (let xs = (case customer of None \<Rightarrow> customer_credits s | Some u \<Rightarrow> filter (\<lambda>c. cc_customer_id c = u) (customer_credits s));
          in_status = (\<lambda>sts. filter (\<lambda>c. cc_status c \<in> sts) xs)
      in \<lparr>cs_total = length xs, cs_active = length (in_status {CS_ACTIVE, CS_PARTIALLY_USED}), cs_used = length (in_status {CS_USED}),
          cs_expired = length (in_status {CS_EXPIRED}), cs_cancelled = length (in_status {CS_CANCELLED}),
          cs_active_balance = sum_list (map cc_remaining (in_status {CS_ACTIVE, CS_PARTIALLY_USED})),
          cs_from_disputes = length (filter (\<lambda>c. cc_source c = ''dispute_settlement'') xs)\<rparr>)"

subsection \<open>Drawing on credits\<close>

definition live_credit :: "uuid \<Rightarrow> time \<Rightarrow> customer_credit \<Rightarrow> bool" where
  "live_credit customer now c \<longleftrightarrow> cc_customer_id c = customer \<and> cc_status c \<in> {CS_ACTIVE, CS_PARTIALLY_USED} \<and>
     cc_valid_from c \<le> now \<and> (case cc_expires_at c of None \<Rightarrow> True | Some t \<Rightarrow> now < t)"

text \<open>\<^verbatim>\<open>expires_at ASC NULLS LAST, created_at ASC\<close>.\<close>

definition live_credits :: "'a remedy_db_scheme \<Rightarrow> uuid \<Rightarrow> time \<Rightarrow> customer_credit list" where
  "live_credits s customer now =
     (let xs = filter (live_credit customer now) (customer_credits s)
      in sort_key (\<lambda>c. the (cc_expires_at c)) (filter (\<lambda>c. cc_expires_at c \<noteq> None) xs) @ filter (\<lambda>c. cc_expires_at c = None) xs)"

definition draw_credit ::
  "'a remedy_db_scheme \<Rightarrow> customer_credit \<Rightarrow> decimal \<Rightarrow> uuid \<Rightarrow> uuid option \<Rightarrow> string \<Rightarrow> uuid \<Rightarrow> 'a remedy_db_scheme" where
  "draw_credit s c amount customer booking rt rid =
     (let left = cc_remaining c - amount; used = left = 0
      in (set_credit s (cc_id c) (\<lambda>r. r\<lparr>cc_remaining := left, cc_status := (if used then CS_USED else CS_PARTIALLY_USED)\<rparr>))
         \<lparr>customer_credit_ledger := customer_credit_ledger s @
            [\<lparr>ce_credit_id = cc_id c, ce_customer_id = customer, ce_booking_id = booking,
              ce_type = (if used then ''used'' else ''partially_used''), ce_amount = - amount, ce_balance_after = left,
              ce_reference_type = Some rt, ce_reference_id = Some rid\<rparr>]\<rparr>)"

fun draw_loop ::
  "'a remedy_db_scheme \<Rightarrow> uuid \<Rightarrow> uuid option \<Rightarrow> string \<Rightarrow> uuid \<Rightarrow> decimal \<Rightarrow> decimal \<Rightarrow> customer_credit list \<Rightarrow> 'a remedy_db_scheme \<times> decimal" where
  "draw_loop s customer booking rt rid rest applied [] = (s, applied)"
| "draw_loop s customer booking rt rid rest applied (c # cs) =
     (if rest \<le> 0 then (s, applied)
      else let take = min rest (two (cc_remaining c)) in
        if take \<le> 0 then draw_loop s customer booking rt rid rest applied cs
        else draw_loop (draw_credit s c take customer booking rt rid) customer booking rt rid (rest - take) (applied + take) cs)"

definition remaining_of :: "'a remedy_db_scheme \<Rightarrow> uuid \<Rightarrow> decimal" where
  "remaining_of s i = (case first_row (filter (\<lambda>c. cc_id c = i) (customer_credits s)) of None \<Rightarrow> 0 | Some c \<Rightarrow> cc_remaining c)"

text \<open>The state, what was applied, and the balance left on the credits that were read.\<close>

definition consume_credits ::
  "'a remedy_db_scheme \<Rightarrow> uuid \<Rightarrow> decimal \<Rightarrow> uuid option \<Rightarrow> string \<Rightarrow> uuid \<Rightarrow> time \<Rightarrow> 'a remedy_db_scheme \<times> decimal \<times> decimal" where
  "consume_credits s customer amount booking rt rid now =
     (let cs = live_credits s customer now; (t, applied) = draw_loop s customer booking rt rid (two amount) 0 cs
      in (t, applied, sum_list (map (\<lambda>c. two (remaining_of t (cc_id c))) cs)))"

record credit_application =
  ca_original :: decimal
  ca_applied :: decimal
  ca_payable :: decimal
  ca_balance :: decimal

definition active_balance :: "'a remedy_db_scheme \<Rightarrow> uuid \<Rightarrow> time \<Rightarrow> decimal" where
  "active_balance s customer now = two (sum_list (map cc_remaining (filter (live_credit customer now) (customer_credits s))))"

definition get_booking_credit_preview :: "'a remedy_db_scheme \<Rightarrow> uuid \<Rightarrow> decimal \<Rightarrow> decimal \<Rightarrow> time \<Rightarrow> credit_application" where
  "get_booking_credit_preview s customer booking_amount apply_amount now =
     (let balance = active_balance s customer now;
          wanted = (if apply_amount > balance then balance else apply_amount);
          applied = max 0 (min wanted booking_amount)
      in \<lparr>ca_original = booking_amount, ca_applied = applied, ca_payable = two (booking_amount - applied), ca_balance = balance - applied\<rparr>)"

definition apply_credit_to_booking ::
  "'a remedy_db_scheme \<Rightarrow> uuid \<Rightarrow> uuid \<Rightarrow> decimal \<Rightarrow> time \<Rightarrow> ('a remedy_db_scheme \<times> credit_application) res" where
  "apply_credit_to_booking s customer bid amount now =
     bind_res (one_or_none (filter (\<lambda>b. lb_id b = bid) (legacy_bookings s))) (\<lambda>row.
     bind_res (require (ServiceOSException ''NOT_FOUND'') row) (\<lambda>b.
       if lb_customer_id b \<noteq> customer then Inl (ServiceOSException ''PERMISSION_DENIED'')
       else bind_res (require (ServiceOSException ''VALIDATION_ERROR'') (lb_quoted_price b)) (\<lambda>price.
         if amount \<le> 0 then Inl (ServiceOSException ''VALIDATION_ERROR'')
         else if amount > price then Inl (ServiceOSException ''VALIDATION_ERROR'')
         else
           let (t, applied, left) = consume_credits s customer amount (Some bid) ''booking'' bid now; payable = two (price - applied)
           in Inr (t\<lparr>legacy_bookings := update_where (\<lambda>x. lb_id x = bid)
                     (\<lambda>x. x\<lparr>lb_credit_applied := applied, lb_payable_amount := Some payable\<rparr>) (legacy_bookings t)\<rparr>,
                   \<lparr>ca_original = price, ca_applied = applied, ca_payable = payable, ca_balance = left\<rparr>))))"

definition invoice_credit :: "'a remedy_db_scheme \<Rightarrow> uuid \<Rightarrow> decimal" where
  "invoice_credit s iid = (case first_row (filter (\<lambda>r. fst r = iid) (invoice_credits s)) of None \<Rightarrow> 0 | Some r \<Rightarrow> snd r)"

definition apply_credit_to_invoice ::
  "'a remedy_db_scheme \<Rightarrow> uuid \<Rightarrow> uuid \<Rightarrow> decimal \<Rightarrow> time \<Rightarrow> ('a remedy_db_scheme \<times> credit_application) res" where
  "apply_credit_to_invoice s customer iid amount now =
     bind_res (one_or_none (filter (\<lambda>i. in_id i = iid) (invoices s))) (\<lambda>row.
     bind_res (require (ServiceOSException ''NOT_FOUND'') row) (\<lambda>inv.
       if in_customer_id inv \<noteq> customer then Inl (ServiceOSException ''PERMISSION_DENIED'')
       else if in_status inv = INV_CANCELLED then Inl (ServiceOSException ''INVALID_STATE'')
       else if in_payment_status inv = PAY_STATUS_COLLECTED then Inl (ServiceOSException ''INVALID_STATE'')
       else if two (invoice_credit s iid) > 0 then Inl (ServiceOSException ''CREDIT_ALREADY_APPLIED'')
       else
         let payable = two (it_payable (in_totals inv)); wanted = two amount in
         if wanted \<le> 0 then Inl (ServiceOSException ''VALIDATION_ERROR'')
         else if wanted > payable then Inl (ServiceOSException ''VALIDATION_ERROR'')
         else
           let (t, applied, left) = consume_credits s customer wanted None ''invoice'' iid now; new_payable = two (payable - applied)
           in Inr (t\<lparr>invoice_credits := (iid, applied) # filter (\<lambda>r. fst r \<noteq> iid) (invoice_credits t),
                     invoices := update_where (\<lambda>i. in_id i = iid)
                       (\<lambda>i. i\<lparr>in_totals := (in_totals i)\<lparr>it_payable := new_payable\<rparr>\<rparr>) (invoices t)\<rparr>,
                   \<lparr>ca_original = payable, ca_applied = applied, ca_payable = new_payable, ca_balance = left\<rparr>)))"

record penalty_summary =
  ps_total :: nat
  ps_applied :: nat
  ps_pending :: nat
  ps_reversed :: nat
  ps_wallet_deducted :: decimal

text \<open>\<^verbatim>\<open>ILIKE '%wallet%'\<close> on the source.\<close>

definition mentions_wallet :: "string \<Rightarrow> bool" where
  "mentions_wallet src = list_ex (\<lambda>i. take 6 (drop i (upper src)) = ''WALLET'') [0..<length src]"

definition get_penalty_summary :: "'a remedy_db_scheme \<Rightarrow> penalty_summary" where
  "get_penalty_summary s =
     (let xs = tenant_penalties s; in_status = (\<lambda>st. filter (\<lambda>p. pen_status p = st) xs)
      in \<lparr>ps_total = length xs, ps_applied = length (in_status ''applied''), ps_pending = length (in_status ''pending''),
          ps_reversed = length (in_status ''reversed''),
          ps_wallet_deducted = sum_list (map pen_amount (filter (\<lambda>p. mentions_wallet (pen_source p)) (in_status ''applied'')))\<rparr>)"

subsection \<open>Cents\<close>

definition cents :: "decimal \<Rightarrow> bool" where "cents v \<longleftrightarrow> (\<exists>n. v = of_int n / 100)"

lemma two_cents [simp]: "cents (two v)"
  unfolding cents_def
  by (rule exI [of _ "if v < 0 then - \<lfloor>- v * 100\<rfloor> else \<lfloor>v * 100\<rfloor>"]) (simp add: two_def)

lemma two_nonneg: "0 \<le> v \<Longrightarrow> 0 \<le> two v"
  by (simp add: two_def)

lemma two_le: "0 \<le> v \<Longrightarrow> two v \<le> v"
  using of_int_floor_le [of "v * 100"] by (simp add: two_def field_simps)

lemma two_nonpos: "v \<le> 0 \<Longrightarrow> two v \<le> 0"
  by (simp add: two_def)

lemma two_id [simp]: "cents v \<Longrightarrow> two v = v"
  by (auto simp: cents_def two_def)

lemma cents_diff [simp]: "cents u \<Longrightarrow> cents v \<Longrightarrow> cents (u - v)"
  unfolding cents_def by (metis diff_divide_distrib of_int_diff)

lemma cents_add [simp]: "cents u \<Longrightarrow> cents v \<Longrightarrow> cents (u + v)"
  unfolding cents_def by (metis add_divide_distrib of_int_add)

lemma cents_0 [simp]: "cents 0"
  unfolding cents_def by (rule exI [of _ 0]) simp

lemma cents_min [simp]: "cents u \<Longrightarrow> cents v \<Longrightarrow> cents (min u v)"
  by (simp add: min_def)

lemma two_numeral [simp]: "two (numeral n) = numeral n" and two_0 [simp]: "two 0 = 0"
  by (simp_all add: two_def)

subsection \<open>The tables of credits\<close>

definition rows_of_credits :: "'a remedy_db_scheme \<Rightarrow> (uuid \<times> decimal \<times> decimal) list" where
  "rows_of_credits s = map (\<lambda>c. (cc_id c, cc_remaining c, cc_amount c)) (customer_credits s)"

definition credit_entries_total :: "'a remedy_db_scheme \<Rightarrow> uuid \<Rightarrow> decimal" where
  "credit_entries_total s i = sum_list (map ce_amount (filter (\<lambda>e. ce_credit_id e = i) (customer_credit_ledger s)))"

definition credits_ok :: "'a remedy_db_scheme \<Rightarrow> bool" where
  "credits_ok s \<longleftrightarrow> distinct (map cc_id (customer_credits s)) \<and>
     (\<forall>c \<in> set (customer_credits s). cc_id c < next_uuid s \<and> 0 \<le> cc_remaining c \<and> cc_remaining c \<le> cc_amount c) \<and>
     (\<forall>e \<in> set (customer_credit_ledger s). ce_credit_id e < next_uuid s) \<and>
     (\<forall>x \<in> set (dispute_settlements s). ds_id x < next_uuid s \<and> 0 \<le> ds_amount x)"

lemma credits_okD:
  assumes "credits_ok s"
  shows "distinct (map cc_id (customer_credits s))"
    and "c \<in> set (customer_credits s) \<Longrightarrow> cc_id c < next_uuid s \<and> 0 \<le> cc_remaining c \<and> cc_remaining c \<le> cc_amount c"
    and "e \<in> set (customer_credit_ledger s) \<Longrightarrow> ce_credit_id e < next_uuid s"
    and "x \<in> set (dispute_settlements s) \<Longrightarrow> ds_id x < next_uuid s \<and> 0 \<le> ds_amount x"
  using assms by (auto simp: credits_ok_def)

lemma remaining_of_row:
  "credits_ok s \<Longrightarrow> c \<in> set (customer_credits s) \<Longrightarrow> remaining_of s (cc_id c) = cc_remaining c"
  using filter_key_single [of cc_id "customer_credits s" c] by (simp add: remaining_of_def credits_okD(1))

lemma remaining_of_nonneg: "credits_ok s \<Longrightarrow> 0 \<le> remaining_of s i"
  by (auto simp: remaining_of_def credits_okD(2) split: option.split dest: first_row_Some_set)

lemma remaining_of_cong:
  fixes s t :: "'a remedy_db_scheme"
  assumes "rows_of_credits t = rows_of_credits s"
  shows "remaining_of t i = remaining_of s i"
proof -
  have "remaining_of u i = (case first_row (filter (\<lambda>r. fst r = i) (rows_of_credits u)) of None \<Rightarrow> 0 | Some r \<Rightarrow> fst (snd r))"
    for u :: "'a remedy_db_scheme"
    by (simp add: remaining_of_def rows_of_credits_def filter_map comp_def first_row_def split: list.split)
  with assms show ?thesis by simp
qed

text \<open>What one operation can do to a credit: issue it, draw on it, or leave the amounts alone.\<close>

definition ledger_gains :: "'a remedy_db_scheme \<Rightarrow> 'a remedy_db_scheme \<Rightarrow> customer_credit_entry list \<Rightarrow> bool" where
  "ledger_gains s t es \<longleftrightarrow> customer_credit_ledger t = customer_credit_ledger s @ es"

inductive credit_move :: "'a remedy_db_scheme \<Rightarrow> 'a remedy_db_scheme \<Rightarrow> bool" for s t where
  issue: "customer_credits t = customer_credits s @ [c] \<Longrightarrow> ledger_gains s t [e] \<Longrightarrow> ce_credit_id e = cc_id c \<Longrightarrow>
    ce_amount e = cc_amount c \<Longrightarrow> cc_remaining c = cc_amount c \<Longrightarrow> 0 \<le> cc_amount c \<Longrightarrow> next_uuid s \<le> cc_id c \<Longrightarrow>
    cc_id c < next_uuid t \<Longrightarrow> \<forall>x \<in> set (dispute_settlements t). ds_id x < next_uuid t \<and> 0 \<le> ds_amount x \<Longrightarrow> credit_move s t"
| draw: "c \<in> set (customer_credits s) \<Longrightarrow> 0 < a \<Longrightarrow> a \<le> cc_remaining c \<Longrightarrow>
    customer_credits t = update_where (\<lambda>r. cc_id r = cc_id c) (\<lambda>r. r\<lparr>cc_remaining := cc_remaining c - a, cc_status := st\<rparr>) (customer_credits s) \<Longrightarrow>
    ledger_gains s t [e] \<Longrightarrow> ce_credit_id e = cc_id c \<Longrightarrow> ce_amount e = - a \<Longrightarrow> next_uuid s \<le> next_uuid t \<Longrightarrow>
    \<forall>x \<in> set (dispute_settlements t). ds_id x < next_uuid t \<and> 0 \<le> ds_amount x \<Longrightarrow> credit_move s t"
| quiet: "rows_of_credits t = rows_of_credits s \<Longrightarrow> ledger_gains s t [] \<Longrightarrow> next_uuid s \<le> next_uuid t \<Longrightarrow>
    \<forall>x \<in> set (dispute_settlements t). ds_id x < next_uuid t \<and> 0 \<le> ds_amount x \<Longrightarrow> credit_move s t"

lemma credits_ok_rows:
  "credits_ok s \<longleftrightarrow> distinct (map fst (rows_of_credits s)) \<and>
     (\<forall>(i, r, a) \<in> set (rows_of_credits s). i < next_uuid s \<and> 0 \<le> r \<and> r \<le> a) \<and>
     (\<forall>e \<in> set (customer_credit_ledger s). ce_credit_id e < next_uuid s) \<and>
     (\<forall>x \<in> set (dispute_settlements s). ds_id x < next_uuid s \<and> 0 \<le> ds_amount x)"
  by (auto simp: credits_ok_def rows_of_credits_def comp_def)

lemma credit_move_ok:
  assumes "credit_move s t" "credits_ok s"
  shows "credits_ok t"
  using assms(1)
proof cases
  case (issue c e)
  with assms(2) show ?thesis by (fastforce simp: credits_ok_def ledger_gains_def)
next
  case (draw c a st e)
  have ids: "map cc_id (customer_credits t) = map cc_id (customer_credits s)"
    unfolding draw(4) by (rule map_update_where_key) simp
  have "cc_id r < next_uuid t \<and> 0 \<le> cc_remaining r \<and> cc_remaining r \<le> cc_amount r" if r: "r \<in> set (customer_credits t)" for r
  proof -
    from r consider "r \<in> set (customer_credits s)"
      | q where "q \<in> set (customer_credits s)" "cc_id q = cc_id c" "r = q\<lparr>cc_remaining := cc_remaining c - a, cc_status := st\<rparr>"
      unfolding draw(4) set_update_where by blast
    then show ?thesis
    proof cases
      case 1
      with credits_okD(2) [OF assms(2), of r] draw(8) show ?thesis by simp
    next
      case 2
      then have "q = c" using credits_okD(1) [OF assms(2)] draw(1) by (auto simp: distinct_map dest: inj_onD)
      with 2 credits_okD(2) [OF assms(2), of c] draw(1,2,3,8) show ?thesis by simp
    qed
  qed
  moreover have "ce_credit_id x < next_uuid t" if "x \<in> set (customer_credit_ledger t)" for x
    using that draw(5,6,8) credits_okD(2) [OF assms(2) draw(1)] credits_okD(3) [OF assms(2), of x]
    by (auto simp: ledger_gains_def)
  ultimately show ?thesis using credits_okD(1) [OF assms(2)] ids draw(9) by (simp add: credits_ok_def)
next
  case quiet
  with assms(2) show ?thesis by (fastforce simp: credits_ok_rows ledger_gains_def)
qed

lemma credit_move_moves:
  assumes "credit_move s t" "credits_ok s"
  shows "remaining_of t i - remaining_of s i = credit_entries_total t i - credit_entries_total s i"
  using assms(1)
proof cases
  case (issue c e)
  have "filter (\<lambda>r. cc_id r = cc_id c) (customer_credits s) = []"
    using credits_okD(2) [OF assms(2)] issue(7) by (force simp: filter_empty_conv)
  then have "remaining_of t i = remaining_of s i + (if i = cc_id c then cc_amount c else 0)"
    using issue(1,5) by (auto simp: remaining_of_def first_row_append split: option.split)
  moreover have "credit_entries_total t i = credit_entries_total s i + (if i = cc_id c then cc_amount c else 0)"
    using issue(2-4) by (simp add: ledger_gains_def credit_entries_total_def)
  ultimately show ?thesis by simp
next
  case (draw c a st e)
  have "remaining_of t i = (if i = cc_id c then cc_remaining c - a else remaining_of s i)"
  proof (cases "i = cc_id c")
    case True
    with draw(4) filter_key_single [OF credits_okD(1) [OF assms(2)] draw(1)] show ?thesis
      by (simp add: remaining_of_def first_row_update_where)
  next
    case False
    then have "filter (\<lambda>r. cc_id r = i) (customer_credits t) = filter (\<lambda>r. cc_id r = i) (customer_credits s)"
      unfolding draw(4) by (intro filter_update_where_other) auto
    with False show ?thesis by (simp add: remaining_of_def)
  qed
  moreover have "credit_entries_total t i = credit_entries_total s i + (if i = cc_id c then - a else 0)"
    using draw(5-7) by (simp add: ledger_gains_def credit_entries_total_def)
  ultimately show ?thesis using remaining_of_row [OF assms(2) draw(1)] by simp
next
  case quiet
  then show ?thesis using remaining_of_cong [of t s i] by (simp add: ledger_gains_def credit_entries_total_def)
qed

subsection \<open>The waterfall\<close>

fun shares :: "decimal \<Rightarrow> decimal list \<Rightarrow> decimal list" where
  "shares rest [] = []"
| "shares rest (r # rs) = (let k = max 0 (min rest (two r)) in k # shares (rest - k) rs)"

definition drawn :: "decimal \<Rightarrow> customer_credit list \<Rightarrow> uuid \<Rightarrow> decimal" where
  "drawn rest cs i = sum_list (map snd (filter (\<lambda>p. fst p = i) (zip (map cc_id cs) (shares rest (map cc_remaining cs)))))"

lemma length_shares [simp]: "length (shares rest rs) = length rs"
  by (induction rs arbitrary: rest) (auto simp: Let_def)

lemma shares_nonpos: "rest \<le> 0 \<Longrightarrow> shares rest rs = replicate (length rs) 0"
  by (induction rs) (auto simp: Let_def max_def min_def)

lemma drawn_Nil [simp]: "drawn rest [] i = 0"
  by (simp add: drawn_def)

lemma drawn_Cons:
  "drawn rest (c # cs) i = (let k = max 0 (min rest (two (cc_remaining c))) in
     (if cc_id c = i then k else 0) + drawn (rest - k) cs i)"
  by (simp add: drawn_def Let_def)

lemma drawn_nonpos: "rest \<le> 0 \<Longrightarrow> drawn rest cs i = 0"
  by (induction cs) (auto simp: drawn_Cons Let_def max_def min_def)

lemma shares_nth:
  assumes "j < length rs" and "\<forall>r \<in> set rs. 0 \<le> r"
  shows "shares rest rs ! j = max 0 (min (two (rs ! j)) (rest - sum_list (map two (take j rs))))"
  using assms
proof (induction rs arbitrary: rest j)
  case Nil
  then show ?case by simp
next
  case (Cons r rs)
  show ?case
  proof (cases j)
    case 0
    then show ?thesis by (simp add: Let_def min.commute)
  next
    case (Suc m)
    let ?k = "max 0 (min rest (two r))" and ?S = "sum_list (map two (take m rs))"
    have r: "0 \<le> two r" and S: "0 \<le> ?S"
      using Cons.prems by (auto intro!: two_nonneg sum_list_nonneg dest!: in_set_takeD)
    have "shares rest (r # rs) ! j = max 0 (min (two (rs ! m)) (rest - ?k - ?S))"
      using Cons.IH [of m "rest - ?k"] Cons.prems Suc by (simp add: Let_def)
    also have "\<dots> = max 0 (min (two (rs ! m)) (rest - two r - ?S))"
      using r S by (cases "two r \<le> rest") (auto simp: max_def min_def)
    finally show ?thesis using Suc by (simp add: algebra_simps)
  qed
qed

lemma sum_shares:
  assumes "\<forall>r \<in> set rs. 0 \<le> r" and "0 \<le> rest"
  shows "sum_list (shares rest rs) = min rest (sum_list (map two rs))"
  using assms
proof (induction rs arbitrary: rest)
  case Nil
  then show ?case by simp
next
  case (Cons r rs)
  have r: "0 \<le> two r" and "0 \<le> sum_list (map two rs)"
    using Cons.prems by (auto intro!: two_nonneg sum_list_nonneg)
  with Cons.prems Cons.IH [of "rest - min rest (two r)"] show ?case
    by (auto simp: Let_def max_def min_def)
qed

lemma draw_credit_move:
  assumes "credits_ok s" "c \<in> set (customer_credits s)" "0 < a" "a \<le> cc_remaining c"
  shows "credit_move s (draw_credit s c a customer booking rt rid)"
  using assms credits_okD(4) [OF assms(1)]
  by (intro credit_move.draw [of c s a]) (auto simp: draw_credit_def set_credit_def ledger_gains_def Let_def)

lemma draw_credit_frame [simp]:
  "next_uuid (draw_credit s c a u b rt rid) = next_uuid s"
  "dispute_settlements (draw_credit s c a u b rt rid) = dispute_settlements s"
  "invoices (draw_credit s c a u b rt rid) = invoices s"
  "invoice_credits (draw_credit s c a u b rt rid) = invoice_credits s"
  "legacy_bookings (draw_credit s c a u b rt rid) = legacy_bookings s"
  "tenant_billings (draw_credit s c a u b rt rid) = tenant_billings s"
  "usage_credit_ledger (draw_credit s c a u b rt rid) = usage_credit_ledger s"
  by (simp_all add: draw_credit_def set_credit_def Let_def)

lemma map_draw_credit:
  "(\<And>r x st. g (r\<lparr>cc_remaining := x, cc_status := st\<rparr>) = g r) \<Longrightarrow>
   map g (customer_credits (draw_credit s c a u b rt rid)) = map g (customer_credits s)"
  by (simp add: draw_credit_def set_credit_def Let_def map_update_where_key)

lemma remaining_draw_credit:
  assumes "credits_ok s" "c \<in> set (customer_credits s)"
  shows "remaining_of (draw_credit s c a u b rt rid) i = remaining_of s i - (if i = cc_id c then a else 0)"
proof (cases "i = cc_id c")
  case True
  with filter_key_single [OF credits_okD(1) [OF assms(1)] assms(2)] show ?thesis
    by (simp add: remaining_of_def draw_credit_def set_credit_def Let_def first_row_update_where)
next
  case False
  then have "filter (\<lambda>r. cc_id r = i) (customer_credits (draw_credit s c a u b rt rid)) = filter (\<lambda>r. cc_id r = i) (customer_credits s)"
    by (auto simp: draw_credit_def set_credit_def Let_def intro!: filter_update_where_other)
  with False show ?thesis by (simp add: remaining_of_def)
qed

lemma draw_loop_spec:
  assumes "draw_loop s u b rt rid rest applied cs = (t, ap)" and "credits_ok s" and "distinct (map cc_id cs)"
    and "set cs \<subseteq> set (customer_credits s)"
  shows "credit_move\<^sup>*\<^sup>* s t \<and> ap = applied + sum_list (shares rest (map cc_remaining cs)) \<and>
    (\<forall>i. remaining_of t i = remaining_of s i - drawn rest cs i) \<and>
    (next_uuid t, dispute_settlements t, invoices t, invoice_credits t, legacy_bookings t) =
    (next_uuid s, dispute_settlements s, invoices s, invoice_credits s, legacy_bookings s) \<and>
    (tenant_billings t, usage_credit_ledger t) = (tenant_billings s, usage_credit_ledger s)"
  using assms
proof (induction cs arbitrary: s rest applied)
  case Nil
  then show ?case by simp
next
  case (Cons c cs)
  let ?k = "min rest (two (cc_remaining c))"
  from Cons.prems(2,4) have c: "c \<in> set (customer_credits s)" "0 \<le> cc_remaining c" using credits_okD(2) by auto
  consider "rest \<le> 0" | "0 < rest" "?k \<le> 0" | "0 < rest" "0 < ?k" by linarith
  then show ?case
  proof cases
    case 1
    with Cons.prems(1) show ?thesis by (simp add: shares_nonpos drawn_nonpos sum_list_replicate)
  next
    case 2
    then have "max 0 ?k = 0" by simp
    with 2 Cons.prems(1) Cons.IH [OF _ Cons.prems(2)] Cons.prems(3,4) show ?thesis
      by (simp add: drawn_Cons Let_def)
  next
    case 3
    let ?v = "draw_credit s c ?k u b rt rid"
    have k: "?k \<le> cc_remaining c" using two_le [OF c(2)] by (simp add: min_def split: if_splits)
    from draw_credit_move [OF Cons.prems(2) c(1) 3(2) k] have move: "credit_move s ?v" .
    have d: "distinct (map cc_id cs)" and other: "\<forall>x \<in> set cs. cc_id x \<noteq> cc_id c"
      using Cons.prems(3) by (auto simp: image_iff)
    have "set cs \<subseteq> set (customer_credits ?v)"
      using other Cons.prems(4) by (auto simp: draw_credit_def set_credit_def Let_def set_update_where)
    moreover have "draw_loop ?v u b rt rid (rest - ?k) (applied + ?k) cs = (t, ap)"
      using Cons.prems(1) 3 by (simp add: Let_def)
    ultimately have ih: "credit_move\<^sup>*\<^sup>* ?v t \<and> ap = applied + ?k + sum_list (shares (rest - ?k) (map cc_remaining cs)) \<and>
      (\<forall>i. remaining_of t i = remaining_of ?v i - drawn (rest - ?k) cs i) \<and>
      (next_uuid t, dispute_settlements t, invoices t, invoice_credits t, legacy_bookings t) =
      (next_uuid ?v, dispute_settlements ?v, invoices ?v, invoice_credits ?v, legacy_bookings ?v) \<and>
      (tenant_billings t, usage_credit_ledger t) = (tenant_billings ?v, usage_credit_ledger ?v)"
      using credit_move_ok [OF move Cons.prems(2)] d by (intro Cons.IH)
    have m: "max 0 ?k = ?k" using 3 by simp
    have "credit_move\<^sup>*\<^sup>* s t" using move ih by (blast intro: converse_rtranclp_into_rtranclp)
    moreover have "remaining_of t i = remaining_of s i - drawn rest (c # cs) i" for i
      using ih remaining_draw_credit [OF Cons.prems(2) c(1), of ?k u b rt rid i] m by (simp add: drawn_Cons Let_def)
    ultimately show ?thesis using ih m by (simp add: Let_def)
  qed
qed

text \<open>The order in which the credits are read.\<close>

definition expires_no_later :: "customer_credit \<Rightarrow> customer_credit \<Rightarrow> bool" where
  "expires_no_later a b \<longleftrightarrow> (case (cc_expires_at a, cc_expires_at b) of
     (_, None) \<Rightarrow> True | (None, Some _) \<Rightarrow> False | (Some x, Some y) \<Rightarrow> x \<le> y)"

lemma set_live_credits: "set (live_credits s u now) = {c \<in> set (customer_credits s). live_credit u now c}"
  by (auto simp: live_credits_def Let_def)

lemma distinct_live_credits:
  assumes "credits_ok s"
  shows "distinct (map cc_id (live_credits s u now))"
proof -
  from credits_okD(1) [OF assms] have d: "distinct (customer_credits s)" and inj: "inj_on cc_id (set (customer_credits s))"
    by (simp_all add: distinct_map)
  from d have "distinct (live_credits s u now)" by (auto simp: live_credits_def Let_def)
  moreover from inj have "inj_on cc_id (set (live_credits s u now))"
    by (rule inj_on_subset) (auto simp: set_live_credits)
  ultimately show ?thesis by (simp add: distinct_map)
qed

lemma sorted_never_expiring: "(\<And>c. c \<in> set cs \<Longrightarrow> cc_expires_at c = None) \<Longrightarrow> sorted_wrt expires_no_later cs"
  by (induction cs) (auto simp: expires_no_later_def split: option.split)

lemma sorted_live_credits: "sorted_wrt expires_no_later (live_credits s u now)"
proof -
  let ?xs = "filter (\<lambda>c. cc_expires_at c \<noteq> None) (filter (live_credit u now) (customer_credits s))"
  have "sorted_wrt (\<lambda>a b. the (cc_expires_at a) \<le> the (cc_expires_at b)) (sort_key (\<lambda>c. the (cc_expires_at c)) ?xs)"
    using sorted_sort_key [of "\<lambda>c. the (cc_expires_at c)" ?xs] by (simp add: sorted_wrt_map)
  then have "sorted_wrt expires_no_later (sort_key (\<lambda>c. the (cc_expires_at c)) ?xs)"
    by (rule sorted_wrt_mono_rel [rotated]) (auto simp: expires_no_later_def)
  moreover have "sorted_wrt expires_no_later (filter (\<lambda>c. cc_expires_at c = None) (filter (live_credit u now) (customer_credits s)))"
    by (rule sorted_never_expiring) simp
  ultimately show ?thesis
    by (auto simp: live_credits_def Let_def sorted_wrt_append expires_no_later_def split: option.split)
qed

lemma consume_spec:
  assumes "consume_credits s u amount b rt rid now = (t, applied, left)" and "credits_ok s"
  shows "credit_move\<^sup>*\<^sup>* s t"
    and "applied = sum_list (shares (two amount) (map cc_remaining (live_credits s u now)))"
    and "remaining_of t i = remaining_of s i - drawn (two amount) (live_credits s u now) i"
    and "(next_uuid t, dispute_settlements t, invoices t, invoice_credits t, legacy_bookings t) =
      (next_uuid s, dispute_settlements s, invoices s, invoice_credits s, legacy_bookings s)"
    and "(tenant_billings t, usage_credit_ledger t) = (tenant_billings s, usage_credit_ledger s)"
proof -
  have "draw_loop s u b rt rid (two amount) 0 (live_credits s u now) = (t, applied)"
    using assms(1) by (auto simp: consume_credits_def Let_def split: prod.splits)
  from draw_loop_spec [OF this assms(2) distinct_live_credits [OF assms(2)]]
  show "credit_move\<^sup>*\<^sup>* s t"
    and "applied = sum_list (shares (two amount) (map cc_remaining (live_credits s u now)))"
    and "remaining_of t i = remaining_of s i - drawn (two amount) (live_credits s u now) i"
    and "(next_uuid t, dispute_settlements t, invoices t, invoice_credits t, legacy_bookings t) =
      (next_uuid s, dispute_settlements s, invoices s, invoice_credits s, legacy_bookings s)"
    and "(tenant_billings t, usage_credit_ledger t) = (tenant_billings s, usage_credit_ledger s)"
    by (auto simp: set_live_credits)
qed

lemma sum_zip_key:
  "distinct ks \<Longrightarrow> length vs = length ks \<Longrightarrow> j < length ks \<Longrightarrow>
   sum_list (map snd (filter (\<lambda>p. fst p = ks ! j) (zip ks vs))) = (vs ! j :: decimal)"
proof (induction ks arbitrary: vs j)
  case Nil
  then show ?case by simp
next
  case (Cons k ks)
  then obtain v ws where vs: "vs = v # ws" by (cases vs) auto
  show ?case
  proof (cases j)
    case 0
    have "filter (\<lambda>p. fst p = k) (zip ks ws) = []"
      using Cons.prems(1) by (auto simp: filter_empty_conv dest: set_zip_leftD)
    with 0 vs show ?thesis by simp
  next
    case (Suc m)
    with Cons vs show ?thesis by (auto simp: nth_mem)
  qed
qed

lemma drawn_nth:
  "distinct (map cc_id cs) \<Longrightarrow> j < length cs \<Longrightarrow> drawn rest cs (cc_id (cs ! j)) = shares rest (map cc_remaining cs) ! j"
  using sum_zip_key [of "map cc_id cs" "shares rest (map cc_remaining cs)" j] by (simp add: drawn_def)

lemma drawn_other: "i \<notin> cc_id ` set cs \<Longrightarrow> drawn rest cs i = 0"
  unfolding drawn_def by (subst filter_False) (auto dest: set_zip_leftD)

lemma cents_sum: "(\<And>x. x \<in> set xs \<Longrightarrow> cents x) \<Longrightarrow> cents (sum_list xs)"
  by (induction xs) auto

lemma cents_shares: "cents rest \<Longrightarrow> x \<in> set (shares rest rs) \<Longrightarrow> cents x"
proof (induction rs arbitrary: rest)
  case Nil
  then show ?case by simp
next
  case (Cons r rs)
  have "cents (max 0 (min rest (two r)))" using Cons.prems(1) by (simp add: max_def)
  with Cons.prems(1) have "cents (rest - max 0 (min rest (two r)))" by simp
  with Cons.IH Cons.prems(2) \<open>cents (max 0 (min rest (two r)))\<close> show ?case by (auto simp: Let_def)
qed

lemma consume_applied:
  assumes "consume_credits s u amount b rt rid now = (t, applied, left)" and "credits_ok s" and "0 \<le> amount"
  shows "applied = min (two amount) (sum_list (map (\<lambda>c. two (cc_remaining c)) (live_credits s u now)))" and "cents applied"
proof -
  have "\<forall>r \<in> set (map cc_remaining (live_credits s u now)). 0 \<le> r"
    using credits_okD(2) [OF assms(2)] by (auto simp: set_live_credits)
  from sum_shares [OF this two_nonneg [OF assms(3)]] consume_spec(2) [OF assms(1,2)]
  show "applied = min (two amount) (sum_list (map (\<lambda>c. two (cc_remaining c)) (live_credits s u now)))"
    by (simp add: comp_def)
  then show "cents applied" by (auto intro!: cents_min cents_sum)
qed

subsection \<open>What each operation does\<close>

interpretation credit_moves: solvent_ledger credits_ok remaining_of credit_entries_total credit_move
  by unfold_locales (blast intro: credit_move_ok credit_move_moves remaining_of_nonneg)+

lemma insert_usage_entry_Inr:
  assumes "insert_usage_entry s e = Inr t"
  shows "customer_credits t = customer_credits s" "customer_credit_ledger t = customer_credit_ledger s"
    "dispute_settlements t = dispute_settlements s" "invoice_credits t = invoice_credits s" "invoices t = invoices s"
    "next_uuid t = Suc (next_uuid s)"
  using assms by (auto simp: insert_usage_entry_def write_entry_def split: if_splits)

lemma grant_credit_simps [simp]:
  "customer_credits (grant_credit s c bk rt rid) = customer_credits s @ [c]"
  "next_uuid (grant_credit s c bk rt rid) = Suc (next_uuid s)"
  "dispute_settlements (grant_credit s c bk rt rid) = dispute_settlements s"
  "invoice_credits (grant_credit s c bk rt rid) = invoice_credits s"
  "invoices (grant_credit s c bk rt rid) = invoices s"
  by (simp_all add: grant_credit_def)

lemma grant_credit_entry:
  "\<exists>e. customer_credit_ledger (grant_credit s c bk rt rid) = customer_credit_ledger s @ [e] \<and> ce_credit_id e = cc_id c \<and>
     ce_amount e = cc_amount c \<and> ce_type e = ''issued'' \<and> ce_reference_type e = Some rt \<and> ce_reference_id e = rid"
  by (simp add: grant_credit_def)

text \<open>A state gains one credit: what the three issuing operations have in common.\<close>

definition credit_granted :: "'a remedy_db_scheme \<Rightarrow> 'a remedy_db_scheme \<Rightarrow> customer_credit \<Rightarrow> string \<Rightarrow> uuid option \<Rightarrow> bool" where
  "credit_granted s t c rt rid \<longleftrightarrow> customer_credits t = customer_credits s @ [c] \<and>
     (\<exists>e. customer_credit_ledger t = customer_credit_ledger s @ [e] \<and> ce_credit_id e = cc_id c \<and> ce_amount e = cc_amount c \<and>
        ce_type e = ''issued'' \<and> ce_reference_type e = Some rt \<and> ce_reference_id e = rid) \<and>
     next_uuid s \<le> cc_id c \<and> cc_id c < next_uuid t \<and> cc_remaining c = cc_amount c \<and> invoice_credits t = invoice_credits s"

lemma credit_granted_move:
  assumes "credit_granted s t c rt rid" "credits_ok s" "0 \<le> cc_amount c"
    and "\<And>x. x \<in> set (dispute_settlements t) \<Longrightarrow> ds_id x < next_uuid t \<and> 0 \<le> ds_amount x"
  shows "credit_move s t"
proof -
  obtain e where e: "customer_credit_ledger t = customer_credit_ledger s @ [e]" "ce_credit_id e = cc_id c" "ce_amount e = cc_amount c"
    using assms(1) by (auto simp: credit_granted_def)
  from assms e show ?thesis by (intro credit_move.issue [of t s c e]) (auto simp: credit_granted_def ledger_gains_def)
qed

lemma issue_provider_funded_cases:
  assumes "issue_provider_funded_customer_credit s rq now = Inr (t, r)"
  obtains (replay) e where "issued_for s (rq_reference_type rq) (rq_reference_id rq) = Some e" "t = s"
      "rr_provider_credit_deducted r = 0" "rr_idempotent_replay r"
  | (issued) c where "issued_for s (rq_reference_type rq) (rq_reference_id rq) = None" "rr_credit r = Some c"
      "credit_granted s t c (rq_reference_type rq) (Some (rq_reference_id rq))" "0 < cc_amount c" "cc_amount c = two (rq_amount rq)"
      "cc_dispute_id c = None" "cc_settlement_id c = None" "dispute_settlements t = dispute_settlements s" "\<not> rr_idempotent_replay r"
proof (cases "issued_for s (rq_reference_type rq) (rq_reference_id rq)")
  case (Some e)
  then show thesis using assms by (intro replay) (auto simp: issue_provider_funded_customer_credit_def Let_def split: if_splits)
next
  case None
  from assms None obtain s1 where pos: "0 < two (rq_amount rq)"
    and s1: "(case first_row (billings_of s (rq_tenant_id rq)) of None \<Rightarrow> Inr s
       | Some b \<Rightarrow> insert_usage_entry s (remedy_entry s rq (two (tb_credit_balance b)) (two (rq_amount rq)))) = Inr s1"
    and t: "\<exists>c. t = grant_credit s1 c (rq_booking_id rq) (rq_reference_type rq) (Some (rq_reference_id rq)) \<and> rr_credit r = Some c \<and>
      cc_id c = next_uuid s1 \<and> cc_amount c = two (rq_amount rq) \<and> cc_remaining c = two (rq_amount rq) \<and>
      cc_dispute_id c = None \<and> cc_settlement_id c = None \<and> \<not> rr_idempotent_replay r"
    unfolding issue_provider_funded_customer_credit_def Let_def by (auto elim!: bind_InrE split: if_split_asm)
  have fr: "customer_credits s1 = customer_credits s" "customer_credit_ledger s1 = customer_credit_ledger s"
    "dispute_settlements s1 = dispute_settlements s" "invoice_credits s1 = invoice_credits s" "next_uuid s \<le> next_uuid s1"
    using s1 insert_usage_entry_Inr [of s _ s1] by (auto split: option.splits)
  from t obtain c where c: "t = grant_credit s1 c (rq_booking_id rq) (rq_reference_type rq) (Some (rq_reference_id rq))"
    "rr_credit r = Some c" "cc_id c = next_uuid s1" "cc_amount c = two (rq_amount rq)" "cc_remaining c = two (rq_amount rq)"
    "cc_dispute_id c = None" "cc_settlement_id c = None" "\<not> rr_idempotent_replay r" by blast
  then have "credit_granted s t c (rq_reference_type rq) (Some (rq_reference_id rq))"
    using fr grant_credit_entry [of s1 c "rq_booking_id rq" "rq_reference_type rq" "Some (rq_reference_id rq)"]
    by (auto simp: credit_granted_def)
  with c fr pos None show thesis by (intro issued [of c]) auto
qed

lemma issue_credit_manual_cases:
  assumes "issue_credit_manual s u amount ty validity now = Inr (t, c)"
  shows "credit_granted s t c ''admin_manual'' None \<and> 0 < cc_amount c \<and> cc_dispute_id c = None \<and> cc_settlement_id c = None \<and>
    dispute_settlements t = dispute_settlements s"
proof -
  from assms have t: "t = grant_credit s c None ''admin_manual'' None" and c: "cc_id c = next_uuid s" "cc_remaining c = cc_amount c"
      "0 < cc_amount c" "cc_dispute_id c = None" "cc_settlement_id c = None"
    by (auto simp: issue_credit_manual_def Let_def split: if_splits)
  with grant_credit_entry [of s c None "''admin_manual''" None] show ?thesis by (auto simp: credit_granted_def)
qed

lemma get_settlement_Inr:
  "get_settlement s sid = Inr x \<Longrightarrow> x \<in> set (dispute_settlements s) \<and> ds_id x = sid"
  by (auto simp: get_settlement_def res_simps dest!: first_row_Some_set)

text \<open>A change of a settlement row that keeps what it settles.\<close>

definition settles_to :: "settlement_status \<Rightarrow> (dispute_settlement \<Rightarrow> dispute_settlement) \<Rightarrow> bool" where
  "settles_to st f \<longleftrightarrow> (\<forall>x. ds_id (f x) = ds_id x \<and> ds_dispute_id (f x) = ds_dispute_id x \<and> ds_amount (f x) = ds_amount x \<and> ds_status (f x) = st)"

definition keeps_settlement :: "(dispute_settlement \<Rightarrow> dispute_settlement) \<Rightarrow> bool" where
  "keeps_settlement f \<longleftrightarrow> (\<forall>x. ds_id (f x) = ds_id x \<and> ds_dispute_id (f x) = ds_dispute_id x \<and> ds_amount (f x) = ds_amount x)"

lemma settlement_debit_Inr:
  assumes "settlement_debit s x deduct actor role req = Inr t"
  shows "customer_credits t = customer_credits s \<and> customer_credit_ledger t = customer_credit_ledger s \<and>
    invoice_credits t = invoice_credits s \<and> next_uuid s \<le> next_uuid t \<and>
    (\<exists>h. keeps_settlement h \<and> dispute_settlements t = update_where (\<lambda>y. ds_id y = ds_id x) h (dispute_settlements s))"
proof -
  have none: "\<exists>h. keeps_settlement h \<and> dispute_settlements s = update_where (\<lambda>y. ds_id y = ds_id x) h (dispute_settlements s)"
    by (rule exI [of _ "\<lambda>y. y"]) (simp add: keeps_settlement_def update_where_def)
  from assms consider "t = s" | e s1 where "insert_usage_entry s e = Inr s1"
      "t = set_settlement s1 (ds_id x) (\<lambda>x. x\<lparr>ds_wallet_deduction := deduct\<rparr>)"
    unfolding settlement_debit_def Let_def by (auto elim!: bind_InrE split: if_split_asm option.split_asm)
  then show ?thesis
  proof cases
    case 1
    with none show ?thesis by simp
  next
    case 2
    have "keeps_settlement (\<lambda>x. x\<lparr>ds_wallet_deduction := deduct\<rparr>)" by (simp add: keeps_settlement_def)
    with 2(2) insert_usage_entry_Inr [OF 2(1)] show ?thesis by (auto simp: set_settlement_def)
  qed
qed

lemma close_settlement_simps [simp]:
  "customer_credits (close_settlement s x i d g) = customer_credits s"
  "customer_credit_ledger (close_settlement s x i d g) = customer_credit_ledger s"
  "invoice_credits (close_settlement s x i d g) = invoice_credits s"
  "next_uuid (close_settlement s x i d g) = Suc (next_uuid s)"
  by (simp_all add: close_settlement_def set_settlement_def Let_def)

lemma close_settlement_rows:
  "\<exists>f. settles_to DS_EXECUTED f \<and>
     dispute_settlements (close_settlement s x i d g) = update_where (\<lambda>y. ds_id y = ds_id x) f (dispute_settlements s)"
  by (rule exI [of _ "\<lambda>r. r\<lparr>ds_goodwill := g, ds_credit_id := Some i, ds_penalty_id := Some (next_uuid s), ds_status := DS_EXECUTED\<rparr>"])
    (simp add: close_settlement_def set_settlement_def Let_def settles_to_def)

lemma execute_settlement_cases:
  assumes "execute_settlement s sid actor role req now = Inr t"
  obtains x c f where "get_settlement s sid = Inr x" "ds_status x = DS_APPROVED" "credit_granted s t c ''dispute_settlement'' (Some sid)"
    "cc_amount c = ds_amount x" "cc_dispute_id c = Some (ds_dispute_id x)" "cc_settlement_id c = Some sid"
    "dispute_settlements t = update_where (\<lambda>x. ds_id x = sid) f (dispute_settlements s)" "settles_to DS_EXECUTED f"
    "next_uuid s \<le> next_uuid t"
proof -
  from assms obtain x and preview :: deduction_preview and s1 where x: "get_settlement s sid = Inr x" "ds_status x = DS_APPROVED"
    and s1: "settlement_debit s x (two (dp_wallet_deduction preview)) actor role req = Inr s1"
    and t: "t = close_settlement (grant_credit s1 (settlement_credit x (next_uuid s1) now) None ''dispute_settlement'' (Some sid)) x
      (cc_id (settlement_credit x (next_uuid s1) now)) (two (dp_wallet_deduction preview)) (two (dp_goodwill preview))"
    unfolding execute_settlement_def Let_def by (auto elim!: bind_InrE split: if_split_asm)
  let ?c = "settlement_credit x (next_uuid s1) now"
  have id: "ds_id x = sid" using get_settlement_Inr [OF x(1)] by simp
  note d = settlement_debit_Inr [OF s1]
  then obtain h where h: "keeps_settlement h" "dispute_settlements s1 = update_where (\<lambda>y. ds_id y = sid) h (dispute_settlements s)"
    using id by auto
  obtain f where f: "settles_to DS_EXECUTED f" "dispute_settlements t = update_where (\<lambda>y. ds_id y = sid) f (dispute_settlements s1)"
    using close_settlement_rows [of "grant_credit s1 ?c None ''dispute_settlement'' (Some sid)" x] t id by force
  have "dispute_settlements t = update_where (\<lambda>y. ds_id y = sid) (\<lambda>y. f (h y)) (dispute_settlements s)"
    unfolding f(2) h(2) using h(1) by (intro update_where_twice) (simp add: keeps_settlement_def)
  moreover have "settles_to DS_EXECUTED (\<lambda>y. f (h y))" using f(1) h(1) by (simp add: settles_to_def keeps_settlement_def)
  moreover have "credit_granted s t ?c ''dispute_settlement'' (Some sid)"
    using d t grant_credit_entry [of s1 ?c None "''dispute_settlement''" "Some sid"]
    by (auto simp: credit_granted_def settlement_credit_def)
  ultimately show thesis using x d t id by (intro that [of x ?c]) (auto simp: settlement_credit_def)
qed

lemma create_settlement_Inr:
  assumes "create_settlement s d ty strategy amount = Inr (t, x)"
  shows "dispute_settlements t = dispute_settlements s @ [x] \<and> ds_id x = next_uuid s \<and> ds_status x = DS_DRAFT \<and> 0 \<le> ds_amount x \<and>
    ds_dispute_id x = d \<and> filter (\<lambda>x. ds_dispute_id x = d \<and> ds_status x \<notin> {DS_CANCELLED, DS_REVERSED}) (dispute_settlements s) = [] \<and>
    customer_credits t = customer_credits s \<and> customer_credit_ledger t = customer_credit_ledger s \<and>
    invoice_credits t = invoice_credits s \<and> next_uuid t = Suc (next_uuid s)"
  using assms unfolding create_settlement_def Let_def by (auto elim!: bind_InrE split: if_split_asm)

text \<open>The moves of a settlement row.\<close>

definition settlement_moved :: "'a remedy_db_scheme \<Rightarrow> 'a remedy_db_scheme \<Rightarrow> uuid \<Rightarrow> settlement_status set \<Rightarrow> settlement_status \<Rightarrow> bool" where
  "settlement_moved s t sid from st \<longleftrightarrow> (\<exists>x f. x \<in> set (dispute_settlements s) \<and> ds_id x = sid \<and> ds_status x \<in> from \<and> settles_to st f \<and>
     dispute_settlements t = update_where (\<lambda>y. ds_id y = sid) f (dispute_settlements s))"

lemma settlement_movedI:
  "get_settlement s sid = Inr x \<Longrightarrow> ds_status x \<in> from \<Longrightarrow> settlement_moved s (set_settlement s sid (\<lambda>x. x\<lparr>ds_status := st\<rparr>)) sid from st"
  unfolding settlement_moved_def
  by (rule exI [of _ x], rule exI [of _ "\<lambda>x. x\<lparr>ds_status := st\<rparr>"]) (simp add: settles_to_def set_settlement_def get_settlement_Inr)

lemma approve_settlement_Inr:
  assumes "approve_settlement s sid = Inr t"
  shows "settlement_moved s t sid {DS_DRAFT, DS_PENDING_APPROVAL} DS_APPROVED" and "\<exists>f. t = set_settlement s sid f"
  using assms unfolding approve_settlement_def by (auto elim!: bind_InrE split: if_split_asm intro!: settlement_movedI)

lemma cancel_settlement_Inr:
  assumes "cancel_settlement s sid = Inr t"
  shows "settlement_moved s t sid (- {DS_EXECUTED}) DS_CANCELLED" and "\<exists>f. t = set_settlement s sid f"
  using assms unfolding cancel_settlement_def by (auto elim!: bind_InrE split: if_split_asm intro!: settlement_movedI)

lemma settlement_moved_rows:
  assumes "settlement_moved s t sid from st" and "credits_ok s" and "next_uuid s \<le> next_uuid t" and "x \<in> set (dispute_settlements t)"
  shows "ds_id x < next_uuid t \<and> 0 \<le> ds_amount x"
proof -
  from assms(1) obtain f where f: "settles_to st f" "dispute_settlements t = update_where (\<lambda>y. ds_id y = sid) f (dispute_settlements s)"
    by (auto simp: settlement_moved_def)
  with assms(4) obtain y where "y \<in> set (dispute_settlements s)" "x = y \<or> x = f y" by (auto simp: set_update_where)
  with credits_okD(4) [OF assms(2), of y] f(1) assms(3) show ?thesis by (auto simp: settles_to_def)
qed

text \<open>What an update of a credit that keeps its amounts does.\<close>

lemma set_credit_quiet:
  assumes "\<And>c. cc_id (f c) = cc_id c \<and> cc_remaining (f c) = cc_remaining c \<and> cc_amount (f c) = cc_amount c" and "credits_ok s"
  shows "credit_move s (set_credit s i f)"
proof (rule credit_move.quiet)
  have "(cc_id (f c), cc_remaining (f c), cc_amount (f c)) = (cc_id c, cc_remaining c, cc_amount c)" for c
    using assms(1) [of c] by blast
  then have "map (\<lambda>c. (cc_id c, cc_remaining c, cc_amount c)) (update_where (\<lambda>c. cc_id c = i) f (customer_credits s)) =
      map (\<lambda>c. (cc_id c, cc_remaining c, cc_amount c)) (customer_credits s)"
    by (rule map_update_where_key)
  then show "rows_of_credits (set_credit s i f) = rows_of_credits s"
    unfolding rows_of_credits_def set_credit_def by simp
qed (use credits_okD(4) [OF assms(2)] in \<open>auto simp: set_credit_def ledger_gains_def\<close>)

lemma cancel_credit_Inr: "cancel_credit s i = Inr t \<Longrightarrow> t = set_credit s i (\<lambda>c. c\<lparr>cc_status := CS_CANCELLED\<rparr>)"
  unfolding cancel_credit_def by (auto elim!: bind_InrE split: if_split_asm)

lemma extend_credit_expiry_Inr: "extend_credit_expiry s i e = Inr t \<Longrightarrow> t = set_credit s i (\<lambda>c. c\<lparr>cc_expires_at := Some e\<rparr>)"
  unfolding extend_credit_expiry_def by (auto elim!: bind_InrE split: if_split_asm)

lemma draw_loop_map:
  assumes "\<And>r x st. g (r\<lparr>cc_remaining := x, cc_status := st\<rparr>) = g r"
  shows "map g (customer_credits (fst (draw_loop s u b rt rid rest applied cs))) = map g (customer_credits s)"
  by (induction s u b rt rid rest applied cs rule: draw_loop.induct) (simp_all add: Let_def map_draw_credit [OF assms])

lemma consume_map:
  assumes "consume_credits s u amount b rt rid now = (t, applied, left)"
  shows "map (\<lambda>c. (cc_dispute_id c, cc_amount c)) (customer_credits t) = map (\<lambda>c. (cc_dispute_id c, cc_amount c)) (customer_credits s)"
  using assms draw_loop_map [of "\<lambda>c. (cc_dispute_id c, cc_amount c)" s u b rt rid "two amount" 0 "live_credits s u now"]
  by (auto simp: consume_credits_def Let_def split: prod.splits)

lemma apply_credit_to_booking_Inr:
  assumes "apply_credit_to_booking s u bid amount now = Inr (v, out)"
  obtains t left where "consume_credits s u amount (Some bid) ''booking'' bid now = (t, ca_applied out, left)"
    "v = t\<lparr>legacy_bookings := legacy_bookings v\<rparr>" "0 < amount"
proof -
  obtain t a left where c: "consume_credits s u amount (Some bid) ''booking'' bid now = (t, a, left)"
    by (cases "consume_credits s u amount (Some bid) ''booking'' bid now") auto
  from assms have "0 < amount \<and> ca_applied out = a \<and> v = t\<lparr>legacy_bookings := legacy_bookings v\<rparr>"
    unfolding apply_credit_to_booking_def Let_def c
    by (auto elim!: bind_InrE split: if_split_asm)
  with c that show thesis by blast
qed

lemma apply_credit_to_invoice_Inr:
  assumes "apply_credit_to_invoice s u iid amount now = Inr (v, out)"
  obtains t left inv where "consume_credits s u (two amount) None ''invoice'' iid now = (t, ca_applied out, left)"
    "v = t\<lparr>invoice_credits := (iid, ca_applied out) # filter (\<lambda>r. fst r \<noteq> iid) (invoice_credits t),
           invoices := update_where (\<lambda>i. in_id i = iid) (\<lambda>i. i\<lparr>in_totals := (in_totals i)\<lparr>it_payable := ca_payable out\<rparr>\<rparr>) (invoices t)\<rparr>"
    "two (invoice_credit s iid) \<le> 0" "0 < two amount" "two amount \<le> ca_original out" "filter (\<lambda>i. in_id i = iid) (invoices s) = [inv]"
    "ca_original out = two (it_payable (in_totals inv))" "ca_payable out = two (ca_original out - ca_applied out)" "in_customer_id inv = u"
proof -
  obtain t a left where c: "consume_credits s u (two amount) None ''invoice'' iid now = (t, a, left)"
    by (cases "consume_credits s u (two amount) None ''invoice'' iid now") auto
  from assms obtain inv where "one_or_none (filter (\<lambda>i. in_id i = iid) (invoices s)) = Inr (Some inv)"
    and r: "two (invoice_credit s iid) \<le> 0" "0 < two amount" "two amount \<le> two (it_payable (in_totals inv))" "in_customer_id inv = u"
      "out = \<lparr>ca_original = two (it_payable (in_totals inv)), ca_applied = a, ca_payable = two (two (it_payable (in_totals inv)) - a), ca_balance = left\<rparr>"
      "v = t\<lparr>invoice_credits := (iid, a) # filter (\<lambda>r. fst r \<noteq> iid) (invoice_credits t),
         invoices := update_where (\<lambda>i. in_id i = iid) (\<lambda>i. i\<lparr>in_totals := (in_totals i)\<lparr>it_payable := two (two (it_payable (in_totals inv)) - a)\<rparr>\<rparr>) (invoices t)\<rparr>"
    unfolding apply_credit_to_invoice_def Let_def c
    by (auto elim!: bind_InrE simp: require_Inr split: if_split_asm)
  then have "filter (\<lambda>i. in_id i = iid) (invoices s) = [inv]" by (simp add: table_simps)
  with c r show thesis by (intro that [of t left inv]) simp_all
qed

subsection \<open>The remedies of a customer over time\<close>

text \<open>
  What can happen to credits and settlements: the operations by any actor with any arguments, and calls of other
  components that leave these tables alone.
\<close>

inductive remedy_step :: "'a remedy_db_scheme \<Rightarrow> 'a remedy_db_scheme \<Rightarrow> bool" where
  provider_funded: "issue_provider_funded_customer_credit s rq now = Inr (t, r) \<Longrightarrow> remedy_step s t"
| manual: "issue_credit_manual s u amount ty validity now = Inr (t, c) \<Longrightarrow> remedy_step s t"
| create: "create_settlement s d ty strategy amount = Inr (t, x) \<Longrightarrow> remedy_step s t"
| approve: "approve_settlement s sid = Inr t \<Longrightarrow> remedy_step s t"
| execute: "execute_settlement s sid actor role req now = Inr t \<Longrightarrow> remedy_step s t"
| cancel: "cancel_settlement s sid = Inr t \<Longrightarrow> remedy_step s t"
| cancel_credit: "cancel_credit s i = Inr t \<Longrightarrow> remedy_step s t"
| extend: "extend_credit_expiry s i e = Inr t \<Longrightarrow> remedy_step s t"
| booking: "apply_credit_to_booking s u bid amount now = Inr (t, out) \<Longrightarrow> remedy_step s t"
| invoice: "apply_credit_to_invoice s u iid amount now = Inr (t, out) \<Longrightarrow> remedy_step s t"
| elsewhere: "customer_credits t = customer_credits s \<Longrightarrow> customer_credit_ledger t = customer_credit_ledger s \<Longrightarrow>
    dispute_settlements t = dispute_settlements s \<Longrightarrow> invoice_credits t = invoice_credits s \<Longrightarrow> next_uuid s \<le> next_uuid t \<Longrightarrow>
    remedy_step s t"

lemma credit_move_same:
  assumes "customer_credits t = customer_credits s" "customer_credit_ledger t = customer_credit_ledger s" "next_uuid s \<le> next_uuid t"
    and "\<And>x. x \<in> set (dispute_settlements t) \<Longrightarrow> ds_id x < next_uuid t \<and> 0 \<le> ds_amount x"
  shows "credit_move s t"
  using assms by (intro credit_move.quiet) (auto simp: rows_of_credits_def ledger_gains_def)

lemma set_settlement_frame [simp]:
  "customer_credits (set_settlement s sid f) = customer_credits s"
  "customer_credit_ledger (set_settlement s sid f) = customer_credit_ledger s"
  "invoice_credits (set_settlement s sid f) = invoice_credits s"
  "next_uuid (set_settlement s sid f) = next_uuid s"
  by (simp_all add: set_settlement_def)

lemma execute_settlement_rows:
  assumes "execute_settlement s sid actor role req now = Inr t"
  shows "settlement_moved s t sid {DS_APPROVED} DS_EXECUTED"
  using assms
proof (cases rule: execute_settlement_cases)
  case (1 x c f)
  with get_settlement_Inr [OF 1(1)] show ?thesis by (auto simp: settlement_moved_def)
qed

lemma remedy_step_moves:
  assumes "remedy_step s t" "credits_ok s"
  shows "credit_move\<^sup>*\<^sup>* s t"
  using assms(1)
proof cases
  case (provider_funded rq now r)
  then show ?thesis
  proof (cases rule: issue_provider_funded_cases)
    case (issued c)
    then have "credit_move s t"
      using credits_okD(4) [OF assms(2)]
      by (intro credit_granted_move [OF issued(3) assms(2)]) (fastforce simp: credit_granted_def)+
    then show ?thesis by blast
  qed simp
next
  case (manual u amount ty validity now c)
  note m = issue_credit_manual_cases [OF manual]
  then have "credit_move s t"
    using credits_okD(4) [OF assms(2)]
    by (intro credit_granted_move [of s t c "''admin_manual''" None, OF _ assms(2)]) (fastforce simp: credit_granted_def)+
  then show ?thesis by blast
next
  case (create d ty strategy amount x)
  from create_settlement_Inr [OF create] have "credit_move s t"
    using credits_okD(4) [OF assms(2)] by (intro credit_move_same) (fastforce simp: less_Suc_eq)+
  then show ?thesis by blast
next
  case (approve sid)
  with approve_settlement_Inr [OF approve] settlement_moved_rows [OF approve_settlement_Inr(1) [OF approve] assms(2)]
  have "credit_move s t" by (intro credit_move_same) auto
  then show ?thesis by blast
next
  case (execute sid actor role req now)
  then show ?thesis
  proof (cases rule: execute_settlement_cases)
    case (1 x c f)
    with settlement_moved_rows [OF execute_settlement_rows [OF execute] assms(2)] credits_okD(4) [OF assms(2), of x] get_settlement_Inr [OF 1(1)]
    have "credit_move s t" by (intro credit_granted_move [OF 1(3) assms(2)]) auto
    then show ?thesis by blast
  qed
next
  case (cancel sid)
  with cancel_settlement_Inr [OF cancel] settlement_moved_rows [OF cancel_settlement_Inr(1) [OF cancel] assms(2)]
  have "credit_move s t" by (intro credit_move_same) auto
  then show ?thesis by blast
next
  case (cancel_credit i)
  then show ?thesis using set_credit_quiet [OF _ assms(2), of "\<lambda>c. c\<lparr>cc_status := CS_CANCELLED\<rparr>" i]
    by (auto dest!: cancel_credit_Inr)
next
  case (extend i e)
  then show ?thesis using set_credit_quiet [OF _ assms(2), of "\<lambda>c. c\<lparr>cc_expires_at := Some e\<rparr>" i]
    by (auto dest!: extend_credit_expiry_Inr)
next
  case (booking u bid amount now out)
  then show ?thesis
  proof (rule apply_credit_to_booking_Inr)
    fix v left
    assume c: "consume_credits s u amount (Some bid) ''booking'' bid now = (v, ca_applied out, left)" and v: "t = v\<lparr>legacy_bookings := legacy_bookings t\<rparr>"
    note r = consume_spec [OF c assms(2)]
    have "credits_ok v" using credit_moves.run_inv r(1) assms(2) by blast
    then have "credit_move v t" by (subst v, intro credit_move_same) (auto dest: credits_okD(4))
    with r(1) show ?thesis by (rule rtranclp.rtrancl_into_rtrancl)
  qed
next
  case (invoice u iid amount now out)
  then show ?thesis
  proof (rule apply_credit_to_invoice_Inr)
    fix v left inv
    assume c: "consume_credits s u (two amount) None ''invoice'' iid now = (v, ca_applied out, left)"
      and v: "t = v\<lparr>invoice_credits := (iid, ca_applied out) # filter (\<lambda>r. fst r \<noteq> iid) (invoice_credits v),
           invoices := update_where (\<lambda>i. in_id i = iid) (\<lambda>i. i\<lparr>in_totals := (in_totals i)\<lparr>it_payable := ca_payable out\<rparr>\<rparr>) (invoices v)\<rparr>"
    note r = consume_spec [OF c assms(2)]
    have "credits_ok v" using credit_moves.run_inv r(1) assms(2) by blast
    with v have "credit_move v t" by (intro credit_move_same) (auto dest: credits_okD(4))
    with r(1) show ?thesis by (rule rtranclp.rtrancl_into_rtrancl)
  qed
next
  case elsewhere
  then have "credit_move s t" using credits_okD(4) [OF assms(2)] by (intro credit_move_same) fastforce+
  then show ?thesis by blast
qed

lemma remedy_run_moves: "remedy_step\<^sup>*\<^sup>* s t \<Longrightarrow> credits_ok s \<Longrightarrow> credit_move\<^sup>*\<^sup>* s t"
proof (induction rule: rtranclp_induct)
  case base
  show ?case by simp
next
  case (step t u)
  with credit_moves.run_inv have "credits_ok t" by blast
  with step remedy_step_moves [of t u] show ?case by (auto intro: rtranclp_trans)
qed

lemma remedy_run_ok: "remedy_step\<^sup>*\<^sup>* s t \<Longrightarrow> credits_ok s \<Longrightarrow> credits_ok t"
  using remedy_run_moves credit_moves.run_inv by blast

lemma remedy_step_appends:
  assumes "remedy_step s t" "credits_ok s"
  shows "\<exists>es. customer_credit_ledger t = customer_credit_ledger s @ es"
proof -
  have "\<exists>es. customer_credit_ledger t = customer_credit_ledger s @ es" if "credit_move\<^sup>*\<^sup>* s t" for s t :: "'a remedy_db_scheme"
    using that
  proof (induction rule: rtranclp_induct)
    case base
    show ?case by simp
  next
    case (step t u)
    from step.hyps(2) have "\<exists>es. customer_credit_ledger u = customer_credit_ledger t @ es"
      by cases (auto simp: ledger_gains_def)
    with step.IH show ?case by auto
  qed
  with remedy_step_moves [OF assms] show ?thesis by blast
qed

text \<open>A reference gets its credit once.\<close>

definition remedy_recorded :: "'a remedy_db_scheme \<Rightarrow> string \<times> uuid \<Rightarrow> customer_credit_entry \<Rightarrow> bool" where
  "remedy_recorded s k e \<longleftrightarrow> issued_for s (fst k) (snd k) = Some e"

definition remedy_call :: "'a remedy_db_scheme \<Rightarrow> string \<times> uuid \<Rightarrow> 'a remedy_db_scheme \<Rightarrow> customer_credit_entry \<Rightarrow> bool" where
  "remedy_call s k t e \<longleftrightarrow> issued_for t (fst k) (snd k) = Some e \<and>
     (\<exists>rq now r. issue_provider_funded_customer_credit s rq now = Inr (t, r) \<and> (rq_reference_type rq, rq_reference_id rq) = k)"

lemma issued_for_append:
  "issued_for s rt rid = Some e \<Longrightarrow> customer_credit_ledger t = customer_credit_ledger s @ es \<Longrightarrow> issued_for t rt rid = Some e"
  by (simp add: issued_for_def first_row_append)

interpretation remedy_keys: keyed_posting credits_ok remedy_step remedy_recorded remedy_call
proof unfold_locales
  fix s t :: "'a remedy_db_scheme" and k e e'
  show "credits_ok t" if "credits_ok s" "remedy_step s t" using that remedy_run_ok by blast
  show "remedy_step s t" if "credits_ok s" "remedy_call s k t e" using that by (auto simp: remedy_call_def intro: remedy_step.provider_funded)
  show "remedy_recorded t k e" if "credits_ok s" "remedy_step s t" "remedy_recorded s k e"
    using that remedy_step_appends [of s t] by (auto simp: remedy_recorded_def intro: issued_for_append)
  show "remedy_recorded t k e" if "credits_ok s" "remedy_call s k t e" using that by (simp add: remedy_call_def remedy_recorded_def)
  show "t = s \<and> e' = e" if "credits_ok s" "remedy_recorded s k e" "remedy_call s k t e'"
    using that by (auto simp: remedy_recorded_def remedy_call_def elim!: issue_provider_funded_cases)
qed

text \<open>The credit applied to an invoice is written once it is positive, and stays.\<close>

definition invoice_taken :: "'a remedy_db_scheme \<Rightarrow> uuid \<Rightarrow> bool" where
  "invoice_taken s iid \<longleftrightarrow> 0 < two (invoice_credit s iid)"

lemma invoice_taken_cong: "invoice_credits t = invoice_credits s \<Longrightarrow> invoice_taken t iid = invoice_taken s iid"
  by (simp add: invoice_taken_def invoice_credit_def)

lemma remedy_step_invoice:
  assumes "remedy_step s t" "credits_ok s" "invoice_taken s iid"
  shows "invoice_taken t iid"
  using assms(1)
proof cases
  case (provider_funded rq now r)
  then show ?thesis using assms(3)
    by (auto simp: credit_granted_def elim!: issue_provider_funded_cases dest: invoice_taken_cong [THEN iffD2])
next
  case (manual u amount ty validity now c)
  then show ?thesis using assms(3) invoice_taken_cong [of t s iid] by (auto dest!: issue_credit_manual_cases simp: credit_granted_def)
next
  case (create d ty strategy amount x)
  then show ?thesis using assms(3) invoice_taken_cong [of t s iid] by (auto dest!: create_settlement_Inr)
next
  case (approve sid)
  then show ?thesis using assms(3) invoice_taken_cong [of t s iid] by (auto dest!: approve_settlement_Inr(2))
next
  case (execute sid actor role req now)
  then show ?thesis using assms(3) invoice_taken_cong [of t s iid] by (auto simp: credit_granted_def elim!: execute_settlement_cases)
next
  case (cancel sid)
  then show ?thesis using assms(3) invoice_taken_cong [of t s iid] by (auto dest!: cancel_settlement_Inr(2))
next
  case (cancel_credit i)
  then show ?thesis using assms(3) invoice_taken_cong [of t s iid] by (auto dest!: cancel_credit_Inr simp: set_credit_def)
next
  case (extend i e)
  then show ?thesis using assms(3) invoice_taken_cong [of t s iid] by (auto dest!: extend_credit_expiry_Inr simp: set_credit_def)
next
  case (booking u bid amount now out)
  then show ?thesis
  proof (rule apply_credit_to_booking_Inr)
    fix v left
    assume c: "consume_credits s u amount (Some bid) ''booking'' bid now = (v, ca_applied out, left)" and v: "t = v\<lparr>legacy_bookings := legacy_bookings t\<rparr>"
    from consume_spec(4) [OF c assms(2)] have "invoice_credits v = invoice_credits s" by simp
    moreover have "invoice_credits t = invoice_credits v" by (subst v) simp
    ultimately show ?thesis using assms(3) invoice_taken_cong [of t s iid] by simp
  qed
next
  case (invoice u jid amount now out)
  then show ?thesis
  proof (rule apply_credit_to_invoice_Inr)
    fix v left inv
    assume c: "consume_credits s u (two amount) None ''invoice'' jid now = (v, ca_applied out, left)"
      and v: "t = v\<lparr>invoice_credits := (jid, ca_applied out) # filter (\<lambda>r. fst r \<noteq> jid) (invoice_credits v),
           invoices := update_where (\<lambda>i. in_id i = jid) (\<lambda>i. i\<lparr>in_totals := (in_totals i)\<lparr>it_payable := ca_payable out\<rparr>\<rparr>) (invoices v)\<rparr>"
      and n: "two (invoice_credit s jid) \<le> 0"
    from n assms(3) have "jid \<noteq> iid" by (auto simp: invoice_taken_def)
    then have "(\<lambda>r :: uuid \<times> decimal. fst r \<noteq> jid \<and> fst r = iid) = (\<lambda>r. fst r = iid)" by auto
    then have "invoice_credit t iid = invoice_credit v iid" using v \<open>jid \<noteq> iid\<close> by (simp add: invoice_credit_def)
    also have "\<dots> = invoice_credit s iid" using consume_spec(4) [OF c assms(2)] by (simp add: invoice_credit_def)
    finally show ?thesis using assms(3) by (simp add: invoice_taken_def)
  qed
next
  case elsewhere
  then show ?thesis using assms(3) invoice_taken_cong by blast
qed

lemma remedy_run_invoice: "remedy_step\<^sup>*\<^sup>* s t \<Longrightarrow> credits_ok s \<Longrightarrow> invoice_taken s iid \<Longrightarrow> invoice_taken t iid"
proof (induction rule: rtranclp_induct)
  case (step t u)
  then show ?case using remedy_step_invoice remedy_run_ok by blast
qed simp

text \<open>The settlements of a dispute: one that stands at most, and the credits are those that were executed.\<close>

definition standing :: "uuid \<Rightarrow> dispute_settlement \<Rightarrow> bool" where
  "standing d x \<longleftrightarrow> ds_dispute_id x = d \<and> ds_status x \<notin> {DS_CANCELLED, DS_REVERSED}"

definition executed_for :: "uuid \<Rightarrow> dispute_settlement \<Rightarrow> bool" where
  "executed_for d x \<longleftrightarrow> ds_dispute_id x = d \<and> ds_status x = DS_EXECUTED"

definition dispute_amounts :: "'a remedy_db_scheme \<Rightarrow> uuid \<Rightarrow> decimal list" where
  "dispute_amounts s d = map cc_amount (filter (\<lambda>c. cc_dispute_id c = Some d) (customer_credits s))"

definition disputes_ok :: "'a remedy_db_scheme \<Rightarrow> bool" where
  "disputes_ok s \<longleftrightarrow> credits_ok s \<and> distinct (map ds_id (dispute_settlements s)) \<and>
     (\<forall>d. length (filter (standing d) (dispute_settlements s)) \<le> 1 \<and>
        dispute_amounts s d = map ds_amount (filter (executed_for d) (dispute_settlements s)))"

lemma disputes_okD:
  assumes "disputes_ok s"
  shows "credits_ok s" "distinct (map ds_id (dispute_settlements s))" "length (filter (standing d) (dispute_settlements s)) \<le> 1"
    "dispute_amounts s d = map ds_amount (filter (executed_for d) (dispute_settlements s))"
  using assms by (auto simp: disputes_ok_def)

lemma dispute_amounts_pairs:
  "dispute_amounts s d = map snd (filter (\<lambda>p. fst p = Some d) (map (\<lambda>c. (cc_dispute_id c, cc_amount c)) (customer_credits s)))"
  by (simp add: dispute_amounts_def filter_map comp_def)

lemma update_where_split:
  assumes "distinct (map k xs)" and "x \<in> set xs"
  obtains ys zs where "xs = ys @ x # zs" "\<And>f. update_where (\<lambda>y. k y = k x) f xs = ys @ f x # zs"
proof -
  from assms(2) obtain ys zs where xs: "xs = ys @ x # zs" by (meson split_list)
  with assms(1) have "\<forall>y \<in> set ys \<union> set zs. k y \<noteq> k x" by (auto simp: image_iff)
  then have "update_where (\<lambda>y. k y = k x) f xs = ys @ f x # zs" for f by (simp add: xs update_where_none)
  with xs show thesis by (rule that)
qed

lemma executed_standing: "executed_for d x \<Longrightarrow> standing d x"
  by (simp add: executed_for_def standing_def)

text \<open>Moving one settlement: what it does to the ones that stand and to the executed ones.\<close>

lemma settlement_moved_filters:
  assumes "settlement_moved s t sid from st" and "disputes_ok s" and "from \<inter> {DS_EXECUTED} = {}"
    and "st \<notin> {DS_CANCELLED, DS_REVERSED} \<longrightarrow> from \<inter> {DS_CANCELLED, DS_REVERSED} = {}"
  shows "distinct (map ds_id (dispute_settlements t)) \<and> length (filter (standing d) (dispute_settlements t)) \<le> 1 \<and>
    (st \<noteq> DS_EXECUTED \<longrightarrow> filter (executed_for d) (dispute_settlements t) = filter (executed_for d) (dispute_settlements s))"
proof -
  from assms(1) obtain x f where x: "x \<in> set (dispute_settlements s)" "ds_id x = sid" "ds_status x \<in> from" "settles_to st f"
    and t: "dispute_settlements t = update_where (\<lambda>y. ds_id y = sid) f (dispute_settlements s)" by (auto simp: settlement_moved_def)
  obtain ys zs where s: "dispute_settlements s = ys @ x # zs" and u: "dispute_settlements t = ys @ f x # zs"
    using update_where_split [OF disputes_okD(2) [OF assms(2)] x(1)] t x(2) by metis
  have "standing d (f x) \<longrightarrow> standing d x" using x(3,4) assms(4) by (auto simp: standing_def settles_to_def)
  moreover have "\<not> executed_for d x" using x(3) assms(3) by (auto simp: executed_for_def)
  moreover have "st \<noteq> DS_EXECUTED \<longrightarrow> \<not> executed_for d (f x)" using x(4) by (simp add: executed_for_def settles_to_def)
  moreover have "ds_id (f x) = ds_id x" using x(4) by (simp add: settles_to_def)
  ultimately show ?thesis
    using disputes_okD(2) [OF assms(2)] disputes_okD(3) [OF assms(2), of d] by (auto simp: s u split: if_splits)
qed

lemma disputes_ok_same:
  assumes "disputes_ok s" "credits_ok t" "dispute_settlements t = dispute_settlements s"
    and "map (\<lambda>c. (cc_dispute_id c, cc_amount c)) (customer_credits t) = map (\<lambda>c. (cc_dispute_id c, cc_amount c)) (customer_credits s)"
  shows "disputes_ok t"
  using assms by (simp add: disputes_ok_def dispute_amounts_pairs)

lemma disputes_ok_moved:
  assumes "settlement_moved s t sid from st" "disputes_ok s" "credits_ok t" "DS_EXECUTED \<notin> from" "st \<noteq> DS_EXECUTED"
    and "st \<notin> {DS_CANCELLED, DS_REVERSED} \<longrightarrow> from \<inter> {DS_CANCELLED, DS_REVERSED} = {}"
    and "customer_credits t = customer_credits s"
  shows "disputes_ok t"
proof -
  have "dispute_amounts t d = dispute_amounts s d" for d using assms(7) by (simp add: dispute_amounts_def)
  with settlement_moved_filters [OF assms(1,2) _ assms(6)] assms(4,5) disputes_okD(4) [OF assms(2)]
  show ?thesis using assms(3) by (auto simp: disputes_ok_def)
qed

lemma disputes_ok_executed:
  assumes "execute_settlement s sid actor role req now = Inr t" "disputes_ok s" "credits_ok t"
  shows "disputes_ok t"
  using assms(1)
proof (cases rule: execute_settlement_cases)
  case (1 x c f)
  note m = execute_settlement_rows [OF assms(1)]
  note fl = settlement_moved_filters [OF m assms(2)]
  have "dispute_amounts t d = map ds_amount (filter (executed_for d) (dispute_settlements t))" for d
  proof -
    obtain ys zs where s: "dispute_settlements s = ys @ x # zs" and u: "dispute_settlements t = ys @ f x # zs"
      using update_where_split [OF disputes_okD(2) [OF assms(2)], of x] get_settlement_Inr [OF 1(1)] 1(7) by metis
    have c: "dispute_amounts t d = dispute_amounts s d @ (if ds_dispute_id x = d then [ds_amount x] else [])"
      using 1(3,4,5) by (simp add: dispute_amounts_def credit_granted_def)
    have e: "executed_for d (f x) \<longleftrightarrow> ds_dispute_id x = d" "ds_amount (f x) = ds_amount x" "\<not> executed_for d x"
      using 1(2,8) by (auto simp: executed_for_def settles_to_def)
    show ?thesis
    proof (cases "ds_dispute_id x = d")
      case True
      then have "standing d x" using 1(2) by (simp add: standing_def)
      then have "filter (standing d) ys = [] \<and> filter (standing d) zs = []"
        using disputes_okD(3) [OF assms(2), of d] by (simp add: s)
      then have "filter (executed_for d) ys = [] \<and> filter (executed_for d) zs = []"
        using executed_standing by (auto simp: filter_empty_conv)
      with True c e disputes_okD(4) [OF assms(2), of d] show ?thesis by (simp add: s u)
    next
      case False
      with c e disputes_okD(4) [OF assms(2), of d] show ?thesis by (simp add: s u)
    qed
  qed
  with fl assms(3) show ?thesis by (simp add: disputes_ok_def)
qed

lemma remedy_step_disputes:
  assumes "remedy_step s t" "disputes_ok s"
  shows "disputes_ok t"
proof -
  have ok: "credits_ok s" using assms(2) by (rule disputes_okD)
  from remedy_run_ok [OF r_into_rtranclp ok] assms(1) have okt: "credits_ok t" by blast
  have other: "dispute_amounts t d = dispute_amounts s d" if "customer_credits t = customer_credits s @ [c]" "cc_dispute_id c = None" for c d
    using that by (simp add: dispute_amounts_def)
  from assms(1) show ?thesis
  proof cases
    case (provider_funded rq now r)
    then show ?thesis
    proof (cases rule: issue_provider_funded_cases)
      case (issued c)
      with other [of c] assms(2) okt show ?thesis by (simp add: disputes_ok_def credit_granted_def)
    qed (use assms(2) in simp)
  next
    case (manual u amount ty validity now c)
    with issue_credit_manual_cases [OF manual] other [of c] assms(2) okt show ?thesis by (simp add: disputes_ok_def credit_granted_def)
  next
    case (create d ty strategy amount x)
    note c = create_settlement_Inr [OF create]
    then have "dispute_amounts t e = dispute_amounts s e" for e by (simp add: dispute_amounts_def)
    moreover have "ds_id x \<notin> ds_id ` set (dispute_settlements s)" using c credits_okD(4) [OF ok] by fastforce
    moreover have "filter (standing d) (dispute_settlements s) = []" using c by (simp add: standing_def [abs_def])
    ultimately show ?thesis using c assms(2) okt by (auto simp: disputes_ok_def standing_def executed_for_def)
  next
    case (approve sid)
    from approve_settlement_Inr [OF approve] show ?thesis
      by (intro disputes_ok_moved [OF _ assms(2) okt, of sid "{DS_DRAFT, DS_PENDING_APPROVAL}" DS_APPROVED]) auto
  next
    case (execute sid actor role req now)
    then show ?thesis using assms(2) okt by (rule disputes_ok_executed)
  next
    case (cancel sid)
    from cancel_settlement_Inr [OF cancel] show ?thesis
      by (intro disputes_ok_moved [OF _ assms(2) okt, of sid "- {DS_EXECUTED}" DS_CANCELLED]) auto
  next
    case (cancel_credit i)
    then show ?thesis using assms(2) okt
      by (intro disputes_ok_same [OF assms(2) okt]) (auto dest!: cancel_credit_Inr simp: set_credit_def intro!: map_update_where_key)
  next
    case (extend i e)
    then show ?thesis using assms(2) okt
      by (intro disputes_ok_same [OF assms(2) okt]) (auto dest!: extend_credit_expiry_Inr simp: set_credit_def intro!: map_update_where_key)
  next
    case (booking u bid amount now out)
    then show ?thesis
    proof (rule apply_credit_to_booking_Inr)
      fix v left
      assume c: "consume_credits s u amount (Some bid) ''booking'' bid now = (v, ca_applied out, left)" and v: "t = v\<lparr>legacy_bookings := legacy_bookings t\<rparr>"
      have "customer_credits t = customer_credits v" "dispute_settlements t = dispute_settlements v" by (subst v, simp)+
      with consume_map [OF c] consume_spec(4) [OF c ok] show ?thesis by (intro disputes_ok_same [OF assms(2) okt]) auto
    qed
  next
    case (invoice u iid amount now out)
    then show ?thesis
    proof (rule apply_credit_to_invoice_Inr)
      fix v left inv
      assume c: "consume_credits s u (two amount) None ''invoice'' iid now = (v, ca_applied out, left)"
        and v: "t = v\<lparr>invoice_credits := (iid, ca_applied out) # filter (\<lambda>r. fst r \<noteq> iid) (invoice_credits v),
           invoices := update_where (\<lambda>i. in_id i = iid) (\<lambda>i. i\<lparr>in_totals := (in_totals i)\<lparr>it_payable := ca_payable out\<rparr>\<rparr>) (invoices v)\<rparr>"
      with consume_map [OF c] consume_spec(4) [OF c ok] show ?thesis by (intro disputes_ok_same [OF assms(2) okt]) auto
    qed
  next
    case elsewhere
    then show ?thesis by (intro disputes_ok_same [OF assms(2) okt]) auto
  qed
qed

lemma remedy_run_disputes: "remedy_step\<^sup>*\<^sup>* s t \<Longrightarrow> disputes_ok s \<Longrightarrow> disputes_ok t"
  by (induction rule: rtranclp_induct) (blast intro: remedy_step_disputes)+

subsection \<open>Sample remedies\<close>

definition demo_credit :: "uuid \<Rightarrow> decimal \<Rightarrow> time option \<Rightarrow> customer_credit" where
  "demo_credit i a expiry = \<lparr>cc_id = i, cc_customer_id = 3, cc_tenant_id = Some 4, cc_booking_id = None, cc_job_id = None,
     cc_dispute_id = None, cc_settlement_id = None, cc_amount = a, cc_remaining = a, cc_credit_type = ''refund_compensation'',
     cc_source = ''provider_funded_remedy'', cc_status = CS_ACTIVE, cc_valid_from = 0, cc_expires_at = expiry\<rparr>"

definition demo_credit_entry :: "uuid \<Rightarrow> decimal \<Rightarrow> customer_credit_entry" where
  "demo_credit_entry i a = \<lparr>ce_credit_id = i, ce_customer_id = 3, ce_booking_id = None, ce_type = ''issued'', ce_amount = a,
     ce_balance_after = a, ce_reference_type = Some ''refund'', ce_reference_id = Some i\<rparr>"

definition demo_settlement :: "settlement_status \<Rightarrow> string \<Rightarrow> dispute_settlement" where
  "demo_settlement st strategy = \<lparr>ds_id = 152, ds_dispute_id = 150, ds_booking_id = Some 2, ds_job_id = None, ds_customer_id = 3,
     ds_tenant_id = 4, ds_type = ''customer_service_credit'', ds_status = st, ds_amount = 80, ds_deduction_source = strategy,
     ds_wallet_deduction = 0, ds_goodwill = 0, ds_credit_id = None, ds_penalty_id = None\<rparr>"

definition demo_remedies :: "dispute_settlement list \<Rightarrow> remedy_db" where
  "demo_remedies xs = (exec_db.extend (demo_site JS_COMPLETED []) (remedy_db.fields
     [demo_credit 140 50 None, demo_credit 141 30 (Some 900)] [demo_credit_entry 140 50, demo_credit_entry 141 30] xs []
     [\<lparr>cm_id = 150, cm_customer_id = 3, cm_tenant_id = Some 4, cm_booking_id = Some 2, cm_settlement_status = None\<rparr>]
     [\<lparr>lb_id = 151, lb_customer_id = 3, lb_quoted_price = Some 200, lb_credit_applied = 0, lb_payable_amount = None\<rparr>] []))
     \<lparr>invoices := [demo_invoice\<lparr>in_status := INV_ISSUED\<rparr>], tenant_billings := [\<lparr>tb_tenant_id = 4, tb_credit_balance = 40\<rparr>],
      usage_credit_ledger := []\<rparr>"

lemma demo_remedies_simps [simp]:
  "customer_credits (demo_remedies xs) = [demo_credit 140 50 None, demo_credit 141 30 (Some 900)]"
  "customer_credit_ledger (demo_remedies xs) = [demo_credit_entry 140 50, demo_credit_entry 141 30]"
  "dispute_settlements (demo_remedies xs) = xs" "tenant_penalties (demo_remedies xs) = []" "invoice_credits (demo_remedies xs) = []"
  "legacy_bookings (demo_remedies xs) = [\<lparr>lb_id = 151, lb_customer_id = 3, lb_quoted_price = Some 200, lb_credit_applied = 0, lb_payable_amount = None\<rparr>]"
  "invoices (demo_remedies xs) = [demo_invoice\<lparr>in_status := INV_ISSUED\<rparr>]" "usage_credit_ledger (demo_remedies xs) = []"
  "tenant_billings (demo_remedies xs) = [\<lparr>tb_tenant_id = 4, tb_credit_balance = 40\<rparr>]" "next_uuid (demo_remedies xs) = 200"
  "complaints (demo_remedies xs) = [\<lparr>cm_id = 150, cm_customer_id = 3, cm_tenant_id = Some 4, cm_booking_id = Some 2, cm_settlement_status = None\<rparr>]"
  by (simp_all add: demo_remedies_def remedy_db.defs exec_db.defs)

lemma demo_credit_simps [simp]:
  "cc_id (demo_credit i a e) = i" "cc_amount (demo_credit i a e) = a" "cc_remaining (demo_credit i a e) = a"
  "cc_dispute_id (demo_credit i a e) = None" "cc_expires_at (demo_credit i a e) = e" "cc_customer_id (demo_credit i a e) = 3"
  "cc_status (demo_credit i a e) = CS_ACTIVE" "cc_valid_from (demo_credit i a e) = 0"
  "ce_credit_id (demo_credit_entry i a) = i" "ce_amount (demo_credit_entry i a) = a" "ce_reference_type (demo_credit_entry i a) = Some ''refund''"
  by (simp_all add: demo_credit_def demo_credit_entry_def)

lemma demo_remedies_ok [simp]: "credits_ok (demo_remedies [])" "credits_ok (demo_remedies [demo_settlement st strategy])"
  by (simp_all add: credits_ok_def demo_settlement_def)

lemma demo_disputes_ok [simp]: "disputes_ok (demo_remedies [])"
  by (simp add: disputes_ok_def dispute_amounts_def)

lemma demo_remaining [simp]: "remaining_of (demo_remedies xs) 140 = 50" "remaining_of (demo_remedies xs) 141 = 30"
  by (simp_all add: remaining_of_def)

lemma demo_entries_total [simp]: "credit_entries_total (demo_remedies xs) 140 = 50" "credit_entries_total (demo_remedies xs) 141 = 30"
  by (simp_all add: credit_entries_total_def)

lemma demo_live_credits [simp]: "live_credits (demo_remedies xs) 3 9 = [demo_credit 141 30 (Some 900), demo_credit 140 50 None]"
  by (simp add: live_credits_def live_credit_def)

subsection \<open>Properties\<close>

text \<open>
  C14: a customer's credit is explained by its ledger. Whatever sequence of remedies runs (issuing, settling, cancelling,
  extending, drawing on a booking or an invoice) with whatever arguments, what remains of a credit is the sum of its ledger
  entries and is never negative.
\<close>

theorem credit_balance_explained:
  assumes "credits_ok s" and "remedy_step\<^sup>*\<^sup>* s t" and "remaining_of s i = credit_entries_total s i"
  shows "remaining_of t i = credit_entries_total t i \<and> 0 \<le> remaining_of t i"
  using credit_moves.run_reconciled [OF remedy_run_moves [OF assms(2,1)] assms(1,3)]
    credit_moves.run_nonneg [OF remedy_run_moves [OF assms(2,1)] assms(1)] by blast

theorem credit_balance_explained_witness:
  "\<exists>t out. apply_credit_to_booking (demo_remedies []) 3 151 60 9 = Inr (t, out) \<and> remaining_of t 140 = 20 \<and>
     remaining_of t 140 = credit_entries_total t 140"
proof -
  obtain t out where t: "apply_credit_to_booking (demo_remedies []) 3 151 60 9 = Inr (t, out)" and r: "remaining_of t 140 = 20"
    by (simp add: apply_credit_to_booking_def consume_credits_def draw_credit_def set_credit_def remaining_of_def Let_def)
  have "remedy_step\<^sup>*\<^sup>* (demo_remedies []) t" using t by (blast intro: remedy_step.booking)
  from credit_balance_explained [OF _ this, of 140] t r show ?thesis by auto
qed

text \<open>
  C15: credits are drawn soonest expiry first, and exactly as far as they reach. The loop over the customer's live credits
  agrees with the closed form of a waterfall: the credits are read in the order they expire, the amount applied is the
  smaller of the amount asked for and what they hold, each credit loses what the ones before it left over, up to what it
  holds, and no other credit moves.
\<close>

theorem credits_drawn_soonest_expiry_first:
  assumes "credits_ok s" and "0 \<le> amount" and "consume_credits s u amount b rt rid now = (t, applied, left)"
    and "live = live_credits s u now"
  shows "sorted_wrt expires_no_later live \<and>
    applied = min (two amount) (sum_list (map (\<lambda>c. two (cc_remaining c)) live)) \<and>
    (\<forall>j < length live. remaining_of t (cc_id (live ! j)) = cc_remaining (live ! j) -
       max 0 (min (two (cc_remaining (live ! j))) (two amount - sum_list (map (\<lambda>c. two (cc_remaining c)) (take j live))))) \<and>
    (\<forall>i. i \<notin> cc_id ` set live \<longrightarrow> remaining_of t i = remaining_of s i)"
proof (intro conjI allI impI)
  show "sorted_wrt expires_no_later live" unfolding assms(4) by (rule sorted_live_credits)
  show "applied = min (two amount) (sum_list (map (\<lambda>c. two (cc_remaining c)) live))"
    using consume_applied(1) [OF assms(3,1,2)] assms(4) by simp
  fix i
  note r = consume_spec(3) [OF assms(3,1), of i]
  show "remaining_of t i = remaining_of s i" if "i \<notin> cc_id ` set live" using r that assms(4) by (simp add: drawn_other)
next
  fix j assume j: "j < length live"
  have mem: "live ! j \<in> set (customer_credits s)" "\<forall>c \<in> set live. 0 \<le> cc_remaining c"
    using nth_mem [OF j] credits_okD(2) [OF assms(1)] assms(4) by (auto simp: set_live_credits)
  have "remaining_of t (cc_id (live ! j)) = cc_remaining (live ! j) - shares (two amount) (map cc_remaining live) ! j"
    using consume_spec(3) [OF assms(3,1), of "cc_id (live ! j)"] remaining_of_row [OF assms(1) mem(1)]
      drawn_nth [OF distinct_live_credits [OF assms(1)], of j u now "two amount"] j assms(4) by simp
  also have "shares (two amount) (map cc_remaining live) ! j =
      max 0 (min (two (cc_remaining (live ! j))) (two amount - sum_list (map (\<lambda>c. two (cc_remaining c)) (take j live))))"
    using shares_nth [of j "map cc_remaining live" "two amount"] j mem(2) by (simp add: take_map comp_def)
  finally show "remaining_of t (cc_id (live ! j)) = cc_remaining (live ! j) -
      max 0 (min (two (cc_remaining (live ! j))) (two amount - sum_list (map (\<lambda>c. two (cc_remaining c)) (take j live))))" .
qed

theorem credits_drawn_soonest_expiry_first_witness:
  "\<exists>t. consume_credits (demo_remedies []) 3 60 None ''invoice'' 60 9 = (t, 60, 20) \<and> remaining_of t 141 = 0 \<and> remaining_of t 140 = 20"
proof -
  obtain t where t: "consume_credits (demo_remedies []) 3 60 None ''invoice'' 60 9 = (t, 60, 20)"
    by (simp add: consume_credits_def draw_credit_def set_credit_def remaining_of_def Let_def)
  from credits_drawn_soonest_expiry_first [OF _ _ t refl] have "\<forall>j < 2. remaining_of t (cc_id ([demo_credit 141 30 (Some 900), demo_credit 140 50 None] ! j)) =
      cc_remaining ([demo_credit 141 30 (Some 900), demo_credit 140 50 None] ! j) - max 0 (min (two (cc_remaining ([demo_credit 141 30 (Some 900), demo_credit 140 50 None] ! j)))
        (60 - sum_list (map (\<lambda>c. two (cc_remaining c)) (take j [demo_credit 141 30 (Some 900), demo_credit 140 50 None]))))" by simp
  from this [rule_format, of 0] this [rule_format, of 1] t show ?thesis by simp
qed

text \<open>
  C21: a dispute is compensated once. Over every run, the credits issued for a dispute are the amounts of its executed
  settlements, and there is at most one: a dispute has one settlement that stands, and an executed one can be neither
  executed again nor cancelled to make room for another.
\<close>

theorem dispute_compensated_once:
  assumes "disputes_ok s" and "remedy_step\<^sup>*\<^sup>* s t"
  shows "dispute_amounts t d = map ds_amount (filter (executed_for d) (dispute_settlements t)) \<and> length (dispute_amounts t d) \<le> 1"
proof -
  from remedy_run_disputes [OF assms(2,1)] have ok: "disputes_ok t" .
  have "length (filter (executed_for d) (dispute_settlements t)) \<le> length (filter (standing d) (dispute_settlements t))"
    by (rule length_filter_mono) (rule executed_standing)
  with disputes_okD(3,4) [OF ok, of d] show ?thesis by simp
qed

lemma demo_settlement_simps [simp]:
  "ds_id (demo_settlement st sg) = 152" "ds_dispute_id (demo_settlement st sg) = 150" "ds_tenant_id (demo_settlement st sg) = 4"
  "ds_status (demo_settlement st sg) = st" "ds_amount (demo_settlement st sg) = 80" "ds_deduction_source (demo_settlement st sg) = sg"
  by (simp_all add: demo_settlement_def)

lemma demo_disputes_ok_approved [simp]: "disputes_ok (demo_remedies [demo_settlement DS_APPROVED strategy])"
  by (simp add: disputes_ok_def dispute_amounts_def executed_for_def)

theorem dispute_compensated_once_witness:
  "\<exists>t. execute_settlement (demo_remedies [demo_settlement DS_APPROVED ''tenant_wallet'']) 152 5 ''super_admin'' ''r'' 9 = Inr t \<and>
     dispute_amounts t 150 = [80] \<and> credit_bal t 4 = - 40"
proof -
  let ?s = "demo_remedies [demo_settlement DS_APPROVED ''tenant_wallet'']"
  obtain t where t: "execute_settlement ?s 152 5 ''super_admin'' ''r'' 9 = Inr t" and b: "credit_bal t 4 = - 40"
      and x: "map ds_amount (filter (executed_for 150) (dispute_settlements t)) = [80]"
    by (simp add: execute_settlement_def get_settlement_def preview_deduction_def VALID_DEDUCTION_STRATEGIES_def settlement_debit_def
        insert_usage_entry_def write_entry_def blank_entry_def grant_credit_def close_settlement_def set_settlement_def credit_bal_def
        executed_for_def Let_def)
  have "remedy_step\<^sup>*\<^sup>* ?s t" using t by (blast intro: remedy_step.execute)
  from dispute_compensated_once [OF _ this, of 150] t b x show ?thesis by simp
qed



text \<open>
  A refund or claim is credited once. After a provider-funded credit for a reference, and whatever happens since, a
  second call for the same reference, whatever its amount, customer or provider, changes nothing and takes nothing.
\<close>

theorem remedy_issued_once:
  assumes "credits_ok s" and "issue_provider_funded_customer_credit s rq now = Inr (t, r)" and "remedy_step\<^sup>*\<^sup>* t v"
    and "rq_reference_type rq' = rq_reference_type rq" and "rq_reference_id rq' = rq_reference_id rq"
    and "issue_provider_funded_customer_credit v rq' now' = Inr (w, r')"
  shows "w = v \<and> rr_provider_credit_deducted r' = 0 \<and> rr_idempotent_replay r'"
proof -
  let ?k = "(rq_reference_type rq, rq_reference_id rq)"
  have "\<exists>e. issued_for t (fst ?k) (snd ?k) = Some e"
    using assms(2)
  proof (cases rule: issue_provider_funded_cases)
    case (issued c)
    then show ?thesis by (auto simp: credit_granted_def issued_for_def first_row_append split: option.splits)
  qed auto
  then obtain e where "remedy_recorded t ?k e" by (auto simp: remedy_recorded_def)
  moreover have "credits_ok t" using assms(1,2) by (blast intro: remedy_run_ok remedy_step.provider_funded)
  ultimately have "remedy_recorded v ?k e" using assms(3) remedy_keys.run_recorded by blast
  with assms(4,5) have "issued_for v (rq_reference_type rq') (rq_reference_id rq') = Some e" by (simp add: remedy_recorded_def)
  with assms(6) show ?thesis by (auto elim!: issue_provider_funded_cases)
qed

definition demo_remedy_request :: "decimal \<Rightarrow> remedy_request" where
  "demo_remedy_request a = \<lparr>rq_tenant_id = 4, rq_customer_id = 3, rq_amount = a, rq_reference_type = ''warranty_claim'',
     rq_reference_id = 170, rq_reason = ''void'', rq_actor_id = Some 5, rq_actor_role = ''super_admin'', rq_request_id = ''r'',
     rq_booking_id = Some 2, rq_job_id = Some 1\<rparr>"

theorem remedy_issued_once_witness:
  "\<exists>t r r'. issue_provider_funded_customer_credit (demo_remedies []) (demo_remedy_request 25) 9 = Inr (t, r) \<and>
     rr_provider_credit_deducted r = 25 \<and> credit_bal t 4 = 15 \<and>
     issue_provider_funded_customer_credit t (demo_remedy_request 70) 10 = Inr (t, r') \<and> rr_provider_credit_deducted r' = 0"
proof -
  obtain t r where t: "issue_provider_funded_customer_credit (demo_remedies []) (demo_remedy_request 25) 9 = Inr (t, r)"
      "rr_provider_credit_deducted r = 25" "credit_bal t 4 = 15" and i: "issued_for t ''warranty_claim'' 170 \<noteq> None"
    by (simp add: issue_provider_funded_customer_credit_def issued_for_def demo_remedy_request_def remedy_entry_def
        insert_usage_entry_def write_entry_def blank_entry_def grant_credit_def credit_bal_def Let_def)
  obtain v r' where v: "issue_provider_funded_customer_credit t (demo_remedy_request 70) 10 = Inr (v, r')"
    using i by (auto simp: issue_provider_funded_customer_credit_def demo_remedy_request_def Let_def)
  from remedy_issued_once [OF _ t(1) _ _ _ v] have "v = t \<and> rr_provider_credit_deducted r' = 0"
    by (simp add: demo_remedy_request_def)
  with t v show ?thesis by blast
qed

text \<open>
  A settlement nobody funds still pays. Whatever its type, \<^verbatim>\<open>no_compensation\<close> included, an approved settlement with
  the strategy \<^verbatim>\<open>none\<close> executes and issues the customer the whole amount, while no provider's balance moves and the
  penalty it records is zero.
\<close>

theorem unfunded_settlement_pays:
  assumes "get_settlement s sid = Inr x" and "ds_status x = DS_APPROVED" and "ds_deduction_source x = ''none''"
  shows "\<exists>t c. execute_settlement s sid actor role req now = Inr t \<and> customer_credits t = customer_credits s @ [c] \<and>
    cc_remaining c = ds_amount x \<and> cc_customer_id c = ds_customer_id x \<and> tenant_billings t = tenant_billings s \<and>
    usage_credit_ledger t = usage_credit_ledger s \<and> map pen_amount (tenant_penalties t) = map pen_amount (tenant_penalties s) @ [0]"
  using assms
  by (simp add: execute_settlement_def preview_deduction_def VALID_DEDUCTION_STRATEGIES_def settlement_debit_def
      settlement_credit_def grant_credit_def close_settlement_def set_settlement_def Let_def)

theorem unfunded_settlement_pays_witness:
  "\<exists>t. execute_settlement (demo_remedies [demo_settlement DS_APPROVED ''none'']) 152 5 ''super_admin'' ''r'' 9 = Inr t \<and>
     tenant_billings t = [\<lparr>tb_tenant_id = 4, tb_credit_balance = 40\<rparr>] \<and> length (customer_credits t) = 3"
proof -
  have "get_settlement (demo_remedies [demo_settlement DS_APPROVED ''none'']) 152 = Inr (demo_settlement DS_APPROVED ''none'')"
    by (simp add: get_settlement_def)
  from unfunded_settlement_pays [OF this, of 5 "''super_admin''" "''r''" 9] show ?thesis by auto
qed

end
