(* ===== verification/Sla.thy ===== *)
theory Sla
  imports CustomerCredits
begin

section \<open>A job that ran out of time (execution/sla_breach_service.py)\<close>

text \<open>
  What a missed visit costs: the penalty a policy names, its withdrawal from the provider's credits, the compensation of the
  customer, the sweep that charges at the end of the slot and closes after the configured window, the same rule for a stage
  that stalls after the arrival, the settlement of a cancelled no-show, the waiver, and the suspension of providers whose
  health fell. \<open>sla_db\<close> adds the columns of \<^verbatim>\<open>tenants\<close> a suspension writes and the events of a stalled stage with their
  metadata. Notices to customers and providers are not kept; the recomputation of a provider's health is an argument.
\<close>

subsection \<open>Data\<close>

record tenant_standing =
  tst_tenant_id :: uuid
  tst_status :: string
  tst_health :: "decimal option"
  tst_suspended_at :: "time option"
  tst_suspended_until :: "time option"
  tst_reason :: "string option"

record stage_event =
  sv_job_id :: uuid
  sv_event_type :: string
  sv_token :: "job_status \<times> time"
  sv_amount :: decimal

record sla_db = remedy_db +
  tenant_standings :: "tenant_standing list"
  stage_events :: "stage_event list"

definition BREACHABLE_STATUSES :: "job_status list" where
  "BREACHABLE_STATUSES = [JS_PENDING_ASSIGNMENT, JS_ASSIGNED, JS_ACCEPTED, JS_SCHEDULED, JS_ON_THE_WAY]"

definition PROVIDER_PROGRESS_STATUSES :: "job_status list" where
  "PROVIDER_PROGRESS_STATUSES = [JS_REACHED_SITE, JS_INSPECTION_STARTED, JS_INSPECTION_DONE, JS_SERVICE_STARTED, JS_WORK_DONE]"

fun status_text :: "job_status \<Rightarrow> string" where
  "status_text JS_PENDING_ASSIGNMENT = ''pending_assignment''"
| "status_text JS_ASSIGNED = ''assigned''"
| "status_text JS_ACCEPTED = ''accepted''"
| "status_text JS_SCHEDULED = ''scheduled''"
| "status_text JS_ON_THE_WAY = ''on_the_way''"
| "status_text JS_REACHED_SITE = ''reached_site''"
| "status_text JS_INSPECTION_STARTED = ''inspection_started''"
| "status_text JS_INSPECTION_DONE = ''inspection_done''"
| "status_text JS_QUOTE_REQUIRED = ''quote_required''"
| "status_text JS_SERVICE_STARTED = ''service_started''"
| "status_text JS_WORK_DONE = ''work_done''"
| "status_text JS_CUSTOMER_NOT_AVAIL = ''customer_not_available''"
| "status_text JS_CANCELLED = ''cancelled''"
| "status_text JS_FAILED = ''failed''"
| "status_text JS_CLOSED_ESTIMATE_DECLINED = ''closed_estimate_declined''"
| "status_text JS_FORCE_CLOSED = ''force_closed''"
| "status_text JS_VOIDED = ''voided''"
| "status_text JS_COMPLETED = ''completed''"
| "status_text JS_INVOICE_ISSUED = ''invoice_issued''"
| "status_text (JS_UNKNOWN s) = s"

text \<open>A nominally active stage that waits for the customer.\<close>

definition stage_waiting_on_customer :: "'a exec_db_scheme \<Rightarrow> service_job \<Rightarrow> bool" where
  "stage_waiting_on_customer s job \<longleftrightarrow> j_status job = JS_WORK_DONE \<and>
     ((\<exists>p \<in> set (completion_proofs s). cp_job_id p = j_id job \<and> cp_status p = ''submitted'' \<and> cp_handover_status p = ''requested'') \<or>
      (\<exists>r \<in> set (payment_records s). py_job_id r = j_id job \<and> py_provider_confirmed_at r \<noteq> None \<and>
         \<not> py_customer_confirmed r \<and> py_payment_status r \<noteq> PAY_STATUS_DISPUTED))"

subsection \<open>The penalty\<close>

definition final_penalty_top_up :: "decimal \<Rightarrow> decimal \<Rightarrow> decimal" where
  "final_penalty_top_up charged_so_far total_penalty = max 0 (total_penalty - charged_so_far)"

definition resolve_penalty :: "sla_terms \<Rightarrow> decimal option \<Rightarrow> decimal option \<Rightarrow> decimal" where
  "resolve_penalty terms job_value override =
     (case override of
        Some a \<Rightarrow> max 0 a
      | None \<Rightarrow>
        let flat = (case t_penalty_amount terms of None \<Rightarrow> 0 | Some a \<Rightarrow> a);
            pct = (case t_penalty_percentage terms of None \<Rightarrow> 0 | Some p \<Rightarrow> p)
        in if t_penalty_type terms \<noteq> ''percentage'' then flat
           else case job_value of
             None \<Rightarrow> flat
           | Some v \<Rightarrow>
             if v \<le> 0 \<or> pct \<le> 0 then flat
             else
               let a = quantize2 (v * pct / 100);
                   b = (case t_penalty_min terms of None \<Rightarrow> a | Some m \<Rightarrow> max a m);
                   c = (case t_penalty_max terms of None \<Rightarrow> b | Some m \<Rightarrow> min b m)
               in max 0 c)"

definition sla_job_type_override :: "'a monet_db_scheme \<Rightarrow> uuid \<Rightarrow> uuid option \<Rightarrow> bool \<times> decimal option" where
  "sla_job_type_override s policy_id job_type_id =
     (case job_type_id of
        None \<Rightarrow> (True, None)
      | Some jt \<Rightarrow>
        (case first_row (filter (\<lambda>r. r_policy_id r = policy_id \<and> r_job_type_id r = jt \<and> r_status r = ''active'') (job_type_rules s)) of
           None \<Rightarrow> (True, None)
         | Some r \<Rightarrow> (r_sla_penalty_enabled r, r_sla_penalty_amount r)))"

text \<open>The value of a job: the total of its last invoice that stands.\<close>

definition sla_job_value :: "'a billing_db_scheme \<Rightarrow> uuid \<Rightarrow> decimal option" where
  "sla_job_value s jid =
     (case rev (filter (\<lambda>i. in_job_id i = jid \<and> in_status i \<noteq> INV_CANCELLED) (invoices s)) of
        [] \<Rightarrow> None
      | i # _ \<Rightarrow> if it_total (in_totals i) = 0 then None else Some (it_total (in_totals i)))"

definition initial_penalty :: "'a billing_db_scheme \<Rightarrow> policy \<Rightarrow> service_job \<Rightarrow> decimal option \<Rightarrow> decimal" where
  "initial_penalty s p job job_value =
     (case sla_job_type_override s (p_id p) (j_job_type_id job) of
        (enabled, override) \<Rightarrow> if enabled then resolve_penalty (p_sla p) job_value override else 0)"

definition close_hours :: "sla_terms \<Rightarrow> int" where
  "close_hours terms = max 1 (min 168 (if t_close_after_hours terms = 0 then 24 else t_close_after_hours terms))"

definition sla_key :: "string \<Rightarrow> uuid \<Rightarrow> nat \<Rightarrow> string" where
  "sla_key source jid day = source @ '':'' @ str_uuid jid @ '':day:'' @ str_nat day"

definition charge_penalty ::
  "'a credit_db_scheme \<Rightarrow> uuid option \<Rightarrow> uuid \<Rightarrow> decimal \<Rightarrow> decimal option \<Rightarrow> nat \<Rightarrow> string \<Rightarrow> ('a credit_db_scheme \<times> decimal) res" where
  "charge_penalty s tenant jid amount cap day source =
     bind_res (require DBAPIError tenant) (\<lambda>tid.
       let key = Some (sla_key source jid day)
       in case first_row (filter (\<lambda>e. u_tenant_id e = tid \<and> u_idempotency_key e = key) (usage_credit_ledger s)) of
            Some e \<Rightarrow> Inr (s, \<bar>credit_delta e\<bar>)
          | None \<Rightarrow>
            let balance = (case first_row (billings_of s tid) of None \<Rightarrow> 0 | Some b \<Rightarrow> tb_credit_balance b);
                charge = (case cap of None \<Rightarrow> amount | Some c \<Rightarrow> min amount (max 0 (balance + c)))
            in if charge \<le> 0 then Inr (s, 0)
               else bind_res (insert_usage_entry s
                   ((blank_entry (next_uuid s) tid ''sla_breach_penalty'' (- charge) balance ''SLA breach penalty'')
                      \<lparr>u_job_id := Some jid, deduction_source := Some source, u_idempotency_key := key, u_source_type := Some ''service_job'',
                       u_source_id := Some (str_uuid jid), u_reason_code := Some ''sla_breach'', u_actor_role := Some ''system''\<rparr>)) (\<lambda>t.
                 Inr (t, charge)))"

definition penalise_and_compensate ::
  "'a remedy_db_scheme \<Rightarrow> service_job \<Rightarrow> decimal \<Rightarrow> nat \<Rightarrow> string \<Rightarrow> time \<Rightarrow> ('a remedy_db_scheme \<times> decimal) res" where
  "penalise_and_compensate s job amount day source now =
     (case (j_customer_id job, j_tenant_id job) of
        (Some customer, Some tid) \<Rightarrow>
          if amount \<le> 0 then Inr (s, 0)
          else bind_res (issue_provider_funded_customer_credit s
              \<lparr>rq_tenant_id = tid, rq_customer_id = customer, rq_amount = amount,
               rq_reference_type = (if source = ''sla_final_close'' then ''sla_final_close'' else ''sla_breach_day_'' @ str_nat day),
               rq_reference_id = j_id job, rq_reason = ''Service level breach'', rq_actor_id = None, rq_actor_role = ''system'',
               rq_request_id = ''-'', rq_booking_id = Some (j_booking_id job), rq_job_id = Some (j_id job)\<rparr> now) (\<lambda>(t, r).
            Inr (t, rr_provider_credit_deducted r))
      | (None, _) \<Rightarrow> Inr (s, 0)
      | (_, None) \<Rightarrow> Inl DBAPIError)"

text \<open>
  One penalty, by the policy's choice: with compensation, else without. A compensation that is refused falls back to the
  plain charge; a database error has ended the transaction, so the fallback fails as well. The flag says whether the
  customer was compensated.
\<close>

definition take_penalty ::
  "'a remedy_db_scheme \<Rightarrow> sla_terms \<Rightarrow> service_job \<Rightarrow> decimal \<Rightarrow> nat \<Rightarrow> string \<Rightarrow> time \<Rightarrow> ('a remedy_db_scheme \<times> decimal \<times> bool) res" where
  "take_penalty s terms job amount day source now =
     (let charge = bind_res (charge_penalty s (j_tenant_id job) (j_id job) amount (t_penalty_debt_cap terms) day source)
            (\<lambda>(t, taken). Inr (t, taken, False))
      in if t_penalty_to_customer terms \<and> j_customer_id job \<noteq> None
         then (case penalise_and_compensate s job amount day source now of
                 Inr (t, taken) \<Rightarrow> Inr (t, taken, taken > 0)
               | Inl DBAPIError \<Rightarrow> Inl DBAPIError
               | Inl _ \<Rightarrow> charge)
         else charge)"

subsection \<open>Closing a breached job\<close>

definition close_breached_job :: "'a exec_db_scheme \<Rightarrow> uuid \<Rightarrow> uuid \<Rightarrow> 'a exec_db_scheme" where
  "close_breached_job s jid bid =
     s\<lparr>service_jobs := update_where (\<lambda>j. j_id j = jid) (\<lambda>j. j\<lparr>j_status := JS_CANCELLED, j_assignment_status := ASSIGN_CANCELLED\<rparr>) (service_jobs s),
       service_bookings := update_where (\<lambda>b. b_id b = bid) (\<lambda>b. b\<lparr>b_status := JS_CANCELLED, b_assignment_status := ASSIGN_CANCELLED\<rparr>)
         (service_bookings s),
       job_assignment_rows := update_where (\<lambda>a. ja_job_id a = jid \<and> ja_is_current a)
         (\<lambda>a. a\<lparr>ja_is_current := False, ja_status := ASSIGN_CANCELLED\<rparr>) (job_assignment_rows s)\<rparr>"

definition charged_so_far :: "service_job \<Rightarrow> decimal" where
  "charged_so_far job = (case sla_penalty_charged (j_sla job) of None \<Rightarrow> 0 | Some c \<Rightarrow> c)"

definition breached_since :: "sla_clock \<Rightarrow> time \<Rightarrow> time option" where
  "breached_since c now = (case sla_breached_at c of None \<Rightarrow> Some now | Some t \<Rightarrow> Some t)"

definition edit_sla :: "'a exec_db_scheme \<Rightarrow> uuid \<Rightarrow> (sla_clock \<Rightarrow> sla_clock) \<Rightarrow> 'a exec_db_scheme" where
  "edit_sla s jid f = edit_job s jid (\<lambda>j. j\<lparr>j_sla := f (j_sla j)\<rparr>)"

subsection \<open>The sweep\<close>

definition sla_enrolled :: "service_job \<Rightarrow> bool" where
  "sla_enrolled j \<longleftrightarrow> sla_enforcement_started_at (j_sla j) \<noteq> None \<and> sla_stopped_at (j_sla j) = None \<and> j_arrival_verified_at j = None"

text \<open>\<^verbatim>\<open>ORDER BY scheduled_date NULLS LAST LIMIT\<close>, then the deadlines from the slot as it is now.\<close>

definition reconcile_enforced_deadlines :: "'a exec_db_scheme \<Rightarrow> sla_terms \<Rightarrow> nat \<Rightarrow> 'a exec_db_scheme" where
  "reconcile_enforced_deadlines s terms limit =
     (let open_jobs = filter (\<lambda>j. sla_enrolled j \<and> j_status j \<in> set BREACHABLE_STATUSES) (service_jobs s);
          ordered = sort_key (\<lambda>j. the (j_scheduled_date j)) (filter (\<lambda>j. j_scheduled_date j \<noteq> None) open_jobs) @
            filter (\<lambda>j. j_scheduled_date j = None) open_jobs;
          due = (\<lambda>j. compute_due_at (j_scheduled_date j) (j_scheduled_time_window j) (t_breach_hours terms))
      in fold (\<lambda>j s. case due j of None \<Rightarrow> s
           | Some d \<Rightarrow> edit_sla s (j_id j) (\<lambda>c. c\<lparr>sla_due_at := Some d,
               sla_next_penalty_at := Some (if sla_penalty_day_count (j_sla j) = 0 then d else d + 3600 * close_hours terms)\<rparr>))
         (take limit ordered) s)"

definition swept_statuses :: "sla_terms \<Rightarrow> job_status list" where
  "swept_statuses terms =
     (case filter (\<lambda>x. x \<in> set BREACHABLE_STATUSES)
             (case t_breachable_statuses terms of None \<Rightarrow> BREACHABLE_STATUSES | Some [] \<Rightarrow> BREACHABLE_STATUSES | Some xs \<Rightarrow> xs) of
        [] \<Rightarrow> BREACHABLE_STATUSES
      | xs \<Rightarrow> xs)"

definition sweep_due :: "'a exec_db_scheme \<Rightarrow> sla_terms \<Rightarrow> nat \<Rightarrow> time \<Rightarrow> service_job list" where
  "sweep_due s terms limit now =
     take limit (sort_key (\<lambda>j. the (sla_next_penalty_at (j_sla j)))
       (filter (\<lambda>j. sla_enrolled j \<and> (case sla_next_penalty_at (j_sla j) of None \<Rightarrow> False | Some t \<Rightarrow> t \<le> now) \<and>
          j_status j \<in> set (swept_statuses terms)) (service_jobs s)))"

definition sweep_penalty :: "'a billing_db_scheme \<Rightarrow> policy \<Rightarrow> service_job \<Rightarrow> decimal" where
  "sweep_penalty s p job =
     (if sla_penalty_day_count (j_sla job) \<ge> 1 \<and> fst (sla_job_type_override s (p_id p) (j_job_type_id job))
      then final_penalty_top_up (charged_so_far job) (t_total_penalty_amount (p_sla p))
      else initial_penalty s p job (sla_job_value s (j_id job)))"

definition sweep_job ::
  "'a remedy_db_scheme \<Rightarrow> policy \<Rightarrow> service_job \<Rightarrow> time \<Rightarrow> ('a remedy_db_scheme \<times> decimal \<times> bool) res" where
  "sweep_job s p job now =
     (let terms = p_sla p; final = sla_penalty_day_count (j_sla job) \<ge> 1; day = (if final then 2 else 1);
          penalty = sweep_penalty s p job
      in bind_res (if penalty > 0 then take_penalty s terms job penalty day (if final then ''sla_final_close'' else ''sla_breach'') now
                   else Inr (s, 0, False)) (\<lambda>(s1, taken, compensated).
         let s2 = edit_sla s1 (j_id job) (\<lambda>c. c\<lparr>sla_breached_at := breached_since c now, sla_penalty_day_count := day,
               sla_penalty_charged := Some (charged_so_far job + taken),
               sla_next_penalty_at := (if final then None else map_option (\<lambda>d. d + 3600 * close_hours terms) (sla_due_at c)),
               sla_stopped_at := (if final then Some now else sla_stopped_at c)\<rparr>)
         in Inr (if final \<and> t_auto_cancel terms then close_breached_job s2 (j_id job) (j_booking_id job) else s2, taken, compensated)))"

record sweep_result =
  sw_breached :: nat
  sw_penalised :: nat
  sw_compensated :: nat
  sw_suspended :: nat
  sw_reinstated :: nat
  sw_cancelled_jobs :: "uuid list"
  sw_affected :: "uuid option list"

definition no_sweep :: sweep_result where
  "no_sweep = \<lparr>sw_breached = 0, sw_penalised = 0, sw_compensated = 0, sw_suspended = 0, sw_reinstated = 0, sw_cancelled_jobs = [],
     sw_affected = []\<rparr>"

fun sweep_loop ::
  "'a remedy_db_scheme \<Rightarrow> policy \<Rightarrow> time \<Rightarrow> sweep_result \<Rightarrow> service_job list \<Rightarrow> ('a remedy_db_scheme \<times> sweep_result) res" where
  "sweep_loop s p now r [] = Inr (s, r)"
| "sweep_loop s p now r (job # jobs) =
     bind_res (sweep_job s p job now) (\<lambda>(t, taken, compensated).
       let closed = sla_penalty_day_count (j_sla job) \<ge> 1 \<and> t_auto_cancel (p_sla p)
       in sweep_loop t p now (r\<lparr>sw_breached := Suc (sw_breached r),
            sw_penalised := sw_penalised r + (if taken > 0 then 1 else 0),
            sw_compensated := sw_compensated r + (if compensated then 1 else 0),
            sw_cancelled_jobs := sw_cancelled_jobs r @ (if closed then [j_id job] else []),
            sw_affected := (if taken > 0 \<or> closed then List.insert (j_tenant_id job) (sw_affected r) else sw_affected r)\<rparr>) jobs)"

definition health_suspendable :: "sla_terms \<Rightarrow> tenant_standing \<Rightarrow> bool" where
  "health_suspendable terms x \<longleftrightarrow> tst_status x \<noteq> ''suspended'' \<and>
     (case (tst_health x, t_health_suspension_threshold terms) of (Some h, Some limit) \<Rightarrow> h < limit | _ \<Rightarrow> False)"

definition apply_health_suspensions :: "'a sla_db_scheme \<Rightarrow> sla_terms \<Rightarrow> time \<Rightarrow> 'a sla_db_scheme \<times> nat" where
  "apply_health_suspensions s terms now =
     (if t_health_suspension_threshold terms = None then (s, 0)
      else case t_health_suspension_days terms of
        None \<Rightarrow> (s, 0)
      | Some days \<Rightarrow>
        if days = 0 then (s, 0)
        else (s\<lparr>tenant_standings := update_where (health_suspendable terms) (\<lambda>x. x\<lparr>tst_status := ''suspended'', tst_suspended_at := Some now,
                  tst_suspended_until := Some (now + 86400 * days), tst_reason := Some ''health_below_threshold''\<rparr>) (tenant_standings s)\<rparr>,
              length (filter (health_suspendable terms) (tenant_standings s))))"

definition suspension_served :: "time \<Rightarrow> tenant_standing \<Rightarrow> bool" where
  "suspension_served now x \<longleftrightarrow> (case tst_suspended_until x of None \<Rightarrow> False | Some t \<Rightarrow> t \<le> now) \<and>
     tst_reason x = Some ''health_below_threshold''"

definition reinstate_due :: "'a sla_db_scheme \<Rightarrow> sla_terms \<Rightarrow> time \<Rightarrow> 'a sla_db_scheme \<times> nat" where
  "reinstate_due s terms now =
     (s\<lparr>tenant_standings := update_where (suspension_served now) (\<lambda>x. x\<lparr>tst_status := ''active'', tst_suspended_until := None,
          tst_reason := None, tst_health := (case t_health_reinstatement_score terms of None \<Rightarrow> tst_health x | Some h \<Rightarrow> Some h)\<rparr>)
          (tenant_standings s)\<rparr>,
      length (filter (suspension_served now) (tenant_standings s)))"

definition sweep ::
  "('a sla_db_scheme \<Rightarrow> uuid option \<Rightarrow> 'a sla_db_scheme) \<Rightarrow> 'a sla_db_scheme \<Rightarrow> nat \<Rightarrow> time \<Rightarrow> ('a sla_db_scheme \<times> sweep_result) res" where
  "sweep refresh s limit now =
     (case sla_policy s of
        None \<Rightarrow> Inr (s, no_sweep)
      | Some p \<Rightarrow>
        let s1 = reconcile_enforced_deadlines s (p_sla p) limit
        in bind_res (sweep_loop s1 p now no_sweep (sweep_due s1 (p_sla p) limit now)) (\<lambda>(s2, r).
             let s3 = fold (\<lambda>tid x. refresh x tid) (sw_affected r) s2;
                 (s4, suspended) = apply_health_suspensions s3 (p_sla p) now;
                 (s5, reinstated) = reinstate_due s4 (p_sla p) now
             in Inr (s5, r\<lparr>sw_suspended := suspended, sw_reinstated := reinstated\<rparr>)))"

subsection \<open>A cancelled no-show\<close>

definition settlement_target :: "'a billing_db_scheme \<Rightarrow> policy \<Rightarrow> service_job \<Rightarrow> decimal" where
  "settlement_target s p job = max (initial_penalty s p job (sla_job_value s (j_id job))) (t_total_penalty_amount (p_sla p))"

definition settlement_penalty :: "'a billing_db_scheme \<Rightarrow> policy \<Rightarrow> service_job \<Rightarrow> decimal" where
  "settlement_penalty s p job =
     (if fst (sla_job_type_override s (p_id p) (j_job_type_id job)) then max 0 (settlement_target s p job - charged_so_far job) else 0)"

definition settled_as :: "'a exec_db_scheme \<Rightarrow> uuid \<Rightarrow> decimal \<Rightarrow> time \<Rightarrow> 'a exec_db_scheme" where
  "settled_as s jid charged now = edit_sla s jid (\<lambda>c. c\<lparr>sla_breached_at := breached_since c now, sla_penalty_day_count := 2,
     sla_penalty_charged := Some charged, sla_next_penalty_at := None, sla_stopped_at := Some now\<rparr>)"

definition settle_no_arrival_close :: "'a remedy_db_scheme \<Rightarrow> uuid \<Rightarrow> time \<Rightarrow> ('a remedy_db_scheme \<times> decimal) res" where
  "settle_no_arrival_close s jid now =
     (case sla_policy s of
        None \<Rightarrow> Inr (s, 0)
      | Some p \<Rightarrow>
        (case first_row (filter (\<lambda>j. j_id j = jid) (service_jobs s)) of
           None \<Rightarrow> Inr (s, 0)
         | Some job \<Rightarrow>
           bind_res (if settlement_penalty s p job > 0 then take_penalty s (p_sla p) job (settlement_penalty s p job) 2 ''sla_final_close'' now
                     else Inr (s, 0, False))
             (\<lambda>(s1, taken, _). Inr (settled_as s1 jid (charged_so_far job + taken) now, taken))))"

text \<open>The settlement as the cancellation of a job calls it.\<close>

definition settle_cancellation :: "time \<Rightarrow> 'a remedy_db_scheme \<Rightarrow> uuid \<Rightarrow> 'a remedy_db_scheme res" where
  "settle_cancellation now s jid = bind_res (settle_no_arrival_close s jid now) (\<lambda>(t, _). Inr t)"

subsection \<open>A stage that stalled\<close>

record stage_outcome =
  so_eligible :: bool
  so_penalised :: bool
  so_closed :: bool

definition stage_source :: "string \<Rightarrow> job_status \<times> time \<Rightarrow> string" where
  "stage_source pre token = pre @ '':'' @ status_text (fst token) @ '':'' @ str_int (snd token)"

definition stage_event_of :: "'a sla_db_scheme \<Rightarrow> uuid \<Rightarrow> string \<Rightarrow> job_status \<times> time \<Rightarrow> stage_event option" where
  "stage_event_of s jid ty token =
     first_row (filter (\<lambda>e. sv_job_id e = jid \<and> sv_event_type e = ty \<and> sv_token e = token) (stage_events s))"

definition log_stage_event :: "'a sla_db_scheme \<Rightarrow> service_job \<Rightarrow> string \<Rightarrow> job_status \<Rightarrow> job_status \<times> time \<Rightarrow> decimal \<Rightarrow> 'a sla_db_scheme" where
  "log_stage_event s job ty new token amount =
     (log_event s job ty (j_status job) new)\<lparr>stage_events := stage_events s @
        [\<lparr>sv_job_id = j_id job, sv_event_type = ty, sv_token = token, sv_amount = amount\<rparr>]\<rparr>"

text \<open>A charge of the stage, added to what the job was charged.\<close>

definition charge_stage ::
  "'a sla_db_scheme \<Rightarrow> sla_terms \<Rightarrow> service_job \<Rightarrow> decimal \<Rightarrow> nat \<Rightarrow> string \<Rightarrow> (sla_clock \<Rightarrow> sla_clock) \<Rightarrow> ('a sla_db_scheme \<times> decimal) res" where
  "charge_stage s terms job amount day source f =
     bind_res (charge_penalty s (j_tenant_id job) (j_id job) amount (t_penalty_debt_cap terms) day source) (\<lambda>(t, taken).
       Inr (if taken > 0
            then edit_sla t (j_id job) (\<lambda>c. (f c)\<lparr>sla_penalty_charged :=
                   Some ((case sla_penalty_charged c of None \<Rightarrow> 0 | Some x \<Rightarrow> x) + taken)\<rparr>)
            else t, taken))"

definition stage_first_due :: "sla_terms \<Rightarrow> service_job \<Rightarrow> time \<Rightarrow> int \<Rightarrow> time option" where
  "stage_first_due terms job entered_at stage_limit_minutes =
     map_option (\<lambda>d. max d (entered_at + 60 * max 1 stage_limit_minutes))
       (compute_due_at (j_scheduled_date job) (j_scheduled_time_window job) (t_breach_hours terms))"

definition enforce_stalled_provider_stage ::
  "('a sla_db_scheme \<Rightarrow> uuid option \<Rightarrow> 'a sla_db_scheme) \<Rightarrow> 'a sla_db_scheme \<Rightarrow> service_job \<Rightarrow> decimal option \<Rightarrow> time \<Rightarrow> int \<Rightarrow> time \<Rightarrow>
   ('a sla_db_scheme \<times> stage_outcome) res" where
  "enforce_stalled_provider_stage refresh s job job_value entered_at stage_limit_minutes now =
     (let stays = (\<lambda>eligible. \<lparr>so_eligible = eligible, so_penalised = False, so_closed = False\<rparr>) in
      if j_status job \<notin> set PROVIDER_PROGRESS_STATUSES \<or> stage_waiting_on_customer s job then Inr (s, stays False)
      else case sla_policy s of
        None \<Rightarrow> Inr (s, stays False)
      | Some p \<Rightarrow>
        (case stage_first_due (p_sla p) job entered_at stage_limit_minutes of
           None \<Rightarrow> Inr (s, stays False)
         | Some first_due \<Rightarrow>
           if now < first_due then Inr (s, stays True)
           else
             let terms = p_sla p; token = (j_status job, entered_at);
                 enabled = fst (sla_job_type_override s (p_id p) (j_job_type_id job));
                 final_due = first_due + 3600 * close_hours terms
             in bind_res (case stage_event_of s (j_id job) ''job_stage_sla_penalty'' token of
                    Some e \<Rightarrow> Inr (s, \<bar>sv_amount e\<bar>, False)
                  | None \<Rightarrow> bind_res (charge_stage s terms job (initial_penalty s p job job_value) 1 (stage_source ''stage_sla'' token)
                        (\<lambda>c. c\<lparr>sla_breached_at := breached_since c now\<rparr>)) (\<lambda>(t, taken).
                      Inr (log_stage_event t job ''job_stage_sla_penalty'' (j_status job) token taken, taken, taken > 0))) (\<lambda>(s1, first_taken, penalised).
                if now < final_due
                then Inr (if penalised then refresh s1 (j_tenant_id job) else s1,
                          \<lparr>so_eligible = True, so_penalised = penalised, so_closed = False\<rparr>)
                else if stage_event_of s1 (j_id job) ''job_stage_sla_closed'' token \<noteq> None
                then Inr (s1, \<lparr>so_eligible = True, so_penalised = penalised, so_closed = False\<rparr>)
                else
                  let top_up = (if enabled then final_penalty_top_up first_taken (t_total_penalty_amount terms) else 0)
                  in bind_res (if top_up > 0 then charge_stage s1 terms job top_up 2 (stage_source ''stage_sla_final'' token) (\<lambda>c. c)
                               else Inr (s1, 0)) (\<lambda>(s2, final_taken).
                     let closed = t_auto_cancel terms;
                         s3 = log_stage_event s2 job ''job_stage_sla_closed'' (if closed then JS_CANCELLED else j_status job) token final_taken;
                         s4 = (if closed then close_breached_job s3 (j_id job) (j_booking_id job) else s3);
                         charged = penalised \<or> final_taken > 0
                     in Inr (if charged \<or> closed then refresh s4 (j_tenant_id job) else s4,
                             \<lparr>so_eligible = True, so_penalised = charged, so_closed = closed\<rparr>)))))"

subsection \<open>A false arrival (execution/arrival_verification.py)\<close>

definition close_false_arrival ::
  "('a sla_db_scheme \<Rightarrow> uuid option \<Rightarrow> 'a sla_db_scheme) \<Rightarrow> 'a sla_db_scheme \<Rightarrow> service_job \<Rightarrow> decimal \<Rightarrow> time \<Rightarrow> 'a sla_db_scheme res" where
  "close_false_arrival refresh s job penalty now =
     bind_res (charge_penalty s (j_tenant_id job) (j_id job) penalty None 1 ''false_arrival'') (\<lambda>(t, taken).
       let s1 = edit_sla t (j_id job) (\<lambda>c. c\<lparr>sla_penalty_charged := Some ((case sla_penalty_charged c of None \<Rightarrow> 0 | Some x \<Rightarrow> x) + taken),
                  sla_stopped_at := Some now, sla_next_penalty_at := None\<rparr>);
           s2 = close_breached_job s1 (j_id job) (j_booking_id job);
           s3 = log_event s2 job ''false_arrival_detected'' (j_status job) JS_CANCELLED
       in Inr (refresh s3 (j_tenant_id job)))"

subsection \<open>The waiver\<close>

text \<open>
  The columns of the table of customer credits (customer_credits/models.py), and those the revocation reads. A query that
  names a column the table does not have is a database error.
\<close>

definition CUSTOMER_SERVICE_CREDIT_COLUMNS :: "string list" where
  "CUSTOMER_SERVICE_CREDIT_COLUMNS =
     [''id'', ''credit_number'', ''customer_id'', ''tenant_id'', ''booking_id'', ''job_id'', ''dispute_id'', ''settlement_id'', ''amount'',
      ''remaining_amount'', ''currency'', ''credit_type'', ''source'', ''status'', ''issued_by_admin_id'', ''issued_reason'',
      ''customer_message'', ''internal_note'', ''valid_from'', ''expires_at'', ''used_at'', ''cancelled_at'', ''cancelled_by_admin_id'',
      ''cancel_reason'', ''created_at'', ''updated_at'']"

definition REVOCATION_COLUMNS :: "string list" where
  "REVOCATION_COLUMNS = [''id'', ''remaining_amount'', ''reference_type'', ''reference_id'', ''status'']"

text \<open>
  What the two statements mean on a table that has the columns: \<open>reference\<close> answers the columns \<^verbatim>\<open>reference_type\<close> and
  \<^verbatim>\<open>reference_id\<close> of a row.
\<close>

definition sla_reference :: "string \<Rightarrow> bool" where
  "sla_reference ty \<longleftrightarrow> take 10 ty = ''sla_breach'' \<or> ty = ''sla_final_close''"

definition revoke_unspent_customer_credit ::
  "string list \<Rightarrow> (customer_credit \<Rightarrow> string \<times> uuid) \<Rightarrow> 'a remedy_db_scheme \<Rightarrow> uuid \<Rightarrow> ('a remedy_db_scheme \<times> decimal) res" where
  "revoke_unspent_customer_credit columns reference s jid =
     (if \<not> set REVOCATION_COLUMNS \<subseteq> set columns then Inl DBAPIError
      else
        let hit = (\<lambda>c. sla_reference (fst (reference c)) \<and> snd (reference c) = jid \<and> cc_status c = CS_ACTIVE \<and> cc_remaining c > 0)
        in Inr (s\<lparr>customer_credits := update_where hit (\<lambda>c. c\<lparr>cc_remaining := 0, cc_status := CS_REVOKED\<rparr>) (customer_credits s)\<rparr>,
                sum_list (map cc_remaining (filter hit (customer_credits s)))))"

definition waive_penalty ::
  "string list \<Rightarrow> (customer_credit \<Rightarrow> string \<times> uuid) \<Rightarrow> 'a remedy_db_scheme \<Rightarrow> uuid \<Rightarrow> uuid option \<Rightarrow> time \<Rightarrow>
   ('a remedy_db_scheme \<times> decimal \<times> decimal) res" where
  "waive_penalty columns reference s jid actor now =
     bind_res (require (ServiceOSException ''NOT_FOUND'') (first_row (filter (\<lambda>j. j_id j = jid) (service_jobs s)))) (\<lambda>job.
       if sla_penalty_waived_at (j_sla job) \<noteq> None then Inl (ServiceOSException ''SLA_PENALTY_ALREADY_WAIVED'')
       else if charged_so_far job \<le> 0 then Inl (ServiceOSException ''SLA_PENALTY_NOT_CHARGED'')
       else bind_res (require DBAPIError (j_tenant_id job)) (\<lambda>tid.
         let charged = charged_so_far job;
             balance = (case first_row (billings_of s tid) of None \<Rightarrow> 0 | Some b \<Rightarrow> tb_credit_balance b);
             e = (blank_entry (next_uuid s) tid ''sla_penalty_waived'' charged balance ''Penalty waived'')
                   \<lparr>u_job_id := Some jid, deduction_source := Some ''sla_waiver'', u_created_by := actor\<rparr>
         in bind_res (insert_usage_entry s e) (\<lambda>s1.
            bind_res (if j_customer_id job = None then Inr (s1, 0) else revoke_unspent_customer_credit columns reference s1 jid)
              (\<lambda>(s2, revoked).
                Inr (edit_sla s2 jid (\<lambda>c. c\<lparr>sla_penalty_waived_at := Some now\<rparr>), charged, revoked)))))"

subsection \<open>What a penalty changes\<close>

definition money_only :: "'a exec_db_scheme \<Rightarrow> 'a exec_db_scheme \<Rightarrow> bool" where
  "money_only s t \<longleftrightarrow> service_jobs t = service_jobs s \<and> service_bookings t = service_bookings s \<and>
     execution_events t = execution_events s \<and> job_assignment_rows t = job_assignment_rows s \<and>
     stock_balances t = stock_balances s \<and> stock_transactions t = stock_transactions s \<and>
     stock_reservations t = stock_reservations s \<and> next_uuid s \<le> next_uuid t"

lemma money_only_refl [simp]: "money_only s s"
  by (simp add: money_only_def)

lemma insert_usage_entry_form:
  "insert_usage_entry s e = Inr t \<Longrightarrow> t = write_entry s e"
  by (simp add: insert_usage_entry_def split: if_splits)

lemma write_entry_money_only [simp]: "money_only s (write_entry s e)"
  by (simp add: money_only_def write_entry_def)

lemma grant_credit_money_only [simp]: "money_only s (grant_credit s c bk rt rid)"
  by (simp add: money_only_def grant_credit_def)

lemma money_only_trans: "money_only s t \<Longrightarrow> money_only t u \<Longrightarrow> money_only s u"
  by (simp add: money_only_def)

lemma charge_penalty_cases:
  assumes "charge_penalty s (Some tid) jid amount cap day source = Inr (t, taken)"
  obtains (replay) e where "e \<in> set (usage_credit_ledger s)" "u_tenant_id e = tid" "u_idempotency_key e = Some (sla_key source jid day)"
      "t = s" "taken = \<bar>credit_delta e\<bar>"
  | (free) "t = s" "taken = 0" "cap = None \<Longrightarrow> amount \<le> 0"
  | (charged) e where "t = write_entry s e" "u_tenant_id e = tid" "credit_delta e = - taken" "u_balance_after e = credit_bal s tid - taken"
      "u_idempotency_key e = Some (sla_key source jid day)" "0 < taken" "taken \<le> amount"
      "\<And>c. cap = Some c \<Longrightarrow> taken \<le> max 0 (credit_bal s tid + c)" "cap = None \<Longrightarrow> taken = amount"
proof (cases "first_row (filter (\<lambda>e. u_tenant_id e = tid \<and> u_idempotency_key e = Some (sla_key source jid day)) (usage_credit_ledger s))")
  case (Some e)
  with first_row_Some_set [OF Some] assms show thesis by (intro replay [of e]) (auto simp: charge_penalty_def Let_def)
next
  case None
  let ?charge = "case cap of None \<Rightarrow> amount | Some c \<Rightarrow> min amount (max 0 (credit_bal s tid + c))"
  have bal: "(case first_row (billings_of s tid) of None \<Rightarrow> 0 | Some b \<Rightarrow> tb_credit_balance b) = credit_bal s tid"
    by (simp add: credit_bal_def)
  show thesis
  proof (cases "?charge \<le> 0")
    case True
    with None assms show thesis by (intro free) (auto simp: charge_penalty_def Let_def bal)
  next
    case False
    let ?e = "(blank_entry (next_uuid s) tid ''sla_breach_penalty'' (- ?charge) (credit_bal s tid) ''SLA breach penalty'')
      \<lparr>u_job_id := Some jid, deduction_source := Some source, u_idempotency_key := Some (sla_key source jid day),
       u_source_type := Some ''service_job'', u_source_id := Some (str_uuid jid), u_reason_code := Some ''sla_breach'',
       u_actor_role := Some ''system''\<rparr>"
    from False None assms have "bind_res (insert_usage_entry s ?e) (\<lambda>t. Inr (t, ?charge)) = Inr (t, taken)"
      by (simp add: charge_penalty_def Let_def bal)
    then have "insert_usage_entry s ?e = Inr t" and taken: "taken = ?charge" by (auto elim!: bind_InrE)
    then have t: "t = write_entry s ?e" by (auto dest: insert_usage_entry_form)
    have "0 < taken" using taken False by simp
    then show thesis
      by (intro charged [OF t]) (auto simp: taken blank_entry_def split: option.splits)
  qed
qed

lemma charge_penalty_money_only:
  assumes "charge_penalty s tenant jid amount cap day source = Inr (t, taken)"
  shows "money_only s t"
proof (cases tenant)
  case None
  with assms show ?thesis by (simp add: charge_penalty_def)
next
  case (Some tid)
  from assms [unfolded Some] show ?thesis by (cases rule: charge_penalty_cases) simp_all
qed

lemma issue_provider_funded_money_only:
  assumes "issue_provider_funded_customer_credit s rq now = Inr (t, r)"
  shows "money_only s t"
proof (cases "issued_for s (rq_reference_type rq) (rq_reference_id rq)")
  case (Some e)
  with assms show ?thesis by (auto simp: issue_provider_funded_customer_credit_def Let_def split: if_splits)
next
  case None
  from assms None obtain s1 c where
    s1: "(case first_row (billings_of s (rq_tenant_id rq)) of None \<Rightarrow> Inr s
       | Some b \<Rightarrow> insert_usage_entry s (remedy_entry s rq (two (tb_credit_balance b)) (two (rq_amount rq)))) = Inr s1"
    and t: "t = grant_credit s1 c (rq_booking_id rq) (rq_reference_type rq) (Some (rq_reference_id rq))"
    unfolding issue_provider_funded_customer_credit_def Let_def by (auto elim!: bind_InrE split: if_split_asm)
  from s1 have "money_only s s1" by (auto dest!: insert_usage_entry_form split: option.splits)
  with t show ?thesis by (auto intro: money_only_trans)
qed

lemma penalise_and_compensate_money_only:
  "penalise_and_compensate s job amount day source now = Inr (t, taken) \<Longrightarrow> money_only s t"
  unfolding penalise_and_compensate_def
  by (auto elim!: bind_InrE split: option.split_asm if_split_asm dest: issue_provider_funded_money_only)

lemma take_penalty_cases:
  assumes "take_penalty s terms job amount day source now = Inr (t, taken, compensated)"
  obtains (compensated) "t_penalty_to_customer terms" "penalise_and_compensate s job amount day source now = Inr (t, taken)"
  | (charged) "charge_penalty s (j_tenant_id job) (j_id job) amount (t_penalty_debt_cap terms) day source = Inr (t, taken)"
  using assms unfolding take_penalty_def Let_def
  by (auto elim!: bind_InrE split: if_split_asm sum.split_asm error.split_asm prod.split_asm)

lemma take_penalty_money_only: "take_penalty s terms job amount day source now = Inr (t, taken, compensated) \<Longrightarrow> money_only s t"
  by (erule take_penalty_cases) (auto dest: penalise_and_compensate_money_only charge_penalty_money_only)

lemma edit_sla_frame [simp]:
  "execution_events (edit_sla s i f) = execution_events s" "stock_balances (edit_sla s i f) = stock_balances s"
  "stock_transactions (edit_sla s i f) = stock_transactions s" "stock_reservations (edit_sla s i f) = stock_reservations s"
  "next_uuid (edit_sla s i f) = next_uuid s" "usage_credit_ledger (edit_sla s i f) = usage_credit_ledger s"
  "tenant_billings (edit_sla s i f) = tenant_billings s" "status_of_job (edit_sla s i f) = status_of_job s"
  unfolding edit_sla_def by (simp_all add: edit_job_def, simp add: edit_job_def [symmetric] status_of_edit_job)

lemma status_of_job_money_only: "money_only s t \<Longrightarrow> status_of_job t = status_of_job s"
  by (simp add: money_only_def status_of_job_def fun_eq_iff)

lemma settle_cases:
  assumes "settle_no_arrival_close s jid now = Inr (t, taken)"
  obtains (skip) "t = s" "taken = 0" "sla_policy s = None \<or> first_row (filter (\<lambda>j. j_id j = jid) (service_jobs s)) = None"
  | (settled) p job s1 compensated where "sla_policy s = Some p" "first_row (filter (\<lambda>j. j_id j = jid) (service_jobs s)) = Some job"
      "(if settlement_penalty s p job > 0 then take_penalty s (p_sla p) job (settlement_penalty s p job) 2 ''sla_final_close'' now
        else Inr (s, 0, False)) = Inr (s1, taken, compensated)"
      "t = settled_as s1 jid (charged_so_far job + taken) now" "money_only s s1"
proof (cases "sla_policy s")
  case None
  with assms show thesis by (intro skip) (auto simp: settle_no_arrival_close_def)
next
  case p: (Some p)
  show thesis
  proof (cases "first_row (filter (\<lambda>j. j_id j = jid) (service_jobs s))")
    case None
    with assms p show thesis by (intro skip) (auto simp: settle_no_arrival_close_def)
  next
    case (Some job)
    with assms p obtain s1 compensated where
      r: "(if settlement_penalty s p job > 0 then take_penalty s (p_sla p) job (settlement_penalty s p job) 2 ''sla_final_close'' now
        else Inr (s, 0, False)) = Inr (s1, taken, compensated)"
      and t: "t = settled_as s1 jid (charged_so_far job + taken) now"
      unfolding settle_no_arrival_close_def by (auto elim!: bind_InrE split del: if_split)
    from r have "money_only s s1" by (auto dest: take_penalty_money_only split: if_split_asm)
    with p Some r t show thesis by (rule settled)
  qed
qed

lemma close_breached_job_status: "status_of_job s jid \<noteq> None \<Longrightarrow> status_of_job (close_breached_job s jid bid) jid = Some JS_CANCELLED"
  by (cases "first_row (filter (\<lambda>j. j_id j = jid) (service_jobs s))")
    (auto simp: close_breached_job_def status_of_job_def first_row_update_where dest: first_row_Some_set)

text \<open>What a job was charged, over the operations.\<close>

definition charged_of :: "'a job_db_scheme \<Rightarrow> uuid \<Rightarrow> decimal" where
  "charged_of s i = (case first_row (filter (\<lambda>j. j_id j = i) (service_jobs s)) of None \<Rightarrow> 0 | Some j \<Rightarrow> charged_so_far j)"

lemma job_row_edit:
  assumes "\<And>j. j_id (f j) = j_id j"
  shows "first_row (filter (\<lambda>j. j_id j = i) (service_jobs (edit_job s k f))) =
    map_option (\<lambda>j. if j_id j = k then f j else j) (first_row (filter (\<lambda>j. j_id j = i) (service_jobs s)))"
  using assms by (simp add: edit_job_def first_row_update_where)

lemma edit_job_billings [simp]: "tenant_billings (edit_job s k f) = tenant_billings s"
  by (simp add: edit_job_def)

lemma charged_of_edit_job:
  assumes "\<And>j. j_id (f j) = j_id j" "\<And>j. j_sla (f j) = j_sla j"
  shows "charged_of (edit_job s k f) = charged_of s"
  using assms by (auto simp: charged_of_def job_row_edit [OF assms(1)] charged_so_far_def fun_eq_iff split: option.split)

lemma charged_of_tables: "service_jobs t = service_jobs s \<Longrightarrow> charged_of t = charged_of s"
  by (simp add: charged_of_def fun_eq_iff)

lemma charged_of_settled:
  assumes "first_row (filter (\<lambda>j. j_id j = i) (service_jobs s)) = Some job"
  shows "charged_of (settled_as s i c now) i = c"
proof -
  have "j_id job = i" using first_row_Some_set [OF assms] by simp
  with assms show ?thesis
    by (simp add: settled_as_def edit_sla_def charged_of_def job_row_edit charged_so_far_def)
qed

lemma charged_of_moved: "charged_of (moved_to s job new ty) = charged_of s"
proof -
  have "service_jobs (moved_to s job new ty) = service_jobs (edit_job s (j_id job) (\<lambda>j. j\<lparr>j_status := new\<rparr>))"
    by (simp add: moved_to_def sync_booking_status_def log_event_def)
  then have "charged_of (moved_to s job new ty) = charged_of (edit_job s (j_id job) (\<lambda>j. j\<lparr>j_status := new\<rparr>))" by (rule charged_of_tables)
  then show ?thesis by (simp add: charged_of_edit_job)
qed

lemma set_status_money:
  assumes "set_status s job new ty actor now = Inr t"
  shows "charged_of t = charged_of s" "tenant_billings t = tenant_billings s"
proof -
  from assms consider "t = s" | "t = moved_to s job new ty" by (cases rule: set_status_cases) blast+
  then have "charged_of t = charged_of s \<and> tenant_billings t = tenant_billings s"
    by cases (simp_all add: charged_of_moved, simp add: moved_to_def sync_booking_status_def log_event_def edit_job_def)
  then show "charged_of t = charged_of s" "tenant_billings t = tenant_billings s" by blast+
qed

lemma settled_as_money [simp]:
  "tenant_billings (settled_as s i c now) = tenant_billings s" "usage_credit_ledger (settled_as s i c now) = usage_credit_ledger s"
  by (simp_all add: settled_as_def)

lemma get_job_row:
  assumes "get_job s jid tid = Inr job" "distinct (map j_id (service_jobs s))"
  shows "first_row (filter (\<lambda>j. j_id j = jid) (service_jobs s)) = Some job \<and> j_tenant_id job = Some tid"
proof -
  have "job \<in> set (service_jobs s)" "j_id job = jid" "j_tenant_id job = Some tid"
    using assms(1) by (auto simp: get_job_def res_simps dest!: first_row_Some_set)
  with filter_key_single [OF assms(2), of job] show ?thesis by simp
qed

text \<open>The first charge under a key.\<close>

lemma charge_penalty_first:
  assumes "charge_penalty s (Some tid) jid amount cap day source = Inr (t, taken)"
    and "Some (sla_key source jid day) \<notin> u_idempotency_key ` set (usage_credit_ledger s)" and "first_row (billings_of s tid) \<noteq> None"
  shows "0 \<le> taken" "taken \<le> max 0 amount" "credit_bal t = (credit_bal s)(tid := credit_bal s tid - taken)"
    "cap = None \<Longrightarrow> 0 \<le> amount \<Longrightarrow> taken = amount" "cap = Some c \<Longrightarrow> taken \<le> max 0 (credit_bal s tid + c)"
proof -
  have "0 \<le> taken \<and> taken \<le> max 0 amount \<and> credit_bal t = (credit_bal s)(tid := credit_bal s tid - taken) \<and>
    (cap = None \<longrightarrow> 0 \<le> amount \<longrightarrow> taken = amount) \<and> (cap = Some c \<longrightarrow> taken \<le> max 0 (credit_bal s tid + c))"
    using assms(1)
  proof (cases rule: charge_penalty_cases)
    case (replay e)
    with assms(2) show ?thesis by (metis image_eqI)
  next
    case free
    then show ?thesis by auto
  next
    case (charged e)
    with credit_bal_write_entry [where s = s and e = e] assms(3) show ?thesis by auto
  qed
  then show "0 \<le> taken" "taken \<le> max 0 amount" "credit_bal t = (credit_bal s)(tid := credit_bal s tid - taken)"
    "cap = None \<Longrightarrow> 0 \<le> amount \<Longrightarrow> taken = amount" "cap = Some c \<Longrightarrow> taken \<le> max 0 (credit_bal s tid + c)" by blast+
qed

subsection \<open>Sample breaches\<close>

definition uncapped_terms :: sla_terms where
  "uncapped_terms = demo_terms\<lparr>t_penalty_debt_cap := None\<rparr>"

definition demo_clock :: "nat \<Rightarrow> decimal \<Rightarrow> sla_clock" where
  "demo_clock day charged = \<lparr>sla_due_at = Some 0, sla_next_penalty_at = Some 5, sla_stopped_at = None, sla_enforcement_started_at = Some 0,
     sla_breached_at = Some 1, sla_penalty_day_count = day, sla_penalty_charged = Some charged, sla_penalty_waived_at = None\<rparr>"

definition demo_late_job :: "nat \<Rightarrow> decimal \<Rightarrow> service_job" where
  "demo_late_job day charged = (demo_site_job JS_ACCEPTED)\<lparr>j_arrival_verified_at := None, j_sla := demo_clock day charged\<rparr>"

definition demo_close_entry :: "decimal \<Rightarrow> credit_entry" where
  "demo_close_entry a = (blank_entry 150 4 ''sla_breach_penalty'' (- a) 0 ''late'')\<lparr>u_job_id := Some 1,
     u_idempotency_key := Some (sla_key ''sla_final_close'' 1 2)\<rparr>"

definition demo_breach :: "sla_terms \<Rightarrow> nat \<Rightarrow> decimal \<Rightarrow> credit_entry list \<Rightarrow> remedy_db" where
  "demo_breach terms day charged entries = (demo_remedies [])
     \<lparr>service_jobs := [demo_late_job day charged], service_bookings := [demo_booking], verticals := [\<lparr>v_id = 2, v_key = HS_KEY\<rparr>],
      policies := [demo_policy\<lparr>p_sla := terms\<rparr>], job_type_rules := [], job_workflows := [demo_site_workflow],
      usage_credit_ledger := entries, invoices := [], execution_events := [], fee_charges := []\<rparr>"

lemma demo_breach_simps [simp]:
  "service_jobs (demo_breach tm d c es) = [demo_late_job d c]" "service_bookings (demo_breach tm d c es) = [demo_booking]"
  "verticals (demo_breach tm d c es) = [\<lparr>v_id = 2, v_key = HS_KEY\<rparr>]" "policies (demo_breach tm d c es) = [demo_policy\<lparr>p_sla := tm\<rparr>]"
  "job_type_rules (demo_breach tm d c es) = []" "job_workflows (demo_breach tm d c es) = [demo_site_workflow]"
  "usage_credit_ledger (demo_breach tm d c es) = es" "invoices (demo_breach tm d c es) = []" "execution_events (demo_breach tm d c es) = []"
  "tenant_billings (demo_breach tm d c es) = [\<lparr>tb_tenant_id = 4, tb_credit_balance = 40\<rparr>]" "next_uuid (demo_breach tm d c es) = 200"
  by (simp_all add: demo_breach_def)

lemma demo_breach_types [simp]:
  "master_service_job_types (demo_breach tm d c es) = [\<lparr>lk_id = 109, lk_master_service_id = 6, lk_job_type_id = 11, lk_is_active = True\<rparr>]"
  by (simp add: demo_breach_def demo_remedies_def remedy_db.defs exec_db.defs demo_site_def demo_catalogue_def demo_stock_def
      inv_db.defs chk_db.defs)

lemma demo_late_job_simps [simp]:
  "j_id (demo_late_job d c) = 1" "j_tenant_id (demo_late_job d c) = Some 4" "j_status (demo_late_job d c) = JS_ACCEPTED"
  "j_customer_id (demo_late_job d c) = Some 3" "j_booking_id (demo_late_job d c) = 2" "j_job_type_id (demo_late_job d c) = Some 11"
  "j_sla (demo_late_job d c) = demo_clock d c" "j_workflow_id (demo_late_job d c) = None" "j_offering_id (demo_late_job d c) = 6"
  "charged_so_far (demo_late_job d c) = c" "breach_recorded (demo_late_job d c)"
  by (simp_all add: demo_late_job_def charged_so_far_def demo_clock_def breach_recorded_def)

lemma demo_breach_policy [simp]:
  "sla_policy (demo_breach tm d c es) = Some (demo_policy\<lparr>p_sla := tm\<rparr>)" "p_id (demo_policy\<lparr>p_sla := tm\<rparr>) = 1"
  by (simp_all add: sla_policy_def demo_policy_def)

lemma demo_breach_override [simp]: "sla_job_type_override (demo_breach tm d c es) i jt = (True, None)"
  by (simp add: sla_job_type_override_def split: option.split)

lemma demo_breach_target [simp]:
  "settlement_target (demo_breach demo_terms d c es) (demo_policy\<lparr>p_sla := demo_terms\<rparr>) (demo_late_job d c) = 200"
  "settlement_target (demo_breach uncapped_terms d c es) (demo_policy\<lparr>p_sla := uncapped_terms\<rparr>) (demo_late_job d c) = 200"
  by (simp_all add: settlement_target_def initial_penalty_def resolve_penalty_def demo_terms_def uncapped_terms_def)

lemma demo_breach_workflow [simp]: "resolve_job_type_workflow (demo_breach tm d c es) (demo_late_job d c) = Some demo_site_workflow"
  by (simp add: resolve_job_type_workflow_def demo_site_workflow_def)

lemma demo_breach_get_job [simp]: "get_job (demo_breach tm d c es) (Suc 0) 4 = Inr (demo_late_job d c)"
  by (simp add: get_job_def)

subsection \<open>Properties\<close>

text \<open>
  C10: the settlement of a missed slot does what the cancellation relies on. Called by the cancellation of a job, it posts
  a penalty and records it on the job, but changes no status, no event and no stock: the contract the theorems about runs of
  job operations assume of it holds for the code's own settlement.
\<close>

theorem settlement_is_penalty_only: "penalty_only (settle_cancellation now)"
proof -
  have "status_of_job t = status_of_job s \<and> execution_events t = execution_events s \<and> stock_balances t = stock_balances s \<and>
      stock_transactions t = stock_transactions s \<and> stock_reservations t = stock_reservations s \<and> next_uuid s \<le> next_uuid t"
    if "settle_no_arrival_close s i now = Inr (t, taken)" for s t :: "'a remedy_db_scheme" and i taken
    using that
  proof (cases rule: settle_cases)
    case (settled p job s1 compensated)
    with status_of_job_money_only [OF settled(5)] show ?thesis by (simp add: settled_as_def money_only_def)
  qed simp
  then show ?thesis unfolding penalty_only_def settle_cancellation_def by (fastforce elim!: bind_InrE)
qed

text \<open>A charge of some penalty to one provider under a cap.\<close>

inductive capped_charge :: "decimal \<Rightarrow> uuid \<Rightarrow> 'a credit_db_scheme \<Rightarrow> 'a credit_db_scheme \<Rightarrow> bool" for c tid where
  "charge_penalty s (Some tid) jid amount (Some c) day source = Inr (t, taken) \<Longrightarrow> capped_charge c tid s t"

lemma capped_charge_bal:
  assumes "capped_charge c tid s t" "first_row (billings_of s tid) \<noteq> None"
  shows "min (credit_bal s tid) (- c) \<le> credit_bal t tid \<and> credit_bal t tid \<le> credit_bal s tid \<and> first_row (billings_of t tid) \<noteq> None"
  using assms(1)
proof cases
  case (1 jid amount day source taken)
  then show ?thesis
  proof (cases rule: charge_penalty_cases)
    case (charged e)
    have "credit_bal t = (credit_bal s)(tid := credit_bal s tid - taken)"
      using credit_bal_write_entry [where s = s and e = e] charged assms(2) by simp
    moreover have "first_row (billings_of t tid) \<noteq> None"
      using charged(1) assms(2) by (simp add: write_entry_def first_row_update_where)
    moreover have "taken \<le> max 0 (credit_bal s tid + c)" using charged by simp
    ultimately show ?thesis using charged(6) by (auto simp: min_def max_def split: if_splits)
  qed (use assms(2) in auto)
qed

text \<open>
  C23: penalties stop at the debt cap. However many penalties are charged to a provider under a debt cap, for whatever jobs,
  amounts and stages, replays included, its credits never fall below the cap, or stay where they were if they had been below
  it already; and no penalty ever raises them.
\<close>

theorem penalties_stop_at_debt_cap:
  assumes "(capped_charge c tid)\<^sup>*\<^sup>* s t" and "first_row (billings_of s tid) \<noteq> None"
  shows "min (credit_bal s tid) (- c) \<le> credit_bal t tid \<and> credit_bal t tid \<le> credit_bal s tid"
proof -
  from assms have "min (credit_bal s tid) (- c) \<le> credit_bal t tid \<and> credit_bal t tid \<le> credit_bal s tid \<and>
      first_row (billings_of t tid) \<noteq> None"
  proof (induction rule: rtranclp_induct)
    case (step t u)
    with capped_charge_bal [of c tid t u] show ?case by (auto simp: min_def split: if_splits)
  qed simp
  then show ?thesis by blast
qed

theorem penalties_stop_at_debt_cap_witness:
  "\<exists>t u. charge_penalty (demo_remedies []) (Some 4) 1 90 (Some 100) 1 ''sla_breach'' = Inr (t, 90) \<and>
     charge_penalty t (Some 4) 2 90 (Some 100) 1 ''sla_breach'' = Inr (u, 50) \<and> - 100 \<le> credit_bal u 4"
proof -
  have k: "sla_key ''sla_breach'' 1 1 \<noteq> sla_key ''sla_breach'' 2 1" by (simp add: sla_key_def)
  obtain t u where t: "charge_penalty (demo_remedies []) (Some 4) 1 90 (Some 100) 1 ''sla_breach'' = Inr (t, 90)"
    and u: "charge_penalty t (Some 4) 2 90 (Some 100) 1 ''sla_breach'' = Inr (u, 50)"
    using k by (simp add: charge_penalty_def insert_usage_entry_def write_entry_def blank_entry_def)
  from t u have "(capped_charge 100 4)\<^sup>*\<^sup>* (demo_remedies []) u"
    by (meson capped_charge.intros converse_rtranclp_into_rtranclp rtranclp.rtrancl_refl)
  from penalties_stop_at_debt_cap [OF this] t u show ?thesis by (force simp: credit_bal_def)
qed



text \<open>
  C38: a replayed close is counted twice. When the final close of a job was charged before under the same key, and what the job
  was charged is still below the target (the debt cap stopped the charge), the settlement takes nothing from the provider, but
  adds the earlier charge to the job a second time: the record says more than was taken, and a waiver would refund it.
\<close>

theorem replayed_close_counted_twice:
  assumes "sla_policy s = Some p" and "first_row (filter (\<lambda>j. j_id j = jid) (service_jobs s)) = Some job" and "j_tenant_id job = Some tid"
    and "0 < settlement_penalty s p job" and "\<not> t_penalty_to_customer (p_sla p)"
    and "first_row (filter (\<lambda>e. u_tenant_id e = tid \<and> u_idempotency_key e = Some (sla_key ''sla_final_close'' jid 2)) (usage_credit_ledger s)) = Some e"
  shows "\<exists>t. settle_no_arrival_close s jid now = Inr (t, \<bar>credit_delta e\<bar>) \<and> charged_of t jid = charged_so_far job + \<bar>credit_delta e\<bar> \<and>
    usage_credit_ledger t = usage_credit_ledger s \<and> tenant_billings t = tenant_billings s"
proof -
  have "j_id job = jid" using first_row_Some_set [OF assms(2)] by simp
  with assms show ?thesis
    by (simp add: settle_no_arrival_close_def take_penalty_def charge_penalty_def charged_of_settled)
qed

theorem replayed_close_counted_twice_witness:
  "\<exists>t. settle_no_arrival_close (demo_breach demo_terms 2 140 [demo_close_entry 90]) 1 9 = Inr (t, 90) \<and> charged_of t 1 = 230 \<and>
     credit_bal t 4 = 40"
proof -
  have e: "u_tenant_id (demo_close_entry 90) = 4" "u_idempotency_key (demo_close_entry 90) = Some (sla_key ''sla_final_close'' 1 2)"
      "credit_delta (demo_close_entry 90) = - 90" by (simp_all add: demo_close_entry_def blank_entry_def)
  have "0 < settlement_penalty (demo_breach demo_terms 2 140 [demo_close_entry 90]) (demo_policy\<lparr>p_sla := demo_terms\<rparr>) (demo_late_job 2 140)"
    by (simp add: settlement_penalty_def)
  from replayed_close_counted_twice [OF _ _ _ this, of 1 4 "demo_close_entry 90" 9] e show ?thesis
    by (auto simp: demo_terms_def credit_bal_def)
qed

text \<open>
  C39: the sweep's close leaves no trace. The final stage of the sweep cancels a job from whatever status it has without an event:
  the moves the event log holds for the job are those of before, so they no longer explain its status.
\<close>

theorem swept_close_leaves_no_trace:
  assumes "sweep_job s p job now = Inr (t, taken, compensated)" and "sla_penalty_day_count (j_sla job) \<ge> 1" and "t_auto_cancel (p_sla p)"
    and "status_of_job s (j_id job) \<noteq> None"
  shows "status_of_job t (j_id job) = Some JS_CANCELLED \<and> status_changes t (j_id job) = status_changes s (j_id job)"
proof -
  let ?f = "\<lambda>c. c\<lparr>sla_breached_at := breached_since c now, sla_penalty_day_count := 2, sla_penalty_charged := Some (charged_so_far job + taken),
      sla_next_penalty_at := None, sla_stopped_at := Some now\<rparr>"
  from assms(1-3) obtain s1 where charge: "(if sweep_penalty s p job > 0 then take_penalty s (p_sla p) job (sweep_penalty s p job) 2
        ''sla_final_close'' now else Inr (s, 0, False)) = Inr (s1, taken, compensated)"
    and t: "t = close_breached_job (edit_sla s1 (j_id job) ?f) (j_id job) (j_booking_id job)"
    by (auto simp: sweep_job_def Let_def elim!: bind_InrE cong: if_cong split del: if_split)
  from charge have s1: "money_only s s1" by (auto dest: take_penalty_money_only split: if_split_asm)
  have "status_of_job s1 (j_id job) \<noteq> None" using assms(4) status_of_job_money_only [OF s1] by simp
  then have "status_of_job (edit_sla s1 (j_id job) ?f) (j_id job) \<noteq> None" by simp
  then have "status_of_job t (j_id job) = Some JS_CANCELLED" unfolding t by (rule close_breached_job_status)
  moreover have "execution_events t = execution_events s" using s1 by (simp add: t close_breached_job_def money_only_def)
  ultimately show ?thesis by (simp add: status_changes_def)
qed

theorem swept_close_leaves_no_trace_witness:
  "\<exists>t taken. sweep_job (demo_breach uncapped_terms 1 50 []) (demo_policy\<lparr>p_sla := uncapped_terms\<rparr>) (demo_late_job 1 50) 9 = Inr (t, taken, False) \<and>
     status_of_job t 1 = Some JS_CANCELLED \<and> status_changes t 1 = []"
proof -
  let ?p = "demo_policy\<lparr>p_sla := uncapped_terms\<rparr>"
  obtain t taken where t: "sweep_job (demo_breach uncapped_terms 1 50 []) ?p (demo_late_job 1 50) 9 = Inr (t, taken, False)"
    by (simp add: sweep_job_def sweep_penalty_def final_penalty_top_up_def take_penalty_def charge_penalty_def
        insert_usage_entry_def uncapped_terms_def demo_terms_def demo_clock_def Let_def)
  from swept_close_leaves_no_trace [OF t] t show ?thesis
    by (simp add: demo_clock_def uncapped_terms_def demo_terms_def status_of_job_def status_changes_def)
qed

text \<open>
  C40: a penalty with a customer cannot be waived. The revocation that follows the refund reads two columns the table of customer
  credits does not have, so for every job with a customer the waiver ends in a database error and the refund is rolled back.
\<close>

theorem waiver_blocked_for_customers:
  assumes "first_row (filter (\<lambda>j. j_id j = jid) (service_jobs s)) = Some job" and "j_customer_id job \<noteq> None"
  shows "\<exists>e. waive_penalty CUSTOMER_SERVICE_CREDIT_COLUMNS reference s jid actor now = Inl e"
proof -
  have "\<not> set REVOCATION_COLUMNS \<subseteq> set CUSTOMER_SERVICE_CREDIT_COLUMNS"
    by (simp add: REVOCATION_COLUMNS_def CUSTOMER_SERVICE_CREDIT_COLUMNS_def)
  with assms have "\<not> (\<exists>r. waive_penalty CUSTOMER_SERVICE_CREDIT_COLUMNS reference s jid actor now = Inr r)"
    unfolding waive_penalty_def Let_def by (auto elim!: bind_InrE split: if_split_asm simp: revoke_unspent_customer_credit_def)
  then show ?thesis by (cases "waive_penalty CUSTOMER_SERVICE_CREDIT_COLUMNS reference s jid actor now") auto
qed

theorem waiver_blocked_for_customers_witness:
  "\<exists>e. waive_penalty CUSTOMER_SERVICE_CREDIT_COLUMNS (\<lambda>c. (''sla_final_close'', 1)) (demo_breach demo_terms 1 50 []) 1 (Some 5) 9 = Inl e"
  using waiver_blocked_for_customers [of 1 "demo_breach demo_terms 1 50 []" "demo_late_job 1 50" "\<lambda>c. (''sla_final_close'', 1)" "Some 5" 9] by simp

end
