(* ===== verification/Bookings.thy ===== *)
theory Bookings
  imports Slots
begin

section \<open>Confirming a booking\<close>

text \<open>
  A confirmed draft becomes a booking and a job (final_records/creation_service.py, with the confirmation lock of
  final_records/idempotency.py), and the customer picks a slot before that
  (home_service_booking/service.py, \<^verbatim>\<open>select_promised_slot\<close>). \<open>booking_db\<close> adds the confirmations, draft
  events, audit rows, in-app notifications and the provider rows. Two arguments stand for checks of other components
  that only read: \<open>limits\<close> for the rate limiter and \<open>catalogue\<close> for the job-type, required-field and add-on checks; each
  answers the error it raises, if any. \<open>booking_env\<close> holds the clocks. The sequential booking and job numbers,
  the answers, the address, the urgency and surcharge columns a slot choice writes and the other display columns are not
  kept in the rows.
\<close>

subsection \<open>Tables\<close>

record confirmation =
  cf_id :: uuid
  cf_draft_type :: string
  cf_draft_id :: uuid
  cf_result_id :: "uuid option"
  cf_status :: string

record creation_audit =
  ca_action :: string
  ca_draft_id :: uuid
  ca_result_id :: "uuid option"

record notification =
  nt_user_id :: uuid
  nt_type :: string
  nt_source_record_id :: uuid

record provider_row =
  pt_id :: uuid
  pt_status :: string
  pt_suspended :: bool
  pt_terminated :: bool
  pt_owner_user_id :: "uuid option"

record booking_db = slot_db +
  confirmations :: "confirmation list"
  draft_events :: "(uuid \<times> string) list"
  creation_audits :: "creation_audit list"
  notifications :: "notification list"
  providers :: "provider_row list"

record booking_env =
  be_dbnow :: time
  be_clock :: "string \<Rightarrow> moment option"
  be_server :: moment

subsection \<open>Picking a slot (home_service_booking/service.py)\<close>

text \<open>
  The draft arrives loaded and owned by the caller. The review summary that \<^verbatim>\<open>select_promised_slot\<close> rebuilds at its end keeps
  the chosen slot and is not modelled.
\<close>

definition local_now :: "'a slot_db_scheme \<Rightarrow> booking_env \<Rightarrow> uuid \<Rightarrow> moment" where
  "local_now s env tid = tenant_now (be_clock env) (be_server env) (booking_window_settings s tid)"

definition select_promised_slot ::
  "'a booking_db_scheme \<Rightarrow> booking_env \<Rightarrow> booking_draft \<Rightarrow> date \<Rightarrow> string \<Rightarrow> bool \<Rightarrow> ('a booking_db_scheme \<times> listed_slot) res" where
  "select_promised_slot s env dr day time_window emergency =
     (case d_selected_tenant_id dr of
        None \<Rightarrow> Inl (ValueError ''NO_PROVIDER_ASSIGNED_YET'')
      | Some tid \<Rightarrow>
          if \<not> slot_has_capacity s (be_dbnow env) tid day time_window (Some (d_offering_id dr)) (d_job_type_id dr) None
          then Inl (ValueError ''SLOT_NO_LONGER_AVAILABLE'')
          else (let now = local_now s env tid; needed = day - date_of now + 1 in
            if needed < 1 then Inl (ValueError ''SLOT_NO_LONGER_AVAILABLE'')
            else (case find (\<lambda>x. so_date x = day \<and> so_time_window x = time_window)
                        (list_available_slots s (be_dbnow env) tid now (Some needed) (nat needed) emergency
                           (Some (d_offering_id dr)) (d_job_type_id dr)) of
                    None \<Rightarrow> Inl (ValueError ''SLOT_NO_LONGER_AVAILABLE'')
                  | Some x \<Rightarrow> Inr (s\<lparr>booking_drafts := update_where (\<lambda>d. d_id d = d_id dr)
                        (\<lambda>d. d\<lparr>d_promised_slot := Some (Some day, Some time_window), d_preferred_date := Some day,
                                d_preferred_time_window := Some time_window\<rparr>) (booking_drafts s),
                        draft_events := draft_events s @ [(d_id dr, ''summary_generated'')]\<rparr>, x))))"

subsection \<open>The confirmation lock (final_records/idempotency.py)\<close>

definition DRAFT_TYPE_HOME_SERVICE :: string where "DRAFT_TYPE_HOME_SERVICE = ''home_service''"
definition CONFIRM_STATUS_CREATED :: string where "CONFIRM_STATUS_CREATED = ''created''"

definition get_existing :: "'a booking_db_scheme \<Rightarrow> string \<Rightarrow> uuid \<Rightarrow> confirmation option" where
  "get_existing s draft_type did = first_row (filter (\<lambda>c. cf_draft_type c = draft_type \<and> cf_draft_id c = did \<and>
     cf_status c = CONFIRM_STATUS_CREATED) (confirmations s))"

text \<open>The unique constraint on draft type and id makes the insert raise on a second row.\<close>

definition create_lock ::
  "'a booking_db_scheme \<Rightarrow> string \<Rightarrow> uuid \<Rightarrow> uuid \<Rightarrow> ('a booking_db_scheme \<times> confirmation) res" where
  "create_lock s draft_type did result_id =
     (if list_ex (\<lambda>c. cf_draft_type c = draft_type \<and> cf_draft_id c = did) (confirmations s) then Inl DBAPIError
      else (let c = \<lparr>cf_id = next_uuid s, cf_draft_type = draft_type, cf_draft_id = did, cf_result_id = Some result_id,
                     cf_status = CONFIRM_STATUS_CREATED\<rparr>
            in Inr (s\<lparr>confirmations := confirmations s @ [c], next_uuid := Suc (next_uuid s)\<rparr>, c)))"

subsection \<open>Creation (final_records/creation_service.py)\<close>

definition booking_service_amount :: "price_snapshot option \<Rightarrow> decimal" where
  "booking_service_amount snap =
     (case snap of None \<Rightarrow> 0 | Some sn \<Rightarrow>
        (case List.find (\<lambda>v. 0 < v) (List.map_filter json_decimal
            [selected_price_amount sn, standard_price sn, base_price sn, visit_fee sn]) of
           None \<Rightarrow> 0 | Some v \<Rightarrow> v))"

definition empty_snapshot :: price_snapshot where
  "empty_snapshot = \<lparr>selected_price_amount = JNull, standard_price = JNull, base_price = JNull, min_price = JNull,
     visit_fee = JNull, snapshot_platform_fee = JNull, snapshot_service_name = None, requires_inspection_estimate = False,
     pricing_mode = None, pricing_model = None\<rparr>"

definition booking_price_snapshot :: "booking_draft \<Rightarrow> price_snapshot" where
  "booking_price_snapshot dr =
     (case d_price_snapshot dr of None \<Rightarrow> empty_snapshot | Some sn \<Rightarrow> sn)\<lparr>selected_price_amount := d_agreed_price dr\<rparr>"

definition tenant_is_active :: "'a booking_db_scheme \<Rightarrow> uuid \<Rightarrow> bool" where
  "tenant_is_active s tid =
     (case first_row (filter (\<lambda>p. pt_id p = tid) (providers s)) of
        None \<Rightarrow> False | Some p \<Rightarrow> pt_status p = ''active'' \<and> \<not> pt_suspended p \<and> \<not> pt_terminated p)"

definition duplicate_booking :: "'a booking_db_scheme \<Rightarrow> booking_draft \<Rightarrow> bool" where
  "duplicate_booking s dr \<longleftrightarrow> d_customer_id dr \<noteq> None \<and>
     list_ex (\<lambda>b. b_customer_id b = d_customer_id dr \<and>
        (case d_selected_problem_id dr of
           Some p \<Rightarrow> b_selected_problem_id b = Some p
         | None \<Rightarrow> b_offering_id b = d_offering_id dr \<and> b_selected_problem_id b = None) \<and>
        b_status b \<notin> {JS_COMPLETED, JS_CANCELLED, JS_FAILED}) (service_bookings s)"

definition duplicate_override :: "booking_draft \<Rightarrow> bool \<Rightarrow> bool" where
  "duplicate_override dr allow \<longleftrightarrow>
     allow \<or> (d_duplicate_booking_override dr \<and> d_duplicate_problem_id dr = d_selected_problem_id dr)"

definition ready_draft ::
  "(booking_draft \<Rightarrow> error option) \<Rightarrow> (booking_draft \<Rightarrow> error option) \<Rightarrow> 'a booking_db_scheme \<Rightarrow> uuid \<Rightarrow> uuid option \<Rightarrow> bool \<Rightarrow>
   booking_draft res" where
  "ready_draft limits catalogue s did customer allow =
     (case first_row (filter (\<lambda>d. d_id d = did) (booking_drafts s)) of
        None \<Rightarrow> Inl (ValueError ''FINAL_DRAFT_NOT_FOUND'')
      | Some dr \<Rightarrow>
          if customer \<noteq> None \<and> d_customer_id dr \<noteq> None \<and> d_customer_id dr \<noteq> customer then Inl (ValueError ''FINAL_ACCESS_DENIED'')
          else if d_status dr \<noteq> ''ready_for_confirmation'' then Inl (ValueError ''FINAL_DRAFT_NOT_READY'')
          else (case limits dr of
            Some e \<Rightarrow> Inl e
          | None \<Rightarrow>
              if duplicate_booking s dr \<and> \<not> duplicate_override dr allow
              then Inl (ServiceOSException ''DUPLICATE_ACTIVE_BOOKING'')
              else (case catalogue dr of Some e \<Rightarrow> Inl e | None \<Rightarrow> Inr dr)))"

definition new_booking :: "uuid \<Rightarrow> booking_draft \<Rightarrow> service_booking" where
  "new_booking bid dr = \<lparr>b_id = bid, b_price_snapshot = Some (booking_price_snapshot dr), b_draft_id = Some (d_id dr),
     b_status = JS_PENDING_ASSIGNMENT, b_customer_id = d_customer_id dr, b_tenant_id = d_selected_tenant_id dr,
     b_offering_id = d_offering_id dr, b_selected_problem_id = d_selected_problem_id dr,
     b_preferred_date = d_preferred_date dr, b_preferred_time_window = d_preferred_time_window dr,
     b_assignment_status = ASSIGN_UNASSIGNED\<rparr>"

definition offered_slot_stands :: "'a booking_db_scheme \<Rightarrow> booking_env \<Rightarrow> booking_draft \<Rightarrow> uuid \<Rightarrow> (date \<times> string) option" where
  "offered_slot_stands s env dr tid =
     (case d_promised_slot dr of
        Some (Some day, Some w) \<Rightarrow>
          if w \<noteq> [] \<and> slot_has_capacity s (be_dbnow env) tid day w (Some (d_offering_id dr)) (d_job_type_id dr) None
          then Some (day, w) else None
      | _ \<Rightarrow> None)"

definition promised_slot :: "'a booking_db_scheme \<Rightarrow> booking_env \<Rightarrow> booking_draft \<Rightarrow> (date \<times> string) option" where
  "promised_slot s env dr =
     (case d_selected_tenant_id dr of
        None \<Rightarrow> None
      | Some tid \<Rightarrow>
          (case offered_slot_stands s env dr tid of
             Some p \<Rightarrow> Some p
           | None \<Rightarrow> map_option (\<lambda>x. (so_date x, so_time_window x))
               (find_earliest_available_slot s (be_dbnow env) tid (local_now s env tid) None False
                  (Some (d_offering_id dr)) (d_job_type_id dr))))"

definition auto_accept :: "'a booking_db_scheme \<Rightarrow> booking_draft \<Rightarrow> (date \<times> string) option \<Rightarrow> bool" where
  "auto_accept s dr promise \<longleftrightarrow>
     (case d_selected_tenant_id dr of None \<Rightarrow> False | Some tid \<Rightarrow> promise \<noteq> None \<and> tenant_is_active s tid)"

definition new_job :: "uuid \<Rightarrow> uuid \<Rightarrow> booking_draft \<Rightarrow> (date \<times> string) option \<Rightarrow> bool \<Rightarrow> service_job" where
  "new_job jid bid dr promise accepted =
     \<lparr>j_id = jid, j_booking_id = bid, j_customer_id = d_customer_id dr, j_tenant_id = d_selected_tenant_id dr,
      j_category_id = d_category_id dr, j_offering_id = d_offering_id dr, j_job_type_id = d_job_type_id dr,
      j_workflow_id = d_workflow_id dr, j_status = (if accepted then JS_ACCEPTED else JS_PENDING_ASSIGNMENT),
      j_assigned_staff_id = None,
      j_scheduled_date = (case promise of Some (day, w) \<Rightarrow> Some day | None \<Rightarrow> d_preferred_date dr),
      j_scheduled_time_window = (case promise of
         Some (day, w) \<Rightarrow> if w = [] then d_preferred_time_window dr else Some w | None \<Rightarrow> d_preferred_time_window dr),
      j_assignment_status = ASSIGN_UNASSIGNED, j_reschedule_count = 0, j_arrival_verified_at = None,
      j_sla = no_sla\<rparr>"

definition booking_notifications :: "'a booking_db_scheme \<Rightarrow> booking_draft \<Rightarrow> uuid \<Rightarrow> uuid \<Rightarrow> notification list" where
  "booking_notifications s dr bid jid =
     (case d_customer_id dr of None \<Rightarrow> []
      | Some c \<Rightarrow> [\<lparr>nt_user_id = c, nt_type = ''booking.confirmed'', nt_source_record_id = bid\<rparr>]) @
     (case Option.bind (d_selected_tenant_id dr) (\<lambda>tid. Option.bind (first_row (filter (\<lambda>p. pt_id p = tid) (providers s)))
         pt_owner_user_id) of None \<Rightarrow> []
      | Some u \<Rightarrow> [\<lparr>nt_user_id = u, nt_type = ''booking.new'', nt_source_record_id = jid\<rparr>])"

record creation_result =
  cr_idempotent :: bool
  cr_booking_id :: "uuid option"
  cr_job_id :: "uuid option"
  cr_job_status :: "job_status option"
  cr_confirmation_id :: uuid

text \<open>Steps 4 and 5: the booking, its slot, the job, the acceptance event, and the confirmed draft.\<close>

definition create_records ::
  "'a booking_db_scheme \<Rightarrow> booking_env \<Rightarrow> booking_draft \<Rightarrow> 'a booking_db_scheme" where
  "create_records s env dr =
     (let bid = next_uuid s;
          s1 = s\<lparr>service_bookings := service_bookings s @ [new_booking bid dr], next_uuid := Suc bid\<rparr>;
          promise = promised_slot s1 env dr;
          accepted = auto_accept s1 dr promise;
          jid = Suc bid;
          s2 = s1\<lparr>service_bookings := update_where (\<lambda>b. b_id b = bid)
                    (\<lambda>b. if accepted then b\<lparr>b_status := JS_ACCEPTED\<rparr> else b) (service_bookings s1),
                  service_jobs := service_jobs s1 @ [new_job jid bid dr promise accepted], next_uuid := Suc jid,
                  execution_events := execution_events s1 @
                    (if accepted then [\<lparr>ev_job_id = jid, ev_event_type = ''job_accepted'', ev_old_status = None,
                        ev_new_status = Some JS_ACCEPTED\<rparr>] else [])\<rparr>
      in s2\<lparr>booking_drafts := update_where (\<lambda>d. d_id d = d_id dr) (\<lambda>d. d\<lparr>d_status := ''confirmed''\<rparr>) (booking_drafts s2),
            draft_events := draft_events s2 @ [(d_id dr, ''draft_confirmed'')]\<rparr>)"

definition booking_charged :: "'a booking_db_scheme \<Rightarrow> uuid \<Rightarrow> booking_draft \<Rightarrow> 'a booking_db_scheme" where
  "booking_charged s bid dr =
     (case create_charge_for_booking s ''home_services'' bid (d_selected_tenant_id dr) (d_customer_id dr)
             (booking_service_amount (Some (booking_price_snapshot dr))) ''booking_confirmed'' of
        Inl _ \<Rightarrow> s | Inr (s', _) \<Rightarrow> s')"

definition audit :: "'a booking_db_scheme \<Rightarrow> string \<Rightarrow> uuid \<Rightarrow> uuid option \<Rightarrow> 'a booking_db_scheme" where
  "audit s action did rid =
     s\<lparr>creation_audits := creation_audits s @ [\<lparr>ca_action = action, ca_draft_id = did, ca_result_id = rid\<rparr>]\<rparr>"

definition finalize ::
  "(booking_draft \<Rightarrow> error option) \<Rightarrow> (booking_draft \<Rightarrow> error option) \<Rightarrow> 'a booking_db_scheme \<Rightarrow> booking_env \<Rightarrow> uuid \<Rightarrow>
   uuid option \<Rightarrow> bool \<Rightarrow> ('a booking_db_scheme \<times> creation_result) res" where
  "finalize limits catalogue s env did customer allow =
     (case get_existing s DRAFT_TYPE_HOME_SERVICE did of
        Some c \<Rightarrow>
          (let job = first_row (filter (\<lambda>j. Some (j_booking_id j) = cf_result_id c) (service_jobs s))
           in Inr (audit s ''confirmation_duplicate'' did (cf_result_id c),
                \<lparr>cr_idempotent = True, cr_booking_id = cf_result_id c, cr_job_id = map_option j_id job,
                 cr_job_status = map_option j_status job, cr_confirmation_id = cf_id c\<rparr>))
      | None \<Rightarrow>
          bind_res (ready_draft limits catalogue s did customer allow) (\<lambda>dr.
            let bid = next_uuid s; jid = Suc bid; s1 = create_records s env dr in
            bind_res (create_lock s1 DRAFT_TYPE_HOME_SERVICE (d_id dr) bid) (\<lambda>(s2, c).
              let s3 = audit s2 ''booking_created'' (d_id dr) (Some bid);
                  s4 = s3\<lparr>notifications := notifications s3 @ booking_notifications s3 dr bid jid\<rparr>
              in Inr (booking_charged s4 bid dr,
                   \<lparr>cr_idempotent = False, cr_booking_id = Some bid, cr_job_id = Some jid,
                    cr_job_status = map_option b_status (first_row (filter (\<lambda>b. b_id b = bid) (service_bookings s4))),
                    cr_confirmation_id = cf_id c\<rparr>))))"

section \<open>Properties of the confirmation\<close>

subsection \<open>What a confirmation leaves alone\<close>

lemma booking_charged_cases:
  "booking_charged s bid dr = s \<or> (\<exists>cs n. booking_charged s bid dr = s\<lparr>fee_charges := cs, next_uuid := n\<rparr>)"
  by (auto simp: booking_charged_def create_charge_for_booking_def add_charge_def Let_def bind_res_def
      split: sum.splits option.splits)

lemma booking_charged_frame [simp]:
  "confirmations (booking_charged s bid dr) = confirmations s" "service_jobs (booking_charged s bid dr) = service_jobs s"
  "service_bookings (booking_charged s bid dr) = service_bookings s" "booking_drafts (booking_charged s bid dr) = booking_drafts s"
  "availability_rules (booking_charged s bid dr) = availability_rules s"
  using booking_charged_cases [of s bid dr] by auto

lemma next_uuid_booking_charged: "next_uuid s \<le> next_uuid (booking_charged s bid dr)"
proof -
  have "next_uuid (booking_charged s bid dr) = next_uuid s \<or> next_uuid (booking_charged s bid dr) = Suc (next_uuid s)"
    by (auto simp: booking_charged_def create_charge_for_booking_def add_charge_def Let_def bind_res_def
      split: sum.splits option.splits)
  then show ?thesis by auto
qed

lemma audit_frame [simp]:
  "confirmations (audit s a d r) = confirmations s" "service_jobs (audit s a d r) = service_jobs s"
  "service_bookings (audit s a d r) = service_bookings s" "booking_drafts (audit s a d r) = booking_drafts s"
  "next_uuid (audit s a d r) = next_uuid s" "availability_rules (audit s a d r) = availability_rules s"
  by (simp_all add: audit_def)

lemma finalize_cases:
  assumes "finalize limits catalogue s env did customer allow = Inr (t, r)"
  obtains (replay) c where "get_existing s DRAFT_TYPE_HOME_SERVICE did = Some c"
      "t = audit s ''confirmation_duplicate'' did (cf_result_id c)" "cr_idempotent r" "cr_booking_id r = cf_result_id c"
      "cr_confirmation_id r = cf_id c"
  | (create) dr c where "get_existing s DRAFT_TYPE_HOME_SERVICE did = None"
      "ready_draft limits catalogue s did customer allow = Inr dr"
      "service_jobs t = service_jobs (create_records s env dr)" "service_bookings t = service_bookings (create_records s env dr)"
      "booking_drafts t = booking_drafts (create_records s env dr)" "availability_rules t = availability_rules s"
      "next_uuid s + 2 \<le> next_uuid t"
      "confirmations t = confirmations s @ [c]" "cf_draft_type c = DRAFT_TYPE_HOME_SERVICE" "cf_draft_id c = did"
      "cf_status c = CONFIRM_STATUS_CREATED" "cf_result_id c = cr_booking_id r" "cf_id c = cr_confirmation_id r"
      "\<not> cr_idempotent r" "cr_booking_id r = Some (next_uuid s)" "cr_job_id r = Some (Suc (next_uuid s))"
proof (cases "get_existing s DRAFT_TYPE_HOME_SERVICE did")
  case (Some c)
  with assms show ?thesis by (intro replay [of c]) (auto simp: finalize_def Let_def)
next
  case None
  with assms obtain dr where dr: "ready_draft limits catalogue s did customer allow = Inr dr"
    by (auto simp: finalize_def bind_res_Inr Let_def)
  have id: "d_id dr = did"
    using dr by (auto simp: ready_draft_def split: option.splits if_splits dest!: first_row_Some_set)
  let ?s1 = "create_records s env dr"
  have s1: "confirmations ?s1 = confirmations s" "availability_rules ?s1 = availability_rules s" "next_uuid ?s1 = next_uuid s + 2"
    by (simp_all add: create_records_def Let_def)
  from None assms dr obtain s2 c where c: "create_lock ?s1 DRAFT_TYPE_HOME_SERVICE (d_id dr) (next_uuid s) = Inr (s2, c)"
      and t: "t = booking_charged ((audit s2 ''booking_created'' (d_id dr) (Some (next_uuid s)))
        \<lparr>notifications := notifications (audit s2 ''booking_created'' (d_id dr) (Some (next_uuid s))) @
          booking_notifications (audit s2 ''booking_created'' (d_id dr) (Some (next_uuid s))) dr (next_uuid s) (Suc (next_uuid s))\<rparr>)
        (next_uuid s) dr"
      and r: "\<not> cr_idempotent r" "cr_booking_id r = Some (next_uuid s)" "cr_job_id r = Some (Suc (next_uuid s))" "cr_confirmation_id r = cf_id c"
    by (auto simp: finalize_def bind_res_Inr Let_def)
  have s2: "s2 = ?s1\<lparr>confirmations := confirmations ?s1 @ [c], next_uuid := Suc (next_uuid ?s1)\<rparr>"
    "cf_draft_type c = DRAFT_TYPE_HOME_SERVICE" "cf_draft_id c = did" "cf_status c = CONFIRM_STATUS_CREATED" "cf_result_id c = Some (next_uuid s)"
    using c by (auto simp: create_lock_def Let_def id split: if_splits)
  have n: "next_uuid s + 2 \<le> next_uuid t"
    unfolding t by (rule order_trans [OF _ next_uuid_booking_charged]) (simp add: s2(1) s1(3))
  show ?thesis
    by (rule create [OF None dr _ _ _ _ n, of c]) (simp_all add: t s2 s1 r)
qed

subsection \<open>A draft is confirmed once\<close>

text \<open>Between two confirmations the customer may pick slots, other drafts are confirmed, and everything but the lock table may change.\<close>

inductive booking_step :: "'a booking_db_scheme \<Rightarrow> 'a booking_db_scheme \<Rightarrow> bool" where
  confirm: "finalize limits catalogue s env did customer allow = Inr (t, r) \<Longrightarrow> booking_step s t"
| pick: "select_promised_slot s env dr day w emergency = Inr (t, x) \<Longrightarrow> booking_step s t"
| outside: "confirmations t = confirmations s \<Longrightarrow> booking_step s t"

lemma booking_step_locks: "booking_step s t \<Longrightarrow> \<exists>new. confirmations t = confirmations s @ new"
proof (induction rule: booking_step.induct)
  case (confirm limits catalogue s env did customer allow t r)
  then show ?case by (cases rule: finalize_cases) auto
next
  case (pick s env dr day w emergency t x)
  then show ?case by (auto simp: select_promised_slot_def Let_def split: option.splits if_splits)
qed simp

lemma booking_run_locks: "booking_step\<^sup>*\<^sup>* s t \<Longrightarrow> \<exists>new. confirmations t = confirmations s @ new"
proof (induction rule: rtranclp_induct)
  case (step t u)
  from step.IH booking_step_locks [OF step.hyps(2)] show ?case by force
qed simp

lemma get_existing_mono:
  "get_existing s ty did = Some c \<Longrightarrow> confirmations t = confirmations s @ new \<Longrightarrow> get_existing t ty did = Some c"
  by (simp add: get_existing_def first_row_append)

lemma finalize_locks:
  assumes "finalize limits catalogue s env did customer allow = Inr (t, r)"
  shows "\<exists>c. get_existing t DRAFT_TYPE_HOME_SERVICE did = Some c \<and> cf_result_id c = cr_booking_id r \<and> cf_id c = cr_confirmation_id r"
  using assms
proof (cases rule: finalize_cases)
  case (replay c)
  then show ?thesis by (auto simp: get_existing_def)
next
  case (create dr c)
  then show ?thesis by (auto simp: get_existing_def first_row_append)
qed

text \<open>
  C2: confirming a draft twice books once. After a confirmation of a draft succeeded, and whatever happened since that
  keeps the lock table (other confirmations, slot choices, any change elsewhere), confirming the same draft again, by any
  caller, succeeds with the same booking and confirmation, and changes nothing but one audit row.
\<close>

theorem draft_confirmed_once:
  assumes "finalize limits catalogue s env did customer allow = Inr (s1, r1)" and "booking_step\<^sup>*\<^sup>* s1 s2"
  shows "\<exists>r2. finalize limits' catalogue' s2 env' did customer' allow' =
      Inr (s2\<lparr>creation_audits := creation_audits s2 @
         [\<lparr>ca_action = ''confirmation_duplicate'', ca_draft_id = did, ca_result_id = cr_booking_id r1\<rparr>]\<rparr>, r2) \<and>
    cr_idempotent r2 \<and> cr_booking_id r2 = cr_booking_id r1 \<and> cr_confirmation_id r2 = cr_confirmation_id r1"
proof -
  from finalize_locks [OF assms(1)] obtain c where c: "get_existing s1 DRAFT_TYPE_HOME_SERVICE did = Some c"
    "cf_result_id c = cr_booking_id r1" "cf_id c = cr_confirmation_id r1" by blast
  from booking_run_locks [OF assms(2)] get_existing_mono [OF c(1)]
  have "get_existing s2 DRAFT_TYPE_HOME_SERVICE did = Some c" by blast
  with c show ?thesis by (simp add: finalize_def audit_def Let_def)
qed

subsection \<open>The load on a team\<close>

definition running :: "'a slot_db_scheme \<Rightarrow> uuid \<Rightarrow> date \<Rightarrow> tod \<Rightarrow> nat" where
  "running s tid day t = length (filter (\<lambda>l. occupies l t (Suc t)) (booked_windows s tid day None))"

lemma count_list_filter: "count_list (filter P ls) x = (if P x then count_list ls x else 0)"
  by (induction ls) auto

lemma count_list_filter_length: "(\<Sum>l \<leftarrow> remdups ls. if P l then int (count_list ls l) else 0) = int (length (filter P ls))"
proof -
  have "(\<Sum>l \<leftarrow> remdups ls. if P l then int (count_list ls l) else 0) = (\<Sum>l \<in> set ls. if P l then int (count_list ls l) else 0)"
    by (simp add: sum_list_distinct_conv_sum_set)
  also have "\<dots> = (\<Sum>l \<in> set ls. int (count_list (filter P ls) l))"
    by (simp add: count_list_filter if_distrib cong: if_cong)
  also have "\<dots> = int (\<Sum>l \<in> set (filter P ls). count_list (filter P ls) l)"
    by (simp add: of_nat_sum) (rule sum.mono_neutral_right, auto simp: count_list_0_iff)
  also have "\<dots> = int (length (filter P ls))" by (simp only: sum_count_set order_refl List.finite_set)
  finally show ?thesis .
qed

lemma overlapping_bookings_eq:
  "overlapping_bookings (booked_counts s tid day ex) a b = int (length (filter (\<lambda>l. occupies l a b) (booked_windows s tid day ex)))"
proof -
  have "foldl (\<lambda>total (label, n). if occupies label a b then total + n else total) t xs =
      t + (\<Sum>(l, n) \<leftarrow> xs. if occupies l a b then n else 0)" for t :: int and xs
    by (induction xs arbitrary: t) auto
  then show ?thesis
    by (simp add: overlapping_bookings_def booked_counts_def Let_def comp_def count_list_filter_length)
qed

text \<open>
  Well-formed booking tables: identifiers of bookings and the bookings of jobs are drawn below the next one, draft
  identifiers are distinct, and the draft of every booking is confirmed.
\<close>

definition booking_wf :: "'a booking_db_scheme \<Rightarrow> bool" where
  "booking_wf s \<longleftrightarrow> (\<forall>b \<in> set (service_bookings s). b_id b < next_uuid s) \<and>
     (\<forall>j \<in> set (service_jobs s). j_booking_id j < next_uuid s) \<and> distinct (map d_id (booking_drafts s)) \<and>
     (\<forall>b \<in> set (service_bookings s). \<forall>d \<in> set (booking_drafts s). b_draft_id b = Some (d_id d) \<longrightarrow> d_status d = ''confirmed'')"

definition job_windows ::
  "service_booking list \<Rightarrow> booking_draft list \<Rightarrow> uuid \<Rightarrow> date \<Rightarrow> service_job \<Rightarrow> string option list" where
  "job_windows bs drs tid day j = [j_scheduled_time_window j. b \<leftarrow> bs, d \<leftarrow> drs, holds_place tid day None j b d]"

lemma booked_windows_concat:
  "booked_windows s tid day None = concat (map (job_windows (service_bookings s) (booking_drafts s) tid day) (service_jobs s))"
  unfolding booked_windows_def job_windows_def by simp

lemma concat_map_single:
  assumes "distinct (map key xs)" and "x \<in> set xs" and "\<And>y. key y \<noteq> key x \<Longrightarrow> f y = []"
  shows "concat (map f xs) = f x"
  using assms(1,2)
proof (induction xs)
  case (Cons y ys)
  show ?case
  proof (cases "y = x")
    case True
    have "\<forall>z \<in> set ys. f z = []"
    proof
      fix z assume "z \<in> set ys"
      with Cons.prems(1) True have "key z \<noteq> key x" by (metis distinct.simps(2) image_eqI list.set_map list.simps(9))
      then show "f z = []" by (rule assms(3))
    qed
    then show ?thesis using True by simp
  next
    case False
    with Cons.prems have "x \<in> set ys" "key y \<noteq> key x" by force+
    with Cons show ?thesis by (simp add: assms(3))
  qed
qed simp

lemma ready_draft_Inr:
  assumes "ready_draft limits catalogue s did customer allow = Inr dr"
  shows "dr \<in> set (booking_drafts s)" "d_id dr = did" "d_status dr = ''ready_for_confirmation''"
  using assms by (auto simp: ready_draft_def split: option.splits if_splits dest!: first_row_Some_set)

definition created_promise :: "'a booking_db_scheme \<Rightarrow> booking_env \<Rightarrow> booking_draft \<Rightarrow> (date \<times> string) option" where
  "created_promise s env dr =
     promised_slot (s\<lparr>service_bookings := service_bookings s @ [new_booking (next_uuid s) dr], next_uuid := Suc (next_uuid s)\<rparr>) env dr"

definition created_job :: "'a booking_db_scheme \<Rightarrow> booking_env \<Rightarrow> booking_draft \<Rightarrow> service_job" where
  "created_job s env dr = new_job (Suc (next_uuid s)) (next_uuid s) dr (created_promise s env dr)
     (auto_accept (s\<lparr>service_bookings := service_bookings s @ [new_booking (next_uuid s) dr], next_uuid := Suc (next_uuid s)\<rparr>) dr
        (created_promise s env dr))"

lemma create_records_rows:
  assumes "booking_wf s"
  shows "service_jobs (create_records s env dr) = service_jobs s @ [created_job s env dr]"
    "\<exists>st \<in> {JS_ACCEPTED, JS_PENDING_ASSIGNMENT}. service_bookings (create_records s env dr) =
       service_bookings s @ [(new_booking (next_uuid s) dr)\<lparr>b_status := st\<rparr>]"
    "booking_drafts (create_records s env dr) =
       update_where (\<lambda>d. d_id d = d_id dr) (\<lambda>d. d\<lparr>d_status := ''confirmed''\<rparr>) (booking_drafts s)"
proof -
  show "service_jobs (create_records s env dr) = service_jobs s @ [created_job s env dr]"
    by (simp add: create_records_def created_job_def created_promise_def Let_def)
  show "booking_drafts (create_records s env dr) =
       update_where (\<lambda>d. d_id d = d_id dr) (\<lambda>d. d\<lparr>d_status := ''confirmed''\<rparr>) (booking_drafts s)"
    by (simp add: create_records_def Let_def)
  have "update_where (\<lambda>b. b_id b = next_uuid s) f (service_bookings s) = service_bookings s" for f
    using assms by (intro update_where_none) (auto simp: booking_wf_def)
  then show "\<exists>st \<in> {JS_ACCEPTED, JS_PENDING_ASSIGNMENT}. service_bookings (create_records s env dr) =
       service_bookings s @ [(new_booking (next_uuid s) dr)\<lparr>b_status := st\<rparr>]"
    by (simp add: create_records_def Let_def new_booking_def)
qed

lemma job_windows_old:
  assumes "j_booking_id j \<noteq> b_id nb"
    and "\<forall>b \<in> set bs. \<forall>d \<in> set drs. b_draft_id b = Some (d_id d) \<longrightarrow> d_status d = ''confirmed''"
  shows "job_windows (bs @ [nb]) (update_where (\<lambda>d. d_id d = did) (\<lambda>d. d\<lparr>d_status := ''confirmed''\<rparr>) drs) tid day j =
    job_windows bs drs tid day j"
proof -
  have "holds_place tid day None j b (if d_id d = did then d\<lparr>d_status := ''confirmed''\<rparr> else d) = holds_place tid day None j b d"
    if "b \<in> set bs" "d \<in> set drs" for b d
    using assms(2) that by (auto simp: holds_place_def)
  moreover have "\<not> holds_place tid day None j nb d" for d using assms(1) by (simp add: holds_place_def)
  ultimately show ?thesis
    unfolding job_windows_def update_where_def by (simp add: comp_def cong: map_cong)
qed

lemma booked_windows_create:
  assumes wf: "booking_wf s" and dr: "dr \<in> set (booking_drafts s)"
  shows "booked_windows (create_records s env dr) tid day None = booked_windows s tid day None @
    (if d_selected_tenant_id dr = Some tid \<and> j_scheduled_date (created_job s env dr) = Some day
     then [j_scheduled_time_window (created_job s env dr)] else [])"
proof -
  from create_records_rows(2) [OF wf, of env dr] obtain st where st: "st \<in> {JS_ACCEPTED, JS_PENDING_ASSIGNMENT}"
    "service_bookings (create_records s env dr) = service_bookings s @ [(new_booking (next_uuid s) dr)\<lparr>b_status := st\<rparr>]" by blast
  let ?nb = "(new_booking (next_uuid s) dr)\<lparr>b_status := st\<rparr>" and ?j = "created_job s env dr"
  let ?drs = "update_where (\<lambda>d. d_id d = d_id dr) (\<lambda>d. d\<lparr>d_status := ''confirmed''\<rparr>) (booking_drafts s)"
  have nb: "b_id ?nb = next_uuid s" "b_draft_id ?nb = Some (d_id dr)" "b_status ?nb \<notin> set RELEASING_STATUSES"
    using st(1) by (auto simp: new_booking_def RELEASING_STATUSES_def)
  have j: "j_booking_id ?j = next_uuid s" "j_tenant_id ?j = d_selected_tenant_id dr" "j_status ?j \<notin> set RELEASING_STATUSES"
    by (auto simp: created_job_def new_job_def RELEASING_STATUSES_def)
  have old: "job_windows (service_bookings s @ [?nb]) ?drs tid day i = job_windows (service_bookings s) (booking_drafts s) tid day i"
    if "i \<in> set (service_jobs s)" for i
    by (rule job_windows_old) (use that wf in \<open>auto simp: nb booking_wf_def simp del: not_less\<close>)
  have new: "job_windows (service_bookings s @ [?nb]) ?drs tid day ?j =
      (if d_selected_tenant_id dr = Some tid \<and> j_scheduled_date ?j = Some day then [j_scheduled_time_window ?j] else [])"
  proof -
    let ?d = "dr\<lparr>d_status := ''confirmed''\<rparr>" and ?f = "\<lambda>d. if holds_place tid day None ?j ?nb d then [j_scheduled_time_window ?j] else []"
    have none: "\<not> holds_place tid day None ?j b d" if "b \<in> set (service_bookings s)" for b d
      using that wf by (auto simp: holds_place_def j booking_wf_def)
    have "concat (map ?f ?drs) = ?f ?d"
    proof (rule concat_map_single [where key = d_id])
      show "distinct (map d_id ?drs)" using wf by (simp add: map_update_where_key booking_wf_def)
      show "?d \<in> set ?drs" using dr by (auto simp: set_update_where)
      show "?f y = []" if "d_id y \<noteq> d_id ?d" for y using that by (simp add: holds_place_def nb)
    qed
    moreover have "holds_place tid day None ?j ?nb ?d \<longleftrightarrow> d_selected_tenant_id dr = Some tid \<and> j_scheduled_date ?j = Some day"
      using nb j by (auto simp: holds_place_def)
    ultimately show ?thesis by (simp add: job_windows_def none cong: map_cong)
  qed
  show ?thesis
    unfolding booked_windows_concat create_records_rows(1,3) [OF wf] st(2)
    by (simp add: new) (rule arg_cong [where f = concat], rule map_cong, rule refl, rule old)
qed

lemma booking_wf_finalize:
  assumes "booking_wf s" and "finalize limits catalogue s env did customer allow = Inr (t, r)"
  shows "booking_wf t"
  using assms(2)
proof (cases rule: finalize_cases)
  case (replay c)
  then show ?thesis using assms(1) by (simp add: booking_wf_def)
next
  case (create dr c)
  note dr = ready_draft_Inr [OF create(2)]
  from create_records_rows(2) [OF assms(1), of env dr] create(4) obtain st where
    bs: "service_bookings t = service_bookings s @ [(new_booking (next_uuid s) dr)\<lparr>b_status := st\<rparr>]" by auto
  have js: "service_jobs t = service_jobs s @ [created_job s env dr]" using create(3) create_records_rows(1) [OF assms(1)] by simp
  let ?conf = "update_where (\<lambda>d. d_id d = d_id dr) (\<lambda>d. d\<lparr>d_status := ''confirmed''\<rparr>) (booking_drafts s)"
  have ds: "booking_drafts t = ?conf" using create(5) create_records_rows(3) [OF assms(1)] by simp
  have n: "next_uuid s < next_uuid t" using create(7) by simp
  have old: "\<And>b. b \<in> set (service_bookings s) \<Longrightarrow> b_id b < next_uuid s" "\<And>j. j \<in> set (service_jobs s) \<Longrightarrow> j_booking_id j < next_uuid s"
    "\<And>b d. b \<in> set (service_bookings s) \<Longrightarrow> d \<in> set (booking_drafts s) \<Longrightarrow> b_draft_id b = Some (d_id d) \<Longrightarrow> d_status d = ''confirmed''"
    "distinct (map d_id (booking_drafts s))"
    using assms(1) unfolding booking_wf_def by blast+
  have "\<forall>b \<in> set (service_bookings t). b_id b < next_uuid t" using old(1) n by (auto simp: bs new_booking_def intro: less_trans)
  moreover have "\<forall>j \<in> set (service_jobs t). j_booking_id j < next_uuid t"
    using old(2) n by (auto simp: js created_job_def new_job_def intro: less_trans)
  moreover have "d_status d = ''confirmed''"
    if b: "b \<in> set (service_bookings t)" and d: "d \<in> set ?conf" and e: "b_draft_id b = Some (d_id d)" for b d
  proof (cases "d_id d = d_id dr")
    case True
    with d show ?thesis by (auto simp: set_update_where)
  next
    case False
    then have "d \<in> set (booking_drafts s)" using d by (auto simp: set_update_where)
    moreover have "b \<in> set (service_bookings s)" using b e False by (auto simp: bs new_booking_def)
    ultimately show ?thesis using old(3) e by blast
  qed
  moreover have "distinct (map d_id ?conf)" using old(4) by (simp add: map_update_where_key)
  ultimately show ?thesis unfolding booking_wf_def ds by blast
qed

subsection \<open>A promise is room in the team\<close>

lemma find_SomeD: "find P xs = Some x \<Longrightarrow> x \<in> set xs \<and> P x"
  by (induction xs) (auto split: if_splits)

definition roomy :: "'a slot_db_scheme \<Rightarrow> uuid \<Rightarrow> date \<Rightarrow> string \<Rightarrow> int \<Rightarrow> bool" where
  "roomy s tid day w n \<longleftrightarrow> (\<exists>a b. w = window_label a b \<and> a < 86400 \<and> b < 86400 \<and> a mod 60 = 0 \<and> b mod 60 = 0 \<and>
     int (length (filter (\<lambda>l. occupies l a b) (booked_windows s tid day None))) < n)"

lemma roomy_intro:
  assumes "\<forall>r \<in> set (availability_rules s). hours_aligned r" and "r \<in> set (provider_rules_for_day s tid dow)"
    and "v \<in> set (slots_from_rule r)" and "w = window_label (fst v) (snd v)"
    and "overlapping_bookings (booked_counts s tid day None) (fst v) (snd v) < slot_cap rules n v"
  shows "roomy s tid day w n"
proof -
  have "hours_aligned r" using provider_rules_aligned [OF assms(1,2)] .
  note v = slots_aligned [OF this assms(3)] slots_from_rule_shape [OF assms(3)]
  have "int (length (filter (\<lambda>l. occupies l (fst v) (snd v)) (booked_windows s tid day None))) < max 0 n"
    using assms(5) slot_cap_bounds [of rules n v] by (simp add: overlapping_bookings_eq)
  then have "int (length (filter (\<lambda>l. occupies l (fst v) (snd v)) (booked_windows s tid day None))) < n" by linarith
  with v assms(4) show ?thesis unfolding roomy_def by (metis add_lessD1)
qed

lemma capacity_roomy:
  assumes "slot_has_capacity s dbnow tid day w service job_type None" and "\<forall>r \<in> set (availability_rules s). hours_aligned r"
  shows "roomy s tid day w (assignable_technician_count s dbnow tid service job_type)"
proof -
  let ?rules = "provider_rules_for_day s tid (isoweekday_mod7 day)"
  from assms(1) obtain v where v: "find (\<lambda>v. window_label (fst v) (snd v) = w) (concat (map slots_from_rule ?rules)) = Some v"
    "overlapping_bookings (booked_counts s tid day None) (fst v) (snd v) <
       slot_cap ?rules (assignable_technician_count s dbnow tid service job_type) v"
    by (auto simp: slot_has_capacity_def Let_def split: if_splits option.splits)
  from v(1) have "v \<in> set (concat (map slots_from_rule ?rules))" "window_label (fst v) (snd v) = w"
    by (auto dest!: find_SomeD)
  then obtain r where "r \<in> set ?rules" "v \<in> set (slots_from_rule r)" "w = window_label (fst v) (snd v)" by auto
  then show ?thesis by (rule roomy_intro [OF assms(2)]) (rule v(2))
qed

lemma earliest_from_sound:
  "earliest_from open_at cutoff ks = Some x \<Longrightarrow>
   \<exists>k \<in> set ks. \<exists>ds w. open_at k = Some ds \<and> w \<in> set (day_slots ds) \<and> bookable ds cutoff w \<and> x = offer_of ds w"
proof (induction ks)
  case (Cons k ks)
  show ?case
  proof (cases "Option.bind (open_at k) (first_in_day cutoff)")
    case None
    with Cons show ?thesis by auto
  next
    case (Some y)
    then obtain ds w where "open_at k = Some ds" "find (bookable ds cutoff) (day_slots ds) = Some w" "y = offer_of ds w"
      by (auto simp: first_in_day_def bind_eq_Some_conv)
    moreover from this(2) have "w \<in> set (day_slots ds)" "bookable ds cutoff w" by (blast dest: find_SomeD)+
    moreover have "x = y" using Some Cons.prems by simp
    ultimately show ?thesis by (metis list.set_intros(1))
  qed
qed simp

lemma earliest_roomy:
  assumes "find_earliest_available_slot s dbnow tid now sd em service job_type = Some x"
    and "\<forall>r \<in> set (availability_rules s). hours_aligned r"
  shows "roomy s tid (so_date x) (so_time_window x) (assignable_technician_count s dbnow tid service job_type)"
proof -
  from earliest_from_sound [OF assms(1) [unfolded find_earliest_available_slot_def Let_def]] obtain k ds v
    where o: "open_day s dbnow tid service job_type (booking_window_settings s tid) (date_of now) k = Some ds"
      and v: "v \<in> set (day_slots ds)" "bookable ds (notice_cutoff (booking_window_settings s tid) now em) v" "x = offer_of ds v"
    by metis
  note ds = open_day_Some [OF o]
  from v(1) obtain r where r: "r \<in> set (provider_rules_for_day s tid (isoweekday_mod7 (ds_date ds)))" "v \<in> set (slots_from_rule r)"
    using ds(4) by auto
  have x: "so_date x = ds_date ds" "so_time_window x = window_label (fst v) (snd v)" by (simp_all add: v(3) offer_of_def Let_def)
  have "overlapping_bookings (booked_counts s tid (ds_date ds) None) (fst v) (snd v) <
      slot_cap (ds_rules ds) (assignable_technician_count s dbnow tid service job_type) v"
    using v(2) ds(6,8) by (simp add: bookable_def)
  then show ?thesis unfolding x by (rule roomy_intro [OF assms(2) r refl])
qed

lemma promised_slot_roomy:
  assumes "promised_slot s env dr = Some (day, w)" and "d_selected_tenant_id dr = Some tid"
    and "\<forall>r \<in> set (availability_rules s). hours_aligned r"
  shows "roomy s tid day w (assignable_technician_count s (be_dbnow env) tid (Some (d_offering_id dr)) (d_job_type_id dr))"
proof (cases "offered_slot_stands s env dr tid")
  case None
  with assms(1,2) obtain x where "find_earliest_available_slot s (be_dbnow env) tid (local_now s env tid) None False
      (Some (d_offering_id dr)) (d_job_type_id dr) = Some x" "day = so_date x" "w = so_time_window x"
    by (auto simp: promised_slot_def)
  then show ?thesis using earliest_roomy [OF _ assms(3)] by blast
next
  case (Some p)
  with assms(1,2) have "p = (day, w)" by (simp add: promised_slot_def)
  with Some have "slot_has_capacity s (be_dbnow env) tid day w (Some (d_offering_id dr)) (d_job_type_id dr) None"
    by (auto simp: offered_slot_stands_def split: option.splits prod.splits if_splits)
  then show ?thesis by (rule capacity_roomy [OF _ assms(3)])
qed

lemma assignable_frame:
  fixes s :: "'a slot_db_scheme"
  defines "s' \<equiv> \<lambda>bs n. s\<lparr>service_bookings := bs, next_uuid := n\<rparr>"
  shows "assignable_technician_count (s' bs n) now tid service job_type = assignable_technician_count s now tid service job_type"
proof -
  have "active_technician_sql (s' bs n) = active_technician_sql s" "serves (s' bs n) = serves s" "documented (s' bs n) = documented s"
    unfolding s'_def by (auto simp: fun_eq_iff active_technician_sql_def serves_def documented_def split: option.split)
  then show ?thesis by (simp add: assignable_technician_count_def ready_technicians_def funded_seats_def) (simp add: s'_def)
qed

lemma booked_windows_unused_booking:
  assumes "booking_wf s"
  shows "booked_windows (s\<lparr>service_bookings := service_bookings s @ [new_booking (next_uuid s) dr], next_uuid := n\<rparr>) tid day None =
    booked_windows s tid day None"
proof -
  have "job_windows (service_bookings s @ [new_booking (next_uuid s) dr]) ds tid day j = job_windows (service_bookings s) ds tid day j"
    if "j \<in> set (service_jobs s)" for j ds
  proof -
    have "\<not> holds_place tid day None j (new_booking (next_uuid s) dr) d" for d
      using assms that by (auto simp: holds_place_def new_booking_def booking_wf_def)
    then show ?thesis by (simp add: job_windows_def)
  qed
  then show ?thesis by (simp add: booked_windows_concat cong: map_cong)
qed

lemma created_promise_roomy:
  assumes "booking_wf s" and "created_promise s env dr = Some (day, w)" and "d_selected_tenant_id dr = Some tid"
    and "\<forall>r \<in> set (availability_rules s). hours_aligned r"
  shows "roomy s tid day w (assignable_technician_count s (be_dbnow env) tid (Some (d_offering_id dr)) (d_job_type_id dr))"
  using promised_slot_roomy [OF assms(2) [unfolded created_promise_def] assms(3)] assms(4)
  by (simp add: roomy_def assignable_frame booked_windows_unused_booking [OF assms(1)])

lemma occupies_widen: "occupies l t (Suc t) \<Longrightarrow> a \<le> t \<Longrightarrow> t < b \<Longrightarrow> occupies l a b"
  by (auto simp: occupies_def split: option.splits prod.splits)

lemma running_promise:
  assumes "roomy s tid day w n" and "occupies (Some w) t (Suc t)"
  shows "int (running s tid day t) + 1 \<le> n"
proof -
  from assms(1) obtain a b where ab: "w = window_label a b" "a < 86400" "b < 86400" "a mod 60 = 0" "b mod 60 = 0"
    "int (length (filter (\<lambda>l. occupies l a b) (booked_windows s tid day None))) < n" unfolding roomy_def by (elim exE conjE)
  have "60 * (a div 60) = a" "60 * (b div 60) = b" using ab(4,5) by auto
  then have "a \<le> t" "t < b" using assms(2) ab(1) occupies_window [OF ab(2,3), of t "Suc t"] by auto
  then have "length (filter (\<lambda>l. occupies l t (Suc t)) xs) \<le> length (filter (\<lambda>l. occupies l a b) xs)" for xs
    by (induction xs) (auto dest: occupies_widen)
  from this [of "booked_windows s tid day None"] ab(6) show ?thesis unfolding running_def by linarith
qed

lemma finalize_running:
  assumes "booking_wf s" and "finalize limits catalogue s env did customer allow = Inr (t, r)"
    and "ready_draft limits catalogue s did customer allow = Inr dr"
  shows "get_existing s DRAFT_TYPE_HOME_SERVICE did \<noteq> None \<and> running t tid day x = running s tid day x \<or>
    get_existing s DRAFT_TYPE_HOME_SERVICE did = None \<and> running t tid day x = running s tid day x +
      (if d_selected_tenant_id dr = Some tid \<and> j_scheduled_date (created_job s env dr) = Some day \<and>
          occupies (j_scheduled_time_window (created_job s env dr)) x (Suc x) then 1 else 0)"
  using assms(2)
proof (cases rule: finalize_cases)
  case (replay c)
  then show ?thesis by (simp add: running_def booked_windows_concat)
next
  case (create dr' c)
  with assms(3) have [simp]: "dr' = dr" by simp
  have "booked_windows t tid day None = booked_windows (create_records s env dr) tid day None"
    using create(3-5) by (simp add: booked_windows_concat)
  also note booked_windows_create [OF assms(1) ready_draft_Inr(1) [OF assms(3)]]
  finally show ?thesis using create(1) by (simp add: running_def)
qed

text \<open>A confirmation whose promise was kept or renewed, made while at most \<open>n\<close> technicians are ready for its service.\<close>

inductive promised_step :: "int \<Rightarrow> 'a booking_db_scheme \<Rightarrow> 'a booking_db_scheme \<Rightarrow> bool" for n where
  "finalize limits catalogue s env did customer allow = Inr (t, r) \<Longrightarrow>
   ready_draft limits catalogue s did customer allow = Inr dr \<Longrightarrow> d_selected_tenant_id dr = Some tid \<Longrightarrow>
   created_promise s env dr \<noteq> None \<Longrightarrow>
   assignable_technician_count s (be_dbnow env) tid (Some (d_offering_id dr)) (d_job_type_id dr) \<le> n \<Longrightarrow> promised_step n s t"

definition calendar_safe :: "int \<Rightarrow> 'a booking_db_scheme \<Rightarrow> bool" where
  "calendar_safe n s \<longleftrightarrow> booking_wf s \<and> (\<forall>r \<in> set (availability_rules s). hours_aligned r) \<and>
     (\<forall>tid day t. int (running s tid day t) \<le> n)"

lemma promised_step_safe:
  assumes "promised_step n s t" and "calendar_safe n s"
  shows "calendar_safe n t"
  using assms(1)
proof cases
  case (1 limits catalogue env did customer allow r dr tid)
  have wf: "booking_wf s" and al: "\<forall>r \<in> set (availability_rules s). hours_aligned r" and le: "\<And>tid day t. int (running s tid day t) \<le> n"
    using assms(2) by (auto simp: calendar_safe_def)
  from 1(4) obtain day w where p: "created_promise s env dr = Some (day, w)" by auto
  have room: "roomy s tid day w n"
    using created_promise_roomy [OF wf p 1(3) al] 1(5) by (force simp: roomy_def)
  have w: "w \<noteq> []" using room by (auto simp: roomy_def window_label_def)
  have j: "j_scheduled_date (created_job s env dr) = Some day" "j_scheduled_time_window (created_job s env dr) = Some w"
    using w by (simp_all add: created_job_def new_job_def p)
  have "int (running t tid' day' x) \<le> n" for tid' day' x
    using finalize_running [OF wf 1(1,2), of tid' day' x] running_promise [OF room, of x] le [of tid' day' x] 1(3)
    by (auto simp: j split: if_splits)
  moreover have "availability_rules t = availability_rules s"
    using 1(1) by (cases rule: finalize_cases) auto
  ultimately show ?thesis using booking_wf_finalize [OF wf 1(1)] al by (simp add: calendar_safe_def)
qed


text \<open>
  Without a promise the customer's wish is booked anyway. When no slot can be promised and the draft carries a preferred
  date and window (the slot picked earlier, say), a successful confirmation schedules the job there: one more visit
  at every moment of the window, however full the calendar and however small the team.
\<close>

theorem unpromised_booking_bypasses_capacity:
  assumes "booking_wf s" and "finalize limits catalogue s env did customer allow = Inr (t, r)"
    and "get_existing s DRAFT_TYPE_HOME_SERVICE did = None"
    and "ready_draft limits catalogue s did customer allow = Inr dr" and "d_selected_tenant_id dr = Some tid"
    and "created_promise s env dr = None" and "d_preferred_date dr = Some day" and "d_preferred_time_window dr = Some w"
    and "occupies (Some w) x (Suc x)"
  shows "running t tid day x = Suc (running s tid day x)"
  using finalize_running [OF assms(1,2,4), of tid day x] assms(3,5-9)
  by (simp add: created_job_def new_job_def)

subsection \<open>A concrete provider\<close>

definition demo_draft :: booking_draft where
  "demo_draft = \<lparr>d_id = 70, d_customer_id = Some 9, d_status = ''ready_for_confirmation'', d_selected_tenant_id = Some 4,
     d_category_id = 5, d_offering_id = 6, d_job_type_id = None, d_workflow_id = None, d_selected_problem_id = None,
     d_preferred_date = Some 8, d_preferred_time_window = Some ''09:00-11:00'', d_promised_slot = Some (Some 8, Some ''09:00-11:00''),
     d_price_snapshot = None, d_agreed_price = JNum 500, d_duplicate_booking_override = False, d_duplicate_problem_id = None,
     d_offering_type_id = None, d_brand_id = None\<rparr>"

definition demo_service :: tenant_service where
  "demo_service = \<lparr>sv_id = 20, sv_tenant_id = 4, sv_master_service_id = 6, sv_job_type_id = 1, sv_is_active = True,
     sv_is_enabled = True, sv_deleted = False, sv_setup_status = ''published''\<rparr>"

definition demo_bookings :: "team_member list \<Rightarrow> booking_db" where
  "demo_bookings team = slot_db.extend (demo_slots\<lparr>next_uuid := 100, team_members := team, booking_drafts := [demo_draft],
       tenant_services := [demo_service]\<rparr>)
     (booking_db.fields [] [] [] [] [\<lparr>pt_id = 4, pt_status = ''active'', pt_suspended = False, pt_terminated = False,
       pt_owner_user_id = Some 11\<rparr>])"

definition demo_env :: booking_env where
  "demo_env = \<lparr>be_dbnow = 0, be_clock = (\<lambda>_. Some (combine 8 0)), be_server = combine 8 0\<rparr>"

lemma demo_bookings_simps [simp]:
  "availability_rules (demo_bookings team) = availability_rules demo_slots" "availability_exceptions (demo_bookings team) = []"
  "window_rows (demo_bookings team) = []" "users (demo_bookings team) = []" "\<not> roster_unreadable (demo_bookings team)"
  "team_members (demo_bookings team) = team" "topup_entitlements (demo_bookings team) = topup_entitlements demo_slots"
  "service_jobs (demo_bookings team) = [demo_job]" "booking_drafts (demo_bookings team) = [demo_draft]"
  "service_bookings (demo_bookings team) = [demo_booking]" "next_uuid (demo_bookings team) = 100"
  "confirmations (demo_bookings team) = []" "tenant_services (demo_bookings team) = [demo_service]"
  by (simp_all add: demo_bookings_def slot_db.defs booking_db.defs demo_slots_def credit_db.defs empty_credits_def monet_db.defs
      demo_monet_def job_db.defs demo_jobs_def ledger_db.defs)

lemma demo_bookings_wf [simp]: "booking_wf (demo_bookings team)"
  by (simp add: booking_wf_def demo_booking_def demo_job_def)

lemma demo_ready [simp]: "ready_draft (\<lambda>_. None) (\<lambda>_. None) (demo_bookings team) 70 None False = Inr demo_draft"
  by (simp add: ready_draft_def demo_draft_def duplicate_booking_def demo_booking_def)

lemma demo_unlocked [simp]: "get_existing (demo_bookings team) ty did = None"
  by (simp add: get_existing_def)

lemma demo_finalize: "\<exists>t r. finalize (\<lambda>_. None) (\<lambda>_. None) (demo_bookings team) demo_env 70 None False = Inr (t, r)"
proof -
  have "confirmations (create_records (demo_bookings team) demo_env demo_draft) = []" by (simp add: create_records_def Let_def)
  then show ?thesis by (simp add: finalize_def create_lock_def Let_def)
qed

theorem draft_confirmed_once_witness:
  "\<exists>s1 r1 s2 r2. finalize (\<lambda>_. None) (\<lambda>_. None) (demo_bookings []) demo_env 70 None False = Inr (s1, r1) \<and>
     finalize (\<lambda>_. None) (\<lambda>_. None) s1 demo_env 70 (Some 9) True = Inr (s2, r2) \<and>
     cr_idempotent r2 \<and> cr_booking_id r2 = cr_booking_id r1 \<and> service_jobs s2 = service_jobs s1"
proof -
  obtain s1 r1 where f: "finalize (\<lambda>_. None) (\<lambda>_. None) (demo_bookings []) demo_env 70 None False = Inr (s1, r1)"
    using demo_finalize by blast
  show ?thesis
    using f draft_confirmed_once [OF f rtranclp.rtrancl_refl, of "\<lambda>_. None" "\<lambda>_. None" demo_env "Some 9" True] by force
qed

lemma no_team_no_promise:
  assumes "assignable_technician_count s (be_dbnow env) tid (Some (d_offering_id dr)) (d_job_type_id dr) \<le> 0"
    and "d_selected_tenant_id dr = Some tid"
  shows "promised_slot s env dr = None"
proof -
  let ?n = "assignable_technician_count s (be_dbnow env) tid (Some (d_offering_id dr)) (d_job_type_id dr)"
  have "daily_remaining rules ?n (booked_counts s tid day None) \<le> 0" for rules day
  proof -
    have "0 \<le> sum_list (map snd (booked_counts s tid day None))"
      by (auto simp: booked_counts_def Let_def intro!: sum_list_nonneg)
    with foldl_min_le [of 0 "List.map_filter ar_max_jobs_per_day rules"] assms(1) show ?thesis
      by (simp add: daily_remaining_def Let_def max_def)
  qed
  then have "offered_slot_stands s env dr tid = None"
    by (auto simp: offered_slot_stands_def slot_has_capacity_def Let_def split: option.split)
  moreover have "open_day s (be_dbnow env) tid (Some (d_offering_id dr)) (d_job_type_id dr) st d k = None" for st d k
    using assms(1) by (auto simp: open_day_def Let_def)
  then have "earliest_from (open_day s (be_dbnow env) tid (Some (d_offering_id dr)) (d_job_type_id dr) st d) c ks = None" for st d c ks
    by (induction ks) simp_all
  ultimately show ?thesis using assms(2) by (simp add: promised_slot_def find_earliest_available_slot_def Let_def)
qed

theorem unpromised_booking_bypasses_capacity_witness:
  "assignable_technician_count (demo_bookings []) 0 4 (Some 6) None = 0 \<and>
   (\<exists>t r. finalize (\<lambda>_. None) (\<lambda>_. None) (demo_bookings []) demo_env 70 None False = Inr (t, r) \<and>
      running t 4 8 32400 = Suc (running (demo_bookings []) 4 8 32400))"
proof -
  have n: "assignable_technician_count (demo_bookings []) d 4 (Some 6) None = 0" for d
    by (simp add: assignable_technician_count_def ready_technicians_def funded_seats_def)
  have p: "created_promise (demo_bookings []) demo_env demo_draft = None"
    unfolding created_promise_def
    by (rule no_team_no_promise [where tid = 4]) (simp_all add: assignable_frame demo_draft_def n)
  have o: "occupies (Some ''09:00-11:00'') 32400 (Suc 32400)"
    using occupies_window [of 32400 39600 32400 "Suc 32400"] by (simp add: demo_labels)
  obtain t r where f: "finalize (\<lambda>_. None) (\<lambda>_. None) (demo_bookings []) demo_env 70 None False = Inr (t, r)"
    using demo_finalize by blast
  have "running t 4 8 32400 = Suc (running (demo_bookings []) 4 8 32400)"
    by (rule unpromised_booking_bypasses_capacity [OF demo_bookings_wf f demo_unlocked demo_ready _ p _ _ o])
       (simp_all add: demo_draft_def)
  with f n show ?thesis by blast
qed

definition demo_technician :: team_member where
  "demo_technician = demo_member\<lparr>m_supported_offering_ids := [20]\<rparr>"

lemma demo_promise:
  "created_promise (demo_bookings [demo_technician]) demo_env demo_draft \<noteq> None"
  "assignable_technician_count (demo_bookings [demo_technician]) d 4 (Some 6) None = 1"
proof -
  let ?s = "demo_bookings [demo_technician]"
  let ?s1 = "?s\<lparr>service_bookings := [demo_booking, new_booking 100 demo_draft], next_uuid := 101\<rparr>"
  show n: "assignable_technician_count ?s d 4 (Some 6) None = 1" for d
    by (simp add: assignable_technician_count_def ready_technicians_def active_technician_sql_def coalesce_text_def serves_def
        demo_technician_def documented_def required_technician_keys_def funded_seats_def demo_service_def btrim_def lower_def lower_char_def TECHNICIAN_MEMBER_TYPES_def)
  have rules: "provider_rules_for_day ?s1 4 1 = [demo_rule]"
    using demo_slots_day(1) [of 1] by (simp add: provider_rules_for_day_def joined_buffer_def)
  have booked: "booked_counts ?s1 4 8 None = []"
    by (simp add: booked_counts_def booked_windows_def holds_place_def demo_job_def)
  have "slot_has_capacity ?s1 0 4 8 ''09:00-11:00'' (Some 6) None None"
    by (simp add: slot_has_capacity_def is_closed_def isoweekday_mod7_def rules booked assignable_frame n demo_capacity demo_labels
        overlapping_bookings_def Let_def)
  then have "offered_slot_stands ?s1 demo_env demo_draft 4 = Some (8, ''09:00-11:00'')"
    by (simp add: offered_slot_stands_def demo_draft_def demo_env_def)
  then show "created_promise ?s demo_env demo_draft \<noteq> None"
    by (simp add: created_promise_def promised_slot_def) (simp add: demo_draft_def)
qed


end
