(* ===== verification/Spec2Isabelle.thy ===== *)
theory Spec2Isabelle
  imports Sla Bookings
begin

section \<open>A model of the Fuvay home-services backend\<close>

text \<open>
  The backend sells home services: a customer drafts a booking and picks a slot, the booking is confirmed and
  becomes a job, the provider assigns a technician, the technician visits, quotes, works and completes it, the customer
  pays the provider on site, and the platform earns from the provider's prepaid balances. This development models the
  services that decide those things, under \<^verbatim>\<open>src/app/engines/\<close>, and proves what they keep.

  \<^bold>\<open>How a program becomes a definition.\<close> The tables a service reads are the fields of one record; every component
  extends the record of the components it calls (\<open>ledger_db\<close>, \<open>job_db\<close>, \<open>monet_db\<close>, \<open>credit_db\<close>, \<open>quote_db\<close>,
  \<open>billing_db\<close>, \<open>inv_db\<close>, \<open>chk_db\<close>, \<open>exec_db\<close>, \<open>remedy_db\<close>, \<open>sla_db\<close> on one side, \<open>slot_db\<close>, \<open>avail_db\<close>, \<open>assign_db\<close>, \<open>booking_db\<close> on the
  other), so an operation of one component runs unchanged on the state of another. A table is the list of its rows in
  insertion order; a query is a filter, \<^verbatim>\<open>.first()\<close> and \<^verbatim>\<open>.scalar()\<close> are \<open>first_row\<close>, \<^verbatim>\<open>scalar_one_or_none()\<close> is
  \<open>one_or_none\<close> with its error on two rows. An operation is a function from the state and the arguments to
  \<open>error + state\<close>: every raise of the source is an \<open>Inl\<close>, with the error code of the source, and a state after a raise
  does not exist because the request's session rolls back. Where the source commits before it raises, or swallows an
  exception, the model returns the state that is kept. A read-then-write on one row happens in one step, as the row locks
  of the source arrange. Decimals are rationals, with each \<^verbatim>\<open>quantize\<close> of the source written out; fresh identifiers
  come from the counter \<open>next_uuid\<close>; times are seconds and dates are day numbers; Python's integers are \<open>int\<close>.

  \<^bold>\<open>The theories\<close>, in the order of their imports:
  \<^item> \<open>Prelude\<close>: results, queries and updates of tables, rounding, numerals in texts, and the collections
    \<open>res_simps\<close>, \<open>table_simps\<close>, \<open>round_simps\<close>.
  \<^item> \<open>Interfaces\<close>: the contracts between components as locales. \<open>posting_ledger\<close> and \<open>solvent_ledger\<close> (a balance moves
    only with its ledger), \<open>keyed_posting\<close> (a write with an idempotency key happens once) and \<open>guarded_records\<close> (a
    status moves along a fixed graph). They are interpreted as \<open>wallet\<close>, \<open>wallet_keys\<close> (Ledger), \<open>fee_keys\<close>
    (Monetization), \<open>credits\<close>, \<open>credit_keys\<close>, \<open>job_charges\<close> (UsageCredits), \<open>quote_graph\<close>, \<open>invoice_graph\<close>, \<open>billing\<close>
    (Payments), \<open>stock\<close>, \<open>reservation_graph\<close> (Inventory), \<open>assignment_rows\<close>, \<open>job_graph\<close>
    (Timeline), \<open>credit_moves\<close> and \<open>remedy_keys\<close> (CustomerCredits).
  \<^item> \<open>Ledger\<close>: \<^verbatim>\<open>platform_commerce/ledger.py\<close> and \<^verbatim>\<open>invoice_payment/wallet_service.py\<close>, the tenant wallet: debits and
    credits are exact, keyed, never overdraw, and the balance is the sum of the ledger over every run.
  \<^item> \<open>Jobs\<close>: \<^verbatim>\<open>execution/constants.py\<close>, \<^verbatim>\<open>execution/transition_guard.py\<close>, \<^verbatim>\<open>final_records/booking_job_sync.py\<close>, the
    status graph of a job, the guard every move passes and the status of the booking it mirrors.
  \<^item> \<open>Monetization\<close>: \<^verbatim>\<open>vertical_monetization/calculation_service.py\<close>, \<^verbatim>\<open>charge_service.py\<close>,
    \<^verbatim>\<open>trust_quality/provider_health.py\<close>, what the customer and the provider are charged, and bounds of both.
  \<^item> \<open>UsageCredits\<close>: \<^verbatim>\<open>usage_credits/service.py\<close>, \<^verbatim>\<open>execution/usage_credit_deduction.py\<close>,
    \<^verbatim>\<open>customer_charge_recovery.py\<close> and the team suspension of \<^verbatim>\<open>vertical_catalog/seat_enforcement.py\<close>: a job is charged
    once, at the event its policy names.
  \<^item> \<open>Quotes\<close>: \<^verbatim>\<open>quote_checklist/quote_service.py\<close>, versions, items, totals and the customer's decision.
  \<^item> \<open>Invoices\<close> and \<open>Payments\<close>: \<^verbatim>\<open>invoice_payment/invoice_service.py\<close>, \<^verbatim>\<open>payment_service.py\<close>,
    \<^verbatim>\<open>commission_service.py\<close>: the invoice of a job, its one payment, the commission taken from the wallet.
  \<^item> \<open>Inventory\<close>: \<^verbatim>\<open>inventory/service.py\<close>, stock balances against their ledger and the reservations of jobs.
  \<^item> \<open>Checklists\<close>: \<^verbatim>\<open>checklist_catalog/service.py\<close>, \<^verbatim>\<open>gate.py\<close>: versioned templates, the answers of a job and the gate
    that asks for them.
  \<^item> \<open>Slots\<close>, \<open>Availability\<close>, \<open>Assignments\<close>, \<open>Bookings\<close>: \<^verbatim>\<open>home_service_booking/provider_slot_service.py\<close>,
    \<^verbatim>\<open>home_service_assignment/\<close> (\<^verbatim>\<open>availability_resolver.py\<close>, \<^verbatim>\<open>service.py\<close>, \<^verbatim>\<open>provider_reschedule_service.py\<close>),
    \<^verbatim>\<open>weather/slots.py\<close>, \<^verbatim>\<open>final_records/creation_service.py\<close>: which slots are offered, when a technician can work, who
    visits and when, and how a draft becomes a booking and a job.
  \<^item> \<open>Execution\<close>: \<^verbatim>\<open>execution/home_service_service.py\<close>, the operations on a job once it is assigned; \<open>set_status\<close> is
    the only one that moves a status. It calls Jobs, Checklists, Monetization, UsageCredits, Quotes and Inventory.
  \<^item> \<open>Timeline\<close>: the operations of \<open>Execution\<close> as one step relation, and the properties of its runs that span
    components.
  \<^item> \<open>CustomerCredits\<close>: \<^verbatim>\<open>customer_credits/service.py\<close>, the service credits customers get as compensation, the settlement
    of a dispute, and the waterfall that draws credits on a booking or an invoice.
  \<^item> \<open>Sla\<close>: \<^verbatim>\<open>execution/sla_breach_service.py\<close> and the closing of a false arrival in \<^verbatim>\<open>arrival_verification.py\<close>, what a
    missed slot or a stalled stage costs the provider, the sweep, the settlement of a cancellation, waivers and suspensions.

  \<^bold>\<open>How the groups of lemmas are built.\<close> Each operation has a lemma that says what it changes on every branch
  (\<open>debit_wallet_cases\<close>, \<open>post_credit_cases\<close>, \<open>deduct_cases\<close>); a component that writes collects its operations in an
  inductive step relation (\<open>wallet_step\<close>, \<open>charge_step\<close>, \<open>credit_step\<close>, \<open>quote_step\<close>, \<open>invoice_step\<close>,
  \<open>billing_step\<close>, \<open>stock_step\<close>, \<open>chk_step\<close>, \<open>assign_step\<close>, \<open>booking_step\<close>, \<open>exec_step\<close>, \<open>remedy_step\<close>, \<open>capped_charge\<close>), many through a smaller
  relation of the effects a row can undergo (\<open>quote_effect\<close>, \<open>invoice_effect\<close>, \<open>stock_move\<close>, \<open>board_move\<close>,
  \<open>job_move\<close>); the invariants are proved for that relation, the locales lift them to runs, and the properties rest on
  the interpretations.

  \<^bold>\<open>Bounds and termination.\<close> No definition uses fuel. The \<^verbatim>\<open>while\<close> loop that cuts a working day into slots is a
  \<open>while_option\<close> (\<open>slots_loop\<close>); \<open>Slots.slots_loop_terminates\<close> shows that it always returns, with the slots of the
  recursive \<open>slot_walk\<close> (a measure on the time left), and bounds the number of its iterations. Every other loop runs over
  a list of rows.

  \<^bold>\<open>Parameters.\<close> What is not under \<^verbatim>\<open>src/\<close>, or only read from a request, is an argument: the database clock, the rate
  limiter and the catalogue checks of a confirmation, the outcome of the arrival code and GPS check, the settlement of a
  missed slot that \<open>cancel_job\<close> calls, the recomputation of a provider's health (\<open>refresh\<close>). A property that needs
  such an argument to behave names that as a hypothesis: \<open>penalty_only\<close> says that the settlement leaves statuses, events and
  stock alone, and \<open>Sla.settlement_is_penalty_only\<close> proves it of the settlement the code passes.

  \<^bold>\<open>Not modelled.\<close> Texts of messages, notifications and audit rows beyond those a property needs; random display
  numbers; the rounding the database applies when it stores a decimal in a \<^verbatim>\<open>Numeric(12, 2)\<close> column and the range of
  its 32-bit integers; the float a projection shows for a decimal; pagination and listings. Two requests that interleave
  inside one operation are not modelled: an operation is one step. Whole engines are left out for the reason the manifest
  gives each of them: other verticals (coaching, food, real estate, the legacy booking engine), gateways to outside
  services (messaging, payment, places, telephony, language models), administration of catalogue and settings rows the
  model takes as given, and read-only projections.
\<close>

end
